(* ===== verification/Idryx_Prelude.thy ===== *)
theory Idryx_Prelude
  imports Main "HOL-Library.Word" "HOL-Library.Char_ord" "HOL-Library.List_Lexorder"
    "HOL-Library.Sublist" "HOL-Library.Multiset"
begin

text \<open>
  Shared vocabulary of the development: machine integer synonyms, little-endian byte
  encodings of words, byte-addressed memory cells, the part of Go's
  \<^verbatim>\<open>strings\<close> and \<^verbatim>\<open>strconv\<close> packages the program calls, and the generic lemmas
  the component theories use. Go strings are byte strings; they are modelled as
  \<^typ>\<open>string\<close> and the case and whitespace functions cover ASCII.
\<close>

section \<open>Collections of rewrite rules\<close>

named_theorems layout \<open>sizes, alignments and offsets of C types\<close>
named_theorems gostr \<open>characteristic equations of the Go string functions\<close>

section \<open>Machine integers\<close>

type_synonym u8 = "8 word"
type_synonym u16 = "16 word"
type_synonym u32 = "32 word"
type_synonym u64 = "64 word"

text \<open>Little-endian bytes of a word and back. Both BPF targets of the sensor are little-endian.\<close>

fun le_bytes_nat :: "nat \<Rightarrow> nat \<Rightarrow> u8 list" where
  "le_bytes_nat 0 n = []"
| "le_bytes_nat (Suc k) n = of_nat (n mod 256) # le_bytes_nat k (n div 256)"

fun le_nat :: "u8 list \<Rightarrow> nat" where
  "le_nat [] = 0"
| "le_nat (b # bs) = unat b + 256 * le_nat bs"

definition le_bytes :: "nat \<Rightarrow> 'a::len word \<Rightarrow> u8 list" where
  "le_bytes k w = le_bytes_nat k (unat w)"

definition be_nat :: "u8 list \<Rightarrow> nat" where
  "be_nat bs = le_nat (rev bs)"

lemma length_le_bytes_nat [simp]: "length (le_bytes_nat k n) = k"
  by (induction k arbitrary: n) auto

lemma length_le_bytes [simp]: "length (le_bytes k w) = k"
  by (simp add: le_bytes_def)

lemma unat_len: "unat (w :: 'a::len word) < 2 ^ LENGTH('a)"
  by (rule unsigned_less)

lemma unat_byte: "unat (b :: u8) < 256"
  using unat_len [of b] by simp

lemma unat_of_nat_byte [simp]: "unat (of_nat (n mod 256) :: u8) = n mod 256"
  by (simp add: unat_of_nat take_bit_eq_mod)

lemma le_nat_le_bytes_nat: "le_nat (le_bytes_nat k n) = n mod 256 ^ k"
proof (induction k arbitrary: n)
  case 0
  then show ?case by simp
next
  case (Suc k)
  have "n mod (256 * 256 ^ k) = 256 * (n div 256 mod 256 ^ k) + n mod 256"
    by (rule mod_mult2_eq)
  with Suc show ?case by simp
qed

lemma le_nat_bound: "le_nat bs < 256 ^ length bs"
proof (induction bs)
  case Nil
  then show ?case by simp
next
  case (Cons b bs)
  have "unat b < 256" by (rule unat_byte)
  with Cons show ?case by simp
qed

lemma le_nat_le_bytes:
  fixes w :: "'a::len word"
  assumes "2 ^ LENGTH('a) \<le> (256::nat) ^ k"
  shows "le_nat (le_bytes k w) = unat w"
proof -
  have "unat w < 256 ^ k"
    using unat_len [of w] assms by linarith
  then show ?thesis
    by (simp add: le_bytes_def le_nat_le_bytes_nat)
qed

lemma le_nat_u64 [simp]: "le_nat (le_bytes 8 (w :: u64)) = unat w"
  by (rule le_nat_le_bytes) simp

lemma le_nat_u32 [simp]: "le_nat (le_bytes 4 (w :: u32)) = unat w"
  by (rule le_nat_le_bytes) simp

lemma le_nat_u16 [simp]: "le_nat (le_bytes 2 (w :: u16)) = unat w"
  by (rule le_nat_le_bytes) simp

lemma le_bytes_nat_le_nat: "le_bytes_nat (length bs) (le_nat bs) = bs"
proof (induction bs)
  case Nil
  then show ?case by simp
next
  case (Cons b bs)
  have b: "unat b < 256" by (rule unat_byte)
  then have "of_nat ((unat b + 256 * le_nat bs) mod 256) = b"
    by (simp add: mod_mult_right_eq)
  with Cons b show ?case by simp
qed

section \<open>Byte-addressed memory cells\<close>

text \<open>A write of a run of bytes at an offset of a fixed-size cell.\<close>

definition poke :: "nat \<Rightarrow> u8 list \<Rightarrow> u8 list \<Rightarrow> u8 list" where
  "poke off bs m = take off m @ bs @ drop (off + length bs) m"

definition peek :: "nat \<Rightarrow> nat \<Rightarrow> u8 list \<Rightarrow> u8 list" where
  "peek off n m = take n (drop off m)"

lemma drop_append_above: "length xs \<le> i \<Longrightarrow> drop i (xs @ ys) = drop (i - length xs) ys"
  by simp

lemma length_poke [simp]: "off + length bs \<le> length m \<Longrightarrow> length (poke off bs m) = length m"
  by (simp add: poke_def)

lemma length_peek [simp]: "off + n \<le> length m \<Longrightarrow> length (peek off n m) = n"
  by (simp add: peek_def)

lemma peek_poke_same: "off + length bs \<le> length m \<Longrightarrow> n = length bs \<Longrightarrow> peek off n (poke off bs m) = bs"
  by (simp add: poke_def peek_def)

lemma peek_poke_below:
  "i + n \<le> off \<Longrightarrow> off + length bs \<le> length m \<Longrightarrow> peek i n (poke off bs m) = peek i n m"
  by (simp add: poke_def peek_def take_drop min_def)

lemma peek_poke_above:
  "off + length bs \<le> i \<Longrightarrow> off + length bs \<le> length m \<Longrightarrow> peek i n (poke off bs m) = peek i n m"
  by (simp add: poke_def peek_def drop_append_above)

lemma peek_split: "peek off (n + k) m = peek off n m @ peek (off + n) k m"
  by (simp add: peek_def take_add add.commute [of off])

lemma peek_all: "length m = n \<Longrightarrow> peek 0 n m = m"
  by (simp add: peek_def)

text \<open>
  A cell seen as consecutive segments. A write that covers exactly one segment replaces it, so a
  sequence of field writes computes on the list of segments instead of on bytes.
\<close>

fun chop :: "nat list \<Rightarrow> 'a list \<Rightarrow> 'a list list" where
  "chop [] xs = []"
| "chop (n # ns) xs = take n xs # chop ns (drop n xs)"

lemma concat_chop: "sum_list ns = length xs \<Longrightarrow> concat (chop ns xs) = xs"
proof (induction ns arbitrary: xs)
  case Nil
  then show ?case by simp
next
  case (Cons n ns)
  then have "concat (chop ns (drop n xs)) = drop n xs" by simp
  then show ?case by simp
qed

lemma map_length_chop: "sum_list ns \<le> length xs \<Longrightarrow> map length (chop ns xs) = ns"
  by (induction ns arbitrary: xs) auto

lemma poke_concat:
  assumes "k < length segs" and "off = sum_list (map length (take k segs))"
    and "length bs = length (segs ! k)"
  shows "poke off bs (concat segs) = concat (segs[k := bs])"
proof -
  have segs: "segs = take k segs @ segs ! k # drop (Suc k) segs"
    using assms(1) by (simp add: id_take_nth_drop)
  have off: "off = length (concat (take k segs))"
    using assms(2) by (simp add: length_concat)
  have "concat segs = concat (take k segs) @ segs ! k @ concat (drop (Suc k) segs)"
    by (subst segs) simp
  then have "poke off bs (concat segs) = concat (take k segs) @ bs @ concat (drop (Suc k) segs)"
    using off assms(3) by (simp add: poke_def)
  also have "\<dots> = concat (segs[k := bs])"
    using assms(1) by (simp add: upd_conv_take_nth_drop)
  finally show ?thesis .
qed

lemma peek_concat:
  assumes "k < length segs" and "off = sum_list (map length (take k segs))"
    and "n = length (segs ! k)"
  shows "peek off n (concat segs) = segs ! k"
proof -
  have segs: "segs = take k segs @ segs ! k # drop (Suc k) segs"
    using assms(1) by (simp add: id_take_nth_drop)
  have off: "off = length (concat (take k segs))"
    using assms(2) by (simp add: length_concat)
  have "concat segs = concat (take k segs) @ segs ! k @ concat (drop (Suc k) segs)"
    by (subst segs) simp
  then show ?thesis
    using off assms(3) by (simp add: peek_def)
qed

end
