(* ===== verification/C_Layout.thy ===== *)
theory C_Layout
  imports Idryx_Prelude
begin

text \<open>
  The memory layout of C types on the two targets the sensor is compiled for (x86_64 and
  arm64, both LP64): sizes, alignments, field offsets, bit-fields and the trailing padding
  of a structure. A C declaration of \<^verbatim>\<open>bpf/connect.c\<close> or \<^verbatim>\<open>bpf/vmlinux.h\<close>
  becomes a value of \<open>ctype\<close>, and the offsets the program uses are computed from it.
  Positions are counted in bits because bit-fields share storage units.
\<close>

section \<open>Types\<close>

datatype ctype =
    CInt nat                 \<comment> \<open>integer, enum, bool or char of that many bytes\<close>
  | CPtr
  | CArr ctype nat
  | CStruct "cfield list"
  | CPacked "cfield list"    \<comment> \<open>\<^verbatim>\<open>__attribute__((packed))\<close>\<close>
  | CUnion "cfield list"
and cfield =
    Fld string ctype
  | Bitf string nat nat      \<comment> \<open>name, bytes of the declared type, width in bits\<close>

fun fname :: "cfield \<Rightarrow> string" where
  "fname (Fld nm t) = nm"
| "fname (Bitf nm u w) = nm"

definition align_up :: "nat \<Rightarrow> nat \<Rightarrow> nat" where
  "align_up x a = ((x + a - 1) div a) * a"

fun calign :: "ctype \<Rightarrow> nat" and falign :: "cfield \<Rightarrow> nat" and fsalign :: "cfield list \<Rightarrow> nat" where
  "calign (CInt n) = n"
| "calign CPtr = 8"
| "calign (CArr t n) = calign t"
| "calign (CStruct fs) = fsalign fs"
| "calign (CPacked fs) = 1"
| "calign (CUnion fs) = fsalign fs"
| "falign (Fld nm t) = calign t"
| "falign (Bitf nm u w) = (if nm = [] then 1 else u)"
| "fsalign [] = 1"
| "fsalign (f # fs) = max (falign f) (fsalign fs)"

text \<open>
  \<open>place pos f\<close> is where the next field goes when the previous ones end at bit \<open>pos\<close>: the
  first and one past the last bit. A bit-field stays in the current unit of its declared
  type when it fits and moves to the next one otherwise.
\<close>

definition place_bits :: "nat \<Rightarrow> nat \<Rightarrow> nat \<Rightarrow> nat \<times> nat" where
  "place_bits pos u w =
     (if w \<noteq> 0 \<and> pos div (8 * u) = (pos + w - 1) div (8 * u) then (pos, pos + w)
      else (align_up pos (8 * u), align_up pos (8 * u) + w))"

fun csize :: "ctype \<Rightarrow> nat"
  and place :: "nat \<Rightarrow> cfield \<Rightarrow> nat \<times> nat"
  and end_bit :: "nat \<Rightarrow> cfield list \<Rightarrow> nat"
  and packed_end :: "nat \<Rightarrow> cfield list \<Rightarrow> nat"
  and widest :: "cfield list \<Rightarrow> nat" where
  "csize (CInt n) = n"
| "csize CPtr = 8"
| "csize (CArr t n) = csize t * n"
| "csize (CStruct fs) = align_up (end_bit 0 fs) (8 * fsalign fs) div 8"
| "csize (CPacked fs) = align_up (packed_end 0 fs) 8 div 8"
| "csize (CUnion fs) = align_up (widest fs) (8 * fsalign fs) div 8"
| "place pos (Fld nm t) =
     (align_up pos (8 * calign t), align_up pos (8 * calign t) + 8 * csize t)"
| "place pos (Bitf nm u w) = place_bits pos u w"
| "end_bit pos [] = pos"
| "end_bit pos (f # fs) = end_bit (snd (place pos f)) fs"
| "packed_end pos [] = pos"
| "packed_end pos (Fld nm t # fs) = packed_end (align_up pos 8 + 8 * csize t) fs"
| "packed_end pos (Bitf nm u w # fs) = packed_end (pos + w) fs"
| "widest [] = 0"
| "widest (f # fs) = max (snd (place 0 f)) (widest fs)"

declare align_up_def [layout] place_bits_def [layout]

text \<open>The table of a structure's fields: name, first bit, one past the last bit.\<close>

fun offsets :: "nat \<Rightarrow> cfield list \<Rightarrow> (string \<times> nat \<times> nat) list" where
  "offsets pos [] = []"
| "offsets pos (f # fs) = (fname f, place pos f) # offsets (snd (place pos f)) fs"

fun fields_of :: "ctype \<Rightarrow> cfield list" where
  "fields_of (CStruct fs) = fs"
| "fields_of t = []"

text \<open>\<^verbatim>\<open>__builtin_offsetof\<close> and \<^verbatim>\<open>sizeof\<close> of a field of a plain structure.\<close>

definition offsetof :: "ctype \<Rightarrow> string \<Rightarrow> nat" where
  "offsetof t nm = (case map_of (offsets 0 (fields_of t)) nm of Some (s, e) \<Rightarrow> s div 8 | None \<Rightarrow> 0)"

definition sizeof_field :: "ctype \<Rightarrow> string \<Rightarrow> nat" where
  "sizeof_field t nm =
     (case map_of (offsets 0 (fields_of t)) nm of Some (s, e) \<Rightarrow> (e - s) div 8 | None \<Rightarrow> 0)"

definition field_window :: "ctype \<Rightarrow> string \<Rightarrow> nat \<times> nat" where
  "field_window t nm = (offsetof t nm, sizeof_field t nm)"

definition has_field :: "ctype \<Rightarrow> string \<Rightarrow> bool" where
  "has_field t nm \<longleftrightarrow> nm \<in> fname ` set (fields_of t)"

section \<open>Well-formed declarations\<close>

fun wf_ctype :: "ctype \<Rightarrow> bool" and wf_field :: "cfield \<Rightarrow> bool" and wf_fields :: "cfield list \<Rightarrow> bool" where
  "wf_ctype (CInt n) = (n \<in> {1, 2, 4, 8, 16})"
| "wf_ctype CPtr = True"
| "wf_ctype (CArr t n) = wf_ctype t"
| "wf_ctype (CStruct fs) = wf_fields fs"
| "wf_ctype (CPacked fs) = wf_fields fs"
| "wf_ctype (CUnion fs) = wf_fields fs"
| "wf_field (Fld nm t) = wf_ctype t"
| "wf_field (Bitf nm u w) = (u \<in> {1, 2, 4, 8} \<and> w \<le> 8 * u)"
| "wf_fields [] = True"
| "wf_fields (f # fs) = (wf_field f \<and> wf_fields fs)"

section \<open>The layout algorithm is sound\<close>

lemma align_up_ge: "0 < a \<Longrightarrow> x \<le> align_up x a"
proof -
  assume a: "0 < a"
  have "x + a - 1 = ((x + a - 1) div a) * a + (x + a - 1) mod a" by simp
  moreover have "(x + a - 1) mod a < a" using a by (rule mod_less_divisor)
  ultimately show ?thesis using a unfolding align_up_def by linarith
qed

lemma align_up_dvd [simp]: "a dvd align_up x a"
  by (simp add: align_up_def)

lemma align_up_less: "0 < a \<Longrightarrow> align_up x a < x + a"
proof -
  assume a: "0 < a"
  have "(x + a - 1) div a * a \<le> x + a - 1" by (rule div_times_less_eq_dividend)
  with a show ?thesis unfolding align_up_def by linarith
qed

lemma align_up_mono: "x \<le> y \<Longrightarrow> align_up x a \<le> align_up y a"
  by (simp add: align_up_def div_le_mono)

lemma calign_pos:
  "wf_ctype t \<Longrightarrow> 0 < calign t" "wf_field f \<Longrightarrow> 0 < falign f" "0 < fsalign fs"
  by (induction t and f and fs rule: calign_falign_fsalign.induct) auto

lemma place_ge: "wf_field f \<Longrightarrow> pos \<le> fst (place pos f) \<and> fst (place pos f) \<le> snd (place pos f)"
  by (cases f) (auto simp: calign_pos place_bits_def intro: align_up_ge)

lemma end_bit_ge: "wf_fields fs \<Longrightarrow> pos \<le> end_bit pos fs"
proof (induction fs arbitrary: pos)
  case Nil
  then show ?case by simp
next
  case (Cons f fs)
  then have "pos \<le> snd (place pos f)" using place_ge [of f pos] by simp
  also have "\<dots> \<le> end_bit (snd (place pos f)) fs" using Cons by simp
  finally show ?case by simp
qed

lemma offsets_bounds:
  "wf_fields fs \<Longrightarrow> (nm, s, e) \<in> set (offsets pos fs) \<Longrightarrow> pos \<le> s \<and> s \<le> e \<and> e \<le> end_bit pos fs"
proof (induction fs arbitrary: pos)
  case Nil
  then show ?case by simp
next
  case (Cons f fs)
  have pl: "pos \<le> fst (place pos f)" "fst (place pos f) \<le> snd (place pos f)"
    using place_ge [of f pos] Cons.prems by auto
  show ?case
  proof (cases "(nm, s, e) \<in> set (offsets (snd (place pos f)) fs)")
    case True
    with Cons.IH [of "snd (place pos f)"] Cons.prems pl show ?thesis by auto
  next
    case False
    with Cons.prems have "(s, e) = place pos f" by auto
    with pl end_bit_ge [of fs "snd (place pos f)"] Cons.prems show ?thesis
      by (auto simp: prod_eq_iff)
  qed
qed

text \<open>The fields of a structure never overlap: each ends where or before the next begins.\<close>

lemma offsets_disjoint:
  "wf_fields fs \<Longrightarrow> sorted_wrt (\<lambda>(n, s, e) (n', s', e'). e \<le> s') (offsets pos fs)"
proof (induction fs arbitrary: pos)
  case Nil
  then show ?case by simp
next
  case (Cons f fs)
  then show ?case
    using offsets_bounds [of fs _ _ _ "snd (place pos f)"]
    by (auto simp: prod_eq_iff split: prod.splits)
qed

lemma csize_covers: "wf_fields fs \<Longrightarrow> end_bit 0 fs \<le> 8 * csize (CStruct fs)"
proof -
  have "0 < 8 * fsalign fs" using calign_pos(3) by simp
  then have "end_bit 0 fs \<le> align_up (end_bit 0 fs) (8 * fsalign fs)" by (rule align_up_ge)
  also have "\<dots> = 8 * csize (CStruct fs)"
    by (simp add: dvd_mult_div_cancel [OF dvd_trans [OF dvd_triv_left align_up_dvd]])
  finally show ?thesis .
qed

lemma csize_struct_dvd: "calign (CStruct fs) dvd csize (CStruct fs)"
proof -
  obtain k where "align_up (end_bit 0 fs) (8 * fsalign fs) = 8 * fsalign fs * k"
    using align_up_dvd dvdE by blast
  then show ?thesis by (simp add: mult.assoc)
qed

lemma div8_dvd: "8 * a dvd n \<Longrightarrow> a dvd n div 8" for a n :: nat
  by (auto elim!: dvdE simp: mult.assoc)

text \<open>An array of any type keeps its elements aligned.\<close>

lemma calign_dvd_csize:
  fixes t :: ctype and f :: cfield
  shows "calign t dvd csize t" and "True"
  by (induction t and f rule: ctype.induct cfield.induct) (simp_all add: div8_dvd)

text \<open>The size of a field is the size of its type, wherever it lies.\<close>

lemma find_named:
  "find (\<lambda>f. fname f = nm) [] = None"
  "find (\<lambda>f. fname f = nm) (Fld nm' t # fs) =
     (if nm' = nm then Some (Fld nm' t) else find (\<lambda>f. fname f = nm) fs)"
  "find (\<lambda>f. fname f = nm) (Bitf nm' u w # fs) =
     (if nm' = nm then Some (Bitf nm' u w) else find (\<lambda>f. fname f = nm) fs)"
  by auto

lemma offsets_find:
  "find (\<lambda>f. fname f = nm) fs = Some (Fld nm t) \<Longrightarrow>
   \<exists>s. map_of (offsets pos fs) nm = Some (s, s + 8 * csize t)"
  by (induction fs arbitrary: pos) (auto split: if_splits)

lemma sizeof_field_find:
  "find (\<lambda>f. fname f = nm) (fields_of t) = Some (Fld nm u) \<Longrightarrow> sizeof_field t nm = csize u"
  using offsets_find [of nm "fields_of t" u 0] by (auto simp: sizeof_field_def)

text \<open>Every plain field starts at a multiple of its own alignment.\<close>

lemma offsets_aligned:
  "Fld nm t \<in> set fs \<Longrightarrow> \<exists>s e. (nm, s, e) \<in> set (offsets pos fs) \<and> 8 * calign t dvd s \<and> e = s + 8 * csize t"
proof (induction fs arbitrary: pos)
  case Nil
  then show ?case by simp
next
  case (Cons f fs)
  show ?case
  proof (cases "f = Fld nm t")
    case True
    then show ?thesis by (intro exI [of _ "fst (place pos f)"] exI [of _ "snd (place pos f)"]) simp
  next
    case False
    with Cons.prems have "Fld nm t \<in> set fs" by auto
    from Cons.IH [OF this] show ?thesis by fastforce
  qed
qed

end
