(* ===== verification/Connect_Wire.thy ===== *)
theory Connect_Wire
  imports C_Layout
begin

text \<open>
  The data of \<^verbatim>\<open>internal/ebpfcapture/bpf/connect.c\<close>: the wire record it puts on the ring
  buffer, the counters of its array map, the address mirrors it reads and its constants. The
  structures are values of \<open>ctype\<close>, and every offset the program uses is computed from them by
  the layout algorithm of \<open>C_Layout\<close>; the facts in the collection \<open>layout\<close> are those computations.
\<close>

section \<open>Integer types and structures\<close>

definition c_u8 :: ctype where "c_u8 = CInt 1"
definition c_u16 :: ctype where "c_u16 = CInt 2"
definition c_u32 :: ctype where "c_u32 = CInt 4"
definition c_u64 :: ctype where "c_u64 = CInt 8"
definition c_char :: ctype where "c_char = CInt 1"

lemmas c_ints = c_u8_def c_u16_def c_u32_def c_u64_def c_char_def

definition conn_event_t :: ctype where
  "conn_event_t = CStruct
     [Fld ''cgroup_id'' c_u64,
      Fld ''ktime_ns'' c_u64,
      Fld ''pid'' c_u32,
      Fld ''dport'' (CArr c_u8 2),
      Fld ''family'' c_u8,
      Fld ''_pad0'' c_u8,
      Fld ''daddr'' (CArr c_u8 16),
      Fld ''comm'' (CArr c_char 16),
      Fld ''ns_tgid'' c_u32,
      Fld ''_pad1'' c_u32]"

definition skipped_counts_t :: ctype where
  "skipped_counts_t = CStruct
     [Fld ''other_family'' c_u64,
      Fld ''unreadable'' c_u64,
      Fld ''ringbuf_full'' c_u64,
      Fld ''too_short'' c_u64]"

definition sockaddr_in_local_t :: ctype where
  "sockaddr_in_local_t = CStruct
     [Fld ''sin_family'' c_u16,
      Fld ''sin_port'' (CArr c_u8 2),
      Fld ''sin_addr'' (CArr c_u8 4)]"

definition sockaddr_in6_local_t :: ctype where
  "sockaddr_in6_local_t = CStruct
     [Fld ''sin6_family'' c_u16,
      Fld ''sin6_port'' (CArr c_u8 2),
      Fld ''sin6_flowinfo'' c_u32,
      Fld ''sin6_addr'' (CArr c_u8 16),
      Fld ''sin6_scope_id'' c_u32]"

text \<open>The register frame the arm64 build reads the kprobe's arguments from.\<close>

definition user_pt_regs_t :: ctype where
  "user_pt_regs_t = CStruct
     [Fld ''regs'' (CArr c_u64 31),
      Fld ''sp'' c_u64,
      Fld ''pc'' c_u64,
      Fld ''pstate'' c_u64]"

definition SOCKADDR_IN_MIN :: int where "SOCKADDR_IN_MIN = 16"
definition SOCKADDR_IN6_MIN :: int where "SOCKADDR_IN6_MIN = 28"
definition AF_INET :: u16 where "AF_INET = 2"
definition AF_INET6 :: u16 where "AF_INET6 = 10"

section \<open>Their layout\<close>

lemmas layout_eval = offsetof_def sizeof_field_def align_up_def place_bits_def c_ints

lemma conn_event_size [layout]: "csize conn_event_t = 64"
  by (simp add: conn_event_t_def layout_eval)

lemma conn_event_offsets [layout]:
  "offsetof conn_event_t ''cgroup_id'' = 0"
  "offsetof conn_event_t ''ktime_ns'' = 8"
  "offsetof conn_event_t ''pid'' = 16"
  "offsetof conn_event_t ''dport'' = 20"
  "offsetof conn_event_t ''family'' = 22"
  "offsetof conn_event_t ''_pad0'' = 23"
  "offsetof conn_event_t ''daddr'' = 24"
  "offsetof conn_event_t ''comm'' = 40"
  "offsetof conn_event_t ''ns_tgid'' = 56"
  "offsetof conn_event_t ''_pad1'' = 60"
  by (simp_all add: conn_event_t_def layout_eval)

lemma conn_event_field_sizes [layout]:
  "sizeof_field conn_event_t ''dport'' = 2"
  "sizeof_field conn_event_t ''daddr'' = 16"
  "sizeof_field conn_event_t ''comm'' = 16"
  by (simp_all add: conn_event_t_def layout_eval)

lemma skipped_counts_layout [layout]:
  "csize skipped_counts_t = 32"
  "offsetof skipped_counts_t ''other_family'' = 0"
  "offsetof skipped_counts_t ''unreadable'' = 8"
  "offsetof skipped_counts_t ''ringbuf_full'' = 16"
  "offsetof skipped_counts_t ''too_short'' = 24"
  by (simp_all add: skipped_counts_t_def layout_eval)

lemma sockaddr_in_local_layout [layout]:
  "csize sockaddr_in_local_t = 8"
  "offsetof sockaddr_in_local_t ''sin_port'' = 2"
  "offsetof sockaddr_in_local_t ''sin_addr'' = 4"
  "sizeof_field sockaddr_in_local_t ''sin_port'' = 2"
  "sizeof_field sockaddr_in_local_t ''sin_addr'' = 4"
  by (simp_all add: sockaddr_in_local_t_def layout_eval)

lemma sockaddr_in6_local_layout [layout]:
  "csize sockaddr_in6_local_t = 28"
  "offsetof sockaddr_in6_local_t ''sin6_port'' = 2"
  "offsetof sockaddr_in6_local_t ''sin6_addr'' = 8"
  "sizeof_field sockaddr_in6_local_t ''sin6_port'' = 2"
  "sizeof_field sockaddr_in6_local_t ''sin6_addr'' = 16"
  by (simp_all add: sockaddr_in6_local_t_def layout_eval)

section \<open>The wire record as a value\<close>

record conn_event =
  ev_cgroup_id :: u64
  ev_ktime_ns :: u64
  ev_pid :: u32
  ev_dport :: "u8 list"
  ev_family :: u8
  ev_pad0 :: u8
  ev_daddr :: "u8 list"
  ev_comm :: "u8 list"
  ev_ns_tgid :: u32
  ev_pad1 :: u32

definition wf_conn_event :: "conn_event \<Rightarrow> bool" where
  "wf_conn_event ev \<longleftrightarrow>
     length (ev_dport ev) = 2 \<and> length (ev_daddr ev) = 16 \<and> length (ev_comm ev) = 16"

text \<open>Its bytes, one segment per field, in declaration order.\<close>

definition conn_event_segments :: "conn_event \<Rightarrow> u8 list list" where
  "conn_event_segments ev =
     [le_bytes 8 (ev_cgroup_id ev), le_bytes 8 (ev_ktime_ns ev), le_bytes 4 (ev_pid ev),
      ev_dport ev, [ev_family ev], [ev_pad0 ev], ev_daddr ev, ev_comm ev,
      le_bytes 4 (ev_ns_tgid ev), le_bytes 4 (ev_pad1 ev)]"

definition encode_conn_event :: "conn_event \<Rightarrow> u8 list" where
  "encode_conn_event ev = concat (conn_event_segments ev)"

lemma length_encode_conn_event: "wf_conn_event ev \<Longrightarrow> length (encode_conn_event ev) = 64"
  by (simp add: encode_conn_event_def conn_event_segments_def wf_conn_event_def)

section \<open>The counters\<close>

datatype reason = Other_family | Unreadable | Ringbuf_full | Too_short

record skipped_counts =
  sc_other_family :: u64
  sc_unreadable :: u64
  sc_ringbuf_full :: u64
  sc_too_short :: u64

text \<open>The argument \<^verbatim>\<open>BUMP\<close> passes: the byte offset of the counter in the structure.\<close>

fun reason_offset :: "reason \<Rightarrow> nat" where
  "reason_offset Other_family = offsetof skipped_counts_t ''other_family''"
| "reason_offset Unreadable = offsetof skipped_counts_t ''unreadable''"
| "reason_offset Ringbuf_full = offsetof skipped_counts_t ''ringbuf_full''"
| "reason_offset Too_short = offsetof skipped_counts_t ''too_short''"

definition u64_at :: "nat \<Rightarrow> u8 list \<Rightarrow> u64" where
  "u64_at off m = of_nat (le_nat (peek off 8 m))"

text \<open>The counters held in a map value's bytes.\<close>

definition counters_of :: "u8 list \<Rightarrow> skipped_counts" where
  "counters_of m =
     \<lparr>sc_other_family = u64_at (reason_offset Other_family) m,
      sc_unreadable = u64_at (reason_offset Unreadable) m,
      sc_ringbuf_full = u64_at (reason_offset Ringbuf_full) m,
      sc_too_short = u64_at (reason_offset Too_short) m\<rparr>"

definition counter :: "reason \<Rightarrow> u8 list \<Rightarrow> u64" where
  "counter r m = u64_at (reason_offset r) m"

lemma u64_at_poke_same [simp]:
  "off + 8 \<le> length m \<Longrightarrow> u64_at off (poke off (le_bytes 8 (w :: u64)) m) = w"
  by (simp add: u64_at_def peek_poke_same)

lemma u64_at_poke_other:
  "off' + 8 \<le> off \<or> off + 8 \<le> off' \<Longrightarrow> off + 8 \<le> length m
    \<Longrightarrow> u64_at off' (poke off (le_bytes 8 (w :: u64)) m) = u64_at off' m"
  by (auto simp: u64_at_def peek_poke_below peek_poke_above)

lemma reason_offset_bound: "reason_offset r + 8 \<le> 32"
  by (cases r) (simp_all add: layout)

lemma reason_offset_apart:
  "r \<noteq> r' \<Longrightarrow> reason_offset r' + 8 \<le> reason_offset r \<or> reason_offset r + 8 \<le> reason_offset r'"
  by (cases r; cases r') (simp_all add: layout)

end
