(* ===== verification/Vmlinux_Net.thy ===== *)
theory Vmlinux_Net
  imports C_Layout
begin

text \<open>
  Declarations of \<^verbatim>\<open>internal/ebpfcapture/bpf/vmlinux.h\<close> for sockets and addresses: the address structures a connection carries, \<open>struct socket\<close>, \<open>struct sock\<close> and the protocol sockets behind it, and the register frame a kprobe is handed,
  with everything they contain by value. A structure is \<open>s_\<close>, a union \<open>u_\<close>, a typedef \<open>t_\<close> and an enumeration
  \<open>e_\<close> followed by its C name; pointers are opaque (\<open>CPtr\<close>), an enumeration used as a field is the integer it is
  stored in. Each declaration is followed by its size, alignment and well-formedness.
\<close>

definition t___u64 :: ctype where
  "t___u64 = CInt 8"

lemma t___u64_layout [layout]: "csize t___u64 = 8" "calign t___u64 = 8" "wf_ctype t___u64"
  by (simp_all add: t___u64_def layout)

definition t_u64 :: ctype where
  "t_u64 = t___u64"

lemma t_u64_layout [layout]: "csize t_u64 = 8" "calign t_u64 = 8" "wf_ctype t_u64"
  by (simp_all add: t_u64_def layout)

definition t___u32 :: ctype where
  "t___u32 = CInt 4"

lemma t___u32_layout [layout]: "csize t___u32 = 4" "calign t___u32 = 4" "wf_ctype t___u32"
  by (simp_all add: t___u32_def layout)

definition t_u32 :: ctype where
  "t_u32 = t___u32"

lemma t_u32_layout [layout]: "csize t_u32 = 4" "calign t_u32 = 4" "wf_ctype t_u32"
  by (simp_all add: t_u32_def layout)

definition t___u16 :: ctype where
  "t___u16 = CInt 2"

lemma t___u16_layout [layout]: "csize t___u16 = 2" "calign t___u16 = 2" "wf_ctype t___u16"
  by (simp_all add: t___u16_def layout)

definition t_u16 :: ctype where
  "t_u16 = t___u16"

lemma t_u16_layout [layout]: "csize t_u16 = 2" "calign t_u16 = 2" "wf_ctype t_u16"
  by (simp_all add: t_u16_def layout)

definition t___u8 :: ctype where
  "t___u8 = CInt 1"

lemma t___u8_layout [layout]: "csize t___u8 = 1" "calign t___u8 = 1" "wf_ctype t___u8"
  by (simp_all add: t___u8_def layout)

definition t_u8 :: ctype where
  "t_u8 = t___u8"

lemma t_u8_layout [layout]: "csize t_u8 = 1" "calign t_u8 = 1" "wf_ctype t_u8"
  by (simp_all add: t_u8_def layout)

definition t___kernel_sa_family_t :: ctype where
  "t___kernel_sa_family_t = CInt 2"

lemma t___kernel_sa_family_t_layout [layout]: "csize t___kernel_sa_family_t = 2" "calign t___kernel_sa_family_t = 2" "wf_ctype t___kernel_sa_family_t"
  by (simp_all add: t___kernel_sa_family_t_def layout)

definition t_sa_family_t :: ctype where
  "t_sa_family_t = t___kernel_sa_family_t"

lemma t_sa_family_t_layout [layout]: "csize t_sa_family_t = 2" "calign t_sa_family_t = 2" "wf_ctype t_sa_family_t"
  by (simp_all add: t_sa_family_t_def layout)

definition s_sockaddr :: ctype where
  "s_sockaddr = CStruct
     [Fld ''sa_family'' t_sa_family_t,
      Fld ''sa_data'' (CArr (CInt 1) 14)]"

lemma s_sockaddr_layout [layout]: "csize s_sockaddr = 16" "calign s_sockaddr = 2" "wf_ctype s_sockaddr"
  by (simp_all add: s_sockaddr_def layout)

definition t___be16 :: ctype where
  "t___be16 = t___u16"

lemma t___be16_layout [layout]: "csize t___be16 = 2" "calign t___be16 = 2" "wf_ctype t___be16"
  by (simp_all add: t___be16_def layout)

definition t___be32 :: ctype where
  "t___be32 = t___u32"

lemma t___be32_layout [layout]: "csize t___be32 = 4" "calign t___be32 = 4" "wf_ctype t___be32"
  by (simp_all add: t___be32_def layout)

definition s_in_addr :: ctype where
  "s_in_addr = CStruct
     [Fld ''s_addr'' t___be32]"

lemma s_in_addr_layout [layout]: "csize s_in_addr = 4" "calign s_in_addr = 4" "wf_ctype s_in_addr"
  by (simp_all add: s_in_addr_def layout)

definition s_sockaddr_in :: ctype where
  "s_sockaddr_in = CStruct
     [Fld ''sin_family'' t___kernel_sa_family_t,
      Fld ''sin_port'' t___be16,
      Fld ''sin_addr'' s_in_addr,
      Fld ''__pad'' (CArr (CInt 1) 8)]"

lemma s_sockaddr_in_layout [layout]: "csize s_sockaddr_in = 16" "calign s_sockaddr_in = 4" "wf_ctype s_sockaddr_in"
  by (simp_all add: s_sockaddr_in_def layout)

definition s_in6_addr :: ctype where
  "s_in6_addr = CStruct
     [Fld ''in6_u'' (CUnion
        [Fld ''u6_addr8'' (CArr t___u8 16),
         Fld ''u6_addr16'' (CArr t___be16 8),
         Fld ''u6_addr32'' (CArr t___be32 4)])]"

lemma s_in6_addr_layout [layout]: "csize s_in6_addr = 16" "calign s_in6_addr = 4" "wf_ctype s_in6_addr"
  by (simp_all add: s_in6_addr_def layout)

definition s_sockaddr_in6 :: ctype where
  "s_sockaddr_in6 = CStruct
     [Fld ''sin6_family'' (CInt 2),
      Fld ''sin6_port'' t___be16,
      Fld ''sin6_flowinfo'' t___be32,
      Fld ''sin6_addr'' s_in6_addr,
      Fld ''sin6_scope_id'' t___u32]"

lemma s_sockaddr_in6_layout [layout]: "csize s_sockaddr_in6 = 28" "calign s_sockaddr_in6 = 4" "wf_ctype s_sockaddr_in6"
  by (simp_all add: s_sockaddr_in6_def layout)

definition s___kernel_sockaddr_storage :: ctype where
  "s___kernel_sockaddr_storage = CStruct
     [Fld '''' (CUnion
        [Fld '''' (CStruct
           [Fld ''ss_family'' t___kernel_sa_family_t,
            Fld ''__data'' (CArr (CInt 1) 126)]),
         Fld ''__align'' CPtr])]"

lemma s___kernel_sockaddr_storage_layout [layout]: "csize s___kernel_sockaddr_storage = 128" "calign s___kernel_sockaddr_storage = 8" "wf_ctype s___kernel_sockaddr_storage"
  by (simp_all add: s___kernel_sockaddr_storage_def layout)

definition s_sockaddr_un :: ctype where
  "s_sockaddr_un = CStruct
     [Fld ''sun_family'' t___kernel_sa_family_t,
      Fld ''sun_path'' (CArr (CInt 1) 108)]"

lemma s_sockaddr_un_layout [layout]: "csize s_sockaddr_un = 110" "calign s_sockaddr_un = 2" "wf_ctype s_sockaddr_un"
  by (simp_all add: s_sockaddr_un_def layout)

definition s_sockaddr_nl :: ctype where
  "s_sockaddr_nl = CStruct
     [Fld ''nl_family'' t___kernel_sa_family_t,
      Fld ''nl_pad'' (CInt 2),
      Fld ''nl_pid'' t___u32,
      Fld ''nl_groups'' t___u32]"

lemma s_sockaddr_nl_layout [layout]: "csize s_sockaddr_nl = 12" "calign s_sockaddr_nl = 4" "wf_ctype s_sockaddr_nl"
  by (simp_all add: s_sockaddr_nl_def layout)

definition s_fred_cs :: ctype where
  "s_fred_cs = CStruct
     [Bitf ''cs'' 8 16,
      Bitf ''sl'' 8 2,
      Bitf ''wfe'' 8 1]"

lemma s_fred_cs_layout [layout]: "csize s_fred_cs = 8" "calign s_fred_cs = 8" "wf_ctype s_fred_cs"
  by (simp_all add: s_fred_cs_def layout)

definition s_fred_ss :: ctype where
  "s_fred_ss = CStruct
     [Bitf ''ss'' 8 16,
      Bitf ''sti'' 8 1,
      Bitf ''swevent'' 8 1,
      Bitf ''nmi'' 8 1,
      Bitf '''' 4 13,
      Bitf ''vector'' 8 8,
      Bitf '''' 2 8,
      Bitf ''type'' 8 4,
      Bitf '''' 1 4,
      Bitf ''enclave'' 8 1,
      Bitf ''l'' 8 1,
      Bitf ''nested'' 8 1,
      Bitf '''' 1 1,
      Bitf ''insnlen'' 8 4]"

lemma s_fred_ss_layout [layout]: "csize s_fred_ss = 8" "calign s_fred_ss = 8" "wf_ctype s_fred_ss"
  by (simp_all add: s_fred_ss_def layout)

definition s_pt_regs :: ctype where
  "s_pt_regs = CStruct
     [Fld ''r15'' (CInt 8),
      Fld ''r14'' (CInt 8),
      Fld ''r13'' (CInt 8),
      Fld ''r12'' (CInt 8),
      Fld ''bp'' (CInt 8),
      Fld ''bx'' (CInt 8),
      Fld ''r11'' (CInt 8),
      Fld ''r10'' (CInt 8),
      Fld ''r9'' (CInt 8),
      Fld ''r8'' (CInt 8),
      Fld ''ax'' (CInt 8),
      Fld ''cx'' (CInt 8),
      Fld ''dx'' (CInt 8),
      Fld ''si'' (CInt 8),
      Fld ''di'' (CInt 8),
      Fld ''orig_ax'' (CInt 8),
      Fld ''ip'' (CInt 8),
      Fld '''' (CUnion
        [Fld ''cs'' t_u16,
         Fld ''csx'' t_u64,
         Fld ''fred_cs'' s_fred_cs]),
      Fld ''flags'' (CInt 8),
      Fld ''sp'' (CInt 8),
      Fld '''' (CUnion
        [Fld ''ss'' t_u16,
         Fld ''ssx'' t_u64,
         Fld ''fred_ss'' s_fred_ss])]"

lemma s_pt_regs_layout [layout]: "csize s_pt_regs = 168" "calign s_pt_regs = 8" "wf_ctype s_pt_regs"
  by (simp_all add: s_pt_regs_def layout)

definition s_proto_ops :: ctype where
  "s_proto_ops = CStruct
     [Fld ''family'' (CInt 4),
      Fld ''owner'' CPtr,
      Fld ''release'' CPtr,
      Fld ''bind'' CPtr,
      Fld ''connect'' CPtr,
      Fld ''socketpair'' CPtr,
      Fld ''accept'' CPtr,
      Fld ''getname'' CPtr,
      Fld ''poll'' CPtr,
      Fld ''ioctl'' CPtr,
      Fld ''compat_ioctl'' CPtr,
      Fld ''gettstamp'' CPtr,
      Fld ''listen'' CPtr,
      Fld ''shutdown'' CPtr,
      Fld ''setsockopt'' CPtr,
      Fld ''getsockopt'' CPtr,
      Fld ''show_fdinfo'' CPtr,
      Fld ''sendmsg'' CPtr,
      Fld ''recvmsg'' CPtr,
      Fld ''mmap'' CPtr,
      Fld ''splice_read'' CPtr,
      Fld ''splice_eof'' CPtr,
      Fld ''set_peek_off'' CPtr,
      Fld ''peek_len'' CPtr,
      Fld ''read_sock'' CPtr,
      Fld ''read_skb'' CPtr,
      Fld ''sendmsg_locked'' CPtr,
      Fld ''set_rcvlowat'' CPtr]"

lemma s_proto_ops_layout [layout]: "csize s_proto_ops = 224" "calign s_proto_ops = 8" "wf_ctype s_proto_ops"
  by (simp_all add: s_proto_ops_def layout)

definition t_socket_state :: ctype where
  "t_socket_state = CInt 4"

lemma t_socket_state_layout [layout]: "csize t_socket_state = 4" "calign t_socket_state = 4" "wf_ctype t_socket_state"
  by (simp_all add: t_socket_state_def layout)

definition t_atomic_t :: ctype where
  "t_atomic_t = CStruct
     [Fld ''counter'' (CInt 4)]"

lemma t_atomic_t_layout [layout]: "csize t_atomic_t = 4" "calign t_atomic_t = 4" "wf_ctype t_atomic_t"
  by (simp_all add: t_atomic_t_def layout)

definition s_qspinlock :: ctype where
  "s_qspinlock = CStruct
     [Fld '''' (CUnion
        [Fld ''val'' t_atomic_t,
         Fld '''' (CStruct
           [Fld ''locked'' t_u8,
            Fld ''pending'' t_u8]),
         Fld '''' (CStruct
           [Fld ''locked_pending'' t_u16,
            Fld ''tail'' t_u16])])]"

lemma s_qspinlock_layout [layout]: "csize s_qspinlock = 4" "calign s_qspinlock = 4" "wf_ctype s_qspinlock"
  by (simp_all add: s_qspinlock_def layout)

definition t_arch_spinlock_t :: ctype where
  "t_arch_spinlock_t = s_qspinlock"

lemma t_arch_spinlock_t_layout [layout]: "csize t_arch_spinlock_t = 4" "calign t_arch_spinlock_t = 4" "wf_ctype t_arch_spinlock_t"
  by (simp_all add: t_arch_spinlock_t_def layout)

definition s_raw_spinlock :: ctype where
  "s_raw_spinlock = CStruct
     [Fld ''raw_lock'' t_arch_spinlock_t]"

lemma s_raw_spinlock_layout [layout]: "csize s_raw_spinlock = 4" "calign s_raw_spinlock = 4" "wf_ctype s_raw_spinlock"
  by (simp_all add: s_raw_spinlock_def layout)

definition s_spinlock :: ctype where
  "s_spinlock = CStruct
     [Fld '''' (CUnion
        [Fld ''rlock'' s_raw_spinlock])]"

lemma s_spinlock_layout [layout]: "csize s_spinlock = 4" "calign s_spinlock = 4" "wf_ctype s_spinlock"
  by (simp_all add: s_spinlock_def layout)

definition t_spinlock_t :: ctype where
  "t_spinlock_t = s_spinlock"

lemma t_spinlock_t_layout [layout]: "csize t_spinlock_t = 4" "calign t_spinlock_t = 4" "wf_ctype t_spinlock_t"
  by (simp_all add: t_spinlock_t_def layout)

definition s_list_head :: ctype where
  "s_list_head = CStruct
     [Fld ''next'' CPtr,
      Fld ''prev'' CPtr]"

lemma s_list_head_layout [layout]: "csize s_list_head = 16" "calign s_list_head = 8" "wf_ctype s_list_head"
  by (simp_all add: s_list_head_def layout)

definition s_wait_queue_head :: ctype where
  "s_wait_queue_head = CStruct
     [Fld ''lock'' t_spinlock_t,
      Fld ''head'' s_list_head]"

lemma s_wait_queue_head_layout [layout]: "csize s_wait_queue_head = 24" "calign s_wait_queue_head = 8" "wf_ctype s_wait_queue_head"
  by (simp_all add: s_wait_queue_head_def layout)

definition t_wait_queue_head_t :: ctype where
  "t_wait_queue_head_t = s_wait_queue_head"

lemma t_wait_queue_head_t_layout [layout]: "csize t_wait_queue_head_t = 24" "calign t_wait_queue_head_t = 8" "wf_ctype t_wait_queue_head_t"
  by (simp_all add: t_wait_queue_head_t_def layout)

definition s_callback_head :: ctype where
  "s_callback_head = CStruct
     [Fld ''next'' CPtr,
      Fld ''func'' CPtr]"

lemma s_callback_head_layout [layout]: "csize s_callback_head = 16" "calign s_callback_head = 8" "wf_ctype s_callback_head"
  by (simp_all add: s_callback_head_def layout)

definition s_socket_wq :: ctype where
  "s_socket_wq = CStruct
     [Fld ''wait'' t_wait_queue_head_t,
      Fld ''fasync_list'' CPtr,
      Fld ''flags'' (CInt 8),
      Fld ''rcu'' s_callback_head,
      Bitf '''' 8 64]"

lemma s_socket_wq_layout [layout]: "csize s_socket_wq = 64" "calign s_socket_wq = 8" "wf_ctype s_socket_wq"
  by (simp_all add: s_socket_wq_def layout)

definition s_socket :: ctype where
  "s_socket = CStruct
     [Fld ''state'' t_socket_state,
      Fld ''type'' (CInt 2),
      Fld ''flags'' (CInt 8),
      Fld ''file'' CPtr,
      Fld ''sk'' CPtr,
      Fld ''ops'' CPtr,
      Bitf '''' 8 64,
      Bitf '''' 8 64,
      Bitf '''' 8 64,
      Fld ''wq'' s_socket_wq]"

lemma s_socket_layout [layout]: "csize s_socket = 128" "calign s_socket = 8" "wf_ctype s_socket"
  by (simp_all add: s_socket_def layout)

definition t___addrpair :: ctype where
  "t___addrpair = t___u64"

lemma t___addrpair_layout [layout]: "csize t___addrpair = 8" "calign t___addrpair = 8" "wf_ctype t___addrpair"
  by (simp_all add: t___addrpair_def layout)

definition t___portpair :: ctype where
  "t___portpair = t___u32"

lemma t___portpair_layout [layout]: "csize t___portpair = 4" "calign t___portpair = 4" "wf_ctype t___portpair"
  by (simp_all add: t___portpair_def layout)

definition s_hlist_node :: ctype where
  "s_hlist_node = CStruct
     [Fld ''next'' CPtr,
      Fld ''pprev'' CPtr]"

lemma s_hlist_node_layout [layout]: "csize s_hlist_node = 16" "calign s_hlist_node = 8" "wf_ctype s_hlist_node"
  by (simp_all add: s_hlist_node_def layout)

definition t_possible_net_t :: ctype where
  "t_possible_net_t = CStruct
     [Fld ''net'' CPtr]"

lemma t_possible_net_t_layout [layout]: "csize t_possible_net_t = 8" "calign t_possible_net_t = 8" "wf_ctype t_possible_net_t"
  by (simp_all add: t_possible_net_t_def layout)

definition t___s64 :: ctype where
  "t___s64 = CInt 8"

lemma t___s64_layout [layout]: "csize t___s64 = 8" "calign t___s64 = 8" "wf_ctype t___s64"
  by (simp_all add: t___s64_def layout)

definition t_s64 :: ctype where
  "t_s64 = t___s64"

lemma t_s64_layout [layout]: "csize t_s64 = 8" "calign t_s64 = 8" "wf_ctype t_s64"
  by (simp_all add: t_s64_def layout)

definition t_atomic64_t :: ctype where
  "t_atomic64_t = CStruct
     [Fld ''counter'' t_s64]"

lemma t_atomic64_t_layout [layout]: "csize t_atomic64_t = 8" "calign t_atomic64_t = 8" "wf_ctype t_atomic64_t"
  by (simp_all add: t_atomic64_t_def layout)

definition s_hlist_nulls_node :: ctype where
  "s_hlist_nulls_node = CStruct
     [Fld ''next'' CPtr,
      Fld ''pprev'' CPtr]"

lemma s_hlist_nulls_node_layout [layout]: "csize s_hlist_nulls_node = 16" "calign s_hlist_nulls_node = 8" "wf_ctype s_hlist_nulls_node"
  by (simp_all add: s_hlist_nulls_node_def layout)

definition s_refcount_struct :: ctype where
  "s_refcount_struct = CStruct
     [Fld ''refs'' t_atomic_t]"

lemma s_refcount_struct_layout [layout]: "csize s_refcount_struct = 4" "calign s_refcount_struct = 4" "wf_ctype s_refcount_struct"
  by (simp_all add: s_refcount_struct_def layout)

definition t_refcount_t :: ctype where
  "t_refcount_t = s_refcount_struct"

lemma t_refcount_t_layout [layout]: "csize t_refcount_t = 4" "calign t_refcount_t = 4" "wf_ctype t_refcount_t"
  by (simp_all add: t_refcount_t_def layout)

definition s_sock_common :: ctype where
  "s_sock_common = CStruct
     [Fld '''' (CUnion
        [Fld ''skc_addrpair'' t___addrpair,
         Fld '''' (CStruct
           [Fld ''skc_daddr'' t___be32,
            Fld ''skc_rcv_saddr'' t___be32])]),
      Fld '''' (CUnion
        [Fld ''skc_hash'' (CInt 4),
         Fld ''skc_u16hashes'' (CArr t___u16 2)]),
      Fld '''' (CUnion
        [Fld ''skc_portpair'' t___portpair,
         Fld '''' (CStruct
           [Fld ''skc_dport'' t___be16,
            Fld ''skc_num'' t___u16])]),
      Fld ''skc_family'' (CInt 2),
      Fld ''skc_state'' (CInt 1),
      Bitf ''skc_reuse'' 1 4,
      Bitf ''skc_reuseport'' 1 1,
      Bitf ''skc_ipv6only'' 1 1,
      Bitf ''skc_net_refcnt'' 1 1,
      Bitf ''skc_bypass_prot_mem'' 1 1,
      Fld ''skc_bound_dev_if'' (CInt 4),
      Fld '''' (CUnion
        [Fld ''skc_bind_node'' s_hlist_node,
         Fld ''skc_portaddr_node'' s_hlist_node]),
      Fld ''skc_prot'' CPtr,
      Fld ''skc_net'' t_possible_net_t,
      Fld ''skc_v6_daddr'' s_in6_addr,
      Fld ''skc_v6_rcv_saddr'' s_in6_addr,
      Fld ''skc_cookie'' t_atomic64_t,
      Fld '''' (CUnion
        [Fld ''skc_flags'' (CInt 8),
         Fld ''skc_listener'' CPtr,
         Fld ''skc_tw_dr'' CPtr]),
      Fld ''skc_dontcopy_begin'' (CArr (CInt 4) 0),
      Fld '''' (CUnion
        [Fld ''skc_node'' s_hlist_node,
         Fld ''skc_nulls_node'' s_hlist_nulls_node]),
      Fld ''skc_tx_queue_mapping'' (CInt 2),
      Fld ''skc_rx_queue_mapping'' (CInt 2),
      Fld '''' (CUnion
        [Fld ''skc_incoming_cpu'' (CInt 4),
         Fld ''skc_rcv_wnd'' t_u32,
         Fld ''skc_tw_rcv_nxt'' t_u32]),
      Fld ''skc_refcnt'' t_refcount_t,
      Fld ''skc_dontcopy_end'' (CArr (CInt 4) 0),
      Fld '''' (CUnion
        [Fld ''skc_rxhash'' t_u32,
         Fld ''skc_window_clamp'' t_u32,
         Fld ''skc_tw_snd_nxt'' t_u32])]"

lemma s_sock_common_layout [layout]: "csize s_sock_common = 136" "calign s_sock_common = 8" "wf_ctype s_sock_common"
  by (simp_all add: s_sock_common_def layout)

definition t___s32 :: ctype where
  "t___s32 = CInt 4"

lemma t___s32_layout [layout]: "csize t___s32 = 4" "calign t___s32 = 4" "wf_ctype t___s32"
  by (simp_all add: t___s32_def layout)

definition s_sk_buff_list :: ctype where
  "s_sk_buff_list = CStruct
     [Fld ''next'' CPtr,
      Fld ''prev'' CPtr]"

lemma s_sk_buff_list_layout [layout]: "csize s_sk_buff_list = 16" "calign s_sk_buff_list = 8" "wf_ctype s_sk_buff_list"
  by (simp_all add: s_sk_buff_list_def layout)

definition s_sk_buff_head :: ctype where
  "s_sk_buff_head = CStruct
     [Fld '''' (CUnion
        [Fld '''' (CStruct
           [Fld ''next'' CPtr,
            Fld ''prev'' CPtr]),
         Fld ''list'' s_sk_buff_list]),
      Fld ''qlen'' t___u32,
      Fld ''lock'' t_spinlock_t]"

lemma s_sk_buff_head_layout [layout]: "csize s_sk_buff_head = 24" "calign s_sk_buff_head = 8" "wf_ctype s_sk_buff_head"
  by (simp_all add: s_sk_buff_head_def layout)

definition t_socket_lock_t :: ctype where
  "t_socket_lock_t = CStruct
     [Fld ''slock'' t_spinlock_t,
      Fld ''owned'' (CInt 4),
      Fld ''wq'' t_wait_queue_head_t]"

lemma t_socket_lock_t_layout [layout]: "csize t_socket_lock_t = 32" "calign t_socket_lock_t = 8" "wf_ctype t_socket_lock_t"
  by (simp_all add: t_socket_lock_t_def layout)

definition s_rb_root :: ctype where
  "s_rb_root = CStruct
     [Fld ''rb_node'' CPtr]"

lemma s_rb_root_layout [layout]: "csize s_rb_root = 8" "calign s_rb_root = 8" "wf_ctype s_rb_root"
  by (simp_all add: s_rb_root_def layout)

definition s_page_frag :: ctype where
  "s_page_frag = CStruct
     [Fld ''page'' CPtr,
      Fld ''offset'' t___u32,
      Fld ''size'' t___u32]"

lemma s_page_frag_layout [layout]: "csize s_page_frag = 16" "calign s_page_frag = 8" "wf_ctype s_page_frag"
  by (simp_all add: s_page_frag_def layout)

definition s_timer_list :: ctype where
  "s_timer_list = CStruct
     [Fld ''entry'' s_hlist_node,
      Fld ''expires'' (CInt 8),
      Fld ''function'' CPtr,
      Fld ''flags'' t_u32]"

lemma s_timer_list_layout [layout]: "csize s_timer_list = 40" "calign s_timer_list = 8" "wf_ctype s_timer_list"
  by (simp_all add: s_timer_list_def layout)

definition t___kernel_uid32_t :: ctype where
  "t___kernel_uid32_t = CInt 4"

lemma t___kernel_uid32_t_layout [layout]: "csize t___kernel_uid32_t = 4" "calign t___kernel_uid32_t = 4" "wf_ctype t___kernel_uid32_t"
  by (simp_all add: t___kernel_uid32_t_def layout)

definition t_uid_t :: ctype where
  "t_uid_t = t___kernel_uid32_t"

lemma t_uid_t_layout [layout]: "csize t_uid_t = 4" "calign t_uid_t = 4" "wf_ctype t_uid_t"
  by (simp_all add: t_uid_t_def layout)

definition t_kuid_t :: ctype where
  "t_kuid_t = CStruct
     [Fld ''val'' t_uid_t]"

lemma t_kuid_t_layout [layout]: "csize t_kuid_t = 4" "calign t_kuid_t = 4" "wf_ctype t_kuid_t"
  by (simp_all add: t_kuid_t_def layout)

definition t_netdev_features_t :: ctype where
  "t_netdev_features_t = t_u64"

lemma t_netdev_features_t_layout [layout]: "csize t_netdev_features_t = 8" "calign t_netdev_features_t = 8" "wf_ctype t_netdev_features_t"
  by (simp_all add: t_netdev_features_t_def layout)

definition t_gfp_t :: ctype where
  "t_gfp_t = CInt 4"

lemma t_gfp_t_layout [layout]: "csize t_gfp_t = 4" "calign t_gfp_t = 4" "wf_ctype t_gfp_t"
  by (simp_all add: t_gfp_t_def layout)

definition s_qrwlock :: ctype where
  "s_qrwlock = CStruct
     [Fld '''' (CUnion
        [Fld ''cnts'' t_atomic_t,
         Fld '''' (CStruct
           [Fld ''wlocked'' t_u8,
            Fld ''__lstate'' (CArr t_u8 3)])]),
      Fld ''wait_lock'' t_arch_spinlock_t]"

lemma s_qrwlock_layout [layout]: "csize s_qrwlock = 8" "calign s_qrwlock = 4" "wf_ctype s_qrwlock"
  by (simp_all add: s_qrwlock_def layout)

definition t_arch_rwlock_t :: ctype where
  "t_arch_rwlock_t = s_qrwlock"

lemma t_arch_rwlock_t_layout [layout]: "csize t_arch_rwlock_t = 8" "calign t_arch_rwlock_t = 4" "wf_ctype t_arch_rwlock_t"
  by (simp_all add: t_arch_rwlock_t_def layout)

definition s_rwlock :: ctype where
  "s_rwlock = CStruct
     [Fld ''raw_lock'' t_arch_rwlock_t]"

lemma s_rwlock_layout [layout]: "csize s_rwlock = 8" "calign s_rwlock = 4" "wf_ctype s_rwlock"
  by (simp_all add: s_rwlock_def layout)

definition t_rwlock_t :: ctype where
  "t_rwlock_t = s_rwlock"

lemma t_rwlock_t_layout [layout]: "csize t_rwlock_t = 8" "calign t_rwlock_t = 4" "wf_ctype t_rwlock_t"
  by (simp_all add: t_rwlock_t_def layout)

definition t_ktime_t :: ctype where
  "t_ktime_t = t_s64"

lemma t_ktime_t_layout [layout]: "csize t_ktime_t = 8" "calign t_ktime_t = 8" "wf_ctype t_ktime_t"
  by (simp_all add: t_ktime_t_def layout)

definition s_sock_cgroup_data :: ctype where
  "s_sock_cgroup_data = CStruct
     [Fld ''cgroup'' CPtr,
      Fld ''classid'' t_u32,
      Fld ''prioidx'' t_u16]"

lemma s_sock_cgroup_data_layout [layout]: "csize s_sock_cgroup_data = 16" "calign s_sock_cgroup_data = 8" "wf_ctype s_sock_cgroup_data"
  by (simp_all add: s_sock_cgroup_data_def layout)

definition t_freeptr_t :: ctype where
  "t_freeptr_t = CStruct
     [Fld ''v'' (CInt 8)]"

lemma t_freeptr_t_layout [layout]: "csize t_freeptr_t = 8" "calign t_freeptr_t = 8" "wf_ctype t_freeptr_t"
  by (simp_all add: t_freeptr_t_def layout)

definition t_netns_tracker :: ctype where
  "t_netns_tracker = CStruct
     []"

lemma t_netns_tracker_layout [layout]: "csize t_netns_tracker = 0" "calign t_netns_tracker = 1" "wf_ctype t_netns_tracker"
  by (simp_all add: t_netns_tracker_def layout)

definition s_xarray :: ctype where
  "s_xarray = CStruct
     [Fld ''xa_lock'' t_spinlock_t,
      Fld ''xa_flags'' t_gfp_t,
      Fld ''xa_head'' CPtr]"

lemma s_xarray_layout [layout]: "csize s_xarray = 16" "calign s_xarray = 8" "wf_ctype s_xarray"
  by (simp_all add: s_xarray_def layout)

definition s_sock :: ctype where
  "s_sock = CStruct
     [Fld ''__sk_common'' s_sock_common,
      Fld ''__cacheline_group_begin__sock_write_rx'' (CArr t___u8 0),
      Fld ''sk_drops'' t_atomic_t,
      Fld ''sk_peek_off'' t___s32,
      Fld ''sk_error_queue'' s_sk_buff_head,
      Fld ''sk_receive_queue'' s_sk_buff_head,
      Fld ''sk_backlog'' (CStruct
        [Fld ''rmem_alloc'' t_atomic_t,
         Fld ''len'' (CInt 4),
         Fld ''head'' CPtr,
         Fld ''tail'' CPtr]),
      Fld ''__cacheline_group_end__sock_write_rx'' (CArr t___u8 0),
      Fld ''__cacheline_group_begin__sock_read_rx'' (CArr t___u8 0),
      Fld ''sk_rx_dst'' CPtr,
      Fld ''sk_rx_dst_ifindex'' (CInt 4),
      Fld ''sk_rx_dst_cookie'' t_u32,
      Fld ''sk_ll_usec'' (CInt 4),
      Fld ''sk_napi_id'' (CInt 4),
      Fld ''sk_busy_poll_budget'' t_u16,
      Fld ''sk_prefer_busy_poll'' t_u8,
      Fld ''sk_userlocks'' t_u8,
      Fld ''sk_rcvbuf'' (CInt 4),
      Fld ''sk_filter'' CPtr,
      Fld '''' (CUnion
        [Fld ''sk_wq'' CPtr,
         Fld ''sk_wq_raw'' CPtr]),
      Fld ''sk_data_ready'' CPtr,
      Fld ''sk_rcvtimeo'' (CInt 8),
      Fld ''sk_rcvlowat'' (CInt 4),
      Fld ''__cacheline_group_end__sock_read_rx'' (CArr t___u8 0),
      Fld ''__cacheline_group_begin__sock_read_rxtx'' (CArr t___u8 0),
      Fld ''sk_err'' (CInt 4),
      Fld ''sk_socket'' CPtr,
      Fld ''sk_memcg'' CPtr,
      Fld ''sk_policy'' (CArr CPtr 2),
      Fld ''psp_assoc'' CPtr,
      Fld ''__cacheline_group_end__sock_read_rxtx'' (CArr t___u8 0),
      Fld ''__cacheline_group_begin__sock_write_rxtx'' (CArr t___u8 0),
      Fld ''sk_lock'' t_socket_lock_t,
      Fld ''sk_reserved_mem'' t_u32,
      Fld ''sk_forward_alloc'' (CInt 4),
      Fld ''sk_tsflags'' t_u32,
      Fld ''__cacheline_group_end__sock_write_rxtx'' (CArr t___u8 0),
      Fld ''__cacheline_group_begin__sock_write_tx'' (CArr t___u8 0),
      Fld ''sk_write_pending'' (CInt 4),
      Fld ''sk_omem_alloc'' t_atomic_t,
      Fld ''sk_err_soft'' (CInt 4),
      Fld ''sk_wmem_queued'' (CInt 4),
      Fld ''sk_wmem_alloc'' t_refcount_t,
      Fld ''sk_tsq_flags'' (CInt 8),
      Fld '''' (CUnion
        [Fld ''sk_send_head'' CPtr,
         Fld ''tcp_rtx_queue'' s_rb_root]),
      Fld ''sk_write_queue'' s_sk_buff_head,
      Fld ''sk_frag'' s_page_frag,
      Fld '''' (CUnion
        [Fld ''sk_timer'' s_timer_list,
         Fld ''tcp_retransmit_timer'' s_timer_list,
         Fld ''mptcp_retransmit_timer'' s_timer_list]),
      Fld ''sk_pacing_rate'' (CInt 8),
      Fld ''sk_zckey'' t_atomic_t,
      Fld ''sk_tskey'' t_atomic_t,
      Fld ''sk_tx_queue_mapping_jiffies'' (CInt 8),
      Fld ''__cacheline_group_end__sock_write_tx'' (CArr t___u8 0),
      Fld ''__cacheline_group_begin__sock_read_tx'' (CArr t___u8 0),
      Fld ''sk_dst_pending_confirm'' t_u32,
      Fld ''sk_pacing_status'' t_u32,
      Fld ''sk_max_pacing_rate'' (CInt 8),
      Fld ''sk_sndtimeo'' (CInt 8),
      Fld ''sk_priority'' t_u32,
      Fld ''sk_mark'' t_u32,
      Fld ''sk_uid'' t_kuid_t,
      Fld ''sk_protocol'' t_u16,
      Fld ''sk_type'' t_u16,
      Fld ''sk_dst_cache'' CPtr,
      Fld ''sk_route_caps'' t_netdev_features_t,
      Fld ''sk_validate_xmit_skb'' CPtr,
      Fld ''sk_gso_type'' t_u16,
      Fld ''sk_gso_max_segs'' t_u16,
      Fld ''sk_gso_max_size'' (CInt 4),
      Fld ''sk_allocation'' t_gfp_t,
      Fld ''sk_txhash'' t_u32,
      Fld ''sk_sndbuf'' (CInt 4),
      Fld ''sk_pacing_shift'' t_u8,
      Fld ''sk_use_task_frag'' (CInt 1),
      Fld ''__cacheline_group_end__sock_read_tx'' (CArr t___u8 0),
      Bitf ''sk_gso_disabled'' 1 1,
      Bitf ''sk_kern_sock'' 1 1,
      Bitf ''sk_no_check_tx'' 1 1,
      Bitf ''sk_no_check_rx'' 1 1,
      Fld ''sk_shutdown'' t_u8,
      Fld ''sk_lingertime'' (CInt 8),
      Fld ''sk_prot_creator'' CPtr,
      Fld ''sk_callback_lock'' t_rwlock_t,
      Fld ''sk_ack_backlog'' t_u32,
      Fld ''sk_max_ack_backlog'' t_u32,
      Fld ''sk_ino'' (CInt 8),
      Fld ''sk_peer_lock'' t_spinlock_t,
      Fld ''sk_bind_phc'' (CInt 4),
      Fld ''sk_peer_pid'' CPtr,
      Fld ''sk_peer_cred'' CPtr,
      Fld ''sk_stamp'' t_ktime_t,
      Fld ''sk_disconnects'' (CInt 4),
      Fld '''' (CUnion
        [Fld ''sk_txrehash'' t_u8,
         Fld ''sk_scm_recv_flags'' t_u8,
         Fld '''' (CStruct
           [Bitf ''sk_scm_credentials'' 1 1,
            Bitf ''sk_scm_security'' 1 1,
            Bitf ''sk_scm_pidfd'' 1 1,
            Bitf ''sk_scm_rights'' 1 1,
            Bitf ''sk_scm_unused'' 1 4])]),
      Fld ''sk_clockid'' t_u8,
      Bitf ''sk_txtime_deadline_mode'' 1 1,
      Bitf ''sk_txtime_report_errors'' 1 1,
      Bitf ''sk_txtime_unused'' 1 6,
      Fld ''sk_bpf_cb_flags'' t_u8,
      Fld ''sk_user_data'' CPtr,
      Fld ''sk_security'' CPtr,
      Fld ''sk_cgrp_data'' s_sock_cgroup_data,
      Fld ''sk_state_change'' CPtr,
      Fld ''sk_write_space'' CPtr,
      Fld ''sk_error_report'' CPtr,
      Fld ''sk_backlog_rcv'' CPtr,
      Fld ''sk_destruct'' CPtr,
      Fld ''sk_reuseport_cb'' CPtr,
      Fld ''sk_bpf_storage'' CPtr,
      Fld ''sk_drop_counters'' CPtr,
      Fld '''' (CUnion
        [Fld ''sk_rcu'' s_callback_head,
         Fld ''sk_freeptr'' t_freeptr_t]),
      Fld ''ns_tracker'' t_netns_tracker,
      Fld ''sk_user_frags'' s_xarray]"

lemma s_sock_layout [layout]: "csize s_sock = 808" "calign s_sock = 8" "wf_ctype s_sock"
  by (simp_all add: s_sock_def layout)

definition t___kernel_ulong_t :: ctype where
  "t___kernel_ulong_t = CInt 8"

lemma t___kernel_ulong_t_layout [layout]: "csize t___kernel_ulong_t = 8" "calign t___kernel_ulong_t = 8" "wf_ctype t___kernel_ulong_t"
  by (simp_all add: t___kernel_ulong_t_def layout)

definition t___kernel_size_t :: ctype where
  "t___kernel_size_t = t___kernel_ulong_t"

lemma t___kernel_size_t_layout [layout]: "csize t___kernel_size_t = 8" "calign t___kernel_size_t = 8" "wf_ctype t___kernel_size_t"
  by (simp_all add: t___kernel_size_t_def layout)

definition t_size_t :: ctype where
  "t_size_t = t___kernel_size_t"

lemma t_size_t_layout [layout]: "csize t_size_t = 8" "calign t_size_t = 8" "wf_ctype t_size_t"
  by (simp_all add: t_size_t_def layout)

definition s_iovec :: ctype where
  "s_iovec = CStruct
     [Fld ''iov_base'' CPtr,
      Fld ''iov_len'' t___kernel_size_t]"

lemma s_iovec_layout [layout]: "csize s_iovec = 16" "calign s_iovec = 8" "wf_ctype s_iovec"
  by (simp_all add: s_iovec_def layout)

definition t___kernel_loff_t :: ctype where
  "t___kernel_loff_t = CInt 8"

lemma t___kernel_loff_t_layout [layout]: "csize t___kernel_loff_t = 8" "calign t___kernel_loff_t = 8" "wf_ctype t___kernel_loff_t"
  by (simp_all add: t___kernel_loff_t_def layout)

definition t_loff_t :: ctype where
  "t_loff_t = t___kernel_loff_t"

lemma t_loff_t_layout [layout]: "csize t_loff_t = 8" "calign t_loff_t = 8" "wf_ctype t_loff_t"
  by (simp_all add: t_loff_t_def layout)

definition s_iov_iter :: ctype where
  "s_iov_iter = CStruct
     [Fld ''iter_type'' t_u8,
      Fld ''nofault'' (CInt 1),
      Fld ''data_source'' (CInt 1),
      Fld ''iov_offset'' t_size_t,
      Fld '''' (CUnion
        [Fld ''__ubuf_iovec'' s_iovec,
         Fld '''' (CStruct
           [Fld '''' (CUnion
              [Fld ''__iov'' CPtr,
               Fld ''kvec'' CPtr,
               Fld ''bvec'' CPtr,
               Fld ''folioq'' CPtr,
               Fld ''xarray'' CPtr,
               Fld ''ubuf'' CPtr]),
            Fld ''count'' t_size_t])]),
      Fld '''' (CUnion
        [Fld ''nr_segs'' (CInt 8),
         Fld ''folioq_slot'' t_u8,
         Fld ''xarray_start'' t_loff_t])]"

lemma s_iov_iter_layout [layout]: "csize s_iov_iter = 40" "calign s_iov_iter = 8" "wf_ctype s_iov_iter"
  by (simp_all add: s_iov_iter_def layout)

definition s_msghdr :: ctype where
  "s_msghdr = CStruct
     [Fld ''msg_name'' CPtr,
      Fld ''msg_namelen'' (CInt 4),
      Fld ''msg_inq'' (CInt 4),
      Fld ''msg_iter'' s_iov_iter,
      Fld '''' (CUnion
        [Fld ''msg_control'' CPtr,
         Fld ''msg_control_user'' CPtr]),
      Bitf ''msg_control_is_user'' 1 1,
      Bitf ''msg_get_inq'' 1 1,
      Fld ''msg_flags'' (CInt 4),
      Fld ''msg_controllen'' t___kernel_size_t,
      Fld ''msg_iocb'' CPtr,
      Fld ''msg_ubuf'' CPtr,
      Fld ''sg_from_iter'' CPtr]"

lemma s_msghdr_layout [layout]: "csize s_msghdr = 104" "calign s_msghdr = 8" "wf_ctype s_msghdr"
  by (simp_all add: s_msghdr_def layout)

definition t___s16 :: ctype where
  "t___s16 = CInt 2"

lemma t___s16_layout [layout]: "csize t___s16 = 2" "calign t___s16 = 2" "wf_ctype t___s16"
  by (simp_all add: t___s16_def layout)

definition s_inet_cork :: ctype where
  "s_inet_cork = CStruct
     [Fld ''flags'' (CInt 4),
      Fld ''addr'' t___be32,
      Fld ''opt'' CPtr,
      Fld ''fragsize'' (CInt 4),
      Fld ''length'' (CInt 4),
      Fld ''dst'' CPtr,
      Fld ''tx_flags'' t_u8,
      Fld ''ttl'' t___u8,
      Fld ''tos'' t___s16,
      Fld ''priority'' t_u32,
      Fld ''gso_size'' t___u16,
      Fld ''ts_opt_id'' t_u32,
      Fld ''transmit_time'' t_u64,
      Fld ''mark'' t_u32]"

lemma s_inet_cork_layout [layout]: "csize s_inet_cork = 64" "calign s_inet_cork = 8" "wf_ctype s_inet_cork"
  by (simp_all add: s_inet_cork_def layout)

definition t_dscp_t :: ctype where
  "t_dscp_t = t_u8"

lemma t_dscp_t_layout [layout]: "csize t_dscp_t = 1" "calign t_dscp_t = 1" "wf_ctype t_dscp_t"
  by (simp_all add: t_dscp_t_def layout)

definition t___be64 :: ctype where
  "t___be64 = t___u64"

lemma t___be64_layout [layout]: "csize t___be64 = 8" "calign t___be64 = 8" "wf_ctype t___be64"
  by (simp_all add: t___be64_def layout)

definition s_flowi_tunnel :: ctype where
  "s_flowi_tunnel = CStruct
     [Fld ''tun_id'' t___be64]"

lemma s_flowi_tunnel_layout [layout]: "csize s_flowi_tunnel = 8" "calign s_flowi_tunnel = 8" "wf_ctype s_flowi_tunnel"
  by (simp_all add: s_flowi_tunnel_def layout)

definition s_flowi_common :: ctype where
  "s_flowi_common = CStruct
     [Fld ''flowic_oif'' (CInt 4),
      Fld ''flowic_iif'' (CInt 4),
      Fld ''flowic_l3mdev'' (CInt 4),
      Fld ''flowic_mark'' t___u32,
      Fld ''flowic_dscp'' t_dscp_t,
      Fld ''flowic_scope'' t___u8,
      Fld ''flowic_proto'' t___u8,
      Fld ''flowic_flags'' t___u8,
      Fld ''flowic_secid'' t___u32,
      Fld ''flowic_uid'' t_kuid_t,
      Fld ''flowic_multipath_hash'' t___u32,
      Fld ''flowic_tun_key'' s_flowi_tunnel]"

lemma s_flowi_common_layout [layout]: "csize s_flowi_common = 40" "calign s_flowi_common = 8" "wf_ctype s_flowi_common"
  by (simp_all add: s_flowi_common_def layout)

definition u_flowi_uli :: ctype where
  "u_flowi_uli = CUnion
     [Fld ''ports'' (CStruct
        [Fld ''dport'' t___be16,
         Fld ''sport'' t___be16]),
      Fld ''icmpt'' (CStruct
        [Fld ''type'' t___u8,
         Fld ''code'' t___u8]),
      Fld ''gre_key'' t___be32,
      Fld ''mht'' (CStruct
        [Fld ''type'' t___u8])]"

lemma u_flowi_uli_layout [layout]: "csize u_flowi_uli = 4" "calign u_flowi_uli = 4" "wf_ctype u_flowi_uli"
  by (simp_all add: u_flowi_uli_def layout)

definition s_flowi4 :: ctype where
  "s_flowi4 = CStruct
     [Fld ''__fl_common'' s_flowi_common,
      Fld ''saddr'' t___be32,
      Fld ''daddr'' t___be32,
      Fld ''uli'' u_flowi_uli]"

lemma s_flowi4_layout [layout]: "csize s_flowi4 = 56" "calign s_flowi4 = 8" "wf_ctype s_flowi4"
  by (simp_all add: s_flowi4_def layout)

definition s_flowi6 :: ctype where
  "s_flowi6 = CStruct
     [Fld ''__fl_common'' s_flowi_common,
      Fld ''daddr'' s_in6_addr,
      Fld ''saddr'' s_in6_addr,
      Fld ''flowlabel'' t___be32,
      Fld ''uli'' u_flowi_uli,
      Fld ''mp_hash'' t___u32]"

lemma s_flowi6_layout [layout]: "csize s_flowi6 = 88" "calign s_flowi6 = 8" "wf_ctype s_flowi6"
  by (simp_all add: s_flowi6_def layout)

definition s_flowi :: ctype where
  "s_flowi = CStruct
     [Fld ''u'' (CUnion
        [Fld ''__fl_common'' s_flowi_common,
         Fld ''ip4'' s_flowi4,
         Fld ''ip6'' s_flowi6])]"

lemma s_flowi_layout [layout]: "csize s_flowi = 88" "calign s_flowi = 8" "wf_ctype s_flowi"
  by (simp_all add: s_flowi_def layout)

definition s_inet6_cork :: ctype where
  "s_inet6_cork = CStruct
     [Fld ''opt'' CPtr,
      Fld ''hop_limit'' t_u8,
      Fld ''tclass'' t_u8,
      Bitf ''dontfrag'' 1 1]"

lemma s_inet6_cork_layout [layout]: "csize s_inet6_cork = 16" "calign s_inet6_cork = 8" "wf_ctype s_inet6_cork"
  by (simp_all add: s_inet6_cork_def layout)

definition s_inet_cork_full :: ctype where
  "s_inet_cork_full = CStruct
     [Fld ''base'' s_inet_cork,
      Fld ''fl'' s_flowi,
      Fld ''base6'' s_inet6_cork]"

lemma s_inet_cork_full_layout [layout]: "csize s_inet_cork_full = 168" "calign s_inet_cork_full = 8" "wf_ctype s_inet_cork_full"
  by (simp_all add: s_inet_cork_full_def layout)

definition s_inet_sock :: ctype where
  "s_inet_sock = CStruct
     [Fld ''sk'' s_sock,
      Fld ''pinet6'' CPtr,
      Fld ''ipv6_fl_list'' CPtr,
      Fld ''inet_flags'' (CInt 8),
      Fld ''inet_saddr'' t___be32,
      Fld ''uc_ttl'' t___s16,
      Fld ''inet_sport'' t___be16,
      Fld ''inet_opt'' CPtr,
      Fld ''inet_id'' t_atomic_t,
      Fld ''tos'' t___u8,
      Fld ''min_ttl'' t___u8,
      Fld ''mc_ttl'' t___u8,
      Fld ''pmtudisc'' t___u8,
      Fld ''rcv_tos'' t___u8,
      Fld ''convert_csum'' t___u8,
      Fld ''uc_index'' (CInt 4),
      Fld ''mc_index'' (CInt 4),
      Fld ''mc_addr'' t___be32,
      Fld ''local_port_range'' t_u32,
      Fld ''mc_list'' CPtr,
      Fld ''cork'' s_inet_cork_full]"

lemma s_inet_sock_layout [layout]: "csize s_inet_sock = 1056" "calign s_inet_sock = 8" "wf_ctype s_inet_sock"
  by (simp_all add: s_inet_sock_def layout)

definition s_fastopen_queue :: ctype where
  "s_fastopen_queue = CStruct
     [Fld ''rskq_rst_head'' CPtr,
      Fld ''rskq_rst_tail'' CPtr,
      Fld ''lock'' t_spinlock_t,
      Fld ''qlen'' (CInt 4),
      Fld ''max_qlen'' (CInt 4),
      Fld ''ctx'' CPtr]"

lemma s_fastopen_queue_layout [layout]: "csize s_fastopen_queue = 40" "calign s_fastopen_queue = 8" "wf_ctype s_fastopen_queue"
  by (simp_all add: s_fastopen_queue_def layout)

definition s_request_sock_queue :: ctype where
  "s_request_sock_queue = CStruct
     [Fld ''rskq_lock'' t_spinlock_t,
      Fld ''rskq_defer_accept'' t_u8,
      Fld ''synflood_warned'' t_u8,
      Fld ''qlen'' t_atomic_t,
      Fld ''young'' t_atomic_t,
      Fld ''rskq_accept_head'' CPtr,
      Fld ''rskq_accept_tail'' CPtr,
      Fld ''fastopenq'' s_fastopen_queue]"

lemma s_request_sock_queue_layout [layout]: "csize s_request_sock_queue = 72" "calign s_request_sock_queue = 8" "wf_ctype s_request_sock_queue"
  by (simp_all add: s_request_sock_queue_def layout)

definition s_inet_connection_sock :: ctype where
  "s_inet_connection_sock = CStruct
     [Fld ''icsk_inet'' s_inet_sock,
      Fld ''icsk_accept_queue'' s_request_sock_queue,
      Fld ''icsk_bind_hash'' CPtr,
      Fld ''icsk_bind2_hash'' CPtr,
      Fld ''icsk_delack_timer'' s_timer_list,
      Fld '''' (CUnion
        [Fld ''icsk_keepalive_timer'' s_timer_list,
         Fld ''mptcp_tout_timer'' s_timer_list]),
      Fld ''icsk_rto'' t___u32,
      Fld ''icsk_rto_min'' t___u32,
      Fld ''icsk_rto_max'' t_u32,
      Fld ''icsk_delack_max'' t___u32,
      Fld ''icsk_pmtu_cookie'' t___u32,
      Fld ''icsk_ca_ops'' CPtr,
      Fld ''icsk_af_ops'' CPtr,
      Fld ''icsk_ulp_ops'' CPtr,
      Fld ''icsk_ulp_data'' CPtr,
      Fld ''icsk_sync_mss'' CPtr,
      Bitf ''icsk_ca_state'' 1 5,
      Bitf ''icsk_ca_initialized'' 1 1,
      Bitf ''icsk_ca_setsockopt'' 1 1,
      Bitf ''icsk_ca_dst_locked'' 1 1,
      Fld ''icsk_retransmits'' t___u8,
      Fld ''icsk_pending'' t___u8,
      Fld ''icsk_backoff'' t___u8,
      Fld ''icsk_syn_retries'' t___u8,
      Fld ''icsk_probes_out'' t___u8,
      Fld ''icsk_ext_hdr_len'' t___u16,
      Fld ''icsk_ack'' (CStruct
        [Fld ''pending'' t___u8,
         Fld ''quick'' t___u8,
         Fld ''pingpong'' t___u8,
         Fld ''retry'' t___u8,
         Bitf ''ato'' 4 8,
         Bitf ''lrcv_flowlabel'' 4 20,
         Bitf ''dst_quick_ack'' 4 1,
         Bitf ''unused'' 4 3,
         Fld ''lrcvtime'' t___u32,
         Fld ''last_seg_size'' t___u16,
         Fld ''rcv_mss'' t___u16]),
      Fld ''icsk_mtup'' (CStruct
        [Fld ''search_high'' (CInt 4),
         Fld ''search_low'' (CInt 4),
         Bitf ''probe_size'' 4 31,
         Bitf ''enabled'' 4 1,
         Fld ''probe_timestamp'' t_u32]),
      Fld ''icsk_probes_tstamp'' t_u32,
      Fld ''icsk_user_timeout'' t_u32,
      Fld ''icsk_ca_priv'' (CArr t_u64 13)]"

lemma s_inet_connection_sock_layout [layout]: "csize s_inet_connection_sock = 1440" "calign s_inet_connection_sock = 8" "wf_ctype s_inet_connection_sock"
  by (simp_all add: s_inet_connection_sock_def layout)

definition s_minmax_sample :: ctype where
  "s_minmax_sample = CStruct
     [Fld ''t'' t_u32,
      Fld ''v'' t_u32]"

lemma s_minmax_sample_layout [layout]: "csize s_minmax_sample = 8" "calign s_minmax_sample = 4" "wf_ctype s_minmax_sample"
  by (simp_all add: s_minmax_sample_def layout)

definition s_minmax :: ctype where
  "s_minmax = CStruct
     [Fld ''s'' (CArr s_minmax_sample 3)]"

lemma s_minmax_layout [layout]: "csize s_minmax = 24" "calign s_minmax = 4" "wf_ctype s_minmax"
  by (simp_all add: s_minmax_def layout)

definition s_tcp_options_received :: ctype where
  "s_tcp_options_received = CStruct
     [Fld ''ts_recent_stamp'' (CInt 4),
      Fld ''ts_recent'' t_u32,
      Fld ''rcv_tsval'' t_u32,
      Fld ''rcv_tsecr'' t_u32,
      Bitf ''saw_tstamp'' 2 1,
      Bitf ''tstamp_ok'' 2 1,
      Bitf ''dsack'' 2 1,
      Bitf ''wscale_ok'' 2 1,
      Bitf ''sack_ok'' 2 3,
      Bitf ''smc_ok'' 2 1,
      Bitf ''snd_wscale'' 2 4,
      Bitf ''rcv_wscale'' 2 4,
      Bitf ''accecn'' 1 6,
      Bitf ''saw_unknown'' 1 1,
      Bitf ''unused'' 1 1,
      Fld ''num_sacks'' t_u8,
      Fld ''user_mss'' t_u16,
      Fld ''mss_clamp'' t_u16]"

lemma s_tcp_options_received_layout [layout]: "csize s_tcp_options_received = 24" "calign s_tcp_options_received = 4" "wf_ctype s_tcp_options_received"
  by (simp_all add: s_tcp_options_received_def layout)

definition s_tcp_rack :: ctype where
  "s_tcp_rack = CStruct
     [Fld ''mstamp'' t_u64,
      Fld ''rtt_us'' t_u32,
      Fld ''end_seq'' t_u32,
      Fld ''last_delivered'' t_u32,
      Fld ''reo_wnd_steps'' t_u8,
      Bitf ''reo_wnd_persist'' 1 5,
      Bitf ''dsack_seen'' 1 1,
      Bitf ''advanced'' 1 1]"

lemma s_tcp_rack_layout [layout]: "csize s_tcp_rack = 24" "calign s_tcp_rack = 8" "wf_ctype s_tcp_rack"
  by (simp_all add: s_tcp_rack_def layout)

definition s_rb_node :: ctype where
  "s_rb_node = CStruct
     [Fld ''__rb_parent_color'' (CInt 8),
      Fld ''rb_right'' CPtr,
      Fld ''rb_left'' CPtr]"

lemma s_rb_node_layout [layout]: "csize s_rb_node = 24" "calign s_rb_node = 8" "wf_ctype s_rb_node"
  by (simp_all add: s_rb_node_def layout)

definition s_timerqueue_node :: ctype where
  "s_timerqueue_node = CStruct
     [Fld ''node'' s_rb_node,
      Fld ''expires'' t_ktime_t]"

lemma s_timerqueue_node_layout [layout]: "csize s_timerqueue_node = 32" "calign s_timerqueue_node = 8" "wf_ctype s_timerqueue_node"
  by (simp_all add: s_timerqueue_node_def layout)

definition s_hrtimer :: ctype where
  "s_hrtimer = CStruct
     [Fld ''node'' s_timerqueue_node,
      Fld ''_softexpires'' t_ktime_t,
      Fld ''function'' CPtr,
      Fld ''base'' CPtr,
      Fld ''state'' t_u8,
      Fld ''is_rel'' t_u8,
      Fld ''is_soft'' t_u8,
      Fld ''is_hard'' t_u8]"

lemma s_hrtimer_layout [layout]: "csize s_hrtimer = 64" "calign s_hrtimer = 8" "wf_ctype s_hrtimer"
  by (simp_all add: s_hrtimer_def layout)

definition s_tcp_sack_block :: ctype where
  "s_tcp_sack_block = CStruct
     [Fld ''start_seq'' t_u32,
      Fld ''end_seq'' t_u32]"

lemma s_tcp_sack_block_layout [layout]: "csize s_tcp_sack_block = 8" "calign s_tcp_sack_block = 4" "wf_ctype s_tcp_sack_block"
  by (simp_all add: s_tcp_sack_block_def layout)

definition s_tcp_sock :: ctype where
  "s_tcp_sock = CStruct
     [Fld ''inet_conn'' s_inet_connection_sock,
      Fld ''__cacheline_group_begin__tcp_sock_read_tx'' (CArr t___u8 0),
      Fld ''max_window'' t_u32,
      Fld ''rcv_ssthresh'' t_u32,
      Fld ''reordering'' t_u32,
      Fld ''notsent_lowat'' t_u32,
      Fld ''gso_segs'' t_u16,
      Fld ''retransmit_skb_hint'' CPtr,
      Fld ''tcp_clean_acked'' CPtr,
      Fld ''__cacheline_group_end__tcp_sock_read_tx'' (CArr t___u8 0),
      Fld ''__cacheline_group_begin__tcp_sock_read_txrx'' (CArr t___u8 0),
      Fld ''tsoffset'' t_u32,
      Fld ''snd_wnd'' t_u32,
      Fld ''mss_cache'' t_u32,
      Fld ''snd_cwnd'' t_u32,
      Fld ''prr_out'' t_u32,
      Fld ''lost_out'' t_u32,
      Fld ''sacked_out'' t_u32,
      Fld ''tcp_header_len'' t_u16,
      Fld ''scaling_ratio'' t_u8,
      Bitf ''chrono_type'' 1 2,
      Bitf ''repair'' 1 1,
      Bitf ''tcp_usec_ts'' 1 1,
      Bitf ''is_sack_reneg'' 1 1,
      Bitf ''is_cwnd_limited'' 1 1,
      Bitf ''recvmsg_inq'' 1 1,
      Fld ''__cacheline_group_end__tcp_sock_read_txrx'' (CArr t___u8 0),
      Fld ''__cacheline_group_begin__tcp_sock_read_rx'' (CArr t___u8 0),
      Fld ''copied_seq'' t_u32,
      Fld ''snd_wl1'' t_u32,
      Fld ''tlp_high_seq'' t_u32,
      Fld ''rttvar_us'' t_u32,
      Fld ''retrans_out'' t_u32,
      Fld ''advmss'' t_u16,
      Fld ''urg_data'' t_u16,
      Fld ''lost'' t_u32,
      Fld ''snd_ssthresh'' t_u32,
      Fld ''rtt_min'' s_minmax,
      Fld ''out_of_order_queue'' s_rb_root,
      Fld ''__cacheline_group_end__tcp_sock_read_rx'' (CArr t___u8 0),
      Bitf '''' 8 64,
      Bitf '''' 8 64,
      Bitf '''' 8 64,
      Fld ''__cacheline_group_begin__tcp_sock_write_tx'' (CArr t___u8 0),
      Fld ''segs_out'' t_u32,
      Fld ''data_segs_out'' t_u32,
      Fld ''bytes_sent'' t_u64,
      Fld ''snd_sml'' t_u32,
      Fld ''chrono_start'' t_u32,
      Fld ''chrono_stat'' (CArr t_u32 3),
      Fld ''write_seq'' t_u32,
      Fld ''pushed_seq'' t_u32,
      Fld ''lsndtime'' t_u32,
      Fld ''mdev_us'' t_u32,
      Fld ''rtt_seq'' t_u32,
      Fld ''tcp_wstamp_ns'' t_u64,
      Fld ''accecn_opt_tstamp'' t_u64,
      Fld ''tsorted_sent_queue'' s_list_head,
      Fld ''highest_sack'' CPtr,
      Fld ''ecn_flags'' t_u8,
      Fld ''__cacheline_group_end__tcp_sock_write_tx'' (CArr t___u8 0),
      Fld ''__cacheline_group_begin__tcp_sock_write_txrx'' (CArr t___u8 0),
      Bitf ''nonagle'' 1 4,
      Bitf ''rate_app_limited'' 1 1,
      Bitf '''' 2 3,
      Bitf ''received_ce_pending'' 1 4,
      Bitf ''accecn_opt_sent_w_dsack'' 1 1,
      Bitf ''unused2'' 1 3,
      Bitf ''accecn_minlen'' 1 2,
      Bitf ''est_ecnfield'' 1 2,
      Bitf ''accecn_opt_demand'' 1 2,
      Bitf ''prev_ecnfield'' 1 2,
      Fld ''pred_flags'' t___be32,
      Fld ''tcp_clock_cache'' t_u64,
      Fld ''tcp_mstamp'' t_u64,
      Fld ''rcv_nxt'' t_u32,
      Fld ''snd_nxt'' t_u32,
      Fld ''snd_una'' t_u32,
      Fld ''window_clamp'' t_u32,
      Fld ''srtt_us'' t_u32,
      Fld ''packets_out'' t_u32,
      Fld ''snd_up'' t_u32,
      Fld ''delivered'' t_u32,
      Fld ''delivered_ce'' t_u32,
      Fld ''received_ce'' t_u32,
      Fld ''received_ecn_bytes'' (CArr t_u32 3),
      Fld ''app_limited'' t_u32,
      Fld ''rcv_wnd'' t_u32,
      Fld ''rcv_tstamp'' t_u32,
      Fld ''rx_opt'' s_tcp_options_received,
      Fld ''__cacheline_group_end__tcp_sock_write_txrx'' (CArr t___u8 0),
      Fld ''__cacheline_group_begin__tcp_sock_write_rx'' (CArr t___u8 0),
      Fld ''bytes_received'' t_u64,
      Fld ''segs_in'' t_u32,
      Fld ''data_segs_in'' t_u32,
      Fld ''rcv_wup'' t_u32,
      Fld ''max_packets_out'' t_u32,
      Fld ''cwnd_usage_seq'' t_u32,
      Fld ''rate_delivered'' t_u32,
      Fld ''rate_interval_us'' t_u32,
      Fld ''rcv_rtt_last_tsecr'' t_u32,
      Fld ''delivered_ecn_bytes'' (CArr t_u32 3),
      Fld ''pkts_acked_ewma'' t_u16,
      Fld ''first_tx_mstamp'' t_u64,
      Fld ''delivered_mstamp'' t_u64,
      Fld ''bytes_acked'' t_u64,
      Fld ''rcv_rtt_est'' (CStruct
        [Fld ''rtt_us'' t_u32,
         Fld ''seq'' t_u32,
         Fld ''time'' t_u64]),
      Fld ''rcvq_space'' (CStruct
        [Fld ''space'' (CInt 4),
         Fld ''seq'' t_u32,
         Fld ''time'' t_u64]),
      Fld ''__cacheline_group_end__tcp_sock_write_rx'' (CArr t___u8 0),
      Fld ''dsack_dups'' t_u32,
      Fld ''compressed_ack_rcv_nxt'' t_u32,
      Fld ''tsq_node'' s_list_head,
      Fld ''rack'' s_tcp_rack,
      Fld ''compressed_ack'' t_u8,
      Bitf ''dup_ack_counter'' 1 2,
      Bitf ''tlp_retrans'' 1 1,
      Bitf ''syn_ect_snt'' 1 2,
      Bitf ''syn_ect_rcv'' 1 2,
      Bitf ''thin_lto'' 1 1,
      Bitf ''fastopen_connect'' 1 1,
      Bitf ''fastopen_no_cookie'' 1 1,
      Bitf ''fastopen_client_fail'' 1 2,
      Bitf ''frto'' 1 1,
      Fld ''repair_queue'' t_u8,
      Bitf ''save_syn'' 1 2,
      Bitf ''syn_data'' 1 1,
      Bitf ''syn_fastopen'' 1 1,
      Bitf ''syn_fastopen_exp'' 1 1,
      Bitf ''syn_fastopen_ch'' 1 1,
      Bitf ''syn_data_acked'' 1 1,
      Bitf ''syn_fastopen_child'' 1 1,
      Fld ''keepalive_probes'' t_u8,
      Bitf ''accecn_fail_mode'' 1 4,
      Bitf ''saw_accecn_opt'' 1 2,
      Fld ''tcp_tx_delay'' t_u32,
      Fld ''mdev_max_us'' t_u32,
      Fld ''reord_seen'' t_u32,
      Fld ''snd_cwnd_cnt'' t_u32,
      Fld ''snd_cwnd_clamp'' t_u32,
      Fld ''snd_cwnd_used'' t_u32,
      Fld ''snd_cwnd_stamp'' t_u32,
      Fld ''prior_cwnd'' t_u32,
      Fld ''prr_delivered'' t_u32,
      Fld ''last_oow_ack_time'' t_u32,
      Fld ''pacing_timer'' s_hrtimer,
      Fld ''compressed_ack_timer'' s_hrtimer,
      Fld ''ooo_last_skb'' CPtr,
      Fld ''duplicate_sack'' (CArr s_tcp_sack_block 1),
      Fld ''selective_acks'' (CArr s_tcp_sack_block 4),
      Fld ''recv_sack_cache'' (CArr s_tcp_sack_block 4),
      Fld ''prior_ssthresh'' t_u32,
      Fld ''high_seq'' t_u32,
      Fld ''retrans_stamp'' t_u32,
      Fld ''undo_marker'' t_u32,
      Fld ''undo_retrans'' (CInt 4),
      Fld ''mtu_info'' t_u32,
      Fld ''bytes_retrans'' t_u64,
      Fld ''total_retrans'' t_u32,
      Fld ''rto_stamp'' t_u32,
      Fld ''total_rto'' t_u16,
      Fld ''total_rto_recoveries'' t_u16,
      Fld ''total_rto_time'' t_u32,
      Fld ''urg_seq'' t_u32,
      Fld ''keepalive_time'' (CInt 4),
      Fld ''keepalive_intvl'' (CInt 4),
      Fld ''linger2'' (CInt 4),
      Fld ''bpf_sock_ops_cb_flags'' t_u8,
      Bitf ''bpf_chg_cc_inprogress'' 1 1,
      Fld ''timeout_rehash'' t_u16,
      Fld ''rcv_ooopack'' t_u32,
      Fld ''mtu_probe'' (CStruct
        [Fld ''probe_seq_start'' t_u32,
         Fld ''probe_seq_end'' t_u32]),
      Fld ''plb_rehash'' t_u32,
      Fld ''is_mptcp'' (CInt 1),
      Fld ''syn_smc'' (CInt 1),
      Fld ''smc_hs_congested'' CPtr,
      Fld ''af_specific'' CPtr,
      Fld ''md5sig_info'' CPtr,
      Fld ''ao_info'' CPtr,
      Fld ''fastopen_req'' CPtr,
      Fld ''fastopen_rsk'' CPtr,
      Fld ''saved_syn'' CPtr]"

lemma s_tcp_sock_layout [layout]: "csize s_tcp_sock = 2368" "calign s_tcp_sock = 8" "wf_ctype s_tcp_sock"
  by (simp_all add: s_tcp_sock_def layout)

end
