(* ===== verification/Vmlinux_Task.thy ===== *)
theory Vmlinux_Task
  imports Vmlinux_Net
begin

text \<open>
  Declarations of \<^verbatim>\<open>internal/ebpfcapture/bpf/vmlinux.h\<close> for tasks: the process the sensor runs in the context of, its pid in every namespace, its cgroup and credentials, the file it connects and the io\_uring request that may carry the call,
  with everything they contain by value. A structure is \<open>s_\<close>, a union \<open>u_\<close>, a typedef \<open>t_\<close> and an enumeration
  \<open>e_\<close> followed by its C name; pointers are opaque (\<open>CPtr\<close>), an enumeration used as a field is the integer it is
  stored in. Each declaration is followed by its size, alignment and well-formedness.
\<close>

definition s_bpf_pidns_info :: ctype where
  "s_bpf_pidns_info = CStruct
     [Fld ''pid'' t___u32,
      Fld ''tgid'' t___u32]"

lemma s_bpf_pidns_info_layout [layout]: "csize s_bpf_pidns_info = 8" "calign s_bpf_pidns_info = 4" "wf_ctype s_bpf_pidns_info"
  by (simp_all add: s_bpf_pidns_info_def layout)

definition s_upid :: ctype where
  "s_upid = CStruct
     [Fld ''nr'' (CInt 4),
      Fld ''ns'' CPtr]"

lemma s_upid_layout [layout]: "csize s_upid = 16" "calign s_upid = 8" "wf_ctype s_upid"
  by (simp_all add: s_upid_def layout)

definition s_rhash_head :: ctype where
  "s_rhash_head = CStruct
     [Fld ''next'' CPtr]"

lemma s_rhash_head_layout [layout]: "csize s_rhash_head = 8" "calign s_rhash_head = 8" "wf_ctype s_rhash_head"
  by (simp_all add: s_rhash_head_def layout)

definition s_hlist_head :: ctype where
  "s_hlist_head = CStruct
     [Fld ''first'' CPtr]"

lemma s_hlist_head_layout [layout]: "csize s_hlist_head = 8" "calign s_hlist_head = 8" "wf_ctype s_hlist_head"
  by (simp_all add: s_hlist_head_def layout)

definition s_pid :: ctype where
  "s_pid = CStruct
     [Fld ''count'' t_refcount_t,
      Fld ''level'' (CInt 4),
      Fld ''lock'' t_spinlock_t,
      Fld '''' (CStruct
        [Fld ''ino'' t_u64,
         Fld ''pidfs_hash'' s_rhash_head,
         Fld ''stashed'' CPtr,
         Fld ''attr'' CPtr]),
      Fld ''tasks'' (CArr s_hlist_head 4),
      Fld ''inodes'' s_hlist_head,
      Fld ''wait_pidfd'' t_wait_queue_head_t,
      Fld ''rcu'' s_callback_head,
      Fld ''numbers'' (CArr s_upid 0)]"

lemma s_pid_layout [layout]: "csize s_pid = 128" "calign s_pid = 8" "wf_ctype s_pid"
  by (simp_all add: s_pid_def layout)

definition s_ns_tree_node :: ctype where
  "s_ns_tree_node = CStruct
     [Fld ''ns_node'' s_rb_node,
      Fld ''ns_list_entry'' s_list_head]"

lemma s_ns_tree_node_layout [layout]: "csize s_ns_tree_node = 40" "calign s_ns_tree_node = 8" "wf_ctype s_ns_tree_node"
  by (simp_all add: s_ns_tree_node_def layout)

definition s_ns_tree_root :: ctype where
  "s_ns_tree_root = CStruct
     [Fld ''ns_rb'' s_rb_root,
      Fld ''ns_list_head'' s_list_head]"

lemma s_ns_tree_root_layout [layout]: "csize s_ns_tree_root = 24" "calign s_ns_tree_root = 8" "wf_ctype s_ns_tree_root"
  by (simp_all add: s_ns_tree_root_def layout)

definition s_ns_tree :: ctype where
  "s_ns_tree = CStruct
     [Fld ''ns_id'' t_u64,
      Fld ''__ns_ref_active'' t_atomic_t,
      Fld ''ns_unified_node'' s_ns_tree_node,
      Fld ''ns_tree_node'' s_ns_tree_node,
      Fld ''ns_owner_node'' s_ns_tree_node,
      Fld ''ns_owner_root'' s_ns_tree_root]"

lemma s_ns_tree_layout [layout]: "csize s_ns_tree = 160" "calign s_ns_tree = 8" "wf_ctype s_ns_tree"
  by (simp_all add: s_ns_tree_def layout)

definition s_ns_common :: ctype where
  "s_ns_common = CStruct
     [Fld '''' (CStruct
        [Fld ''__ns_ref'' t_refcount_t,
         Bitf '''' 8 64,
         Bitf '''' 8 64,
         Bitf '''' 8 64,
         Bitf '''' 8 64,
         Bitf '''' 8 64,
         Bitf '''' 8 64,
         Bitf '''' 8 64]),
      Fld ''ns_type'' t_u32,
      Fld ''stashed'' CPtr,
      Fld ''ops'' CPtr,
      Fld ''inum'' (CInt 4),
      Fld '''' (CUnion
        [Fld '''' s_ns_tree,
         Fld ''ns_rcu'' s_callback_head])]"

lemma s_ns_common_layout [layout]: "csize s_ns_common = 256" "calign s_ns_common = 8" "wf_ctype s_ns_common"
  by (simp_all add: s_ns_common_def layout)

definition s_idr :: ctype where
  "s_idr = CStruct
     [Fld ''idr_rt'' s_xarray,
      Fld ''idr_base'' (CInt 4),
      Fld ''idr_next'' (CInt 4)]"

lemma s_idr_layout [layout]: "csize s_idr = 24" "calign s_idr = 8" "wf_ctype s_idr"
  by (simp_all add: s_idr_def layout)

definition s_ctl_table_header :: ctype where
  "s_ctl_table_header = CStruct
     [Fld '''' (CUnion
        [Fld '''' (CStruct
           [Fld ''ctl_table'' CPtr,
            Fld ''ctl_table_size'' (CInt 4),
            Fld ''used'' (CInt 4),
            Fld ''count'' (CInt 4),
            Fld ''nreg'' (CInt 4)]),
         Fld ''rcu'' s_callback_head]),
      Fld ''unregistering'' CPtr,
      Fld ''ctl_table_arg'' CPtr,
      Fld ''root'' CPtr,
      Fld ''set'' CPtr,
      Fld ''parent'' CPtr,
      Fld ''node'' CPtr,
      Fld ''inodes'' s_hlist_head,
      Fld ''type'' (CInt 4)]"

lemma s_ctl_table_header_layout [layout]: "csize s_ctl_table_header = 88" "calign s_ctl_table_header = 8" "wf_ctype s_ctl_table_header"
  by (simp_all add: s_ctl_table_header_def layout)

definition s_ctl_dir :: ctype where
  "s_ctl_dir = CStruct
     [Fld ''header'' s_ctl_table_header,
      Fld ''root'' s_rb_root]"

lemma s_ctl_dir_layout [layout]: "csize s_ctl_dir = 96" "calign s_ctl_dir = 8" "wf_ctype s_ctl_dir"
  by (simp_all add: s_ctl_dir_def layout)

definition s_ctl_table_set :: ctype where
  "s_ctl_table_set = CStruct
     [Fld ''is_seen'' CPtr,
      Fld ''dir'' s_ctl_dir]"

lemma s_ctl_table_set_layout [layout]: "csize s_ctl_table_set = 104" "calign s_ctl_table_set = 8" "wf_ctype s_ctl_table_set"
  by (simp_all add: s_ctl_table_set_def layout)

definition t_atomic_long_t :: ctype where
  "t_atomic_long_t = t_atomic64_t"

lemma t_atomic_long_t_layout [layout]: "csize t_atomic_long_t = 8" "calign t_atomic_long_t = 8" "wf_ctype t_atomic_long_t"
  by (simp_all add: t_atomic_long_t_def layout)

definition t_work_func_t :: ctype where
  "t_work_func_t = CPtr"

lemma t_work_func_t_layout [layout]: "csize t_work_func_t = 8" "calign t_work_func_t = 8" "wf_ctype t_work_func_t"
  by (simp_all add: t_work_func_t_def layout)

definition s_work_struct :: ctype where
  "s_work_struct = CStruct
     [Fld ''data'' t_atomic_long_t,
      Fld ''entry'' s_list_head,
      Fld ''func'' t_work_func_t]"

lemma s_work_struct_layout [layout]: "csize s_work_struct = 32" "calign s_work_struct = 8" "wf_ctype s_work_struct"
  by (simp_all add: s_work_struct_def layout)

definition s_pid_namespace :: ctype where
  "s_pid_namespace = CStruct
     [Fld ''idr'' s_idr,
      Fld ''rcu'' s_callback_head,
      Fld ''pid_allocated'' (CInt 4),
      Fld ''memfd_noexec_scope'' (CInt 4),
      Fld ''set'' s_ctl_table_set,
      Fld ''sysctls'' CPtr,
      Fld ''child_reaper'' CPtr,
      Fld ''pid_cachep'' CPtr,
      Fld ''level'' (CInt 4),
      Fld ''pid_max'' (CInt 4),
      Fld ''parent'' CPtr,
      Fld ''bacct'' CPtr,
      Fld ''user_ns'' CPtr,
      Fld ''ucounts'' CPtr,
      Fld ''reboot'' (CInt 4),
      Bitf '''' 8 64,
      Bitf '''' 8 64,
      Bitf '''' 8 64,
      Bitf '''' 8 64,
      Fld ''ns'' s_ns_common,
      Fld ''work'' s_work_struct,
      Bitf '''' 8 64,
      Bitf '''' 8 64,
      Bitf '''' 8 64,
      Bitf '''' 8 64]"

lemma s_pid_namespace_layout [layout]: "csize s_pid_namespace = 576" "calign s_pid_namespace = 8" "wf_ctype s_pid_namespace"
  by (simp_all add: s_pid_namespace_def layout)

definition s_nsproxy :: ctype where
  "s_nsproxy = CStruct
     [Fld ''count'' t_refcount_t,
      Fld ''uts_ns'' CPtr,
      Fld ''ipc_ns'' CPtr,
      Fld ''mnt_ns'' CPtr,
      Fld ''pid_ns_for_children'' CPtr,
      Fld ''net_ns'' CPtr,
      Fld ''time_ns'' CPtr,
      Fld ''time_ns_for_children'' CPtr,
      Fld ''cgroup_ns'' CPtr]"

lemma s_nsproxy_layout [layout]: "csize s_nsproxy = 72" "calign s_nsproxy = 8" "wf_ctype s_nsproxy"
  by (simp_all add: s_nsproxy_def layout)

definition t_umode_t :: ctype where
  "t_umode_t = CInt 2"

lemma t_umode_t_layout [layout]: "csize t_umode_t = 2" "calign t_umode_t = 2" "wf_ctype t_umode_t"
  by (simp_all add: t_umode_t_def layout)

definition s_kernfs_elem_dir :: ctype where
  "s_kernfs_elem_dir = CStruct
     [Fld ''subdirs'' (CInt 8),
      Fld ''children'' s_rb_root,
      Fld ''root'' CPtr,
      Fld ''rev'' (CInt 8)]"

lemma s_kernfs_elem_dir_layout [layout]: "csize s_kernfs_elem_dir = 32" "calign s_kernfs_elem_dir = 8" "wf_ctype s_kernfs_elem_dir"
  by (simp_all add: s_kernfs_elem_dir_def layout)

definition s_kernfs_elem_symlink :: ctype where
  "s_kernfs_elem_symlink = CStruct
     [Fld ''target_kn'' CPtr]"

lemma s_kernfs_elem_symlink_layout [layout]: "csize s_kernfs_elem_symlink = 8" "calign s_kernfs_elem_symlink = 8" "wf_ctype s_kernfs_elem_symlink"
  by (simp_all add: s_kernfs_elem_symlink_def layout)

definition s_kernfs_elem_attr :: ctype where
  "s_kernfs_elem_attr = CStruct
     [Fld ''ops'' CPtr,
      Fld ''open'' CPtr,
      Fld ''size'' t_loff_t,
      Fld ''notify_next'' CPtr]"

lemma s_kernfs_elem_attr_layout [layout]: "csize s_kernfs_elem_attr = 32" "calign s_kernfs_elem_attr = 8" "wf_ctype s_kernfs_elem_attr"
  by (simp_all add: s_kernfs_elem_attr_def layout)

definition s_kernfs_node :: ctype where
  "s_kernfs_node = CStruct
     [Fld ''count'' t_atomic_t,
      Fld ''active'' t_atomic_t,
      Fld ''__parent'' CPtr,
      Fld ''name'' CPtr,
      Fld ''rb'' s_rb_node,
      Fld ''ns'' CPtr,
      Fld ''hash'' (CInt 4),
      Fld ''flags'' (CInt 2),
      Fld ''mode'' t_umode_t,
      Fld '''' (CUnion
        [Fld ''dir'' s_kernfs_elem_dir,
         Fld ''symlink'' s_kernfs_elem_symlink,
         Fld ''attr'' s_kernfs_elem_attr]),
      Fld ''id'' t_u64,
      Fld ''priv'' CPtr,
      Fld ''iattr'' CPtr,
      Fld ''rcu'' s_callback_head]"

lemma s_kernfs_node_layout [layout]: "csize s_kernfs_node = 136" "calign s_kernfs_node = 8" "wf_ctype s_kernfs_node"
  by (simp_all add: s_kernfs_node_def layout)

definition s_percpu_ref :: ctype where
  "s_percpu_ref = CStruct
     [Fld ''percpu_count_ptr'' (CInt 8),
      Fld ''data'' CPtr]"

lemma s_percpu_ref_layout [layout]: "csize s_percpu_ref = 16" "calign s_percpu_ref = 8" "wf_ctype s_percpu_ref"
  by (simp_all add: s_percpu_ref_def layout)

definition s_rcu_work :: ctype where
  "s_rcu_work = CStruct
     [Fld ''work'' s_work_struct,
      Fld ''rcu'' s_callback_head,
      Fld ''wq'' CPtr]"

lemma s_rcu_work_layout [layout]: "csize s_rcu_work = 56" "calign s_rcu_work = 8" "wf_ctype s_rcu_work"
  by (simp_all add: s_rcu_work_def layout)

definition s_cgroup_subsys_state :: ctype where
  "s_cgroup_subsys_state = CStruct
     [Fld ''cgroup'' CPtr,
      Fld ''ss'' CPtr,
      Fld ''refcnt'' s_percpu_ref,
      Fld ''rstat_cpu'' CPtr,
      Fld ''sibling'' s_list_head,
      Fld ''children'' s_list_head,
      Fld ''id'' (CInt 4),
      Fld ''flags'' (CInt 4),
      Fld ''serial_nr'' t_u64,
      Fld ''online_cnt'' t_atomic_t,
      Fld ''destroy_work'' s_work_struct,
      Fld ''destroy_rwork'' s_rcu_work,
      Fld ''parent'' CPtr,
      Fld ''nr_descendants'' (CInt 4),
      Fld ''rstat_flush_next'' CPtr]"

lemma s_cgroup_subsys_state_layout [layout]: "csize s_cgroup_subsys_state = 208" "calign s_cgroup_subsys_state = 8" "wf_ctype s_cgroup_subsys_state"
  by (simp_all add: s_cgroup_subsys_state_def layout)

definition s_cgroup_file :: ctype where
  "s_cgroup_file = CStruct
     [Fld ''kn'' CPtr,
      Fld ''notified_at'' (CInt 8),
      Fld ''notify_timer'' s_timer_list]"

lemma s_cgroup_file_layout [layout]: "csize s_cgroup_file = 56" "calign s_cgroup_file = 8" "wf_ctype s_cgroup_file"
  by (simp_all add: s_cgroup_file_def layout)

definition s_cacheline_padding :: ctype where
  "s_cacheline_padding = CStruct
     [Fld ''x'' (CArr (CInt 1) 0)]"

lemma s_cacheline_padding_layout [layout]: "csize s_cacheline_padding = 0" "calign s_cacheline_padding = 1" "wf_ctype s_cacheline_padding"
  by (simp_all add: s_cacheline_padding_def layout)

definition s_task_cputime :: ctype where
  "s_task_cputime = CStruct
     [Fld ''stime'' t_u64,
      Fld ''utime'' t_u64,
      Fld ''sum_exec_runtime'' (CInt 8)]"

lemma s_task_cputime_layout [layout]: "csize s_task_cputime = 24" "calign s_task_cputime = 8" "wf_ctype s_task_cputime"
  by (simp_all add: s_task_cputime_def layout)

definition s_cgroup_base_stat :: ctype where
  "s_cgroup_base_stat = CStruct
     [Fld ''cputime'' s_task_cputime,
      Fld ''forceidle_sum'' t_u64,
      Fld ''ntime'' t_u64]"

lemma s_cgroup_base_stat_layout [layout]: "csize s_cgroup_base_stat = 40" "calign s_cgroup_base_stat = 8" "wf_ctype s_cgroup_base_stat"
  by (simp_all add: s_cgroup_base_stat_def layout)

definition t_raw_spinlock_t :: ctype where
  "t_raw_spinlock_t = s_raw_spinlock"

lemma t_raw_spinlock_t_layout [layout]: "csize t_raw_spinlock_t = 4" "calign t_raw_spinlock_t = 4" "wf_ctype t_raw_spinlock_t"
  by (simp_all add: t_raw_spinlock_t_def layout)

definition s_prev_cputime :: ctype where
  "s_prev_cputime = CStruct
     [Fld ''utime'' t_u64,
      Fld ''stime'' t_u64,
      Fld ''lock'' t_raw_spinlock_t]"

lemma s_prev_cputime_layout [layout]: "csize s_prev_cputime = 24" "calign s_prev_cputime = 8" "wf_ctype s_prev_cputime"
  by (simp_all add: s_prev_cputime_def layout)

definition s_optimistic_spin_queue :: ctype where
  "s_optimistic_spin_queue = CStruct
     [Fld ''tail'' t_atomic_t]"

lemma s_optimistic_spin_queue_layout [layout]: "csize s_optimistic_spin_queue = 4" "calign s_optimistic_spin_queue = 4" "wf_ctype s_optimistic_spin_queue"
  by (simp_all add: s_optimistic_spin_queue_def layout)

definition s_mutex :: ctype where
  "s_mutex = CStruct
     [Fld ''owner'' t_atomic_long_t,
      Fld ''wait_lock'' t_raw_spinlock_t,
      Fld ''osq'' s_optimistic_spin_queue,
      Fld ''wait_list'' s_list_head]"

lemma s_mutex_layout [layout]: "csize s_mutex = 32" "calign s_mutex = 8" "wf_ctype s_mutex"
  by (simp_all add: s_mutex_def layout)

definition s_cgroup_bpf :: ctype where
  "s_cgroup_bpf = CStruct
     [Fld ''effective'' (CArr CPtr 38),
      Fld ''progs'' (CArr s_hlist_head 38),
      Fld ''flags'' (CArr t_u8 38),
      Fld ''revisions'' (CArr t_u64 38),
      Fld ''storages'' s_list_head,
      Fld ''inactive'' CPtr,
      Fld ''refcnt'' s_percpu_ref,
      Fld ''release_work'' s_work_struct]"

lemma s_cgroup_bpf_layout [layout]: "csize s_cgroup_bpf = 1024" "calign s_cgroup_bpf = 8" "wf_ctype s_cgroup_bpf"
  by (simp_all add: s_cgroup_bpf_def layout)

definition s_seqcount :: ctype where
  "s_seqcount = CStruct
     [Fld ''sequence'' (CInt 4)]"

lemma s_seqcount_layout [layout]: "csize s_seqcount = 4" "calign s_seqcount = 4" "wf_ctype s_seqcount"
  by (simp_all add: s_seqcount_def layout)

definition t_seqcount_t :: ctype where
  "t_seqcount_t = s_seqcount"

lemma t_seqcount_t_layout [layout]: "csize t_seqcount_t = 4" "calign t_seqcount_t = 4" "wf_ctype t_seqcount_t"
  by (simp_all add: t_seqcount_t_def layout)

definition s_seqcount_spinlock :: ctype where
  "s_seqcount_spinlock = CStruct
     [Fld ''seqcount'' t_seqcount_t]"

lemma s_seqcount_spinlock_layout [layout]: "csize s_seqcount_spinlock = 4" "calign s_seqcount_spinlock = 4" "wf_ctype s_seqcount_spinlock"
  by (simp_all add: s_seqcount_spinlock_def layout)

definition t_seqcount_spinlock_t :: ctype where
  "t_seqcount_spinlock_t = s_seqcount_spinlock"

lemma t_seqcount_spinlock_t_layout [layout]: "csize t_seqcount_spinlock_t = 4" "calign t_seqcount_spinlock_t = 4" "wf_ctype t_seqcount_spinlock_t"
  by (simp_all add: t_seqcount_spinlock_t_def layout)

definition s_cgroup_freezer_state :: ctype where
  "s_cgroup_freezer_state = CStruct
     [Fld ''freeze'' (CInt 1),
      Fld ''e_freeze'' (CInt 1),
      Fld ''nr_frozen_descendants'' (CInt 4),
      Fld ''nr_frozen_tasks'' (CInt 4),
      Fld ''freeze_seq'' t_seqcount_spinlock_t,
      Fld ''freeze_start_nsec'' t_u64,
      Fld ''frozen_nsec'' t_u64]"

lemma s_cgroup_freezer_state_layout [layout]: "csize s_cgroup_freezer_state = 32" "calign s_cgroup_freezer_state = 8" "wf_ctype s_cgroup_freezer_state"
  by (simp_all add: s_cgroup_freezer_state_def layout)

definition s_cgroup :: ctype where
  "s_cgroup = CStruct
     [Fld ''self'' s_cgroup_subsys_state,
      Fld ''flags'' (CInt 8),
      Fld ''level'' (CInt 4),
      Fld ''max_depth'' (CInt 4),
      Fld ''nr_descendants'' (CInt 4),
      Fld ''nr_dying_descendants'' (CInt 4),
      Fld ''max_descendants'' (CInt 4),
      Fld ''nr_populated_csets'' (CInt 4),
      Fld ''nr_populated_domain_children'' (CInt 4),
      Fld ''nr_populated_threaded_children'' (CInt 4),
      Fld ''nr_threaded_children'' (CInt 4),
      Fld ''kill_seq'' (CInt 4),
      Fld ''kn'' CPtr,
      Fld ''procs_file'' s_cgroup_file,
      Fld ''events_file'' s_cgroup_file,
      Fld ''psi_files'' (CArr s_cgroup_file 3),
      Fld ''subtree_control'' t_u32,
      Fld ''subtree_ss_mask'' t_u32,
      Fld ''old_subtree_control'' t_u32,
      Fld ''old_subtree_ss_mask'' t_u32,
      Fld ''subsys'' (CArr CPtr 15),
      Fld ''nr_dying_subsys'' (CArr (CInt 4) 15),
      Fld ''root'' CPtr,
      Fld ''cset_links'' s_list_head,
      Fld ''e_csets'' (CArr s_list_head 15),
      Fld ''dom_cgrp'' CPtr,
      Fld ''old_dom_cgrp'' CPtr,
      Fld ''rstat_base_cpu'' CPtr,
      Bitf '''' 8 64,
      Bitf '''' 8 64,
      Bitf '''' 8 64,
      Bitf '''' 8 64,
      Bitf '''' 8 64,
      Bitf '''' 8 64,
      Bitf '''' 8 64,
      Fld ''_pad_'' s_cacheline_padding,
      Fld ''last_bstat'' s_cgroup_base_stat,
      Fld ''bstat'' s_cgroup_base_stat,
      Fld ''prev_cputime'' s_prev_cputime,
      Fld ''pidlists'' s_list_head,
      Fld ''pidlist_mutex'' s_mutex,
      Fld ''offline_waitq'' t_wait_queue_head_t,
      Fld ''dying_populated_waitq'' t_wait_queue_head_t,
      Fld ''release_agent_work'' s_work_struct,
      Fld ''psi'' CPtr,
      Fld ''bpf'' s_cgroup_bpf,
      Fld ''freezer'' s_cgroup_freezer_state,
      Fld ''bpf_cgrp_storage'' CPtr,
      Fld '''' (CUnion
        [Fld '''' (CStruct
           [Fld ''__empty_ancestors'' (CStruct
              []),
            Fld ''ancestors'' (CArr CPtr 0)]),
         Fld '''' (CStruct
           [Fld ''_root_ancestor'' CPtr,
            Fld '''' (CStruct
              [Fld ''__empty__low_ancestors'' (CStruct
                 []),
               Fld ''_low_ancestors'' (CArr CPtr 0)])])]),
      Bitf '''' 8 64,
      Bitf '''' 8 64,
      Bitf '''' 8 64,
      Bitf '''' 8 64]"

lemma s_cgroup_layout [layout]: "csize s_cgroup = 2432" "calign s_cgroup = 8" "wf_ctype s_cgroup"
  by (simp_all add: s_cgroup_def layout)

definition s_css_set :: ctype where
  "s_css_set = CStruct
     [Fld ''subsys'' (CArr CPtr 15),
      Fld ''refcount'' t_refcount_t,
      Fld ''dom_cset'' CPtr,
      Fld ''dfl_cgrp'' CPtr,
      Fld ''nr_tasks'' (CInt 4),
      Fld ''tasks'' s_list_head,
      Fld ''mg_tasks'' s_list_head,
      Fld ''dying_tasks'' s_list_head,
      Fld ''task_iters'' s_list_head,
      Fld ''e_cset_node'' (CArr s_list_head 15),
      Fld ''threaded_csets'' s_list_head,
      Fld ''threaded_csets_node'' s_list_head,
      Fld ''hlist'' s_hlist_node,
      Fld ''cgrp_links'' s_list_head,
      Fld ''mg_src_preload_node'' s_list_head,
      Fld ''mg_dst_preload_node'' s_list_head,
      Fld ''mg_node'' s_list_head,
      Fld ''mg_src_cgrp'' CPtr,
      Fld ''mg_dst_cgrp'' CPtr,
      Fld ''mg_dst_cset'' CPtr,
      Fld ''dead'' (CInt 1),
      Fld ''callback_head'' s_callback_head]"

lemma s_css_set_layout [layout]: "csize s_css_set = 616" "calign s_css_set = 8" "wf_ctype s_css_set"
  by (simp_all add: s_css_set_def layout)

definition t___kernel_gid32_t :: ctype where
  "t___kernel_gid32_t = CInt 4"

lemma t___kernel_gid32_t_layout [layout]: "csize t___kernel_gid32_t = 4" "calign t___kernel_gid32_t = 4" "wf_ctype t___kernel_gid32_t"
  by (simp_all add: t___kernel_gid32_t_def layout)

definition t_gid_t :: ctype where
  "t_gid_t = t___kernel_gid32_t"

lemma t_gid_t_layout [layout]: "csize t_gid_t = 4" "calign t_gid_t = 4" "wf_ctype t_gid_t"
  by (simp_all add: t_gid_t_def layout)

definition t_kgid_t :: ctype where
  "t_kgid_t = CStruct
     [Fld ''val'' t_gid_t]"

lemma t_kgid_t_layout [layout]: "csize t_kgid_t = 4" "calign t_kgid_t = 4" "wf_ctype t_kgid_t"
  by (simp_all add: t_kgid_t_def layout)

definition t_kernel_cap_t :: ctype where
  "t_kernel_cap_t = CStruct
     [Fld ''val'' t_u64]"

lemma t_kernel_cap_t_layout [layout]: "csize t_kernel_cap_t = 8" "calign t_kernel_cap_t = 8" "wf_ctype t_kernel_cap_t"
  by (simp_all add: t_kernel_cap_t_def layout)

definition s_cred :: ctype where
  "s_cred = CStruct
     [Fld ''usage'' t_atomic_long_t,
      Fld ''uid'' t_kuid_t,
      Fld ''gid'' t_kgid_t,
      Fld ''suid'' t_kuid_t,
      Fld ''sgid'' t_kgid_t,
      Fld ''euid'' t_kuid_t,
      Fld ''egid'' t_kgid_t,
      Fld ''fsuid'' t_kuid_t,
      Fld ''fsgid'' t_kgid_t,
      Fld ''securebits'' (CInt 4),
      Fld ''cap_inheritable'' t_kernel_cap_t,
      Fld ''cap_permitted'' t_kernel_cap_t,
      Fld ''cap_effective'' t_kernel_cap_t,
      Fld ''cap_bset'' t_kernel_cap_t,
      Fld ''cap_ambient'' t_kernel_cap_t,
      Fld ''jit_keyring'' (CInt 1),
      Fld ''session_keyring'' CPtr,
      Fld ''process_keyring'' CPtr,
      Fld ''thread_keyring'' CPtr,
      Fld ''request_key_auth'' CPtr,
      Fld ''security'' CPtr,
      Fld ''user'' CPtr,
      Fld ''user_ns'' CPtr,
      Fld ''ucounts'' CPtr,
      Fld ''group_info'' CPtr,
      Fld '''' (CUnion
        [Fld ''non_rcu'' (CInt 4),
         Fld ''rcu'' s_callback_head])]"

lemma s_cred_layout [layout]: "csize s_cred = 184" "calign s_cred = 8" "wf_ctype s_cred"
  by (simp_all add: s_cred_def layout)

definition t_fmode_t :: ctype where
  "t_fmode_t = CInt 4"

lemma t_fmode_t_layout [layout]: "csize t_fmode_t = 4" "calign t_fmode_t = 4" "wf_ctype t_fmode_t"
  by (simp_all add: t_fmode_t_def layout)

definition s_path :: ctype where
  "s_path = CStruct
     [Fld ''mnt'' CPtr,
      Fld ''dentry'' CPtr]"

lemma s_path_layout [layout]: "csize s_path = 16" "calign s_path = 8" "wf_ctype s_path"
  by (simp_all add: s_path_def layout)

definition t_errseq_t :: ctype where
  "t_errseq_t = t_u32"

lemma t_errseq_t_layout [layout]: "csize t_errseq_t = 4" "calign t_errseq_t = 4" "wf_ctype t_errseq_t"
  by (simp_all add: t_errseq_t_def layout)

definition s_llist_node :: ctype where
  "s_llist_node = CStruct
     [Fld ''next'' CPtr]"

lemma s_llist_node_layout [layout]: "csize s_llist_node = 8" "calign s_llist_node = 8" "wf_ctype s_llist_node"
  by (simp_all add: s_llist_node_def layout)

definition s_file_ra_state :: ctype where
  "s_file_ra_state = CStruct
     [Fld ''start'' (CInt 8),
      Fld ''size'' (CInt 4),
      Fld ''async_size'' (CInt 4),
      Fld ''ra_pages'' (CInt 4),
      Fld ''order'' (CInt 2),
      Fld ''mmap_miss'' (CInt 2),
      Fld ''prev_pos'' t_loff_t]"

lemma s_file_ra_state_layout [layout]: "csize s_file_ra_state = 32" "calign s_file_ra_state = 8" "wf_ctype s_file_ra_state"
  by (simp_all add: s_file_ra_state_def layout)

definition t_file_ref_t :: ctype where
  "t_file_ref_t = CStruct
     [Fld ''refcnt'' t_atomic64_t]"

lemma t_file_ref_t_layout [layout]: "csize t_file_ref_t = 8" "calign t_file_ref_t = 8" "wf_ctype t_file_ref_t"
  by (simp_all add: t_file_ref_t_def layout)

definition s_file :: ctype where
  "s_file = CStruct
     [Fld ''f_lock'' t_spinlock_t,
      Fld ''f_mode'' t_fmode_t,
      Fld ''f_op'' CPtr,
      Fld ''f_mapping'' CPtr,
      Fld ''private_data'' CPtr,
      Fld ''f_inode'' CPtr,
      Fld ''f_flags'' (CInt 4),
      Fld ''f_iocb_flags'' (CInt 4),
      Fld ''f_cred'' CPtr,
      Fld ''f_owner'' CPtr,
      Fld '''' (CUnion
        [Fld ''f_path'' s_path,
         Fld ''__f_path'' s_path]),
      Fld '''' (CUnion
        [Fld ''f_pos_lock'' s_mutex,
         Fld ''f_pipe'' t_u64]),
      Fld ''f_pos'' t_loff_t,
      Fld ''f_security'' CPtr,
      Fld ''f_wb_err'' t_errseq_t,
      Fld ''f_sb_err'' t_errseq_t,
      Fld ''f_ep'' CPtr,
      Fld '''' (CUnion
        [Fld ''f_task_work'' s_callback_head,
         Fld ''f_llist'' s_llist_node,
         Fld ''f_ra'' s_file_ra_state,
         Fld ''f_freeptr'' t_freeptr_t]),
      Fld ''f_ref'' t_file_ref_t]"

lemma s_file_layout [layout]: "csize s_file = 184" "calign s_file = 8" "wf_ctype s_file"
  by (simp_all add: s_file_def layout)

definition t___kernel_dev_t :: ctype where
  "t___kernel_dev_t = t_u32"

lemma t___kernel_dev_t_layout [layout]: "csize t___kernel_dev_t = 4" "calign t___kernel_dev_t = 4" "wf_ctype t___kernel_dev_t"
  by (simp_all add: t___kernel_dev_t_def layout)

definition t_dev_t :: ctype where
  "t_dev_t = t___kernel_dev_t"

lemma t_dev_t_layout [layout]: "csize t_dev_t = 4" "calign t_dev_t = 4" "wf_ctype t_dev_t"
  by (simp_all add: t_dev_t_def layout)

definition t_time64_t :: ctype where
  "t_time64_t = t___s64"

lemma t_time64_t_layout [layout]: "csize t_time64_t = 8" "calign t_time64_t = 8" "wf_ctype t_time64_t"
  by (simp_all add: t_time64_t_def layout)

definition e_rw_hint :: "(string \<times> int) list" where
  "e_rw_hint =
    [(''WRITE_LIFE_NOT_SET'', 0), (''WRITE_LIFE_NONE'', 1), (''WRITE_LIFE_SHORT'', 2),
     (''WRITE_LIFE_MEDIUM'', 3), (''WRITE_LIFE_LONG'', 4), (''WRITE_LIFE_EXTREME'', 5),
     (''WRITE_LIFE_HINT_NR'', 6)]"

definition t_blkcnt_t :: ctype where
  "t_blkcnt_t = t_u64"

lemma t_blkcnt_t_layout [layout]: "csize t_blkcnt_t = 8" "calign t_blkcnt_t = 8" "wf_ctype t_blkcnt_t"
  by (simp_all add: t_blkcnt_t_def layout)

definition e_inode_state_flags_enum :: "(string \<times> int) list" where
  "e_inode_state_flags_enum =
    [(''I_NEW'', 1), (''I_SYNC'', 2), (''I_LRU_ISOLATING'', 4), (''I_DIRTY_SYNC'', 16),
     (''I_DIRTY_DATASYNC'', 32), (''I_DIRTY_PAGES'', 64), (''I_WILL_FREE'', 128), (''I_FREEING'', 256),
     (''I_CLEAR'', 512), (''I_REFERENCED'', 1024), (''I_LINKABLE'', 2048), (''I_DIRTY_TIME'', 4096),
     (''I_WB_SWITCH'', 8192), (''I_OVL_INUSE'', 16384), (''I_CREATING'', 32768), (''I_DONTCACHE'', 65536),
     (''I_SYNC_QUEUED'', 131072), (''I_PINNING_NETFS_WB'', 262144)]"

definition s_inode_state_flags :: ctype where
  "s_inode_state_flags = CStruct
     [Fld ''__state'' (CInt 4)]"

lemma s_inode_state_flags_layout [layout]: "csize s_inode_state_flags = 4" "calign s_inode_state_flags = 4" "wf_ctype s_inode_state_flags"
  by (simp_all add: s_inode_state_flags_def layout)

definition s_rw_semaphore :: ctype where
  "s_rw_semaphore = CStruct
     [Fld ''count'' t_atomic_long_t,
      Fld ''owner'' t_atomic_long_t,
      Fld ''osq'' s_optimistic_spin_queue,
      Fld ''wait_lock'' t_raw_spinlock_t,
      Fld ''wait_list'' s_list_head]"

lemma s_rw_semaphore_layout [layout]: "csize s_rw_semaphore = 40" "calign s_rw_semaphore = 8" "wf_ctype s_rw_semaphore"
  by (simp_all add: s_rw_semaphore_def layout)

definition s_rb_root_cached :: ctype where
  "s_rb_root_cached = CStruct
     [Fld ''rb_root'' s_rb_root,
      Fld ''rb_leftmost'' CPtr]"

lemma s_rb_root_cached_layout [layout]: "csize s_rb_root_cached = 16" "calign s_rb_root_cached = 8" "wf_ctype s_rb_root_cached"
  by (simp_all add: s_rb_root_cached_def layout)

definition s_address_space :: ctype where
  "s_address_space = CStruct
     [Fld ''host'' CPtr,
      Fld ''i_pages'' s_xarray,
      Fld ''invalidate_lock'' s_rw_semaphore,
      Fld ''gfp_mask'' t_gfp_t,
      Fld ''i_mmap_writable'' t_atomic_t,
      Fld ''i_mmap'' s_rb_root_cached,
      Fld ''nrpages'' (CInt 8),
      Fld ''writeback_index'' (CInt 8),
      Fld ''a_ops'' CPtr,
      Fld ''flags'' (CInt 8),
      Fld ''wb_err'' t_errseq_t,
      Fld ''i_private_lock'' t_spinlock_t,
      Fld ''i_private_list'' s_list_head,
      Fld ''i_mmap_rwsem'' s_rw_semaphore,
      Fld ''i_private_data'' CPtr]"

lemma s_address_space_layout [layout]: "csize s_address_space = 192" "calign s_address_space = 8" "wf_ctype s_address_space"
  by (simp_all add: s_address_space_def layout)

definition s_inode :: ctype where
  "s_inode = CStruct
     [Fld ''i_mode'' t_umode_t,
      Fld ''i_opflags'' (CInt 2),
      Fld ''i_flags'' (CInt 4),
      Fld ''i_acl'' CPtr,
      Fld ''i_default_acl'' CPtr,
      Fld ''i_uid'' t_kuid_t,
      Fld ''i_gid'' t_kgid_t,
      Fld ''i_op'' CPtr,
      Fld ''i_sb'' CPtr,
      Fld ''i_mapping'' CPtr,
      Fld ''i_security'' CPtr,
      Fld ''i_ino'' (CInt 8),
      Fld '''' (CUnion
        [Fld ''i_nlink'' (CInt 4),
         Fld ''__i_nlink'' (CInt 4)]),
      Fld ''i_rdev'' t_dev_t,
      Fld ''i_size'' t_loff_t,
      Fld ''i_atime_sec'' t_time64_t,
      Fld ''i_mtime_sec'' t_time64_t,
      Fld ''i_ctime_sec'' t_time64_t,
      Fld ''i_atime_nsec'' t_u32,
      Fld ''i_mtime_nsec'' t_u32,
      Fld ''i_ctime_nsec'' t_u32,
      Fld ''i_generation'' t_u32,
      Fld ''i_lock'' t_spinlock_t,
      Fld ''i_bytes'' (CInt 2),
      Fld ''i_blkbits'' t_u8,
      Fld ''i_write_hint'' (CInt 4),
      Fld ''i_blocks'' t_blkcnt_t,
      Fld ''i_state'' s_inode_state_flags,
      Fld ''i_rwsem'' s_rw_semaphore,
      Fld ''dirtied_when'' (CInt 8),
      Fld ''dirtied_time_when'' (CInt 8),
      Fld ''i_hash'' s_hlist_node,
      Fld ''i_io_list'' s_list_head,
      Fld ''i_wb'' CPtr,
      Fld ''i_wb_frn_winner'' (CInt 4),
      Fld ''i_wb_frn_avg_time'' t_u16,
      Fld ''i_wb_frn_history'' t_u16,
      Fld ''i_lru'' s_list_head,
      Fld ''i_sb_list'' s_list_head,
      Fld ''i_wb_list'' s_list_head,
      Fld '''' (CUnion
        [Fld ''i_dentry'' s_hlist_head,
         Fld ''i_rcu'' s_callback_head]),
      Fld ''i_version'' t_atomic64_t,
      Fld ''i_sequence'' t_atomic64_t,
      Fld ''i_count'' t_atomic_t,
      Fld ''i_dio_count'' t_atomic_t,
      Fld ''i_writecount'' t_atomic_t,
      Fld ''i_readcount'' t_atomic_t,
      Fld '''' (CUnion
        [Fld ''i_fop'' CPtr,
         Fld ''free_inode'' CPtr]),
      Fld ''i_flctx'' CPtr,
      Fld ''i_data'' s_address_space,
      Fld '''' (CUnion
        [Fld ''i_devices'' s_list_head,
         Fld ''i_linklen'' (CInt 4)]),
      Fld '''' (CUnion
        [Fld ''i_pipe'' CPtr,
         Fld ''i_cdev'' CPtr,
         Fld ''i_link'' CPtr,
         Fld ''i_dir_seq'' (CInt 4)]),
      Fld ''i_fsnotify_mask'' t___u32,
      Fld ''i_fsnotify_marks'' CPtr,
      Fld ''i_private'' CPtr]"

lemma s_inode_layout [layout]: "csize s_inode = 616" "calign s_inode = 8" "wf_ctype s_inode"
  by (simp_all add: s_inode_def layout)

definition s_io_connect :: ctype where
  "s_io_connect = CStruct
     [Fld ''file'' CPtr,
      Fld ''addr'' CPtr,
      Fld ''addr_len'' (CInt 4),
      Fld ''in_progress'' (CInt 1),
      Fld ''seen_econnaborted'' (CInt 1)]"

lemma s_io_connect_layout [layout]: "csize s_io_connect = 24" "calign s_io_connect = 8" "wf_ctype s_io_connect"
  by (simp_all add: s_io_connect_def layout)

definition s_io_cmd_data :: ctype where
  "s_io_cmd_data = CStruct
     [Fld ''file'' CPtr,
      Fld ''data'' (CArr t___u8 56)]"

lemma s_io_cmd_data_layout [layout]: "csize s_io_cmd_data = 64" "calign s_io_cmd_data = 8" "wf_ctype s_io_cmd_data"
  by (simp_all add: s_io_cmd_data_def layout)

definition t_io_req_flags_t :: ctype where
  "t_io_req_flags_t = t_u64"

lemma t_io_req_flags_t_layout [layout]: "csize t_io_req_flags_t = 8" "calign t_io_req_flags_t = 8" "wf_ctype t_io_req_flags_t"
  by (simp_all add: t_io_req_flags_t_def layout)

definition s_io_cqe :: ctype where
  "s_io_cqe = CStruct
     [Fld ''user_data'' t___u64,
      Fld ''res'' t___s32,
      Fld '''' (CUnion
        [Fld ''flags'' t___u32,
         Fld ''fd'' (CInt 4)])]"

lemma s_io_cqe_layout [layout]: "csize s_io_cqe = 16" "calign s_io_cqe = 8" "wf_ctype s_io_cqe"
  by (simp_all add: s_io_cqe_def layout)

definition s_io_wq_work_node :: ctype where
  "s_io_wq_work_node = CStruct
     [Fld ''next'' CPtr]"

lemma s_io_wq_work_node_layout [layout]: "csize s_io_wq_work_node = 8" "calign s_io_wq_work_node = 8" "wf_ctype s_io_wq_work_node"
  by (simp_all add: s_io_wq_work_node_def layout)

definition t___poll_t :: ctype where
  "t___poll_t = CInt 4"

lemma t___poll_t_layout [layout]: "csize t___poll_t = 4" "calign t___poll_t = 4" "wf_ctype t___poll_t"
  by (simp_all add: t___poll_t_def layout)

definition t_io_req_tw_func_t :: ctype where
  "t_io_req_tw_func_t = CPtr"

lemma t_io_req_tw_func_t_layout [layout]: "csize t_io_req_tw_func_t = 8" "calign t_io_req_tw_func_t = 8" "wf_ctype t_io_req_tw_func_t"
  by (simp_all add: t_io_req_tw_func_t_def layout)

definition s_io_task_work :: ctype where
  "s_io_task_work = CStruct
     [Fld ''node'' s_llist_node,
      Fld ''func'' t_io_req_tw_func_t]"

lemma s_io_task_work_layout [layout]: "csize s_io_task_work = 16" "calign s_io_task_work = 8" "wf_ctype s_io_task_work"
  by (simp_all add: s_io_task_work_def layout)

definition s_io_wq_work :: ctype where
  "s_io_wq_work = CStruct
     [Fld ''list'' s_io_wq_work_node,
      Fld ''flags'' t_atomic_t,
      Fld ''cancel_seq'' (CInt 4)]"

lemma s_io_wq_work_layout [layout]: "csize s_io_wq_work = 16" "calign s_io_wq_work = 8" "wf_ctype s_io_wq_work"
  by (simp_all add: s_io_wq_work_def layout)

definition s_io_big_cqe :: ctype where
  "s_io_big_cqe = CStruct
     [Fld ''extra1'' t_u64,
      Fld ''extra2'' t_u64]"

lemma s_io_big_cqe_layout [layout]: "csize s_io_big_cqe = 16" "calign s_io_big_cqe = 8" "wf_ctype s_io_big_cqe"
  by (simp_all add: s_io_big_cqe_def layout)

definition s_io_kiocb :: ctype where
  "s_io_kiocb = CStruct
     [Fld '''' (CUnion
        [Fld ''file'' CPtr,
         Fld ''cmd'' s_io_cmd_data]),
      Fld ''opcode'' t_u8,
      Fld ''iopoll_completed'' t_u8,
      Fld ''buf_index'' t_u16,
      Fld ''nr_tw'' (CInt 4),
      Fld ''flags'' t_io_req_flags_t,
      Fld ''cqe'' s_io_cqe,
      Fld ''ctx'' CPtr,
      Fld ''tctx'' CPtr,
      Fld '''' (CUnion
        [Fld ''kbuf'' CPtr,
         Fld ''buf_node'' CPtr]),
      Fld '''' (CUnion
        [Fld ''comp_list'' s_io_wq_work_node,
         Fld ''apoll_events'' t___poll_t]),
      Fld ''file_node'' CPtr,
      Fld ''refs'' t_atomic_t,
      Fld ''cancel_seq_set'' (CInt 1),
      Fld '''' (CUnion
        [Fld ''io_task_work'' s_io_task_work,
         Fld ''iopoll_start'' t_u64]),
      Fld '''' (CUnion
        [Fld ''hash_node'' s_hlist_node,
         Fld ''iopoll_node'' s_list_head,
         Fld ''callback_head'' s_callback_head]),
      Fld ''apoll'' CPtr,
      Fld ''async_data'' CPtr,
      Fld ''poll_refs'' t_atomic_t,
      Fld ''link'' CPtr,
      Fld ''creds'' CPtr,
      Fld ''work'' s_io_wq_work,
      Fld ''big_cqe'' s_io_big_cqe]"

lemma s_io_kiocb_layout [layout]: "csize s_io_kiocb = 248" "calign s_io_kiocb = 8" "wf_ctype s_io_kiocb"
  by (simp_all add: s_io_kiocb_def layout)

definition s_thread_info :: ctype where
  "s_thread_info = CStruct
     [Fld ''flags'' (CInt 8),
      Fld ''syscall_work'' (CInt 8),
      Fld ''status'' t_u32,
      Fld ''cpu'' t_u32]"

lemma s_thread_info_layout [layout]: "csize s_thread_info = 24" "calign s_thread_info = 8" "wf_ctype s_thread_info"
  by (simp_all add: s_thread_info_def layout)

definition s___call_single_node :: ctype where
  "s___call_single_node = CStruct
     [Fld ''llist'' s_llist_node,
      Fld '''' (CUnion
        [Fld ''u_flags'' (CInt 4),
         Fld ''a_flags'' t_atomic_t]),
      Fld ''src'' t_u16,
      Fld ''dst'' t_u16]"

lemma s___call_single_node_layout [layout]: "csize s___call_single_node = 16" "calign s___call_single_node = 8" "wf_ctype s___call_single_node"
  by (simp_all add: s___call_single_node_def layout)

definition s_load_weight :: ctype where
  "s_load_weight = CStruct
     [Fld ''weight'' (CInt 8),
      Fld ''inv_weight'' t_u32]"

lemma s_load_weight_layout [layout]: "csize s_load_weight = 16" "calign s_load_weight = 8" "wf_ctype s_load_weight"
  by (simp_all add: s_load_weight_def layout)

definition s_sched_avg :: ctype where
  "s_sched_avg = CStruct
     [Fld ''last_update_time'' t_u64,
      Fld ''load_sum'' t_u64,
      Fld ''runnable_sum'' t_u64,
      Fld ''util_sum'' t_u32,
      Fld ''period_contrib'' t_u32,
      Fld ''load_avg'' (CInt 8),
      Fld ''runnable_avg'' (CInt 8),
      Fld ''util_avg'' (CInt 8),
      Fld ''util_est'' (CInt 4)]"

lemma s_sched_avg_layout [layout]: "csize s_sched_avg = 64" "calign s_sched_avg = 8" "wf_ctype s_sched_avg"
  by (simp_all add: s_sched_avg_def layout)

definition s_sched_entity :: ctype where
  "s_sched_entity = CStruct
     [Fld ''load'' s_load_weight,
      Fld ''run_node'' s_rb_node,
      Fld ''deadline'' t_u64,
      Fld ''min_vruntime'' t_u64,
      Fld ''min_slice'' t_u64,
      Fld ''max_slice'' t_u64,
      Fld ''group_node'' s_list_head,
      Fld ''on_rq'' (CInt 1),
      Fld ''sched_delayed'' (CInt 1),
      Fld ''rel_deadline'' (CInt 1),
      Fld ''custom_slice'' (CInt 1),
      Fld ''exec_start'' t_u64,
      Fld ''sum_exec_runtime'' t_u64,
      Fld ''prev_sum_exec_runtime'' t_u64,
      Fld ''vruntime'' t_u64,
      Fld ''vlag'' t_s64,
      Fld ''vprot'' t_u64,
      Fld ''slice'' t_u64,
      Fld ''nr_migrations'' t_u64,
      Fld ''depth'' (CInt 4),
      Fld ''parent'' CPtr,
      Fld ''cfs_rq'' CPtr,
      Fld ''my_q'' CPtr,
      Fld ''runnable_weight'' (CInt 8),
      Bitf '''' 8 64,
      Bitf '''' 8 64,
      Bitf '''' 8 64,
      Bitf '''' 8 64,
      Bitf '''' 8 64,
      Bitf '''' 8 64,
      Bitf '''' 8 64,
      Fld ''avg'' s_sched_avg]"

lemma s_sched_entity_layout [layout]: "csize s_sched_entity = 320" "calign s_sched_entity = 8" "wf_ctype s_sched_entity"
  by (simp_all add: s_sched_entity_def layout)

definition s_sched_rt_entity :: ctype where
  "s_sched_rt_entity = CStruct
     [Fld ''run_list'' s_list_head,
      Fld ''timeout'' (CInt 8),
      Fld ''watchdog_stamp'' (CInt 8),
      Fld ''time_slice'' (CInt 4),
      Fld ''on_rq'' (CInt 2),
      Fld ''on_list'' (CInt 2),
      Fld ''back'' CPtr]"

lemma s_sched_rt_entity_layout [layout]: "csize s_sched_rt_entity = 48" "calign s_sched_rt_entity = 8" "wf_ctype s_sched_rt_entity"
  by (simp_all add: s_sched_rt_entity_def layout)

definition t_dl_server_pick_f :: ctype where
  "t_dl_server_pick_f = CPtr"

lemma t_dl_server_pick_f_layout [layout]: "csize t_dl_server_pick_f = 8" "calign t_dl_server_pick_f = 8" "wf_ctype t_dl_server_pick_f"
  by (simp_all add: t_dl_server_pick_f_def layout)

definition s_sched_dl_entity :: ctype where
  "s_sched_dl_entity = CStruct
     [Fld ''rb_node'' s_rb_node,
      Fld ''dl_runtime'' t_u64,
      Fld ''dl_deadline'' t_u64,
      Fld ''dl_period'' t_u64,
      Fld ''dl_bw'' t_u64,
      Fld ''dl_density'' t_u64,
      Fld ''runtime'' t_s64,
      Fld ''deadline'' t_u64,
      Fld ''flags'' (CInt 4),
      Bitf ''dl_throttled'' 4 1,
      Bitf ''dl_yielded'' 4 1,
      Bitf ''dl_non_contending'' 4 1,
      Bitf ''dl_overrun'' 4 1,
      Bitf ''dl_server'' 4 1,
      Bitf ''dl_server_active'' 4 1,
      Bitf ''dl_defer'' 4 1,
      Bitf ''dl_defer_armed'' 4 1,
      Bitf ''dl_defer_running'' 4 1,
      Bitf ''dl_defer_idle'' 4 1,
      Fld ''dl_timer'' s_hrtimer,
      Fld ''inactive_timer'' s_hrtimer,
      Fld ''rq'' CPtr,
      Fld ''server_pick_task'' t_dl_server_pick_f,
      Fld ''pi_se'' CPtr]"

lemma s_sched_dl_entity_layout [layout]: "csize s_sched_dl_entity = 240" "calign s_sched_dl_entity = 8" "wf_ctype s_sched_dl_entity"
  by (simp_all add: s_sched_dl_entity_def layout)

definition s_scx_dsq_list_node :: ctype where
  "s_scx_dsq_list_node = CStruct
     [Fld ''node'' s_list_head,
      Fld ''flags'' t_u32,
      Fld ''priv'' t_u32]"

lemma s_scx_dsq_list_node_layout [layout]: "csize s_scx_dsq_list_node = 24" "calign s_scx_dsq_list_node = 8" "wf_ctype s_scx_dsq_list_node"
  by (simp_all add: s_scx_dsq_list_node_def layout)

definition t_s32 :: ctype where
  "t_s32 = t___s32"

lemma t_s32_layout [layout]: "csize t_s32 = 4" "calign t_s32 = 4" "wf_ctype t_s32"
  by (simp_all add: t_s32_def layout)

definition s_sched_ext_entity :: ctype where
  "s_sched_ext_entity = CStruct
     [Fld ''dsq'' CPtr,
      Fld ''dsq_list'' s_scx_dsq_list_node,
      Fld ''dsq_priq'' s_rb_node,
      Fld ''dsq_seq'' t_u32,
      Fld ''dsq_flags'' t_u32,
      Fld ''flags'' t_u32,
      Fld ''weight'' t_u32,
      Fld ''sticky_cpu'' t_s32,
      Fld ''holding_cpu'' t_s32,
      Fld ''selected_cpu'' t_s32,
      Fld ''kf_mask'' t_u32,
      Fld ''kf_tasks'' (CArr CPtr 2),
      Fld ''ops_state'' t_atomic_long_t,
      Fld ''runnable_node'' s_list_head,
      Fld ''runnable_at'' (CInt 8),
      Fld ''core_sched_at'' t_u64,
      Fld ''ddsp_dsq_id'' t_u64,
      Fld ''ddsp_enq_flags'' t_u64,
      Fld ''slice'' t_u64,
      Fld ''dsq_vtime'' t_u64,
      Fld ''disallow'' (CInt 1),
      Fld ''cgrp_moving_from'' CPtr,
      Fld ''tasks_node'' s_list_head]"

lemma s_sched_ext_entity_layout [layout]: "csize s_sched_ext_entity = 208" "calign s_sched_ext_entity = 8" "wf_ctype s_sched_ext_entity"
  by (simp_all add: s_sched_ext_entity_def layout)

definition s_uclamp_se :: ctype where
  "s_uclamp_se = CStruct
     [Bitf ''value'' 4 11,
      Bitf ''bucket_id'' 4 3,
      Bitf ''active'' 4 1,
      Bitf ''user_defined'' 4 1]"

lemma s_uclamp_se_layout [layout]: "csize s_uclamp_se = 4" "calign s_uclamp_se = 4" "wf_ctype s_uclamp_se"
  by (simp_all add: s_uclamp_se_def layout)

definition s_sched_statistics :: ctype where
  "s_sched_statistics = CStruct
     [Fld ''wait_start'' t_u64,
      Fld ''wait_max'' t_u64,
      Fld ''wait_count'' t_u64,
      Fld ''wait_sum'' t_u64,
      Fld ''iowait_count'' t_u64,
      Fld ''iowait_sum'' t_u64,
      Fld ''sleep_start'' t_u64,
      Fld ''sleep_max'' t_u64,
      Fld ''sum_sleep_runtime'' t_s64,
      Fld ''block_start'' t_u64,
      Fld ''block_max'' t_u64,
      Fld ''sum_block_runtime'' t_s64,
      Fld ''exec_max'' t_s64,
      Fld ''slice_max'' t_u64,
      Fld ''nr_migrations_cold'' t_u64,
      Fld ''nr_failed_migrations_affine'' t_u64,
      Fld ''nr_failed_migrations_running'' t_u64,
      Fld ''nr_failed_migrations_hot'' t_u64,
      Fld ''nr_forced_migrations'' t_u64,
      Fld ''nr_wakeups'' t_u64,
      Fld ''nr_wakeups_sync'' t_u64,
      Fld ''nr_wakeups_migrate'' t_u64,
      Fld ''nr_wakeups_local'' t_u64,
      Fld ''nr_wakeups_remote'' t_u64,
      Fld ''nr_wakeups_affine'' t_u64,
      Fld ''nr_wakeups_affine_attempts'' t_u64,
      Fld ''nr_wakeups_passive'' t_u64,
      Fld ''nr_wakeups_idle'' t_u64,
      Fld ''core_forceidle_sum'' t_u64,
      Bitf '''' 8 64,
      Bitf '''' 8 64,
      Bitf '''' 8 64]"

lemma s_sched_statistics_layout [layout]: "csize s_sched_statistics = 256" "calign s_sched_statistics = 8" "wf_ctype s_sched_statistics"
  by (simp_all add: s_sched_statistics_def layout)

definition s_cpumask :: ctype where
  "s_cpumask = CStruct
     [Fld ''bits'' (CArr (CInt 8) 128)]"

lemma s_cpumask_layout [layout]: "csize s_cpumask = 1024" "calign s_cpumask = 8" "wf_ctype s_cpumask"
  by (simp_all add: s_cpumask_def layout)

definition t_cpumask_t :: ctype where
  "t_cpumask_t = s_cpumask"

lemma t_cpumask_t_layout [layout]: "csize t_cpumask_t = 1024" "calign t_cpumask_t = 8" "wf_ctype t_cpumask_t"
  by (simp_all add: t_cpumask_t_def layout)

definition u_rcu_special :: ctype where
  "u_rcu_special = CUnion
     [Fld ''b'' (CStruct
        [Fld ''blocked'' t_u8,
         Fld ''need_qs'' t_u8,
         Fld ''exp_hint'' t_u8,
         Fld ''need_mb'' t_u8]),
      Fld ''s'' t_u32]"

lemma u_rcu_special_layout [layout]: "csize u_rcu_special = 4" "calign u_rcu_special = 4" "wf_ctype u_rcu_special"
  by (simp_all add: u_rcu_special_def layout)

definition s_timespec64 :: ctype where
  "s_timespec64 = CStruct
     [Fld ''tv_sec'' t_time64_t,
      Fld ''tv_nsec'' (CInt 8)]"

lemma s_timespec64_layout [layout]: "csize s_timespec64 = 16" "calign s_timespec64 = 8" "wf_ctype s_timespec64"
  by (simp_all add: s_timespec64_def layout)

definition s_sched_info :: ctype where
  "s_sched_info = CStruct
     [Fld ''pcount'' (CInt 8),
      Fld ''run_delay'' (CInt 8),
      Fld ''max_run_delay'' (CInt 8),
      Fld ''min_run_delay'' (CInt 8),
      Fld ''last_arrival'' (CInt 8),
      Fld ''last_queued'' (CInt 8),
      Fld ''max_run_delay_ts'' s_timespec64]"

lemma s_sched_info_layout [layout]: "csize s_sched_info = 64" "calign s_sched_info = 8" "wf_ctype s_sched_info"
  by (simp_all add: s_sched_info_def layout)

definition s_plist_node :: ctype where
  "s_plist_node = CStruct
     [Fld ''prio'' (CInt 4),
      Fld ''prio_list'' s_list_head,
      Fld ''node_list'' s_list_head]"

lemma s_plist_node_layout [layout]: "csize s_plist_node = 40" "calign s_plist_node = 8" "wf_ctype s_plist_node"
  by (simp_all add: s_plist_node_def layout)

definition t___kernel_clockid_t :: ctype where
  "t___kernel_clockid_t = CInt 4"

lemma t___kernel_clockid_t_layout [layout]: "csize t___kernel_clockid_t = 4" "calign t___kernel_clockid_t = 4" "wf_ctype t___kernel_clockid_t"
  by (simp_all add: t___kernel_clockid_t_def layout)

definition t_clockid_t :: ctype where
  "t_clockid_t = t___kernel_clockid_t"

lemma t_clockid_t_layout [layout]: "csize t_clockid_t = 4" "calign t_clockid_t = 4" "wf_ctype t_clockid_t"
  by (simp_all add: t_clockid_t_def layout)

definition e_timespec_type :: "(string \<times> int) list" where
  "e_timespec_type =
    [(''TT_NONE'', 0), (''TT_NATIVE'', 1), (''TT_COMPAT'', 2)]"

definition s_restart_block :: ctype where
  "s_restart_block = CStruct
     [Fld ''arch_data'' (CInt 8),
      Fld ''fn'' CPtr,
      Fld '''' (CUnion
        [Fld ''futex'' (CStruct
           [Fld ''uaddr'' CPtr,
            Fld ''val'' t_u32,
            Fld ''flags'' t_u32,
            Fld ''bitset'' t_u32,
            Fld ''time'' t_ktime_t,
            Fld ''uaddr2'' CPtr]),
         Fld ''nanosleep'' (CStruct
           [Fld ''clockid'' t_clockid_t,
            Fld ''type'' (CInt 4),
            Fld '''' (CUnion
              [Fld ''rmtp'' CPtr,
               Fld ''compat_rmtp'' CPtr]),
            Fld ''expires'' t_ktime_t]),
         Fld ''poll'' (CStruct
           [Fld ''ufds'' CPtr,
            Fld ''nfds'' (CInt 4),
            Fld ''has_timeout'' (CInt 4),
            Fld ''end_time'' s_timespec64])])]"

lemma s_restart_block_layout [layout]: "csize s_restart_block = 56" "calign s_restart_block = 8" "wf_ctype s_restart_block"
  by (simp_all add: s_restart_block_def layout)

definition t___kernel_pid_t :: ctype where
  "t___kernel_pid_t = CInt 4"

lemma t___kernel_pid_t_layout [layout]: "csize t___kernel_pid_t = 4" "calign t___kernel_pid_t = 4" "wf_ctype t___kernel_pid_t"
  by (simp_all add: t___kernel_pid_t_def layout)

definition t_pid_t :: ctype where
  "t_pid_t = t___kernel_pid_t"

lemma t_pid_t_layout [layout]: "csize t_pid_t = 4" "calign t_pid_t = 4" "wf_ctype t_pid_t"
  by (simp_all add: t_pid_t_def layout)

definition e_vtime_state :: "(string \<times> int) list" where
  "e_vtime_state =
    [(''VTIME_INACTIVE'', 0), (''VTIME_IDLE'', 1), (''VTIME_SYS'', 2), (''VTIME_USER'', 3),
     (''VTIME_GUEST'', 4)]"

definition s_vtime :: ctype where
  "s_vtime = CStruct
     [Fld ''seqcount'' t_seqcount_t,
      Fld ''starttime'' (CInt 8),
      Fld ''state'' (CInt 4),
      Fld ''cpu'' (CInt 4),
      Fld ''utime'' t_u64,
      Fld ''stime'' t_u64,
      Fld ''gtime'' t_u64]"

lemma s_vtime_layout [layout]: "csize s_vtime = 48" "calign s_vtime = 8" "wf_ctype s_vtime"
  by (simp_all add: s_vtime_def layout)

definition s_timerqueue_head :: ctype where
  "s_timerqueue_head = CStruct
     [Fld ''rb_root'' s_rb_root_cached]"

lemma s_timerqueue_head_layout [layout]: "csize s_timerqueue_head = 16" "calign s_timerqueue_head = 8" "wf_ctype s_timerqueue_head"
  by (simp_all add: s_timerqueue_head_def layout)

definition s_posix_cputimer_base :: ctype where
  "s_posix_cputimer_base = CStruct
     [Fld ''nextevt'' t_u64,
      Fld ''tqhead'' s_timerqueue_head]"

lemma s_posix_cputimer_base_layout [layout]: "csize s_posix_cputimer_base = 24" "calign s_posix_cputimer_base = 8" "wf_ctype s_posix_cputimer_base"
  by (simp_all add: s_posix_cputimer_base_def layout)

definition s_posix_cputimers :: ctype where
  "s_posix_cputimers = CStruct
     [Fld ''bases'' (CArr s_posix_cputimer_base 3),
      Fld ''timers_active'' (CInt 4),
      Fld ''expiry_active'' (CInt 4)]"

lemma s_posix_cputimers_layout [layout]: "csize s_posix_cputimers = 80" "calign s_posix_cputimers = 8" "wf_ctype s_posix_cputimers"
  by (simp_all add: s_posix_cputimers_def layout)

definition s_posix_cputimers_work :: ctype where
  "s_posix_cputimers_work = CStruct
     [Fld ''work'' s_callback_head,
      Fld ''mutex'' s_mutex,
      Fld ''scheduled'' (CInt 4)]"

lemma s_posix_cputimers_work_layout [layout]: "csize s_posix_cputimers_work = 56" "calign s_posix_cputimers_work = 8" "wf_ctype s_posix_cputimers_work"
  by (simp_all add: s_posix_cputimers_work_def layout)

definition s_sysv_sem :: ctype where
  "s_sysv_sem = CStruct
     [Fld ''undo_list'' CPtr]"

lemma s_sysv_sem_layout [layout]: "csize s_sysv_sem = 8" "calign s_sysv_sem = 8" "wf_ctype s_sysv_sem"
  by (simp_all add: s_sysv_sem_def layout)

definition s_sysv_shm :: ctype where
  "s_sysv_shm = CStruct
     [Fld ''shm_clist'' s_list_head]"

lemma s_sysv_shm_layout [layout]: "csize s_sysv_shm = 16" "calign s_sysv_shm = 8" "wf_ctype s_sysv_shm"
  by (simp_all add: s_sysv_shm_def layout)

definition t_sigset_t :: ctype where
  "t_sigset_t = CStruct
     [Fld ''sig'' (CArr (CInt 8) 1)]"

lemma t_sigset_t_layout [layout]: "csize t_sigset_t = 8" "calign t_sigset_t = 8" "wf_ctype t_sigset_t"
  by (simp_all add: t_sigset_t_def layout)

definition s_sigpending :: ctype where
  "s_sigpending = CStruct
     [Fld ''list'' s_list_head,
      Fld ''signal'' t_sigset_t]"

lemma s_sigpending_layout [layout]: "csize s_sigpending = 24" "calign s_sigpending = 8" "wf_ctype s_sigpending"
  by (simp_all add: s_sigpending_def layout)

definition s_seccomp :: ctype where
  "s_seccomp = CStruct
     [Fld ''mode'' (CInt 4),
      Fld ''filter_count'' t_atomic_t,
      Fld ''filter'' CPtr]"

lemma s_seccomp_layout [layout]: "csize s_seccomp = 16" "calign s_seccomp = 8" "wf_ctype s_seccomp"
  by (simp_all add: s_seccomp_def layout)

definition s_syscall_user_dispatch :: ctype where
  "s_syscall_user_dispatch = CStruct
     [Fld ''selector'' CPtr,
      Fld ''offset'' (CInt 8),
      Fld ''len'' (CInt 8),
      Fld ''on_dispatch'' (CInt 1)]"

lemma s_syscall_user_dispatch_layout [layout]: "csize s_syscall_user_dispatch = 32" "calign s_syscall_user_dispatch = 8" "wf_ctype s_syscall_user_dispatch"
  by (simp_all add: s_syscall_user_dispatch_def layout)

definition s_wake_q_node :: ctype where
  "s_wake_q_node = CStruct
     [Fld ''next'' CPtr]"

lemma s_wake_q_node_layout [layout]: "csize s_wake_q_node = 8" "calign s_wake_q_node = 8" "wf_ctype s_wake_q_node"
  by (simp_all add: s_wake_q_node_def layout)

definition s_task_io_accounting :: ctype where
  "s_task_io_accounting = CStruct
     [Fld ''rchar'' t_u64,
      Fld ''wchar'' t_u64,
      Fld ''syscr'' t_u64,
      Fld ''syscw'' t_u64,
      Fld ''read_bytes'' t_u64,
      Fld ''write_bytes'' t_u64,
      Fld ''cancelled_write_bytes'' t_u64]"

lemma s_task_io_accounting_layout [layout]: "csize s_task_io_accounting = 56" "calign s_task_io_accounting = 8" "wf_ctype s_task_io_accounting"
  by (simp_all add: s_task_io_accounting_def layout)

definition t_nodemask_t :: ctype where
  "t_nodemask_t = CStruct
     [Fld ''bits'' (CArr (CInt 8) 16)]"

lemma t_nodemask_t_layout [layout]: "csize t_nodemask_t = 128" "calign t_nodemask_t = 8" "wf_ctype t_nodemask_t"
  by (simp_all add: t_nodemask_t_def layout)

definition s_rseq_event :: ctype where
  "s_rseq_event = CStruct
     [Fld '''' (CUnion
        [Fld ''all'' t_u64,
         Fld '''' (CStruct
           [Fld '''' (CUnion
              [Fld ''events'' t_u32,
               Fld '''' (CStruct
                 [Fld ''sched_switch'' t_u8,
                  Fld ''ids_changed'' t_u8,
                  Fld ''user_irq'' t_u8])]),
            Fld ''has_rseq'' t_u8,
            Fld ''__pad'' t_u8,
            Fld '''' (CUnion
              [Fld ''error'' t_u16,
               Fld '''' (CStruct
                 [Fld ''fatal'' t_u8,
                  Fld ''slowpath'' t_u8])])])])]"

lemma s_rseq_event_layout [layout]: "csize s_rseq_event = 8" "calign s_rseq_event = 8" "wf_ctype s_rseq_event"
  by (simp_all add: s_rseq_event_def layout)

definition s_rseq_ids :: ctype where
  "s_rseq_ids = CStruct
     [Fld '''' (CUnion
        [Fld ''cpu_cid'' t_u64,
         Fld '''' (CStruct
           [Fld ''cpu_id'' t_u32,
            Fld ''mm_cid'' t_u32])])]"

lemma s_rseq_ids_layout [layout]: "csize s_rseq_ids = 8" "calign s_rseq_ids = 8" "wf_ctype s_rseq_ids"
  by (simp_all add: s_rseq_ids_def layout)

definition s_rseq_data :: ctype where
  "s_rseq_data = CStruct
     [Fld ''usrptr'' CPtr,
      Fld ''len'' t_u32,
      Fld ''sig'' t_u32,
      Fld ''event'' s_rseq_event,
      Fld ''ids'' s_rseq_ids]"

lemma s_rseq_data_layout [layout]: "csize s_rseq_data = 32" "calign s_rseq_data = 8" "wf_ctype s_rseq_data"
  by (simp_all add: s_rseq_data_def layout)

definition s_sched_mm_cid :: ctype where
  "s_sched_mm_cid = CStruct
     [Fld ''active'' (CInt 4),
      Fld ''cid'' (CInt 4),
      Fld ''node'' s_hlist_node]"

lemma s_sched_mm_cid_layout [layout]: "csize s_sched_mm_cid = 24" "calign s_sched_mm_cid = 8" "wf_ctype s_sched_mm_cid"
  by (simp_all add: s_sched_mm_cid_def layout)

definition s_arch_tlbflush_unmap_batch :: ctype where
  "s_arch_tlbflush_unmap_batch = CStruct
     [Fld ''cpumask'' s_cpumask,
      Fld ''unmapped_pages'' (CInt 1)]"

lemma s_arch_tlbflush_unmap_batch_layout [layout]: "csize s_arch_tlbflush_unmap_batch = 1032" "calign s_arch_tlbflush_unmap_batch = 8" "wf_ctype s_arch_tlbflush_unmap_batch"
  by (simp_all add: s_arch_tlbflush_unmap_batch_def layout)

definition s_tlbflush_unmap_batch :: ctype where
  "s_tlbflush_unmap_batch = CStruct
     [Fld ''arch'' s_arch_tlbflush_unmap_batch,
      Fld ''flush_required'' (CInt 1),
      Fld ''writable'' (CInt 1)]"

lemma s_tlbflush_unmap_batch_layout [layout]: "csize s_tlbflush_unmap_batch = 1040" "calign s_tlbflush_unmap_batch = 8" "wf_ctype s_tlbflush_unmap_batch"
  by (simp_all add: s_tlbflush_unmap_batch_def layout)

definition s_lazy_mmu_state :: ctype where
  "s_lazy_mmu_state = CStruct
     [Fld ''enable_count'' t_u8,
      Fld ''pause_count'' t_u8]"

lemma s_lazy_mmu_state_layout [layout]: "csize s_lazy_mmu_state = 2" "calign s_lazy_mmu_state = 1" "wf_ctype s_lazy_mmu_state"
  by (simp_all add: s_lazy_mmu_state_def layout)

definition s_latency_record :: ctype where
  "s_latency_record = CStruct
     [Fld ''backtrace'' (CArr (CInt 8) 12),
      Fld ''count'' (CInt 4),
      Fld ''time'' (CInt 8),
      Fld ''max'' (CInt 8)]"

lemma s_latency_record_layout [layout]: "csize s_latency_record = 120" "calign s_latency_record = 8" "wf_ctype s_latency_record"
  by (simp_all add: s_latency_record_def layout)

definition s_kmap_ctrl :: ctype where
  "s_kmap_ctrl = CStruct
     []"

lemma s_kmap_ctrl_layout [layout]: "csize s_kmap_ctrl = 0" "calign s_kmap_ctrl = 1" "wf_ctype s_kmap_ctrl"
  by (simp_all add: s_kmap_ctrl_def layout)

definition s_llist_head :: ctype where
  "s_llist_head = CStruct
     [Fld ''first'' CPtr]"

lemma s_llist_head_layout [layout]: "csize s_llist_head = 8" "calign s_llist_head = 8" "wf_ctype s_llist_head"
  by (simp_all add: s_llist_head_def layout)

definition s_da_monitor :: ctype where
  "s_da_monitor = CStruct
     [Fld ''monitoring'' (CInt 1),
      Fld ''curr_state'' (CInt 4)]"

lemma s_da_monitor_layout [layout]: "csize s_da_monitor = 8" "calign s_da_monitor = 4" "wf_ctype s_da_monitor"
  by (simp_all add: s_da_monitor_def layout)

definition s_ltl_monitor :: ctype where
  "s_ltl_monitor = CStruct
     []"

lemma s_ltl_monitor_layout [layout]: "csize s_ltl_monitor = 0" "calign s_ltl_monitor = 1" "wf_ctype s_ltl_monitor"
  by (simp_all add: s_ltl_monitor_def layout)

definition u_rv_task_monitor :: ctype where
  "u_rv_task_monitor = CUnion
     [Fld ''da_mon'' s_da_monitor,
      Fld ''ltl_mon'' s_ltl_monitor]"

lemma u_rv_task_monitor_layout [layout]: "csize u_rv_task_monitor = 8" "calign u_rv_task_monitor = 4" "wf_ctype u_rv_task_monitor"
  by (simp_all add: u_rv_task_monitor_def layout)

definition u_unwind_task_id :: ctype where
  "u_unwind_task_id = CUnion
     [Fld '''' (CStruct
        [Fld ''cpu'' t_u32,
         Fld ''cnt'' t_u32]),
      Fld ''id'' t_u64]"

lemma u_unwind_task_id_layout [layout]: "csize u_unwind_task_id = 8" "calign u_unwind_task_id = 8" "wf_ctype u_unwind_task_id"
  by (simp_all add: u_unwind_task_id_def layout)

definition s_unwind_task_info :: ctype where
  "s_unwind_task_info = CStruct
     [Fld ''unwind_mask'' t_atomic_long_t,
      Fld ''cache'' CPtr,
      Fld ''work'' s_callback_head,
      Fld ''id'' u_unwind_task_id]"

lemma s_unwind_task_info_layout [layout]: "csize s_unwind_task_info = 40" "calign s_unwind_task_info = 8" "wf_ctype s_unwind_task_info"
  by (simp_all add: s_unwind_task_info_def layout)

definition s_desc_struct :: ctype where
  "s_desc_struct = CStruct
     [Fld ''limit0'' t_u16,
      Fld ''base0'' t_u16,
      Bitf ''base1'' 2 8,
      Bitf ''type'' 2 4,
      Bitf ''s'' 2 1,
      Bitf ''dpl'' 2 2,
      Bitf ''p'' 2 1,
      Bitf ''limit1'' 2 4,
      Bitf ''avl'' 2 1,
      Bitf ''l'' 2 1,
      Bitf ''d'' 2 1,
      Bitf ''g'' 2 1,
      Bitf ''base2'' 2 8]"

lemma s_desc_struct_layout [layout]: "csize s_desc_struct = 8" "calign s_desc_struct = 2" "wf_ctype s_desc_struct"
  by (simp_all add: s_desc_struct_def layout)

definition s_thread_shstk :: ctype where
  "s_thread_shstk = CStruct
     [Fld ''base'' t_u64,
      Fld ''size'' t_u64]"

lemma s_thread_shstk_layout [layout]: "csize s_thread_shstk = 16" "calign s_thread_shstk = 8" "wf_ctype s_thread_shstk"
  by (simp_all add: s_thread_shstk_def layout)

definition s_thread_struct :: ctype where
  "s_thread_struct = CStruct
     [Fld ''tls_array'' (CArr s_desc_struct 3),
      Fld ''sp'' (CInt 8),
      Fld ''es'' (CInt 2),
      Fld ''ds'' (CInt 2),
      Fld ''fsindex'' (CInt 2),
      Fld ''gsindex'' (CInt 2),
      Fld ''fsbase'' (CInt 8),
      Fld ''gsbase'' (CInt 8),
      Fld ''ptrace_bps'' (CArr CPtr 4),
      Fld ''virtual_dr6'' (CInt 8),
      Fld ''ptrace_dr7'' (CInt 8),
      Fld ''cr2'' (CInt 8),
      Fld ''trap_nr'' (CInt 8),
      Fld ''error_code'' (CInt 8),
      Fld ''io_bitmap'' CPtr,
      Fld ''iopl_emul'' (CInt 8),
      Bitf ''iopl_warn'' 4 1,
      Fld ''pkru'' t_u32,
      Fld ''features'' (CInt 8),
      Fld ''features_locked'' (CInt 8),
      Fld ''shstk'' s_thread_shstk]"

lemma s_thread_struct_layout [layout]: "csize s_thread_struct = 184" "calign s_thread_struct = 8" "wf_ctype s_thread_struct"
  by (simp_all add: s_thread_struct_def layout)

definition s_task_struct :: ctype where
  "s_task_struct = CStruct
     [Fld ''thread_info'' s_thread_info,
      Fld ''__state'' (CInt 4),
      Fld ''saved_state'' (CInt 4),
      Fld ''stack'' CPtr,
      Fld ''usage'' t_refcount_t,
      Fld ''flags'' (CInt 4),
      Fld ''ptrace'' (CInt 4),
      Fld ''on_cpu'' (CInt 4),
      Fld ''wake_entry'' s___call_single_node,
      Fld ''wakee_flips'' (CInt 4),
      Fld ''wakee_flip_decay_ts'' (CInt 8),
      Fld ''last_wakee'' CPtr,
      Fld ''recent_used_cpu'' (CInt 4),
      Fld ''wake_cpu'' (CInt 4),
      Fld ''on_rq'' (CInt 4),
      Fld ''prio'' (CInt 4),
      Fld ''static_prio'' (CInt 4),
      Fld ''normal_prio'' (CInt 4),
      Fld ''rt_priority'' (CInt 4),
      Fld ''se'' s_sched_entity,
      Fld ''rt'' s_sched_rt_entity,
      Fld ''dl'' s_sched_dl_entity,
      Fld ''dl_server'' CPtr,
      Fld ''scx'' s_sched_ext_entity,
      Fld ''sched_class'' CPtr,
      Fld ''core_node'' s_rb_node,
      Fld ''core_cookie'' (CInt 8),
      Fld ''core_occupation'' (CInt 4),
      Fld ''sched_task_group'' CPtr,
      Fld ''sched_throttle_work'' s_callback_head,
      Fld ''throttle_node'' s_list_head,
      Fld ''throttled'' (CInt 1),
      Fld ''uclamp_req'' (CArr s_uclamp_se 2),
      Fld ''uclamp'' (CArr s_uclamp_se 2),
      Bitf '''' 8 64,
      Bitf '''' 8 64,
      Bitf '''' 8 64,
      Fld ''stats'' s_sched_statistics,
      Fld ''preempt_notifiers'' s_hlist_head,
      Fld ''btrace_seq'' (CInt 4),
      Fld ''policy'' (CInt 4),
      Fld ''max_allowed_capacity'' (CInt 8),
      Fld ''nr_cpus_allowed'' (CInt 4),
      Fld ''cpus_ptr'' CPtr,
      Fld ''user_cpus_ptr'' CPtr,
      Fld ''cpus_mask'' t_cpumask_t,
      Fld ''migration_pending'' CPtr,
      Fld ''migration_disabled'' (CInt 2),
      Fld ''migration_flags'' (CInt 2),
      Fld ''rcu_read_lock_nesting'' (CInt 4),
      Fld ''rcu_read_unlock_special'' u_rcu_special,
      Fld ''rcu_node_entry'' s_list_head,
      Fld ''rcu_blocked_node'' CPtr,
      Fld ''rcu_tasks_nvcsw'' (CInt 8),
      Fld ''rcu_tasks_holdout'' t_u8,
      Fld ''rcu_tasks_idx'' t_u8,
      Fld ''rcu_tasks_idle_cpu'' (CInt 4),
      Fld ''rcu_tasks_holdout_list'' s_list_head,
      Fld ''rcu_tasks_exit_cpu'' (CInt 4),
      Fld ''rcu_tasks_exit_list'' s_list_head,
      Fld ''trc_reader_nesting'' (CInt 4),
      Fld ''trc_reader_scp'' CPtr,
      Fld ''sched_info'' s_sched_info,
      Fld ''tasks'' s_list_head,
      Fld ''pushable_tasks'' s_plist_node,
      Fld ''pushable_dl_tasks'' s_rb_node,
      Fld ''mm'' CPtr,
      Fld ''active_mm'' CPtr,
      Fld ''exit_state'' (CInt 4),
      Fld ''exit_code'' (CInt 4),
      Fld ''exit_signal'' (CInt 4),
      Fld ''pdeath_signal'' (CInt 4),
      Fld ''jobctl'' (CInt 8),
      Fld ''personality'' (CInt 4),
      Bitf ''sched_reset_on_fork'' 4 1,
      Bitf ''sched_contributes_to_load'' 4 1,
      Bitf ''sched_migrated'' 4 1,
      Bitf ''sched_task_hot'' 4 1,
      Bitf '''' 8 28,
      Bitf ''sched_remote_wakeup'' 4 1,
      Bitf ''sched_rt_mutex'' 4 1,
      Bitf ''in_execve'' 4 1,
      Bitf ''in_iowait'' 4 1,
      Bitf ''restore_sigmask'' 4 1,
      Bitf ''in_lru_fault'' 4 1,
      Bitf ''no_cgroup_migration'' 4 1,
      Bitf ''frozen'' 4 1,
      Bitf ''use_memdelay'' 4 1,
      Bitf ''in_memstall'' 4 1,
      Bitf ''in_eventfd'' 4 1,
      Bitf ''pasid_activated'' 4 1,
      Bitf ''reported_split_lock'' 4 1,
      Bitf ''in_thrashing'' 4 1,
      Bitf ''in_nf_duplicate'' 4 1,
      Fld ''atomic_flags'' (CInt 8),
      Fld ''restart_block'' s_restart_block,
      Fld ''pid'' t_pid_t,
      Fld ''tgid'' t_pid_t,
      Fld ''stack_canary'' (CInt 8),
      Fld ''real_parent'' CPtr,
      Fld ''parent'' CPtr,
      Fld ''children'' s_list_head,
      Fld ''sibling'' s_list_head,
      Fld ''group_leader'' CPtr,
      Fld ''ptraced'' s_list_head,
      Fld ''ptrace_entry'' s_list_head,
      Fld ''thread_pid'' CPtr,
      Fld ''pid_links'' (CArr s_hlist_node 4),
      Fld ''thread_node'' s_list_head,
      Fld ''vfork_done'' CPtr,
      Fld ''set_child_tid'' CPtr,
      Fld ''clear_child_tid'' CPtr,
      Fld ''worker_private'' CPtr,
      Fld ''utime'' t_u64,
      Fld ''stime'' t_u64,
      Fld ''gtime'' t_u64,
      Fld ''prev_cputime'' s_prev_cputime,
      Fld ''vtime'' s_vtime,
      Fld ''tick_dep_mask'' t_atomic_t,
      Fld ''nvcsw'' (CInt 8),
      Fld ''nivcsw'' (CInt 8),
      Fld ''start_time'' t_u64,
      Fld ''start_boottime'' t_u64,
      Fld ''min_flt'' (CInt 8),
      Fld ''maj_flt'' (CInt 8),
      Fld ''posix_cputimers'' s_posix_cputimers,
      Fld ''posix_cputimers_work'' s_posix_cputimers_work,
      Fld ''ptracer_cred'' CPtr,
      Fld ''real_cred'' CPtr,
      Fld ''cred'' CPtr,
      Fld ''cached_requested_key'' CPtr,
      Fld ''comm'' (CArr (CInt 1) 16),
      Fld ''nameidata'' CPtr,
      Fld ''sysvsem'' s_sysv_sem,
      Fld ''sysvshm'' s_sysv_shm,
      Fld ''last_switch_count'' (CInt 8),
      Fld ''last_switch_time'' (CInt 8),
      Fld ''fs'' CPtr,
      Fld ''files'' CPtr,
      Fld ''io_uring'' CPtr,
      Fld ''io_uring_restrict'' CPtr,
      Fld ''nsproxy'' CPtr,
      Fld ''signal'' CPtr,
      Fld ''sighand'' CPtr,
      Fld ''blocked'' t_sigset_t,
      Fld ''real_blocked'' t_sigset_t,
      Fld ''saved_sigmask'' t_sigset_t,
      Fld ''pending'' s_sigpending,
      Fld ''sas_ss_sp'' (CInt 8),
      Fld ''sas_ss_size'' t_size_t,
      Fld ''sas_ss_flags'' (CInt 4),
      Fld ''task_works'' CPtr,
      Fld ''audit_context'' CPtr,
      Fld ''loginuid'' t_kuid_t,
      Fld ''sessionid'' (CInt 4),
      Fld ''seccomp'' s_seccomp,
      Fld ''syscall_dispatch'' s_syscall_user_dispatch,
      Fld ''parent_exec_id'' t_u64,
      Fld ''self_exec_id'' t_u64,
      Fld ''alloc_lock'' t_spinlock_t,
      Fld ''pi_lock'' t_raw_spinlock_t,
      Fld ''wake_q'' s_wake_q_node,
      Fld ''pi_waiters'' s_rb_root_cached,
      Fld ''pi_top_task'' CPtr,
      Fld ''pi_blocked_on'' CPtr,
      Fld ''blocked_on'' CPtr,
      Fld ''blocker'' (CInt 8),
      Fld ''in_ubsan'' (CInt 4),
      Fld ''journal_info'' CPtr,
      Fld ''bio_list'' CPtr,
      Fld ''plug'' CPtr,
      Fld ''reclaim_state'' CPtr,
      Fld ''io_context'' CPtr,
      Fld ''capture_control'' CPtr,
      Fld ''ptrace_message'' (CInt 8),
      Fld ''last_siginfo'' CPtr,
      Fld ''ioac'' s_task_io_accounting,
      Fld ''psi_flags'' (CInt 4),
      Fld ''acct_rss_mem1'' t_u64,
      Fld ''acct_vm_mem1'' t_u64,
      Fld ''acct_timexpd'' t_u64,
      Fld ''mems_allowed'' t_nodemask_t,
      Fld ''mems_allowed_seq'' t_seqcount_spinlock_t,
      Fld ''cpuset_mem_spread_rotor'' (CInt 4),
      Fld ''cgroups'' CPtr,
      Fld ''cg_list'' s_list_head,
      Fld ''closid'' t_u32,
      Fld ''rmid'' t_u32,
      Fld ''robust_list'' CPtr,
      Fld ''compat_robust_list'' CPtr,
      Fld ''pi_state_list'' s_list_head,
      Fld ''pi_state_cache'' CPtr,
      Fld ''futex_exit_mutex'' s_mutex,
      Fld ''futex_state'' (CInt 4),
      Fld ''perf_recursion'' (CArr t_u8 4),
      Fld ''perf_event_ctxp'' CPtr,
      Fld ''perf_event_mutex'' s_mutex,
      Fld ''perf_event_list'' s_list_head,
      Fld ''perf_ctx_data'' CPtr,
      Fld ''mempolicy'' CPtr,
      Fld ''il_prev'' (CInt 2),
      Fld ''il_weight'' t_u8,
      Fld ''pref_node_fork'' (CInt 2),
      Fld ''numa_scan_seq'' (CInt 4),
      Fld ''numa_scan_period'' (CInt 4),
      Fld ''numa_scan_period_max'' (CInt 4),
      Fld ''numa_preferred_nid'' (CInt 4),
      Fld ''numa_migrate_retry'' (CInt 8),
      Fld ''node_stamp'' t_u64,
      Fld ''last_task_numa_placement'' t_u64,
      Fld ''last_sum_exec_runtime'' t_u64,
      Fld ''numa_work'' s_callback_head,
      Fld ''numa_group'' CPtr,
      Fld ''numa_faults'' CPtr,
      Fld ''total_numa_faults'' (CInt 8),
      Fld ''numa_faults_locality'' (CArr (CInt 8) 3),
      Fld ''numa_pages_migrated'' (CInt 8),
      Fld ''rseq'' s_rseq_data,
      Fld ''mm_cid'' s_sched_mm_cid,
      Fld ''tlb_ubc'' s_tlbflush_unmap_batch,
      Fld ''splice_pipe'' CPtr,
      Fld ''task_frag'' s_page_frag,
      Fld ''lazy_mmu_state'' s_lazy_mmu_state,
      Fld ''delays'' CPtr,
      Fld ''nr_dirtied'' (CInt 4),
      Fld ''nr_dirtied_pause'' (CInt 4),
      Fld ''dirty_paused_when'' (CInt 8),
      Fld ''latency_record_count'' (CInt 4),
      Fld ''latency_record'' (CArr s_latency_record 32),
      Fld ''timer_slack_ns'' t_u64,
      Fld ''default_timer_slack_ns'' t_u64,
      Fld ''curr_ret_stack'' (CInt 4),
      Fld ''curr_ret_depth'' (CInt 4),
      Fld ''ret_stack'' CPtr,
      Fld ''ftrace_timestamp'' (CInt 8),
      Fld ''ftrace_sleeptime'' (CInt 8),
      Fld ''trace_overrun'' t_atomic_t,
      Fld ''tracing_graph_pause'' t_atomic_t,
      Fld ''trace_recursion'' (CInt 8),
      Fld ''memcg_nr_pages_over_high'' (CInt 4),
      Fld ''active_memcg'' CPtr,
      Fld ''objcg'' CPtr,
      Fld ''throttle_disk'' CPtr,
      Fld ''utask'' CPtr,
      Fld ''sequential_io'' (CInt 4),
      Fld ''sequential_io_avg'' (CInt 4),
      Fld ''kmap_ctrl'' s_kmap_ctrl,
      Fld ''rcu'' s_callback_head,
      Fld ''rcu_users'' t_refcount_t,
      Fld ''pagefault_disabled'' (CInt 4),
      Fld ''oom_reaper_list'' CPtr,
      Fld ''oom_reaper_timer'' s_timer_list,
      Fld ''stack_vm_area'' CPtr,
      Fld ''stack_refcount'' t_refcount_t,
      Fld ''patch_state'' (CInt 4),
      Fld ''security'' CPtr,
      Fld ''bpf_storage'' CPtr,
      Fld ''bpf_ctx'' CPtr,
      Fld ''bpf_net_context'' CPtr,
      Fld ''mce_vaddr'' CPtr,
      Fld ''mce_kflags'' t___u64,
      Fld ''mce_addr'' t_u64,
      Bitf ''mce_ripv'' 8 1,
      Bitf ''mce_whole_page'' 8 1,
      Bitf ''__mce_reserved'' 8 62,
      Fld ''mce_kill_me'' s_callback_head,
      Fld ''mce_count'' (CInt 4),
      Fld ''kretprobe_instances'' s_llist_head,
      Fld ''rethooks'' s_llist_head,
      Fld ''l1d_flush_kill'' s_callback_head,
      Fld ''rv'' (CArr u_rv_task_monitor 2),
      Fld ''user_event_mm'' CPtr,
      Fld ''unwind_info'' s_unwind_task_info,
      Fld ''thread'' s_thread_struct,
      Bitf '''' 8 64,
      Bitf '''' 8 64,
      Bitf '''' 8 64,
      Bitf '''' 8 64,
      Bitf '''' 8 64,
      Bitf '''' 8 64,
      Bitf '''' 8 64]"

lemma s_task_struct_layout [layout]: "csize s_task_struct = 9920" "calign s_task_struct = 8" "wf_ctype s_task_struct"
  by (simp_all add: s_task_struct_def layout)

definition e_pid_type :: "(string \<times> int) list" where
  "e_pid_type =
    [(''PIDTYPE_PID'', 0), (''PIDTYPE_TGID'', 1), (''PIDTYPE_PGID'', 2), (''PIDTYPE_SID'', 3),
     (''PIDTYPE_MAX'', 4)]"

end
