(* ===== verification/Vmlinux_Bpf.thy ===== *)
theory Vmlinux_Bpf
  imports Vmlinux_Task
begin

text \<open>
  Declarations of \<^verbatim>\<open>internal/ebpfcapture/bpf/vmlinux.h\<close> for the BPF side: maps and the ring buffer, programs, helper prototypes, the kprobe and perf event the program is attached through, and the enumerations of the BPF interface,
  with everything they contain by value. A structure is \<open>s_\<close>, a union \<open>u_\<close>, a typedef \<open>t_\<close> and an enumeration
  \<open>e_\<close> followed by its C name; pointers are opaque (\<open>CPtr\<close>), an enumeration used as a field is the integer it is
  stored in. Each declaration is followed by its size, alignment and well-formedness.
\<close>

definition e_bpf_map_type :: "(string \<times> int) list" where
  "e_bpf_map_type =
    [(''BPF_MAP_TYPE_UNSPEC'', 0), (''BPF_MAP_TYPE_HASH'', 1), (''BPF_MAP_TYPE_ARRAY'', 2),
     (''BPF_MAP_TYPE_PROG_ARRAY'', 3), (''BPF_MAP_TYPE_PERF_EVENT_ARRAY'', 4),
     (''BPF_MAP_TYPE_PERCPU_HASH'', 5), (''BPF_MAP_TYPE_PERCPU_ARRAY'', 6), (''BPF_MAP_TYPE_STACK_TRACE'', 7),
     (''BPF_MAP_TYPE_CGROUP_ARRAY'', 8), (''BPF_MAP_TYPE_LRU_HASH'', 9),
     (''BPF_MAP_TYPE_LRU_PERCPU_HASH'', 10), (''BPF_MAP_TYPE_LPM_TRIE'', 11),
     (''BPF_MAP_TYPE_ARRAY_OF_MAPS'', 12), (''BPF_MAP_TYPE_HASH_OF_MAPS'', 13), (''BPF_MAP_TYPE_DEVMAP'', 14),
     (''BPF_MAP_TYPE_SOCKMAP'', 15), (''BPF_MAP_TYPE_CPUMAP'', 16), (''BPF_MAP_TYPE_XSKMAP'', 17),
     (''BPF_MAP_TYPE_SOCKHASH'', 18), (''BPF_MAP_TYPE_CGROUP_STORAGE_DEPRECATED'', 19),
     (''BPF_MAP_TYPE_CGROUP_STORAGE'', 19), (''BPF_MAP_TYPE_REUSEPORT_SOCKARRAY'', 20),
     (''BPF_MAP_TYPE_PERCPU_CGROUP_STORAGE_DEPRECATED'', 21), (''BPF_MAP_TYPE_PERCPU_CGROUP_STORAGE'', 21),
     (''BPF_MAP_TYPE_QUEUE'', 22), (''BPF_MAP_TYPE_STACK'', 23), (''BPF_MAP_TYPE_SK_STORAGE'', 24),
     (''BPF_MAP_TYPE_DEVMAP_HASH'', 25), (''BPF_MAP_TYPE_STRUCT_OPS'', 26), (''BPF_MAP_TYPE_RINGBUF'', 27),
     (''BPF_MAP_TYPE_INODE_STORAGE'', 28), (''BPF_MAP_TYPE_TASK_STORAGE'', 29),
     (''BPF_MAP_TYPE_BLOOM_FILTER'', 30), (''BPF_MAP_TYPE_USER_RINGBUF'', 31),
     (''BPF_MAP_TYPE_CGRP_STORAGE'', 32), (''BPF_MAP_TYPE_ARENA'', 33), (''BPF_MAP_TYPE_INSN_ARRAY'', 34),
     (''__MAX_BPF_MAP_TYPE'', 35)]"

definition e_bpf_prog_type :: "(string \<times> int) list" where
  "e_bpf_prog_type =
    [(''BPF_PROG_TYPE_UNSPEC'', 0), (''BPF_PROG_TYPE_SOCKET_FILTER'', 1), (''BPF_PROG_TYPE_KPROBE'', 2),
     (''BPF_PROG_TYPE_SCHED_CLS'', 3), (''BPF_PROG_TYPE_SCHED_ACT'', 4), (''BPF_PROG_TYPE_TRACEPOINT'', 5),
     (''BPF_PROG_TYPE_XDP'', 6), (''BPF_PROG_TYPE_PERF_EVENT'', 7), (''BPF_PROG_TYPE_CGROUP_SKB'', 8),
     (''BPF_PROG_TYPE_CGROUP_SOCK'', 9), (''BPF_PROG_TYPE_LWT_IN'', 10), (''BPF_PROG_TYPE_LWT_OUT'', 11),
     (''BPF_PROG_TYPE_LWT_XMIT'', 12), (''BPF_PROG_TYPE_SOCK_OPS'', 13), (''BPF_PROG_TYPE_SK_SKB'', 14),
     (''BPF_PROG_TYPE_CGROUP_DEVICE'', 15), (''BPF_PROG_TYPE_SK_MSG'', 16),
     (''BPF_PROG_TYPE_RAW_TRACEPOINT'', 17), (''BPF_PROG_TYPE_CGROUP_SOCK_ADDR'', 18),
     (''BPF_PROG_TYPE_LWT_SEG6LOCAL'', 19), (''BPF_PROG_TYPE_LIRC_MODE2'', 20),
     (''BPF_PROG_TYPE_SK_REUSEPORT'', 21), (''BPF_PROG_TYPE_FLOW_DISSECTOR'', 22),
     (''BPF_PROG_TYPE_CGROUP_SYSCTL'', 23), (''BPF_PROG_TYPE_RAW_TRACEPOINT_WRITABLE'', 24),
     (''BPF_PROG_TYPE_CGROUP_SOCKOPT'', 25), (''BPF_PROG_TYPE_TRACING'', 26),
     (''BPF_PROG_TYPE_STRUCT_OPS'', 27), (''BPF_PROG_TYPE_EXT'', 28), (''BPF_PROG_TYPE_LSM'', 29),
     (''BPF_PROG_TYPE_SK_LOOKUP'', 30), (''BPF_PROG_TYPE_SYSCALL'', 31), (''BPF_PROG_TYPE_NETFILTER'', 32),
     (''__MAX_BPF_PROG_TYPE'', 33)]"

definition e_bpf_attach_type :: "(string \<times> int) list" where
  "e_bpf_attach_type =
    [(''BPF_CGROUP_INET_INGRESS'', 0), (''BPF_CGROUP_INET_EGRESS'', 1), (''BPF_CGROUP_INET_SOCK_CREATE'', 2),
     (''BPF_CGROUP_SOCK_OPS'', 3), (''BPF_SK_SKB_STREAM_PARSER'', 4), (''BPF_SK_SKB_STREAM_VERDICT'', 5),
     (''BPF_CGROUP_DEVICE'', 6), (''BPF_SK_MSG_VERDICT'', 7), (''BPF_CGROUP_INET4_BIND'', 8),
     (''BPF_CGROUP_INET6_BIND'', 9), (''BPF_CGROUP_INET4_CONNECT'', 10), (''BPF_CGROUP_INET6_CONNECT'', 11),
     (''BPF_CGROUP_INET4_POST_BIND'', 12), (''BPF_CGROUP_INET6_POST_BIND'', 13),
     (''BPF_CGROUP_UDP4_SENDMSG'', 14), (''BPF_CGROUP_UDP6_SENDMSG'', 15), (''BPF_LIRC_MODE2'', 16),
     (''BPF_FLOW_DISSECTOR'', 17), (''BPF_CGROUP_SYSCTL'', 18), (''BPF_CGROUP_UDP4_RECVMSG'', 19),
     (''BPF_CGROUP_UDP6_RECVMSG'', 20), (''BPF_CGROUP_GETSOCKOPT'', 21), (''BPF_CGROUP_SETSOCKOPT'', 22),
     (''BPF_TRACE_RAW_TP'', 23), (''BPF_TRACE_FENTRY'', 24), (''BPF_TRACE_FEXIT'', 25),
     (''BPF_MODIFY_RETURN'', 26), (''BPF_LSM_MAC'', 27), (''BPF_TRACE_ITER'', 28),
     (''BPF_CGROUP_INET4_GETPEERNAME'', 29), (''BPF_CGROUP_INET6_GETPEERNAME'', 30),
     (''BPF_CGROUP_INET4_GETSOCKNAME'', 31), (''BPF_CGROUP_INET6_GETSOCKNAME'', 32), (''BPF_XDP_DEVMAP'', 33),
     (''BPF_CGROUP_INET_SOCK_RELEASE'', 34), (''BPF_XDP_CPUMAP'', 35), (''BPF_SK_LOOKUP'', 36),
     (''BPF_XDP'', 37), (''BPF_SK_SKB_VERDICT'', 38), (''BPF_SK_REUSEPORT_SELECT'', 39),
     (''BPF_SK_REUSEPORT_SELECT_OR_MIGRATE'', 40), (''BPF_PERF_EVENT'', 41), (''BPF_TRACE_KPROBE_MULTI'', 42),
     (''BPF_LSM_CGROUP'', 43), (''BPF_STRUCT_OPS'', 44), (''BPF_NETFILTER'', 45), (''BPF_TCX_INGRESS'', 46),
     (''BPF_TCX_EGRESS'', 47), (''BPF_TRACE_UPROBE_MULTI'', 48), (''BPF_CGROUP_UNIX_CONNECT'', 49),
     (''BPF_CGROUP_UNIX_SENDMSG'', 50), (''BPF_CGROUP_UNIX_RECVMSG'', 51),
     (''BPF_CGROUP_UNIX_GETPEERNAME'', 52), (''BPF_CGROUP_UNIX_GETSOCKNAME'', 53),
     (''BPF_NETKIT_PRIMARY'', 54), (''BPF_NETKIT_PEER'', 55), (''BPF_TRACE_KPROBE_SESSION'', 56),
     (''BPF_TRACE_UPROBE_SESSION'', 57), (''BPF_TRACE_FSESSION'', 58), (''__MAX_BPF_ATTACH_TYPE'', 59)]"

definition e_bpf_cmd :: "(string \<times> int) list" where
  "e_bpf_cmd =
    [(''BPF_MAP_CREATE'', 0), (''BPF_MAP_LOOKUP_ELEM'', 1), (''BPF_MAP_UPDATE_ELEM'', 2),
     (''BPF_MAP_DELETE_ELEM'', 3), (''BPF_MAP_GET_NEXT_KEY'', 4), (''BPF_PROG_LOAD'', 5), (''BPF_OBJ_PIN'', 6),
     (''BPF_OBJ_GET'', 7), (''BPF_PROG_ATTACH'', 8), (''BPF_PROG_DETACH'', 9), (''BPF_PROG_TEST_RUN'', 10),
     (''BPF_PROG_RUN'', 10), (''BPF_PROG_GET_NEXT_ID'', 11), (''BPF_MAP_GET_NEXT_ID'', 12),
     (''BPF_PROG_GET_FD_BY_ID'', 13), (''BPF_MAP_GET_FD_BY_ID'', 14), (''BPF_OBJ_GET_INFO_BY_FD'', 15),
     (''BPF_PROG_QUERY'', 16), (''BPF_RAW_TRACEPOINT_OPEN'', 17), (''BPF_BTF_LOAD'', 18),
     (''BPF_BTF_GET_FD_BY_ID'', 19), (''BPF_TASK_FD_QUERY'', 20), (''BPF_MAP_LOOKUP_AND_DELETE_ELEM'', 21),
     (''BPF_MAP_FREEZE'', 22), (''BPF_BTF_GET_NEXT_ID'', 23), (''BPF_MAP_LOOKUP_BATCH'', 24),
     (''BPF_MAP_LOOKUP_AND_DELETE_BATCH'', 25), (''BPF_MAP_UPDATE_BATCH'', 26), (''BPF_MAP_DELETE_BATCH'', 27),
     (''BPF_LINK_CREATE'', 28), (''BPF_LINK_UPDATE'', 29), (''BPF_LINK_GET_FD_BY_ID'', 30),
     (''BPF_LINK_GET_NEXT_ID'', 31), (''BPF_ENABLE_STATS'', 32), (''BPF_ITER_CREATE'', 33),
     (''BPF_LINK_DETACH'', 34), (''BPF_PROG_BIND_MAP'', 35), (''BPF_TOKEN_CREATE'', 36),
     (''BPF_PROG_STREAM_READ_BY_FD'', 37), (''BPF_PROG_ASSOC_STRUCT_OPS'', 38), (''__MAX_BPF_CMD'', 39)]"

definition e_bpf_func_id :: "(string \<times> int) list" where
  "e_bpf_func_id =
    [(''BPF_FUNC_unspec'', 0), (''BPF_FUNC_map_lookup_elem'', 1), (''BPF_FUNC_map_update_elem'', 2),
     (''BPF_FUNC_map_delete_elem'', 3), (''BPF_FUNC_probe_read'', 4), (''BPF_FUNC_ktime_get_ns'', 5),
     (''BPF_FUNC_trace_printk'', 6), (''BPF_FUNC_get_prandom_u32'', 7), (''BPF_FUNC_get_smp_processor_id'', 8),
     (''BPF_FUNC_skb_store_bytes'', 9), (''BPF_FUNC_l3_csum_replace'', 10), (''BPF_FUNC_l4_csum_replace'', 11),
     (''BPF_FUNC_tail_call'', 12), (''BPF_FUNC_clone_redirect'', 13), (''BPF_FUNC_get_current_pid_tgid'', 14),
     (''BPF_FUNC_get_current_uid_gid'', 15), (''BPF_FUNC_get_current_comm'', 16),
     (''BPF_FUNC_get_cgroup_classid'', 17), (''BPF_FUNC_skb_vlan_push'', 18), (''BPF_FUNC_skb_vlan_pop'', 19),
     (''BPF_FUNC_skb_get_tunnel_key'', 20), (''BPF_FUNC_skb_set_tunnel_key'', 21),
     (''BPF_FUNC_perf_event_read'', 22), (''BPF_FUNC_redirect'', 23), (''BPF_FUNC_get_route_realm'', 24),
     (''BPF_FUNC_perf_event_output'', 25), (''BPF_FUNC_skb_load_bytes'', 26), (''BPF_FUNC_get_stackid'', 27),
     (''BPF_FUNC_csum_diff'', 28), (''BPF_FUNC_skb_get_tunnel_opt'', 29),
     (''BPF_FUNC_skb_set_tunnel_opt'', 30), (''BPF_FUNC_skb_change_proto'', 31),
     (''BPF_FUNC_skb_change_type'', 32), (''BPF_FUNC_skb_under_cgroup'', 33),
     (''BPF_FUNC_get_hash_recalc'', 34), (''BPF_FUNC_get_current_task'', 35),
     (''BPF_FUNC_probe_write_user'', 36), (''BPF_FUNC_current_task_under_cgroup'', 37),
     (''BPF_FUNC_skb_change_tail'', 38), (''BPF_FUNC_skb_pull_data'', 39), (''BPF_FUNC_csum_update'', 40),
     (''BPF_FUNC_set_hash_invalid'', 41), (''BPF_FUNC_get_numa_node_id'', 42),
     (''BPF_FUNC_skb_change_head'', 43), (''BPF_FUNC_xdp_adjust_head'', 44), (''BPF_FUNC_probe_read_str'', 45),
     (''BPF_FUNC_get_socket_cookie'', 46), (''BPF_FUNC_get_socket_uid'', 47), (''BPF_FUNC_set_hash'', 48),
     (''BPF_FUNC_setsockopt'', 49), (''BPF_FUNC_skb_adjust_room'', 50), (''BPF_FUNC_redirect_map'', 51),
     (''BPF_FUNC_sk_redirect_map'', 52), (''BPF_FUNC_sock_map_update'', 53),
     (''BPF_FUNC_xdp_adjust_meta'', 54), (''BPF_FUNC_perf_event_read_value'', 55),
     (''BPF_FUNC_perf_prog_read_value'', 56), (''BPF_FUNC_getsockopt'', 57),
     (''BPF_FUNC_override_return'', 58), (''BPF_FUNC_sock_ops_cb_flags_set'', 59),
     (''BPF_FUNC_msg_redirect_map'', 60), (''BPF_FUNC_msg_apply_bytes'', 61),
     (''BPF_FUNC_msg_cork_bytes'', 62), (''BPF_FUNC_msg_pull_data'', 63), (''BPF_FUNC_bind'', 64),
     (''BPF_FUNC_xdp_adjust_tail'', 65), (''BPF_FUNC_skb_get_xfrm_state'', 66), (''BPF_FUNC_get_stack'', 67),
     (''BPF_FUNC_skb_load_bytes_relative'', 68), (''BPF_FUNC_fib_lookup'', 69),
     (''BPF_FUNC_sock_hash_update'', 70), (''BPF_FUNC_msg_redirect_hash'', 71),
     (''BPF_FUNC_sk_redirect_hash'', 72), (''BPF_FUNC_lwt_push_encap'', 73),
     (''BPF_FUNC_lwt_seg6_store_bytes'', 74), (''BPF_FUNC_lwt_seg6_adjust_srh'', 75),
     (''BPF_FUNC_lwt_seg6_action'', 76), (''BPF_FUNC_rc_repeat'', 77), (''BPF_FUNC_rc_keydown'', 78),
     (''BPF_FUNC_skb_cgroup_id'', 79), (''BPF_FUNC_get_current_cgroup_id'', 80),
     (''BPF_FUNC_get_local_storage'', 81), (''BPF_FUNC_sk_select_reuseport'', 82),
     (''BPF_FUNC_skb_ancestor_cgroup_id'', 83), (''BPF_FUNC_sk_lookup_tcp'', 84),
     (''BPF_FUNC_sk_lookup_udp'', 85), (''BPF_FUNC_sk_release'', 86), (''BPF_FUNC_map_push_elem'', 87),
     (''BPF_FUNC_map_pop_elem'', 88), (''BPF_FUNC_map_peek_elem'', 89), (''BPF_FUNC_msg_push_data'', 90),
     (''BPF_FUNC_msg_pop_data'', 91), (''BPF_FUNC_rc_pointer_rel'', 92), (''BPF_FUNC_spin_lock'', 93),
     (''BPF_FUNC_spin_unlock'', 94), (''BPF_FUNC_sk_fullsock'', 95), (''BPF_FUNC_tcp_sock'', 96),
     (''BPF_FUNC_skb_ecn_set_ce'', 97), (''BPF_FUNC_get_listener_sock'', 98),
     (''BPF_FUNC_skc_lookup_tcp'', 99), (''BPF_FUNC_tcp_check_syncookie'', 100),
     (''BPF_FUNC_sysctl_get_name'', 101), (''BPF_FUNC_sysctl_get_current_value'', 102),
     (''BPF_FUNC_sysctl_get_new_value'', 103), (''BPF_FUNC_sysctl_set_new_value'', 104),
     (''BPF_FUNC_strtol'', 105), (''BPF_FUNC_strtoul'', 106), (''BPF_FUNC_sk_storage_get'', 107),
     (''BPF_FUNC_sk_storage_delete'', 108), (''BPF_FUNC_send_signal'', 109),
     (''BPF_FUNC_tcp_gen_syncookie'', 110), (''BPF_FUNC_skb_output'', 111),
     (''BPF_FUNC_probe_read_user'', 112), (''BPF_FUNC_probe_read_kernel'', 113),
     (''BPF_FUNC_probe_read_user_str'', 114), (''BPF_FUNC_probe_read_kernel_str'', 115),
     (''BPF_FUNC_tcp_send_ack'', 116), (''BPF_FUNC_send_signal_thread'', 117), (''BPF_FUNC_jiffies64'', 118),
     (''BPF_FUNC_read_branch_records'', 119), (''BPF_FUNC_get_ns_current_pid_tgid'', 120),
     (''BPF_FUNC_xdp_output'', 121), (''BPF_FUNC_get_netns_cookie'', 122),
     (''BPF_FUNC_get_current_ancestor_cgroup_id'', 123), (''BPF_FUNC_sk_assign'', 124),
     (''BPF_FUNC_ktime_get_boot_ns'', 125), (''BPF_FUNC_seq_printf'', 126), (''BPF_FUNC_seq_write'', 127),
     (''BPF_FUNC_sk_cgroup_id'', 128), (''BPF_FUNC_sk_ancestor_cgroup_id'', 129),
     (''BPF_FUNC_ringbuf_output'', 130), (''BPF_FUNC_ringbuf_reserve'', 131),
     (''BPF_FUNC_ringbuf_submit'', 132), (''BPF_FUNC_ringbuf_discard'', 133),
     (''BPF_FUNC_ringbuf_query'', 134), (''BPF_FUNC_csum_level'', 135), (''BPF_FUNC_skc_to_tcp6_sock'', 136),
     (''BPF_FUNC_skc_to_tcp_sock'', 137), (''BPF_FUNC_skc_to_tcp_timewait_sock'', 138),
     (''BPF_FUNC_skc_to_tcp_request_sock'', 139), (''BPF_FUNC_skc_to_udp6_sock'', 140),
     (''BPF_FUNC_get_task_stack'', 141), (''BPF_FUNC_load_hdr_opt'', 142), (''BPF_FUNC_store_hdr_opt'', 143),
     (''BPF_FUNC_reserve_hdr_opt'', 144), (''BPF_FUNC_inode_storage_get'', 145),
     (''BPF_FUNC_inode_storage_delete'', 146), (''BPF_FUNC_d_path'', 147), (''BPF_FUNC_copy_from_user'', 148),
     (''BPF_FUNC_snprintf_btf'', 149), (''BPF_FUNC_seq_printf_btf'', 150),
     (''BPF_FUNC_skb_cgroup_classid'', 151), (''BPF_FUNC_redirect_neigh'', 152),
     (''BPF_FUNC_per_cpu_ptr'', 153), (''BPF_FUNC_this_cpu_ptr'', 154), (''BPF_FUNC_redirect_peer'', 155),
     (''BPF_FUNC_task_storage_get'', 156), (''BPF_FUNC_task_storage_delete'', 157),
     (''BPF_FUNC_get_current_task_btf'', 158), (''BPF_FUNC_bprm_opts_set'', 159),
     (''BPF_FUNC_ktime_get_coarse_ns'', 160), (''BPF_FUNC_ima_inode_hash'', 161),
     (''BPF_FUNC_sock_from_file'', 162), (''BPF_FUNC_check_mtu'', 163), (''BPF_FUNC_for_each_map_elem'', 164),
     (''BPF_FUNC_snprintf'', 165), (''BPF_FUNC_sys_bpf'', 166), (''BPF_FUNC_btf_find_by_name_kind'', 167),
     (''BPF_FUNC_sys_close'', 168), (''BPF_FUNC_timer_init'', 169), (''BPF_FUNC_timer_set_callback'', 170),
     (''BPF_FUNC_timer_start'', 171), (''BPF_FUNC_timer_cancel'', 172), (''BPF_FUNC_get_func_ip'', 173),
     (''BPF_FUNC_get_attach_cookie'', 174), (''BPF_FUNC_task_pt_regs'', 175),
     (''BPF_FUNC_get_branch_snapshot'', 176), (''BPF_FUNC_trace_vprintk'', 177),
     (''BPF_FUNC_skc_to_unix_sock'', 178), (''BPF_FUNC_kallsyms_lookup_name'', 179),
     (''BPF_FUNC_find_vma'', 180), (''BPF_FUNC_loop'', 181), (''BPF_FUNC_strncmp'', 182),
     (''BPF_FUNC_get_func_arg'', 183), (''BPF_FUNC_get_func_ret'', 184), (''BPF_FUNC_get_func_arg_cnt'', 185),
     (''BPF_FUNC_get_retval'', 186), (''BPF_FUNC_set_retval'', 187), (''BPF_FUNC_xdp_get_buff_len'', 188),
     (''BPF_FUNC_xdp_load_bytes'', 189), (''BPF_FUNC_xdp_store_bytes'', 190),
     (''BPF_FUNC_copy_from_user_task'', 191), (''BPF_FUNC_skb_set_tstamp'', 192),
     (''BPF_FUNC_ima_file_hash'', 193), (''BPF_FUNC_kptr_xchg'', 194),
     (''BPF_FUNC_map_lookup_percpu_elem'', 195), (''BPF_FUNC_skc_to_mptcp_sock'', 196),
     (''BPF_FUNC_dynptr_from_mem'', 197), (''BPF_FUNC_ringbuf_reserve_dynptr'', 198),
     (''BPF_FUNC_ringbuf_submit_dynptr'', 199), (''BPF_FUNC_ringbuf_discard_dynptr'', 200),
     (''BPF_FUNC_dynptr_read'', 201), (''BPF_FUNC_dynptr_write'', 202), (''BPF_FUNC_dynptr_data'', 203),
     (''BPF_FUNC_tcp_raw_gen_syncookie_ipv4'', 204), (''BPF_FUNC_tcp_raw_gen_syncookie_ipv6'', 205),
     (''BPF_FUNC_tcp_raw_check_syncookie_ipv4'', 206), (''BPF_FUNC_tcp_raw_check_syncookie_ipv6'', 207),
     (''BPF_FUNC_ktime_get_tai_ns'', 208), (''BPF_FUNC_user_ringbuf_drain'', 209),
     (''BPF_FUNC_cgrp_storage_get'', 210), (''BPF_FUNC_cgrp_storage_delete'', 211),
     (''__BPF_FUNC_MAX_ID'', 212)]"

definition s_bpf_map :: ctype where
  "s_bpf_map = CStruct
     [Fld ''sha'' (CArr t_u8 32),
      Fld ''ops'' CPtr,
      Fld ''inner_map_meta'' CPtr,
      Fld ''security'' CPtr,
      Fld ''map_type'' (CInt 4),
      Fld ''key_size'' t_u32,
      Fld ''value_size'' t_u32,
      Fld ''max_entries'' t_u32,
      Fld ''map_extra'' t_u64,
      Fld ''map_flags'' t_u32,
      Fld ''id'' t_u32,
      Fld ''record'' CPtr,
      Fld ''numa_node'' (CInt 4),
      Fld ''btf_key_type_id'' t_u32,
      Fld ''btf_value_type_id'' t_u32,
      Fld ''btf_vmlinux_value_type_id'' t_u32,
      Fld ''btf'' CPtr,
      Fld ''objcg'' CPtr,
      Fld ''name'' (CArr (CInt 1) 16),
      Fld ''freeze_mutex'' s_mutex,
      Fld ''refcnt'' t_atomic64_t,
      Fld ''usercnt'' t_atomic64_t,
      Fld '''' (CUnion
        [Fld ''work'' s_work_struct,
         Fld ''rcu'' s_callback_head]),
      Fld ''writecnt'' t_atomic64_t,
      Fld ''owner_lock'' t_spinlock_t,
      Fld ''owner'' CPtr,
      Fld ''bypass_spec_v1'' (CInt 1),
      Fld ''frozen'' (CInt 1),
      Fld ''free_after_mult_rcu_gp'' (CInt 1),
      Fld ''free_after_rcu_gp'' (CInt 1),
      Fld ''sleepable_refcnt'' t_atomic64_t,
      Fld ''elem_count'' CPtr,
      Fld ''cookie'' t_u64,
      Fld ''excl_prog_sha'' CPtr]"

lemma s_bpf_map_layout [layout]: "csize s_bpf_map = 288" "calign s_bpf_map = 8" "wf_ctype s_bpf_map"
  by (simp_all add: s_bpf_map_def layout)

definition s_bpf_array :: ctype where
  "s_bpf_array = CStruct
     [Fld ''map'' s_bpf_map,
      Fld ''elem_size'' t_u32,
      Fld ''index_mask'' t_u32,
      Fld ''aux'' CPtr,
      Fld '''' (CUnion
        [Fld '''' (CStruct
           [Fld ''__empty_value'' (CStruct
              []),
            Fld ''value'' (CArr (CInt 1) 0)]),
         Fld '''' (CStruct
           [Fld ''__empty_ptrs'' (CStruct
              []),
            Fld ''ptrs'' (CArr CPtr 0)]),
         Fld '''' (CStruct
           [Fld ''__empty_pptrs'' (CStruct
              []),
            Fld ''pptrs'' (CArr CPtr 0)])])]"

lemma s_bpf_array_layout [layout]: "csize s_bpf_array = 304" "calign s_bpf_array = 8" "wf_ctype s_bpf_array"
  by (simp_all add: s_bpf_array_def layout)

definition s_rcuwait :: ctype where
  "s_rcuwait = CStruct
     [Fld ''task'' CPtr]"

lemma s_rcuwait_layout [layout]: "csize s_rcuwait = 8" "calign s_rcuwait = 8" "wf_ctype s_rcuwait"
  by (simp_all add: s_rcuwait_def layout)

definition s_irq_work :: ctype where
  "s_irq_work = CStruct
     [Fld ''node'' s___call_single_node,
      Fld ''func'' CPtr,
      Fld ''irqwait'' s_rcuwait]"

lemma s_irq_work_layout [layout]: "csize s_irq_work = 32" "calign s_irq_work = 8" "wf_ctype s_irq_work"
  by (simp_all add: s_irq_work_def layout)

definition t_rqspinlock_t :: ctype where
  "t_rqspinlock_t = s_qspinlock"

lemma t_rqspinlock_t_layout [layout]: "csize t_rqspinlock_t = 4" "calign t_rqspinlock_t = 4" "wf_ctype t_rqspinlock_t"
  by (simp_all add: t_rqspinlock_t_def layout)

definition s_bpf_ringbuf :: ctype where
  "s_bpf_ringbuf = CStruct
     [Fld ''waitq'' t_wait_queue_head_t,
      Fld ''work'' s_irq_work,
      Fld ''mask'' t_u64,
      Fld ''pages'' CPtr,
      Fld ''nr_pages'' (CInt 4),
      Fld ''overwrite_mode'' (CInt 1),
      Bitf '''' 8 64,
      Bitf '''' 8 64,
      Bitf '''' 8 64,
      Bitf '''' 8 64,
      Bitf '''' 8 64,
      Bitf '''' 8 64,
      Fld ''spinlock'' t_rqspinlock_t,
      Bitf '''' 8 64,
      Bitf '''' 8 64,
      Bitf '''' 8 64,
      Bitf '''' 8 64,
      Bitf '''' 8 64,
      Bitf '''' 8 64,
      Bitf '''' 8 64,
      Fld ''busy'' t_atomic_t,
      Bitf '''' 8 64,
      Bitf '''' 8 64,
      Bitf '''' 8 64,
      Bitf '''' 8 64,
      Bitf '''' 8 64,
      Bitf '''' 8 64,
      Bitf '''' 8 64,
      Bitf '''' 8 64,
      Bitf '''' 8 64,
      Bitf '''' 8 64,
      Bitf '''' 8 64,
      Bitf '''' 8 64,
      Bitf '''' 8 64,
      Bitf '''' 8 64,
      Bitf '''' 8 64,
      Bitf '''' 8 64,
      Bitf '''' 8 64,
      Bitf '''' 8 64,
      Bitf '''' 8 64,
      Bitf '''' 8 64,
      Bitf '''' 8 64,
      Bitf '''' 8 64,
      Bitf '''' 8 64,
      Bitf '''' 8 64,
      Bitf '''' 8 64,
      Bitf '''' 8 64,
      Bitf '''' 8 64,
      Bitf '''' 8 64,
      Bitf '''' 8 64,
      Bitf '''' 8 64,
      Bitf '''' 8 64,
      Bitf '''' 8 64,
      Bitf '''' 8 64,
      Bitf '''' 8 64,
      Bitf '''' 8 64,
      Bitf '''' 8 64,
      Bitf '''' 8 64,
      Bitf '''' 8 64,
      Bitf '''' 8 64,
      Bitf '''' 8 64,
      Bitf '''' 8 64,
      Bitf '''' 8 64,
      Bitf '''' 8 64,
      Bitf '''' 8 64,
      Bitf '''' 8 64,
      Bitf '''' 8 64,
      Bitf '''' 8 64,
      Bitf '''' 8 64,
      Bitf '''' 8 64,
      Bitf '''' 8 64,
      Bitf '''' 8 64,
      Bitf '''' 8 64,
      Bitf '''' 8 64,
      Bitf '''' 8 64,
      Bitf '''' 8 64,
      Bitf '''' 8 64,
      Bitf '''' 8 64,
      Bitf '''' 8 64,
      Bitf '''' 8 64,
      Bitf '''' 8 64,
      Bitf '''' 8 64,
      Bitf '''' 8 64,
      Bitf '''' 8 64,
      Bitf '''' 8 64,
      Bitf '''' 8 64,
      Bitf '''' 8 64,
      Bitf '''' 8 64,
      Bitf '''' 8 64,
      Bitf '''' 8 64,
      Bitf '''' 8 64,
      Bitf '''' 8 64,
      Bitf '''' 8 64,
      Bitf '''' 8 64,
      Bitf '''' 8 64,
      Bitf '''' 8 64,
      Bitf '''' 8 64,
      Bitf '''' 8 64,
      Bitf '''' 8 64,
      Bitf '''' 8 64,
      Bitf '''' 8 64,
      Bitf '''' 8 64,
      Bitf '''' 8 64,
      Bitf '''' 8 64,
      Bitf '''' 8 64,
      Bitf '''' 8 64,
      Bitf '''' 8 64,
      Bitf '''' 8 64,
      Bitf '''' 8 64,
      Bitf '''' 8 64,
      Bitf '''' 8 64,
      Bitf '''' 8 64,
      Bitf '''' 8 64,
      Bitf '''' 8 64,
      Bitf '''' 8 64,
      Bitf '''' 8 64,
      Bitf '''' 8 64,
      Bitf '''' 8 64,
      Bitf '''' 8 64,
      Bitf '''' 8 64,
      Bitf '''' 8 64,
      Bitf '''' 8 64,
      Bitf '''' 8 64,
      Bitf '''' 8 64,
      Bitf '''' 8 64,
      Bitf '''' 8 64,
      Bitf '''' 8 64,
      Bitf '''' 8 64,
      Bitf '''' 8 64,
      Bitf '''' 8 64,
      Bitf '''' 8 64,
      Bitf '''' 8 64,
      Bitf '''' 8 64,
      Bitf '''' 8 64,
      Bitf '''' 8 64,
      Bitf '''' 8 64,
      Bitf '''' 8 64,
      Bitf '''' 8 64,
      Bitf '''' 8 64,
      Bitf '''' 8 64,
      Bitf '''' 8 64,
      Bitf '''' 8 64,
      Bitf '''' 8 64,
      Bitf '''' 8 64,
      Bitf '''' 8 64,
      Bitf '''' 8 64,
      Bitf '''' 8 64,
      Bitf '''' 8 64,
      Bitf '''' 8 64,
      Bitf '''' 8 64,
      Bitf '''' 8 64,
      Bitf '''' 8 64,
      Bitf '''' 8 64,
      Bitf '''' 8 64,
      Bitf '''' 8 64,
      Bitf '''' 8 64,
      Bitf '''' 8 64,
      Bitf '''' 8 64,
      Bitf '''' 8 64,
      Bitf '''' 8 64,
      Bitf '''' 8 64,
      Bitf '''' 8 64,
      Bitf '''' 8 64,
      Bitf '''' 8 64,
      Bitf '''' 8 64,
      Bitf '''' 8 64,
      Bitf '''' 8 64,
      Bitf '''' 8 64,
      Bitf '''' 8 64,
      Bitf '''' 8 64,
      Bitf '''' 8 64,
      Bitf '''' 8 64,
      Bitf '''' 8 64,
      Bitf '''' 8 64,
      Bitf '''' 8 64,
      Bitf '''' 8 64,
      Bitf '''' 8 64,
      Bitf '''' 8 64,
      Bitf '''' 8 64,
      Bitf '''' 8 64,
      Bitf '''' 8 64,
      Bitf '''' 8 64,
      Bitf '''' 8 64,
      Bitf '''' 8 64,
      Bitf '''' 8 64,
      Bitf '''' 8 64,
      Bitf '''' 8 64,
      Bitf '''' 8 64,
      Bitf '''' 8 64,
      Bitf '''' 8 64,
      Bitf '''' 8 64,
      Bitf '''' 8 64,
      Bitf '''' 8 64,
      Bitf '''' 8 64,
      Bitf '''' 8 64,
      Bitf '''' 8 64,
      Bitf '''' 8 64,
      Bitf '''' 8 64,
      Bitf '''' 8 64,
      Bitf '''' 8 64,
      Bitf '''' 8 64,
      Bitf '''' 8 64,
      Bitf '''' 8 64,
      Bitf '''' 8 64,
      Bitf '''' 8 64,
      Bitf '''' 8 64,
      Bitf '''' 8 64,
      Bitf '''' 8 64,
      Bitf '''' 8 64,
      Bitf '''' 8 64,
      Bitf '''' 8 64,
      Bitf '''' 8 64,
      Bitf '''' 8 64,
      Bitf '''' 8 64,
      Bitf '''' 8 64,
      Bitf '''' 8 64,
      Bitf '''' 8 64,
      Bitf '''' 8 64,
      Bitf '''' 8 64,
      Bitf '''' 8 64,
      Bitf '''' 8 64,
      Bitf '''' 8 64,
      Bitf '''' 8 64,
      Bitf '''' 8 64,
      Bitf '''' 8 64,
      Bitf '''' 8 64,
      Bitf '''' 8 64,
      Bitf '''' 8 64,
      Bitf '''' 8 64,
      Bitf '''' 8 64,
      Bitf '''' 8 64,
      Bitf '''' 8 64,
      Bitf '''' 8 64,
      Bitf '''' 8 64,
      Bitf '''' 8 64,
      Bitf '''' 8 64,
      Bitf '''' 8 64,
      Bitf '''' 8 64,
      Bitf '''' 8 64,
      Bitf '''' 8 64,
      Bitf '''' 8 64,
      Bitf '''' 8 64,
      Bitf '''' 8 64,
      Bitf '''' 8 64,
      Bitf '''' 8 64,
      Bitf '''' 8 64,
      Bitf '''' 8 64,
      Bitf '''' 8 64,
      Bitf '''' 8 64,
      Bitf '''' 8 64,
      Bitf '''' 8 64,
      Bitf '''' 8 64,
      Bitf '''' 8 64,
      Bitf '''' 8 64,
      Bitf '''' 8 64,
      Bitf '''' 8 64,
      Bitf '''' 8 64,
      Bitf '''' 8 64,
      Bitf '''' 8 64,
      Bitf '''' 8 64,
      Bitf '''' 8 64,
      Bitf '''' 8 64,
      Bitf '''' 8 64,
      Bitf '''' 8 64,
      Bitf '''' 8 64,
      Bitf '''' 8 64,
      Bitf '''' 8 64,
      Bitf '''' 8 64,
      Bitf '''' 8 64,
      Bitf '''' 8 64,
      Bitf '''' 8 64,
      Bitf '''' 8 64,
      Bitf '''' 8 64,
      Bitf '''' 8 64,
      Bitf '''' 8 64,
      Bitf '''' 8 64,
      Bitf '''' 8 64,
      Bitf '''' 8 64,
      Bitf '''' 8 64,
      Bitf '''' 8 64,
      Bitf '''' 8 64,
      Bitf '''' 8 64,
      Bitf '''' 8 64,
      Bitf '''' 8 64,
      Bitf '''' 8 64,
      Bitf '''' 8 64,
      Bitf '''' 8 64,
      Bitf '''' 8 64,
      Bitf '''' 8 64,
      Bitf '''' 8 64,
      Bitf '''' 8 64,
      Bitf '''' 8 64,
      Bitf '''' 8 64,
      Bitf '''' 8 64,
      Bitf '''' 8 64,
      Bitf '''' 8 64,
      Bitf '''' 8 64,
      Bitf '''' 8 64,
      Bitf '''' 8 64,
      Bitf '''' 8 64,
      Bitf '''' 8 64,
      Bitf '''' 8 64,
      Bitf '''' 8 64,
      Bitf '''' 8 64,
      Bitf '''' 8 64,
      Bitf '''' 8 64,
      Bitf '''' 8 64,
      Bitf '''' 8 64,
      Bitf '''' 8 64,
      Bitf '''' 8 64,
      Bitf '''' 8 64,
      Bitf '''' 8 64,
      Bitf '''' 8 64,
      Bitf '''' 8 64,
      Bitf '''' 8 64,
      Bitf '''' 8 64,
      Bitf '''' 8 64,
      Bitf '''' 8 64,
      Bitf '''' 8 64,
      Bitf '''' 8 64,
      Bitf '''' 8 64,
      Bitf '''' 8 64,
      Bitf '''' 8 64,
      Bitf '''' 8 64,
      Bitf '''' 8 64,
      Bitf '''' 8 64,
      Bitf '''' 8 64,
      Bitf '''' 8 64,
      Bitf '''' 8 64,
      Bitf '''' 8 64,
      Bitf '''' 8 64,
      Bitf '''' 8 64,
      Bitf '''' 8 64,
      Bitf '''' 8 64,
      Bitf '''' 8 64,
      Bitf '''' 8 64,
      Bitf '''' 8 64,
      Bitf '''' 8 64,
      Bitf '''' 8 64,
      Bitf '''' 8 64,
      Bitf '''' 8 64,
      Bitf '''' 8 64,
      Bitf '''' 8 64,
      Bitf '''' 8 64,
      Bitf '''' 8 64,
      Bitf '''' 8 64,
      Bitf '''' 8 64,
      Bitf '''' 8 64,
      Bitf '''' 8 64,
      Bitf '''' 8 64,
      Bitf '''' 8 64,
      Bitf '''' 8 64,
      Bitf '''' 8 64,
      Bitf '''' 8 64,
      Bitf '''' 8 64,
      Bitf '''' 8 64,
      Bitf '''' 8 64,
      Bitf '''' 8 64,
      Bitf '''' 8 64,
      Bitf '''' 8 64,
      Bitf '''' 8 64,
      Bitf '''' 8 64,
      Bitf '''' 8 64,
      Bitf '''' 8 64,
      Bitf '''' 8 64,
      Bitf '''' 8 64,
      Bitf '''' 8 64,
      Bitf '''' 8 64,
      Bitf '''' 8 64,
      Bitf '''' 8 64,
      Bitf '''' 8 64,
      Bitf '''' 8 64,
      Bitf '''' 8 64,
      Bitf '''' 8 64,
      Bitf '''' 8 64,
      Bitf '''' 8 64,
      Bitf '''' 8 64,
      Bitf '''' 8 64,
      Bitf '''' 8 64,
      Bitf '''' 8 64,
      Bitf '''' 8 64,
      Bitf '''' 8 64,
      Bitf '''' 8 64,
      Bitf '''' 8 64,
      Bitf '''' 8 64,
      Bitf '''' 8 64,
      Bitf '''' 8 64,
      Bitf '''' 8 64,
      Bitf '''' 8 64,
      Bitf '''' 8 64,
      Bitf '''' 8 64,
      Bitf '''' 8 64,
      Bitf '''' 8 64,
      Bitf '''' 8 64,
      Bitf '''' 8 64,
      Bitf '''' 8 64,
      Bitf '''' 8 64,
      Bitf '''' 8 64,
      Bitf '''' 8 64,
      Bitf '''' 8 64,
      Bitf '''' 8 64,
      Bitf '''' 8 64,
      Bitf '''' 8 64,
      Bitf '''' 8 64,
      Bitf '''' 8 64,
      Bitf '''' 8 64,
      Bitf '''' 8 64,
      Bitf '''' 8 64,
      Bitf '''' 8 64,
      Bitf '''' 8 64,
      Bitf '''' 8 64,
      Bitf '''' 8 64,
      Bitf '''' 8 64,
      Bitf '''' 8 64,
      Bitf '''' 8 64,
      Bitf '''' 8 64,
      Bitf '''' 8 64,
      Bitf '''' 8 64,
      Bitf '''' 8 64,
      Bitf '''' 8 64,
      Bitf '''' 8 64,
      Bitf '''' 8 64,
      Bitf '''' 8 64,
      Bitf '''' 8 64,
      Bitf '''' 8 64,
      Bitf '''' 8 64,
      Bitf '''' 8 64,
      Bitf '''' 8 64,
      Bitf '''' 8 64,
      Bitf '''' 8 64,
      Bitf '''' 8 64,
      Bitf '''' 8 64,
      Bitf '''' 8 64,
      Bitf '''' 8 64,
      Bitf '''' 8 64,
      Bitf '''' 8 64,
      Bitf '''' 8 64,
      Bitf '''' 8 64,
      Bitf '''' 8 64,
      Bitf '''' 8 64,
      Bitf '''' 8 64,
      Bitf '''' 8 64,
      Bitf '''' 8 64,
      Bitf '''' 8 64,
      Bitf '''' 8 64,
      Bitf '''' 8 64,
      Bitf '''' 8 64,
      Bitf '''' 8 64,
      Bitf '''' 8 64,
      Bitf '''' 8 64,
      Bitf '''' 8 64,
      Bitf '''' 8 64,
      Bitf '''' 8 64,
      Bitf '''' 8 64,
      Bitf '''' 8 64,
      Bitf '''' 8 64,
      Bitf '''' 8 64,
      Bitf '''' 8 64,
      Bitf '''' 8 64,
      Bitf '''' 8 64,
      Bitf '''' 8 64,
      Bitf '''' 8 64,
      Bitf '''' 8 64,
      Bitf '''' 8 64,
      Bitf '''' 8 64,
      Bitf '''' 8 64,
      Bitf '''' 8 64,
      Bitf '''' 8 64,
      Bitf '''' 8 64,
      Bitf '''' 8 64,
      Bitf '''' 8 64,
      Bitf '''' 8 64,
      Bitf '''' 8 64,
      Bitf '''' 8 64,
      Bitf '''' 8 64,
      Bitf '''' 8 64,
      Bitf '''' 8 64,
      Bitf '''' 8 64,
      Bitf '''' 8 64,
      Bitf '''' 8 64,
      Bitf '''' 8 64,
      Bitf '''' 8 64,
      Bitf '''' 8 64,
      Bitf '''' 8 64,
      Bitf '''' 8 64,
      Bitf '''' 8 64,
      Bitf '''' 8 64,
      Bitf '''' 8 64,
      Bitf '''' 8 64,
      Bitf '''' 8 64,
      Bitf '''' 8 64,
      Bitf '''' 8 64,
      Bitf '''' 8 64,
      Bitf '''' 8 64,
      Bitf '''' 8 64,
      Bitf '''' 8 64,
      Bitf '''' 8 64,
      Bitf '''' 8 64,
      Bitf '''' 8 64,
      Bitf '''' 8 64,
      Bitf '''' 8 64,
      Bitf '''' 8 64,
      Bitf '''' 8 64,
      Bitf '''' 8 64,
      Bitf '''' 8 64,
      Bitf '''' 8 64,
      Bitf '''' 8 64,
      Bitf '''' 8 64,
      Fld ''consumer_pos'' (CInt 8),
      Bitf '''' 8 64,
      Bitf '''' 8 64,
      Bitf '''' 8 64,
      Bitf '''' 8 64,
      Bitf '''' 8 64,
      Bitf '''' 8 64,
      Bitf '''' 8 64,
      Bitf '''' 8 64,
      Bitf '''' 8 64,
      Bitf '''' 8 64,
      Bitf '''' 8 64,
      Bitf '''' 8 64,
      Bitf '''' 8 64,
      Bitf '''' 8 64,
      Bitf '''' 8 64,
      Bitf '''' 8 64,
      Bitf '''' 8 64,
      Bitf '''' 8 64,
      Bitf '''' 8 64,
      Bitf '''' 8 64,
      Bitf '''' 8 64,
      Bitf '''' 8 64,
      Bitf '''' 8 64,
      Bitf '''' 8 64,
      Bitf '''' 8 64,
      Bitf '''' 8 64,
      Bitf '''' 8 64,
      Bitf '''' 8 64,
      Bitf '''' 8 64,
      Bitf '''' 8 64,
      Bitf '''' 8 64,
      Bitf '''' 8 64,
      Bitf '''' 8 64,
      Bitf '''' 8 64,
      Bitf '''' 8 64,
      Bitf '''' 8 64,
      Bitf '''' 8 64,
      Bitf '''' 8 64,
      Bitf '''' 8 64,
      Bitf '''' 8 64,
      Bitf '''' 8 64,
      Bitf '''' 8 64,
      Bitf '''' 8 64,
      Bitf '''' 8 64,
      Bitf '''' 8 64,
      Bitf '''' 8 64,
      Bitf '''' 8 64,
      Bitf '''' 8 64,
      Bitf '''' 8 64,
      Bitf '''' 8 64,
      Bitf '''' 8 64,
      Bitf '''' 8 64,
      Bitf '''' 8 64,
      Bitf '''' 8 64,
      Bitf '''' 8 64,
      Bitf '''' 8 64,
      Bitf '''' 8 64,
      Bitf '''' 8 64,
      Bitf '''' 8 64,
      Bitf '''' 8 64,
      Bitf '''' 8 64,
      Bitf '''' 8 64,
      Bitf '''' 8 64,
      Bitf '''' 8 64,
      Bitf '''' 8 64,
      Bitf '''' 8 64,
      Bitf '''' 8 64,
      Bitf '''' 8 64,
      Bitf '''' 8 64,
      Bitf '''' 8 64,
      Bitf '''' 8 64,
      Bitf '''' 8 64,
      Bitf '''' 8 64,
      Bitf '''' 8 64,
      Bitf '''' 8 64,
      Bitf '''' 8 64,
      Bitf '''' 8 64,
      Bitf '''' 8 64,
      Bitf '''' 8 64,
      Bitf '''' 8 64,
      Bitf '''' 8 64,
      Bitf '''' 8 64,
      Bitf '''' 8 64,
      Bitf '''' 8 64,
      Bitf '''' 8 64,
      Bitf '''' 8 64,
      Bitf '''' 8 64,
      Bitf '''' 8 64,
      Bitf '''' 8 64,
      Bitf '''' 8 64,
      Bitf '''' 8 64,
      Bitf '''' 8 64,
      Bitf '''' 8 64,
      Bitf '''' 8 64,
      Bitf '''' 8 64,
      Bitf '''' 8 64,
      Bitf '''' 8 64,
      Bitf '''' 8 64,
      Bitf '''' 8 64,
      Bitf '''' 8 64,
      Bitf '''' 8 64,
      Bitf '''' 8 64,
      Bitf '''' 8 64,
      Bitf '''' 8 64,
      Bitf '''' 8 64,
      Bitf '''' 8 64,
      Bitf '''' 8 64,
      Bitf '''' 8 64,
      Bitf '''' 8 64,
      Bitf '''' 8 64,
      Bitf '''' 8 64,
      Bitf '''' 8 64,
      Bitf '''' 8 64,
      Bitf '''' 8 64,
      Bitf '''' 8 64,
      Bitf '''' 8 64,
      Bitf '''' 8 64,
      Bitf '''' 8 64,
      Bitf '''' 8 64,
      Bitf '''' 8 64,
      Bitf '''' 8 64,
      Bitf '''' 8 64,
      Bitf '''' 8 64,
      Bitf '''' 8 64,
      Bitf '''' 8 64,
      Bitf '''' 8 64,
      Bitf '''' 8 64,
      Bitf '''' 8 64,
      Bitf '''' 8 64,
      Bitf '''' 8 64,
      Bitf '''' 8 64,
      Bitf '''' 8 64,
      Bitf '''' 8 64,
      Bitf '''' 8 64,
      Bitf '''' 8 64,
      Bitf '''' 8 64,
      Bitf '''' 8 64,
      Bitf '''' 8 64,
      Bitf '''' 8 64,
      Bitf '''' 8 64,
      Bitf '''' 8 64,
      Bitf '''' 8 64,
      Bitf '''' 8 64,
      Bitf '''' 8 64,
      Bitf '''' 8 64,
      Bitf '''' 8 64,
      Bitf '''' 8 64,
      Bitf '''' 8 64,
      Bitf '''' 8 64,
      Bitf '''' 8 64,
      Bitf '''' 8 64,
      Bitf '''' 8 64,
      Bitf '''' 8 64,
      Bitf '''' 8 64,
      Bitf '''' 8 64,
      Bitf '''' 8 64,
      Bitf '''' 8 64,
      Bitf '''' 8 64,
      Bitf '''' 8 64,
      Bitf '''' 8 64,
      Bitf '''' 8 64,
      Bitf '''' 8 64,
      Bitf '''' 8 64,
      Bitf '''' 8 64,
      Bitf '''' 8 64,
      Bitf '''' 8 64,
      Bitf '''' 8 64,
      Bitf '''' 8 64,
      Bitf '''' 8 64,
      Bitf '''' 8 64,
      Bitf '''' 8 64,
      Bitf '''' 8 64,
      Bitf '''' 8 64,
      Bitf '''' 8 64,
      Bitf '''' 8 64,
      Bitf '''' 8 64,
      Bitf '''' 8 64,
      Bitf '''' 8 64,
      Bitf '''' 8 64,
      Bitf '''' 8 64,
      Bitf '''' 8 64,
      Bitf '''' 8 64,
      Bitf '''' 8 64,
      Bitf '''' 8 64,
      Bitf '''' 8 64,
      Bitf '''' 8 64,
      Bitf '''' 8 64,
      Bitf '''' 8 64,
      Bitf '''' 8 64,
      Bitf '''' 8 64,
      Bitf '''' 8 64,
      Bitf '''' 8 64,
      Bitf '''' 8 64,
      Bitf '''' 8 64,
      Bitf '''' 8 64,
      Bitf '''' 8 64,
      Bitf '''' 8 64,
      Bitf '''' 8 64,
      Bitf '''' 8 64,
      Bitf '''' 8 64,
      Bitf '''' 8 64,
      Bitf '''' 8 64,
      Bitf '''' 8 64,
      Bitf '''' 8 64,
      Bitf '''' 8 64,
      Bitf '''' 8 64,
      Bitf '''' 8 64,
      Bitf '''' 8 64,
      Bitf '''' 8 64,
      Bitf '''' 8 64,
      Bitf '''' 8 64,
      Bitf '''' 8 64,
      Bitf '''' 8 64,
      Bitf '''' 8 64,
      Bitf '''' 8 64,
      Bitf '''' 8 64,
      Bitf '''' 8 64,
      Bitf '''' 8 64,
      Bitf '''' 8 64,
      Bitf '''' 8 64,
      Bitf '''' 8 64,
      Bitf '''' 8 64,
      Bitf '''' 8 64,
      Bitf '''' 8 64,
      Bitf '''' 8 64,
      Bitf '''' 8 64,
      Bitf '''' 8 64,
      Bitf '''' 8 64,
      Bitf '''' 8 64,
      Bitf '''' 8 64,
      Bitf '''' 8 64,
      Bitf '''' 8 64,
      Bitf '''' 8 64,
      Bitf '''' 8 64,
      Bitf '''' 8 64,
      Bitf '''' 8 64,
      Bitf '''' 8 64,
      Bitf '''' 8 64,
      Bitf '''' 8 64,
      Bitf '''' 8 64,
      Bitf '''' 8 64,
      Bitf '''' 8 64,
      Bitf '''' 8 64,
      Bitf '''' 8 64,
      Bitf '''' 8 64,
      Bitf '''' 8 64,
      Bitf '''' 8 64,
      Bitf '''' 8 64,
      Bitf '''' 8 64,
      Bitf '''' 8 64,
      Bitf '''' 8 64,
      Bitf '''' 8 64,
      Bitf '''' 8 64,
      Bitf '''' 8 64,
      Bitf '''' 8 64,
      Bitf '''' 8 64,
      Bitf '''' 8 64,
      Bitf '''' 8 64,
      Bitf '''' 8 64,
      Bitf '''' 8 64,
      Bitf '''' 8 64,
      Bitf '''' 8 64,
      Bitf '''' 8 64,
      Bitf '''' 8 64,
      Bitf '''' 8 64,
      Bitf '''' 8 64,
      Bitf '''' 8 64,
      Bitf '''' 8 64,
      Bitf '''' 8 64,
      Bitf '''' 8 64,
      Bitf '''' 8 64,
      Bitf '''' 8 64,
      Bitf '''' 8 64,
      Bitf '''' 8 64,
      Bitf '''' 8 64,
      Bitf '''' 8 64,
      Bitf '''' 8 64,
      Bitf '''' 8 64,
      Bitf '''' 8 64,
      Bitf '''' 8 64,
      Bitf '''' 8 64,
      Bitf '''' 8 64,
      Bitf '''' 8 64,
      Bitf '''' 8 64,
      Bitf '''' 8 64,
      Bitf '''' 8 64,
      Bitf '''' 8 64,
      Bitf '''' 8 64,
      Bitf '''' 8 64,
      Bitf '''' 8 64,
      Bitf '''' 8 64,
      Bitf '''' 8 64,
      Bitf '''' 8 64,
      Bitf '''' 8 64,
      Bitf '''' 8 64,
      Bitf '''' 8 64,
      Bitf '''' 8 64,
      Bitf '''' 8 64,
      Bitf '''' 8 64,
      Bitf '''' 8 64,
      Bitf '''' 8 64,
      Bitf '''' 8 64,
      Bitf '''' 8 64,
      Bitf '''' 8 64,
      Bitf '''' 8 64,
      Bitf '''' 8 64,
      Bitf '''' 8 64,
      Bitf '''' 8 64,
      Bitf '''' 8 64,
      Bitf '''' 8 64,
      Bitf '''' 8 64,
      Bitf '''' 8 64,
      Bitf '''' 8 64,
      Bitf '''' 8 64,
      Bitf '''' 8 64,
      Bitf '''' 8 64,
      Bitf '''' 8 64,
      Bitf '''' 8 64,
      Bitf '''' 8 64,
      Bitf '''' 8 64,
      Bitf '''' 8 64,
      Bitf '''' 8 64,
      Bitf '''' 8 64,
      Bitf '''' 8 64,
      Bitf '''' 8 64,
      Bitf '''' 8 64,
      Bitf '''' 8 64,
      Bitf '''' 8 64,
      Bitf '''' 8 64,
      Bitf '''' 8 64,
      Bitf '''' 8 64,
      Bitf '''' 8 64,
      Bitf '''' 8 64,
      Bitf '''' 8 64,
      Bitf '''' 8 64,
      Bitf '''' 8 64,
      Bitf '''' 8 64,
      Bitf '''' 8 64,
      Bitf '''' 8 64,
      Bitf '''' 8 64,
      Bitf '''' 8 64,
      Bitf '''' 8 64,
      Bitf '''' 8 64,
      Bitf '''' 8 64,
      Bitf '''' 8 64,
      Bitf '''' 8 64,
      Bitf '''' 8 64,
      Bitf '''' 8 64,
      Bitf '''' 8 64,
      Bitf '''' 8 64,
      Bitf '''' 8 64,
      Bitf '''' 8 64,
      Bitf '''' 8 64,
      Bitf '''' 8 64,
      Bitf '''' 8 64,
      Bitf '''' 8 64,
      Bitf '''' 8 64,
      Bitf '''' 8 64,
      Bitf '''' 8 64,
      Bitf '''' 8 64,
      Bitf '''' 8 64,
      Bitf '''' 8 64,
      Bitf '''' 8 64,
      Bitf '''' 8 64,
      Bitf '''' 8 64,
      Bitf '''' 8 64,
      Bitf '''' 8 64,
      Bitf '''' 8 64,
      Bitf '''' 8 64,
      Bitf '''' 8 64,
      Bitf '''' 8 64,
      Bitf '''' 8 64,
      Bitf '''' 8 64,
      Bitf '''' 8 64,
      Bitf '''' 8 64,
      Bitf '''' 8 64,
      Bitf '''' 8 64,
      Bitf '''' 8 64,
      Bitf '''' 8 64,
      Bitf '''' 8 64,
      Bitf '''' 8 64,
      Bitf '''' 8 64,
      Bitf '''' 8 64,
      Bitf '''' 8 64,
      Bitf '''' 8 64,
      Bitf '''' 8 64,
      Bitf '''' 8 64,
      Bitf '''' 8 64,
      Bitf '''' 8 64,
      Bitf '''' 8 64,
      Bitf '''' 8 64,
      Bitf '''' 8 64,
      Bitf '''' 8 64,
      Bitf '''' 8 64,
      Bitf '''' 8 64,
      Bitf '''' 8 64,
      Bitf '''' 8 64,
      Bitf '''' 8 64,
      Bitf '''' 8 64,
      Bitf '''' 8 64,
      Bitf '''' 8 64,
      Bitf '''' 8 64,
      Bitf '''' 8 64,
      Bitf '''' 8 64,
      Bitf '''' 8 64,
      Bitf '''' 8 64,
      Bitf '''' 8 64,
      Bitf '''' 8 64,
      Bitf '''' 8 64,
      Bitf '''' 8 64,
      Bitf '''' 8 64,
      Bitf '''' 8 64,
      Bitf '''' 8 64,
      Bitf '''' 8 64,
      Bitf '''' 8 64,
      Bitf '''' 8 64,
      Bitf '''' 8 64,
      Bitf '''' 8 64,
      Bitf '''' 8 64,
      Bitf '''' 8 64,
      Bitf '''' 8 64,
      Bitf '''' 8 64,
      Bitf '''' 8 64,
      Bitf '''' 8 64,
      Bitf '''' 8 64,
      Bitf '''' 8 64,
      Bitf '''' 8 64,
      Bitf '''' 8 64,
      Bitf '''' 8 64,
      Bitf '''' 8 64,
      Bitf '''' 8 64,
      Bitf '''' 8 64,
      Bitf '''' 8 64,
      Bitf '''' 8 64,
      Bitf '''' 8 64,
      Bitf '''' 8 64,
      Bitf '''' 8 64,
      Bitf '''' 8 64,
      Bitf '''' 8 64,
      Bitf '''' 8 64,
      Bitf '''' 8 64,
      Bitf '''' 8 64,
      Bitf '''' 8 64,
      Bitf '''' 8 64,
      Bitf '''' 8 64,
      Bitf '''' 8 64,
      Bitf '''' 8 64,
      Bitf '''' 8 64,
      Bitf '''' 8 64,
      Bitf '''' 8 64,
      Bitf '''' 8 64,
      Bitf '''' 8 64,
      Bitf '''' 8 64,
      Bitf '''' 8 64,
      Bitf '''' 8 64,
      Bitf '''' 8 64,
      Bitf '''' 8 64,
      Bitf '''' 8 64,
      Bitf '''' 8 64,
      Bitf '''' 8 64,
      Bitf '''' 8 64,
      Bitf '''' 8 64,
      Bitf '''' 8 64,
      Bitf '''' 8 64,
      Bitf '''' 8 64,
      Bitf '''' 8 64,
      Bitf '''' 8 64,
      Bitf '''' 8 64,
      Bitf '''' 8 64,
      Bitf '''' 8 64,
      Bitf '''' 8 64,
      Bitf '''' 8 64,
      Bitf '''' 8 64,
      Bitf '''' 8 64,
      Bitf '''' 8 64,
      Bitf '''' 8 64,
      Bitf '''' 8 64,
      Bitf '''' 8 64,
      Bitf '''' 8 64,
      Bitf '''' 8 64,
      Bitf '''' 8 64,
      Bitf '''' 8 64,
      Bitf '''' 8 64,
      Bitf '''' 8 64,
      Bitf '''' 8 64,
      Bitf '''' 8 64,
      Bitf '''' 8 64,
      Bitf '''' 8 64,
      Bitf '''' 8 64,
      Bitf '''' 8 64,
      Bitf '''' 8 64,
      Bitf '''' 8 64,
      Bitf '''' 8 64,
      Bitf '''' 8 64,
      Bitf '''' 8 64,
      Bitf '''' 8 64,
      Bitf '''' 8 64,
      Bitf '''' 8 64,
      Bitf '''' 8 64,
      Bitf '''' 8 64,
      Bitf '''' 8 64,
      Bitf '''' 8 64,
      Bitf '''' 8 64,
      Bitf '''' 8 64,
      Bitf '''' 8 64,
      Bitf '''' 8 64,
      Bitf '''' 8 64,
      Bitf '''' 8 64,
      Bitf '''' 8 64,
      Bitf '''' 8 64,
      Bitf '''' 8 64,
      Fld ''producer_pos'' (CInt 8),
      Fld ''pending_pos'' (CInt 8),
      Fld ''overwrite_pos'' (CInt 8),
      Bitf '''' 8 64,
      Bitf '''' 8 64,
      Bitf '''' 8 64,
      Bitf '''' 8 64,
      Bitf '''' 8 64,
      Bitf '''' 8 64,
      Bitf '''' 8 64,
      Bitf '''' 8 64,
      Bitf '''' 8 64,
      Bitf '''' 8 64,
      Bitf '''' 8 64,
      Bitf '''' 8 64,
      Bitf '''' 8 64,
      Bitf '''' 8 64,
      Bitf '''' 8 64,
      Bitf '''' 8 64,
      Bitf '''' 8 64,
      Bitf '''' 8 64,
      Bitf '''' 8 64,
      Bitf '''' 8 64,
      Bitf '''' 8 64,
      Bitf '''' 8 64,
      Bitf '''' 8 64,
      Bitf '''' 8 64,
      Bitf '''' 8 64,
      Bitf '''' 8 64,
      Bitf '''' 8 64,
      Bitf '''' 8 64,
      Bitf '''' 8 64,
      Bitf '''' 8 64,
      Bitf '''' 8 64,
      Bitf '''' 8 64,
      Bitf '''' 8 64,
      Bitf '''' 8 64,
      Bitf '''' 8 64,
      Bitf '''' 8 64,
      Bitf '''' 8 64,
      Bitf '''' 8 64,
      Bitf '''' 8 64,
      Bitf '''' 8 64,
      Bitf '''' 8 64,
      Bitf '''' 8 64,
      Bitf '''' 8 64,
      Bitf '''' 8 64,
      Bitf '''' 8 64,
      Bitf '''' 8 64,
      Bitf '''' 8 64,
      Bitf '''' 8 64,
      Bitf '''' 8 64,
      Bitf '''' 8 64,
      Bitf '''' 8 64,
      Bitf '''' 8 64,
      Bitf '''' 8 64,
      Bitf '''' 8 64,
      Bitf '''' 8 64,
      Bitf '''' 8 64,
      Bitf '''' 8 64,
      Bitf '''' 8 64,
      Bitf '''' 8 64,
      Bitf '''' 8 64,
      Bitf '''' 8 64,
      Bitf '''' 8 64,
      Bitf '''' 8 64,
      Bitf '''' 8 64,
      Bitf '''' 8 64,
      Bitf '''' 8 64,
      Bitf '''' 8 64,
      Bitf '''' 8 64,
      Bitf '''' 8 64,
      Bitf '''' 8 64,
      Bitf '''' 8 64,
      Bitf '''' 8 64,
      Bitf '''' 8 64,
      Bitf '''' 8 64,
      Bitf '''' 8 64,
      Bitf '''' 8 64,
      Bitf '''' 8 64,
      Bitf '''' 8 64,
      Bitf '''' 8 64,
      Bitf '''' 8 64,
      Bitf '''' 8 64,
      Bitf '''' 8 64,
      Bitf '''' 8 64,
      Bitf '''' 8 64,
      Bitf '''' 8 64,
      Bitf '''' 8 64,
      Bitf '''' 8 64,
      Bitf '''' 8 64,
      Bitf '''' 8 64,
      Bitf '''' 8 64,
      Bitf '''' 8 64,
      Bitf '''' 8 64,
      Bitf '''' 8 64,
      Bitf '''' 8 64,
      Bitf '''' 8 64,
      Bitf '''' 8 64,
      Bitf '''' 8 64,
      Bitf '''' 8 64,
      Bitf '''' 8 64,
      Bitf '''' 8 64,
      Bitf '''' 8 64,
      Bitf '''' 8 64,
      Bitf '''' 8 64,
      Bitf '''' 8 64,
      Bitf '''' 8 64,
      Bitf '''' 8 64,
      Bitf '''' 8 64,
      Bitf '''' 8 64,
      Bitf '''' 8 64,
      Bitf '''' 8 64,
      Bitf '''' 8 64,
      Bitf '''' 8 64,
      Bitf '''' 8 64,
      Bitf '''' 8 64,
      Bitf '''' 8 64,
      Bitf '''' 8 64,
      Bitf '''' 8 64,
      Bitf '''' 8 64,
      Bitf '''' 8 64,
      Bitf '''' 8 64,
      Bitf '''' 8 64,
      Bitf '''' 8 64,
      Bitf '''' 8 64,
      Bitf '''' 8 64,
      Bitf '''' 8 64,
      Bitf '''' 8 64,
      Bitf '''' 8 64,
      Bitf '''' 8 64,
      Bitf '''' 8 64,
      Bitf '''' 8 64,
      Bitf '''' 8 64,
      Bitf '''' 8 64,
      Bitf '''' 8 64,
      Bitf '''' 8 64,
      Bitf '''' 8 64,
      Bitf '''' 8 64,
      Bitf '''' 8 64,
      Bitf '''' 8 64,
      Bitf '''' 8 64,
      Bitf '''' 8 64,
      Bitf '''' 8 64,
      Bitf '''' 8 64,
      Bitf '''' 8 64,
      Bitf '''' 8 64,
      Bitf '''' 8 64,
      Bitf '''' 8 64,
      Bitf '''' 8 64,
      Bitf '''' 8 64,
      Bitf '''' 8 64,
      Bitf '''' 8 64,
      Bitf '''' 8 64,
      Bitf '''' 8 64,
      Bitf '''' 8 64,
      Bitf '''' 8 64,
      Bitf '''' 8 64,
      Bitf '''' 8 64,
      Bitf '''' 8 64,
      Bitf '''' 8 64,
      Bitf '''' 8 64,
      Bitf '''' 8 64,
      Bitf '''' 8 64,
      Bitf '''' 8 64,
      Bitf '''' 8 64,
      Bitf '''' 8 64,
      Bitf '''' 8 64,
      Bitf '''' 8 64,
      Bitf '''' 8 64,
      Bitf '''' 8 64,
      Bitf '''' 8 64,
      Bitf '''' 8 64,
      Bitf '''' 8 64,
      Bitf '''' 8 64,
      Bitf '''' 8 64,
      Bitf '''' 8 64,
      Bitf '''' 8 64,
      Bitf '''' 8 64,
      Bitf '''' 8 64,
      Bitf '''' 8 64,
      Bitf '''' 8 64,
      Bitf '''' 8 64,
      Bitf '''' 8 64,
      Bitf '''' 8 64,
      Bitf '''' 8 64,
      Bitf '''' 8 64,
      Bitf '''' 8 64,
      Bitf '''' 8 64,
      Bitf '''' 8 64,
      Bitf '''' 8 64,
      Bitf '''' 8 64,
      Bitf '''' 8 64,
      Bitf '''' 8 64,
      Bitf '''' 8 64,
      Bitf '''' 8 64,
      Bitf '''' 8 64,
      Bitf '''' 8 64,
      Bitf '''' 8 64,
      Bitf '''' 8 64,
      Bitf '''' 8 64,
      Bitf '''' 8 64,
      Bitf '''' 8 64,
      Bitf '''' 8 64,
      Bitf '''' 8 64,
      Bitf '''' 8 64,
      Bitf '''' 8 64,
      Bitf '''' 8 64,
      Bitf '''' 8 64,
      Bitf '''' 8 64,
      Bitf '''' 8 64,
      Bitf '''' 8 64,
      Bitf '''' 8 64,
      Bitf '''' 8 64,
      Bitf '''' 8 64,
      Bitf '''' 8 64,
      Bitf '''' 8 64,
      Bitf '''' 8 64,
      Bitf '''' 8 64,
      Bitf '''' 8 64,
      Bitf '''' 8 64,
      Bitf '''' 8 64,
      Bitf '''' 8 64,
      Bitf '''' 8 64,
      Bitf '''' 8 64,
      Bitf '''' 8 64,
      Bitf '''' 8 64,
      Bitf '''' 8 64,
      Bitf '''' 8 64,
      Bitf '''' 8 64,
      Bitf '''' 8 64,
      Bitf '''' 8 64,
      Bitf '''' 8 64,
      Bitf '''' 8 64,
      Bitf '''' 8 64,
      Bitf '''' 8 64,
      Bitf '''' 8 64,
      Bitf '''' 8 64,
      Bitf '''' 8 64,
      Bitf '''' 8 64,
      Bitf '''' 8 64,
      Bitf '''' 8 64,
      Bitf '''' 8 64,
      Bitf '''' 8 64,
      Bitf '''' 8 64,
      Bitf '''' 8 64,
      Bitf '''' 8 64,
      Bitf '''' 8 64,
      Bitf '''' 8 64,
      Bitf '''' 8 64,
      Bitf '''' 8 64,
      Bitf '''' 8 64,
      Bitf '''' 8 64,
      Bitf '''' 8 64,
      Bitf '''' 8 64,
      Bitf '''' 8 64,
      Bitf '''' 8 64,
      Bitf '''' 8 64,
      Bitf '''' 8 64,
      Bitf '''' 8 64,
      Bitf '''' 8 64,
      Bitf '''' 8 64,
      Bitf '''' 8 64,
      Bitf '''' 8 64,
      Bitf '''' 8 64,
      Bitf '''' 8 64,
      Bitf '''' 8 64,
      Bitf '''' 8 64,
      Bitf '''' 8 64,
      Bitf '''' 8 64,
      Bitf '''' 8 64,
      Bitf '''' 8 64,
      Bitf '''' 8 64,
      Bitf '''' 8 64,
      Bitf '''' 8 64,
      Bitf '''' 8 64,
      Bitf '''' 8 64,
      Bitf '''' 8 64,
      Bitf '''' 8 64,
      Bitf '''' 8 64,
      Bitf '''' 8 64,
      Bitf '''' 8 64,
      Bitf '''' 8 64,
      Bitf '''' 8 64,
      Bitf '''' 8 64,
      Bitf '''' 8 64,
      Bitf '''' 8 64,
      Bitf '''' 8 64,
      Bitf '''' 8 64,
      Bitf '''' 8 64,
      Bitf '''' 8 64,
      Bitf '''' 8 64,
      Bitf '''' 8 64,
      Bitf '''' 8 64,
      Bitf '''' 8 64,
      Bitf '''' 8 64,
      Bitf '''' 8 64,
      Bitf '''' 8 64,
      Bitf '''' 8 64,
      Bitf '''' 8 64,
      Bitf '''' 8 64,
      Bitf '''' 8 64,
      Bitf '''' 8 64,
      Bitf '''' 8 64,
      Bitf '''' 8 64,
      Bitf '''' 8 64,
      Bitf '''' 8 64,
      Bitf '''' 8 64,
      Bitf '''' 8 64,
      Bitf '''' 8 64,
      Bitf '''' 8 64,
      Bitf '''' 8 64,
      Bitf '''' 8 64,
      Bitf '''' 8 64,
      Bitf '''' 8 64,
      Bitf '''' 8 64,
      Bitf '''' 8 64,
      Bitf '''' 8 64,
      Bitf '''' 8 64,
      Bitf '''' 8 64,
      Bitf '''' 8 64,
      Bitf '''' 8 64,
      Bitf '''' 8 64,
      Bitf '''' 8 64,
      Bitf '''' 8 64,
      Bitf '''' 8 64,
      Bitf '''' 8 64,
      Bitf '''' 8 64,
      Bitf '''' 8 64,
      Bitf '''' 8 64,
      Bitf '''' 8 64,
      Bitf '''' 8 64,
      Bitf '''' 8 64,
      Bitf '''' 8 64,
      Bitf '''' 8 64,
      Bitf '''' 8 64,
      Bitf '''' 8 64,
      Bitf '''' 8 64,
      Bitf '''' 8 64,
      Bitf '''' 8 64,
      Bitf '''' 8 64,
      Bitf '''' 8 64,
      Bitf '''' 8 64,
      Bitf '''' 8 64,
      Bitf '''' 8 64,
      Bitf '''' 8 64,
      Bitf '''' 8 64,
      Bitf '''' 8 64,
      Bitf '''' 8 64,
      Bitf '''' 8 64,
      Bitf '''' 8 64,
      Bitf '''' 8 64,
      Bitf '''' 8 64,
      Bitf '''' 8 64,
      Bitf '''' 8 64,
      Bitf '''' 8 64,
      Bitf '''' 8 64,
      Bitf '''' 8 64,
      Bitf '''' 8 64,
      Bitf '''' 8 64,
      Bitf '''' 8 64,
      Bitf '''' 8 64,
      Bitf '''' 8 64,
      Bitf '''' 8 64,
      Bitf '''' 8 64,
      Bitf '''' 8 64,
      Bitf '''' 8 64,
      Bitf '''' 8 64,
      Bitf '''' 8 64,
      Bitf '''' 8 64,
      Bitf '''' 8 64,
      Bitf '''' 8 64,
      Bitf '''' 8 64,
      Bitf '''' 8 64,
      Bitf '''' 8 64,
      Bitf '''' 8 64,
      Bitf '''' 8 64,
      Bitf '''' 8 64,
      Bitf '''' 8 64,
      Bitf '''' 8 64,
      Bitf '''' 8 64,
      Bitf '''' 8 64,
      Bitf '''' 8 64,
      Bitf '''' 8 64,
      Bitf '''' 8 64,
      Bitf '''' 8 64,
      Bitf '''' 8 64,
      Bitf '''' 8 64,
      Bitf '''' 8 64,
      Bitf '''' 8 64,
      Bitf '''' 8 64,
      Bitf '''' 8 64,
      Bitf '''' 8 64,
      Bitf '''' 8 64,
      Bitf '''' 8 64,
      Bitf '''' 8 64,
      Bitf '''' 8 64,
      Bitf '''' 8 64,
      Bitf '''' 8 64,
      Bitf '''' 8 64,
      Bitf '''' 8 64,
      Bitf '''' 8 64,
      Bitf '''' 8 64,
      Bitf '''' 8 64,
      Bitf '''' 8 64,
      Bitf '''' 8 64,
      Bitf '''' 8 64,
      Bitf '''' 8 64,
      Bitf '''' 8 64,
      Bitf '''' 8 64,
      Bitf '''' 8 64,
      Bitf '''' 8 64,
      Bitf '''' 8 64,
      Bitf '''' 8 64,
      Bitf '''' 8 64,
      Bitf '''' 8 64,
      Bitf '''' 8 64,
      Bitf '''' 8 64,
      Bitf '''' 8 64,
      Bitf '''' 8 64,
      Bitf '''' 8 64,
      Bitf '''' 8 64,
      Bitf '''' 8 64,
      Bitf '''' 8 64,
      Bitf '''' 8 64,
      Bitf '''' 8 64,
      Bitf '''' 8 64,
      Bitf '''' 8 64,
      Bitf '''' 8 64,
      Bitf '''' 8 64,
      Bitf '''' 8 64,
      Bitf '''' 8 64,
      Bitf '''' 8 64,
      Bitf '''' 8 64,
      Bitf '''' 8 64,
      Bitf '''' 8 64,
      Bitf '''' 8 64,
      Bitf '''' 8 64,
      Bitf '''' 8 64,
      Bitf '''' 8 64,
      Bitf '''' 8 64,
      Bitf '''' 8 64,
      Bitf '''' 8 64,
      Bitf '''' 8 64,
      Bitf '''' 8 64,
      Bitf '''' 8 64,
      Bitf '''' 8 64,
      Bitf '''' 8 64,
      Bitf '''' 8 64,
      Bitf '''' 8 64,
      Bitf '''' 8 64,
      Bitf '''' 8 64,
      Bitf '''' 8 64,
      Bitf '''' 8 64,
      Bitf '''' 8 64,
      Bitf '''' 8 64,
      Bitf '''' 8 64,
      Bitf '''' 8 64,
      Bitf '''' 8 64,
      Bitf '''' 8 64,
      Bitf '''' 8 64,
      Bitf '''' 8 64,
      Bitf '''' 8 64,
      Bitf '''' 8 64,
      Bitf '''' 8 64,
      Bitf '''' 8 64,
      Bitf '''' 8 64,
      Bitf '''' 8 64,
      Bitf '''' 8 64,
      Bitf '''' 8 64,
      Bitf '''' 8 64,
      Bitf '''' 8 64,
      Bitf '''' 8 64,
      Bitf '''' 8 64,
      Bitf '''' 8 64,
      Bitf '''' 8 64,
      Bitf '''' 8 64,
      Bitf '''' 8 64,
      Bitf '''' 8 64,
      Bitf '''' 8 64,
      Bitf '''' 8 64,
      Bitf '''' 8 64,
      Bitf '''' 8 64,
      Bitf '''' 8 64,
      Bitf '''' 8 64,
      Bitf '''' 8 64,
      Bitf '''' 8 64,
      Bitf '''' 8 64,
      Bitf '''' 8 64,
      Bitf '''' 8 64,
      Bitf '''' 8 64,
      Bitf '''' 8 64,
      Bitf '''' 8 64,
      Bitf '''' 8 64,
      Bitf '''' 8 64,
      Bitf '''' 8 64,
      Bitf '''' 8 64,
      Bitf '''' 8 64,
      Bitf '''' 8 64,
      Bitf '''' 8 64,
      Bitf '''' 8 64,
      Bitf '''' 8 64,
      Bitf '''' 8 64,
      Bitf '''' 8 64,
      Bitf '''' 8 64,
      Bitf '''' 8 64,
      Bitf '''' 8 64,
      Bitf '''' 8 64,
      Bitf '''' 8 64,
      Bitf '''' 8 64,
      Bitf '''' 8 64,
      Bitf '''' 8 64,
      Fld ''data'' (CArr (CInt 1) 0)]"

lemma s_bpf_ringbuf_layout [layout]: "csize s_bpf_ringbuf = 12288" "calign s_bpf_ringbuf = 8" "wf_ctype s_bpf_ringbuf"
  by (simp_all add: s_bpf_ringbuf_def layout)

definition s_bpf_ringbuf_map :: ctype where
  "s_bpf_ringbuf_map = CStruct
     [Fld ''map'' s_bpf_map,
      Fld ''rb'' CPtr]"

lemma s_bpf_ringbuf_map_layout [layout]: "csize s_bpf_ringbuf_map = 296" "calign s_bpf_ringbuf_map = 8" "wf_ctype s_bpf_ringbuf_map"
  by (simp_all add: s_bpf_ringbuf_map_def layout)

definition s_bpf_insn :: ctype where
  "s_bpf_insn = CStruct
     [Fld ''code'' t___u8,
      Bitf ''dst_reg'' 1 4,
      Bitf ''src_reg'' 1 4,
      Fld ''off'' t___s16,
      Fld ''imm'' t___s32]"

lemma s_bpf_insn_layout [layout]: "csize s_bpf_insn = 8" "calign s_bpf_insn = 4" "wf_ctype s_bpf_insn"
  by (simp_all add: s_bpf_insn_def layout)

definition s_sock_filter :: ctype where
  "s_sock_filter = CStruct
     [Fld ''code'' t___u16,
      Fld ''jt'' t___u8,
      Fld ''jf'' t___u8,
      Fld ''k'' t___u32]"

lemma s_sock_filter_layout [layout]: "csize s_sock_filter = 8" "calign s_sock_filter = 4" "wf_ctype s_sock_filter"
  by (simp_all add: s_sock_filter_def layout)

definition s_bpf_prog :: ctype where
  "s_bpf_prog = CStruct
     [Fld ''pages'' t_u16,
      Bitf ''jited'' 2 1,
      Bitf ''jit_requested'' 2 1,
      Bitf ''gpl_compatible'' 2 1,
      Bitf ''cb_access'' 2 1,
      Bitf ''dst_needed'' 2 1,
      Bitf ''blinding_requested'' 2 1,
      Bitf ''blinded'' 2 1,
      Bitf ''is_func'' 2 1,
      Bitf ''kprobe_override'' 2 1,
      Bitf ''has_callchain_buf'' 2 1,
      Bitf ''enforce_expected_attach_type'' 2 1,
      Bitf ''call_get_stack'' 2 1,
      Bitf ''call_get_func_ip'' 2 1,
      Bitf ''call_session_cookie'' 2 1,
      Bitf ''tstamp_type_access'' 2 1,
      Bitf ''sleepable'' 2 1,
      Fld ''type'' (CInt 4),
      Fld ''expected_attach_type'' (CInt 4),
      Fld ''len'' t_u32,
      Fld ''jited_len'' t_u32,
      Fld '''' (CUnion
        [Fld ''digest'' (CArr t_u8 32),
         Fld ''tag'' (CArr t_u8 8)]),
      Fld ''stats'' CPtr,
      Fld ''active'' CPtr,
      Fld ''bpf_func'' CPtr,
      Fld ''aux'' CPtr,
      Fld ''orig_prog'' CPtr,
      Fld '''' (CUnion
        [Fld '''' (CStruct
           [Fld ''__empty_insns'' (CStruct
              []),
            Fld ''insns'' (CArr s_sock_filter 0)]),
         Fld '''' (CStruct
           [Fld ''__empty_insnsi'' (CStruct
              []),
            Fld ''insnsi'' (CArr s_bpf_insn 0)])])]"

lemma s_bpf_prog_layout [layout]: "csize s_bpf_prog = 96" "calign s_bpf_prog = 8" "wf_ctype s_bpf_prog"
  by (simp_all add: s_bpf_prog_def layout)

definition s_latch_tree_node :: ctype where
  "s_latch_tree_node = CStruct
     [Fld ''node'' (CArr s_rb_node 2)]"

lemma s_latch_tree_node_layout [layout]: "csize s_latch_tree_node = 48" "calign s_latch_tree_node = 8" "wf_ctype s_latch_tree_node"
  by (simp_all add: s_latch_tree_node_def layout)

definition s_bpf_ksym :: ctype where
  "s_bpf_ksym = CStruct
     [Fld ''start'' (CInt 8),
      Fld ''end'' (CInt 8),
      Fld ''name'' (CArr (CInt 1) 512),
      Fld ''lnode'' s_list_head,
      Fld ''tnode'' s_latch_tree_node,
      Fld ''prog'' (CInt 1),
      Fld ''fp_start'' t_u32,
      Fld ''fp_end'' t_u32]"

lemma s_bpf_ksym_layout [layout]: "csize s_bpf_ksym = 608" "calign s_bpf_ksym = 8" "wf_ctype s_bpf_ksym"
  by (simp_all add: s_bpf_ksym_def layout)

definition s_bpf_stream :: ctype where
  "s_bpf_stream = CStruct
     [Fld ''capacity'' t_atomic_t,
      Fld ''log'' s_llist_head,
      Fld ''lock'' s_mutex,
      Fld ''backlog_head'' CPtr,
      Fld ''backlog_tail'' CPtr]"

lemma s_bpf_stream_layout [layout]: "csize s_bpf_stream = 64" "calign s_bpf_stream = 8" "wf_ctype s_bpf_stream"
  by (simp_all add: s_bpf_stream_def layout)

definition s_bpf_prog_aux :: ctype where
  "s_bpf_prog_aux = CStruct
     [Fld ''refcnt'' t_atomic64_t,
      Fld ''used_map_cnt'' t_u32,
      Fld ''used_btf_cnt'' t_u32,
      Fld ''max_ctx_offset'' t_u32,
      Fld ''max_pkt_offset'' t_u32,
      Fld ''max_tp_access'' t_u32,
      Fld ''stack_depth'' t_u32,
      Fld ''id'' t_u32,
      Fld ''func_cnt'' t_u32,
      Fld ''real_func_cnt'' t_u32,
      Fld ''func_idx'' t_u32,
      Fld ''attach_btf_id'' t_u32,
      Fld ''attach_st_ops_member_off'' t_u32,
      Fld ''ctx_arg_info_size'' t_u32,
      Fld ''max_rdonly_access'' t_u32,
      Fld ''max_rdwr_access'' t_u32,
      Fld ''subprog_start'' t_u32,
      Fld ''attach_btf'' CPtr,
      Fld ''ctx_arg_info'' CPtr,
      Fld ''priv_stack_ptr'' CPtr,
      Fld ''dst_mutex'' s_mutex,
      Fld ''dst_prog'' CPtr,
      Fld ''dst_trampoline'' CPtr,
      Fld ''saved_dst_prog_type'' (CInt 4),
      Fld ''saved_dst_attach_type'' (CInt 4),
      Fld ''verifier_zext'' (CInt 1),
      Fld ''dev_bound'' (CInt 1),
      Fld ''offload_requested'' (CInt 1),
      Fld ''attach_btf_trace'' (CInt 1),
      Fld ''attach_tracing_prog'' (CInt 1),
      Fld ''func_proto_unreliable'' (CInt 1),
      Fld ''tail_call_reachable'' (CInt 1),
      Fld ''xdp_has_frags'' (CInt 1),
      Fld ''exception_cb'' (CInt 1),
      Fld ''exception_boundary'' (CInt 1),
      Fld ''is_extended'' (CInt 1),
      Fld ''jits_use_priv_stack'' (CInt 1),
      Fld ''priv_stack_requested'' (CInt 1),
      Fld ''changes_pkt_data'' (CInt 1),
      Fld ''might_sleep'' (CInt 1),
      Fld ''kprobe_write_ctx'' (CInt 1),
      Fld ''prog_array_member_cnt'' t_u64,
      Fld ''ext_mutex'' s_mutex,
      Fld ''arena'' CPtr,
      Fld ''recursion_detected'' CPtr,
      Fld ''attach_func_proto'' CPtr,
      Fld ''attach_func_name'' CPtr,
      Fld ''func'' CPtr,
      Fld ''main_prog_aux'' CPtr,
      Fld ''jit_data'' CPtr,
      Fld ''poke_tab'' CPtr,
      Fld ''kfunc_tab'' CPtr,
      Fld ''kfunc_btf_tab'' CPtr,
      Fld ''size_poke_tab'' t_u32,
      Fld ''ksym'' s_bpf_ksym,
      Fld ''ops'' CPtr,
      Fld ''st_ops'' CPtr,
      Fld ''used_maps'' CPtr,
      Fld ''used_maps_mutex'' s_mutex,
      Fld ''used_btfs'' CPtr,
      Fld ''prog'' CPtr,
      Fld ''user'' CPtr,
      Fld ''load_time'' t_u64,
      Fld ''verified_insns'' t_u32,
      Fld ''cgroup_atype'' (CInt 4),
      Fld ''cgroup_storage'' (CArr CPtr 2),
      Fld ''name'' (CArr (CInt 1) 16),
      Fld ''bpf_exception_cb'' CPtr,
      Fld ''security'' CPtr,
      Fld ''token'' CPtr,
      Fld ''offload'' CPtr,
      Fld ''btf'' CPtr,
      Fld ''func_info'' CPtr,
      Fld ''func_info_aux'' CPtr,
      Fld ''linfo'' CPtr,
      Fld ''jited_linfo'' CPtr,
      Fld ''func_info_cnt'' t_u32,
      Fld ''nr_linfo'' t_u32,
      Fld ''linfo_idx'' t_u32,
      Fld ''mod'' CPtr,
      Fld ''num_exentries'' t_u32,
      Fld ''extable'' CPtr,
      Fld '''' (CUnion
        [Fld ''work'' s_work_struct,
         Fld ''rcu'' s_callback_head]),
      Fld ''stream'' (CArr s_bpf_stream 2),
      Fld ''st_ops_assoc_mutex'' s_mutex,
      Fld ''st_ops_assoc'' CPtr]"

lemma s_bpf_prog_aux_layout [layout]: "csize s_bpf_prog_aux = 1344" "calign s_bpf_prog_aux = 8" "wf_ctype s_bpf_prog_aux"
  by (simp_all add: s_bpf_prog_aux_def layout)

definition e_bpf_return_type :: "(string \<times> int) list" where
  "e_bpf_return_type =
    [(''RET_INTEGER'', 0), (''RET_VOID'', 1), (''RET_PTR_TO_MAP_VALUE'', 2), (''RET_PTR_TO_SOCKET'', 3),
     (''RET_PTR_TO_TCP_SOCK'', 4), (''RET_PTR_TO_SOCK_COMMON'', 5), (''RET_PTR_TO_MEM'', 6),
     (''RET_PTR_TO_MEM_OR_BTF_ID'', 7), (''RET_PTR_TO_BTF_ID'', 8), (''__BPF_RET_TYPE_MAX'', 9),
     (''RET_PTR_TO_MAP_VALUE_OR_NULL'', 258), (''RET_PTR_TO_SOCKET_OR_NULL'', 259),
     (''RET_PTR_TO_TCP_SOCK_OR_NULL'', 260), (''RET_PTR_TO_SOCK_COMMON_OR_NULL'', 261),
     (''RET_PTR_TO_RINGBUF_MEM_OR_NULL'', 1286), (''RET_PTR_TO_DYNPTR_MEM_OR_NULL'', 262),
     (''RET_PTR_TO_BTF_ID_OR_NULL'', 264), (''RET_PTR_TO_BTF_ID_TRUSTED'', 1048584),
     (''__BPF_RET_TYPE_LIMIT'', 536870911)]"

definition e_bpf_arg_type :: "(string \<times> int) list" where
  "e_bpf_arg_type =
    [(''ARG_DONTCARE'', 0), (''ARG_CONST_MAP_PTR'', 1), (''ARG_PTR_TO_MAP_KEY'', 2),
     (''ARG_PTR_TO_MAP_VALUE'', 3), (''ARG_PTR_TO_MEM'', 4), (''ARG_PTR_TO_ARENA'', 5),
     (''ARG_CONST_SIZE'', 6), (''ARG_CONST_SIZE_OR_ZERO'', 7), (''ARG_PTR_TO_CTX'', 8), (''ARG_ANYTHING'', 9),
     (''ARG_PTR_TO_SPIN_LOCK'', 10), (''ARG_PTR_TO_SOCK_COMMON'', 11), (''ARG_PTR_TO_SOCKET'', 12),
     (''ARG_PTR_TO_BTF_ID'', 13), (''ARG_PTR_TO_RINGBUF_MEM'', 14), (''ARG_CONST_ALLOC_SIZE_OR_ZERO'', 15),
     (''ARG_PTR_TO_BTF_ID_SOCK_COMMON'', 16), (''ARG_PTR_TO_PERCPU_BTF_ID'', 17), (''ARG_PTR_TO_FUNC'', 18),
     (''ARG_PTR_TO_STACK'', 19), (''ARG_PTR_TO_CONST_STR'', 20), (''ARG_PTR_TO_TIMER'', 21),
     (''ARG_KPTR_XCHG_DEST'', 22), (''ARG_PTR_TO_DYNPTR'', 23), (''__BPF_ARG_TYPE_MAX'', 24),
     (''ARG_PTR_TO_MAP_VALUE_OR_NULL'', 259), (''ARG_PTR_TO_MEM_OR_NULL'', 260),
     (''ARG_PTR_TO_CTX_OR_NULL'', 264), (''ARG_PTR_TO_SOCKET_OR_NULL'', 268),
     (''ARG_PTR_TO_STACK_OR_NULL'', 275), (''ARG_PTR_TO_BTF_ID_OR_NULL'', 269),
     (''ARG_PTR_TO_UNINIT_MEM'', 67141636), (''ARG_PTR_TO_FIXED_SIZE_MEM'', 262148),
     (''__BPF_ARG_TYPE_LIMIT'', 536870911)]"

definition s_bpf_func_proto :: ctype where
  "s_bpf_func_proto = CStruct
     [Fld ''func'' CPtr,
      Fld ''gpl_only'' (CInt 1),
      Fld ''pkt_access'' (CInt 1),
      Fld ''might_sleep'' (CInt 1),
      Fld ''allow_fastcall'' (CInt 1),
      Fld ''ret_type'' (CInt 4),
      Fld '''' (CUnion
        [Fld '''' (CStruct
           [Fld ''arg1_type'' (CInt 4),
            Fld ''arg2_type'' (CInt 4),
            Fld ''arg3_type'' (CInt 4),
            Fld ''arg4_type'' (CInt 4),
            Fld ''arg5_type'' (CInt 4)]),
         Fld ''arg_type'' (CArr (CInt 4) 5)]),
      Fld '''' (CUnion
        [Fld '''' (CStruct
           [Fld ''arg1_btf_id'' CPtr,
            Fld ''arg2_btf_id'' CPtr,
            Fld ''arg3_btf_id'' CPtr,
            Fld ''arg4_btf_id'' CPtr,
            Fld ''arg5_btf_id'' CPtr]),
         Fld ''arg_btf_id'' (CArr CPtr 5),
         Fld '''' (CStruct
           [Fld ''arg1_size'' t_size_t,
            Fld ''arg2_size'' t_size_t,
            Fld ''arg3_size'' t_size_t,
            Fld ''arg4_size'' t_size_t,
            Fld ''arg5_size'' t_size_t]),
         Fld ''arg_size'' (CArr t_size_t 5)]),
      Fld ''ret_btf_id'' CPtr,
      Fld ''allowed'' CPtr]"

lemma s_bpf_func_proto_layout [layout]: "csize s_bpf_func_proto = 96" "calign s_bpf_func_proto = 8" "wf_ctype s_bpf_func_proto"
  by (simp_all add: s_bpf_func_proto_def layout)

definition t_kprobe_pre_handler_t :: ctype where
  "t_kprobe_pre_handler_t = CPtr"

lemma t_kprobe_pre_handler_t_layout [layout]: "csize t_kprobe_pre_handler_t = 8" "calign t_kprobe_pre_handler_t = 8" "wf_ctype t_kprobe_pre_handler_t"
  by (simp_all add: t_kprobe_pre_handler_t_def layout)

definition t_kprobe_post_handler_t :: ctype where
  "t_kprobe_post_handler_t = CPtr"

lemma t_kprobe_post_handler_t_layout [layout]: "csize t_kprobe_post_handler_t = 8" "calign t_kprobe_post_handler_t = 8" "wf_ctype t_kprobe_post_handler_t"
  by (simp_all add: t_kprobe_post_handler_t_def layout)

definition t_kprobe_opcode_t :: ctype where
  "t_kprobe_opcode_t = t_u8"

lemma t_kprobe_opcode_t_layout [layout]: "csize t_kprobe_opcode_t = 1" "calign t_kprobe_opcode_t = 1" "wf_ctype t_kprobe_opcode_t"
  by (simp_all add: t_kprobe_opcode_t_def layout)

definition s_arch_specific_insn :: ctype where
  "s_arch_specific_insn = CStruct
     [Fld ''insn'' CPtr,
      Bitf ''boostable'' 4 1,
      Fld ''size'' (CInt 1),
      Fld '''' (CUnion
        [Fld ''opcode'' (CInt 1),
         Fld ''jcc'' (CStruct
           [Fld ''type'' (CInt 1)]),
         Fld ''loop'' (CStruct
           [Fld ''type'' (CInt 1),
            Fld ''asize'' (CInt 1)]),
         Fld ''indirect'' (CStruct
           [Fld ''reg'' (CInt 1)])]),
      Fld ''rel32'' t_s32,
      Fld ''emulate_op'' CPtr,
      Fld ''tp_len'' (CInt 4)]"

lemma s_arch_specific_insn_layout [layout]: "csize s_arch_specific_insn = 32" "calign s_arch_specific_insn = 8" "wf_ctype s_arch_specific_insn"
  by (simp_all add: s_arch_specific_insn_def layout)

definition s_kprobe :: ctype where
  "s_kprobe = CStruct
     [Fld ''hlist'' s_hlist_node,
      Fld ''list'' s_list_head,
      Fld ''nmissed'' (CInt 8),
      Fld ''addr'' CPtr,
      Fld ''symbol_name'' CPtr,
      Fld ''offset'' (CInt 4),
      Fld ''pre_handler'' t_kprobe_pre_handler_t,
      Fld ''post_handler'' t_kprobe_post_handler_t,
      Fld ''opcode'' t_kprobe_opcode_t,
      Fld ''ainsn'' s_arch_specific_insn,
      Fld ''flags'' t_u32]"

lemma s_kprobe_layout [layout]: "csize s_kprobe = 128" "calign s_kprobe = 8" "wf_ctype s_kprobe"
  by (simp_all add: s_kprobe_def layout)

definition s_dyn_event :: ctype where
  "s_dyn_event = CStruct
     [Fld ''list'' s_list_head,
      Fld ''ops'' CPtr]"

lemma s_dyn_event_layout [layout]: "csize s_dyn_event = 24" "calign s_dyn_event = 8" "wf_ctype s_dyn_event"
  by (simp_all add: s_dyn_event_def layout)

definition t_kretprobe_handler_t :: ctype where
  "t_kretprobe_handler_t = CPtr"

lemma t_kretprobe_handler_t_layout [layout]: "csize t_kretprobe_handler_t = 8" "calign t_kretprobe_handler_t = 8" "wf_ctype t_kretprobe_handler_t"
  by (simp_all add: t_kretprobe_handler_t_def layout)

definition s_kretprobe :: ctype where
  "s_kretprobe = CStruct
     [Fld ''kp'' s_kprobe,
      Fld ''handler'' t_kretprobe_handler_t,
      Fld ''entry_handler'' t_kretprobe_handler_t,
      Fld ''maxactive'' (CInt 4),
      Fld ''nmissed'' (CInt 4),
      Fld ''data_size'' t_size_t,
      Fld ''rh'' CPtr]"

lemma s_kretprobe_layout [layout]: "csize s_kretprobe = 168" "calign s_kretprobe = 8" "wf_ctype s_kretprobe"
  by (simp_all add: s_kretprobe_def layout)

definition t___kernel_long_t :: ctype where
  "t___kernel_long_t = CInt 8"

lemma t___kernel_long_t_layout [layout]: "csize t___kernel_long_t = 8" "calign t___kernel_long_t = 8" "wf_ctype t___kernel_long_t"
  by (simp_all add: t___kernel_long_t_def layout)

definition t___kernel_ssize_t :: ctype where
  "t___kernel_ssize_t = t___kernel_long_t"

lemma t___kernel_ssize_t_layout [layout]: "csize t___kernel_ssize_t = 8" "calign t___kernel_ssize_t = 8" "wf_ctype t___kernel_ssize_t"
  by (simp_all add: t___kernel_ssize_t_def layout)

definition t_ssize_t :: ctype where
  "t_ssize_t = t___kernel_ssize_t"

lemma t_ssize_t_layout [layout]: "csize t_ssize_t = 8" "calign t_ssize_t = 8" "wf_ctype t_ssize_t"
  by (simp_all add: t_ssize_t_def layout)

definition s_probe_arg :: ctype where
  "s_probe_arg = CStruct
     [Fld ''code'' CPtr,
      Fld ''dynamic'' (CInt 1),
      Fld ''offset'' (CInt 4),
      Fld ''count'' (CInt 4),
      Fld ''name'' CPtr,
      Fld ''comm'' CPtr,
      Fld ''fmt'' CPtr,
      Fld ''type'' CPtr]"

lemma s_probe_arg_layout [layout]: "csize s_probe_arg = 56" "calign s_probe_arg = 8" "wf_ctype s_probe_arg"
  by (simp_all add: s_probe_arg_def layout)

definition s_trace_probe :: ctype where
  "s_trace_probe = CStruct
     [Fld ''list'' s_list_head,
      Fld ''event'' CPtr,
      Fld ''size'' t_ssize_t,
      Fld ''nr_args'' (CInt 4),
      Fld ''entry_arg'' CPtr,
      Fld ''args'' (CArr s_probe_arg 0)]"

lemma s_trace_probe_layout [layout]: "csize s_trace_probe = 48" "calign s_trace_probe = 8" "wf_ctype s_trace_probe"
  by (simp_all add: s_trace_probe_def layout)

definition s_trace_kprobe :: ctype where
  "s_trace_kprobe = CStruct
     [Fld ''devent'' s_dyn_event,
      Fld ''rp'' s_kretprobe,
      Fld ''nhit'' CPtr,
      Fld ''symbol'' CPtr,
      Fld ''tp'' s_trace_probe]"

lemma s_trace_kprobe_layout [layout]: "csize s_trace_kprobe = 256" "calign s_trace_kprobe = 8" "wf_ctype s_trace_kprobe"
  by (simp_all add: s_trace_kprobe_def layout)

definition e_perf_event_state :: "(string \<times> int) list" where
  "e_perf_event_state =
    [(''PERF_EVENT_STATE_DEAD'', - 5), (''PERF_EVENT_STATE_REVOKED'', - 4), (''PERF_EVENT_STATE_EXIT'', - 3),
     (''PERF_EVENT_STATE_ERROR'', - 2), (''PERF_EVENT_STATE_OFF'', - 1), (''PERF_EVENT_STATE_INACTIVE'', 0),
     (''PERF_EVENT_STATE_ACTIVE'', 1)]"

definition t_local_t :: ctype where
  "t_local_t = CStruct
     [Fld ''a'' t_atomic_long_t]"

lemma t_local_t_layout [layout]: "csize t_local_t = 8" "calign t_local_t = 8" "wf_ctype t_local_t"
  by (simp_all add: t_local_t_def layout)

definition t_local64_t :: ctype where
  "t_local64_t = CStruct
     [Fld ''a'' t_local_t]"

lemma t_local64_t_layout [layout]: "csize t_local64_t = 8" "calign t_local64_t = 8" "wf_ctype t_local64_t"
  by (simp_all add: t_local64_t_def layout)

definition s_perf_event_attr :: ctype where
  "s_perf_event_attr = CStruct
     [Fld ''type'' t___u32,
      Fld ''size'' t___u32,
      Fld ''config'' t___u64,
      Fld '''' (CUnion
        [Fld ''sample_period'' t___u64,
         Fld ''sample_freq'' t___u64]),
      Fld ''sample_type'' t___u64,
      Fld ''read_format'' t___u64,
      Bitf ''disabled'' 8 1,
      Bitf ''inherit'' 8 1,
      Bitf ''pinned'' 8 1,
      Bitf ''exclusive'' 8 1,
      Bitf ''exclude_user'' 8 1,
      Bitf ''exclude_kernel'' 8 1,
      Bitf ''exclude_hv'' 8 1,
      Bitf ''exclude_idle'' 8 1,
      Bitf ''mmap'' 8 1,
      Bitf ''comm'' 8 1,
      Bitf ''freq'' 8 1,
      Bitf ''inherit_stat'' 8 1,
      Bitf ''enable_on_exec'' 8 1,
      Bitf ''task'' 8 1,
      Bitf ''watermark'' 8 1,
      Bitf ''precise_ip'' 8 2,
      Bitf ''mmap_data'' 8 1,
      Bitf ''sample_id_all'' 8 1,
      Bitf ''exclude_host'' 8 1,
      Bitf ''exclude_guest'' 8 1,
      Bitf ''exclude_callchain_kernel'' 8 1,
      Bitf ''exclude_callchain_user'' 8 1,
      Bitf ''mmap2'' 8 1,
      Bitf ''comm_exec'' 8 1,
      Bitf ''use_clockid'' 8 1,
      Bitf ''context_switch'' 8 1,
      Bitf ''write_backward'' 8 1,
      Bitf ''namespaces'' 8 1,
      Bitf ''ksymbol'' 8 1,
      Bitf ''bpf_event'' 8 1,
      Bitf ''aux_output'' 8 1,
      Bitf ''cgroup'' 8 1,
      Bitf ''text_poke'' 8 1,
      Bitf ''build_id'' 8 1,
      Bitf ''inherit_thread'' 8 1,
      Bitf ''remove_on_exec'' 8 1,
      Bitf ''sigtrap'' 8 1,
      Bitf ''defer_callchain'' 8 1,
      Bitf ''defer_output'' 8 1,
      Bitf ''__reserved_1'' 8 24,
      Fld '''' (CUnion
        [Fld ''wakeup_events'' t___u32,
         Fld ''wakeup_watermark'' t___u32]),
      Fld ''bp_type'' t___u32,
      Fld '''' (CUnion
        [Fld ''bp_addr'' t___u64,
         Fld ''kprobe_func'' t___u64,
         Fld ''uprobe_path'' t___u64,
         Fld ''config1'' t___u64]),
      Fld '''' (CUnion
        [Fld ''bp_len'' t___u64,
         Fld ''kprobe_addr'' t___u64,
         Fld ''probe_offset'' t___u64,
         Fld ''config2'' t___u64]),
      Fld ''branch_sample_type'' t___u64,
      Fld ''sample_regs_user'' t___u64,
      Fld ''sample_stack_user'' t___u32,
      Fld ''clockid'' t___s32,
      Fld ''sample_regs_intr'' t___u64,
      Fld ''aux_watermark'' t___u32,
      Fld ''sample_max_stack'' t___u16,
      Fld ''__reserved_2'' t___u16,
      Fld ''aux_sample_size'' t___u32,
      Fld '''' (CUnion
        [Fld ''aux_action'' t___u32,
         Fld '''' (CStruct
           [Bitf ''aux_start_paused'' 4 1,
            Bitf ''aux_pause'' 4 1,
            Bitf ''aux_resume'' 4 1,
            Bitf ''__reserved_3'' 4 29])]),
      Fld ''sig_data'' t___u64,
      Fld ''config3'' t___u64,
      Fld ''config4'' t___u64]"

lemma s_perf_event_attr_layout [layout]: "csize s_perf_event_attr = 144" "calign s_perf_event_attr = 8" "wf_ctype s_perf_event_attr"
  by (simp_all add: s_perf_event_attr_def layout)

definition s_hw_perf_event_extra :: ctype where
  "s_hw_perf_event_extra = CStruct
     [Fld ''config'' t_u64,
      Fld ''reg'' (CInt 4),
      Fld ''alloc'' (CInt 4),
      Fld ''idx'' (CInt 4)]"

lemma s_hw_perf_event_extra_layout [layout]: "csize s_hw_perf_event_extra = 24" "calign s_hw_perf_event_extra = 8" "wf_ctype s_hw_perf_event_extra"
  by (simp_all add: s_hw_perf_event_extra_def layout)

definition s_arch_hw_breakpoint :: ctype where
  "s_arch_hw_breakpoint = CStruct
     [Fld ''address'' (CInt 8),
      Fld ''mask'' (CInt 8),
      Fld ''len'' t_u8,
      Fld ''type'' t_u8]"

lemma s_arch_hw_breakpoint_layout [layout]: "csize s_arch_hw_breakpoint = 24" "calign s_arch_hw_breakpoint = 8" "wf_ctype s_arch_hw_breakpoint"
  by (simp_all add: s_arch_hw_breakpoint_def layout)

definition s_rhlist_head :: ctype where
  "s_rhlist_head = CStruct
     [Fld ''rhead'' s_rhash_head,
      Fld ''next'' CPtr]"

lemma s_rhlist_head_layout [layout]: "csize s_rhlist_head = 16" "calign s_rhlist_head = 8" "wf_ctype s_rhlist_head"
  by (simp_all add: s_rhlist_head_def layout)

definition s_hw_perf_event :: ctype where
  "s_hw_perf_event = CStruct
     [Fld '''' (CUnion
        [Fld '''' (CStruct
           [Fld ''config'' t_u64,
            Fld ''config1'' t_u64,
            Fld ''last_tag'' t_u64,
            Fld ''dyn_constraint'' t_u64,
            Fld ''config_base'' (CInt 8),
            Fld ''event_base'' (CInt 8),
            Fld ''event_base_rdpmc'' (CInt 4),
            Fld ''idx'' (CInt 4),
            Fld ''last_cpu'' (CInt 4),
            Fld ''flags'' (CInt 4),
            Fld ''extra_reg'' s_hw_perf_event_extra,
            Fld ''branch_reg'' s_hw_perf_event_extra]),
         Fld '''' (CStruct
           [Fld ''aux_config'' t_u64,
            Fld ''aux_paused'' (CInt 4)]),
         Fld '''' (CStruct
           [Fld ''hrtimer'' s_hrtimer]),
         Fld '''' (CStruct
           [Fld ''tp_list'' s_list_head]),
         Fld '''' (CStruct
           [Fld ''pwr_acc'' t_u64,
            Fld ''ptsc'' t_u64]),
         Fld '''' (CStruct
           [Fld ''info'' s_arch_hw_breakpoint,
            Fld ''bp_list'' s_rhlist_head]),
         Fld '''' (CStruct
           [Fld ''iommu_bank'' t_u8,
            Fld ''iommu_cntr'' t_u8,
            Fld ''padding'' t_u16,
            Fld ''conf'' t_u64,
            Fld ''conf1'' t_u64])]),
      Fld ''target'' CPtr,
      Fld ''addr_filters'' CPtr,
      Fld ''addr_filters_gen'' (CInt 8),
      Fld ''state'' (CInt 4),
      Fld ''prev_count'' t_local64_t,
      Fld ''sample_period'' t_u64,
      Fld '''' (CUnion
        [Fld '''' (CStruct
           [Fld ''last_period'' t_u64,
            Fld ''period_left'' t_local64_t]),
         Fld '''' (CStruct
           [Fld ''saved_metric'' t_u64,
            Fld ''saved_slots'' t_u64])]),
      Fld ''interrupts_seq'' t_u64,
      Fld ''interrupts'' t_u64,
      Fld ''freq_time_stamp'' t_u64,
      Fld ''freq_count_stamp'' t_u64]"

lemma s_hw_perf_event_layout [layout]: "csize s_hw_perf_event = 208" "calign s_hw_perf_event = 8" "wf_ctype s_hw_perf_event"
  by (simp_all add: s_hw_perf_event_def layout)

definition s_perf_addr_filters_head :: ctype where
  "s_perf_addr_filters_head = CStruct
     [Fld ''list'' s_list_head,
      Fld ''lock'' t_raw_spinlock_t,
      Fld ''nr_file_filters'' (CInt 4)]"

lemma s_perf_addr_filters_head_layout [layout]: "csize s_perf_addr_filters_head = 24" "calign s_perf_addr_filters_head = 8" "wf_ctype s_perf_addr_filters_head"
  by (simp_all add: s_perf_addr_filters_head_def layout)

definition t_perf_overflow_handler_t :: ctype where
  "t_perf_overflow_handler_t = CPtr"

lemma t_perf_overflow_handler_t_layout [layout]: "csize t_perf_overflow_handler_t = 8" "calign t_perf_overflow_handler_t = 8" "wf_ctype t_perf_overflow_handler_t"
  by (simp_all add: t_perf_overflow_handler_t_def layout)

definition t_ftrace_func_t :: ctype where
  "t_ftrace_func_t = CPtr"

lemma t_ftrace_func_t_layout [layout]: "csize t_ftrace_func_t = 8" "calign t_ftrace_func_t = 8" "wf_ctype t_ftrace_func_t"
  by (simp_all add: t_ftrace_func_t_def layout)

definition s_ftrace_ops_hash :: ctype where
  "s_ftrace_ops_hash = CStruct
     [Fld ''notrace_hash'' CPtr,
      Fld ''filter_hash'' CPtr,
      Fld ''regex_lock'' s_mutex]"

lemma s_ftrace_ops_hash_layout [layout]: "csize s_ftrace_ops_hash = 48" "calign s_ftrace_ops_hash = 8" "wf_ctype s_ftrace_ops_hash"
  by (simp_all add: s_ftrace_ops_hash_def layout)

definition t_ftrace_ops_func_t :: ctype where
  "t_ftrace_ops_func_t = CPtr"

lemma t_ftrace_ops_func_t_layout [layout]: "csize t_ftrace_ops_func_t = 8" "calign t_ftrace_ops_func_t = 8" "wf_ctype t_ftrace_ops_func_t"
  by (simp_all add: t_ftrace_ops_func_t_def layout)

definition s_ftrace_ops :: ctype where
  "s_ftrace_ops = CStruct
     [Fld ''func'' t_ftrace_func_t,
      Fld ''next'' CPtr,
      Fld ''flags'' (CInt 8),
      Fld ''private'' CPtr,
      Fld ''saved_func'' t_ftrace_func_t,
      Fld ''local_hash'' s_ftrace_ops_hash,
      Fld ''func_hash'' CPtr,
      Fld ''old_hash'' s_ftrace_ops_hash,
      Fld ''trampoline'' (CInt 8),
      Fld ''trampoline_size'' (CInt 8),
      Fld ''list'' s_list_head,
      Fld ''subop_list'' s_list_head,
      Fld ''ops_func'' t_ftrace_ops_func_t,
      Fld ''managed'' CPtr,
      Fld ''direct_call'' (CInt 8)]"

lemma s_ftrace_ops_layout [layout]: "csize s_ftrace_ops = 216" "calign s_ftrace_ops = 8" "wf_ctype s_ftrace_ops"
  by (simp_all add: s_ftrace_ops_def layout)

definition s_perf_event :: ctype where
  "s_perf_event = CStruct
     [Fld ''event_entry'' s_list_head,
      Fld ''sibling_list'' s_list_head,
      Fld ''active_list'' s_list_head,
      Fld ''group_node'' s_rb_node,
      Fld ''group_index'' t_u64,
      Fld ''migrate_entry'' s_list_head,
      Fld ''hlist_entry'' s_hlist_node,
      Fld ''active_entry'' s_list_head,
      Fld ''nr_siblings'' (CInt 4),
      Fld ''event_caps'' (CInt 4),
      Fld ''group_caps'' (CInt 4),
      Fld ''group_generation'' (CInt 4),
      Fld ''group_leader'' CPtr,
      Fld ''pmu'' CPtr,
      Fld ''pmu_private'' CPtr,
      Fld ''state'' (CInt 4),
      Fld ''attach_state'' (CInt 4),
      Fld ''count'' t_local64_t,
      Fld ''child_count'' t_atomic64_t,
      Fld ''total_time_enabled'' t_u64,
      Fld ''total_time_running'' t_u64,
      Fld ''tstamp'' t_u64,
      Fld ''attr'' s_perf_event_attr,
      Fld ''header_size'' t_u16,
      Fld ''id_header_size'' t_u16,
      Fld ''read_size'' t_u16,
      Fld ''hw'' s_hw_perf_event,
      Fld ''ctx'' CPtr,
      Fld ''pmu_ctx'' CPtr,
      Fld ''refcount'' t_atomic_long_t,
      Fld ''child_total_time_enabled'' t_atomic64_t,
      Fld ''child_total_time_running'' t_atomic64_t,
      Fld ''child_mutex'' s_mutex,
      Fld ''child_list'' s_list_head,
      Fld ''parent'' CPtr,
      Fld ''oncpu'' (CInt 4),
      Fld ''cpu'' (CInt 4),
      Fld ''owner_entry'' s_list_head,
      Fld ''owner'' CPtr,
      Fld ''mmap_mutex'' s_mutex,
      Fld ''mmap_count'' t_refcount_t,
      Fld ''rb'' CPtr,
      Fld ''rb_entry'' s_list_head,
      Fld ''rcu_batches'' (CInt 8),
      Fld ''rcu_pending'' (CInt 4),
      Fld ''waitq'' t_wait_queue_head_t,
      Fld ''fasync'' CPtr,
      Fld ''pending_wakeup'' (CInt 4),
      Fld ''pending_kill'' (CInt 4),
      Fld ''pending_disable'' (CInt 4),
      Fld ''pending_addr'' (CInt 8),
      Fld ''pending_irq'' s_irq_work,
      Fld ''pending_disable_irq'' s_irq_work,
      Fld ''pending_task'' s_callback_head,
      Fld ''pending_work'' (CInt 4),
      Fld ''event_limit'' t_atomic_t,
      Fld ''addr_filters'' s_perf_addr_filters_head,
      Fld ''addr_filter_ranges'' CPtr,
      Fld ''addr_filters_gen'' (CInt 8),
      Fld ''aux_event'' CPtr,
      Fld ''destroy'' CPtr,
      Fld ''callback_head'' s_callback_head,
      Fld ''ns'' CPtr,
      Fld ''id'' t_u64,
      Fld ''lost_samples'' t_atomic64_t,
      Fld ''clock'' CPtr,
      Fld ''overflow_handler'' t_perf_overflow_handler_t,
      Fld ''overflow_handler_context'' CPtr,
      Fld ''prog'' CPtr,
      Fld ''bpf_cookie'' t_u64,
      Fld ''tp_event'' CPtr,
      Fld ''filter'' CPtr,
      Fld ''ftrace_ops'' s_ftrace_ops,
      Fld ''cgrp'' CPtr,
      Fld ''security'' CPtr,
      Fld ''sb_list'' s_list_head,
      Fld ''pmu_list'' s_list_head,
      Fld ''orig_type'' t_u32]"

lemma s_perf_event_layout [layout]: "csize s_perf_event = 1352" "calign s_perf_event = 8" "wf_ctype s_perf_event"
  by (simp_all add: s_perf_event_def layout)

end
