(* ===== verification/Kernel_Abi.thy ===== *)
theory Kernel_Abi
  imports Connect_Wire Vmlinux_Bpf
begin

text \<open>
  What the sensor assumes of the kernel it is loaded into, checked against the declarations
  of \<^verbatim>\<open>bpf/vmlinux.h\<close>: the address mirrors of \<^verbatim>\<open>connect.c\<close> read the bytes of the kernel's own
  address structures, the lengths it insists on are their sizes, the fixed arrays of the wire
  record have the size of the kernel data copied into them, and the maps, the program type and
  the helpers it uses exist under distinct numbers.
\<close>

section \<open>Addresses\<close>

lemmas kernel_address_defs =
  s_sockaddr_def s_sockaddr_in_def s_sockaddr_in6_def s___kernel_sockaddr_storage_def

text \<open>C39: every byte the sensor takes out of a socket address through its own mirror structures lies
  where the kernel's \<^verbatim>\<open>struct sockaddr_in\<close> and \<^verbatim>\<open>struct sockaddr_in6\<close> keep the family, the port and
  the address; the lengths below which it refuses an address are the sizes of those structures; and
  neither mirror reads past that length or past the storage the kernel copied the address into.\<close>

theorem mirrors_agree_with_kernel:
  "field_window sockaddr_in_local_t ''sin_family'' = field_window s_sockaddr_in ''sin_family'' \<and>
   field_window sockaddr_in_local_t ''sin_port'' = field_window s_sockaddr_in ''sin_port'' \<and>
   field_window sockaddr_in_local_t ''sin_addr'' = field_window s_sockaddr_in ''sin_addr'' \<and>
   field_window sockaddr_in6_local_t ''sin6_family'' = field_window s_sockaddr_in6 ''sin6_family'' \<and>
   field_window sockaddr_in6_local_t ''sin6_port'' = field_window s_sockaddr_in6 ''sin6_port'' \<and>
   field_window sockaddr_in6_local_t ''sin6_addr'' = field_window s_sockaddr_in6 ''sin6_addr'' \<and>
   field_window s_sockaddr ''sa_family'' = (0, 2) \<and>
   int (csize s_sockaddr_in) = SOCKADDR_IN_MIN \<and> int (csize s_sockaddr_in6) = SOCKADDR_IN6_MIN \<and>
   csize sockaddr_in_local_t \<le> nat SOCKADDR_IN_MIN \<and> csize sockaddr_in6_local_t \<le> nat SOCKADDR_IN6_MIN \<and>
   csize s_sockaddr_in6 \<le> csize s___kernel_sockaddr_storage"
  unfolding field_window_def offsetof_def sizeof_field_def sockaddr_in_local_t_def sockaddr_in6_local_t_def
    kernel_address_defs SOCKADDR_IN_MIN_def SOCKADDR_IN6_MIN_def
  by (intro conjI) (simp_all add: layout c_ints)

section \<open>Task data and the helpers\<close>

text \<open>The helpers \<^verbatim>\<open>connect.c\<close> calls, by the name of their number in \<^verbatim>\<open>enum bpf_func_id\<close>.\<close>

definition used_helpers :: "string list" where
  "used_helpers =
     [''BPF_FUNC_map_lookup_elem'', ''BPF_FUNC_probe_read_kernel'', ''BPF_FUNC_ringbuf_reserve'',
      ''BPF_FUNC_ringbuf_discard'', ''BPF_FUNC_ringbuf_submit'', ''BPF_FUNC_ktime_get_ns'',
      ''BPF_FUNC_get_current_pid_tgid'', ''BPF_FUNC_get_current_comm'',
      ''BPF_FUNC_get_ns_current_pid_tgid'', ''BPF_FUNC_get_current_cgroup_id'']"

lemma task_comm:
  "find (\<lambda>f. fname f = ''comm'') (fields_of s_task_struct) = Some (Fld ''comm'' (CArr (CInt 1) 16))"
  unfolding s_task_struct_def fields_of.simps
  by (simp only: find_named list.inject list.distinct char.inject simp_thms if_False if_True)

lemma helpers_numbered:
  "map (map_of e_bpf_func_id) used_helpers =
     [Some 1, Some 113, Some 131, Some 133, Some 132, Some 5, Some 14, Some 16, Some 120, Some 80]"
  by code_simp

lemma pidns_info_tgid: "field_window s_bpf_pidns_info ''tgid'' = (4, 4)"
  by (simp add: field_window_def offsetof_def sizeof_field_def s_bpf_pidns_info_def layout)

lemma map_types_numbered:
  "map_of e_bpf_map_type ''BPF_MAP_TYPE_ARRAY'' = Some 2"
  "map_of e_bpf_map_type ''BPF_MAP_TYPE_RINGBUF'' = Some 27"
  "map_of e_bpf_prog_type ''BPF_PROG_TYPE_KPROBE'' = Some 2"
  by code_simp+


end
