(* ===== verification/Connect_Prog.thy ===== *)
theory Connect_Prog
  imports Connect_Wire
begin

text \<open>
  The program of \<^verbatim>\<open>internal/ebpfcapture/bpf/connect.c\<close>: \<open>bump\<close> and the kprobe handler
  \<open>on_connect\<close>, at the level of the bytes it writes. The kernel side it calls (the
  \<^verbatim>\<open>bpf_*\<close> helpers) is not in the repository: one invocation gets the helpers' answers as
  the record \<open>connect_ctx\<close>. The reserved ring-buffer record is memory with arbitrary previous
  contents, which is what \<^verbatim>\<open>bpf_ringbuf_reserve\<close> hands out.
\<close>

section \<open>State and context\<close>

text \<open>
  The two maps: the value of the one-element array \<^verbatim>\<open>skipped\<close> (\<open>None\<close>: the lookup returned
  NULL), and the ring buffer \<^verbatim>\<open>events\<close> as the records submitted so far, oldest first, with the
  number of records reserved and neither submitted nor discarded yet.
\<close>

record bpf_state =
  skipped_map :: "u8 list option"
  ring :: "u8 list list"
  reserved :: nat

text \<open>The two constants userspace writes before the program is loaded.\<close>

record bpf_config =
  self_pidns_dev :: u64
  self_pidns_ino :: u64

text \<open>
  What the kernel answers during one invocation: the arguments of the probed function, the
  bytes the \<open>i\<close>-th \<^verbatim>\<open>bpf_probe_read_kernel(size, addr)\<close> copies (\<open>None\<close>: the read failed),
  the memory a reservation returns (\<open>None\<close>: the buffer is full) and the task helpers.
\<close>

record connect_ctx =
  arg_address :: u64
  arg_addrlen :: u32
  probe_read :: "nat \<Rightarrow> nat \<Rightarrow> u64 \<Rightarrow> u8 list option"
  reserve_mem :: "u8 list option"
  ktime_get_ns :: u64
  current_pid_tgid :: u64
  current_comm :: "u8 list"
  ns_current_pid_tgid :: "u64 \<Rightarrow> u64 \<Rightarrow> (u32 \<times> u32) option"
  current_cgroup_id :: u64

text \<open>
  What the helpers' documentation promises about sizes: a successful read of \<open>n\<close> bytes copies
  \<open>n\<close> bytes, a reservation of \<open>n\<close> bytes is \<open>n\<close> bytes long, \<^verbatim>\<open>bpf_get_current_comm\<close> fills its
  buffer.
\<close>

definition helpers_ok :: "connect_ctx \<Rightarrow> bool" where
  "helpers_ok c \<longleftrightarrow>
     (\<forall>i n a bs. probe_read c i n a = Some bs \<longrightarrow> length bs = n)
   \<and> (\<forall>m. reserve_mem c = Some m \<longrightarrow> length m = csize conn_event_t)
   \<and> length (current_comm c) = sizeof_field conn_event_t ''comm''"

section \<open>The counters\<close>

text \<open>\<^verbatim>\<open>bump\<close>: add one, modulo 2^64, to the 8 bytes at an offset of the map value, if there is one.\<close>

definition add_at :: "nat \<Rightarrow> u8 list \<Rightarrow> u8 list" where
  "add_at off m = poke off (le_bytes 8 (u64_at off m + 1)) m"

definition bump :: "nat \<Rightarrow> bpf_state \<Rightarrow> bpf_state" where
  "bump off st =
     (case skipped_map st of
        None \<Rightarrow> st
      | Some c \<Rightarrow> st\<lparr>skipped_map := Some (add_at off c)\<rparr>)"

abbreviation BUMP :: "reason \<Rightarrow> bpf_state \<Rightarrow> bpf_state" where
  "BUMP r \<equiv> bump (reason_offset r)"

section \<open>The handler\<close>

text \<open>Everything up to the reservation: the NULL check, the family, the length.\<close>

datatype verdict = Ignore | Count reason | Want u16

definition classify :: "connect_ctx \<Rightarrow> verdict" where
  "classify c =
     (if arg_address c = 0 then Ignore
      else case probe_read c 0 2 (arg_address c) of
        None \<Rightarrow> Count Unreadable
      | Some bs \<Rightarrow>
         let family = (of_nat (le_nat bs) :: u16) in
         if family \<noteq> AF_INET \<and> family \<noteq> AF_INET6 then Count Other_family
         else if (family = AF_INET \<and> sint (arg_addrlen c) < SOCKADDR_IN_MIN)
               \<or> (family = AF_INET6 \<and> sint (arg_addrlen c) < SOCKADDR_IN6_MIN)
         then Count Too_short
         else Want family)"

text \<open>The writes before the sockaddr is read, and those of the two address families.\<close>

definition clear_address :: "u8 list \<Rightarrow> u8 list" where
  "clear_address m =
     poke (offsetof conn_event_t ''_pad0'') [0]
       (poke (offsetof conn_event_t ''daddr'')
          (replicate (sizeof_field conn_event_t ''daddr'') 0) m)"

definition put_inet :: "u8 list \<Rightarrow> u8 list \<Rightarrow> u8 list" where
  "put_inet sa m =
     poke (offsetof conn_event_t ''daddr'')
       (peek (offsetof sockaddr_in_local_t ''sin_addr'')
             (sizeof_field sockaddr_in_local_t ''sin_addr'') sa)
      (poke (offsetof conn_event_t ''dport'')
        (peek (offsetof sockaddr_in_local_t ''sin_port'')
              (sizeof_field conn_event_t ''dport'') sa)
       (poke (offsetof conn_event_t ''family'') [4] m))"

definition put_inet6 :: "u8 list \<Rightarrow> u8 list \<Rightarrow> u8 list" where
  "put_inet6 sa6 m =
     poke (offsetof conn_event_t ''daddr'')
       (peek (offsetof sockaddr_in6_local_t ''sin6_addr'')
             (sizeof_field sockaddr_in6_local_t ''sin6_addr'') sa6)
      (poke (offsetof conn_event_t ''dport'')
        (peek (offsetof sockaddr_in6_local_t ''sin6_port'')
              (sizeof_field conn_event_t ''dport'') sa6)
       (poke (offsetof conn_event_t ''family'') [6] m))"

text \<open>The namespaced tgid, or 0 for a task the sensor's own PID namespace cannot see.\<close>

definition ns_tgid_of :: "bpf_config \<Rightarrow> connect_ctx \<Rightarrow> u32" where
  "ns_tgid_of cfg c =
     (if self_pidns_ino cfg \<noteq> 0 then
        (case ns_current_pid_tgid c (self_pidns_dev cfg) (self_pidns_ino cfg) of
           None \<Rightarrow> 0
         | Some (pid, tgid) \<Rightarrow> tgid)
      else 0)"

text \<open>The rest of the record: time, pid, comm, ns_tgid and padding, cgroup.\<close>

definition put_task :: "bpf_config \<Rightarrow> connect_ctx \<Rightarrow> u8 list \<Rightarrow> u8 list" where
  "put_task cfg c m =
     (let m = poke (offsetof conn_event_t ''ktime_ns'') (le_bytes 8 (ktime_get_ns c)) m;
          m = poke (offsetof conn_event_t ''pid'')
                (le_bytes 4 (ucast (drop_bit 32 (current_pid_tgid c)) :: u32)) m;
          m = poke (offsetof conn_event_t ''comm'') (current_comm c) m;
          m = poke (offsetof conn_event_t ''ns_tgid'') (le_bytes 4 (0 :: u32)) m;
          m = poke (offsetof conn_event_t ''_pad1'') (le_bytes 4 (0 :: u32)) m;
          m = (if self_pidns_ino cfg \<noteq> 0 then
                 (case ns_current_pid_tgid c (self_pidns_dev cfg) (self_pidns_ino cfg) of
                    None \<Rightarrow> m
                  | Some (pid, tgid) \<Rightarrow>
                      poke (offsetof conn_event_t ''ns_tgid'') (le_bytes 4 tgid) m)
               else m)
      in poke (offsetof conn_event_t ''cgroup_id'') (le_bytes 8 (current_cgroup_id c)) m)"

text \<open>Filling a reserved record: \<open>None\<close> when the second read fails and the record is discarded.\<close>

definition fill_event :: "bpf_config \<Rightarrow> connect_ctx \<Rightarrow> u16 \<Rightarrow> u8 list \<Rightarrow> u8 list option" where
  "fill_event cfg c family m =
     (let m = clear_address m in
      if family = AF_INET then
        (case probe_read c 1 (csize sockaddr_in_local_t) (arg_address c) of
           None \<Rightarrow> None
         | Some sa \<Rightarrow> Some (put_task cfg c (put_inet sa m)))
      else
        (case probe_read c 1 (csize sockaddr_in6_local_t) (arg_address c) of
           None \<Rightarrow> None
         | Some sa6 \<Rightarrow> Some (put_task cfg c (put_inet6 sa6 m))))"

definition ringbuf_reserved :: "bpf_state \<Rightarrow> bpf_state" where
  "ringbuf_reserved st = st\<lparr>reserved := Suc (reserved st)\<rparr>"

definition ringbuf_discard :: "bpf_state \<Rightarrow> bpf_state" where
  "ringbuf_discard st = st\<lparr>reserved := reserved st - 1\<rparr>"

definition ringbuf_submit :: "u8 list \<Rightarrow> bpf_state \<Rightarrow> bpf_state" where
  "ringbuf_submit m st = st\<lparr>reserved := reserved st - 1, ring := ring st @ [m]\<rparr>"

text \<open>The handler. It returns 0 on every path, so only its effect on the maps is kept.\<close>

definition on_connect :: "bpf_config \<Rightarrow> connect_ctx \<Rightarrow> bpf_state \<Rightarrow> bpf_state" where
  "on_connect cfg c st =
     (case classify c of
        Ignore \<Rightarrow> st
      | Count r \<Rightarrow> BUMP r st
      | Want family \<Rightarrow>
         (case reserve_mem c of
            None \<Rightarrow> BUMP Ringbuf_full st
          | Some ev \<Rightarrow>
             let st = ringbuf_reserved st in
             (case fill_event cfg c family ev of
                None \<Rightarrow> BUMP Unreadable (ringbuf_discard st)
              | Some ev' \<Rightarrow> ringbuf_submit ev' st)))"

text \<open>What an invocation amounts to, and the record it stands for.\<close>

datatype outcome = Ignored | Skipped reason | Reported "u8 list"

definition outcome_of :: "bpf_config \<Rightarrow> connect_ctx \<Rightarrow> outcome" where
  "outcome_of cfg c =
     (case classify c of
        Ignore \<Rightarrow> Ignored
      | Count r \<Rightarrow> Skipped r
      | Want family \<Rightarrow>
         (case reserve_mem c of
            None \<Rightarrow> Skipped Ringbuf_full
          | Some ev \<Rightarrow>
             (case fill_event cfg c family ev of
                None \<Rightarrow> Skipped Unreadable
              | Some ev' \<Rightarrow> Reported ev')))"

fun commit :: "outcome \<Rightarrow> bpf_state \<Rightarrow> bpf_state" where
  "commit Ignored st = st"
| "commit (Skipped r) st = BUMP r st"
| "commit (Reported m) st = st\<lparr>ring := ring st @ [m]\<rparr>"

section \<open>Facts about the counters\<close>

lemma length_add_at [simp]: "off + 8 \<le> length m \<Longrightarrow> length (add_at off m) = length m"
  by (simp add: add_at_def)

lemma counter_add_at:
  assumes "length m = 32"
  shows "counter r' (add_at (reason_offset r) m) = (if r' = r then counter r m + 1 else counter r' m)"
  using assms reason_offset_bound [of r] reason_offset_apart [of r r']
  by (auto simp: counter_def add_at_def u64_at_poke_other)

lemma bump_frame [simp]:
  "ring (bump off st) = ring st" "reserved (bump off st) = reserved st"
  by (simp_all add: bump_def split: option.splits)

lemma bump_ring_update: "bump off (st\<lparr>ring := xs\<rparr>) = (bump off st)\<lparr>ring := xs\<rparr>"
  by (simp add: bump_def split: option.splits)

section \<open>The handler is its outcome\<close>

lemma on_connect_commit: "on_connect cfg c st = commit (outcome_of cfg c) st"
  by (simp add: on_connect_def outcome_of_def ringbuf_reserved_def ringbuf_discard_def
      ringbuf_submit_def split: verdict.splits option.splits)

end
