(* ===== verification/Connect_Record.thy ===== *)
theory Connect_Record
  imports Connect_Prog
begin

text \<open>
  What \<open>on_connect\<close> reports, as a value: the record a connection stands for, and the proof that
  the byte writes of the handler produce exactly its encoding whatever the reserved memory held.
\<close>

section \<open>The record a connection stands for\<close>

definition read_sockaddr :: "connect_ctx \<Rightarrow> u16 \<Rightarrow> u8 list option" where
  "read_sockaddr c family =
     probe_read c 1 (csize (if family = AF_INET then sockaddr_in_local_t else sockaddr_in6_local_t))
       (arg_address c)"

definition record_of :: "bpf_config \<Rightarrow> connect_ctx \<Rightarrow> u16 \<Rightarrow> u8 list \<Rightarrow> conn_event" where
  "record_of cfg c family sa =
     \<lparr>ev_cgroup_id = current_cgroup_id c,
      ev_ktime_ns = ktime_get_ns c,
      ev_pid = ucast (drop_bit 32 (current_pid_tgid c)),
      ev_dport = peek 2 2 sa,
      ev_family = (if family = AF_INET then 4 else 6),
      ev_pad0 = 0,
      ev_daddr = (if family = AF_INET then peek 4 4 sa @ replicate 12 0 else peek 8 16 sa),
      ev_comm = current_comm c,
      ev_ns_tgid = ns_tgid_of cfg c,
      ev_pad1 = 0\<rparr>"

definition event_of :: "bpf_config \<Rightarrow> connect_ctx \<Rightarrow> u16 \<Rightarrow> conn_event option" where
  "event_of cfg c family = map_option (record_of cfg c family) (read_sockaddr c family)"

lemma helpers_okD:
  assumes "helpers_ok c"
  shows "probe_read c i n a = Some bs \<Longrightarrow> length bs = n"
    and "reserve_mem c = Some m \<Longrightarrow> length m = 64"
    and "length (current_comm c) = 16"
  using assms by (auto simp: helpers_ok_def layout)

lemma read_sockaddr_length:
  "helpers_ok c \<Longrightarrow> read_sockaddr c family = Some sa
    \<Longrightarrow> length sa = (if family = AF_INET then 8 else 28)"
  by (auto simp: read_sockaddr_def layout dest: helpers_okD split: if_splits)

lemma wf_record_of:
  "helpers_ok c \<Longrightarrow> read_sockaddr c family = Some sa \<Longrightarrow> wf_conn_event (record_of cfg c family sa)"
  using read_sockaddr_length [of c family sa] helpers_okD(3) [of c]
  by (simp add: wf_conn_event_def record_of_def split: if_splits)

section \<open>Field writes on segments\<close>

text \<open>The reserved cell cut at the field boundaries; the address is cut again where IPv4 ends.\<close>

lemma cell_segments:
  assumes "length (m :: u8 list) = 64"
  obtains s0 s1 s2 s3 s4 s5 s6 s7 s8 s9 s10 where
    "m = concat [s0, s1, s2, s3, s4, s5, s6, s7, s8, s9, s10]"
    "map length [s0, s1, s2, s3, s4, s5, s6, s7, s8, s9, s10] = [8, 8, 4, 2, 1, 1, 4, 12, 16, 4, 4]"
proof -
  let ?ns = "[8, 8, 4, 2, 1, 1, 4, 12, 16, 4, 4] :: nat list"
  have "concat (chop ?ns m) = m" using assms by (intro concat_chop) simp
  moreover have "map length (chop ?ns m) = ?ns" using assms by (intro map_length_chop) simp
  ultimately show thesis using that by (metis chop.simps)
qed

lemma poke_pair:
  assumes "length bs = length (x @ y)"
  shows "poke (length (concat xs)) bs (concat (xs @ [x, y] @ ys))
       = concat (xs @ [take (length x) bs, drop (length x) bs] @ ys)"
  using assms by (simp add: poke_def)

lemma clear_address_segments:
  assumes "map length [s0, s1, s2, s3, s4, s5, s6, s7, s8, s9, s10] = [8, 8, 4, 2, 1, 1, 4, 12, 16, 4, 4]"
  shows "clear_address (concat [s0, s1, s2, s3, s4, s5, s6, s7, s8, s9, s10])
       = concat [s0, s1, s2, s3, s4, [0], replicate 4 0, replicate 12 0, s8, s9, s10]"
proof -
  have "poke 24 (replicate 16 0) (concat [s0, s1, s2, s3, s4, s5, s6, s7, s8, s9, s10])
      = concat [s0, s1, s2, s3, s4, s5, replicate 4 0, replicate 12 0, s8, s9, s10]"
    using assms poke_pair [of "replicate 16 0" s6 s7 "[s0, s1, s2, s3, s4, s5]" "[s8, s9, s10]"]
    by (simp add: take_replicate)
  then show ?thesis
    using assms by (simp add: clear_address_def layout poke_concat [where k = 5] del: concat.simps)
qed

lemma put_inet_segments:
  assumes "map length [s0, s1, s2, s3, s4, s5, s6, s7, s8, s9, s10] = [8, 8, 4, 2, 1, 1, 4, 12, 16, 4, 4]"
    and "length sa = 8"
  shows "put_inet sa (concat [s0, s1, s2, s3, s4, s5, s6, s7, s8, s9, s10])
       = concat [s0, s1, s2, peek 2 2 sa, [4], s5, peek 4 4 sa, s7, s8, s9, s10]"
  using assms
  by (simp add: put_inet_def layout poke_concat [where k = 4] poke_concat [where k = 3]
      poke_concat [where k = 6] del: concat.simps)

lemma put_inet6_segments:
  assumes "map length [s0, s1, s2, s3, s4, s5, s6, s7, s8, s9, s10] = [8, 8, 4, 2, 1, 1, 4, 12, 16, 4, 4]"
    and "length sa = 28"
  shows "put_inet6 sa (concat [s0, s1, s2, s3, s4, s5, s6, s7, s8, s9, s10])
       = concat [s0, s1, s2, peek 2 2 sa, [6], s5, peek 8 16 sa, [], s8, s9, s10]"
proof -
  have "put_inet6 sa (concat [s0, s1, s2, s3, s4, s5, s6, s7, s8, s9, s10])
      = poke 24 (peek 8 16 sa) (concat [s0, s1, s2, peek 2 2 sa, [6], s5, s6, s7, s8, s9, s10])"
    using assms
    by (simp add: put_inet6_def layout poke_concat [where k = 4] poke_concat [where k = 3]
        del: concat.simps)
  also have "\<dots> = concat [s0, s1, s2, peek 2 2 sa, [6], s5, peek 8 16 sa, [], s8, s9, s10]"
    using assms poke_pair [of "peek 8 16 sa" s6 s7 "[s0, s1, s2, peek 2 2 sa, [6], s5]" "[s8, s9, s10]"]
    by (simp flip: append_assoc) 
  finally show ?thesis .
qed

text \<open>The task fields, with the namespaced tgid written twice as the code does.\<close>

lemma put_task_segments:
  assumes "length a0 = 8" "length a1 = 8" "length a2 = 4" "length pre = 20"
    "length b0 = 16" "length b1 = 4" "length b2 = 4" "length (current_comm c) = 16"
  shows "put_task cfg c (concat [a0, a1, a2, pre, b0, b1, b2])
       = concat [le_bytes 8 (current_cgroup_id c), le_bytes 8 (ktime_get_ns c),
           le_bytes 4 (ucast (drop_bit 32 (current_pid_tgid c)) :: u32), pre, current_comm c,
           le_bytes 4 (ns_tgid_of cfg c), le_bytes 4 (0 :: u32)]"
  using assms
  by (simp add: put_task_def ns_tgid_of_def Let_def layout poke_concat [where k = 0]
      poke_concat [where k = 1] poke_concat [where k = 2] poke_concat [where k = 4]
      poke_concat [where k = 5] poke_concat [where k = 6] del: concat.simps
      split: option.splits)

section \<open>Filling a record is encoding it\<close>

lemma fill_inet:
  assumes "helpers_ok c" "length m = 64" "length sa = 8"
  shows "put_task cfg c (put_inet sa (clear_address m)) = encode_conn_event (record_of cfg c AF_INET sa)"
proof -
  obtain s0 s1 s2 s3 s4 s5 s6 s7 s8 s9 s10 where m:
    "m = concat [s0, s1, s2, s3, s4, s5, s6, s7, s8, s9, s10]"
    and len: "map length [s0, s1, s2, s3, s4, s5, s6, s7, s8, s9, s10] = [8, 8, 4, 2, 1, 1, 4, 12, 16, 4, 4]"
    using cell_segments [OF assms(2)] .
  have "put_inet sa (clear_address m)
      = concat [s0, s1, s2, peek 2 2 sa, [4], [0], peek 4 4 sa, replicate 12 0, s8, s9, s10]"
    using len assms(3) unfolding m
    by (subst clear_address_segments [OF len], subst put_inet_segments) simp_all
  also have "\<dots> = concat [s0, s1, s2, concat [peek 2 2 sa, [4], [0], peek 4 4 sa, replicate 12 0], s8, s9, s10]"
    by simp
  finally show ?thesis
    using len assms helpers_okD(3) [of c] put_task_segments [of s0 s1 s2 "concat [peek 2 2 sa, [4], [0], peek 4 4 sa, replicate 12 0]" s8 s9 s10 c cfg]
    by (simp add: encode_conn_event_def conn_event_segments_def record_of_def del: concat.simps) simp
qed

lemma fill_inet6:
  assumes "helpers_ok c" "length m = 64" "length sa = 28" "family \<noteq> AF_INET"
  shows "put_task cfg c (put_inet6 sa (clear_address m)) = encode_conn_event (record_of cfg c family sa)"
proof -
  obtain s0 s1 s2 s3 s4 s5 s6 s7 s8 s9 s10 where m:
    "m = concat [s0, s1, s2, s3, s4, s5, s6, s7, s8, s9, s10]"
    and len: "map length [s0, s1, s2, s3, s4, s5, s6, s7, s8, s9, s10] = [8, 8, 4, 2, 1, 1, 4, 12, 16, 4, 4]"
    using cell_segments [OF assms(2)] .
  have "put_inet6 sa (clear_address m)
      = concat [s0, s1, s2, peek 2 2 sa, [6], [0], peek 8 16 sa, [], s8, s9, s10]"
    using len assms(3) unfolding m
    by (subst clear_address_segments [OF len], subst put_inet6_segments) simp_all
  also have "\<dots> = concat [s0, s1, s2, concat [peek 2 2 sa, [6], [0], peek 8 16 sa], s8, s9, s10]"
    by simp
  finally show ?thesis
    using len assms helpers_okD(3) [of c] put_task_segments [of s0 s1 s2 "concat [peek 2 2 sa, [6], [0], peek 8 16 sa]" s8 s9 s10 c cfg]
    by (simp add: encode_conn_event_def conn_event_segments_def record_of_def del: concat.simps) simp
qed

lemma fill_event_encodes:
  assumes "helpers_ok c" "length m = 64"
  shows "fill_event cfg c family m = map_option encode_conn_event (event_of cfg c family)"
proof (cases "read_sockaddr c family")
  case None
  then show ?thesis by (auto simp: fill_event_def event_of_def read_sockaddr_def Let_def split: if_splits)
next
  case (Some sa)
  with read_sockaddr_length [OF assms(1) Some] assms show ?thesis
    by (auto simp: fill_event_def event_of_def read_sockaddr_def Let_def fill_inet fill_inet6
        split: if_splits)
qed

text \<open>What is reported and whether it is reported do not look at the reserved memory.\<close>

lemma record_of_memory: "record_of cfg (c\<lparr>reserve_mem := x\<rparr>) = record_of cfg c"
  by (intro ext) (simp add: record_of_def ns_tgid_of_def)

lemma memory_independent:
  "classify (c\<lparr>reserve_mem := x\<rparr>) = classify c"
  "event_of cfg (c\<lparr>reserve_mem := x\<rparr>) family = event_of cfg c family"
  by (simp_all add: classify_def event_of_def read_sockaddr_def record_of_memory
      cong: if_cong option.case_cong)

section \<open>A concrete invocation\<close>

text \<open>
  A process with pid 4242 connects to 192.0.2.7 port 443 over IPv4: the sample the witnesses use.
  The kernel's copy of the address is 02 00 01 bb c0 00 02 07 and zeros.
\<close>

definition sample_sockaddr :: "u8 list" where
  "sample_sockaddr = [2, 0, 1, 187, 192, 0, 2, 7]"

definition sample_ctx :: "u8 list option \<Rightarrow> connect_ctx" where
  "sample_ctx res =
     \<lparr>arg_address = 4096, arg_addrlen = 16,
      probe_read = (\<lambda>i n a. if a = 4096 then Some (take n (sample_sockaddr @ replicate n 0)) else None),
      reserve_mem = res, ktime_get_ns = 1000, current_pid_tgid = 4242 * 2 ^ 32 + 4243,
      current_comm = [99, 117, 114, 108] @ replicate 12 0,
      ns_current_pid_tgid = (\<lambda>dev ino. Some (42, 42)), current_cgroup_id = 8471\<rparr>"

definition sample_cfg :: bpf_config where
  "sample_cfg = \<lparr>self_pidns_dev = 4, self_pidns_ino = 4026531836\<rparr>"

definition empty_maps :: bpf_state where
  "empty_maps = \<lparr>skipped_map = Some (replicate 32 0), ring = [], reserved = 0\<rparr>"

lemma sample_helpers_ok: "(\<forall>m. res = Some m \<longrightarrow> length m = 64) \<Longrightarrow> helpers_ok (sample_ctx res)"
  by (auto simp: helpers_ok_def sample_ctx_def layout min_def split: if_splits)

lemma sample_classify: "classify (sample_ctx res) = Want AF_INET"
  by (simp add: classify_def sample_ctx_def sample_sockaddr_def AF_INET_def AF_INET6_def
      SOCKADDR_IN_MIN_def Let_def)

section \<open>Properties\<close>

text \<open>
  C9: \<open>on_connect\<close> does, on every path, what the abstract record says: nothing for a NULL address,
  one counter for an unreadable, foreign-family or truncated address or a full buffer, and for an
  in-scope connection exactly one record, the encoding of the pid, comm, cgroup, times, port and
  address it was handed, appended to the ring buffer; nothing else of the maps changes.
\<close>

theorem on_connect_refines:
  assumes "helpers_ok c"
  shows "on_connect cfg c st =
     (case classify c of
        Ignore \<Rightarrow> st
      | Count r \<Rightarrow> BUMP r st
      | Want family \<Rightarrow>
          (if reserve_mem c = None then BUMP Ringbuf_full st
           else case event_of cfg c family of
             None \<Rightarrow> BUMP Unreadable st
           | Some ev \<Rightarrow> st\<lparr>ring := ring st @ [encode_conn_event ev]\<rparr>))"
proof (cases "classify c")
  case (Want family)
  then show ?thesis
    using fill_event_encodes [OF assms] helpers_okD(2) [OF assms]
    by (auto simp: on_connect_commit outcome_of_def split: option.splits)
qed (simp_all add: on_connect_commit outcome_of_def)

theorem on_connect_refines_witness:
  "on_connect sample_cfg (sample_ctx (Some (replicate 64 255))) empty_maps =
     empty_maps\<lparr>ring := [encode_conn_event (record_of sample_cfg (sample_ctx (Some (replicate 64 255)))
        AF_INET sample_sockaddr)]\<rparr>"
proof -
  have "helpers_ok (sample_ctx (Some (replicate 64 255)))" by (rule sample_helpers_ok) simp
  from on_connect_refines [OF this, of sample_cfg empty_maps] show ?thesis
    by (simp add: sample_classify event_of_def read_sockaddr_def layout)
       (simp add: sample_ctx_def sample_sockaddr_def empty_maps_def)
qed

text \<open>
  C37: No byte of the memory a reservation returned reaches userspace: two invocations that differ
  only in what that memory held before leave the maps in the same state, record included. This is
  what the explicit padding writes of the C are for.
\<close>

theorem on_connect_no_leak:
  assumes "helpers_ok (c\<lparr>reserve_mem := Some m\<rparr>)" "helpers_ok (c\<lparr>reserve_mem := Some m'\<rparr>)"
  shows "on_connect cfg (c\<lparr>reserve_mem := Some m\<rparr>) st = on_connect cfg (c\<lparr>reserve_mem := Some m'\<rparr>) st"
  unfolding on_connect_refines [OF assms(1)] on_connect_refines [OF assms(2)]
  by (simp add: memory_independent split: verdict.split)

theorem on_connect_no_leak_witness:
  "on_connect sample_cfg ((sample_ctx None)\<lparr>reserve_mem := Some (replicate 64 255)\<rparr>) empty_maps
   = on_connect sample_cfg ((sample_ctx None)\<lparr>reserve_mem := Some (replicate 64 7)\<rparr>) empty_maps"
proof (rule on_connect_no_leak)
  show "helpers_ok ((sample_ctx None)\<lparr>reserve_mem := Some (replicate 64 255)\<rparr>)"
    using sample_helpers_ok [of "Some (replicate 64 255)"] by (simp add: sample_ctx_def)
  show "helpers_ok ((sample_ctx None)\<lparr>reserve_mem := Some (replicate 64 7)\<rparr>)"
    using sample_helpers_ok [of "Some (replicate 64 7)"] by (simp add: sample_ctx_def)
qed

end
