(* ===== verification/Connect_Conc.thy ===== *)
theory Connect_Conc
  imports Connect_Record
begin

text \<open>
  Many CPUs run \<open>on_connect\<close> at once over one ring buffer and one map value. An invocation is
  broken where it touches shared state: the reservation, the submission or discard, and the
  counter update, which \<^verbatim>\<open>__sync_fetch_and_add\<close> makes one indivisible step. Every interleaving
  of those steps is a run of the relation \<open>kstep\<close>; each invocation has an identifier of its own.
\<close>

section \<open>Phases of an invocation and the shared state\<close>

datatype phase =
    Idle
  | Entered connect_ctx
  | Holding connect_ctx u16 "u8 list"
  | Bumping connect_ctx reason
  | Finished connect_ctx

record kernel =
  phase_of :: "nat \<Rightarrow> phase"
  maps :: bpf_state
  history :: "(nat \<times> connect_ctx) list"  \<comment> \<open>finished invocations, in the order they took effect\<close>

definition set_phase :: "nat \<Rightarrow> phase \<Rightarrow> kernel \<Rightarrow> kernel" where
  "set_phase i p k = k\<lparr>phase_of := (phase_of k)(i := p)\<rparr>"

definition finish :: "nat \<Rightarrow> connect_ctx \<Rightarrow> kernel \<Rightarrow> kernel" where
  "finish i c k = (set_phase i (Finished c) k)\<lparr>history := history k @ [(i, c)]\<rparr>"

inductive kstep :: "bpf_config \<Rightarrow> kernel \<Rightarrow> kernel \<Rightarrow> bool" for cfg where
  enter: "phase_of k i = Idle \<Longrightarrow> kstep cfg k (set_phase i (Entered c) k)"
| ignore: "phase_of k i = Entered c \<Longrightarrow> classify c = Ignore \<Longrightarrow> kstep cfg k (finish i c k)"
| skip: "phase_of k i = Entered c \<Longrightarrow> classify c = Count r
    \<Longrightarrow> kstep cfg k (set_phase i (Bumping c r) k)"
| full: "phase_of k i = Entered c \<Longrightarrow> classify c = Want f \<Longrightarrow> reserve_mem c = None
    \<Longrightarrow> kstep cfg k (set_phase i (Bumping c Ringbuf_full) k)"
| reserve: "phase_of k i = Entered c \<Longrightarrow> classify c = Want f \<Longrightarrow> reserve_mem c = Some m
    \<Longrightarrow> kstep cfg k ((set_phase i (Holding c f m) k)\<lparr>maps := ringbuf_reserved (maps k)\<rparr>)"
| discard: "phase_of k i = Holding c f m \<Longrightarrow> fill_event cfg c f m = None
    \<Longrightarrow> kstep cfg k ((set_phase i (Bumping c Unreadable) k)\<lparr>maps := ringbuf_discard (maps k)\<rparr>)"
| submit: "phase_of k i = Holding c f m \<Longrightarrow> fill_event cfg c f m = Some m'
    \<Longrightarrow> kstep cfg k ((finish i c k)\<lparr>maps := ringbuf_submit m' (maps k)\<rparr>)"
| count: "phase_of k i = Bumping c r
    \<Longrightarrow> kstep cfg k ((finish i c k)\<lparr>maps := BUMP r (maps k)\<rparr>)"

inductive kreach :: "bpf_config \<Rightarrow> bpf_state \<Rightarrow> kernel \<Rightarrow> bool" for cfg st0 where
  start: "kreach cfg st0 \<lparr>phase_of = (\<lambda>_. Idle), maps = st0, history = []\<rparr>"
| step: "kreach cfg st0 k \<Longrightarrow> kstep cfg k k' \<Longrightarrow> kreach cfg st0 k'"

inductive_cases kstepE: "kstep cfg k k'"

text \<open>The sequential execution of a list of invocations.\<close>

definition run_all :: "bpf_config \<Rightarrow> connect_ctx list \<Rightarrow> bpf_state \<Rightarrow> bpf_state" where
  "run_all cfg cs st = fold (on_connect cfg) cs st"

lemma run_all_snoc: "run_all cfg (cs @ [c]) st = commit (outcome_of cfg c) (run_all cfg cs st)"
  by (simp add: run_all_def on_connect_commit)

section \<open>The invariant\<close>

definition holds_record :: "phase \<Rightarrow> bool" where
  "holds_record p \<longleftrightarrow> (\<exists>c f m. p = Holding c f m)"

definition phase_ok :: "bpf_config \<Rightarrow> phase \<Rightarrow> bool" where
  "phase_ok cfg p \<longleftrightarrow>
     (case p of
        Holding c f m \<Rightarrow> classify c = Want f \<and> reserve_mem c = Some m
      | Bumping c r \<Rightarrow> outcome_of cfg c = Skipped r
      | _ \<Rightarrow> True)"

definition holders :: "kernel \<Rightarrow> nat set" where
  "holders k = {i. holds_record (phase_of k i)}"

definition kinv :: "bpf_config \<Rightarrow> bpf_state \<Rightarrow> kernel \<Rightarrow> bool" where
  "kinv cfg st0 k \<longleftrightarrow>
     (\<forall>i. phase_ok cfg (phase_of k i))
   \<and> finite (holders k)
   \<and> reserved (maps k) = reserved st0 + card (holders k)
   \<and> (maps k)\<lparr>reserved := reserved st0\<rparr> = run_all cfg (map snd (history k)) st0
   \<and> distinct (map fst (history k))
   \<and> (\<forall>i c. phase_of k i = Finished c \<longleftrightarrow> (i, c) \<in> set (history k))"

lemma kernel_simps [simp]:
  "phase_of (set_phase i p k) = (phase_of k)(i := p)"
  "maps (set_phase i p k) = maps k" "history (set_phase i p k) = history k"
  "phase_of (finish i c k) = (phase_of k)(i := Finished c)"
  "maps (finish i c k) = maps k" "history (finish i c k) = history k @ [(i, c)]"
  by (simp_all add: set_phase_def finish_def)

lemma holders_update:
  "{j. holds_record (((phase_of k)(i := p)) j)}
     = (if holds_record p then insert i (holders k) else holders k - {i})"
  by (auto simp: holders_def)

lemma holds_record_simps [simp]:
  "\<not> holds_record Idle" "\<not> holds_record (Entered c)" "holds_record (Holding c f m)"
  "\<not> holds_record (Bumping c r)" "\<not> holds_record (Finished c)"
  by (simp_all add: holds_record_def)

lemma commit_frame: "reserved (commit out st) = reserved st"
  by (cases out) simp_all

lemma commit_reserved: "commit out (st\<lparr>reserved := n\<rparr>) = (commit out st)\<lparr>reserved := n\<rparr>"
  by (cases out) (simp_all add: bump_def split: option.splits)

text \<open>
  The shared part of the invariant after a step: a step that only moves phases keeps the maps, a
  step that finishes an invocation commits its outcome.
\<close>

lemma not_in_history:
  "kinv cfg st0 k \<Longrightarrow> \<forall>c. phase_of k i \<noteq> Finished c \<Longrightarrow> i \<notin> fst ` set (history k)"
  by (fastforce simp: kinv_def)

lemma kinv_move:
  assumes "kinv cfg st0 k" "\<forall>c. phase_of k i \<noteq> Finished c" "\<forall>c. p \<noteq> Finished c"
    and "phase_ok cfg p" "reserved (maps k') = reserved st0 + card (holders k')"
    and "(maps k')\<lparr>reserved := reserved st0\<rparr> = (maps k)\<lparr>reserved := reserved st0\<rparr>"
    and "phase_of k' = (phase_of k)(i := p)" "history k' = history k"
  shows "kinv cfg st0 k'"
proof -
  have "holders k' = (if holds_record p then insert i (holders k) else holders k - {i})"
    using assms(7) holders_update [of k i p] by (simp add: holders_def)
  then have "finite (holders k')" using assms(1) by (simp add: kinv_def)
  then show ?thesis
    using assms by (auto simp: kinv_def)
qed

lemma kinv_finish:
  assumes "kinv cfg st0 k" "\<forall>c. phase_of k i \<noteq> Finished c"
    and "reserved (maps k') = reserved st0 + card (holders k')"
    and "(maps k')\<lparr>reserved := reserved st0\<rparr>
       = commit (outcome_of cfg c) ((maps k)\<lparr>reserved := reserved st0\<rparr>)"
    and "phase_of k' = (phase_of k)(i := Finished c)" "history k' = history k @ [(i, c)]"
  shows "kinv cfg st0 k'"
proof -
  have "holders k' = holders k - {i}"
    using assms(5) holders_update [of k i "Finished c"] by (simp add: holders_def)
  then have "finite (holders k')" using assms(1) by (simp add: kinv_def)
  moreover have "distinct (map fst (history k'))"
    using assms(1,6) not_in_history [OF assms(1,2)] by (simp add: kinv_def)
  moreover have "(maps k')\<lparr>reserved := reserved st0\<rparr> = run_all cfg (map snd (history k')) st0"
    using assms(1,4,6) by (simp add: kinv_def run_all_snoc)
  moreover have "\<forall>j d. phase_of k' j = Finished d \<longleftrightarrow> (j, d) \<in> set (history k')"
    using assms(1,2,5,6) not_in_history [OF assms(1,2)] by (force simp: kinv_def image_iff)
  moreover have "\<forall>j. phase_ok cfg (phase_of k' j)"
    using assms(1,5) by (simp add: kinv_def phase_ok_def)
  ultimately show ?thesis using assms(3) by (simp add: kinv_def)
qed

lemma holders_simps [simp]:
  "holders (set_phase i p k) = (if holds_record p then insert i (holders k) else holders k - {i})"
  "holders (finish i c k) = holders k - {i}"
  "holders (k\<lparr>maps := m\<rparr>) = holders k"
  using holders_update [of k i p] holders_update [of k i "Finished c"]
  by (simp_all add: holders_def)

lemma holders_iff: "i \<in> holders k \<longleftrightarrow> holds_record (phase_of k i)"
  by (simp add: holders_def)

lemma kinvD:
  assumes "kinv cfg st0 k"
  shows "finite (holders k)" "reserved (maps k) = reserved st0 + card (holders k)"
    "phase_ok cfg (phase_of k i)"
  using assms by (simp_all add: kinv_def)

lemma outcome_of_phases:
  "classify c = Ignore \<Longrightarrow> outcome_of cfg c = Ignored"
  "classify c = Count r \<Longrightarrow> outcome_of cfg c = Skipped r"
  "classify c = Want f \<Longrightarrow> reserve_mem c = None \<Longrightarrow> outcome_of cfg c = Skipped Ringbuf_full"
  "classify c = Want f \<Longrightarrow> reserve_mem c = Some m \<Longrightarrow> fill_event cfg c f m = None
    \<Longrightarrow> outcome_of cfg c = Skipped Unreadable"
  "classify c = Want f \<Longrightarrow> reserve_mem c = Some m \<Longrightarrow> fill_event cfg c f m = Some m'
    \<Longrightarrow> outcome_of cfg c = Reported m'"
  by (simp_all add: outcome_of_def)

text \<open>Every step keeps the invariant.\<close>

lemma kstep_kinv:
  assumes "kstep cfg k k'" "kinv cfg st0 k"
  shows "kinv cfg st0 k'"
  using assms
proof (induction rule: kstep.induct)
  case (enter k i c)
  then show ?case
    by - (rule kinv_move [where k = k and i = i and p = "Entered c"],
      simp_all add: phase_ok_def kinvD(2) [OF enter.prems] holders_iff)
next
  case (ignore k i c)
  then show ?case
    by - (rule kinv_finish [where k = k and i = i and c = c],
      simp_all add: outcome_of_phases kinvD(2) [OF ignore.prems] holders_iff)
next
  case (skip k i c r)
  then show ?case
    by - (rule kinv_move [where k = k and i = i and p = "Bumping c r"],
      simp_all add: phase_ok_def outcome_of_phases kinvD(2) [OF skip.prems] holders_iff)
next
  case (full k i c f)
  then show ?case
    by - (rule kinv_move [where k = k and i = i and p = "Bumping c Ringbuf_full"],
      simp_all add: phase_ok_def outcome_of_phases kinvD(2) [OF full.prems] holders_iff)
next
  case (reserve k i c f m)
  have "i \<notin> holders k" using reserve by (simp add: holders_iff)
  with reserve show ?case
    by - (rule kinv_move [where k = k and i = i and p = "Holding c f m"],
      simp_all add: phase_ok_def ringbuf_reserved_def kinvD(1,2) [OF reserve.prems])
next
  case (discard k i c f m)
  have i: "i \<in> holders k" using discard by (simp add: holders_iff)
  then have "0 < card (holders k)"
    using kinvD(1) [OF discard.prems] by (auto simp: card_gt_0_iff)
  with i discard kinvD(3) [OF discard.prems, of i] show ?case
    by - (rule kinv_move [where k = k and i = i and p = "Bumping c Unreadable"],
      simp_all add: phase_ok_def ringbuf_discard_def outcome_of_phases kinvD(1,2) [OF discard.prems])
next
  case (submit k i c f m m')
  have i: "i \<in> holders k" using submit by (simp add: holders_iff)
  then have "0 < card (holders k)"
    using kinvD(1) [OF submit.prems] by (auto simp: card_gt_0_iff)
  with i submit kinvD(3) [OF submit.prems, of i] show ?case
    by - (rule kinv_finish [where k = k and i = i and c = c],
      simp_all add: phase_ok_def ringbuf_submit_def outcome_of_phases kinvD(1,2) [OF submit.prems])
next
  case (count k i c r)
  have "(BUMP r (maps k))\<lparr>reserved := reserved st0\<rparr>
      = commit (Skipped r) ((maps k)\<lparr>reserved := reserved st0\<rparr>)"
    using commit_reserved [where out = "Skipped r" and st = "maps k"] by simp
  with count kinvD(3) [OF count.prems, of i] show ?case
    by - (rule kinv_finish [where k = k and i = i and c = c],
      simp_all add: phase_ok_def holders_iff kinvD(2) [OF count.prems])
qed

lemma kreach_kinv: "kreach cfg st0 k \<Longrightarrow> kinv cfg st0 k"
proof (induction rule: kreach.induct)
  case start
  show ?case by (simp add: kinv_def phase_ok_def holders_def run_all_def)
next
  case (step k k')
  then show ?case by (blast intro: kstep_kinv)
qed

section \<open>Counting\<close>

text \<open>What a sequential run leaves behind, when the map value is there.\<close>

definition skips :: "bpf_config \<Rightarrow> reason \<Rightarrow> connect_ctx list \<Rightarrow> nat" where
  "skips cfg r cs = length (filter (\<lambda>c. outcome_of cfg c = Skipped r) cs)"

definition reports :: "bpf_config \<Rightarrow> connect_ctx list \<Rightarrow> u8 list list" where
  "reports cfg cs = concat (map (\<lambda>c. case outcome_of cfg c of Reported m \<Rightarrow> [m] | _ \<Rightarrow> []) cs)"

lemma run_all_counts:
  assumes "skipped_map st = Some m" "length m = 32"
  shows "\<exists>m'. skipped_map (run_all cfg cs st) = Some m' \<and> length m' = 32
    \<and> (\<forall>r. counter r m' = counter r m + of_nat (skips cfg r cs))
    \<and> ring (run_all cfg cs st) = ring st @ reports cfg cs"
proof (induction cs rule: rev_induct)
  case Nil
  then show ?case using assms by (simp add: run_all_def skips_def reports_def)
next
  case (snoc c cs)
  then obtain m' where m': "skipped_map (run_all cfg cs st) = Some m'" "length m' = 32"
    "\<forall>r. counter r m' = counter r m + of_nat (skips cfg r cs)"
    "ring (run_all cfg cs st) = ring st @ reports cfg cs" by auto
  show ?case
  proof (cases "outcome_of cfg c")
    case (Skipped r)
    then show ?thesis
      using m' reason_offset_bound [of r]
      by (simp add: run_all_snoc bump_def counter_add_at skips_def reports_def add.assoc)
  qed (use m' in \<open>simp_all add: run_all_snoc skips_def reports_def\<close>)
qed

section \<open>Properties\<close>


lemma accounting_of_reach:
  assumes "kreach cfg empty_maps k"
  shows "\<exists>m. skipped_map (maps k) = Some m
    \<and> (\<forall>r. counter r m = of_nat (skips cfg r (map snd (history k))))
    \<and> ring (maps k) = reports cfg (map snd (history k))"
proof -
  have zero: "counter r (replicate 32 0) = 0" for r
    using reason_offset_bound [of r]
    by (cases r) (simp_all add: counter_def u64_at_def peek_def layout numeral_eq_Suc)
  have "(maps k)\<lparr>reserved := 0\<rparr> = run_all cfg (map snd (history k)) empty_maps"
    using kreach_kinv [OF assms] by (simp add: kinv_def empty_maps_def)
  then have "skipped_map (run_all cfg (map snd (history k)) empty_maps) = skipped_map (maps k)"
    "ring (run_all cfg (map snd (history k)) empty_maps) = ring (maps k)"
    by (metis bpf_state.select_convs bpf_state.surjective bpf_state.update_convs(3))+
  then show ?thesis
    using run_all_counts [of empty_maps "replicate 32 0" cfg "map snd (history k)"] zero
    by (auto simp: empty_maps_def)
qed


section \<open>Completion\<close>

definition completes :: "bpf_config \<Rightarrow> nat \<Rightarrow> nat \<Rightarrow> kernel \<Rightarrow> bool" where
  "completes cfg i b k \<longleftrightarrow>
     (\<exists>n k' c. n \<le> b \<and> (kstep cfg ^^ n) k k' \<and> phase_of k' i = Finished c
        \<and> (\<forall>j. j \<noteq> i \<longrightarrow> phase_of k' j = phase_of k j))"

lemma completes_now: "phase_of k i = Finished c \<Longrightarrow> completes cfg i b k"
  unfolding completes_def by (intro exI [of _ 0]) auto

lemma completes_step:
  assumes "kstep cfg k k1" "\<forall>j. j \<noteq> i \<longrightarrow> phase_of k1 j = phase_of k j" "completes cfg i b k1"
  shows "completes cfg i (Suc b) k"
proof -
  from assms(3) obtain n k' c where n: "n \<le> b" "(kstep cfg ^^ n) k1 k'" "phase_of k' i = Finished c"
    "\<forall>j. j \<noteq> i \<longrightarrow> phase_of k' j = phase_of k1 j"
    by (auto simp: completes_def)
  have "(kstep cfg ^^ Suc n) k k'" using assms(1) n(2) by (rule relpowp_Suc_I2)
  with n assms(2) show ?thesis unfolding completes_def by (intro exI [of _ "Suc n"]) auto
qed

lemma completes_mono: "completes cfg i b k \<Longrightarrow> b \<le> b' \<Longrightarrow> completes cfg i b' k"
  unfolding completes_def by (meson le_trans)

lemma bumping_completes:
  assumes "phase_of k i = Bumping c r"
  shows "completes cfg i (Suc 0) k"
  by (rule completes_step [OF kstep.count [OF assms]]) (simp_all add: completes_now)

lemma holding_completes:
  assumes "phase_of k i = Holding c f m"
  shows "completes cfg i (Suc (Suc 0)) k"
proof (cases "fill_event cfg c f m")
  case None
  show ?thesis
    by (rule completes_step [OF kstep.discard [OF assms None]]) (simp_all add: bumping_completes)
next
  case (Some m')
  show ?thesis
    by (rule completes_step [OF kstep.submit [OF assms Some]]) (simp_all add: completes_now)
qed

lemma entered_completes:
  assumes "phase_of k i = Entered c"
  shows "completes cfg i 3 k"
proof (cases "classify c")
  case Ignore
  have "completes cfg i (Suc 0) k"
    by (rule completes_step [OF kstep.ignore [OF assms Ignore]]) (simp_all add: completes_now)
  then show ?thesis by (rule completes_mono) simp
next
  case (Count r)
  have "completes cfg i (Suc (Suc 0)) k"
    by (rule completes_step [OF kstep.skip [OF assms Count]]) (simp_all add: bumping_completes)
  then show ?thesis by (rule completes_mono) simp
next
  case (Want f)
  show ?thesis
  proof (cases "reserve_mem c")
    case None
    have "completes cfg i (Suc (Suc 0)) k"
      by (rule completes_step [OF kstep.full [OF assms Want None]]) (simp_all add: bumping_completes)
    then show ?thesis by (rule completes_mono) simp
  next
    case (Some m)
    have "completes cfg i (Suc (Suc (Suc 0))) k"
      by (rule completes_step [OF kstep.reserve [OF assms Want Some]]) (simp_all add: holding_completes)
    then show ?thesis by (simp add: numeral_3_eq_3)
  qed
qed


section \<open>A run of two invocations\<close>

text \<open>
  Two CPUs: the first reserves a record, the second finds an address it cannot read and counts it,
  then the first submits.
\<close>

definition unreadable_ctx :: connect_ctx where
  "unreadable_ctx = (sample_ctx None)\<lparr>probe_read := (\<lambda>i n a. None)\<rparr>"

definition sample_run :: kernel where
  "sample_run =
     (let c = sample_ctx (Some (replicate 64 255));
          m = replicate 64 255;
          k0 = \<lparr>phase_of = (\<lambda>_. Idle), maps = empty_maps, history = []\<rparr>;
          k1 = set_phase 0 (Entered c) k0;
          k2 = set_phase 1 (Entered unreadable_ctx) k1;
          k3 = (set_phase 0 (Holding c AF_INET m) k2)\<lparr>maps := ringbuf_reserved (maps k2)\<rparr>;
          k4 = set_phase 1 (Bumping unreadable_ctx Unreadable) k3
      in (finish 1 unreadable_ctx k4)\<lparr>maps := BUMP Unreadable (maps k4)\<rparr>)"

lemma sample_unreadable: "classify unreadable_ctx = Count Unreadable"
  by (simp add: unreadable_ctx_def classify_def sample_ctx_def)

lemma sample_run_reachable: "kreach sample_cfg empty_maps sample_run"
proof -
  let ?c = "sample_ctx (Some (replicate 64 255))" and ?m = "replicate 64 255 :: u8 list"
  let ?k0 = "\<lparr>phase_of = (\<lambda>_. Idle), maps = empty_maps, history = []\<rparr> :: kernel"
  let ?k1 = "set_phase 0 (Entered ?c) ?k0"
  let ?k2 = "set_phase 1 (Entered unreadable_ctx) ?k1"
  let ?k3 = "(set_phase 0 (Holding ?c AF_INET ?m) ?k2)\<lparr>maps := ringbuf_reserved (maps ?k2)\<rparr>"
  let ?k4 = "set_phase 1 (Bumping unreadable_ctx Unreadable) ?k3"
  have r1: "kreach sample_cfg empty_maps ?k1"
    by (rule kreach.step [OF kreach.start kstep.enter]) simp
  have r2: "kreach sample_cfg empty_maps ?k2"
    by (rule kreach.step [OF r1 kstep.enter]) simp
  have r3: "kreach sample_cfg empty_maps ?k3"
    by (rule kreach.step [OF r2 kstep.reserve [OF _ sample_classify]]) (simp_all add: sample_ctx_def)
  have r4: "kreach sample_cfg empty_maps ?k4"
    by (rule kreach.step [OF r3 kstep.skip [OF _ sample_unreadable]]) simp
  show ?thesis
    unfolding sample_run_def Let_def by (rule kreach.step [OF r4 kstep.count]) simp
qed




end
