(* ===== verification/Go_Strings.thy ===== *)
theory Go_Strings
  imports Idryx_Prelude
begin

text \<open>
  The functions of Go's \<^verbatim>\<open>strings\<close>, \<^verbatim>\<open>bytes\<close>, \<^verbatim>\<open>strconv\<close> and \<^verbatim>\<open>sort\<close>
  packages that the program calls, on byte strings. An index that Go reports as -1 is \<open>None\<close>.
  \<open>to_lower\<close> and \<open>trim_space\<close> are the ASCII part of \<^verbatim>\<open>strings.ToLower\<close> and
  \<^verbatim>\<open>strings.TrimSpace\<close>.
\<close>

section \<open>Prefixes, suffixes, indices\<close>

definition has_prefix :: "string \<Rightarrow> string \<Rightarrow> bool" where
  "has_prefix s p \<longleftrightarrow> prefix p s"

definition has_suffix :: "string \<Rightarrow> string \<Rightarrow> bool" where
  "has_suffix s x \<longleftrightarrow> suffix x s"

definition trim_prefix :: "string \<Rightarrow> string \<Rightarrow> string" where
  "trim_prefix s p = (if has_prefix s p then drop (length p) s else s)"

definition cut_prefix :: "string \<Rightarrow> string \<Rightarrow> string option" where
  "cut_prefix s p = (if has_prefix s p then Some (drop (length p) s) else None)"

definition cut_suffix :: "string \<Rightarrow> string \<Rightarrow> string option" where
  "cut_suffix s x = (if has_suffix s x then Some (take (length s - length x) s) else None)"

fun index_byte :: "string \<Rightarrow> char \<Rightarrow> nat option" where
  "index_byte [] c = None"
| "index_byte (x # xs) c = (if x = c then Some 0 else map_option Suc (index_byte xs c))"

fun last_index_byte :: "string \<Rightarrow> char \<Rightarrow> nat option" where
  "last_index_byte [] c = None"
| "last_index_byte (x # xs) c =
     (case last_index_byte xs c of
        Some i \<Rightarrow> Some (Suc i)
      | None \<Rightarrow> if x = c then Some 0 else None)"

text \<open>\<^verbatim>\<open>strings.Index\<close>: the first position where a string occurs.\<close>

fun index_of :: "string \<Rightarrow> string \<Rightarrow> nat option" where
  "index_of [] p = (if p = [] then Some 0 else None)"
| "index_of (x # xs) p = (if prefix p (x # xs) then Some 0 else map_option Suc (index_of xs p))"

definition contains :: "string \<Rightarrow> string \<Rightarrow> bool" where
  "contains s p \<longleftrightarrow> index_of s p \<noteq> None"

text \<open>\<^verbatim>\<open>strings.TrimRight(s, cutset)\<close> and \<^verbatim>\<open>strings.Trim(s, cutset)\<close>.\<close>

definition trim_right :: "string \<Rightarrow> char list \<Rightarrow> string" where
  "trim_right s cs = rev (dropWhile (\<lambda>c. c \<in> set cs) (rev s))"

definition trim :: "string \<Rightarrow> char list \<Rightarrow> string" where
  "trim s cs = trim_right (dropWhile (\<lambda>c. c \<in> set cs) s) cs"

definition white :: "char list" where
  "white = [CHR 9, CHR 10, CHR 11, CHR 12, CHR 13, CHR 32]"

definition trim_space :: "string \<Rightarrow> string" where
  "trim_space s = trim s white"

definition lower_char :: "char \<Rightarrow> char" where
  "lower_char c = (let n = of_char c :: nat in if 65 \<le> n \<and> n \<le> 90 then char_of (n + 32) else c)"

definition to_lower :: "string \<Rightarrow> string" where
  "to_lower s = map lower_char s"

text \<open>\<^verbatim>\<open>bytes.Split(s, [c])\<close>: one more piece than separators.\<close>

fun split_on :: "'a \<Rightarrow> 'a list \<Rightarrow> 'a list list" where
  "split_on c [] = [[]]"
| "split_on c (x # xs) =
     (if x = c then [] # split_on c xs
      else (case split_on c xs of [] \<Rightarrow> [[x]] | p # ps \<Rightarrow> (x # p) # ps))"

fun join :: "string \<Rightarrow> string list \<Rightarrow> string" where
  "join sep [] = []"
| "join sep [x] = x"
| "join sep (x # y # ys) = x @ sep @ join sep (y # ys)"

text \<open>\<^verbatim>\<open>sort.Strings\<close> over the keys of a set: sorted, without repeats.\<close>

definition sorted_keys :: "string list \<Rightarrow> string list" where
  "sorted_keys xs = sort (remdups xs)"

lemma set_sorted_keys [simp]: "set (sorted_keys xs) = set xs"
  by (simp add: sorted_keys_def)

lemma sorted_sorted_keys [simp]: "sorted (sorted_keys xs)"
  by (simp add: sorted_keys_def)

lemma distinct_sorted_keys [simp]: "distinct (sorted_keys xs)"
  by (simp add: sorted_keys_def)

lemma map_filter_set: "set (List.map_filter f xs) = {y. \<exists>x \<in> set xs. f x = Some y}"
  by (induction xs) (auto simp: map_filter_simps split: option.splits)

lemma sorted_keys_eq_Nil [simp]: "sorted_keys xs = [] \<longleftrightarrow> xs = []"
  by (metis list.set(1) set_empty set_sorted_keys)

section \<open>Numbers\<close>

definition digit_char :: "nat \<Rightarrow> char" where
  "digit_char d = (if d < 10 then char_of (48 + d) else char_of (87 + d))"

fun digits_base :: "nat \<Rightarrow> nat \<Rightarrow> string" where
  "digits_base b n =
     (if b < 2 \<or> n < b then [digit_char n] else digits_base b (n div b) @ [digit_char (n mod b)])"

declare digits_base.simps [simp del]

definition utoa :: "nat \<Rightarrow> string" where
  "utoa n = digits_base 10 n"

definition hextoa :: "nat \<Rightarrow> string" where
  "hextoa n = digits_base 16 n"

text \<open>The value of a digit string, most significant digit first.\<close>

definition digit_value :: "char \<Rightarrow> nat" where
  "digit_value c = (let n = of_char c in if n < 58 then n - 48 else n - 87)"

definition value_base :: "nat \<Rightarrow> string \<Rightarrow> nat" where
  "value_base b s = foldl (\<lambda>v c. b * v + digit_value c) 0 s"

lemma of_char_digit: "d < 16 \<Longrightarrow> (of_char (digit_char d) :: nat) = (if d < 10 then 48 + d else 87 + d)"
  by (simp add: digit_char_def)

lemma digit_value_char [simp]: "d < 16 \<Longrightarrow> digit_value (digit_char d) = d"
  by (simp add: digit_value_def of_char_digit)

lemma value_digits_base:
  assumes "2 \<le> b" "b \<le> 16"
  shows "value_base b (digits_base b n) = n"
  using assms
proof (induction b n rule: digits_base.induct)
  case (1 b n)
  show ?case
  proof (cases "n < b")
    case True
    with 1 show ?thesis by (subst digits_base.simps) (simp add: value_base_def)
  next
    case False
    with 1 have "value_base b (digits_base b (n div b)) = n div b" by simp
    moreover have "n mod b < 16" using 1(2,3) by (meson mod_less_divisor less_le_trans zero_less_numeral)
    ultimately show ?thesis using False 1(2)
      by (subst digits_base.simps) (simp add: value_base_def)
  qed
qed

lemma utoa_inj [simp]: "utoa m = utoa n \<longleftrightarrow> m = n"
proof
  assume "utoa m = utoa n"
  then have "value_base 10 (digits_base 10 m) = value_base 10 (digits_base 10 n)"
    by (simp only: utoa_def)
  then show "m = n" by (simp add: value_digits_base)
qed simp

lemma digits_base_chars:
  assumes "2 \<le> b"
  shows "c \<in> set (digits_base b n) \<Longrightarrow> \<exists>d < b. c = digit_char d"
  using assms
proof (induction b n rule: digits_base.induct)
  case (1 b n)
  show ?case
  proof (cases "n < b")
    case True
    with 1 show ?thesis by (subst (asm) digits_base.simps) auto
  next
    case False
    then have "digits_base b n = digits_base b (n div b) @ [digit_char (n mod b)]"
      using 1(3) by (subst digits_base.simps) simp
    then have "c \<in> set (digits_base b (n div b)) \<or> c = digit_char (n mod b)"
      using 1(2) by auto
    moreover have "\<exists>d < b. digit_char (n mod b) = digit_char d"
      using 1(3) by (intro exI [of _ "n mod b"]) simp
    ultimately show ?thesis using 1(1,3) False by auto
  qed
qed

lemma digits_base_nonempty [simp]: "digits_base b n \<noteq> []"
  by (subst digits_base.simps) simp

definition is_digit :: "char \<Rightarrow> bool" where
  "is_digit c \<longleftrightarrow> 48 \<le> (of_char c :: nat) \<and> (of_char c :: nat) \<le> 57"

lemma utoa_digits: "c \<in> set (utoa n) \<Longrightarrow> is_digit c"
  using digits_base_chars [of 10 c n] by (auto simp: utoa_def is_digit_def of_char_digit)

text \<open>Evaluation on numerals.\<close>

lemma digits_chars [gostr]:
  "digit_char 0 = CHR ''0''" "digit_char (Suc 0) = CHR ''1''" "digit_char 1 = CHR ''1''"
  "digit_char 2 = CHR ''2''" "digit_char 3 = CHR ''3''" "digit_char 4 = CHR ''4''"
  "digit_char 5 = CHR ''5''" "digit_char 6 = CHR ''6''" "digit_char 7 = CHR ''7''"
  "digit_char 8 = CHR ''8''" "digit_char 9 = CHR ''9''"
  by code_simp+

lemma utoa_steps [gostr]:
  "n < 10 \<Longrightarrow> utoa n = [digit_char n]"
  "\<not> n < 10 \<Longrightarrow> utoa n = utoa (n div 10) @ [digit_char (n mod 10)]"
  by (simp_all add: utoa_def digits_base.simps [of 10 n])

lemma utoa_nonempty [simp]: "utoa n \<noteq> []"
  by (simp add: utoa_def)

section \<open>Facts about prefixes\<close>

lemma has_prefix_append [gostr, simp]: "has_prefix (p @ s) p"
  by (simp add: has_prefix_def)

lemma trim_prefix_append [gostr, simp]: "trim_prefix (p @ s) p = s"
  by (simp add: trim_prefix_def)

lemma has_prefixD: "has_prefix s p \<Longrightarrow> s = p @ trim_prefix s p"
  by (auto simp: has_prefix_def trim_prefix_def prefix_def)

lemma last_index_byte_None [gostr]: "last_index_byte s c = None \<longleftrightarrow> c \<notin> set s"
  by (induction s) (auto split: option.splits)

lemma index_byte_None [gostr]: "index_byte s c = None \<longleftrightarrow> c \<notin> set s"
  by (induction s) auto

lemma last_index_byte_append [gostr]:
  "c \<notin> set ys \<Longrightarrow> last_index_byte (xs @ c # ys) c = Some (length xs)"
proof (induction xs)
  case Nil
  then have "last_index_byte ys c = None" by (simp add: last_index_byte_None)
  then show ?case by simp
qed simp

lemma index_byte_append [gostr]: "c \<notin> set xs \<Longrightarrow> index_byte (xs @ c # ys) c = Some (length xs)"
  by (induction xs) auto

lemma split_on_nonempty [simp]: "split_on c xs \<noteq> []"
  by (cases xs) (auto split: list.splits)

end
