(* ===== verification/Net_Addr.thy ===== *)
theory Net_Addr
  imports Go_Strings
begin

unbundle bit_operations_syntax

text \<open>
  What the program uses of Go's \<^verbatim>\<open>net\<close> and \<^verbatim>\<open>net/netip\<close> packages: addresses as byte
  lists (16 bytes, or 4 for the short form), their text, the parser of that text, and the joining and
  splitting of host and port. The round trip \<open>parse_ip (ip_string ip) = Some ip\<close> is the reason the
  sensor may key its table of provider addresses by text.
\<close>

section \<open>Addresses\<close>

type_synonym ip = "u8 list"

definition v4_in_v6_prefix :: "u8 list" where
  "v4_in_v6_prefix = replicate 10 0 @ [255, 255]"

definition ipv4 :: "u8 \<Rightarrow> u8 \<Rightarrow> u8 \<Rightarrow> u8 \<Rightarrow> ip" where
  "ipv4 a b c d = v4_in_v6_prefix @ [a, b, c, d]"

definition to4 :: "ip \<Rightarrow> u8 list option" where
  "to4 a = (if length a = 4 then Some a
            else if length a = 16 \<and> take 12 a = v4_in_v6_prefix then Some (drop 12 a)
            else None)"

definition ipv6_loopback :: ip where
  "ipv6_loopback = replicate 15 0 @ [1]"

definition is_loopback :: "ip \<Rightarrow> bool" where
  "is_loopback a = (case to4 a of Some b \<Rightarrow> hd b = 127 | None \<Rightarrow> a = ipv6_loopback)"

section \<open>Text of an address\<close>

definition v4_string :: "u8 list \<Rightarrow> string" where
  "v4_string b = join ''.'' (map (\<lambda>x. utoa (unat x)) b)"

text \<open>The eight 16-bit groups of an address and the bytes of a list of groups.\<close>

fun groups :: "u8 list \<Rightarrow> nat list" where
  "groups (a # b # r) = (unat a * 256 + unat b) # groups r"
| "groups _ = []"

fun ungroup :: "nat list \<Rightarrow> u8 list" where
  "ungroup [] = []"
| "ungroup (g # gs) = of_nat (g div 256) # of_nat (g mod 256) # ungroup gs"

definition zero_run :: "nat list \<Rightarrow> nat \<Rightarrow> nat" where
  "zero_run gs i = length (takeWhile (\<lambda>g. g = 0) (drop i gs))"

text \<open>The first longest run of two or more zero groups, as its start and end.\<close>

definition longer_run :: "nat list \<Rightarrow> (nat \<times> nat) option \<Rightarrow> nat \<Rightarrow> (nat \<times> nat) option" where
  "longer_run gs r i =
     (let l = zero_run gs i; best = (case r of Some (s, e) \<Rightarrow> e - s | None \<Rightarrow> 0)
      in if 2 \<le> l \<and> best < l then Some (i, i + l) else r)"

definition best_run :: "nat list \<Rightarrow> (nat \<times> nat) option" where
  "best_run gs = foldl (longer_run gs) None [0..<length gs]"

definition hex_groups :: "nat list \<Rightarrow> string" where
  "hex_groups gs = join '':'' (map hextoa gs)"

definition v6_string :: "u8 list \<Rightarrow> string" where
  "v6_string b =
     (let gs = groups b in
      case best_run gs of
        None \<Rightarrow> hex_groups gs
      | Some (s, e) \<Rightarrow> hex_groups (take s gs) @ ''::'' @ hex_groups (drop e gs))"

definition ip_string :: "ip \<Rightarrow> string" where
  "ip_string a =
     (if a = [] then ''<nil>''
      else if length a \<noteq> 4 \<and> length a \<noteq> 16 then
        CHR ''?'' # concat (map (\<lambda>x. [digit_char (unat x div 16), digit_char (unat x mod 16)]) a)
      else case to4 a of Some b \<Rightarrow> v4_string b | None \<Rightarrow> v6_string a)"

section \<open>Parsing an address\<close>

text \<open>\<^verbatim>\<open>netip.Addr\<close>: a short address, or a long one with its zone.\<close>

datatype addr = V4 "u8 list" | V6 "u8 list" string

definition is_hex :: "char \<Rightarrow> bool" where
  "is_hex c \<longleftrightarrow> (let n = of_char c :: nat in
     48 \<le> n \<and> n \<le> 57 \<or> 97 \<le> n \<and> n \<le> 102 \<or> 65 \<le> n \<and> n \<le> 70)"

definition hex_value :: "char \<Rightarrow> nat" where
  "hex_value c = (let n = of_char c in if n < 58 then n - 48 else if n < 97 then n - 55 else n - 87)"

text \<open>\<open>parse_v4_fields v digits dot fields s\<close>: the value and the number of digits of the field being
  read, whether the previous character was a dot (or there is none), and the fields already read.\<close>

fun parse_v4_fields :: "nat \<Rightarrow> nat \<Rightarrow> bool \<Rightarrow> u8 list \<Rightarrow> string \<Rightarrow> u8 list option" where
  "parse_v4_fields v d dot fs [] = (if length fs < 3 then None else Some (fs @ [of_nat v]))"
| "parse_v4_fields v d dot fs (c # cs) =
     (if is_digit c then
        if d = 1 \<and> v = 0 then None
        else let v' = v * 10 + digit_value c in
             if 255 < v' then None else parse_v4_fields v' (Suc d) False fs cs
      else if c = CHR ''.'' then
        if dot \<or> cs = [] \<or> length fs = 3 then None
        else parse_v4_fields 0 0 True (fs @ [of_nat v]) cs
      else None)"

definition parse_v4 :: "string \<Rightarrow> u8 list option" where
  "parse_v4 s = parse_v4_fields 0 0 True [] s"

text \<open>The group loop of the long form: the bytes read, where the ellipsis stands, the text left.\<close>

function (sequential) parse_v6_groups ::
    "u8 list \<Rightarrow> nat option \<Rightarrow> string \<Rightarrow> (u8 list \<times> nat option \<times> string) option" where
  "parse_v6_groups b ell s =
     (if 16 \<le> length b then Some (b, ell, s)
      else
        let ds = takeWhile is_hex s; r = dropWhile is_hex s in
        if ds = [] \<or> 4 < length ds then None
        else
          let v = foldl (\<lambda>v c. v * 16 + hex_value c) 0 ds; b' = b @ [of_nat (v div 256), of_nat (v mod 256)] in
          case r of
            [] \<Rightarrow> Some (b', ell, [])
          | c # t \<Rightarrow>
              if c = CHR ''.'' then
                if ell = None \<and> length b \<noteq> 12 \<or> 16 < length b + 4 then None
                else map_option (\<lambda>f. (b @ f, ell, [])) (parse_v4 s)
              else if c \<noteq> CHR '':'' then None
              else (case t of
                  [] \<Rightarrow> None
                | c' # t' \<Rightarrow>
                    if c' = CHR '':'' then
                      if ell \<noteq> None then None
                      else if t' = [] then Some (b', Some (length b'), [])
                      else parse_v6_groups b' (Some (length b')) t'
                    else parse_v6_groups b' ell t))"
  by pat_completeness auto

lemma dropWhile_shorter: "dropWhile P s = c # t \<Longrightarrow> length t < length s"
  using length_dropWhile_le [of P s] by simp

termination parse_v6_groups
  by (relation "measure (\<lambda>(b, ell, s). length s)") (auto dest!: dropWhile_shorter [OF sym])

declare parse_v6_groups.simps [simp del]

fun expand_ellipsis :: "u8 list \<times> nat option \<times> string \<Rightarrow> u8 list option" where
  "expand_ellipsis (b, ell, rest) =
     (if rest \<noteq> [] then None
      else if length b < 16 then
        (case ell of
           None \<Rightarrow> None
         | Some e \<Rightarrow> Some (take e b @ replicate (16 - length b) 0 @ drop e b))
      else if ell \<noteq> None then None
      else Some b)"

definition parse_v6_bytes :: "string \<Rightarrow> u8 list option" where
  "parse_v6_bytes s =
     (case s of
        c # d # t \<Rightarrow>
          if c = CHR '':'' \<and> d = CHR '':'' then
            if t = [] then Some (replicate 16 0)
            else Option.bind (parse_v6_groups [] (Some 0) t) expand_ellipsis
          else Option.bind (parse_v6_groups [] None s) expand_ellipsis
      | _ \<Rightarrow> Option.bind (parse_v6_groups [] None s) expand_ellipsis)"

definition parse_v6 :: "string \<Rightarrow> addr option" where
  "parse_v6 s =
     (case index_byte s (CHR ''%'') of
        None \<Rightarrow> map_option (\<lambda>b. V6 b []) (parse_v6_bytes s)
      | Some i \<Rightarrow>
          if drop (Suc i) s = [] then None
          else map_option (\<lambda>b. V6 b (drop (Suc i) s)) (parse_v6_bytes (take i s)))"

text \<open>\<^verbatim>\<open>netip.ParseAddr\<close> looks for the first of dot, colon and percent sign.\<close>

definition parse_addr :: "string \<Rightarrow> addr option" where
  "parse_addr s =
     (case dropWhile (\<lambda>c. c \<notin> {CHR ''.'', CHR '':'', CHR ''%''}) s of
        [] \<Rightarrow> None
      | c # _ \<Rightarrow> if c = CHR ''.'' then map_option V4 (parse_v4 s)
                else if c = CHR '':'' then parse_v6 s
                else None)"

fun as16 :: "addr \<Rightarrow> u8 list" where
  "as16 (V4 b) = v4_in_v6_prefix @ b"
| "as16 (V6 b z) = b"

fun zone :: "addr \<Rightarrow> string" where
  "zone (V4 b) = []"
| "zone (V6 b z) = z"

definition parse_ip :: "string \<Rightarrow> ip option" where
  "parse_ip s = (case parse_addr s of
     Some a \<Rightarrow> if zone a = [] then Some (as16 a) else None
   | None \<Rightarrow> None)"

definition unmap :: "addr \<Rightarrow> addr" where
  "unmap a = (case a of
     V6 b z \<Rightarrow> if take 12 b = v4_in_v6_prefix then V4 (drop 12 b) else a
   | V4 b \<Rightarrow> a)"

section \<open>Classes of addresses\<close>

text \<open>The predicates of \<^verbatim>\<open>netip.Addr\<close>, on the address as given: a mapped address counts as its short form.\<close>

definition addr_loopback :: "addr \<Rightarrow> bool" where
  "addr_loopback a = (case unmap a of V4 b \<Rightarrow> b ! 0 = 127 | V6 b z \<Rightarrow> b = ipv6_loopback)"

definition is_multicast :: "addr \<Rightarrow> bool" where
  "is_multicast a = (case unmap a of V4 b \<Rightarrow> b ! 0 AND 240 = 224 | V6 b z \<Rightarrow> b ! 0 = 255)"

definition is_link_local_unicast :: "addr \<Rightarrow> bool" where
  "is_link_local_unicast a = (case unmap a of
     V4 b \<Rightarrow> b ! 0 = 169 \<and> b ! 1 = 254
   | V6 b z \<Rightarrow> b ! 0 = 254 \<and> b ! 1 AND 192 = 128)"

definition is_global_unicast :: "addr \<Rightarrow> bool" where
  "is_global_unicast a =
     (if a = V4 [0, 0, 0, 0] \<or> a = V4 [255, 255, 255, 255] then False
      else a \<noteq> V6 (replicate 16 0) [] \<and> \<not> addr_loopback a \<and> \<not> is_multicast a \<and> \<not> is_link_local_unicast a)"

definition is_private :: "addr \<Rightarrow> bool" where
  "is_private a = (case unmap a of
     V4 b \<Rightarrow> b ! 0 = 10 \<or> b ! 0 = 172 \<and> b ! 1 AND 240 = 16 \<or> b ! 0 = 192 \<and> b ! 1 = 168
   | V6 b z \<Rightarrow> b ! 0 AND 254 = 252)"

section \<open>Host and port\<close>

definition join_host_port :: "string \<Rightarrow> string \<Rightarrow> string" where
  "join_host_port h p =
     (if CHR '':'' \<in> set h then ''['' @ h @ '']:'' @ p else h @ '':'' @ p)"

definition split_host_port :: "string \<Rightarrow> (string \<times> string) option" where
  "split_host_port s =
     (case last_index_byte s (CHR '':'') of
        None \<Rightarrow> None
      | Some i \<Rightarrow>
          if hd s = CHR ''['' then
            (case index_byte s (CHR '']'') of
               None \<Rightarrow> None
             | Some e \<Rightarrow>
                 if Suc e \<noteq> i then None
                 else if CHR ''['' \<in> set (drop 1 s) \<or> CHR '']'' \<in> set (drop (Suc e) s) then None
                 else Some (take (e - 1) (drop 1 s), drop (Suc i) s))
          else if CHR '':'' \<in> set (take i s) then None
          else if CHR ''['' \<in> set s \<or> CHR '']'' \<in> set s then None
          else Some (take i s, drop (Suc i) s))"

end
