(* ===== verification/Net_Text.thy ===== *)
theory Net_Text
  imports Net_Addr
begin

text \<open>
  The text of an address determines it: parsing what \<open>ip_string\<close> prints gives the address back, for
  dotted addresses, for every choice of compressed zero groups, and through the joined host and port.
\<close>

section \<open>Characters of a number\<close>

lemma length_digits_base: "2 \<le> b \<Longrightarrow> n < b ^ Suc k \<Longrightarrow> length (digits_base b n) \<le> Suc k"
proof (induction k arbitrary: n)
  case 0
  then show ?case by (subst digits_base.simps) simp
next
  case (Suc k)
  show ?case
  proof (cases "n < b")
    case True
    then show ?thesis by (subst digits_base.simps) simp
  next
    case False
    have "n div b < b ^ Suc k"
      using Suc.prems by (simp add: less_mult_imp_div_less mult.commute)
    then have "length (digits_base b (n div b)) \<le> Suc k" using Suc by blast
    with False Suc.prems show ?thesis by (subst digits_base.simps) simp
  qed
qed

lemma hextoa_length: "g < 65536 \<Longrightarrow> length (hextoa g) \<le> 4"
  using length_digits_base [of 16 g 3] by (simp add: hextoa_def)

lemma digit_char_hex: "d < 16 \<Longrightarrow> is_hex (digit_char d)"
  by (simp add: is_hex_def of_char_digit)

lemma hex_value_digit: "d < 16 \<Longrightarrow> hex_value (digit_char d) = d"
  by (simp add: hex_value_def of_char_digit)

lemma hextoa_hex: "c \<in> set (hextoa g) \<Longrightarrow> is_hex c"
  using digits_base_chars [of 16 c g] by (auto simp: hextoa_def digit_char_hex)

lemma hextoa_nonempty [simp]: "hextoa g \<noteq> []"
  by (simp add: hextoa_def)

lemma hex_value_digits: "c \<in> set (hextoa g) \<Longrightarrow> hex_value c = digit_value c"
  using digits_base_chars [of 16 c g] by (auto simp: hextoa_def hex_value_digit)

lemma hextoa_value: "foldl (\<lambda>v c. v * 16 + hex_value c) 0 (hextoa g) = g"
proof -
  have "foldl (\<lambda>v c. v * 16 + hex_value c) 0 (hextoa g) = value_base 16 (hextoa g)"
    unfolding value_base_def
    by (rule foldl_cong) (simp_all add: hex_value_digits mult.commute)
  then show ?thesis by (simp add: hextoa_def value_digits_base)
qed

lemma hex_colon [simp]: "\<not> is_hex (CHR '':'')" "\<not> is_hex (CHR ''.'')" "\<not> is_hex (CHR ''%'')"
  by (simp_all add: is_hex_def)

lemma takeWhile_hextoa:
  assumes "r = [] \<or> \<not> is_hex (hd r)"
  shows "takeWhile is_hex (hextoa g @ r) = hextoa g" "dropWhile is_hex (hextoa g @ r) = r"
  using assms hextoa_hex by (auto simp: takeWhile_append dropWhile_append takeWhile_eq_Nil_iff dropWhile_eq_self_iff)

section \<open>Groups\<close>

lemma byte_div_mod [simp]: "unat (b :: u8) div 256 = 0" "unat b mod 256 = unat b"
  using unat_byte [of b] by simp_all

lemma group_bytes:
  "of_nat ((unat a * 256 + unat b) div 256) = (a :: u8)" "of_nat ((unat a * 256 + unat b) mod 256) = (b :: u8)"
  using unat_byte [of a] unat_byte [of b] by simp_all

lemma ungroup_groups: "even (length b) \<Longrightarrow> ungroup (groups b) = b"
  by (induction b rule: groups.induct) (auto simp: group_bytes)

lemma groups_bound: "g \<in> set (groups b) \<Longrightarrow> g < 65536"
proof (induction b rule: groups.induct)
  case (1 a b r)
  then show ?case using unat_byte [of a] unat_byte [of b] by auto
qed auto

lemma length_groups: "length (groups b) = length b div 2"
  by (induction b rule: groups.induct) auto

lemma length_ungroup [simp]: "length (ungroup gs) = 2 * length gs"
  by (induction gs) auto

lemma ungroup_append [simp]: "ungroup (xs @ ys) = ungroup xs @ ungroup ys"
  by (induction xs) auto

lemma ungroup_zeros: "ungroup (replicate n 0) = replicate (2 * n) 0"
  by (induction n) auto

section \<open>The group loop\<close>

lemma v6_step:
  assumes "length b < 16" "g < 65536" "r = [] \<or> \<not> is_hex (hd r)"
  shows "parse_v6_groups b ell (hextoa g @ r) =
    (let b' = b @ ungroup [g] in
     case r of
       [] \<Rightarrow> Some (b', ell, [])
     | c # t \<Rightarrow>
         if c = CHR ''.'' then
           if ell = None \<and> length b \<noteq> 12 \<or> 16 < length b + 4 then None
           else map_option (\<lambda>f. (b @ f, ell, [])) (parse_v4 (hextoa g @ r))
         else if c \<noteq> CHR '':'' then None
         else (case t of
             [] \<Rightarrow> None
           | c' # t' \<Rightarrow>
               if c' = CHR '':'' then
                 if ell \<noteq> None then None
                 else if t' = [] then Some (b', Some (length b'), [])
                 else parse_v6_groups b' (Some (length b')) t'
               else parse_v6_groups b' ell t))"
proof -
  have "\<not> 4 < length (hextoa g)" using hextoa_length [OF assms(2)] by simp
  then show ?thesis
    using assms(1) takeWhile_hextoa [OF assms(3), of g]
    by (subst parse_v6_groups.simps) (simp add: Let_def hextoa_value not_le cong: list.case_cong)
qed

lemma hextoa_Cons: obtains c cs where "hextoa g = c # cs" "is_hex c" "c \<noteq> CHR '':''"
proof -
  obtain c cs where "hextoa g = c # cs" by (cases "hextoa g") auto
  moreover from this have "is_hex c" using hextoa_hex [of c g] by simp
  ultimately show thesis using that [of c cs] hex_colon(1) by metis
qed

lemma hex_groups_Cons: "ys \<noteq> [] \<Longrightarrow> hex_groups (g # ys) = hextoa g @ '':'' @ hex_groups ys"
  by (cases ys) (auto simp: hex_groups_def)

lemma hex_groups_single [simp]: "hex_groups [g] = hextoa g" "hex_groups [] = []"
  by (simp_all add: hex_groups_def)

lemma hex_groups_head:
  assumes "ys \<noteq> []"
  obtains c cs where "hex_groups ys @ r = c # cs" "c \<noteq> CHR '':''"
proof -
  obtain g gs where ys: "ys = g # gs" using assms by (cases ys) auto
  obtain c cs where c: "hextoa g = c # cs" "c \<noteq> CHR '':''" using hextoa_Cons by metis
  show thesis
  proof (cases "gs = []")
    case True
    with c ys that show thesis by auto
  next
    case False
    with c ys that show thesis by (auto simp: hex_groups_Cons)
  qed
qed

lemma v6_groups_all:
  "ys \<noteq> [] \<Longrightarrow> \<forall>g \<in> set ys. g < 65536 \<Longrightarrow> length b + 2 * length ys \<le> 16 \<Longrightarrow>
   parse_v6_groups b ell (hex_groups ys) = Some (b @ ungroup ys, ell, [])"
proof (induction ys arbitrary: b)
  case Nil
  then show ?case by simp
next
  case (Cons g ys)
  show ?case
  proof (cases "ys = []")
    case True
    with Cons.prems v6_step [of b g "[]" ell] show ?thesis by simp
  next
    case False
    obtain c cs where c: "hex_groups ys = c # cs" "c \<noteq> CHR '':''"
      using hex_groups_head [OF False, of "[]"] by (metis append_Nil2)
    have "parse_v6_groups b ell (hex_groups (g # ys)) = parse_v6_groups (b @ ungroup [g]) ell (hex_groups ys)"
      using Cons.prems c v6_step [of b g "CHR '':'' # hex_groups ys" ell] False
      by (simp add: hex_groups_Cons)
    with Cons.IH [of "b @ ungroup [g]"] Cons.prems False show ?thesis by simp
  qed
qed

lemma v6_groups_ellipsis:
  "xs \<noteq> [] \<Longrightarrow> \<forall>g \<in> set xs. g < 65536 \<Longrightarrow> length b + 2 * length xs \<le> 16 \<Longrightarrow>
   parse_v6_groups b None (hex_groups xs @ ''::'' @ t) =
     (if t = [] then Some (b @ ungroup xs, Some (length b + 2 * length xs), [])
      else parse_v6_groups (b @ ungroup xs) (Some (length b + 2 * length xs)) t)"
proof (induction xs arbitrary: b)
  case Nil
  then show ?case by simp
next
  case (Cons g xs)
  show ?case
  proof (cases "xs = []")
    case True
    with Cons.prems v6_step [of b g "''::'' @ t" None] show ?thesis by simp
  next
    case False
    obtain c cs where c: "hex_groups xs @ ''::'' @ t = c # cs" "c \<noteq> CHR '':''"
      using hex_groups_head [OF False] by metis
    have "parse_v6_groups b None (hex_groups (g # xs) @ ''::'' @ t) =
        parse_v6_groups (b @ ungroup [g]) None (hex_groups xs @ ''::'' @ t)"
      using Cons.prems c v6_step [of b g "CHR '':'' # hex_groups xs @ ''::'' @ t" None] False
      by (simp add: hex_groups_Cons)
    with Cons.IH [of "b @ ungroup [g]"] Cons.prems False show ?thesis by simp
  qed
qed

section \<open>The compressed run\<close>

definition run_ok :: "nat list \<Rightarrow> nat \<times> nat \<Rightarrow> bool" where
  "run_ok gs r \<longleftrightarrow> fst r < snd r \<and> snd r \<le> length gs \<and>
     take (snd r - fst r) (drop (fst r) gs) = replicate (snd r - fst r) 0"

lemma takeWhile_zeros: "takeWhile (\<lambda>g. g = 0) xs = replicate (length (takeWhile (\<lambda>g. g = 0) xs)) (0 :: nat)"
  by (induction xs) auto

lemma zero_run_ok:
  assumes "0 < zero_run gs i" shows "run_ok gs (i, i + zero_run gs i)"
proof -
  let ?n = "zero_run gs i"
  have le: "?n \<le> length (drop i gs)" unfolding zero_run_def by (rule length_takeWhile_le)
  have "take ?n (drop i gs) = takeWhile (\<lambda>g. g = 0) (drop i gs)"
    unfolding zero_run_def by (metis takeWhile_eq_take)
  then have "take ?n (drop i gs) = replicate ?n 0"
    using takeWhile_zeros [of "drop i gs"] by (simp add: zero_run_def)
  with le assms show ?thesis by (auto simp: run_ok_def)
qed

lemma longer_run_ok: "(\<forall>p. r = Some p \<longrightarrow> run_ok gs p) \<Longrightarrow> longer_run gs r i = Some p \<Longrightarrow> run_ok gs p"
  using zero_run_ok [of gs i] by (cases p) (auto simp: longer_run_def Let_def split: if_splits)

lemma best_run_ok:
  assumes "best_run gs = Some (s, e)" shows "run_ok gs (s, e)"
proof -
  have "\<forall>p. foldl (longer_run gs) r is = Some p \<longrightarrow> run_ok gs p" if "\<forall>p. r = Some p \<longrightarrow> run_ok gs p" for r "is"
    using that by (induction "is" arbitrary: r) (simp, metis foldl_Cons longer_run_ok)
  from this [of None "[0..<length gs]"] assms show ?thesis by (simp add: best_run_def)
qed

lemma run_split:
  assumes "run_ok gs (s, e)"
  shows "gs = take s gs @ replicate (e - s) 0 @ drop e gs" "s < e" "e \<le> length gs"
proof -
  have "drop s gs = take (e - s) (drop s gs) @ drop (e - s) (drop s gs)"
    by (simp only: append_take_drop_id)
  with assms show "gs = take s gs @ replicate (e - s) 0 @ drop e gs"
    by (simp add: run_ok_def) (metis append_take_drop_id)
qed (use assms in \<open>auto simp: run_ok_def\<close>)

lemma expand_middle:
  assumes "length xs + length ys < 16"
  shows "expand_ellipsis (xs @ ys, Some (length xs), []) = Some (xs @ replicate (16 - length xs - length ys) 0 @ ys)"
  using assms by simp

lemma v6_roundtrip:
  assumes "length b = 16"
  shows "parse_v6_bytes (v6_string b) = Some b"
proof -
  let ?gs = "groups b"
  have len: "length ?gs = 8" and ub: "ungroup ?gs = b" and bd: "\<forall>g \<in> set ?gs. g < 65536"
    using assms by (auto simp: length_groups ungroup_groups groups_bound)
  show ?thesis
  proof (cases "best_run ?gs")
    case None
    have "?gs \<noteq> []" using len by auto
    then obtain c cs where "hex_groups ?gs = c # cs" "c \<noteq> CHR '':''"
      using hex_groups_head [of ?gs "[]"] by (metis append_Nil2)
    moreover have "parse_v6_groups [] None (hex_groups ?gs) = Some (b, None, [])"
      using v6_groups_all [of ?gs "[]" None] \<open>?gs \<noteq> []\<close> len bd ub by simp
    ultimately show ?thesis using None assms
      by (simp add: v6_string_def Let_def parse_v6_bytes_def split: list.splits)
  next
    case (Some r)
    obtain s e where r: "r = (s, e)" by (cases r)
    let ?xs = "take s ?gs" and ?ys = "drop e ?gs"
    have run: "run_ok ?gs (s, e)" using Some r best_run_ok by simp
    note sp = run_split [OF run]
    have b: "b = ungroup ?xs @ replicate (2 * (e - s)) 0 @ ungroup ?ys"
      using arg_cong [OF sp(1), of ungroup] ub by (simp add: ungroup_zeros)
    have str: "v6_string b = hex_groups ?xs @ ''::'' @ hex_groups ?ys"
      using Some r by (simp add: v6_string_def Let_def)
    have bdx: "\<forall>g \<in> set ?xs. g < 65536" "\<forall>g \<in> set ?ys. g < 65536"
      using bd by (auto dest: in_set_takeD in_set_dropD)
    have lens: "length ?xs = s" "length ?ys = 8 - e" "s < e" "e \<le> 8" using sp len by auto
    have pad: "16 - 2 * s - 2 * (8 - e) = 2 * (e - s)" using lens by auto
    have expand: "expand_ellipsis (ungroup ?xs @ ungroup ?ys, Some (2 * s), []) = Some b"
      using expand_middle [of "ungroup ?xs" "ungroup ?ys"] lens pad b by simp
    have ne: "hex_groups ?ys = [] \<longleftrightarrow> ?ys = []"
      using hex_groups_head [of ?ys "[]"] by (metis append_Nil2 hex_groups_single(2) list.distinct(1))
    show ?thesis
    proof (cases "?xs = []")
      case True
      with lens have "s = 0" by simp
      show ?thesis
      proof (cases "?ys = []")
        case True
        then have "e = 8" using lens len by simp
        then have "b = replicate 16 0" using b \<open>s = 0\<close> True by simp
        moreover have "parse_v6_bytes (v6_string b) = Some (replicate 16 0)"
          using \<open>s = 0\<close> True by (simp only: str) (simp add: parse_v6_bytes_def)
        ultimately show ?thesis by simp
      next
        case False
        have "parse_v6_groups [] (Some 0) (hex_groups ?ys) = Some (ungroup ?ys, Some 0, [])"
          using v6_groups_all [OF False bdx(2), of "[]" "Some 0"] lens by simp
        with False ne expand \<open>s = 0\<close> show ?thesis
          by (simp add: str parse_v6_bytes_def del: expand_ellipsis.simps)
      qed
    next
      case False
      obtain c cs where c: "hex_groups ?xs @ ''::'' @ hex_groups ?ys = c # cs" "c \<noteq> CHR '':''"
        using hex_groups_head [OF False] by metis
      have "parse_v6_groups [] None (v6_string b) = Some (ungroup ?xs @ ungroup ?ys, Some (2 * s), [])"
      proof (cases "?ys = []")
        case True
        then show ?thesis
          using v6_groups_ellipsis [OF False bdx(1), of "[]" "[]"] lens str by simp
      next
        case ys: False
        then show ?thesis
          using v6_groups_ellipsis [OF False bdx(1), of "[]" "hex_groups ?ys"] lens str ne
            v6_groups_all [OF ys bdx(2), of "ungroup ?xs" "Some (2 * s)"] by simp
      qed
      with expand c str show ?thesis
        by (simp add: parse_v6_bytes_def split: list.splits del: expand_ellipsis.simps)
    qed
  qed
qed

section \<open>Dotted addresses\<close>

lemma utoa_head: "0 < n \<Longrightarrow> \<exists>d ds. utoa n = digit_char d # ds \<and> 0 < d \<and> d < 10"
proof (induction n rule: less_induct)
  case (less n)
  show ?case
  proof (cases "n < 10")
    case True
    with less.prems show ?thesis by (auto simp: utoa_def digits_base.simps [of 10 n])
  next
    case False
    then have "\<exists>d ds. utoa (n div 10) = digit_char d # ds \<and> 0 < d \<and> d < 10"
      using less.IH [of "n div 10"] by simp
    with False show ?thesis by (auto simp: utoa_def digits_base.simps [of 10 n])
  qed
qed

lemma foldl_digits_ge: "v \<le> foldl (\<lambda>v c. v * 10 + digit_value c) v ds"
proof (induction ds arbitrary: v)
  case (Cons c ds)
  have "v \<le> v * 10 + digit_value c" by simp
  also have "\<dots> \<le> foldl (\<lambda>v c. v * 10 + digit_value c) (v * 10 + digit_value c) ds" by (rule Cons)
  finally show ?case by simp
qed simp

lemma v4_digits:
  "0 < v \<Longrightarrow> \<forall>c \<in> set ds. is_digit c \<Longrightarrow> foldl (\<lambda>v c. v * 10 + digit_value c) v ds \<le> 255 \<Longrightarrow>
   parse_v4_fields v d False fs (ds @ r) =
     parse_v4_fields (foldl (\<lambda>v c. v * 10 + digit_value c) v ds) (d + length ds) False fs r"
proof (induction ds arbitrary: v d)
  case (Cons c ds)
  have "v * 10 + digit_value c \<le> 255"
    using foldl_digits_ge [of "v * 10 + digit_value c" ds] Cons.prems by simp
  with Cons show ?case by simp
qed simp

lemma v4_octet:
  fixes n :: u8
  shows "\<exists>d. parse_v4_fields 0 0 dot fs (utoa (unat n) @ r) = parse_v4_fields (unat n) d False fs r"
proof (cases "unat n = 0")
  case True
  have "utoa 0 = [digit_char 0]" by (simp add: utoa_def digits_base.simps [of 10 0])
  moreover have "is_digit (digit_char 0)" by (simp add: is_digit_def of_char_digit)
  ultimately show ?thesis using True by auto
next
  case False
  then obtain d ds where u: "utoa (unat n) = digit_char d # ds" "0 < d" "d < 10" using utoa_head by blast
  have "foldl (\<lambda>v c. v * 10 + digit_value c) 0 (utoa (unat n)) = unat n"
    using value_digits_base [of 10 "unat n"] by (simp add: utoa_def value_base_def mult.commute)
  then have val: "foldl (\<lambda>v c. v * 10 + digit_value c) d ds = unat n" using u by simp
  have dig: "\<forall>c \<in> set (utoa (unat n)). is_digit c" using utoa_digits by blast
  show ?thesis
    using u dig val unat_byte [of n] v4_digits [of d ds 1 fs r] by auto
qed

lemma parse_v4_string: "parse_v4 (v4_string [a, b, c, d]) = Some [a, b, c, d]"
proof -
  have dot: "\<not> is_digit (CHR ''.'')" by (simp add: is_digit_def)
  obtain k1 k2 k3 k4 where oct:
    "\<And>fs r. parse_v4_fields 0 0 True [] (utoa (unat a) @ r) = parse_v4_fields (unat a) (k1 r) False [] r"
    "\<And>r. parse_v4_fields 0 0 True [a] (utoa (unat b) @ r) = parse_v4_fields (unat b) (k2 r) False [a] r"
    "\<And>r. parse_v4_fields 0 0 True [a, b] (utoa (unat c) @ r) = parse_v4_fields (unat c) (k3 r) False [a, b] r"
    "\<And>r. parse_v4_fields 0 0 True [a, b, c] (utoa (unat d) @ r) = parse_v4_fields (unat d) (k4 r) False [a, b, c] r"
    using v4_octet by metis
  show ?thesis
    using oct(4) [of "[]"] by (simp add: parse_v4_def v4_string_def oct dot)
qed

section \<open>Addresses determine and are determined by their text\<close>

lemma length4: "length b = 4 \<Longrightarrow> \<exists>w x y z. b = [w, x, y, z]"
  by (auto simp: numeral_eq_Suc length_Suc_conv)

lemma set_join: "set (join sep xs) \<subseteq> set sep \<union> \<Union> (set ` set xs)"
  by (induction sep xs rule: join.induct) auto

lemma v4_string_chars:
  assumes "length b = 4"
  shows "c \<in> set (v4_string b) \<Longrightarrow> is_digit c \<or> c = CHR ''.''" "CHR ''.'' \<in> set (v4_string b)"
  using assms set_join [of "''.''" "map (\<lambda>x. utoa (unat x)) b"] utoa_digits length4 [OF assms]
  by (auto simp: v4_string_def)

lemma v6_string_chars: "c \<in> set (v6_string b) \<Longrightarrow> is_hex c \<or> c = CHR '':''"
proof -
  have hg: "\<And>gs. set (hex_groups gs) \<subseteq> {c. is_hex c \<or> c = CHR '':''}"
    using set_join [of "'':''"] hextoa_hex by (force simp: hex_groups_def)
  assume "c \<in> set (v6_string b)"
  with hg show ?thesis by (auto simp: v6_string_def Let_def split: option.splits prod.splits)
qed

lemma v6_string_colon: "length b = 16 \<Longrightarrow> CHR '':'' \<in> set (v6_string b)"
proof -
  assume "length b = 16"
  then obtain g h gs where "groups b = g # h # gs"
    using length_groups [of b] by (cases "groups b"; cases "tl (groups b)") auto
  then show ?thesis by (auto simp: v6_string_def Let_def hex_groups_def split: option.splits prod.splits)
qed

lemma dropWhile_head:
  assumes "c \<in> set s" "P c" "\<forall>x \<in> set s. P x \<longrightarrow> x = c"
  shows "\<exists>t. dropWhile (\<lambda>x. \<not> P x) s = c # t"
proof -
  have "dropWhile (\<lambda>x. \<not> P x) s \<noteq> []" using assms(1,2) by (auto simp: dropWhile_eq_Nil_conv)
  then obtain x t where x: "dropWhile (\<lambda>x. \<not> P x) s = x # t" by (cases "dropWhile (\<lambda>x. \<not> P x) s") auto
  then have "P x" using hd_dropWhile [of "\<lambda>x. \<not> P x" s] by simp
  moreover have "x \<in> set s" using x set_dropWhileD [of x "\<lambda>x. \<not> P x" s] by simp
  ultimately show ?thesis using assms(3) x by blast
qed

lemma digit_not_mark: "is_digit c \<Longrightarrow> c \<noteq> CHR ''.'' \<and> c \<noteq> CHR '':'' \<and> c \<noteq> CHR ''%'' \<and> c \<noteq> CHR ''['' \<and> c \<noteq> CHR '']''"
  by (auto simp: is_digit_def)

lemma parse_addr_v4: "length b = 4 \<Longrightarrow> parse_addr (v4_string b) = Some (V4 b)"
proof -
  assume b: "length b = 4"
  let ?P = "\<lambda>c. c \<in> {CHR ''.'', CHR '':'', CHR ''%''}"
  have "\<forall>x \<in> set (v4_string b). ?P x \<longrightarrow> x = CHR ''.''"
    using v4_string_chars(1) [OF b] digit_not_mark by blast
  then obtain t where "dropWhile (\<lambda>x. \<not> ?P x) (v4_string b) = CHR ''.'' # t"
    using dropWhile_head [of "CHR ''.''" "v4_string b" ?P] v4_string_chars(2) [OF b] by auto
  moreover obtain w x y z where "b = [w, x, y, z]" using length4 [OF b] by blast
  ultimately show ?thesis by (simp add: parse_addr_def parse_v4_string)
qed

lemma parse_addr_v6: "length b = 16 \<Longrightarrow> parse_addr (v6_string b) = Some (V6 b [])"
proof -
  assume b: "length b = 16"
  let ?P = "\<lambda>c. c \<in> {CHR ''.'', CHR '':'', CHR ''%''}"
  have only: "\<forall>x \<in> set (v6_string b). ?P x \<longrightarrow> x = CHR '':''"
    using v6_string_chars hex_colon by blast
  then obtain t where "dropWhile (\<lambda>x. \<not> ?P x) (v6_string b) = CHR '':'' # t"
    using dropWhile_head [of "CHR '':''" "v6_string b" ?P] v6_string_colon [OF b] by auto
  moreover have "index_byte (v6_string b) (CHR ''%'') = None"
    using only by (auto simp: index_byte_None)
  ultimately show ?thesis by (simp add: parse_addr_def parse_v6_def v6_roundtrip b)
qed

lemma ip_string_16:
  "length a = 16 \<Longrightarrow>
   ip_string a = (if take 12 a = v4_in_v6_prefix then v4_string (drop 12 a) else v6_string a)"
  by (cases a) (simp_all add: ip_string_def to4_def)

lemma parse_ip_string: "length a = 16 \<Longrightarrow> parse_ip (ip_string a) = Some a"
proof -
  assume a: "length a = 16"
  show ?thesis
  proof (cases "take 12 a = v4_in_v6_prefix")
    case True
    have "parse_addr (v4_string (drop 12 a)) = Some (V4 (drop 12 a))" using a parse_addr_v4 by simp
    moreover have "v4_in_v6_prefix @ drop 12 a = a" using True append_take_drop_id by metis
    ultimately show ?thesis using a True by (simp add: ip_string_16 parse_ip_def)
  next
    case False
    then show ?thesis using a parse_addr_v6 by (simp add: ip_string_16 parse_ip_def)
  qed
qed

lemma ip_string_inj: "length a = 16 \<Longrightarrow> length b = 16 \<Longrightarrow> ip_string a = ip_string b \<Longrightarrow> a = b"
  using parse_ip_string by (metis option.inject)

lemma ip_string_chars:
  assumes "length a = 16" "c \<in> set (ip_string a)"
  shows "is_hex c \<or> c = CHR '':'' \<or> c = CHR ''.''"
proof (cases "take 12 a = v4_in_v6_prefix")
  case True
  then have "c \<in> set (v4_string (drop 12 a))" using assms by (simp add: ip_string_16)
  then have "is_digit c \<or> c = CHR ''.''" using assms v4_string_chars(1) [of "drop 12 a"] by simp
  then show ?thesis by (auto simp: is_digit_def is_hex_def)
next
  case False
  then show ?thesis using assms v6_string_chars [of c a] by (auto simp: ip_string_16)
qed

section \<open>Host and port\<close>

lemma last_index_byte_bounded: "last_index_byte s c = Some i \<Longrightarrow> i < length s \<and> s ! i = c"
  by (induction s arbitrary: i) (auto split: option.splits if_splits)

lemma split_join_host_port:
  assumes "CHR ''['' \<notin> set h" "CHR '']'' \<notin> set h"
    "CHR ''['' \<notin> set p" "CHR '']'' \<notin> set p" "CHR '':'' \<notin> set p"
  shows "split_host_port (join_host_port h p) = Some (h, p)"
proof (cases "CHR '':'' \<in> set h")
  case True
  have "last_index_byte ((CHR ''['' # h @ '']'') @ CHR '':'' # p) (CHR '':'') = Some (length h + 2)"
    using last_index_byte_append [OF assms(5), of "CHR ''['' # h @ '']''"] by simp
  moreover have "index_byte ((CHR ''['' # h) @ CHR '']'' # CHR '':'' # p) (CHR '']'') = Some (length h + 1)"
    using index_byte_append [of "CHR '']''" "CHR ''['' # h" "CHR '':'' # p"] assms(2) by simp
  ultimately show ?thesis
    using True assms by (simp add: join_host_port_def split_host_port_def del: last_index_byte.simps index_byte.simps)
next
  case False
  have "last_index_byte (h @ CHR '':'' # p) (CHR '':'') = Some (length h)"
    using last_index_byte_append [OF assms(5)] by simp
  with False assms show ?thesis
    by (cases h) (auto simp: join_host_port_def split_host_port_def simp del: last_index_byte.simps)
qed

section \<open>Parsed addresses have their length\<close>

lemma parse_v4_fields_length: "parse_v4_fields v d dot fs s = Some r \<Longrightarrow> length fs \<le> 3 \<Longrightarrow> length r = 4"
  by (induction v d dot fs s rule: parse_v4_fields.induct) (auto simp: Let_def split: if_splits)

lemma v6_groups_cases:
  assumes "parse_v6_groups b ell s = Some (b', ell', r)" "length b < 16"
  obtains (full) x y where "b' = b @ [x, y]" "ell' = ell \<or> ell' = Some (length b')"
  | (v4) f where "parse_v4 s = Some f" "b' = b @ f" "ell' = ell" "length b + 4 \<le> 16"
  | (more) x y t ell'' where "parse_v6_groups (b @ [x, y]) ell'' t = Some (b', ell', r)"
      "ell'' = ell \<or> ell'' = Some (length b + 2)" "length t < length s"
proof -
  define x y :: u8 where "x = of_nat (foldl (\<lambda>v c. v * 16 + hex_value c) 0 (takeWhile is_hex s) div 256)"
    and "y = of_nat (foldl (\<lambda>v c. v * 16 + hex_value c) 0 (takeWhile is_hex s) mod 256)"
  note run = assms(1)[unfolded parse_v6_groups.simps [of b ell s] Let_def, folded x_def y_def]
  show thesis
  proof (cases "dropWhile is_hex s")
    case Nil
    show thesis
      using run [unfolded Nil list.case] assms(2) by (intro full [of x y]) (auto split: if_splits)
  next
    case (Cons c t)
    note short = dropWhile_shorter [OF Cons] and run = run [unfolded Cons list.case]
    show thesis
    proof (cases "c = CHR ''.''")
      case True
      with run assms(2) show thesis by (auto split: if_splits intro: v4)
    next
      case dot: False
      with run assms(2) obtain c' t' where t: "t = c' # t'" by (auto split: if_splits list.splits)
      show thesis
      proof (cases "c' = CHR '':'' \<and> t' = []")
        case True
        with run assms(2) t dot show thesis by (intro full [of x y]) (auto split: if_splits)
      next
        case False
        with run assms(2) t dot short show thesis
          by (auto split: if_splits intro: more [of x y "Some (length b + 2)" t'] more [of x y ell t])
      qed
    qed
  qed
qed

lemma parse_v6_groups_length:
  "parse_v6_groups b ell s = Some (b', ell', r) \<Longrightarrow> even (length b) \<Longrightarrow> length b \<le> 16 \<Longrightarrow>
   \<forall>e. ell = Some e \<longrightarrow> e \<le> length b \<Longrightarrow> length b' \<le> 16 \<and> (\<forall>e. ell' = Some e \<longrightarrow> e \<le> length b')"
proof (induction s arbitrary: b ell rule: measure_induct_rule [of length])
  case (less s)
  show ?case
  proof (cases "16 \<le> length b")
    case True
    with less.prems show ?thesis by (auto simp: parse_v6_groups.simps [of b ell s])
  next
    case False
    with less.prems have room: "length b + 2 \<le> 16" "length b < 16" by presburger+
    from less.prems(1) room(2) show ?thesis
    proof (cases rule: v6_groups_cases)
      case full
      with room less.prems show ?thesis by auto
    next
      case (v4 f)
      then have "length f = 4" using parse_v4_fields_length by (auto simp: parse_v4_def)
      with v4 less.prems show ?thesis by auto
    next
      case (more x y t ell'')
      then have "\<forall>e. ell'' = Some e \<longrightarrow> e \<le> length (b @ [x, y])"
        using less.prems(4) by (auto intro: le_SucI)
      with less.IH [OF more(3) more(1)] room less.prems(2) show ?thesis by simp
    qed
  qed
qed

lemma expand_ellipsis_length:
  "expand_ellipsis (b, ell, r) = Some a \<Longrightarrow> length b \<le> 16 \<Longrightarrow> \<forall>e. ell = Some e \<longrightarrow> e \<le> length b \<Longrightarrow> length a = 16"
  by (auto split: if_splits option.splits)

lemma parse_v6_bytes_length: "parse_v6_bytes s = Some a \<Longrightarrow> length a = 16"
proof -
  have run: "length a = 16" if bd: "Option.bind (parse_v6_groups [] ell t) expand_ellipsis = Some a"
    "ell = None \<or> ell = Some 0" for ell t
  proof -
    obtain b ell' r where g: "parse_v6_groups [] ell t = Some (b, ell', r)" "expand_ellipsis (b, ell', r) = Some a"
      using bd by (cases "parse_v6_groups [] ell t") (auto simp del: expand_ellipsis.simps)
    with parse_v6_groups_length [OF g(1)] that(2) show ?thesis
      by (intro expand_ellipsis_length [OF g(2)]) auto
  qed
  assume "parse_v6_bytes s = Some a"
  then show ?thesis using run by (auto simp: parse_v6_bytes_def split: list.splits if_splits)
qed

lemma parse_ip_length: "parse_ip s = Some a \<Longrightarrow> length a = 16"
  using parse_v4_fields_length parse_v6_bytes_length
  by (fastforce simp: parse_ip_def parse_addr_def parse_v6_def parse_v4_def v4_in_v6_prefix_def
      split: option.splits list.splits if_splits)

end
