(* ===== verification/Sensor_Decode.thy ===== *)
theory Sensor_Decode
  imports Connect_Conc Net_Text
begin

text \<open>
  The platform-independent half of the sensor: \<^verbatim>\<open>decode.go\<close> (the wire record read back, the
  destination text, the counters), \<^verbatim>\<open>clock.go\<close> (kernel time to wall clock), \<^verbatim>\<open>self.go\<close>,
  \<^verbatim>\<open>environ.go\<close> and \<^verbatim>\<open>identity.go\<close>. A \<^verbatim>\<open>time.Time\<close> is an integer number of
  nanoseconds; a run-time panic of Go is \<open>None\<close>.
\<close>

section \<open>Decoding a record\<close>

record decoded_conn_event =
  dc_cgroup_id :: u64
  dc_ktime_ns :: u64
  dc_pid :: u32
  dc_ns_tgid :: u32
  dc_dport :: u16
  dc_family :: u8
  dc_daddr :: "u8 list"
  dc_comm :: "u8 list"

definition conn_event_size :: nat where
  "conn_event_size = 64"

definition decode_conn_event :: "u8 list \<Rightarrow> decoded_conn_event option" where
  "decode_conn_event raw =
     (if length raw < conn_event_size then None
      else Some
        \<lparr>dc_cgroup_id = of_nat (le_nat (peek 0 8 raw)),
         dc_ktime_ns = of_nat (le_nat (peek 8 8 raw)),
         dc_pid = of_nat (le_nat (peek 16 4 raw)),
         dc_ns_tgid = of_nat (le_nat (peek 56 4 raw)),
         dc_dport = of_nat (be_nat (peek 20 2 raw)),
         dc_family = raw ! 22,
         dc_daddr = peek 24 16 raw,
         dc_comm = peek 40 16 raw\<rparr>)"

definition event_ip :: "decoded_conn_event \<Rightarrow> ip option" where
  "event_ip e =
     (if dc_family e = 4 then Some (v4_in_v6_prefix @ take 4 (dc_daddr e))
      else if dc_family e = 6 then Some (dc_daddr e)
      else None)"

definition is_local_model_port :: "u16 \<Rightarrow> bool" where
  "is_local_model_port port \<longleftrightarrow> port = 11434 \<or> port = 8000 \<or> port = 8001"

text \<open>The five-byte buffer of \<^verbatim>\<open>itoa\<close>, filled from its end; index 0 reached with digits left is a panic.\<close>

function itoa_loop :: "u16 \<Rightarrow> nat \<Rightarrow> string \<Rightarrow> string option" where
  "itoa_loop port i b =
     (if port = 0 then Some (drop i b)
      else case i of
        0 \<Rightarrow> None
      | Suc i' \<Rightarrow> itoa_loop (port div 10) i' (b[i' := char_of (48 + unat (port mod 10))]))"
  by pat_completeness auto

termination
  by (relation "measure (\<lambda>(port, i, b). i)") auto

declare itoa_loop.simps [simp del]

definition itoa :: "u16 \<Rightarrow> string option" where
  "itoa port = (if port = 0 then Some ''0'' else itoa_loop port 5 (replicate 5 (CHR 0x00)))"

definition destination :: "ip \<Rightarrow> u16 \<Rightarrow> (string \<rightharpoonup> string) \<Rightarrow> string option" where
  "destination a port llm_ips =
     (let host = ip_string a;
          host = (if port = 443 then (case llm_ips host of Some resolved \<Rightarrow> resolved | None \<Rightarrow> host) else host)
      in map_option (join_host_port host) (itoa port))"

section \<open>What was not reported\<close>

definition any_skipped :: "skipped_counts \<Rightarrow> bool" where
  "any_skipped s \<longleftrightarrow> sc_other_family s > 0 \<or> sc_unreadable s > 0 \<or> sc_ringbuf_full s > 0 \<or> sc_too_short s > 0"

definition lost :: "skipped_counts \<Rightarrow> bool" where
  "lost s \<longleftrightarrow> sc_ringbuf_full s > 0"

section \<open>Clock\<close>

record clock_offset =
  wall_at_start :: int
  mono_at_start :: u64

definition max_int64 :: u64 where
  "max_int64 = 9223372036854775807"

definition as_duration :: "u64 \<Rightarrow> int" where
  "as_duration gap = (if gap > max_int64 then 0 else uint gap)"

definition wall_time :: "clock_offset \<Rightarrow> u64 \<Rightarrow> int \<Rightarrow> int" where
  "wall_time c ktime fallback =
     (if ktime = 0 \<or> mono_at_start c = 0 then fallback
      else if ktime \<ge> mono_at_start c then wall_at_start c + as_duration (ktime - mono_at_start c)
      else wall_at_start c + - as_duration (mono_at_start c - ktime))"

section \<open>Self, process and environment\<close>

definition proc_pid_init_ino :: u64 where
  "proc_pid_init_ino = 0xEFFFFFFC"

definition is_self :: "decoded_conn_event \<Rightarrow> u32 \<Rightarrow> bool" where
  "is_self ev self_pid \<longleftrightarrow> dc_ns_tgid ev \<noteq> 0 \<and> dc_ns_tgid ev = self_pid"

definition proc_pid_for :: "decoded_conn_event \<Rightarrow> bool \<Rightarrow> u32" where
  "proc_pid_for ev in_init_pidns = (if in_init_pidns then dc_pid ev else dc_ns_tgid ev)"

definition env_var :: string where
  "env_var = ''AGENT_PASSPORT_ID''"

text \<open>\<^verbatim>\<open>findEnv\<close>: the first entry of the NUL-separated block that starts with \<^verbatim>\<open>NAME=\<close>.\<close>

definition find_env :: "string \<Rightarrow> string \<Rightarrow> string" where
  "find_env environ name =
     (let pre = name @ ''='' in
      case find (\<lambda>entry. has_prefix entry pre) (split_on (CHR 0x00) environ) of
        Some entry \<Rightarrow> drop (length pre) entry
      | None \<Rightarrow> [])"

text \<open>\<^verbatim>\<open>claimedAgentURI\<close>: \<open>environ pid\<close> is the content of \<^verbatim>\<open>/proc/<pid>/environ\<close>, if it could be read.\<close>

definition claimed_agent_uri :: "(u32 \<Rightarrow> string option) \<Rightarrow> u32 \<Rightarrow> string" where
  "claimed_agent_uri environ pid =
     (if pid = 0 then []
      else case environ pid of None \<Rightarrow> [] | Some data \<Rightarrow> find_env data env_var)"

section \<open>Identities\<close>

definition identity_prefix :: string where "identity_prefix = ''proc:''"
definition claimed_prefix :: string where "claimed_prefix = ''claimed:''"

definition proc_identity :: "string \<Rightarrow> u64 \<Rightarrow> string" where
  "proc_identity comm cgroup =
     (if cgroup = 0 then identity_prefix @ comm
      else identity_prefix @ comm @ ''@cg'' @ utoa (unat cgroup))"

text \<open>\<open>valid\<close> stands for \<^verbatim>\<open>passport.ValidateAgentURI\<close> of the shared module; "" is the empty string.\<close>

definition claimed_identity :: "(string \<Rightarrow> bool) \<Rightarrow> string \<Rightarrow> string" where
  "claimed_identity valid uri =
     (if uri = [] then [] else if \<not> valid uri then [] else claimed_prefix @ uri)"

definition is_claimed :: "string \<Rightarrow> bool" where
  "is_claimed i \<longleftrightarrow> has_prefix i claimed_prefix"

section \<open>Decoding undoes encoding\<close>

text \<open>The value a record stands for on the Go side.\<close>

definition decoded_of :: "conn_event \<Rightarrow> decoded_conn_event" where
  "decoded_of ev =
     \<lparr>dc_cgroup_id = ev_cgroup_id ev, dc_ktime_ns = ev_ktime_ns ev, dc_pid = ev_pid ev,
      dc_ns_tgid = ev_ns_tgid ev, dc_dport = of_nat (be_nat (ev_dport ev)), dc_family = ev_family ev,
      dc_daddr = ev_daddr ev, dc_comm = ev_comm ev\<rparr>"

lemma nth_as_peek: "i < length m \<Longrightarrow> m ! i = hd (peek i 1 m)"
  by (simp add: peek_def hd_drop_conv_nth take_Suc)

lemma decode_encode:
  assumes "wf_conn_event ev"
  shows "decode_conn_event (encode_conn_event ev @ rest) = Some (decoded_of ev)"
proof -
  let ?segs = "conn_event_segments ev @ [rest]"
  have eq: "encode_conn_event ev @ rest = concat ?segs" by (simp add: encode_conn_event_def)
  have l: "length (ev_dport ev) = 2" "length (ev_daddr ev) = 16" "length (ev_comm ev) = 16"
    using assms by (simp_all add: wf_conn_event_def)
  have len: "64 \<le> length (concat ?segs)" using l by (simp add: conn_event_segments_def)
  have p: "peek 0 8 (concat ?segs) = le_bytes 8 (ev_cgroup_id ev)"
    "peek 8 8 (concat ?segs) = le_bytes 8 (ev_ktime_ns ev)"
    "peek 16 4 (concat ?segs) = le_bytes 4 (ev_pid ev)"
    "peek 20 2 (concat ?segs) = ev_dport ev"
    "peek 22 1 (concat ?segs) = [ev_family ev]"
    "peek 24 16 (concat ?segs) = ev_daddr ev"
    "peek 40 16 (concat ?segs) = ev_comm ev"
    "peek 56 4 (concat ?segs) = le_bytes 4 (ev_ns_tgid ev)"
    using l peek_concat [of 0 ?segs 0 8] peek_concat [of 1 ?segs 8 8] peek_concat [of 2 ?segs 16 4]
      peek_concat [of 3 ?segs 20 2] peek_concat [of 4 ?segs 22 1] peek_concat [of 6 ?segs 24 16]
      peek_concat [of 7 ?segs 40 16] peek_concat [of 8 ?segs 56 4]
    by (simp_all add: conn_event_segments_def numeral_eq_Suc del: concat.simps)
  have "concat ?segs ! 22 = ev_family ev" using nth_as_peek [of 22 "concat ?segs"] len p(5) by simp
  then show ?thesis
    unfolding eq using p len
    by (simp add: decode_conn_event_def conn_event_size_def decoded_of_def del: concat.simps)
qed

text \<open>
  C32: The Go decoder undoes the C record: decoding the bytes \<^verbatim>\<open>connect.c\<close> writes for an event gives
  exactly that event, whatever follows them in the ring buffer sample, and a sample is refused when
  and only when it is shorter than \<^verbatim>\<open>sizeof(struct conn_event)\<close> as the C layout rules compute it.
\<close>

theorem decoder_inverts_encoder:
  "(wf_conn_event ev \<longrightarrow> decode_conn_event (encode_conn_event ev @ rest) = Some (decoded_of ev))
   \<and> (decode_conn_event raw = None \<longleftrightarrow> length raw < csize conn_event_t)"
  using decode_encode [of ev rest]
  by (simp add: decode_conn_event_def conn_event_size_def layout)

definition sample_event :: conn_event where
  "sample_event =
     \<lparr>ev_cgroup_id = 8471, ev_ktime_ns = 5, ev_pid = 7, ev_dport = [1, 187], ev_family = 4, ev_pad0 = 0,
      ev_daddr = [93, 184, 216, 34] @ replicate 12 0, ev_comm = 99 # replicate 15 0, ev_ns_tgid = 3, ev_pad1 = 0\<rparr>"

theorem decoder_inverts_encoder_witness:
  "decode_conn_event (encode_conn_event sample_event) = Some (decoded_of sample_event)
   \<and> dc_dport (decoded_of sample_event) = 443 \<and> decode_conn_event (replicate 63 0) = None"
  using decoder_inverts_encoder [of sample_event "[]" "replicate 63 0"]
  by (simp add: wf_conn_event_def sample_event_def decoded_of_def be_nat_def layout)

section \<open>The port's decimal text\<close>

lemma itoa_loop_digits:
  "unat port < 10 ^ i \<Longrightarrow> port \<noteq> 0 \<Longrightarrow> i \<le> length b
    \<Longrightarrow> itoa_loop port i b = Some (utoa (unat port) @ drop i b)"
proof (induction i arbitrary: port b)
  case 0
  then have "port = 0" by (simp add: word_unat_eq_iff)
  with 0 show ?case by simp
next
  case (Suc i)
  let ?d = "char_of (48 + unat (port mod 10)) :: char"
  have d: "?d = digit_char (unat port mod 10)"
    by (simp add: digit_char_def unat_mod_distrib)
  have q: "unat (port div 10) = unat port div 10" by (simp add: unat_div_distrib)
  have step: "itoa_loop port (Suc i) b = itoa_loop (port div 10) i (b[i := ?d])"
    using Suc.prems(2) by (subst itoa_loop.simps) simp
  have dropi: "drop i (b[i := ?d]) = ?d # drop (Suc i) b"
    using Suc.prems(3) by (simp add: Cons_nth_drop_Suc [symmetric])
  show ?case
  proof (cases "port div 10 = 0")
    case True
    then have "unat port < 10" using q by (metis div_greater_zero_iff neq0_conv not_le unat_0 zero_less_numeral)
    then have "utoa (unat port) = [?d]" by (simp add: utoa_def digits_base.simps [of 10 "unat port"] d)
    with True step dropi show ?thesis by (simp add: itoa_loop.simps)
  next
    case False
    then have big: "\<not> unat port < 10" using q by (metis div_less unat_eq_zero)
    then have "utoa (unat port) = utoa (unat port div 10) @ [?d]"
      by (simp add: utoa_def digits_base.simps [of 10 "unat port"] d)
    moreover have "unat (port div 10) < 10 ^ i" using Suc.prems(1) q by (simp add: less_mult_imp_div_less)
    ultimately show ?thesis
      using Suc.IH [of "port div 10" "b[i := ?d]"] False Suc.prems(3) step dropi q by simp
  qed
qed

lemma itoa_utoa: "itoa port = Some (utoa (unat port))"
proof (cases "port = 0")
  case True
  then show ?thesis by (simp add: itoa_def utoa_def digits_base.simps [of 10 0] digits_chars)
next
  case False
  have "unat port < 10 ^ 5" using unat_len [of port] by simp
  with False show ?thesis using itoa_loop_digits [of port 5 "replicate 5 (CHR 0x00)"]
    by (simp add: itoa_def)
qed

lemma destination_splits:
  assumes "length a = 16" "port = 443 \<longrightarrow> llm_ips (ip_string a) = None"
  shows "\<exists>d. destination a port llm_ips = Some d
    \<and> split_host_port d = Some (ip_string a, utoa (unat port))
    \<and> parse_ip (ip_string a) = Some a \<and> value_base 10 (utoa (unat port)) = unat port"
proof -
  have "CHR ''['' \<notin> set (ip_string a)" "CHR '']'' \<notin> set (ip_string a)"
    using ip_string_chars [OF assms(1)] by (force simp: is_hex_def)+
  moreover have "CHR ''['' \<notin> set (utoa n)" "CHR '']'' \<notin> set (utoa n)" "CHR '':'' \<notin> set (utoa n)" for n
    using utoa_digits [of _ n] by (force simp: is_digit_def)+
  ultimately have "split_host_port (join_host_port (ip_string a) (utoa (unat port))) =
      Some (ip_string a, utoa (unat port))"
    by (simp add: split_join_host_port)
  then show ?thesis
    using assms parse_ip_string value_digits_base [of 10 "unat port"]
    by (auto simp: destination_def itoa_utoa utoa_def Let_def)
qed

text \<open>
  The text of a destination gives the connection back: it is always produced (the five-byte
  buffer of \<^verbatim>\<open>itoa\<close> is never overrun, whatever the 16-bit port), and for an address that is not
  relabelled with a provider's host name, splitting it yields the port's decimal digits and a host
  that parses to the address, IPv6 colons included; so two connections with different addresses or
  ports never share a destination. Off port 443 the table of provider addresses is not consulted.
\<close>

theorem destination_roundtrip:
  assumes "length a = 16" "port = 443 \<longrightarrow> llm_ips (ip_string a) = None"
  shows "\<exists>d. destination a port llm_ips = Some d
    \<and> split_host_port d = Some (ip_string a, utoa (unat port))
    \<and> parse_ip (ip_string a) = Some a \<and> value_base 10 (utoa (unat port)) = unat port"
  using assms by (rule destination_splits [where port = port and llm_ips = llm_ips])

theorem destination_roundtrip_witness:
  "\<exists>d. destination (replicate 15 0 @ [1]) 65535 Map.empty = Some d
    \<and> split_host_port d = Some (ip_string (replicate 15 0 @ [1]), utoa (unat (65535 :: u16)))
    \<and> parse_ip (ip_string (replicate 15 0 @ [1])) = Some (replicate 15 0 @ [1])
    \<and> value_base 10 (utoa (unat (65535 :: u16))) = unat (65535 :: u16)"
  by (rule destination_roundtrip) simp_all

section \<open>Identities are told apart\<close>

lemma append_marker_unique:
  fixes c :: char
  assumes "c \<notin> set d" "c \<notin> set d'" "x @ c # d = x' @ c # d'"
  shows "x = x' \<and> d = d'"
proof -
  have "last_index_byte (x @ c # d) c = Some (length x)" "last_index_byte (x' @ c # d') c = Some (length x')"
    using assms(1,2) by (simp_all add: last_index_byte_append)
  with assms(3) have "length x = length x'" by simp
  with assms(3) show ?thesis by simp
qed

text \<open>
  With a cgroup from the kernel, an observed identity determines the process name and the cgroup
  it stands for, whatever characters the process put in its name, \<^verbatim>\<open>@cg\<close> included; and no claimed
  identity, whatever the process wrote in its environment, is an observed one or the other way round.
\<close>

theorem identities_told_apart:
  "(g \<noteq> 0 \<longrightarrow> g' \<noteq> 0 \<longrightarrow> proc_identity comm g = proc_identity comm' g' \<longrightarrow> comm = comm' \<and> g = g')
   \<and> \<not> is_claimed (proc_identity comm g)
   \<and> (claimed_identity valid uri \<noteq> [] \<longrightarrow>
        is_claimed (claimed_identity valid uri) \<and> valid uri \<and> claimed_identity valid uri \<noteq> proc_identity comm g)"
proof (intro conjI impI)
  assume nz: "g \<noteq> 0" "g' \<noteq> 0" and eq: "proc_identity comm g = proc_identity comm' g'"
  have at: "CHR ''@'' \<notin> set (''cg'' @ utoa n)" for n
    using utoa_digits [of _ n] by (force simp: is_digit_def)
  from eq nz have "(identity_prefix @ comm) @ CHR ''@'' # (''cg'' @ utoa (unat g))
      = (identity_prefix @ comm') @ CHR ''@'' # (''cg'' @ utoa (unat g'))"
    by (simp add: proc_identity_def)
  from append_marker_unique [OF at at this] show "comm = comm'" "g = g'" by (auto simp: word_unat_eq_iff)
qed (auto simp: proc_identity_def is_claimed_def claimed_identity_def identity_prefix_def claimed_prefix_def
    has_prefix_def prefix_def split: if_splits)

theorem identities_told_apart_witness:
  "\<not> is_claimed (proc_identity ''curl'' 8471)
   \<and> (''curl'' = ''curl'' \<and> (8471 :: u64) = 8471)
   \<and> is_claimed (claimed_identity (\<lambda>u. u = ''agent://acme/bot'') ''agent://acme/bot'')"
  using identities_told_apart [of 8471 8471 "''curl''" "''curl''" "\<lambda>u. u = ''agent://acme/bot''" "''agent://acme/bot''"]
  by (simp add: claimed_identity_def claimed_prefix_def)

text \<open>The converse limit: a name that ends like a qualified one stands for two processes when the kernel gave no cgroup.\<close>

lemma unqualified_identity_collides: "proc_identity ''a@cg1'' 0 = proc_identity ''a'' 1"
  by (simp add: proc_identity_def utoa_def digits_base.simps [of 10 "Suc 0"] digits_chars)

section \<open>Time\<close>

text \<open>
  One clock offset keeps every interval: two kernel timestamps within 2^63 ns of the capture's
  start, before it or after it, are rendered exactly as far apart as the kernel measured them, in the
  same order; and no timestamp at all, however corrupt, is rendered further than 2^63 ns from the start.
\<close>

theorem wall_time_keeps_intervals:
  assumes "mono_at_start c \<noteq> 0"
  shows "(k \<noteq> 0 \<longrightarrow> k' \<noteq> 0 \<longrightarrow>
      \<bar>uint k - uint (mono_at_start c)\<bar> < 2 ^ 63 \<longrightarrow> \<bar>uint k' - uint (mono_at_start c)\<bar> < 2 ^ 63 \<longrightarrow>
      wall_time c k now - wall_time c k' now' = uint k - uint k')
    \<and> (k \<noteq> 0 \<longrightarrow> \<bar>wall_time c k now - wall_at_start c\<bar> < 2 ^ 63)"
proof -
  have gap: "as_duration (x - y) = uint x - uint y" if "y \<le> x" "uint x - uint y < 2 ^ 63" for x y :: u64
    using that by (simp add: as_duration_def max_int64_def uint_minus_simple_alt word_less_def word_le_def)
  have off: "wall_time c k now = wall_at_start c + (uint k - uint (mono_at_start c))"
    if "k \<noteq> 0" "\<bar>uint k - uint (mono_at_start c)\<bar> < 2 ^ 63" for k now
    using that assms gap [of "mono_at_start c" k] gap [of k "mono_at_start c"]
    by (auto simp: wall_time_def word_le_def not_le)
  have bound: "0 \<le> as_duration x \<and> as_duration x < 2 ^ 63" for x
    using uint_ge_0 [of x] by (auto simp: as_duration_def max_int64_def word_less_def not_less)
  have "\<bar>wall_time c k now - wall_at_start c\<bar> < 2 ^ 63" if "k \<noteq> 0"
    using that assms bound [of "k - mono_at_start c"] bound [of "mono_at_start c - k"]
    by (auto simp: wall_time_def)
  with off show ?thesis by auto
qed

theorem wall_time_keeps_intervals_witness:
  "wall_time \<lparr>wall_at_start = 1000, mono_at_start = 50\<rparr> 70 0 - wall_time \<lparr>wall_at_start = 1000, mono_at_start = 50\<rparr> 20 0 = 50
   \<and> \<bar>wall_time \<lparr>wall_at_start = 1000, mono_at_start = 50\<rparr> 70 0 - 1000\<bar> < 2 ^ 63"
  using wall_time_keeps_intervals [of "\<lparr>wall_at_start = 1000, mono_at_start = 50\<rparr>" 70 20 0 0] by simp

section \<open>Environment\<close>

lemma split_on_join: 
  "\<forall>e \<in> set es. c \<notin> set e \<Longrightarrow> es \<noteq> [] \<Longrightarrow> split_on c (join [c] es) = es"
proof (induction "[c]" es rule: join.induct)
  case (2 x)
  then have "c \<notin> set x" by simp
  then have "split_on c x = [x]" by (induction x) auto
  then show ?case by simp
next
  case (3 x y ys)
  have "c \<notin> set x \<Longrightarrow> split_on c (x @ c # r) = x # split_on c r" for r
    by (induction x) auto
  with 3 show ?case by simp
qed simp

lemma find_env_entries:
  assumes "\<forall>e \<in> set es. CHR 0x00 \<notin> set e" "es \<noteq> []"
  shows "find_env (join [CHR 0x00] es) name =
     (case find (\<lambda>e. prefix (name @ ''='') e) es of Some e \<Rightarrow> drop (length name + 1) e | None \<Rightarrow> [])"
  using split_on_join [OF assms] by (simp add: find_env_def has_prefix_def split: option.splits)

end
