(* ===== verification/Sensor_Capture.thy ===== *)
theory Sensor_Capture
  imports Sensor_Decode
begin

text \<open>
  The capture loop of \<^verbatim>\<open>capture_linux.go\<close> and the flows of \<^verbatim>\<open>flow.go\<close>: what
  \<^verbatim>\<open>Run\<close> does with the records it reads, with the kernel side of \<open>Connect_Prog\<close> in front of
  it. The environment of a run (the sensor's pid, the provider addresses, the clocks, the files under
  \<^verbatim>\<open>/proc\<close>, the validator of the shared module) is a record; a reading that depends on when it is
  taken is indexed by the number of the record being handled.
\<close>

section \<open>Flows\<close>

record flow =
  fl_time :: int
  fl_identity :: string
  fl_destination :: string
  fl_pid :: u32
  fl_cgroup_id :: u64
  fl_observed :: string

record capture_env =
  ce_self_pid :: u32
  ce_in_init_pidns :: bool
  ce_llm_ips :: "string \<rightharpoonup> string"
  ce_clock :: clock_offset
  ce_now :: "nat \<Rightarrow> int"
  ce_environ :: "nat \<Rightarrow> u32 \<Rightarrow> string option"
  ce_valid :: "string \<Rightarrow> bool"

text \<open>\<^verbatim>\<open>readSkipped\<close>: a counter map that cannot be read counts as zeros.\<close>

definition no_counts :: skipped_counts where
  "no_counts = \<lparr>sc_other_family = 0, sc_unreadable = 0, sc_ringbuf_full = 0, sc_too_short = 0\<rparr>"

definition read_skipped :: "bpf_state \<Rightarrow> skipped_counts" where
  "read_skipped st = (case skipped_map st of None \<Rightarrow> no_counts | Some raw \<Rightarrow> counters_of raw)"

section \<open>Provider addresses\<close>

definition known_llm_hosts :: "string list" where
  "known_llm_hosts = [''api.anthropic.com'', ''api.openai.com'', ''generativelanguage.googleapis.com'']"

definition resolve_one :: "(string \<Rightarrow> string list option) \<Rightarrow> (string \<rightharpoonup> string) \<Rightarrow> string \<Rightarrow> (string \<rightharpoonup> string)" where
  "resolve_one lookup_host m h =
     (case lookup_host h of
        None \<Rightarrow> m
      | Some addrs \<Rightarrow>
          foldl (\<lambda>m a. case parse_ip a of Some ip \<Rightarrow> m(ip_string ip \<mapsto> h) | None \<Rightarrow> m) m addrs)"

definition resolve_llm_hosts :: "(string \<Rightarrow> string list option) \<Rightarrow> string list \<Rightarrow> (string \<rightharpoonup> string)" where
  "resolve_llm_hosts lookup_host hosts = foldl (resolve_one lookup_host) Map.empty hosts"

section \<open>The loop\<close>

datatype 'a step = Skip | Keep 'a | Panic

definition comm_string :: "u8 list \<Rightarrow> string" where
  "comm_string b = trim_right (map (\<lambda>x. char_of (unat x)) b) [CHR 0x00]"

definition flow_identity :: "capture_env \<Rightarrow> nat \<Rightarrow> decoded_conn_event \<Rightarrow> string" where
  "flow_identity env i ev =
     (let claimed = claimed_identity (ce_valid env)
            (claimed_agent_uri (ce_environ env i) (proc_pid_for ev (ce_in_init_pidns env)))
      in if claimed \<noteq> [] then claimed else proc_identity (comm_string (dc_comm ev)) (dc_cgroup_id ev))"

definition capture_event :: "capture_env \<Rightarrow> nat \<Rightarrow> decoded_conn_event \<Rightarrow> flow step" where
  "capture_event env i ev =
     (if dc_dport ev = 0 \<or> is_self ev (ce_self_pid env) then Skip
      else case event_ip ev of
        None \<Rightarrow> Skip
      | Some ip \<Rightarrow>
          if is_loopback ip \<and> \<not> is_local_model_port (dc_dport ev) then Skip
          else case destination ip (dc_dport ev) (ce_llm_ips env) of
            None \<Rightarrow> Panic
          | Some d \<Rightarrow>
              Keep \<lparr>fl_time = wall_time (ce_clock env) (dc_ktime_ns ev) (ce_now env i),
                    fl_identity = flow_identity env i ev,
                    fl_destination = d,
                    fl_pid = dc_pid ev,
                    fl_cgroup_id = dc_cgroup_id ev,
                    fl_observed = proc_identity (comm_string (dc_comm ev)) (dc_cgroup_id ev)\<rparr>)"

definition capture_sample :: "capture_env \<Rightarrow> nat \<Rightarrow> u8 list \<Rightarrow> flow step" where
  "capture_sample env i raw =
     (case decode_conn_event raw of None \<Rightarrow> Skip | Some ev \<Rightarrow> capture_event env i ev)"

text \<open>One \<^verbatim>\<open>reader.Read()\<close>: a sample, the reader closed, or another error.\<close>

datatype ring_read = Sample "u8 list" | Closed | Failed string

datatype capture_result =
    Done "flow list"             \<comment> \<open>the reader was closed\<close>
  | Stopped "flow list" string   \<comment> \<open>the reader failed\<close>
  | Panicked
  | Waiting "flow list"          \<comment> \<open>no more reads yet\<close>

fun run_loop :: "capture_env \<Rightarrow> nat \<Rightarrow> flow list \<Rightarrow> ring_read list \<Rightarrow> capture_result" where
  "run_loop env i flows [] = Waiting flows"
| "run_loop env i flows (Closed # rs) = Done flows"
| "run_loop env i flows (Failed e # rs) = Stopped flows e"
| "run_loop env i flows (Sample raw # rs) =
     (case capture_sample env i raw of
        Skip \<Rightarrow> run_loop env (Suc i) flows rs
      | Keep f \<Rightarrow> run_loop env (Suc i) (flows @ [f]) rs
      | Panic \<Rightarrow> Panicked)"

section \<open>The log the flows are written to\<close>

record egress_flow =
  ef_time :: string
  ef_identity :: string
  ef_destination :: string
  ef_bytes :: int

text \<open>\<open>fmt\<close> is \<^verbatim>\<open>Format(time.RFC3339Nano)\<close> of a UTC time.\<close>

definition to_egress_log :: "(int \<Rightarrow> string) \<Rightarrow> flow list \<Rightarrow> egress_flow list" where
  "to_egress_log fmt flows =
     map (\<lambda>f. \<lparr>ef_time = fmt (fl_time f), ef_identity = fl_identity f,
               ef_destination = fl_destination f, ef_bytes = 0\<rparr>) flows"

section \<open>What the loop returns\<close>

definition the_flows :: "capture_env \<Rightarrow> nat \<Rightarrow> decoded_conn_event \<Rightarrow> flow list" where
  "the_flows env i ev = (case capture_event env i ev of Keep f \<Rightarrow> [f] | _ \<Rightarrow> [])"

fun flows_of :: "capture_env \<Rightarrow> nat \<Rightarrow> decoded_conn_event list \<Rightarrow> flow list" where
  "flows_of env i [] = []"
| "flows_of env i (ev # evs) = the_flows env i ev @ flows_of env (Suc i) evs"

lemma capture_event_no_panic: "capture_event env i ev \<noteq> Panic"
  by (simp add: capture_event_def destination_def itoa_utoa Let_def split: option.split)

lemma run_loop_samples:
  "\<forall>ev \<in> set evs. decode_conn_event (enc ev) = Some (dec ev) \<Longrightarrow>
   run_loop env i flows (map (\<lambda>ev. Sample (enc ev)) evs @ rs) =
     run_loop env (i + length evs) (flows @ flows_of env i (map dec evs)) rs"
proof (induction evs arbitrary: i flows)
  case (Cons ev evs)
  then show ?case using capture_event_no_panic [of env i "dec ev"]
    by (auto simp: capture_sample_def the_flows_def split: step.split)
qed simp

text \<open>The events the invocations report, as abstract records in the order they took effect.\<close>

definition reported_event :: "bpf_config \<Rightarrow> connect_ctx \<Rightarrow> conn_event option" where
  "reported_event cfg c =
     (case classify c of
        Want f \<Rightarrow> if reserve_mem c = None then None else event_of cfg c f
      | _ \<Rightarrow> None)"

definition reported_events :: "bpf_config \<Rightarrow> connect_ctx list \<Rightarrow> conn_event list" where
  "reported_events cfg cs = List.map_filter (reported_event cfg) cs"

lemma wf_reported_event: "helpers_ok c \<Longrightarrow> reported_event cfg c = Some ev \<Longrightarrow> wf_conn_event ev"
  by (auto simp: reported_event_def event_of_def wf_record_of split: verdict.splits if_splits)

lemma outcome_reported:
  "helpers_ok c \<Longrightarrow>
   (case outcome_of cfg c of Reported m \<Rightarrow> [m] | _ \<Rightarrow> []) =
     (case reported_event cfg c of Some ev \<Rightarrow> [encode_conn_event ev] | None \<Rightarrow> [])"
  using fill_event_encodes [of c] helpers_okD(2) [of c]
  by (auto simp: outcome_of_def reported_event_def split: verdict.split option.split)

lemma reports_encode:
  "\<forall>c \<in> set cs. helpers_ok c \<Longrightarrow> reports cfg cs = map encode_conn_event (reported_events cfg cs)"
proof (induction cs)
  case (Cons c cs)
  then show ?case using outcome_reported [of c cfg]
    by (auto simp: reports_def reported_events_def List.map_filter_def split: option.splits)
qed (simp add: reports_def reported_events_def List.map_filter_def)

section \<open>From the kernel to the flows\<close>


definition sample_env :: capture_env where
  "sample_env =
     \<lparr>ce_self_pid = 3, ce_in_init_pidns = True, ce_llm_ips = Map.empty,
      ce_clock = \<lparr>wall_at_start = 0, mono_at_start = 1\<rparr>, ce_now = (\<lambda>_. 0),
      ce_environ = (\<lambda>_ _. None), ce_valid = (\<lambda>_. False)\<rparr>"

text \<open>The sample run with its remaining invocation finished: a record submitted and read back.\<close>

definition sample_record :: conn_event where
  "sample_record = record_of sample_cfg (sample_ctx (Some (replicate 64 255))) AF_INET sample_sockaddr"

definition sample_done :: kernel where
  "sample_done = (finish 0 (sample_ctx (Some (replicate 64 255))) sample_run)
     \<lparr>maps := ringbuf_submit (encode_conn_event sample_record) (maps sample_run)\<rparr>"

lemma sample_helpers: "helpers_ok (sample_ctx (Some (replicate 64 255)))" "helpers_ok unreadable_ctx"
proof -
  show "helpers_ok (sample_ctx (Some (replicate 64 255)))" by (rule sample_helpers_ok) simp
  show "helpers_ok unreadable_ctx" using sample_helpers_ok [of None]
    by (simp add: helpers_ok_def unreadable_ctx_def)
qed

lemma sample_event_of: "event_of sample_cfg (sample_ctx (Some (replicate 64 255))) AF_INET = Some sample_record"
  by (simp add: event_of_def read_sockaddr_def layout sample_record_def)
     (simp add: sample_ctx_def sample_sockaddr_def)

lemma sample_done_reachable: "kreach sample_cfg empty_maps sample_done"
proof -
  have ph: "phase_of sample_run 0 = Holding (sample_ctx (Some (replicate 64 255))) AF_INET (replicate 64 255)"
    by (simp add: sample_run_def Let_def)
  have "fill_event sample_cfg (sample_ctx (Some (replicate 64 255))) AF_INET (replicate 64 255)
      = Some (encode_conn_event sample_record)"
    by (simp add: fill_event_encodes sample_helpers sample_event_of)
  from kreach.step [OF sample_run_reachable kstep.submit [OF ph this]]
  show ?thesis by (simp only: sample_done_def)
qed

lemma sample_done_history:
  "map snd (history sample_done) = [unreadable_ctx, sample_ctx (Some (replicate 64 255))]"
  by (simp add: sample_done_def sample_run_def Let_def finish_def)

lemma sample_reserve: "reserve_mem (sample_ctx res) = res"
  by (simp add: sample_ctx_def)

lemma sample_reported:
  "reported_events sample_cfg [unreadable_ctx, sample_ctx (Some (replicate 64 255))] = [sample_record]"
proof -
  have "reserve_mem (sample_ctx (Some (replicate 64 255))) \<noteq> None" by (simp add: sample_ctx_def)
  then show ?thesis
    by (simp add: reported_events_def List.map_filter_def reported_event_def sample_unreadable
        sample_classify sample_event_of)
qed

lemma sample_decoded:
  "decoded_of sample_record =
     \<lparr>dc_cgroup_id = 8471, dc_ktime_ns = 1000, dc_pid = 4242, dc_ns_tgid = 42, dc_dport = 443,
      dc_family = 4, dc_daddr = [192, 0, 2, 7] @ replicate 12 0,
      dc_comm = [99, 117, 114, 108] @ replicate 12 0\<rparr>"
  by (simp add: decoded_of_def sample_record_def record_of_def sample_ctx_def sample_sockaddr_def
      peek_def be_nat_def ns_tgid_of_def sample_cfg_def)

lemma sample_texts:
  "comm_string (99 # 117 # 114 # 108 # replicate 12 0) = ''curl''"
  "proc_identity ''curl'' 8471 = ''proc:curl@cg8471''"
  "ip_string (v4_in_v6_prefix @ [192, 0, 2, 7]) = ''192.0.2.7''"
  "\<not> is_loopback (v4_in_v6_prefix @ [192, 0, 2, 7])"
proof -
  show "comm_string (99 # 117 # 114 # 108 # replicate 12 0) = ''curl''" by code_simp
  show "proc_identity ''curl'' 8471 = ''proc:curl@cg8471''"
    by (simp add: proc_identity_def identity_prefix_def gostr)
  show "ip_string (v4_in_v6_prefix @ [192, 0, 2, 7]) = ''192.0.2.7''"
    by (simp add: ip_string_16 v4_in_v6_prefix_def v4_string_def gostr)
  show "\<not> is_loopback (v4_in_v6_prefix @ [192, 0, 2, 7])"
    by (simp add: is_loopback_def to4_def v4_in_v6_prefix_def)
qed

lemmas sample_capture_simps = sample_decoded sample_texts capture_event_def sample_env_def is_self_def event_ip_def
  destination_def itoa_utoa join_host_port_def flow_identity_def claimed_identity_def claimed_agent_uri_def
  wall_time_def as_duration_def max_int64_def

lemma sample_flow:
  "flows_of sample_env 0 [decoded_of sample_record] =
    [\<lparr>fl_time = 999, fl_identity = ''proc:curl@cg8471'', fl_destination = ''192.0.2.7:443'',
      fl_pid = 4242, fl_cgroup_id = 8471, fl_observed = ''proc:curl@cg8471''\<rparr>]"
  by (simp add: the_flows_def sample_capture_simps gostr)

lemma sample_skips: "skips sample_cfg Unreadable [unreadable_ctx, sample_ctx (Some (replicate 64 255))] = 1"
proof -
  have "outcome_of sample_cfg unreadable_ctx = Skipped Unreadable"
    by (simp add: outcome_of_def sample_unreadable)
  moreover have "outcome_of sample_cfg (sample_ctx (Some (replicate 64 255))) \<noteq> Skipped Unreadable"
    by (simp add: outcome_of_def sample_classify fill_event_encodes sample_event_of sample_helpers
        sample_reserve)
  ultimately show ?thesis by (simp add: skips_def)
qed


section \<open>What is kept of a reported connection\<close>

text \<open>The address and the port of a reported event.\<close>

definition addr_of :: "conn_event \<Rightarrow> ip" where
  "addr_of ev = (if ev_family ev = 4 then v4_in_v6_prefix @ take 4 (ev_daddr ev) else ev_daddr ev)"

definition port_of :: "conn_event \<Rightarrow> u16" where
  "port_of ev = of_nat (be_nat (ev_dport ev))"

text \<open>Whether the connecting task is the sensor, by the number its own PID namespace gives the task.\<close>

definition sensor_task :: "bpf_config \<Rightarrow> u32 \<Rightarrow> connect_ctx \<Rightarrow> bool" where
  "sensor_task cfg self_pid c \<longleftrightarrow>
     self_pid \<noteq> 0 \<and> self_pidns_ino cfg \<noteq> 0 \<and>
     (\<exists>pid. ns_current_pid_tgid c (self_pidns_dev cfg) (self_pidns_ino cfg) = Some (pid, self_pid))"

lemma reported_event_cases:
  assumes "reported_event cfg c = Some ev"
  obtains f sa where "classify c = Want f" "read_sockaddr c f = Some sa" "ev = record_of cfg c f sa"
  using assms by (auto simp: reported_event_def event_of_def split: verdict.splits if_splits)

lemma reported_family:
  assumes "reported_event cfg c = Some ev" shows "ev_family ev = 4 \<or> ev_family ev = 6"
  using assms by (elim reported_event_cases) (auto simp: record_of_def)

lemma reported_self:
  assumes "reported_event cfg c = Some ev"
  shows "is_self (decoded_of ev) self_pid \<longleftrightarrow> sensor_task cfg self_pid c"
  using assms
  by (elim reported_event_cases)
     (auto simp: is_self_def decoded_of_def record_of_def ns_tgid_of_def sensor_task_def split: option.splits)

lemma length_addr_of:
  assumes "helpers_ok c" "reported_event cfg c = Some ev" shows "length (addr_of ev) = 16"
  using wf_reported_event [OF assms] by (simp add: addr_of_def wf_conn_event_def v4_in_v6_prefix_def)

lemma event_ip_addr:
  assumes "reported_event cfg c = Some ev" shows "event_ip (decoded_of ev) = Some (addr_of ev)"
  using reported_family [OF assms] by (auto simp: event_ip_def addr_of_def decoded_of_def)

text \<open>
  C18: Of the connections \<^verbatim>\<open>connect.c\<close> reports, the loop drops exactly those to port 0, those made by
  the sensor itself (decided on the task's number in the sensor's own PID namespace, never on the
  kernel's pid, so no task of another namespace is ever taken for the sensor), and those to a loopback
  address on a port that is not a local model's. Every other one becomes a flow with the kernel's pid and
  cgroup, the observed process name, and a destination from which address and port can be read back.
\<close>

theorem reported_connections_kept:
  assumes "helpers_ok c" "reported_event cfg c = Some ev"
  shows "(capture_event env i (decoded_of ev) = Skip \<longleftrightarrow>
      port_of ev = 0 \<or> sensor_task cfg (ce_self_pid env) c
      \<or> is_loopback (addr_of ev) \<and> port_of ev \<notin> {11434, 8000, 8001})
    \<and> (\<forall>f. capture_event env i (decoded_of ev) = Keep f \<longrightarrow>
        fl_pid f = ucast (drop_bit 32 (current_pid_tgid c)) \<and> fl_cgroup_id f = current_cgroup_id c
        \<and> fl_observed f = proc_identity (comm_string (current_comm c)) (current_cgroup_id c)
        \<and> (ce_llm_ips env (ip_string (addr_of ev)) = None \<longrightarrow>
             split_host_port (fl_destination f) = Some (ip_string (addr_of ev), utoa (unat (port_of ev)))
             \<and> parse_ip (ip_string (addr_of ev)) = Some (addr_of ev)))
    \<and> capture_event env i (decoded_of ev) \<noteq> Panic"
proof -
  note ip = event_ip_addr [OF assms(2)] and self = reported_self [OF assms(2)]
  have port: "dc_dport (decoded_of ev) = port_of ev" by (simp add: decoded_of_def port_of_def)
  obtain fam sa where ev: "ev = record_of cfg c fam sa" using reported_event_cases [OF assms(2)] .
  have task: "ev_pid ev = ucast (drop_bit 32 (current_pid_tgid c))" "ev_cgroup_id ev = current_cgroup_id c"
    "ev_comm ev = current_comm c"
    by (simp_all add: ev record_of_def)
  have fields: "dc_pid (decoded_of ev) = ev_pid ev" "dc_cgroup_id (decoded_of ev) = ev_cgroup_id ev"
    "dc_comm (decoded_of ev) = ev_comm ev"
    by (simp_all add: decoded_of_def)
  have skip: "capture_event env i (decoded_of ev) = Skip \<longleftrightarrow>
      port_of ev = 0 \<or> sensor_task cfg (ce_self_pid env) c
      \<or> is_loopback (addr_of ev) \<and> port_of ev \<notin> {11434, 8000, 8001}"
    by (auto simp: capture_event_def ip self port is_local_model_port_def destination_def itoa_utoa Let_def
        split: option.splits)
  have keep: "fl_pid f = ucast (drop_bit 32 (current_pid_tgid c)) \<and> fl_cgroup_id f = current_cgroup_id c
      \<and> fl_observed f = proc_identity (comm_string (current_comm c)) (current_cgroup_id c)
      \<and> destination (addr_of ev) (port_of ev) (ce_llm_ips env) = Some (fl_destination f)"
    if "capture_event env i (decoded_of ev) = Keep f" for f
    using that by (auto simp: capture_event_def ip self port fields task split: if_splits option.splits)
  have dest: "split_host_port (fl_destination f) = Some (ip_string (addr_of ev), utoa (unat (port_of ev)))
      \<and> parse_ip (ip_string (addr_of ev)) = Some (addr_of ev)"
    if "capture_event env i (decoded_of ev) = Keep f" "ce_llm_ips env (ip_string (addr_of ev)) = None" for f
    using destination_splits [of "addr_of ev" "port_of ev" "ce_llm_ips env"] keep [OF that(1)] that(2)
      length_addr_of [OF assms] by auto
  show ?thesis
    using skip keep dest capture_event_no_panic by blast
qed

theorem reported_connections_kept_witness:
  "capture_event sample_env 0 (decoded_of sample_record) \<noteq> Skip"
proof -
  have "reported_event sample_cfg (sample_ctx (Some (replicate 64 255))) = Some sample_record"
    by (simp add: reported_event_def sample_classify sample_event_of sample_reserve)
  note kept = reported_connections_kept [OF sample_helpers(1) this, of sample_env 0]
  have "port_of sample_record = 443"
    by (simp add: port_of_def sample_record_def record_of_def sample_sockaddr_def peek_def be_nat_def)
  moreover have "\<not> is_loopback (addr_of sample_record)"
    by (simp add: addr_of_def is_loopback_def to4_def v4_in_v6_prefix_def sample_record_def record_of_def
        sample_sockaddr_def peek_def)
  moreover have "\<not> sensor_task sample_cfg 3 (sample_ctx (Some (replicate 64 255)))"
    by (simp add: sensor_task_def sample_ctx_def)
  ultimately show ?thesis using kept by (simp add: sample_env_def)
qed

section \<open>Provider labels\<close>

lemma resolve_addrs_sound:
  "foldl (\<lambda>m a. case parse_ip a of Some ip \<Rightarrow> m(ip_string ip \<mapsto> h) | None \<Rightarrow> m) m addrs s = Some h' \<Longrightarrow>
   m s = Some h' \<or> h' = h \<and> (\<exists>a \<in> set addrs. \<exists>ip. parse_ip a = Some ip \<and> s = ip_string ip)"
proof (induction addrs arbitrary: m)
  case (Cons a addrs)
  then show ?case by (fastforce split: option.splits if_splits)
qed simp

lemma resolve_sound:
  "foldl (resolve_one lookup_host) m hosts s = Some h \<Longrightarrow>
   m s = Some h \<or> h \<in> set hosts \<and> (\<exists>addrs a ip. lookup_host h = Some addrs \<and> a \<in> set addrs
     \<and> parse_ip a = Some ip \<and> s = ip_string ip)"
proof (induction hosts arbitrary: m)
  case (Cons g hosts)
  from Cons.IH [of "resolve_one lookup_host m g"] Cons.prems
  consider (head) "resolve_one lookup_host m g s = Some h" | (tail) "h \<in> set hosts"
    "\<exists>addrs a ip. lookup_host h = Some addrs \<and> a \<in> set addrs \<and> parse_ip a = Some ip \<and> s = ip_string ip"
    by auto
  then show ?case
  proof cases
    case head
    then show ?thesis
      using resolve_addrs_sound [of g m _ s h] by (fastforce simp: resolve_one_def split: option.splits)
  qed auto
qed simp

text \<open>
  A destination wears a provider's host name only when that is warranted: if the text of a 16-byte
  address and port differs from the plain one, then the port is 443 and the name is one of the hosts that
  were looked up, whose answer contained a text of exactly this address.
\<close>

theorem labels_are_resolved:
  assumes "length a = 16"
    "destination a port (resolve_llm_hosts lookup_host hosts) = Some d"
    "d \<noteq> join_host_port (ip_string a) (utoa (unat port))"
  shows "port = 443 \<and> (\<exists>h \<in> set hosts. \<exists>addrs x. d = join_host_port h ''443'' \<and> lookup_host h = Some addrs
    \<and> x \<in> set addrs \<and> parse_ip x = Some a)"
proof -
  let ?m = "resolve_llm_hosts lookup_host hosts"
  have port: "port = 443" and "?m (ip_string a) \<noteq> None"
    using assms(2,3) by (auto simp: destination_def itoa_utoa Let_def split: if_splits option.splits)
  then obtain h where h: "?m (ip_string a) = Some h" by blast
  then obtain addrs x ip where r: "h \<in> set hosts" "lookup_host h = Some addrs" "x \<in> set addrs"
    "parse_ip x = Some ip" "ip_string a = ip_string ip"
    using resolve_sound [of lookup_host Map.empty hosts "ip_string a" h] by (auto simp: resolve_llm_hosts_def)
  have "ip = a" using ip_string_inj [OF assms(1) parse_ip_length [OF r(4)] r(5)] by simp
  moreover have "d = join_host_port h ''443''"
    using assms(2) h port by (simp add: destination_def itoa_utoa Let_def gostr)
  ultimately show ?thesis using port r by blast
qed

theorem labels_are_resolved_witness:
  "\<exists>h \<in> set known_llm_hosts. \<exists>addrs x. ''api.openai.com:443'' = join_host_port h ''443''
     \<and> (\<lambda>h. if h = ''api.openai.com'' then Some [''192.0.2.7''] else None) h = Some addrs
     \<and> x \<in> set addrs \<and> parse_ip x = Some (v4_in_v6_prefix @ [192, 0, 2, 7])"
proof -
  let ?look = "\<lambda>h. if h = ''api.openai.com'' then Some [''192.0.2.7''] else None"
  let ?a = "v4_in_v6_prefix @ [192, 0, 2, 7] :: ip"
  have str: "ip_string ?a = ''192.0.2.7''"
    by (simp add: ip_string_16 v4_in_v6_prefix_def v4_string_def gostr)
  have parse: "parse_ip ''192.0.2.7'' = Some ?a"
    using parse_ip_string [of ?a] unfolding str by (simp add: v4_in_v6_prefix_def)
  have "destination ?a 443 (resolve_llm_hosts ?look known_llm_hosts) = Some ''api.openai.com:443''"
    by (simp add: destination_def itoa_utoa resolve_llm_hosts_def known_llm_hosts_def resolve_one_def
        parse str join_host_port_def gostr)
  from labels_are_resolved [OF _ this] show ?thesis
    by (simp add: v4_in_v6_prefix_def str [unfolded v4_in_v6_prefix_def, simplified] join_host_port_def gostr)
qed

end
