(* ===== verification/Graph_Model.thy ===== *)
theory Graph_Model
  imports Complex_Main Go_Strings
begin

text \<open>
  The data of the identity graph (\<^verbatim>\<open>internal/model/identity.go\<close>): events, identities, permissions,
  severities and alerts. A time is an integer number of nanoseconds since the epoch; the pointer to
  the location a \<^verbatim>\<open>time.Time\<close> carries takes part in Go's equality of events, so an event keeps it as
  a number (0 is UTC).
\<close>

section \<open>Events\<close>

definition EventLogin :: string where "EventLogin = ''login''"
definition EventMFAChallenge :: string where "EventMFAChallenge = ''mfa_challenge''"
definition EventEgress :: string where "EventEgress = ''egress''"
definition EventOther :: string where "EventOther = ''other''"
definition EventBudgetExhausted :: string where "EventBudgetExhausted = ''budget_exhausted''"
definition EventSustainedLoop :: string where "EventSustainedLoop = ''sustained_loop''"
definition EventSpendSpike :: string where "EventSpendSpike = ''spend_spike''"
definition EventFanoutExplosion :: string where "EventFanoutExplosion = ''fanout_explosion''"
definition EventBreakerTripped :: string where "EventBreakerTripped = ''breaker_tripped''"
definition EventDLPBlock :: string where "EventDLPBlock = ''dlp_block''"
definition EventTaintBlock :: string where "EventTaintBlock = ''taint_block''"
definition EventMCPDrift :: string where "EventMCPDrift = ''mcp_drift''"
definition EventWebFetch :: string where "EventWebFetch = ''web_fetch''"
definition EventWebBlocked :: string where "EventWebBlocked = ''web_blocked''"

lemmas event_types = EventLogin_def EventMFAChallenge_def EventEgress_def EventOther_def
  EventBudgetExhausted_def EventSustainedLoop_def EventSpendSpike_def EventFanoutExplosion_def
  EventBreakerTripped_def EventDLPBlock_def EventTaintBlock_def EventMCPDrift_def EventWebFetch_def
  EventWebBlocked_def

record event =
  e_time :: int
  e_zone :: nat
  e_identity :: string
  e_type :: string
  e_outcome :: string
  e_ip :: string
  e_city :: string
  e_country :: string
  e_lat :: real
  e_lon :: real
  e_device :: string
  e_resource :: string
  e_severity :: string
  e_source :: string

section \<open>Identities\<close>

definition IdentityHuman :: string where "IdentityHuman = ''''"
definition IdentityServiceAccount :: string where "IdentityServiceAccount = ''service_account''"
definition IdentityKey :: string where "IdentityKey = ''key''"
definition IdentityAgent :: string where "IdentityAgent = ''agent''"
definition IdentityMCPServer :: string where "IdentityMCPServer = ''mcp_server''"

lemmas identity_types = IdentityHuman_def IdentityServiceAccount_def IdentityKey_def IdentityAgent_def
  IdentityMCPServer_def

record permission =
  p_name :: string
  p_admin :: bool
  p_used :: bool
  p_actions :: "string list"
  p_arn :: string

record declared_model =
  dm_provider :: string
  dm_model :: string
  dm_endpoint :: string

record identity =
  i_id :: string
  i_type :: string
  i_privileged :: bool
  i_events :: "event list"
  i_source :: string
  i_owner :: string
  i_created :: int
  i_last_used :: int
  i_permissions :: "permission list"
  i_runtime :: string
  i_on_behalf_of :: "string list"
  i_parent :: string
  i_attestation :: string
  i_models :: "declared_model list"
  i_shadow :: bool

text \<open>The zero value of \<^verbatim>\<open>time.Time\<close>: the first instant of year 1.\<close>

definition zero_time :: int where
  "zero_time = - 62135596800 * 1000000000"

definition is_zero :: "int \<Rightarrow> bool" where
  "is_zero t \<longleftrightarrow> t = zero_time"

text \<open>\<^verbatim>\<open>time.Duration\<close> is an \<^verbatim>\<open>int64\<close>; \<^verbatim>\<open>t.Sub(u)\<close> saturates at its ends.\<close>

definition max_duration :: int where "max_duration = 2 ^ 63 - 1"
definition min_duration :: int where "min_duration = - (2 ^ 63)"

definition time_sub :: "int \<Rightarrow> int \<Rightarrow> int" where
  "time_sub t u = max min_duration (min max_duration (t - u))"

definition Second :: int where "Second = 1000000000"
definition Minute :: int where "Minute = 60 * Second"
definition Hour :: int where "Hour = 60 * Minute"

lemmas durations = Second_def Minute_def Hour_def

definition new_identity :: "string \<Rightarrow> bool \<Rightarrow> identity" where
  "new_identity k privileged =
     \<lparr>i_id = k, i_type = IdentityHuman, i_privileged = privileged, i_events = [], i_source = [],
      i_owner = [], i_created = zero_time, i_last_used = zero_time, i_permissions = [], i_runtime = [],
      i_on_behalf_of = [], i_parent = [], i_attestation = [], i_models = [], i_shadow = False\<rparr>"

definition is_agent :: "identity \<Rightarrow> bool" where
  "is_agent i \<longleftrightarrow> i_type i = IdentityAgent"

definition is_nhi :: "identity \<Rightarrow> bool" where
  "is_nhi i \<longleftrightarrow> i_type i \<noteq> IdentityHuman"

definition has_admin :: "identity \<Rightarrow> bool" where
  "has_admin i = list_ex p_admin (i_permissions i)"

section \<open>Severities and alerts\<close>

datatype severity =
  SeverityNone | SeverityInfo | SeverityLow | SeverityMedium | SeverityHigh | SeverityCritical

fun severity_rank :: "severity \<Rightarrow> nat" where
  "severity_rank SeverityNone = 0"
| "severity_rank SeverityInfo = 1"
| "severity_rank SeverityLow = 2"
| "severity_rank SeverityMedium = 3"
| "severity_rank SeverityHigh = 4"
| "severity_rank SeverityCritical = 5"

lemma severity_rank_inj [simp]: "severity_rank s = severity_rank t \<longleftrightarrow> s = t"
  by (cases s; cases t) simp_all

instantiation severity :: linorder
begin

definition less_eq_severity :: "severity \<Rightarrow> severity \<Rightarrow> bool" where
  "s \<le> t \<longleftrightarrow> severity_rank s \<le> severity_rank t"

definition less_severity :: "severity \<Rightarrow> severity \<Rightarrow> bool" where
  "s < t \<longleftrightarrow> severity_rank s < severity_rank t"

instance
  by standard (auto simp: less_eq_severity_def less_severity_def)

end

lemma severity_bounds [simp]: "SeverityNone \<le> s" "s \<le> SeverityCritical"
  by (cases s; simp add: less_eq_severity_def)+

fun severity_string :: "severity \<Rightarrow> string" where
  "severity_string SeverityCritical = ''critical''"
| "severity_string SeverityHigh = ''high''"
| "severity_string SeverityMedium = ''medium''"
| "severity_string SeverityLow = ''low''"
| "severity_string SeverityInfo = ''info''"
| "severity_string SeverityNone = ''none''"

lemma severity_string_inj: "severity_string s = severity_string t \<longleftrightarrow> s = t"
  by (cases s; cases t) simp_all

record alert =
  a_detector :: string
  a_identity :: string
  a_severity :: severity
  a_time :: int
  a_summary :: string

end
