(* ===== verification/Graph_Store.thy ===== *)
theory Graph_Store
  imports Graph_Model "HOL-Library.AList"
begin

text \<open>
  The in-memory graph of \<^verbatim>\<open>internal/graph/store.go\<close>. A Go map is an association list with distinct
  keys in an unspecified order; the operations return the updated store. \<^verbatim>\<open>Identities\<close> sorts the
  stored events in place, so it returns a store too.
\<close>

section \<open>Merging permissions\<close>

definition union_actions :: "string list \<Rightarrow> string list \<Rightarrow> string list" where
  "union_actions dst ins =
     (if ins = [] then dst
      else if dst = [] then ins
      else foldl (\<lambda>dst a. if a \<in> set dst then dst else dst @ [a]) dst ins)"

definition merge_permission :: "permission \<Rightarrow> permission \<Rightarrow> permission" where
  "merge_permission dst p =
     dst\<lparr>p_admin := p_admin dst \<or> p_admin p,
         p_used := p_used dst \<or> p_used p,
         p_arn := (if p_arn p \<noteq> [] then p_arn p else p_arn dst),
         p_actions := union_actions (p_actions dst) (p_actions p)\<rparr>"

text \<open>The index map of \<^verbatim>\<open>mergePermissions\<close> gives the first entry of a name.\<close>

fun fold_permission :: "permission list \<Rightarrow> permission \<Rightarrow> permission list" where
  "fold_permission [] p = [p]"
| "fold_permission (q # qs) p =
     (if p_name q = p_name p then merge_permission q p # qs else q # fold_permission qs p)"

definition merge_permissions :: "permission list \<Rightarrow> permission list \<Rightarrow> permission list" where
  "merge_permissions existing ins = foldl fold_permission existing ins"

section \<open>The store\<close>

record store =
  s_privileged :: "string list"
  s_identities :: "(string \<times> identity) list"
  s_seen :: "event list"

definition new_store :: "string list \<Rightarrow> store" where
  "new_store privileged = \<lparr>s_privileged = privileged, s_identities = [], s_seen = []\<rparr>"

definition lookup :: "store \<Rightarrow> string \<Rightarrow> identity option" where
  "lookup s k = map_of (s_identities s) k"

text \<open>\<^verbatim>\<open>ensure\<close>, and writing through the pointer it returns.\<close>

definition ensure :: "store \<Rightarrow> string \<Rightarrow> identity" where
  "ensure s k = (case lookup s k of Some i \<Rightarrow> i | None \<Rightarrow> new_identity k (k \<in> set (s_privileged s)))"

definition put :: "string \<Rightarrow> identity \<Rightarrow> store \<Rightarrow> store" where
  "put k i s = s\<lparr>s_identities := AList.update k i (s_identities s)\<rparr>"

definition add_event :: "event \<Rightarrow> store \<Rightarrow> store" where
  "add_event e s =
     (if e \<in> set (s_seen s) then s
      else
        let i = ensure s (e_identity e)
        in put (e_identity e) (i\<lparr>i_events := i_events i @ [e]\<rparr>) (s\<lparr>s_seen := e # s_seen s\<rparr>))"

definition merge_identity :: "identity \<Rightarrow> identity \<Rightarrow> identity" where
  "merge_identity inp dst =
     dst\<lparr>i_type := (if i_type inp \<noteq> IdentityHuman then i_type inp else i_type dst),
        i_source := (if i_source inp \<noteq> [] then i_source inp else i_source dst),
        i_owner := (if i_owner inp \<noteq> [] then i_owner inp else i_owner dst),
        i_created := (if \<not> is_zero (i_created inp) then i_created inp else i_created dst),
        i_last_used := (if i_last_used inp > i_last_used dst then i_last_used inp else i_last_used dst),
        i_privileged := (if i_privileged inp then True else i_privileged dst),
        i_runtime := (if i_runtime inp \<noteq> [] then i_runtime inp else i_runtime dst),
        i_on_behalf_of := (if i_on_behalf_of inp \<noteq> [] then i_on_behalf_of inp else i_on_behalf_of dst),
        i_parent := (if i_parent inp \<noteq> [] then i_parent inp else i_parent dst),
        i_attestation := (if i_attestation inp \<noteq> [] then i_attestation inp else i_attestation dst),
        i_models := (if i_models inp \<noteq> [] then i_models inp else i_models dst),
        i_shadow := (if i_shadow inp then True else i_shadow dst),
        i_permissions := merge_permissions (i_permissions dst) (i_permissions inp),
        i_events := i_events dst @ i_events inp\<rparr>"

definition add_identity :: "identity \<Rightarrow> store \<Rightarrow> store" where
  "add_identity inp s = put (i_id inp) (merge_identity inp (ensure s (i_id inp))) s"

definition mark_privileged :: "string list \<Rightarrow> store \<Rightarrow> store" where
  "mark_privileged privileged s =
     s\<lparr>s_privileged := privileged @ s_privileged s,
       s_identities := map (\<lambda>(k, i). (k, if k \<in> set privileged then i\<lparr>i_privileged := True\<rparr> else i))
         (s_identities s)\<rparr>"

definition chronological :: "identity \<Rightarrow> identity" where
  "chronological i = i\<lparr>i_events := sort_key e_time (i_events i)\<rparr>"

definition sort_events :: "store \<Rightarrow> store" where
  "sort_events s = s\<lparr>s_identities := map (\<lambda>(k, i). (k, chronological i)) (s_identities s)\<rparr>"

definition identities :: "store \<Rightarrow> identity list \<times> store" where
  "identities s =
     (let s' = sort_events s in (sort_key i_id (map snd (s_identities s')), s'))"

section \<open>Delegation\<close>

definition add_principal :: "string list \<times> string \<Rightarrow> string \<Rightarrow> string list \<times> string" where
  "add_principal cn p = (if p \<in> set (fst cn) then cn else (fst cn @ [p], p))"

definition principals :: "(string \<times> identity) list \<Rightarrow> string set" where
  "principals index = (\<Union>(k, i) \<in> set index. set (i_on_behalf_of i))"

lemma finite_principals [simp]: "finite (principals index)"
  by (auto simp: principals_def)

lemma add_principal_pair [simp]:
  "add_principal (chain, nxt) p = (if p \<in> set chain then (chain, nxt) else (chain @ [p], p))"
  by (simp add: add_principal_def)

lemma foldl_add_principal:
  "foldl add_principal (chain, nxt) ps = (chain', nxt') \<Longrightarrow>
   \<exists>new. chain' = chain @ new \<and> set new = set ps - set chain \<and> (distinct chain \<longrightarrow> distinct chain')
     \<and> nxt' = (if new = [] then nxt else last new)"
proof (induction ps arbitrary: chain nxt)
  case (Cons p ps)
  show ?case
  proof (cases "p \<in> set chain")
    case True
    with Cons.prems have "foldl add_principal (chain, nxt) ps = (chain', nxt')" by simp
    from Cons.IH [OF this] True show ?thesis by (simp add: insert_Diff_if)
  next
    case False
    with Cons.prems have "foldl add_principal (chain @ [p], p) ps = (chain', nxt')"
      by simp
    from Cons.IH [OF this] obtain new where
      "chain' = (chain @ [p]) @ new" "set new = set ps - set (chain @ [p])"
      "distinct (chain @ [p]) \<longrightarrow> distinct chain'" "nxt' = (if new = [] then p else last new)"
      by blast
    with False show ?thesis by (intro exI [of _ "p # new"]) auto
  qed
qed auto

function (sequential) walk :: "(string \<times> identity) list \<Rightarrow> string \<Rightarrow> string list \<Rightarrow> string list" where
  "walk index cur chain =
     (case map_of index cur of
        None \<Rightarrow> chain
      | Some node \<Rightarrow>
          let r = foldl add_principal (chain, []) (rev (i_on_behalf_of node))
          in if snd r = [] then fst r else walk index (snd r) (fst r))"
  by pat_completeness auto

termination walk
proof (relation "measure (\<lambda>(index, cur, chain). card (principals index - set chain))")
  fix index :: "(string \<times> identity) list" and cur chain node r
  assume node: "map_of index cur = Some node"
    and r: "r = foldl add_principal (chain, []) (rev (i_on_behalf_of node))" and nz: "snd r \<noteq> []"
  obtain new where new: "fst r = chain @ new" "set new = set (i_on_behalf_of node) - set chain" "new \<noteq> []"
    using foldl_add_principal [of chain "[]" "rev (i_on_behalf_of node)" "fst r" "snd r"] r nz
    by (cases r) (auto split: if_splits)
  have "set (i_on_behalf_of node) \<subseteq> principals index"
    using map_of_SomeD [OF node] by (auto simp: principals_def)
  moreover obtain y where "y \<in> set new" using new(3) by (cases new) auto
  ultimately have "principals index - set (fst r) \<subset> principals index - set chain"
    using new(1,2) by auto
  then show "((index, snd r, fst r), index, cur, chain) \<in> measure (\<lambda>(index, cur, chain). card (principals index - set chain))"
    by (simp add: psubset_card_mono)
qed simp

declare walk.simps [simp del]

definition walk_delegation_chain :: "(string \<times> identity) list \<Rightarrow> string \<Rightarrow> string list" where
  "walk_delegation_chain index start = walk index start [start]"

definition delegation_chain :: "store \<Rightarrow> string \<Rightarrow> string list" where
  "delegation_chain s k = walk_delegation_chain (s_identities s) k"

definition effective_permissions :: "store \<Rightarrow> string \<Rightarrow> permission list" where
  "effective_permissions s k =
     concat (map (\<lambda>link. case lookup s link of Some node \<Rightarrow> i_permissions node | None \<Rightarrow> [])
       (delegation_chain s k))"

text \<open>The names seen so far and the permissions kept.\<close>

definition keep_first :: "permission list \<Rightarrow> permission \<Rightarrow> permission list" where
  "keep_first out p = (if p_name p \<in> p_name ` set out then out else out @ [p])"

definition blast_radius :: "(string \<times> identity) list \<Rightarrow> string \<Rightarrow> permission list" where
  "blast_radius index start =
     foldl (\<lambda>out link. case map_of index link of
         None \<Rightarrow> out
       | Some node \<Rightarrow> foldl keep_first out (i_permissions node))
       [] (walk_delegation_chain index start)"

end
