(* ===== verification/Graph_Facts.thy ===== *)
theory Graph_Facts
  imports Graph_Store
begin

text \<open>
  What the graph store promises: an invariant every operation keeps, replays that change nothing,
  permissions whose evidence only grows, a delegation walk that ends and never repeats itself, and the
  read interface the detectors rely on, which the locale \<open>reader\<close> states and the store provides.
\<close>

section \<open>Permissions\<close>

lemma foldl_union_set: "set (foldl (\<lambda>dst a. if a \<in> set dst then dst else dst @ [a]) dst ins) = set dst \<union> set ins"
  by (induction ins arbitrary: dst) auto

lemma foldl_union_absorb:
  "set ins \<subseteq> set dst \<Longrightarrow> foldl (\<lambda>dst a. if a \<in> set dst then dst else dst @ [a]) dst ins = dst"
  by (induction ins) auto

lemma set_union_actions [simp]: "set (union_actions dst ins) = set dst \<union> set ins"
  by (simp add: union_actions_def foldl_union_set)

lemma union_actions_absorb: "set ins \<subseteq> set dst \<Longrightarrow> union_actions dst ins = dst"
  by (cases "dst = []") (auto simp: union_actions_def foldl_union_absorb)

lemma merge_permission_name [simp]: "p_name (merge_permission q p) = p_name q"
  by (simp add: merge_permission_def)

definition covers :: "permission \<Rightarrow> permission \<Rightarrow> bool" where
  "covers q p \<longleftrightarrow> p_name q = p_name p \<and> (p_admin p \<longrightarrow> p_admin q) \<and> (p_used p \<longrightarrow> p_used q)
     \<and> set (p_actions p) \<subseteq> set (p_actions q)"

lemma covers_refl [simp]: "covers p p"
  by (simp add: covers_def)

lemma covers_trans: "covers r q \<Longrightarrow> covers q p \<Longrightarrow> covers r p"
  by (auto simp: covers_def)

lemma merge_permission_covers:
  "covers (merge_permission q p) q" "p_name q = p_name p \<Longrightarrow> covers (merge_permission q p) p"
  by (auto simp: covers_def merge_permission_def)

lemma fold_permission_names:
  "map p_name (fold_permission ps p) =
     map p_name ps @ (if p_name p \<in> p_name ` set ps then [] else [p_name p])"
  by (induction ps) auto

lemma fold_permission_covers_old: "q \<in> set ps \<Longrightarrow> \<exists>r \<in> set (fold_permission ps p). covers r q"
  by (induction ps) (auto intro: merge_permission_covers(1) covers_refl)

lemma fold_permission_covers_new: "\<exists>r \<in> set (fold_permission ps p). covers r p"
  by (induction ps) (auto intro: merge_permission_covers(2) covers_refl)

lemma merge_permissions_Cons [simp]:
  "merge_permissions ps [] = ps"
  "merge_permissions ps (p # ins) = merge_permissions (fold_permission ps p) ins"
  by (simp_all add: merge_permissions_def)

lemma merge_covers_old: "q \<in> set ps \<Longrightarrow> \<exists>r \<in> set (merge_permissions ps ins). covers r q"
proof (induction ins arbitrary: ps q)
  case (Cons p ins)
  then obtain r where "r \<in> set (fold_permission ps p)" "covers r q"
    using fold_permission_covers_old by blast
  with Cons.IH [of r "fold_permission ps p"] show ?case by (auto intro: covers_trans)
qed (auto intro: covers_refl)

lemma merge_covers_new: "p \<in> set ins \<Longrightarrow> \<exists>r \<in> set (merge_permissions ps ins). covers r p"
proof (induction ins arbitrary: ps)
  case (Cons q ins)
  show ?case
  proof (cases "p = q")
    case True
    obtain r where r: "r \<in> set (fold_permission ps q)" "covers r q"
      using fold_permission_covers_new by blast
    from merge_covers_old [OF r(1), of ins] r(2) True show ?thesis by (auto intro: covers_trans)
  next
    case False
    with Cons show ?thesis by auto
  qed
qed simp

lemma merge_names:
  "p_name ` set (merge_permissions ps ins) = p_name ` set ps \<union> p_name ` set ins
   \<and> (distinct (map p_name ps) \<longrightarrow> distinct (map p_name (merge_permissions ps ins)))"
proof (induction ins arbitrary: ps)
  case (Cons p ins)
  have "p_name ` set (fold_permission ps p) = p_name ` set ps \<union> {p_name p}"
    using arg_cong [OF fold_permission_names [of ps p], of set] by auto
  moreover have "distinct (map p_name ps) \<longrightarrow> distinct (map p_name (fold_permission ps p))"
    by (auto simp: fold_permission_names)
  ultimately show ?case using Cons [of "fold_permission ps p"] by auto
qed simp

text \<open>
  A grant is settled by \<open>ins\<close> when folding \<open>ins\<close> into it again changes nothing: for each name, the
  first entry of that name already has every flag and action of \<open>ins\<close>, and the last ARN.
\<close>

definition arn_after :: "string \<Rightarrow> string \<Rightarrow> permission list \<Rightarrow> string" where
  "arn_after n arn ins =
     foldl (\<lambda>arn p. if p_name p = n \<and> p_arn p \<noteq> [] then p_arn p else arn) arn ins"

definition fold_one :: "permission \<Rightarrow> permission list \<Rightarrow> permission" where
  "fold_one q ins = foldl (\<lambda>q p. if p_name p = p_name q then merge_permission q p else q) q ins"

lemma fold_one_simps [simp]:
  "fold_one q [] = q"
  "fold_one q (p # ins) = fold_one (if p_name p = p_name q then merge_permission q p else q) ins"
  by (simp_all add: fold_one_def)

lemma fold_one_name [simp]: "p_name (fold_one q ins) = p_name q"
  by (induction ins arbitrary: q) simp_all

lemma merge_permissions_split:
  "merge_permissions (q # ps) ins =
     fold_one q ins # merge_permissions ps (filter (\<lambda>p. p_name p \<noteq> p_name q) ins)"
  by (induction ins arbitrary: q ps) auto

lemma fold_one_fields:
  "p_admin (fold_one q ins) = (p_admin q \<or> (\<exists>p \<in> set ins. p_name p = p_name q \<and> p_admin p))"
  "p_used (fold_one q ins) = (p_used q \<or> (\<exists>p \<in> set ins. p_name p = p_name q \<and> p_used p))"
  "set (p_actions (fold_one q ins)) = set (p_actions q) \<union> (\<Union>p \<in> {p \<in> set ins. p_name p = p_name q}. set (p_actions p))"
  "p_arn (fold_one q ins) = arn_after (p_name q) (p_arn q) ins"
  by (induction ins arbitrary: q) (auto simp: merge_permission_def arn_after_def)

lemma fold_one_actions_absorb:
  "(\<forall>p \<in> set ins. p_name p = p_name q \<longrightarrow> set (p_actions p) \<subseteq> set (p_actions q))
    \<Longrightarrow> p_actions (fold_one q ins) = p_actions q"
proof (induction ins arbitrary: q)
  case (Cons p ins)
  then show ?case
    by (auto simp: merge_permission_def union_actions_absorb)
qed simp

lemma arn_after_last:
  "arn_after n a ins =
     last (a # map p_arn (filter (\<lambda>p. p_name p = n \<and> p_arn p \<noteq> []) ins))"
proof (induction ins arbitrary: a)
  case (Cons p ins)
  have "arn_after n a (p # ins) = arn_after n (if p_name p = n \<and> p_arn p \<noteq> [] then p_arn p else a) ins"
    by (simp add: arn_after_def)
  with Cons show ?case by simp
qed (simp add: arn_after_def)

lemma arn_after_twice: "arn_after n (arn_after n arn ins) ins = arn_after n arn ins"
  by (simp add: arn_after_last)

lemma permission_eqI:
  "p_name p = p_name q \<Longrightarrow> p_admin p = p_admin q \<Longrightarrow> p_used p = p_used q \<Longrightarrow>
   p_actions p = p_actions q \<Longrightarrow> p_arn p = p_arn q \<Longrightarrow> p = (q :: permission)"
  by simp

lemma fold_one_idem: "fold_one (fold_one q ins) ins = fold_one q ins"
  by (rule permission_eqI) (auto simp: fold_one_fields arn_after_twice intro!: fold_one_actions_absorb)

lemma merge_permissions_nil: "merge_permissions [] (p # ins) =
    fold_one p ins # merge_permissions [] (filter (\<lambda>q. p_name q \<noteq> p_name p) ins)"
  by (simp add: merge_permissions_split)

lemma fold_one_self: "fold_one (fold_one p ins) (p # ins) = fold_one p ins"
proof -
  have "fold_one p (p # ins) = fold_one p ins"
  proof -
    have "merge_permission p p = p"
      by (rule permission_eqI) (auto simp: merge_permission_def union_actions_absorb)
    then show ?thesis by simp
  qed
  then show ?thesis using fold_one_idem [of p "p # ins"] by simp
qed

lemma merge_permissions_idem: "merge_permissions (merge_permissions ps ins) ins = merge_permissions ps ins"
proof (induction ps arbitrary: ins)
  case Nil
  show ?case
  proof (induction ins rule: measure_induct_rule [of length])
    case (less ins)
    show ?case
    proof (cases ins)
      case (Cons p rest)
      let ?rest = "filter (\<lambda>q. p_name q \<noteq> p_name p) rest"
      have "length ?rest < length ins" using Cons by (simp add: le_imp_less_Suc)
      from less [OF this] show ?thesis
        unfolding Cons merge_permissions_nil merge_permissions_split
        using fold_one_self [of p rest] by simp
    qed simp
  qed
next
  case (Cons q ps)
  then show ?case by (simp add: merge_permissions_split fold_one_idem)
qed

text \<open>
  Merging a report of grants into an identity never loses evidence and never counts a grant twice:
  the names are those of both sides, each once if they were; every grant of either side is still there
  under its name with its admin and used flags and all its actions; and merging the same report
  again, which is what loading a source file twice does, changes nothing at all.
\<close>

theorem merge_permissions_correct:
  "p_name ` set (merge_permissions ps ins) = p_name ` set ps \<union> p_name ` set ins
   \<and> (distinct (map p_name ps) \<longrightarrow> distinct (map p_name (merge_permissions ps ins)))
   \<and> (\<forall>p \<in> set ps \<union> set ins. \<exists>r \<in> set (merge_permissions ps ins). covers r p)
   \<and> merge_permissions (merge_permissions ps ins) ins = merge_permissions ps ins"
  by (intro conjI merge_names [THEN conjunct1] merge_names [THEN conjunct2] merge_permissions_idem ballI)
     (metis Un_iff merge_covers_new merge_covers_old)

definition sample_permission :: "string \<Rightarrow> bool \<Rightarrow> bool \<Rightarrow> permission" where
  "sample_permission n adm usd = \<lparr>p_name = n, p_admin = adm, p_used = usd, p_actions = [], p_arn = []\<rparr>"

theorem merge_permissions_correct_witness:
  "\<exists>r \<in> set (merge_permissions [sample_permission ''s3'' False True] [sample_permission ''s3'' True False]).
      covers r (sample_permission ''s3'' True False)"
proof -
  let ?ps = "[sample_permission ''s3'' False True]" and ?ins = "[sample_permission ''s3'' True False]"
  have "\<forall>p \<in> set ?ps \<union> set ?ins. \<exists>r \<in> set (merge_permissions ?ps ?ins). covers r p"
    using merge_permissions_correct [of ?ps ?ins] by (elim conjE)
  moreover have "sample_permission ''s3'' True False \<in> set ?ps \<union> set ?ins" by simp
  ultimately show ?thesis by (rule bspec)
qed

section \<open>The store invariant\<close>

definition wf_store :: "store \<Rightarrow> bool" where
  "wf_store s \<longleftrightarrow> distinct (map fst (s_identities s)) \<and> (\<forall>(k, i) \<in> set (s_identities s). i_id i = k)"

datatype ingest = Event_of event | Identity_of identity | Mark "string list"

fun apply_ingest :: "ingest \<Rightarrow> store \<Rightarrow> store" where
  "apply_ingest (Event_of e) s = add_event e s"
| "apply_ingest (Identity_of i) s = add_identity i s"
| "apply_ingest (Mark ps) s = mark_privileged ps s"

lemma set_update_subset: "set (AList.update k v al) \<subseteq> insert (k, v) (set al)"
  by (induction al) auto

lemma wf_put: "wf_store s \<Longrightarrow> i_id i = k \<Longrightarrow> wf_store (put k i s)"
  using set_update_subset [of k i "s_identities s"]
  by (auto simp: wf_store_def put_def distinct_update)

lemma ensure_id: "wf_store s \<Longrightarrow> i_id (ensure s k) = k"
  by (auto simp: ensure_def lookup_def wf_store_def new_identity_def split: option.split dest!: map_of_SomeD)

lemma merge_identity_id [simp]: "i_id (merge_identity inp i) = i_id i"
  by (simp add: merge_identity_def)

lemma wf_fields [simp]: "wf_store (s\<lparr>s_seen := x\<rparr>) = wf_store s" "ensure (s\<lparr>s_seen := x\<rparr>) k = ensure s k"
  by (simp_all add: wf_store_def ensure_def lookup_def split: option.split)

lemma wf_add_event: "wf_store s \<Longrightarrow> wf_store (add_event e s)"
  by (simp add: add_event_def Let_def wf_put ensure_id)

lemma wf_add_identity: "wf_store s \<Longrightarrow> wf_store (add_identity i s)"
  by (simp add: add_identity_def wf_put ensure_id)

lemma wf_map:
  "(\<And>k i. i_id (f k i) = i_id i) \<Longrightarrow> wf_store s \<Longrightarrow>
   wf_store (s\<lparr>s_identities := map (\<lambda>(k, i). (k, f k i)) (s_identities s)\<rparr>)"
  by (auto simp: wf_store_def comp_def case_prod_unfold)

lemma wf_mark: "wf_store s \<Longrightarrow> wf_store (mark_privileged ps s)"
  using wf_map [of "\<lambda>k i. if k \<in> set ps then i\<lparr>i_privileged := True\<rparr> else i" s]
  by (simp add: mark_privileged_def wf_store_def)

lemma wf_sort_events: "wf_store s \<Longrightarrow> wf_store (sort_events s)"
  unfolding sort_events_def by (rule wf_map) (simp_all add: chronological_def)

lemma wf_ingest: "wf_store s \<Longrightarrow> wf_store (apply_ingest op s)"
  by (cases op) (simp_all add: wf_add_event wf_add_identity wf_mark)

lemma wf_new: "wf_store (new_store ps)"
  by (simp add: wf_store_def new_store_def)

lemma wf_ingests: "wf_store s \<Longrightarrow> wf_store (fold apply_ingest ops s)"
  by (induction ops arbitrary: s) (simp_all add: wf_ingest)

section \<open>Replays\<close>

lemma seen_add_event: "set (s_seen (add_event e s)) = insert e (set (s_seen s))"
  by (auto simp: add_event_def Let_def put_def)

lemma seen_add_events: "set (s_seen (fold add_event es s)) = set es \<union> set (s_seen s)"
  by (induction es arbitrary: s) (auto simp: seen_add_event)

lemma add_seen_events: "set es \<subseteq> set (s_seen s) \<Longrightarrow> fold add_event es s = s"
  by (induction es) (simp_all add: add_event_def)

lemma update_same: "map_of al k = Some v \<Longrightarrow> AList.update k v al = al"
  by (induction al) auto

lemma ensure_put [simp]: "ensure (put k i s) k = i"
  by (simp add: ensure_def lookup_def put_def update_conv')

lemma put_ensured: "lookup s k = Some i \<Longrightarrow> put k i s = s"
  by (simp add: put_def lookup_def update_same)

lemma merge_identity_idem:
  assumes "i_events inp = []"
  shows "merge_identity inp (merge_identity inp i) = merge_identity inp i"
  using assms by (simp add: merge_identity_def merge_permissions_idem)

text \<open>
  Replays change nothing: loading a list of events twice leaves the store exactly as loading it
  once did, whatever it already held, and so does loading an inventory identity twice when it carries
  no events of its own.
\<close>

theorem replay_changes_nothing:
  "fold add_event es (fold add_event es s) = fold add_event es s
   \<and> (i_events inp = [] \<longrightarrow> add_identity inp (add_identity inp s) = add_identity inp s)"
proof (intro conjI impI)
  show "fold add_event es (fold add_event es s) = fold add_event es s"
    by (rule add_seen_events) (simp add: seen_add_events)
next
  assume "i_events inp = []"
  then have "merge_identity inp (ensure (add_identity inp s) (i_id inp)) = merge_identity inp (ensure s (i_id inp))"
    by (simp add: add_identity_def merge_identity_idem)
  then show "add_identity inp (add_identity inp s) = add_identity inp s"
    by (simp add: add_identity_def [of inp "add_identity inp s"])
       (rule put_ensured, simp add: add_identity_def lookup_def put_def update_conv')
qed

theorem replay_changes_nothing_witness:
  "add_identity (new_identity ''bot'' True) (add_identity (new_identity ''bot'' True) (new_store []))
   = add_identity (new_identity ''bot'' True) (new_store [])"
  using replay_changes_nothing [of "[]" "new_store []" "new_identity ''bot'' True"]
  by (simp add: new_identity_def)

text \<open>
  The limit: an event is recognised by all its fields, the location pointer of its time included,
  so the same instant read under two locations is two events.
\<close>

lemma zone_defeats_replay:
  assumes "e_zone e \<noteq> z"
  shows "length (i_events (ensure (add_event (e\<lparr>e_zone := z\<rparr>) (add_event e (new_store []))) (e_identity e))) = 2"
proof -
  have "e\<lparr>e_zone := z\<rparr> \<noteq> e" using assms by (metis event.select_convs(2) event.surjective event.update_convs(2))
  then show ?thesis
    by (simp add: add_event_def Let_def new_store_def ensure_def lookup_def put_def new_identity_def)
qed

end
