(* ===== verification/Graph_Reader.thy ===== *)
theory Graph_Reader
  imports Graph_Facts
begin

text \<open>
  The read side of the graph: the contract of \<^verbatim>\<open>graph.Reader\<close> as the locale \<open>reader\<close>, provided by
  the store, and the delegation walk with the permissions it reaches.
\<close>

section \<open>The reader contract\<close>

locale reader =
  fixes wf :: "'s \<Rightarrow> bool" and identities_of :: "'s \<Rightarrow> identity list"
  assumes ids_ordered: "wf s \<Longrightarrow> sorted_wrt (<) (map i_id (identities_of s))"
    and chronology: "wf s \<Longrightarrow> i \<in> set (identities_of s) \<Longrightarrow> sorted (map e_time (i_events i))"
begin

definition index :: "'s \<Rightarrow> string \<Rightarrow> identity option" where
  "index s = map_of (map (\<lambda>i. (i_id i, i)) (identities_of s))"

lemma ids_distinct: "wf s \<Longrightarrow> distinct (map i_id (identities_of s))"
  using ids_ordered strict_sorted_iff by blast

lemma index_Some: "wf s \<Longrightarrow> index s k = Some i \<longleftrightarrow> i \<in> set (identities_of s) \<and> i_id i = k"
proof -
  assume "wf s"
  then have "distinct (map fst (map (\<lambda>i. (i_id i, i)) (identities_of s)))"
    using ids_distinct by (simp add: comp_def)
  then show ?thesis unfolding index_def by (subst map_of_eq_Some_iff) auto
qed

lemma same_id_same_identity:
  "wf s \<Longrightarrow> i \<in> set (identities_of s) \<Longrightarrow> j \<in> set (identities_of s) \<Longrightarrow> i_id i = i_id j \<Longrightarrow> i = j"
  using index_Some [of s "i_id i" i] index_Some [of s "i_id i" j] by simp

lemma last_event_latest:
  assumes "wf s" "i \<in> set (identities_of s)" "e \<in> set (i_events i)"
  shows "e_time e \<le> e_time (last (i_events i))"
proof -
  have srt: "sorted (map e_time (i_events i))" using chronology [OF assms(1,2)] .
  obtain n where n: "n < length (i_events i)" "e = i_events i ! n" using assms(3) by (auto simp: in_set_conv_nth)
  then have "last (i_events i) = i_events i ! (length (i_events i) - 1)" by (intro last_conv_nth) auto
  with n sorted_nth_mono [OF srt, of n "length (i_events i) - 1"] show ?thesis by auto
qed

end

section \<open>The store is a reader\<close>

lemma sort_key_strict: "distinct (map f xs) \<Longrightarrow> sorted_wrt (<) (map f (sort_key f xs))"
proof -
  assume "distinct (map f xs)"
  moreover have "mset (map f (sort_key f xs)) = mset (map f xs)" by simp
  ultimately have "distinct (map f (sort_key f xs))" by (metis mset_eq_imp_distinct_iff)
  then show ?thesis by (simp add: strict_sorted_iff)
qed

lemma wf_ids: "wf_store s \<Longrightarrow> map i_id (map snd (s_identities s)) = map fst (s_identities s)"
  by (force simp: wf_store_def)

lemma identities_ids: "wf_store s \<Longrightarrow> distinct (map i_id (map snd (s_identities (sort_events s))))"
proof -
  assume "wf_store s"
  then have "wf_store (sort_events s)" by (rule wf_sort_events)
  then show ?thesis by (simp only: wf_ids) (simp add: wf_store_def)
qed

interpretation mem: reader wf_store "\<lambda>s. fst (identities s)"
proof unfold_locales
  fix s assume "wf_store s"
  then show "sorted_wrt (<) (map i_id (fst (identities s)))"
    using sort_key_strict [OF identities_ids] by (simp add: identities_def Let_def)
next
  fix s i assume "wf_store s" "i \<in> set (fst (identities s))"
  then show "sorted (map e_time (i_events i))"
    by (auto simp: identities_def Let_def sort_events_def chronological_def)
qed

lemma sort_key_perm:
  assumes "mset xs = mset ys" "distinct (map f xs)"
  shows "sort_key f xs = sort_key f ys"
proof -
  have inj: "inj_on f (set xs)" using assms(2) distinct_map by blast
  have "distinct xs" "distinct ys"
    using assms distinct_map mset_eq_imp_distinct_iff by blast+
  moreover have "set xs = set ys" using assms(1) by (metis set_mset_mset)
  ultimately show ?thesis
    using inj assms(2) by (intro sort_key_inj_key_eq) (auto simp: assms(1))
qed

lemma mset_sort_events: "mset (s_identities s) = mset (s_identities t) \<Longrightarrow>
    mset (map snd (s_identities (sort_events s))) = mset (map snd (s_identities (sort_events t)))"
  by (simp add: sort_events_def image_mset.compositionality [symmetric])

text \<open>
  C33: What every detector may rely on, after any sequence of loads in any order: the identities come
  in strictly increasing order of ID, so none twice, each with its events in chronological order and
  none lost, exactly the identities of the store; and the answer does not depend on the order in which
  Go happens to iterate over the map.
\<close>

theorem identities_contract:
  assumes "s = fold apply_ingest ops (new_store ps)"
  shows "sorted_wrt (<) (map i_id (fst (identities s)))
    \<and> (\<forall>i \<in> set (fst (identities s)). sorted (map e_time (i_events i)))
    \<and> (\<forall>k. map_option (mset \<circ> i_events) (lookup s k) = map_option (mset \<circ> i_events) (mem.index s k))
    \<and> (\<forall>t. mset (s_identities t) = mset (s_identities s) \<longrightarrow> fst (identities t) = fst (identities s))"
proof (intro conjI ballI allI impI)
  have wf: "wf_store s" using assms wf_ingests wf_new by simp
  show "sorted_wrt (<) (map i_id (fst (identities s)))" by (rule mem.ids_ordered [OF wf])
  show "\<And>i. i \<in> set (fst (identities s)) \<Longrightarrow> sorted (map e_time (i_events i))" by (rule mem.chronology [OF wf])
  show "fst (identities t) = fst (identities s)" if "mset (s_identities t) = mset (s_identities s)" for t
    using sort_key_perm [OF mset_sort_events [OF that, symmetric] identities_ids [OF wf]]
    by (simp add: identities_def Let_def)
  show "map_option (mset \<circ> i_events) (lookup s k) = map_option (mset \<circ> i_events) (mem.index s k)" for k
  proof (cases "lookup s k")
    case (Some i)
    have mem: "(k, i) \<in> set (s_identities s)" using Some map_of_SomeD by (simp add: lookup_def)
    with wf have "i_id i = k" by (auto simp: wf_store_def)
    moreover have "chronological i \<in> set (fst (identities s))"
      using mem by (force simp: identities_def Let_def sort_events_def)
    ultimately have "mem.index s k = Some (chronological i)"
      using mem.index_Some [OF wf] by (simp add: chronological_def)
    with Some show ?thesis by (simp add: chronological_def)
  next
    case None
    have "mem.index s k = None"
    proof (rule ccontr)
      assume "mem.index s k \<noteq> None"
      then obtain i where "i \<in> set (fst (identities s))" "i_id i = k" using mem.index_Some [OF wf] by blast
      then obtain k' j where "(k', j) \<in> set (s_identities s)" "i_id j = k"
        by (auto simp: identities_def Let_def sort_events_def chronological_def)
      with wf have "k \<in> fst ` set (s_identities s)" by (force simp: wf_store_def)
      with None show False by (simp add: lookup_def map_of_eq_None_iff)
    qed
    with None show ?thesis by simp
  qed
qed

theorem identities_contract_witness:
  "map i_id (fst (identities (fold apply_ingest [Identity_of (new_identity ''b'' False), Identity_of (new_identity ''a'' True)] (new_store [])))) = [''a'', ''b'']
   \<and> sorted_wrt (<) (map i_id (fst (identities (fold apply_ingest [Identity_of (new_identity ''b'' False), Identity_of (new_identity ''a'' True)] (new_store [])))))"
proof
  show "map i_id (fst (identities (fold apply_ingest [Identity_of (new_identity ''b'' False), Identity_of (new_identity ''a'' True)] (new_store [])))) = [''a'', ''b'']"
    by code_simp
qed (rule identities_contract [OF refl, THEN conjunct1])

section \<open>Marking privileged identities\<close>

definition flag :: "string list \<Rightarrow> string \<Rightarrow> identity \<Rightarrow> identity" where
  "flag ps k i = (if k \<in> set ps then i\<lparr>i_privileged := True\<rparr> else i)"

lemma mark_alt:
  "mark_privileged ps s = s\<lparr>s_privileged := ps @ s_privileged s,
     s_identities := map (\<lambda>(k, i). (k, flag ps k i)) (s_identities s)\<rparr>"
  by (simp add: mark_privileged_def flag_def)

lemma map_of_map_snd: "map_of (map (\<lambda>(k, i). (k, f k i)) al) k = map_option (f k) (map_of al k)"
  by (induction al) auto

lemma ensure_mark: "ensure (mark_privileged ps s) k = flag ps k (ensure s k)"
  by (auto simp: ensure_def lookup_def mark_alt map_of_map_snd flag_def new_identity_def split: option.split)

lemma update_map: "AList.update k (f k i) (map (\<lambda>(k, i). (k, f k i)) al) = map (\<lambda>(k, i). (k, f k i)) (AList.update k i al)"
  by (induction al) auto

lemma put_mark: "put k (flag ps k i) (mark_privileged ps s) = mark_privileged ps (put k i s)"
  by (simp add: put_def mark_alt update_map)

lemma add_event_mark: "add_event e (mark_privileged ps s) = mark_privileged ps (add_event e s)"
proof -
  have seen: "(mark_privileged ps s)\<lparr>s_seen := x\<rparr> = mark_privileged ps (s\<lparr>s_seen := x\<rparr>)" for x
    by (simp add: mark_alt)
  have ev: "(flag ps k i)\<lparr>i_events := i_events (flag ps k i) @ [e]\<rparr> = flag ps k (i\<lparr>i_events := i_events i @ [e]\<rparr>)" for k i
    by (simp add: flag_def)
  have "s_seen (mark_privileged ps s) = s_seen s" by (simp add: mark_alt)
  then show ?thesis by (simp add: add_event_def Let_def ensure_mark seen ev put_mark)
qed

lemma add_identity_mark: "add_identity i (mark_privileged ps s) = mark_privileged ps (add_identity i s)"
proof -
  have "merge_identity i (flag ps k j) = flag ps k (merge_identity i j)" for k j
    by (simp add: merge_identity_def flag_def)
  then show ?thesis by (simp add: add_identity_def ensure_mark put_mark)
qed

text \<open>
  The set of privileged identities takes effect whenever it arrives: marking it on a graph that is
  already loaded, however it was loaded, gives exactly the graph that loading after marking gives, so
  no severity that depends on it is lost; and marking creates no identity.
\<close>

theorem mark_privileged_any_time:
  "fold add_event es (fold add_identity ids (mark_privileged ps s)) =
     mark_privileged ps (fold add_event es (fold add_identity ids s))
   \<and> map fst (s_identities (mark_privileged ps s)) = map fst (s_identities s)
   \<and> i_privileged (ensure (mark_privileged ps s) k) = (k \<in> set ps \<or> i_privileged (ensure s k))"
proof (intro conjI)
  have ids: "fold add_identity ids (mark_privileged ps s) = mark_privileged ps (fold add_identity ids s)" for s
    by (induction ids arbitrary: s) (simp_all add: add_identity_mark)
  have evs: "fold add_event es (mark_privileged ps s) = mark_privileged ps (fold add_event es s)" for s
    by (induction es arbitrary: s) (simp_all add: add_event_mark)
  show "fold add_event es (fold add_identity ids (mark_privileged ps s)) =
     mark_privileged ps (fold add_event es (fold add_identity ids s))"
    by (simp add: ids evs)
  show "map fst (s_identities (mark_privileged ps s)) = map fst (s_identities s)"
    by (simp add: mark_alt comp_def case_prod_unfold)
  show "i_privileged (ensure (mark_privileged ps s) k) = (k \<in> set ps \<or> i_privileged (ensure s k))"
    by (simp add: ensure_mark flag_def)
qed

end
