(* ===== verification/Go_Float.thy ===== *)
theory Go_Float
  imports Graph_Model
begin

text \<open>
  What the program does with \<^verbatim>\<open>float64\<close> and with the text of durations. A float is a real number (its
  rounding to 53 bits is left out); a NaN is \<open>None\<close>, and every comparison with it is false. The
  printing functions are those of \<^verbatim>\<open>strconv\<close> and \<^verbatim>\<open>time.Duration\<close> for the ranges the program
  prints: numbers that are not negative, and durations of at least one second.
\<close>

section \<open>Numbers\<close>

definition round_even :: "real \<Rightarrow> int" where
  "round_even x =
     (let f = \<lfloor>x\<rfloor>; r = x - of_int f in
      if r < 1 / 2 then f else if 1 / 2 < r then f + 1 else if even f then f else f + 1)"

definition zero_padded :: "nat \<Rightarrow> nat \<Rightarrow> string" where
  "zero_padded k n = (let s = utoa n in replicate (k - length s) (CHR ''0'') @ s)"

text \<open>\<^verbatim>\<open>%.kf\<close>.\<close>

definition fmt_fixed :: "nat \<Rightarrow> real \<Rightarrow> string" where
  "fmt_fixed k x =
     (let n = nat (round_even (x * 10 ^ k)) in
      if k = 0 then utoa n else utoa (n div 10 ^ k) @ ''.'' @ zero_padded k (n mod 10 ^ k))"

lemma round_even_near: "\<bar>of_int (round_even x) - x\<bar> \<le> 1 / 2"
  unfolding round_even_def Let_def by (auto simp: abs_if) linarith+

section \<open>Durations\<close>

definition seconds_of :: "int \<Rightarrow> real" where
  "seconds_of d = of_int d / of_int Second"

definition hours_of :: "int \<Rightarrow> real" where
  "hours_of d = of_int d / of_int Hour"

text \<open>\<^verbatim>\<open>d.Round(m)\<close> for a \<open>d\<close> that is not negative: to the nearest multiple, halves up.\<close>

definition duration_round :: "int \<Rightarrow> int \<Rightarrow> int" where
  "duration_round d m =
     (if m \<le> 0 then d
      else let r = d mod m in
        if r + r < m then d - r
        else if d + m - r \<le> max_duration then d + m - r else max_duration)"

definition duration_string :: "int \<Rightarrow> string" where
  "duration_string d =
     (let h = nat (d div Hour); m = nat (d div Minute mod 60); s = nat (d div Second mod 60); f = nat (d mod Second);
          secs = utoa s @ (if f = 0 then [] else ''.'' @ trim_right (zero_padded 9 f) ''0'') @ ''s''
      in (if h > 0 then utoa h @ ''h'' else []) @ (if h > 0 \<or> m > 0 then utoa m @ ''m'' else []) @ secs)"

end
