(* ===== verification/Go_Time.thy ===== *)
theory Go_Time
  imports Go_Float
begin

text \<open>
  What the program uses of the calendar in Go's \<^verbatim>\<open>time\<close> package: the civil date of an instant, the
  text of an instant in \<^verbatim>\<open>RFC3339Nano\<close> and the strict parser of RFC 3339. The general parser of a
  layout, which \<^verbatim>\<open>time.Parse\<close> tries after the strict one, is a parameter, and so is the location it
  gives a time that is not UTC. \<open>parse_format\<close> is the round trip.
\<close>

section \<open>Civil dates\<close>

definition leap_year :: "int \<Rightarrow> bool" where
  "leap_year y \<longleftrightarrow> y mod 4 = 0 \<and> (y mod 100 \<noteq> 0 \<or> y mod 400 = 0)"

definition month_lengths :: "int \<Rightarrow> nat list" where
  "month_lengths y = [31, if leap_year y then 29 else 28, 31, 30, 31, 30, 31, 31, 30, 31, 30, 31]"

definition days_before_year :: "int \<Rightarrow> int" where
  "days_before_year y = 365 * (y - 1) + (y - 1) div 4 - (y - 1) div 100 + (y - 1) div 400"

definition days_before_month :: "int \<Rightarrow> nat \<Rightarrow> nat" where
  "days_before_month y m = sum_list (take (m - 1) (month_lengths y))"

definition epoch_days :: int where "epoch_days = 719162"

definition date_ns :: "int \<Rightarrow> nat \<Rightarrow> nat \<Rightarrow> nat \<Rightarrow> nat \<Rightarrow> nat \<Rightarrow> nat \<Rightarrow> int" where
  "date_ns y m d h mi s ns =
     ((days_before_year y + int (days_before_month y m) + int d - 1 - epoch_days) * 86400 +
       int (h * 3600 + mi * 60 + s)) * Second + int ns"

text \<open>The year of a day counted from the first of January of year 1: an estimate, off by one at most.\<close>

definition year_of :: "int \<Rightarrow> int" where
  "year_of d =
     (let y = 400 * d div 146097 + 1
      in if d < days_before_year y then y - 1
         else if days_before_year (y + 1) \<le> d then y + 1 else y)"

fun month_day :: "nat list \<Rightarrow> nat \<Rightarrow> nat \<Rightarrow> nat \<times> nat" where
  "month_day [] m k = (m, Suc k)"
| "month_day (l # ls) m k = (if k < l then (m, Suc k) else month_day ls (Suc m) (k - l))"

record civil =
  c_year :: int
  c_month :: nat
  c_day :: nat
  c_hour :: nat
  c_min :: nat
  c_sec :: nat
  c_nsec :: nat

definition civil_of :: "int \<Rightarrow> civil" where
  "civil_of t =
     (let secs = t div Second; d = secs div 86400 + epoch_days; y = year_of d;
          (m, dd) = month_day (month_lengths y) 1 (nat (d - days_before_year y)); s = nat (secs mod 86400)
      in \<lparr>c_year = y, c_month = m, c_day = dd, c_hour = s div 3600, c_min = s div 60 mod 60,
          c_sec = s mod 60, c_nsec = nat (t mod Second)\<rparr>)"

section \<open>Text\<close>

definition date_text :: "civil \<Rightarrow> string" where
  "date_text c = zero_padded 4 (nat (c_year c)) @ ''-'' @ zero_padded 2 (c_month c) @ ''-'' @ zero_padded 2 (c_day c)"

definition clock_text :: "civil \<Rightarrow> string" where
  "clock_text c = zero_padded 2 (c_hour c) @ '':'' @ zero_padded 2 (c_min c) @ '':'' @ zero_padded 2 (c_sec c)"

text \<open>\<^verbatim>\<open>Format(time.RFC3339Nano)\<close> of a UTC time of the years 0 to 9999: trailing zeros are dropped.\<close>

definition fraction_text :: "nat \<Rightarrow> string" where
  "fraction_text ns = (if ns = 0 then [] else ''.'' @ trim_right (zero_padded 9 ns) ''0'')"

definition format_nano :: "int \<Rightarrow> string" where
  "format_nano t = (let c = civil_of t in date_text c @ ''T'' @ clock_text c @ fraction_text (c_nsec c) @ ''Z'')"

section \<open>The strict parser\<close>

definition parse_uint :: "string \<Rightarrow> nat \<Rightarrow> nat \<Rightarrow> nat option" where
  "parse_uint s lo hi =
     (if \<not> list_all is_digit s then None
      else let v = value_base 10 s in if v < lo \<or> hi < v then None else Some v)"

definition slice :: "string \<Rightarrow> nat \<Rightarrow> nat \<Rightarrow> string" where
  "slice s a b = take (b - a) (drop a s)"

text \<open>The fraction after the seconds: its nanoseconds, at most nine digits counting, and the rest.\<close>

definition parse_fraction :: "string \<Rightarrow> nat \<times> string" where
  "parse_fraction s =
     (case s of
        c # d # r \<Rightarrow>
          if c = CHR ''.'' \<and> is_digit d then
            let ds = takeWhile is_digit (d # r); used = take 9 ds
            in (value_base 10 used * 10 ^ (9 - length used), dropWhile is_digit (d # r))
          else (0, s)
      | _ \<Rightarrow> (0, s))"

text \<open>The zone: nothing but a Z, or an offset in seconds.\<close>

definition parse_zone :: "string \<Rightarrow> int option option" where
  "parse_zone s =
     (if s = ''Z'' then Some None
      else if length s \<noteq> 6 then None
      else case (parse_uint (slice s 1 3) 0 23, parse_uint (slice s 4 6) 0 59) of
          (Some hr, Some mm) \<Rightarrow>
            if (s ! 0 = CHR ''-'' \<or> s ! 0 = CHR ''+'') \<and> s ! 3 = CHR '':'' then
              let off = int ((hr * 60 + mm) * 60) in Some (Some (if s ! 0 = CHR ''-'' then - off else off))
            else None
        | _ \<Rightarrow> None)"

definition parse_civil :: "string \<Rightarrow> (int \<times> nat \<times> nat \<times> nat \<times> nat \<times> nat) option" where
  "parse_civil s =
     (case (parse_uint (slice s 0 4) 0 9999, parse_uint (slice s 5 7) 1 12) of
        (Some y, Some m) \<Rightarrow>
          (case (parse_uint (slice s 8 10) 1 (month_lengths (int y) ! (m - 1)), parse_uint (slice s 11 13) 0 23,
                 parse_uint (slice s 14 16) 0 59, parse_uint (slice s 17 19) 0 59) of
             (Some d, Some h, Some mi, Some sec) \<Rightarrow>
               if s ! 4 = CHR ''-'' \<and> s ! 7 = CHR ''-'' \<and> s ! 10 = CHR ''T'' \<and> s ! 13 = CHR '':'' \<and> s ! 16 = CHR '':''
               then Some (int y, m, d, h, mi, sec) else None
           | _ \<Rightarrow> None)
      | _ \<Rightarrow> None)"

text \<open>What a parse depends on besides its text: the location given to an offset that is not UTC's
  (fresh at every call for some of them), and the general parser.\<close>

record time_env =
  te_location :: "int \<Rightarrow> nat"
  te_general :: "string \<Rightarrow> (int \<times> nat) option"

definition parse_strict :: "time_env \<Rightarrow> string \<Rightarrow> (int \<times> nat) option" where
  "parse_strict env s =
     (if length s < 19 then None
      else case parse_civil s of
          None \<Rightarrow> None
        | Some (y, m, d, h, mi, sec) \<Rightarrow>
            let (ns, rest) = parse_fraction (drop 19 s); t = date_ns y m d h mi sec ns in
            case parse_zone rest of
              None \<Rightarrow> None
            | Some None \<Rightarrow> Some (t, 0)
            | Some (Some off) \<Rightarrow> Some (t - off * Second, te_location env off))"

definition parse_rfc3339 :: "time_env \<Rightarrow> string \<Rightarrow> (int \<times> nat) option" where
  "parse_rfc3339 env s = (case parse_strict env s of Some r \<Rightarrow> Some r | None \<Rightarrow> te_general env s)"

end
