(* ===== verification/Time_Text.thy ===== *)
theory Time_Text
  imports Go_Time Net_Text
begin

text \<open>
  The text of an instant is read back as the same instant: the calendar of \<open>Go_Time\<close> is inverted by
  \<open>date_ns\<close>, and the fields of the text are at the places the parser looks.
\<close>

section \<open>The calendar\<close>

lemma year_of_bounds: "days_before_year (year_of d) \<le> d \<and> d < days_before_year (year_of d + 1)"
proof -
  define y where "y = 400 * d div 146097 + 1"
  have q: "146097 * (y - 1) \<le> 400 * d" "400 * d < 146097 * y"
    using mult_div_mod_eq [of 146097 "400 * d"] pos_mod_bound [of 146097 "400 * d"]
      pos_mod_sign [of 146097 "400 * d"] by (simp_all add: y_def)
  have div_bounds: "n * (k div n) \<le> k" "k < n * (k div n) + n" if "0 < n" for n k :: int
    using mult_div_mod_eq [of n k] pos_mod_bound [of n k] pos_mod_sign [of n k] that by linarith+
  note db = div_bounds [of 4] div_bounds [of 100] div_bounds [of 400]
  have up: "400 * days_before_year z \<le> 146097 * (z - 1) + 396" for z
    using db [of "z - 1"] unfolding days_before_year_def by simp
  have low: "146097 * (z - 1) - 800 \<le> 400 * days_before_year z" for z
    using db [of "z - 1"] unfolding days_before_year_def by simp
  have "days_before_year (y - 1) \<le> d" using q up [of "y - 1"] by simp
  moreover have "d < days_before_year (y + 2)" using q low [of "y + 2"] by simp
  moreover have "year_of d = (if d < days_before_year y then y - 1 else if days_before_year (y + 1) \<le> d then y + 1 else y)"
    by (simp only: year_of_def y_def Let_def)
  ultimately show ?thesis by (simp add: add.commute [of y 2])
qed

lemma leap_day_count:
  fixes a b c :: int
  assumes "A - B = 365 + (if a = 0 then 1 else 0) - (if b = 0 then 1 else 0) + (if c = 0 then 1 else 0)"
    and "c = 0 \<longrightarrow> b = 0" "b = 0 \<longrightarrow> a = 0" "S = (if a = 0 \<and> (b \<noteq> 0 \<or> c = 0) then 366 else 365)"
  shows "S = A - (B :: int)"
  using assms by (cases "a = 0"; cases "b = 0"; cases "c = 0") simp_all

lemma year_length: "int (sum_list (month_lengths y)) = days_before_year (y + 1) - days_before_year y"
proof -
  have div_step: "y div n - (y - 1) div n = (if y mod n = 0 then 1 else 0)" if "0 < n" for n :: int
  proof (cases "y mod n = 0")
    case True
    then obtain k where "y = n * k" by auto
    then have "(y - 1) div n = k - 1"
      using that by (intro int_div_pos_eq [where r = "n - 1"]) (auto simp: algebra_simps)
    with \<open>y = n * k\<close> that show ?thesis by simp
  next
    case False
    then have "(y - 1) div n = y div n"
      using that pos_mod_sign [of n y] pos_mod_bound [of n y] mult_div_mod_eq [of n y]
      by (intro int_div_pos_eq [where r = "y mod n - 1"]) linarith+
    with False show ?thesis by simp
  qed
  have "days_before_year (y + 1) - days_before_year y = 365 + (if y mod 4 = 0 then 1 else 0)
      - (if y mod 100 = 0 then 1 else 0) + (if y mod 400 = 0 then 1 else 0)"
  proof -
    have add: "365 * k + a - b + c - (365 * (k - 1) + a' - b' + c') = 365 + u - v + w"
      if "a - a' = u" "b - b' = v" "c - c' = w" for a a' b b' c c' k u v w :: int
      using that by (simp add: algebra_simps)
    show ?thesis unfolding days_before_year_def add_diff_cancel_right'
      by (rule add) (rule div_step [OF zero_less_numeral])+
  qed
  moreover have "y mod 400 = 0 \<longrightarrow> y mod 100 = 0" "y mod 100 = 0 \<longrightarrow> y mod 4 = 0"
  proof -
    have "y mod 400 mod 100 = y mod 100" "y mod 100 mod 4 = y mod 4" by (rule mod_mod_cancel, simp)+
    then show "y mod 400 = 0 \<longrightarrow> y mod 100 = 0" "y mod 100 = 0 \<longrightarrow> y mod 4 = 0" by (metis mod_0)+
  qed
  moreover have "int (sum_list (month_lengths y)) = (if leap_year y then 366 else 365)"
    by (simp add: month_lengths_def)
  ultimately show ?thesis unfolding leap_year_def by (rule leap_day_count)
qed

lemma month_day_correct:
  "k < sum_list ls \<Longrightarrow> month_day ls m k = (m', d) \<Longrightarrow>
     m \<le> m' \<and> m' < m + length ls \<and> 1 \<le> d \<and> d \<le> ls ! (m' - m) \<and> sum_list (take (m' - m) ls) + d = Suc k"
proof (induction ls arbitrary: m k)
  case (Cons l ls)
  show ?case
  proof (cases "k < l")
    case False
    with Cons have "Suc m \<le> m' \<and> m' < Suc m + length ls \<and> 1 \<le> d \<and> d \<le> ls ! (m' - Suc m)
        \<and> sum_list (take (m' - Suc m) ls) + d = Suc (k - l)" by (intro Cons.IH) auto
    moreover from this have "m' - m = Suc (m' - Suc m)" by linarith
    ultimately show ?thesis using False by auto
  qed (use Cons in auto)
qed simp

text \<open>The fields of the civil date are in their ranges and add up to the instant.\<close>

definition civil_ranges :: "civil \<Rightarrow> bool" where
  "civil_ranges c \<longleftrightarrow> 1 \<le> c_month c \<and> c_month c \<le> 12 \<and> 1 \<le> c_day c
     \<and> c_day c \<le> month_lengths (c_year c) ! (c_month c - 1)
     \<and> c_hour c < 24 \<and> c_min c < 60 \<and> c_sec c < 60 \<and> c_nsec c < 10 ^ 9"

lemma civil_correct:
  "civil_ranges (civil_of t) \<and>
   date_ns (c_year (civil_of t)) (c_month (civil_of t)) (c_day (civil_of t)) (c_hour (civil_of t))
     (c_min (civil_of t)) (c_sec (civil_of t)) (c_nsec (civil_of t)) = t"
proof -
  define secs d y s where "secs = t div Second" and "d = secs div 86400 + epoch_days" and "y = year_of d"
    and "s = nat (secs mod 86400)"
  obtain m dd where md: "month_day (month_lengths y) 1 (nat (d - days_before_year y)) = (m, dd)" by fastforce
  have c: "civil_of t = \<lparr>c_year = y, c_month = m, c_day = dd, c_hour = s div 3600, c_min = s div 60 mod 60,
      c_sec = s mod 60, c_nsec = nat (t mod Second)\<rparr>"
    by (simp add: civil_of_def Let_def md [unfolded One_nat_def] flip: secs_def d_def y_def s_def)
  have yb: "days_before_year y \<le> d" "d < days_before_year (y + 1)"
    using year_of_bounds [of d] by (simp_all add: y_def)
  have "nat (d - days_before_year y) < sum_list (month_lengths y)"
    using yb year_length [of y] by linarith
  from month_day_correct [OF this md] have m: "1 \<le> m" "m \<le> 12" "1 \<le> dd" "dd \<le> month_lengths y ! (m - 1)"
      "days_before_month y m + dd = Suc (nat (d - days_before_year y))"
    by (auto simp: days_before_month_def) (simp_all add: month_lengths_def)
  have s: "s < 86400" "int s = secs mod 86400" by (simp_all add: s_def nat_less_iff)
  have hms: "s div 3600 * 3600 + s div 60 mod 60 * 60 + s mod 60 = s"
  proof -
    have "s div 3600 = s div 60 div 60" by (simp add: div_mult2_eq [symmetric])
    then show ?thesis using div_mult_mod_eq [of "s div 60" 60] div_mult_mod_eq [of s 60] by linarith
  qed
  have ns: "int (nat (t mod Second)) = t mod Second" "nat (t mod Second) < 10 ^ 9"
    by (simp_all add: durations nat_less_iff)
  have "date_ns y m dd (s div 3600) (s div 60 mod 60) (s mod 60) (nat (t mod Second)) =
      ((days_before_year y + int (days_before_month y m + dd) - 1 - epoch_days) * 86400 + int s) * Second + t mod Second"
    unfolding date_ns_def hms ns(1) by simp
  also have "\<dots> = (secs div 86400 * 86400 + secs mod 86400) * Second + t mod Second"
    using m(5) yb(1) s(2) by (simp add: d_def)
  also have "\<dots> = t" by (simp add: secs_def)
  finally have "date_ns y m dd (s div 3600) (s div 60 mod 60) (s mod 60) (nat (t mod Second)) = t" .
  moreover have "s div 3600 < 24" using s(1) by linarith
  moreover have "s div 60 mod 60 < 60" "s mod 60 < 60" by simp_all
  ultimately show ?thesis using m(1-4) ns(2) unfolding c civil_ranges_def civil.simps by (intro conjI)
qed

section \<open>Fields of fixed width\<close>

lemma length_utoa: "n < 10 ^ k \<Longrightarrow> 0 < k \<Longrightarrow> length (utoa n) \<le> k"
  using length_digits_base [of 10 n "k - 1"] by (cases k) (simp_all add: utoa_def)

lemma length_zero_padded: "n < 10 ^ k \<Longrightarrow> 0 < k \<Longrightarrow> length (zero_padded k n) = k"
  using length_utoa [of n k] by (simp add: zero_padded_def Let_def)

lemma zero_char: "CHR ''0'' = digit_char 0"
  by code_simp

lemma is_digit_zero [simp]: "is_digit (CHR ''0'')"
  by (simp add: is_digit_def)

lemma digits_zero_padded: "c \<in> set (zero_padded k n) \<Longrightarrow> is_digit c"
  using utoa_digits [of c n] by (auto simp: zero_padded_def Let_def)

lemma value_append: "value_base b (s @ t) = value_base b s * b ^ length t + value_base b t"
proof (induction t rule: rev_induct)
  case (snoc c t)
  then show ?case by (simp add: value_base_def algebra_simps flip: append_assoc)
qed (simp add: value_base_def)

lemma value_zeros [simp]: "value_base b (replicate j (CHR ''0'')) = 0"
proof (induction j)
  case (Suc j)
  have "value_base b [CHR ''0''] = 0" by (simp add: value_base_def zero_char)
  with Suc show ?case using value_append [of b "[CHR ''0'']" "replicate j (CHR ''0'')"] by simp
qed (simp add: value_base_def)

lemma value_zero_padded: "value_base 10 (zero_padded k n) = n"
  by (simp add: zero_padded_def Let_def value_append utoa_def value_digits_base)

lemma parse_uint_padded [simp]: "lo \<le> n \<Longrightarrow> n \<le> hi \<Longrightarrow> parse_uint (zero_padded k n) lo hi = Some n"
  using digits_zero_padded by (auto simp: parse_uint_def list_all_iff value_zero_padded)

section \<open>The fraction\<close>

lemma trim_right_zeros: "\<exists>j. s = trim_right s ''0'' @ replicate j (CHR ''0'')"
proof -
  let ?z = "takeWhile (\<lambda>c. c \<in> set ''0'') (rev s)"
  have "?z = replicate (length ?z) (CHR ''0'')"
    by (rule replicate_eqI) (auto dest: set_takeWhileD)
  moreover have "s = trim_right s ''0'' @ rev ?z"
    unfolding trim_right_def by (metis rev_append rev_rev_ident takeWhile_dropWhile_id)
  ultimately show ?thesis by (metis rev_replicate)
qed

lemma parse_fraction_text:
  assumes "ns < 10 ^ 9"
  shows "parse_fraction (fraction_text ns @ ''Z'') = (ns, ''Z'')"
proof (cases "ns = 0")
  case True
  then show ?thesis by (simp add: fraction_text_def parse_fraction_def)
next
  case False
  let ?d = "trim_right (zero_padded 9 ns) ''0''"
  obtain j where j: "zero_padded 9 ns = ?d @ replicate j (CHR ''0'')" using trim_right_zeros by blast
  have val: "value_base 10 ?d * 10 ^ j = ns"
    using value_append [of 10 ?d "replicate j (CHR ''0'')"] value_zero_padded [of 9 ns] j by simp
  then have ne: "?d \<noteq> []" using False by (auto simp: value_base_def)
  have len: "length ?d + j = 9"
    using length_zero_padded [OF assms] arg_cong [OF j, of length] by simp
  have dig: "is_digit c" if "c \<in> set ?d" for c
  proof (rule digits_zero_padded)
    have "c \<in> set (?d @ replicate j (CHR ''0''))" using that by simp
    then show "c \<in> set (zero_padded 9 ns)" by (simp only: j [symmetric])
  qed
  obtain c r where cr: "?d = c # r" using ne by (cases ?d) auto
  have run: "takeWhile is_digit (?d @ ''Z'') = ?d" "dropWhile is_digit (?d @ ''Z'') = ''Z''"
    using dig by (simp_all add: is_digit_def takeWhile_append2 dropWhile_append2)
  have "j = 9 - length ?d" "take 9 ?d = ?d" using len by simp_all
  then show ?thesis
    using False val run dig [of c] unfolding fraction_text_def parse_fraction_def cr
    by (simp add: Let_def)
qed

section \<open>The round trip\<close>

lemma slice_field: "length s = a \<Longrightarrow> length t = n \<Longrightarrow> b = a + n \<Longrightarrow> slice (s @ t @ r) a b = t"
  by (simp add: slice_def)

lemma month_length_bound: "1 \<le> m \<Longrightarrow> m \<le> 12 \<Longrightarrow> month_lengths y ! (m - 1) < 100"
proof -
  assume "1 \<le> m" "m \<le> 12"
  then have "month_lengths y ! (m - 1) \<in> set (month_lengths y)" by (intro nth_mem) (simp add: month_lengths_def)
  then show ?thesis by (auto simp: month_lengths_def split: if_splits)
qed

lemma parse_civil_text:
  assumes "civil_ranges c" "0 \<le> c_year c" "c_year c \<le> 9999"
  shows "parse_civil (date_text c @ ''T'' @ clock_text c @ rest) =
      Some (c_year c, c_month c, c_day c, c_hour c, c_min c, c_sec c)"
    and "length (date_text c @ ''T'' @ clock_text c) = 19"
proof -
  have r: "1 \<le> c_month c" "c_month c \<le> 12" "1 \<le> c_day c" "c_hour c < 24" "c_min c < 60" "c_sec c < 60"
      "c_day c \<le> month_lengths (c_year c) ! (c_month c - 1)"
    using assms(1) by (simp_all add: civil_ranges_def)
  have len: "length (zero_padded 4 (nat (c_year c))) = 4" "length (zero_padded 2 (c_month c)) = 2"
      "length (zero_padded 2 (c_day c)) = 2" "length (zero_padded 2 (c_hour c)) = 2"
      "length (zero_padded 2 (c_min c)) = 2" "length (zero_padded 2 (c_sec c)) = 2"
    using assms r month_length_bound [OF r(1,2), of "c_year c"] by (auto intro!: length_zero_padded)
  show "length (date_text c @ ''T'' @ clock_text c) = 19" by (simp add: date_text_def clock_text_def len)
  have y: "int (nat (c_year c)) = c_year c" using assms by simp
  let ?s = "date_text c @ ''T'' @ clock_text c @ rest"
  have fields: "slice ?s 0 4 = zero_padded 4 (nat (c_year c))" "slice ?s 5 7 = zero_padded 2 (c_month c)"
      "slice ?s 8 10 = zero_padded 2 (c_day c)" "slice ?s 11 13 = zero_padded 2 (c_hour c)"
      "slice ?s 14 16 = zero_padded 2 (c_min c)" "slice ?s 17 19 = zero_padded 2 (c_sec c)"
    by (simp_all add: slice_def date_text_def clock_text_def len)
  have marks: "?s ! 4 = CHR ''-''" "?s ! 7 = CHR ''-''" "?s ! 10 = CHR ''T''" "?s ! 13 = CHR '':''" "?s ! 16 = CHR '':''"
    by (simp_all add: date_text_def clock_text_def nth_append len)
  show "parse_civil ?s = Some (c_year c, c_month c, c_day c, c_hour c, c_min c, c_sec c)"
    unfolding parse_civil_def fields marks using assms r y by simp
qed

lemma parse_format:
  assumes "0 \<le> c_year (civil_of t)" "c_year (civil_of t) \<le> 9999"
  shows "parse_rfc3339 env (format_nano t) = Some (t, 0)"
proof -
  let ?c = "civil_of t"
  have ranges: "civil_ranges ?c" and t: "date_ns (c_year ?c) (c_month ?c) (c_day ?c) (c_hour ?c) (c_min ?c) (c_sec ?c) (c_nsec ?c) = t"
    using civil_correct [of t] by auto
  have shape: "format_nano t = (date_text ?c @ ''T'' @ clock_text ?c) @ fraction_text (c_nsec ?c) @ ''Z''"
    by (simp add: format_nano_def Let_def)
  have "parse_civil (format_nano t) = Some (c_year ?c, c_month ?c, c_day ?c, c_hour ?c, c_min ?c, c_sec ?c)"
    using parse_civil_text(1) [OF ranges assms] by (simp add: format_nano_def Let_def)
  moreover have "drop 19 (format_nano t) = fraction_text (c_nsec ?c) @ ''Z''" "\<not> length (format_nano t) < 19"
  proof -
    obtain front where front: "front = date_text ?c @ ''T'' @ clock_text ?c" by blast
    with parse_civil_text(2) [OF ranges assms] have "length front = 19" by simp
    then show "drop 19 (format_nano t) = fraction_text (c_nsec ?c) @ ''Z''" "\<not> length (format_nano t) < 19"
      unfolding shape front [symmetric] by simp_all
  qed
  moreover have "parse_fraction (fraction_text (c_nsec ?c) @ ''Z'') = (c_nsec ?c, ''Z'')"
    using ranges by (intro parse_fraction_text) (simp add: civil_ranges_def)
  ultimately show ?thesis by (simp add: parse_rfc3339_def parse_strict_def Let_def parse_zone_def t)
qed

text \<open>The years the text can show are the instants of year 0 to the end of year 9999.\<close>

definition printable_time :: "int \<Rightarrow> bool" where
  "printable_time t \<longleftrightarrow> date_ns 0 1 1 0 0 0 0 \<le> t \<and> t < date_ns 10000 1 1 0 0 0 0"

lemma days_before_year_mono: "x < y \<Longrightarrow> days_before_year x < days_before_year y"
proof (induction y rule: int_gr_induct)
  case base
  then show ?case using year_length [of x] by (simp add: month_lengths_def split: if_splits)
next
  case (step y)
  then show ?case using year_length [of y] by (simp add: month_lengths_def split: if_splits)
qed

lemma printable_year:
  assumes "printable_time t"
  shows "0 \<le> c_year (civil_of t)" "c_year (civil_of t) \<le> 9999"
proof -
  define d where "d = t div Second div 86400 + epoch_days"
  have t: "- 62167219200 * Second \<le> t" "t < 253402300800 * Second"
    using assms by (simp_all add: printable_time_def date_ns_def days_before_year_def days_before_month_def epoch_days_def)
  then have "- 62167219200 \<le> t div Second" "t div Second < 253402300800"
    by (simp_all add: durations)
  then have d: "days_before_year 0 \<le> d" "d < days_before_year 10000"
    by (simp_all add: d_def epoch_days_def days_before_year_def)
  have y: "c_year (civil_of t) = year_of d" by (simp add: civil_of_def Let_def d_def split: prod.split)
  from year_of_bounds [of d] d have "days_before_year 0 < days_before_year (year_of d + 1)"
      "days_before_year (year_of d) < days_before_year 10000" by linarith+
  then have "0 < year_of d + 1" "year_of d < 10000"
    using days_before_year_mono [of "year_of d + 1" 0] days_before_year_mono [of 10000 "year_of d"]
    by (metis linorder_neqE_linordered_idom order_less_asym)+
  then show "0 \<le> c_year (civil_of t)" "c_year (civil_of t) \<le> 9999" by (simp_all add: y)
qed

end
