(* ===== verification/Ingest_Events.thy ===== *)
theory Ingest_Events
  imports Graph_Reader Time_Text
begin

text \<open>
  The connectors that read logs into events (\<^verbatim>\<open>internal/ingest\<close>: \<^verbatim>\<open>okta.go\<close>, \<^verbatim>\<open>entra.go\<close>,
  \<^verbatim>\<open>cloudtrail.go\<close>, \<^verbatim>\<open>egress.go\<close>), and the report of what was skipped. Decoding JSON is a parameter
  that yields an error or the entries in the fields of the Go structures; a connector adds its own
  error behaviour. The time environment is indexed by the number of the entry, because a location
  may be a fresh one at every parse.
\<close>

section \<open>Reports\<close>

record report =
  rp_records :: nat
  rp_malformed :: nat

text \<open>The loop of the connectors: every entry is counted, one without a usable time is skipped.\<close>

definition read_entry :: "(nat \<Rightarrow> 'r \<Rightarrow> 'a option) \<Rightarrow> 'r \<Rightarrow> 'a list \<times> report \<Rightarrow> 'a list \<times> report" where
  "read_entry convert r acc =
     (let (out, rep) = acc; rep' = rep\<lparr>rp_records := Suc (rp_records rep)\<rparr>
      in case convert (rp_records rep) r of
           None \<Rightarrow> (out, rep'\<lparr>rp_malformed := Suc (rp_malformed rep')\<rparr>)
         | Some x \<Rightarrow> (out @ [x], rep'))"

definition read_entries :: "(nat \<Rightarrow> 'r \<Rightarrow> 'a option) \<Rightarrow> 'r list \<Rightarrow> 'a list \<times> report" where
  "read_entries convert rs = fold (read_entry convert) rs ([], \<lparr>rp_records = 0, rp_malformed = 0\<rparr>)"

definition blank_event :: "int \<times> nat \<Rightarrow> string \<Rightarrow> string \<Rightarrow> string \<Rightarrow> event" where
  "blank_event t k ty outcome =
     \<lparr>e_time = fst t, e_zone = snd t, e_identity = k, e_type = ty, e_outcome = outcome, e_ip = [], e_city = [],
      e_country = [], e_lat = 0, e_lon = 0, e_device = [], e_resource = [], e_severity = [], e_source = []\<rparr>"

section \<open>Okta\<close>

record okta_event =
  ok_published :: string
  ok_event_type :: string
  ok_result :: string
  ok_actor :: string
  ok_ip :: string
  ok_user_agent :: string
  ok_city :: string
  ok_country :: string
  ok_lat :: real
  ok_lon :: real

definition map_type :: "string \<Rightarrow> string" where
  "map_type t =
     (if contains t ''push'' \<or> contains t ''factor'' \<or> contains t ''.mfa.'' then EventMFAChallenge
      else if contains t ''session.start'' \<or> has_prefix t ''user.authentication'' then EventLogin
      else EventOther)"

definition okta_convert :: "(nat \<Rightarrow> time_env) \<Rightarrow> nat \<Rightarrow> okta_event \<Rightarrow> event option" where
  "okta_convert env n r =
     (case parse_rfc3339 (env n) (ok_published r) of
        None \<Rightarrow> None
      | Some t \<Rightarrow> Some ((blank_event t (ok_actor r) (map_type (ok_event_type r)) (ok_result r))
          \<lparr>e_ip := ok_ip r, e_city := ok_city r, e_country := ok_country r, e_lat := ok_lat r, e_lon := ok_lon r,
           e_device := ok_user_agent r\<rparr>))"

definition okta :: "('d \<Rightarrow> 'e + okta_event list) \<Rightarrow> (nat \<Rightarrow> time_env) \<Rightarrow> 'd \<Rightarrow> 'e + event list \<times> report" where
  "okta decode env data =
     (case decode data of Inl err \<Rightarrow> Inl err | Inr raw \<Rightarrow> Inr (read_entries (okta_convert env) raw))"

section \<open>Entra\<close>

record entra_sign_in =
  en_created :: string
  en_user :: string
  en_ip :: string
  en_error_code :: int
  en_browser :: string
  en_operating_system :: string
  en_city :: string
  en_country :: string
  en_lat :: real
  en_lon :: real

definition entra_convert :: "(nat \<Rightarrow> time_env) \<Rightarrow> nat \<Rightarrow> entra_sign_in \<Rightarrow> event option" where
  "entra_convert env n r =
     (case parse_rfc3339 (env n) (en_created r) of
        None \<Rightarrow> None
      | Some t \<Rightarrow> Some ((blank_event t (en_user r) EventLogin (if en_error_code r \<noteq> 0 then ''FAILURE'' else ''SUCCESS''))
          \<lparr>e_ip := en_ip r, e_city := en_city r, e_country := en_country r, e_lat := en_lat r, e_lon := en_lon r,
           e_device := trim_space (en_browser r @ '' '' @ en_operating_system r)\<rparr>))"

text \<open>The envelope, whose value may be absent, and the bare array tried when it fails or is absent.\<close>

definition entra ::
    "('d \<Rightarrow> 'e + entra_sign_in list option) \<Rightarrow> ('d \<Rightarrow> 'e + entra_sign_in list) \<Rightarrow> (nat \<Rightarrow> time_env) \<Rightarrow> 'd
      \<Rightarrow> 'e + event list \<times> report" where
  "entra decode_envelope decode_bare env data =
     (case decode_envelope data of
        Inr (Some value) \<Rightarrow> Inr (read_entries (entra_convert env) value)
      | Inr None \<Rightarrow>
          (case decode_bare data of
             Inl err2 \<Rightarrow> Inl err2
           | Inr bare \<Rightarrow> Inr (read_entries (entra_convert env) bare))
      | Inl err \<Rightarrow>
          (case decode_bare data of
             Inl err2 \<Rightarrow> Inl err
           | Inr bare \<Rightarrow> Inr (read_entries (entra_convert env) bare)))"

section \<open>CloudTrail\<close>

record ct_record =
  ct_time :: string
  ct_name :: string
  ct_event_source :: string
  ct_ip :: string
  ct_user_agent :: string
  ct_error_code :: string
  ct_arn :: string
  ct_type :: string

definition ct_convert :: "(nat \<Rightarrow> time_env) \<Rightarrow> nat \<Rightarrow> ct_record \<Rightarrow> event option" where
  "ct_convert env n r =
     (case parse_rfc3339 (env n) (ct_time r) of
        None \<Rightarrow> None
      | Some t \<Rightarrow> Some ((blank_event t (if ct_arn r = [] then ct_type r else ct_arn r)
            (if ct_name r = ''ConsoleLogin'' then EventLogin else EventOther)
            (if ct_error_code r \<noteq> [] then ''FAILURE'' else ''SUCCESS''))
          \<lparr>e_ip := ct_ip r, e_device := ct_user_agent r\<rparr>))"

definition cloud_trail :: "('d \<Rightarrow> 'e + ct_record list) \<Rightarrow> (nat \<Rightarrow> time_env) \<Rightarrow> 'd \<Rightarrow> 'e + event list \<times> report" where
  "cloud_trail decode env data =
     (case decode data of Inl err \<Rightarrow> Inl err | Inr raw \<Rightarrow> Inr (read_entries (ct_convert env) raw))"

section \<open>Egress\<close>

record egress_entry =
  eg_time :: string
  eg_identity :: string
  eg_destination :: string
  eg_bytes :: int

definition egress_convert :: "(nat \<Rightarrow> time_env) \<Rightarrow> nat \<Rightarrow> egress_entry \<Rightarrow> event option" where
  "egress_convert env n f =
     (case parse_rfc3339 (env n) (eg_time f) of
        None \<Rightarrow> None
      | Some t \<Rightarrow> Some ((blank_event t (eg_identity f) EventEgress ''SUCCESS'')\<lparr>e_resource := eg_destination f\<rparr>))"

definition egress :: "('d \<Rightarrow> 'e + egress_entry list) \<Rightarrow> (nat \<Rightarrow> time_env) \<Rightarrow> 'd \<Rightarrow> 'e + event list \<times> report" where
  "egress decode env data =
     (case decode data of Inl err \<Rightarrow> Inl err | Inr raw \<Rightarrow> Inr (read_entries (egress_convert env) raw))"

section \<open>Nothing is dropped without being counted\<close>

definition convert_all :: "(nat \<Rightarrow> 'r \<Rightarrow> 'a option) \<Rightarrow> 'r list \<Rightarrow> 'a option list" where
  "convert_all convert rs = map2 convert [0..<length rs] rs"

lemma read_entries_snoc: "read_entries convert (rs @ [r]) = read_entry convert r (read_entries convert rs)"
  by (simp add: read_entries_def)

lemma convert_all_snoc: "convert_all convert (rs @ [r]) = convert_all convert rs @ [convert (length rs) r]"
  by (simp add: convert_all_def)

lemma read_entries_result:
  "read_entries convert rs =
     (List.map_filter (\<lambda>x. x) (convert_all convert rs),
      \<lparr>rp_records = length rs, rp_malformed = length (filter Option.is_none (convert_all convert rs))\<rparr>)"
proof (induction rs rule: rev_induct)
  case (snoc r rs)
  then show ?case
    by (auto simp: read_entries_snoc read_entry_def convert_all_snoc map_filter_def split: option.split)
qed (simp_all add: read_entries_def convert_all_def map_filter_def)

lemma map_filter_accounts: "length (List.map_filter (\<lambda>x. x) xs) + length (filter Option.is_none xs) = length xs"
  by (induction xs) (auto simp: map_filter_def Option.is_none_def)

lemma length_convert_all [simp]: "length (convert_all convert rs) = length rs"
  by (simp add: convert_all_def)

lemma read_entries_accounts:
  "length (fst (read_entries convert rs)) + rp_malformed (snd (read_entries convert rs)) = length rs"
  using map_filter_accounts [of "convert_all convert rs"] by (simp add: read_entries_result)

lemma read_entries_from:
  "x \<in> set (fst (read_entries convert rs)) \<longleftrightarrow> (\<exists>n < length rs. convert n (rs ! n) = Some x)"
proof -
  have "x \<in> set (fst (read_entries convert rs)) \<longleftrightarrow> Some x \<in> set (convert_all convert rs)"
    by (force simp: read_entries_result map_filter_def)
  also have "\<dots> \<longleftrightarrow> (\<exists>n < length rs. convert n (rs ! n) = Some x)"
    by (simp only: in_set_conv_nth length_convert_all) (auto simp: convert_all_def)
  finally show ?thesis .
qed

lemma read_entries_all:
  assumes "\<And>n r. n < length rs \<Longrightarrow> convert n (rs ! n) = Some (f (rs ! n))"
  shows "read_entries convert rs = (map f rs, \<lparr>rp_records = length rs, rp_malformed = 0\<rparr>)"
proof -
  have "convert_all convert rs = map (Some \<circ> f) rs"
    using assms by (intro nth_equalityI) (simp_all add: convert_all_def)
  then show ?thesis by (simp add: read_entries_result map_filter_def comp_def filter_empty_conv)
qed

text \<open>What a connector of logs promises, for the entries its decoder finds.\<close>

locale connector =
  fixes env :: "nat \<Rightarrow> time_env"
    and stamp :: "'r \<Rightarrow> string" and who :: "'r \<Rightarrow> string"
    and convert :: "nat \<Rightarrow> 'r \<Rightarrow> event option"
    and entries :: "'d \<Rightarrow> 'e + 'r list" and read :: "'d \<Rightarrow> 'e + event list \<times> report"
  assumes reads: "read d = (case entries d of Inl err \<Rightarrow> Inl err | Inr raw \<Rightarrow> Inr (read_entries convert raw))"
    and drops: "convert n r = None \<longleftrightarrow> parse_rfc3339 (env n) (stamp r) = None"
    and keeps: "convert n r = Some e \<Longrightarrow>
      parse_rfc3339 (env n) (stamp r) = Some (e_time e, e_zone e) \<and> e_identity e = who r"
begin

lemma accounts:
  assumes "entries d = Inr raw"
  shows "\<exists>evs rep. read d = Inr (evs, rep) \<and> rp_records rep = length raw
    \<and> length evs + rp_malformed rep = length raw
    \<and> (rp_malformed rep = 0 \<longleftrightarrow> (\<forall>n < length raw. parse_rfc3339 (env n) (stamp (raw ! n)) \<noteq> None))
    \<and> (\<forall>e \<in> set evs. \<exists>n < length raw.
         parse_rfc3339 (env n) (stamp (raw ! n)) = Some (e_time e, e_zone e) \<and> e_identity e = who (raw ! n))"
proof -
  obtain evs rep where er: "read_entries convert raw = (evs, rep)" by fastforce
  have "rp_records rep = length raw" "rp_malformed rep = length (filter Option.is_none (convert_all convert raw))"
    using er by (auto simp: read_entries_result)
  moreover have "filter Option.is_none (convert_all convert raw) = [] \<longleftrightarrow>
      (\<forall>n < length raw. parse_rfc3339 (env n) (stamp (raw ! n)) \<noteq> None)"
    unfolding filter_empty_conv all_set_conv_all_nth
    by (simp add: convert_all_def Option.is_none_def drops)
  moreover have "\<forall>e \<in> set evs. \<exists>n < length raw.
      parse_rfc3339 (env n) (stamp (raw ! n)) = Some (e_time e, e_zone e) \<and> e_identity e = who (raw ! n)"
    using read_entries_from [of _ convert raw] keeps er by fastforce
  ultimately show ?thesis
    using assms er read_entries_accounts [of convert raw] by (simp add: reads)
qed

end

definition entra_entries ::
    "('d \<Rightarrow> 'e + entra_sign_in list option) \<Rightarrow> ('d \<Rightarrow> 'e + entra_sign_in list) \<Rightarrow> 'd \<Rightarrow> 'e + entra_sign_in list" where
  "entra_entries decode_envelope decode_bare d =
     (case (decode_envelope d, decode_bare d) of
        (Inr (Some value), _) \<Rightarrow> Inr value
      | (_, Inr bare) \<Rightarrow> Inr bare
      | (Inl err, _) \<Rightarrow> Inl err
      | (_, Inl err) \<Rightarrow> Inl err)"

interpretation okta: connector env ok_published ok_actor "okta_convert env" decode "okta decode env"
  for env decode
  by unfold_locales (auto simp: okta_def okta_convert_def blank_event_def split: option.splits)

interpretation entra: connector env en_created en_user "entra_convert env" "entra_entries envelope bare" "entra envelope bare env"
  for env envelope bare
  by unfold_locales
    (auto simp: entra_def entra_entries_def entra_convert_def blank_event_def split: option.splits sum.splits)

interpretation ct: connector env ct_time "\<lambda>r. if ct_arn r = [] then ct_type r else ct_arn r"
    "ct_convert env" decode "cloud_trail decode env"
  for env decode
  by unfold_locales (auto simp: cloud_trail_def ct_convert_def blank_event_def split: option.splits)

interpretation eg: connector env eg_time eg_identity "egress_convert env" decode "egress decode env"
  for env decode
  by unfold_locales (auto simp: egress_def egress_convert_def blank_event_def split: option.splits)

definition accounted ::
    "(nat \<Rightarrow> time_env) \<Rightarrow> ('r \<Rightarrow> string) \<Rightarrow> ('r \<Rightarrow> string) \<Rightarrow> 'e + 'r list \<Rightarrow> 'e + event list \<times> report \<Rightarrow> bool" where
  "accounted env stamp who entries result \<longleftrightarrow>
     (case (entries, result) of
        (Inl err, Inl err') \<Rightarrow> err = err'
      | (Inr raw, Inr (evs, rep)) \<Rightarrow>
          rp_records rep = length raw \<and> length evs + rp_malformed rep = length raw
          \<and> (rp_malformed rep = 0 \<longleftrightarrow> (\<forall>n < length raw. parse_rfc3339 (env n) (stamp (raw ! n)) \<noteq> None))
          \<and> (\<forall>e \<in> set evs. \<exists>n < length raw.
               parse_rfc3339 (env n) (stamp (raw ! n)) = Some (e_time e, e_zone e) \<and> e_identity e = who (raw ! n))
      | _ \<Rightarrow> False)"

lemma connector_accounted:
  assumes "connector env stamp who convert entries read"
  shows "accounted env stamp who (entries d) (read d)"
proof (cases "entries d")
  case (Inl err)
  then show ?thesis by (simp add: accounted_def connector.reads [OF assms])
next
  case (Inr raw)
  from connector.accounts [OF assms Inr] Inr show ?thesis by (auto simp: accounted_def)
qed

text \<open>
  C26: No connector of logs loses an entry silently. When the input does not decode, that error is the
  result and there are no events; when it does, the report counts every entry, the events and the
  malformed ones add up to the entries, an entry is malformed only when its own time does not parse,
  and every event carries the time, the location and the identity of one entry.
\<close>

theorem connectors_count_everything:
  "accounted env ok_published ok_actor (decode_okta d) (okta decode_okta env d)
   \<and> accounted env en_created en_user (entra_entries envelope bare d) (entra envelope bare env d)
   \<and> accounted env ct_time (\<lambda>r. if ct_arn r = [] then ct_type r else ct_arn r)
       (decode_ct d) (cloud_trail decode_ct env d)
   \<and> accounted env eg_time eg_identity (decode_egress d) (egress decode_egress env d)"
  by (intro conjI)
    (rule connector_accounted [OF okta.connector_axioms] connector_accounted [OF entra.connector_axioms]
      connector_accounted [OF ct.connector_axioms] connector_accounted [OF eg.connector_axioms])+

end
