(* ===== verification/Graph_Delegation.thy ===== *)
theory Graph_Delegation
  imports Graph_Reader
begin

text \<open>
  The delegation walk of \<^verbatim>\<open>WalkDelegationChain\<close> and what \<^verbatim>\<open>EffectivePermissions\<close> and
  \<^verbatim>\<open>BlastRadius\<close> collect along it. The walk is a total function: its termination proof counts the
  principals not yet in the chain.
\<close>

section \<open>The chain\<close>

text \<open>\<open>p\<close> is a principal that \<open>q\<close> acts for, as the index has it.\<close>

definition acts_for :: "(string \<times> identity) list \<Rightarrow> string \<Rightarrow> string \<Rightarrow> bool" where
  "acts_for index q p \<longleftrightarrow> (\<exists>node. map_of index q = Some node \<and> p \<in> set (i_on_behalf_of node))"

lemma walk_extends:
  "distinct chain \<Longrightarrow> cur \<in> set chain \<Longrightarrow>
   \<exists>new. walk index cur chain = chain @ new \<and> distinct (chain @ new)
     \<and> (\<forall>p \<in> set new. \<exists>q \<in> set (chain @ new). acts_for index q p)
     \<and> (\<forall>p. acts_for index cur p \<longrightarrow> p \<in> set (chain @ new))"
proof (induction index cur chain rule: walk.induct)
  case (1 index cur chain)
  show ?case
  proof (cases "map_of index cur")
    case None
    then show ?thesis using 1 by (simp add: walk.simps [of index cur chain] acts_for_def)
  next
    case (Some node)
    obtain chain' nxt where r: "foldl add_principal (chain, []) (rev (i_on_behalf_of node)) = (chain', nxt)"
      by fastforce
    obtain new where new: "chain' = chain @ new" "set new = set (i_on_behalf_of node) - set chain"
      "distinct chain'" "nxt = (if new = [] then [] else last new)"
      using foldl_add_principal [OF r] 1(2) by auto
    have acts: "acts_for index cur p \<longleftrightarrow> p \<in> set (i_on_behalf_of node)" for p
      using Some by (simp add: acts_for_def)
    show ?thesis
    proof (cases "nxt = []")
      case True
      then have "walk index cur chain = chain @ new"
        using Some r new(1) by (subst walk.simps) simp
      then show ?thesis using new 1(3) acts by (intro exI [of _ new]) auto
    next
      case False
      have "nxt \<in> set chain'" using False new by (auto split: if_splits)
      moreover have "walk index cur chain = walk index nxt chain'"
        using Some r False by (subst walk.simps) simp
      ultimately obtain more where more: "walk index cur chain = chain' @ more" "distinct (chain' @ more)"
        "\<forall>p \<in> set more. \<exists>q \<in> set (chain' @ more). acts_for index q p"
        using 1(1) [OF Some refl] r False new(3) by auto
      then show ?thesis using new acts 1(3) by (intro exI [of _ "new @ more"]) auto
    qed
  qed
qed

lemma walk_chain:
  obtains new where "walk_delegation_chain index start = start # new" "distinct (start # new)"
    "\<forall>p \<in> set new. \<exists>q \<in> set (start # new). acts_for index q p"
    "\<forall>p. acts_for index start p \<longrightarrow> p \<in> set (start # new)"
  using walk_extends [of "[start]" start index] by (auto simp: walk_delegation_chain_def)

lemma acts_for_principals: "acts_for index q p \<Longrightarrow> p \<in> principals index"
  by (force simp: acts_for_def principals_def dest: map_of_SomeD)

text \<open>
  C35: The delegation walk always ends, cycles and missing links included, and what it returns is a
  chain of authority: it starts at the identity asked for, repeats nobody, contains every principal of
  that identity, contains nobody who is not a principal of somebody in it, and is no longer than the
  number of principals recorded in the graph plus one.
\<close>

theorem delegation_chain_correct:
  "hd (walk_delegation_chain index start) = start
   \<and> distinct (walk_delegation_chain index start)
   \<and> (\<forall>p. acts_for index start p \<longrightarrow> p \<in> set (walk_delegation_chain index start))
   \<and> (\<forall>p \<in> set (tl (walk_delegation_chain index start)).
        \<exists>q \<in> set (walk_delegation_chain index start). acts_for index q p)
   \<and> length (walk_delegation_chain index start) \<le> 1 + card (principals index)"
proof -
  obtain new where c: "walk_delegation_chain index start = start # new" and d: "distinct (start # new)"
    and up: "\<forall>p \<in> set new. \<exists>q \<in> set (start # new). acts_for index q p"
    and own: "\<forall>p. acts_for index start p \<longrightarrow> p \<in> set (start # new)"
    using walk_chain [of index start] .
  have "set new \<subseteq> principals index" using up acts_for_principals by blast
  then have "length new \<le> card (principals index)"
    using d card_mono [OF finite_principals] by (metis distinct.simps(2) distinct_card)
  with d up own show ?thesis by (simp add: c)
qed

definition sample_agent :: "string \<Rightarrow> string list \<Rightarrow> string list \<Rightarrow> string \<times> identity" where
  "sample_agent k principals_of perms =
     (k, (new_identity k False)\<lparr>i_type := IdentityAgent, i_on_behalf_of := principals_of,
        i_permissions := map (\<lambda>n. sample_permission n False False) perms\<rparr>)"

text \<open>A cycle: \<^verbatim>\<open>a\<close> acts for \<^verbatim>\<open>b\<close>, \<^verbatim>\<open>b\<close> for \<^verbatim>\<open>a\<close> and for the user.\<close>

definition sample_index :: "(string \<times> identity) list" where
  "sample_index = [sample_agent ''a'' [''b''] [''s3''], sample_agent ''b'' [''u'', ''a''] [''s3'', ''iam'']]"

lemma sample_chain: "walk_delegation_chain sample_index ''a'' = [''a'', ''b'', ''u'']"
  by (simp add: walk_delegation_chain_def sample_index_def sample_agent_def new_identity_def walk.simps)

theorem delegation_chain_correct_witness:
  "\<exists>q \<in> set [''a'', ''b'', ''u'']. acts_for sample_index q ''u''"
  using delegation_chain_correct [where index = sample_index and start = "''a''"]
  by (simp only: sample_chain) simp

text \<open>
  Where the walk goes on from: the last principal that was new, not the root of the chain. When the
  root is already in the chain, the rest of a further principal's own chain is followed instead.
\<close>

lemma walk_continues_from_last_new:
  "walk_delegation_chain
     [sample_agent ''a'' [''a'', ''b''] [], sample_agent ''b'' [''c''] []] ''a'' = [''a'', ''b'', ''c'']"
  by (simp add: walk_delegation_chain_def sample_agent_def new_identity_def walk.simps)

section \<open>Blast radius\<close>

lemma keep_first_names:
  "distinct (map p_name out) \<Longrightarrow> distinct (map p_name (foldl keep_first out ps))
     \<and> p_name ` set (foldl keep_first out ps) = p_name ` set out \<union> p_name ` set ps"
proof (induction ps arbitrary: out)
  case (Cons p ps)
  then show ?case by (cases "p_name p \<in> p_name ` set out") (auto simp: keep_first_def)
qed simp

lemma find_append: "find P (xs @ ys) = (case find P xs of Some x \<Rightarrow> Some x | None \<Rightarrow> find P ys)"
  by (induction xs) auto

lemma find_SomeD: "find P xs = Some x \<Longrightarrow> P x \<and> x \<in> set xs"
  by (induction xs) (auto split: if_splits)

lemma keep_first_find:
  "find (\<lambda>q. p_name q = n) (foldl keep_first out ps) = find (\<lambda>q. p_name q = n) (out @ ps)"
proof (induction ps arbitrary: out)
  case (Cons p ps)
  have "find (\<lambda>q. p_name q = n) (keep_first out p @ ps) = find (\<lambda>q. p_name q = n) (out @ p # ps)"
  proof (cases "p_name p \<in> p_name ` set out \<and> p_name p = n")
    case True
    then have "find (\<lambda>q. p_name q = n) out \<noteq> None" by (auto simp: find_None_iff)
    with True show ?thesis by (auto simp: keep_first_def find_append)
  next
    case False
    then show ?thesis by (auto simp: keep_first_def find_append split: option.split)
  qed
  with Cons show ?case by simp
qed simp

lemma blast_radius_fold:
  "foldl (\<lambda>out link. case map_of index link of None \<Rightarrow> out | Some node \<Rightarrow> foldl keep_first out (i_permissions node))
     out links =
   foldl keep_first out (concat (map (\<lambda>link. case map_of index link of Some node \<Rightarrow> i_permissions node | None \<Rightarrow> []) links))"
  by (induction links arbitrary: out) (auto split: option.split)

text \<open>
  The blast radius of an identity is what its delegation chain can do, each grant named once:
  the names are exactly those of the effective permissions, none appears twice, and the grant kept
  for a name is the first one met, so an identity's own grant wins over a principal's of the same name.
\<close>

theorem blast_radius_correct:
  "distinct (map p_name (blast_radius (s_identities s) k))
   \<and> p_name ` set (blast_radius (s_identities s) k) = p_name ` set (effective_permissions s k)
   \<and> (\<forall>n. find (\<lambda>q. p_name q = n) (blast_radius (s_identities s) k) =
          find (\<lambda>q. p_name q = n) (effective_permissions s k))"
proof -
  have "blast_radius (s_identities s) k = foldl keep_first [] (effective_permissions s k)"
    by (simp add: blast_radius_def blast_radius_fold effective_permissions_def delegation_chain_def lookup_def)
  then show ?thesis
    using keep_first_names [of "[]" "effective_permissions s k"] by (simp add: keep_first_find)
qed

end
