(* ===== verification/Detect_Base.thy ===== *)
theory Detect_Base
  imports Graph_Delegation
begin

text \<open>
  What the detectors of \<^verbatim>\<open>internal/detect\<close> share: the interface \<^verbatim>\<open>Detector\<close> as the locale
  \<open>detector\<close>, the table of model providers with \<^verbatim>\<open>matchLLM\<close>, and the small helpers of the package. A
  detector is a function of the time \<^verbatim>\<open>now()\<close> returns and of the identities the reader gives.
\<close>

section \<open>The interface\<close>

type_synonym detect_fun = "int \<Rightarrow> identity list \<Rightarrow> alert list"

definition mk_alert :: "string \<Rightarrow> string \<Rightarrow> severity \<Rightarrow> int \<Rightarrow> string \<Rightarrow> alert" where
  "mk_alert det k sev t summary =
     \<lparr>a_detector = det, a_identity = k, a_severity = sev, a_time = t, a_summary = summary\<rparr>"

lemma mk_alert_simps [simp]:
  "a_detector (mk_alert det k sev t s) = det" "a_identity (mk_alert det k sev t s) = k"
  "a_severity (mk_alert det k sev t s) = sev" "a_time (mk_alert det k sev t s) = t"
  "a_summary (mk_alert det k sev t s) = s"
  by (simp_all add: mk_alert_def)

locale detector =
  fixes name :: string and detect :: detect_fun
  assumes named: "a \<in> set (detect t ids) \<Longrightarrow> a_detector a = name"
    and attributed: "a \<in> set (detect t ids) \<Longrightarrow> a_identity a \<in> i_id ` set ids"
    and graded: "a \<in> set (detect t ids) \<Longrightarrow> SeverityInfo \<le> a_severity a"
begin

lemma nothing_on_empty: "detect t [] = []"
  using attributed [of _ t "[]"] by (cases "detect t []") auto

end

text \<open>Most detectors judge one identity at a time.\<close>

locale local_detector = detector name detect for name detect +
  fixes judge :: "int \<Rightarrow> identity \<Rightarrow> alert list"
  assumes judged: "detect t ids = concat (map (judge t) ids)"
begin

lemma append: "detect t (xs @ ys) = detect t xs @ detect t ys"
  by (simp add: judged)

lemma order_only: "mset xs = mset ys \<Longrightarrow> mset (detect t xs) = mset (detect t ys)"
proof -
  have "mset (detect t zs) = \<Sum>\<^sub># (image_mset (\<lambda>i. mset (judge t i)) (mset zs))" for zs
    by (induction zs) (simp_all add: judged)
  then show "mset xs = mset ys \<Longrightarrow> ?thesis" by simp
qed

lemma by_identity: "a \<in> set (detect t ids) \<longleftrightarrow> (\<exists>i \<in> set ids. a \<in> set (judge t i))"
  by (simp add: judged)

lemma names_its_identity: "a \<in> set (judge t i) \<Longrightarrow> a_identity a = i_id i"
  using attributed [of a t "[i]"] by (simp add: judged)

lemma alerted: "(\<exists>a \<in> set (detect t ids). a_identity a = k) \<longleftrightarrow> (\<exists>i \<in> set ids. i_id i = k \<and> judge t i \<noteq> [])"
proof
  assume "\<exists>i \<in> set ids. i_id i = k \<and> judge t i \<noteq> []"
  then obtain i where i: "i \<in> set ids" "i_id i = k" "hd (judge t i) \<in> set (judge t i)" by auto
  then show "\<exists>a \<in> set (detect t ids). a_identity a = k" using by_identity names_its_identity by blast
qed (fastforce simp: by_identity dest: names_its_identity)

end

text \<open>The usual way to a \<open>local_detector\<close>: the judgement names the detector and the identity.\<close>

lemma local_detectorI:
  assumes "\<And>t i a. a \<in> set (judge t i) \<Longrightarrow> a_detector a = name \<and> a_identity a = i_id i \<and> SeverityInfo \<le> a_severity a"
    and "\<And>t ids. detect t ids = concat (map (judge t) ids)"
  shows "local_detector name detect judge"
  by unfold_locales (use assms in \<open>auto simp: image_iff\<close>)

lemma severity_levels [simp]:
  "SeverityInfo \<le> SeverityInfo" "SeverityInfo \<le> SeverityLow" "SeverityInfo \<le> SeverityMedium"
  "SeverityInfo \<le> SeverityHigh" "SeverityInfo \<le> SeverityCritical"
  by (simp_all add: less_eq_severity_def)

section \<open>Model providers\<close>

record llm_provider =
  lp_id :: string
  lp_display :: string

definition provider :: "string \<Rightarrow> string \<Rightarrow> llm_provider" where
  "provider k d = \<lparr>lp_id = k, lp_display = d\<rparr>"

definition llm_hosts :: "(string \<times> llm_provider) list" where
  "llm_hosts =
     [(''api.openai.com'', provider ''openai'' ''OpenAI''),
      (''api.anthropic.com'', provider ''anthropic'' ''Anthropic''),
      (''generativelanguage.googleapis.com'', provider ''google'' ''Google Gemini''),
      (''api.mistral.ai'', provider ''mistral'' ''Mistral''),
      (''api.cohere.ai'', provider ''cohere'' ''Cohere''),
      (''api.perplexity.ai'', provider ''perplexity'' ''Perplexity''),
      (''api.groq.com'', provider ''groq'' ''Groq''),
      (''api.together.xyz'', provider ''together'' ''Together''),
      (''openrouter.ai'', provider ''openrouter'' ''OpenRouter''),
      (''api.replicate.com'', provider ''replicate'' ''Replicate''),
      (''openai.azure.com'', provider ''azure-openai'' ''Azure OpenAI''),
      (''cognitiveservices.azure.com'', provider ''azure-openai'' ''Azure OpenAI''),
      (''services.ai.azure.com'', provider ''azure-openai'' ''Azure AI Foundry''),
      (''aiplatform.googleapis.com'', provider ''vertex'' ''Google Vertex AI'')]"

definition regional_prefix_hosts :: "string list" where
  "regional_prefix_hosts = [''aiplatform.googleapis.com'']"

definition normalize_host :: "string \<Rightarrow> string" where
  "normalize_host dest =
     (let host = (case last_index_byte dest (CHR '':'') of Some i \<Rightarrow> take i dest | None \<Rightarrow> dest)
      in to_lower (trim_space host))"

definition host_matches :: "string \<Rightarrow> string \<Rightarrow> bool" where
  "host_matches host h \<longleftrightarrow>
     has_suffix host (''.'' @ h) \<or> h \<in> set regional_prefix_hosts \<and> has_suffix host (''-'' @ h)"

text \<open>The exact lookup, then the loop over the map, in the order \<open>table\<close> lists it.\<close>

definition match_in :: "(string \<times> llm_provider) list \<Rightarrow> string \<Rightarrow> llm_provider option" where
  "match_in table dest =
     (let host = normalize_host dest in
      case map_of table host of
        Some p \<Rightarrow> Some p
      | None \<Rightarrow> map_option snd (find (\<lambda>(h, p). host_matches host h) table))"

definition match_llm :: "string \<Rightarrow> llm_provider option" where
  "match_llm dest = match_in llm_hosts dest"

definition is_egress :: "event \<Rightarrow> bool" where
  "is_egress e \<longleftrightarrow> e_type e = EventEgress"

text \<open>The display names of the providers an identity's egress reached, as a Go set.\<close>

definition llm_displays :: "event list \<Rightarrow> string list" where
  "llm_displays es =
     List.map_filter (\<lambda>e. if is_egress e then map_option lp_display (match_llm (e_resource e)) else None) es"

section \<open>Helpers\<close>

definition attestation_label :: "string \<Rightarrow> string" where
  "attestation_label a = (if a = [] then ''unset'' else a)"

definition unattested :: "identity \<Rightarrow> bool" where
  "unattested i \<longleftrightarrow> i_attestation i = [] \<or> i_attestation i = ''none''"

definition commas :: "string list \<Rightarrow> string" where
  "commas xs = join '', '' xs"

text \<open>\<^verbatim>\<open>%q\<close> of a string of ASCII characters.\<close>

definition hex_digit :: "nat \<Rightarrow> char" where
  "hex_digit d = digit_char d"

fun quote_char :: "char \<Rightarrow> string" where
  "quote_char c =
     (let n = of_char c :: nat in
      if n = 34 then [CHR 92, CHR 34]
      else if n = 92 then [CHR 92, CHR 92]
      else if n = 7 then [CHR 92, CHR ''a'']
      else if n = 8 then [CHR 92, CHR ''b'']
      else if n = 12 then [CHR 92, CHR ''f'']
      else if n = 10 then [CHR 92, CHR ''n'']
      else if n = 13 then [CHR 92, CHR ''r'']
      else if n = 9 then [CHR 92, CHR ''t'']
      else if n = 11 then [CHR 92, CHR ''v'']
      else if n < 32 \<or> n = 127 then [CHR 92, CHR ''x'', hex_digit (n div 16), hex_digit (n mod 16)]
      else [c])"

definition quoted :: "string \<Rightarrow> string" where
  "quoted s = [CHR 34] @ concat (map quote_char s) @ [CHR 34]"

text \<open>The events of a type no older than a window: \<^verbatim>\<open>now().Sub(e.Time) > window\<close> skips.\<close>

definition recent :: "int \<Rightarrow> int \<Rightarrow> event \<Rightarrow> bool" where
  "recent t window e \<longleftrightarrow> \<not> time_sub t (e_time e) > window"

definition count_recent :: "int \<Rightarrow> int \<Rightarrow> string \<Rightarrow> identity \<Rightarrow> nat" where
  "count_recent t window ty i = length (filter (\<lambda>e. e_type e = ty \<and> recent t window e) (i_events i))"

section \<open>The provider table answers without ambiguity\<close>

lemma suffix_comparable: "suffix a s \<Longrightarrow> suffix b s \<Longrightarrow> length a \<le> length b \<Longrightarrow> suffix a b"
  by (metis suffix_length_suffix)

text \<open>No host of the table ends in another host of the table, so at most one entry matches.\<close>

lemma table_hosts_apart:
  "\<forall>z \<in> set llm_hosts. \<forall>w \<in> set llm_hosts. fst z = fst w \<or> \<not> suffix (fst w) (fst z)"
  by code_simp

lemma table_hosts_distinct: "distinct (map fst llm_hosts)"
  by code_simp

lemma match_unique:
  assumes "(h, p) \<in> set llm_hosts" "(h', p') \<in> set llm_hosts"
    "host = h \<or> host_matches host h" "host = h' \<or> host_matches host h'"
  shows "h = h' \<and> p = p'"
proof -
  have suf: "suffix x host" if "host = x \<or> host_matches host x" for x
    using that by (auto simp: host_matches_def has_suffix_def dest: suffix_ConsD)
  have "suffix h h' \<or> suffix h' h"
    using suffix_comparable [OF suf [OF assms(3)] suf [OF assms(4)]]
      suffix_comparable [OF suf [OF assms(4)] suf [OF assms(3)]] by linarith
  moreover have apart: "x = y \<or> \<not> suffix y x" if "(x, q) \<in> set llm_hosts" "(y, r) \<in> set llm_hosts" for x y q r
    using bspec [OF bspec [OF table_hosts_apart that(1)] that(2)] by simp
  ultimately have "h = h'" using apart [OF assms(1,2)] apart [OF assms(2,1)] by blast
  then show ?thesis using assms(1,2) table_hosts_distinct by (metis map_of_eq_Some_iff option.inject)
qed

text \<open>
  \<^verbatim>\<open>matchLLM\<close> has one answer: whatever order Go iterates over the provider table in, a
  destination matches the same provider, and a provider is matched exactly when the destination's
  host is a host of the table, ends in a dot and such a host, or in a dash and the one regional host.
\<close>

theorem match_llm_order_independent:
  assumes "mset table = mset llm_hosts"
  shows "match_in table dest = match_llm dest
    \<and> (match_llm dest = Some p \<longleftrightarrow> (\<exists>h. (h, p) \<in> set llm_hosts \<and>
         (normalize_host dest = h \<or> host_matches (normalize_host dest) h)))"
proof -
  have char: "match_in tbl dest = Some q \<longleftrightarrow> (\<exists>h. (h, q) \<in> set llm_hosts \<and>
      (normalize_host dest = h \<or> host_matches (normalize_host dest) h))"
    if perm: "mset tbl = mset llm_hosts" for tbl q
  proof -
    let ?host = "normalize_host dest"
    have tset: "set tbl = set llm_hosts" using perm by (metis set_mset_mset)
    have "distinct (map fst tbl)"
      using table_hosts_distinct perm by (metis mset_eq_imp_distinct_iff mset_map)
    then have look: "map_of tbl ?host = Some r \<longleftrightarrow> (?host, r) \<in> set llm_hosts" for r
      by (simp add: map_of_eq_Some_iff tset)
    show ?thesis
    proof (cases "map_of tbl ?host")
      case (Some r)
      then have "(?host, r) \<in> set llm_hosts" using look by simp
      then show ?thesis using Some match_unique [of ?host r _ q ?host]
        by (auto simp: match_in_def Let_def)
    next
      case None
      show ?thesis
      proof (cases "find (\<lambda>(h, p). host_matches ?host h) tbl")
        case find: None
        then have "\<not> host_matches ?host h" if "(h, r) \<in> set llm_hosts" for h r
          using that by (auto simp: find_None_iff tset)
        then show ?thesis using None find look by (auto simp: match_in_def Let_def)
      next
        case (Some x)
        then obtain h r where x: "x = (h, r)" "(h, r) \<in> set llm_hosts" "host_matches ?host h"
          by (cases x) (auto simp: find_Some_iff tset [symmetric] dest: nth_mem)
        then show ?thesis using None Some match_unique [of h r _ q ?host]
          by (auto simp: match_in_def Let_def)
      qed
    qed
  qed
  from char [OF assms] char [OF refl] show ?thesis
    by (simp add: match_llm_def) (metis not_Some_eq)
qed

theorem match_llm_order_independent_witness:
  "match_in (rev llm_hosts) ''eu-west1-aiplatform.googleapis.com:443'' = match_llm ''eu-west1-aiplatform.googleapis.com:443''"
  by (rule match_llm_order_independent [THEN conjunct1]) simp

end
