(* ===== verification/Detect_Egress.thy ===== *)
theory Detect_Egress
  imports Detect_Base Sensor_Decode Go_Float
begin

text \<open>
  Detectors over the destinations identities reach: \<^verbatim>\<open>shadow_ai.go\<close>,
  \<^verbatim>\<open>undeclared_llm.go\<close>, \<^verbatim>\<open>unmanaged_egress.go\<close>, the three about identities a process claims
  (\<^verbatim>\<open>claimed_agent_unknown.go\<close>, \<^verbatim>\<open>claimed_agent_drift.go\<close>,
  \<^verbatim>\<open>claimed_agent_unattested.go\<close>), \<^verbatim>\<open>unrouted_egress.go\<close> and \<^verbatim>\<open>beaconing.go\<close>.
\<close>

section \<open>Shadow AI and undeclared models\<close>

definition shadow_ai_judge :: "int \<Rightarrow> identity \<Rightarrow> alert list" where
  "shadow_ai_judge t i =
     (let providers = llm_displays (i_events i) in
      if providers = [] then []
      else [mk_alert ''shadow_ai'' (i_id i) (if is_nhi i then SeverityHigh else SeverityMedium) t
             (''egress to external LLM API ('' @ commas (sorted_keys providers) @ '')'')])"

definition shadow_ai :: detect_fun where
  "shadow_ai t ids = concat (map (shadow_ai_judge t) ids)"

definition declared_providers :: "declared_model list \<Rightarrow> string list" where
  "declared_providers ms = map (\<lambda>m. to_lower (dm_provider m)) (filter (\<lambda>m. dm_provider m \<noteq> []) ms)"

definition declared_hosts :: "declared_model list \<Rightarrow> string list" where
  "declared_hosts ms = map (\<lambda>m. normalize_host (dm_endpoint m)) (filter (\<lambda>m. dm_endpoint m \<noteq> []) ms)"

text \<open>The (provider, host) pairs reached that neither a provider nor an endpoint declares.\<close>

definition undeclared_reached :: "declared_model list \<Rightarrow> event list \<Rightarrow> (string \<times> string) list" where
  "undeclared_reached ms es =
     List.map_filter (\<lambda>e.
       if \<not> is_egress e then None
       else case match_llm (e_resource e) of
         None \<Rightarrow> None
       | Some p \<Rightarrow>
           if lp_id p \<in> set (declared_providers ms) then None
           else let host = normalize_host (e_resource e) in
             if host \<in> set (declared_hosts ms) then None
             else Some (lp_display p, host)) es"

definition undeclared_llm_summary :: "string list \<Rightarrow> (string \<times> string) list \<Rightarrow> string" where
  "undeclared_llm_summary declared undeclared =
     ''declared models ['' @ commas (sorted_keys declared) @ ''] but observed egress to undeclared LLM provider(s) '' @
     commas (map (\<lambda>p. p @ '' ('' @ commas (sorted_keys (map snd (filter (\<lambda>(q, h). q = p) undeclared))) @ '')'')
       (sorted_keys (map fst undeclared)))"

definition undeclared_llm_judge :: "int \<Rightarrow> identity \<Rightarrow> alert list" where
  "undeclared_llm_judge t i =
     (if \<not> is_agent i \<or> i_models i = [] then []
      else let undeclared = undeclared_reached (i_models i) (i_events i) in
        if undeclared = [] then []
        else [mk_alert ''undeclared_llm'' (i_id i)
               (if i_privileged i \<or> has_admin i then SeverityCritical else SeverityHigh) t
               (undeclared_llm_summary (declared_providers (i_models i)) undeclared)])"

definition undeclared_llm :: detect_fun where
  "undeclared_llm t ids = concat (map (undeclared_llm_judge t) ids)"

section \<open>Unmanaged egress\<close>

definition egress_destinations :: "identity \<Rightarrow> string list" where
  "egress_destinations i = map e_resource (filter is_egress (i_events i))"

definition unmanaged_egress_judge :: "int \<Rightarrow> identity \<Rightarrow> alert list" where
  "unmanaged_egress_judge t i =
     (if \<not> has_prefix (i_id i) identity_prefix then []
      else let destinations = egress_destinations i; providers = llm_displays (i_events i) in
        if destinations = [] then []
        else if providers \<noteq> [] then
          [mk_alert ''unmanaged_egress'' (i_id i) SeverityHigh t
            (''unattributed process reached an external LLM API directly ('' @ commas (sorted_keys providers) @
             ''), observed via eBPF with no governed connector recording it'')]
        else
          [mk_alert ''unmanaged_egress'' (i_id i) SeverityMedium t
            (''network activity observed via eBPF, attributable only to process name ('' @ utoa (length destinations) @
             '' destination(s), e.g. '' @ hd destinations @
             '') -- no IAM, agent-event, or Passport record for this identity'')])"

definition unmanaged_egress :: detect_fun where
  "unmanaged_egress t ids = sort_key a_identity (concat (map (unmanaged_egress_judge t) ids))"

section \<open>Claimed identities\<close>

definition claimed_name :: "identity \<Rightarrow> string" where
  "claimed_name i = trim_prefix (i_id i) claimed_prefix"

definition governed_ids :: "identity list \<Rightarrow> identity list" where
  "governed_ids ids = filter (\<lambda>i. \<not> is_claimed (i_id i)) ids"

definition claimed_agent_unknown_judge :: "identity list \<Rightarrow> int \<Rightarrow> identity \<Rightarrow> alert list" where
  "claimed_agent_unknown_judge ids t i =
     (if \<not> is_claimed (i_id i) then []
      else let claimed = claimed_name i in
        if claimed \<in> i_id ` set (governed_ids ids) then []
        else let providers = llm_displays (i_events i) in
          if providers \<noteq> [] then
            [mk_alert ''claimed_agent_unknown'' (i_id i) SeverityCritical t
              (''a process declared itself '' @ claimed @ '' (AGENT_PASSPORT_ID) and reached an external LLM API ('' @
               commas (sorted_keys providers) @ ''); no Passport, IAM record or agent-event in this graph names that agent'')]
          else
            [mk_alert ''claimed_agent_unknown'' (i_id i) SeverityHigh t
              (''a process declared itself '' @ claimed @ '' (AGENT_PASSPORT_ID), and no Passport, IAM record or agent-event in this graph names that agent: either it is undeclared, or the value is wrong'')])"

definition claimed_agent_unknown :: detect_fun where
  "claimed_agent_unknown t ids =
     sort_key a_identity (concat (map (claimed_agent_unknown_judge ids t) ids))"

text \<open>The last governed identity of an ID with a property: the loops over the graph overwrite earlier ones.\<close>

definition established :: "(identity \<Rightarrow> bool) \<Rightarrow> identity list \<Rightarrow> string \<Rightarrow> identity option" where
  "established P ids k = find (\<lambda>i. i_id i = k) (rev (filter P (governed_ids ids)))"

definition claimed_agent_drift_judge :: "identity list \<Rightarrow> int \<Rightarrow> identity \<Rightarrow> alert list" where
  "claimed_agent_drift_judge ids t i =
     (if \<not> is_claimed (i_id i) then []
      else let claimed = claimed_name i in
        case established (\<lambda>j. i_models j \<noteq> []) ids claimed of
          None \<Rightarrow> []
        | Some agent \<Rightarrow>
            let models = i_models agent; undeclared = undeclared_reached models (i_events i) in
            if undeclared = [] then []
            else [mk_alert ''claimed_agent_drift'' (i_id i) SeverityHigh t
                   (''a process claiming to be '' @ claimed @ '' reached '' @ commas (sorted_keys (map fst undeclared)) @
                    '', which that agent's Passport does not declare (it declares '' @
                    commas (sorted_keys (declared_providers models)) @
                    ''). Either the agent drifted from its own declaration, or something else is using its name'')])"

definition claimed_agent_drift :: detect_fun where
  "claimed_agent_drift t ids =
     (if filter (\<lambda>j. i_models j \<noteq> []) (governed_ids ids) = [] then []
      else sort_key a_identity (concat (map (claimed_agent_drift_judge ids t) ids)))"

definition carries_bus_evidence :: "identity list \<Rightarrow> bool" where
  "carries_bus_evidence ids = list_ex (\<lambda>i. list_ex (\<lambda>e. e_source e \<noteq> []) (i_events i)) (governed_ids ids)"

definition claimed_agent_unattested_judge :: "identity list \<Rightarrow> int \<Rightarrow> identity \<Rightarrow> alert list" where
  "claimed_agent_unattested_judge ids t i =
     (if \<not> is_claimed (i_id i) then []
      else let name = claimed_name i in
        case established (\<lambda>j. \<not> unattested j) ids name of
          None \<Rightarrow> []
        | Some agent \<Rightarrow>
            if i_events agent \<noteq> [] then []
            else [mk_alert ''claimed_agent_unattested'' (i_id i)
                   (if i_privileged agent \<or> has_admin agent then SeverityHigh else SeverityMedium) t
                   (''a process claiming to be '' @ name @ '' was observed '' @ utoa (length (i_events i)) @
                    '' time(s), and that agent's Passport declares its identity is bound to a workload (attestation='' @
                    attestation_label (i_attestation agent) @
                    ''); nothing that authenticates identities has spoken about this agent in this graph. Either the attested workload runs where no plane feeding this graph can see it, or the name is being worn by something the binding does not cover'')])"

definition claimed_agent_unattested :: detect_fun where
  "claimed_agent_unattested t ids =
     (if \<not> carries_bus_evidence ids then []
      else if filter (\<lambda>j. \<not> unattested j) (governed_ids ids) = [] then []
      else sort_key a_identity (concat (map (claimed_agent_unattested_judge ids t) ids)))"

section \<open>Unrouted egress\<close>

definition EnforcementSource :: string where "EnforcementSource = ''scopyx''"

definition enforced :: "event \<Rightarrow> bool" where
  "enforced e \<longleftrightarrow> e_source e = EnforcementSource"

text \<open>The IDs with journal events, and the events of one of them over the identities that carry it.\<close>

record governance =
  gv_events :: nat
  gv_refused :: nat

definition governed_agents :: "identity list \<Rightarrow> string list" where
  "governed_agents ids = map i_id (filter (\<lambda>i. list_ex enforced (i_events i)) (governed_ids ids))"

definition governance_of :: "identity list \<Rightarrow> string \<Rightarrow> governance" where
  "governance_of ids k =
     (let journal = concat (map (\<lambda>i. if i_id i = k then filter enforced (i_events i) else []) (governed_ids ids))
      in \<lparr>gv_events = length journal,
          gv_refused = length (filter (\<lambda>e. e_type e = EventWebBlocked) journal)\<rparr>)"

definition carries_sensor_evidence :: "identity list \<Rightarrow> bool" where
  "carries_sensor_evidence ids =
     list_ex (\<lambda>i. is_claimed (i_id i) \<or> has_prefix (i_id i) identity_prefix) ids"

text \<open>The last claimed identity that names the agent: later ones overwrite the map entry.\<close>

definition claimed_node :: "identity list \<Rightarrow> string \<Rightarrow> identity option" where
  "claimed_node ids k = find (\<lambda>i. claimed_name i = k) (rev (filter (\<lambda>i. is_claimed (i_id i)) ids))"

definition destination_host :: "string \<Rightarrow> string" where
  "destination_host r =
     (case split_host_port r of
        Some (host, port) \<Rightarrow> to_lower (trim_space host)
      | None \<Rightarrow> to_lower (trim_space (trim r ''[]'')))"

definition internal_suffixes :: "string list" where
  "internal_suffixes = [''.internal'', ''.local'', ''.localdomain'', ''.cluster.local'']"

definition in_carrier_nat :: "addr \<Rightarrow> bool" where
  "in_carrier_nat a = (case a of V4 b \<Rightarrow> b ! 0 = 100 \<and> b ! 1 AND 192 = 64 | V6 b z \<Rightarrow> False)"

definition in_this_network :: "addr \<Rightarrow> bool" where
  "in_this_network a = (case a of V4 b \<Rightarrow> b ! 0 = 0 | V6 b z \<Rightarrow> False)"

definition is_public_destination :: "string \<Rightarrow> bool" where
  "is_public_destination host =
     (if list_ex (has_suffix host) internal_suffixes then False
      else if host = ''localhost'' \<or> host = [] then False
      else case parse_addr host of
          None \<Rightarrow> True
        | Some raw \<Rightarrow>
            let a = unmap raw in
            if \<not> is_global_unicast a then False
            else if is_private a then False
            else \<not> in_carrier_nat a \<and> \<not> in_this_network a)"

record egress_split =
  sp_public :: "string list"
  sp_private :: nat
  sp_llm :: nat

definition split_event :: "event \<Rightarrow> egress_split \<Rightarrow> egress_split" where
  "split_event e sp =
     (if \<not> is_egress e then sp
      else if match_llm (e_resource e) \<noteq> None then sp\<lparr>sp_llm := Suc (sp_llm sp)\<rparr>
      else let host = destination_host (e_resource e) in
        if \<not> is_public_destination host then sp\<lparr>sp_private := Suc (sp_private sp)\<rparr>
        else sp\<lparr>sp_public := sp_public sp @ [host]\<rparr>)"

definition split_egress :: "identity \<Rightarrow> egress_split" where
  "split_egress i =
     (let sp = fold split_event (i_events i) \<lparr>sp_public = [], sp_private = 0, sp_llm = 0\<rparr>
      in sp\<lparr>sp_public := sorted_keys (sp_public sp)\<rparr>)"

definition not_judged :: "egress_split \<Rightarrow> string" where
  "not_judged sp =
     (let parts =
        (if sp_private sp > 0 then
           [utoa (sp_private sp) @ '' connection(s) to private, loopback or carrier-NAT ranges not judged (the plane's own address rules refuse those ranges, so they were never its to decide)''] else []) @
        (if sp_llm sp > 0 then
           [utoa (sp_llm sp) @ '' connection(s) to model APIs left to the shadow-AI detectors, which own that traffic''] else [])
      in if parts = [] then [] else ''; '' @ join ''; '' parts)"

definition unrouted_summary :: "string \<Rightarrow> governance \<Rightarrow> egress_split \<Rightarrow> string" where
  "unrouted_summary agent gv sp =
     (if gv_refused gv > 0 then
        ''a process claiming to be '' @ agent @ '' was refused by the web-egress plane ('' @ utoa (gv_refused gv) @
        '' refusal(s) of '' @ utoa (gv_events gv) @ '' journal event(s)) and reached '' @ utoa (length (sp_public sp)) @
        '' public destination(s) directly (e.g. '' @ hd (sp_public sp) @
        ''): connections that never passed the enforcement point that had already said no to this agent''
      else
        ''a process claiming to be '' @ agent @ '' reached '' @ utoa (length (sp_public sp)) @
        '' public destination(s) directly (e.g. '' @ hd (sp_public sp) @
        '') while that agent's web egress is governed by the plane ('' @ utoa (gv_events gv) @
        '' journal event(s)): a governed fetch is performed by the enforcement point's own process, so these connections never passed it. Either the agent fetches outside its plane, or something else is using its name'')"

definition unrouted_egress_judge :: "identity list \<Rightarrow> int \<Rightarrow> string \<Rightarrow> alert" where
  "unrouted_egress_judge ids t agent =
     (let gv = governance_of ids agent in
      case claimed_node ids agent of
        None \<Rightarrow>
          mk_alert ''unrouted_egress'' agent SeverityInfo t
            (agent @ '' is governed by the web-egress plane ('' @ utoa (gv_events gv) @
             '' journal event(s)) and was not judged: no connection the sensor observed carries its claim, so either nothing runs the sensor where it runs, or its process does not declare AGENT_PASSPORT_ID'')
      | Some node \<Rightarrow>
          let sp = split_egress node in
          if sp_public sp = [] then
            mk_alert ''unrouted_egress'' (i_id node) SeverityInfo t
              (''a process claiming to be '' @ agent @ '' is governed by the web-egress plane ('' @ utoa (gv_events gv) @
               '' journal event(s)) and no unrouted public egress was found'' @ not_judged sp)
          else
            mk_alert ''unrouted_egress'' (i_id node)
              (if gv_refused gv > 0 then SeverityHigh else SeverityMedium) t
              (unrouted_summary agent gv sp @ not_judged sp))"

definition unrouted_egress :: detect_fun where
  "unrouted_egress t ids =
     (let governed = governed_agents ids in
      if governed = [] then []
      else if \<not> carries_sensor_evidence ids then []
      else sort_key a_identity (map (unrouted_egress_judge ids t) (sorted_keys governed)))"

section \<open>Beaconing\<close>

definition beacon_min_connections :: nat where "beacon_min_connections = 4"
definition beacon_max_cv :: real where "beacon_max_cv = 15 / 100"
definition beacon_min_interval :: int where "beacon_min_interval = 2 * Second"

definition connection_times :: "identity \<Rightarrow> string \<Rightarrow> int list" where
  "connection_times i dest = sort (map e_time (filter (\<lambda>e. is_egress e \<and> e_resource e = dest) (i_events i)))"

fun gaps :: "int list \<Rightarrow> int list" where
  "gaps (a # b # ts) = time_sub b a # gaps (b # ts)"
| "gaps _ = []"

text \<open>The intervals in seconds, or none at all when two connections are closer than the minimum.\<close>

definition beacon_intervals :: "int list \<Rightarrow> real list" where
  "beacon_intervals ts =
     (if list_ex (\<lambda>g. g < beacon_min_interval) (gaps ts) then [] else map seconds_of (gaps ts))"

definition mean_and_cv :: "real list \<Rightarrow> real \<times> real" where
  "mean_and_cv vs =
     (if vs = [] then (0, 1)
      else let mean = sum_list vs / real (length vs) in
        if mean \<le> 0 then (mean, 1)
        else (mean, sqrt (sum_list (map (\<lambda>v. (v - mean) * (v - mean)) vs) / real (length vs)) / mean))"

definition rounded_interval :: "real \<Rightarrow> string" where
  "rounded_interval seconds =
     (let d = \<lfloor>seconds * of_int Second\<rfloor> in
      if d \<ge> Hour then duration_string (duration_round d Minute)
      else if d \<ge> Minute then duration_string (duration_round d Second)
      else duration_string (duration_round d (Second div 10)))"

definition beacon_destinations :: "identity \<Rightarrow> string list" where
  "beacon_destinations i = sorted_keys (map e_resource (filter (\<lambda>e. is_egress e \<and> e_resource e \<noteq> []) (i_events i)))"

definition beacon_alert :: "int \<Rightarrow> identity \<Rightarrow> string \<Rightarrow> real \<Rightarrow> real \<Rightarrow> alert" where
  "beacon_alert t i dest mean cv =
     (let n = utoa (length (connection_times i dest));
          cadence = '' on a regular cadence: every '' @ rounded_interval mean @ '', varying by '' @ fmt_fixed 0 (cv * 100) @ ''%. ''
      in case match_llm dest of
           Some p \<Rightarrow> mk_alert ''beaconing'' (i_id i) SeverityHigh t
             (n @ '' connections to '' @ dest @ '' ('' @ lp_display p @ '')'' @ cadence @
              ''A fixed cadence to a model API is a poll, not a conversation'')
         | None \<Rightarrow> mk_alert ''beaconing'' (i_id i) SeverityMedium t
             (n @ '' connections to '' @ dest @ cadence @
              ''A heartbeat, not work; identify what schedules it''))"

definition beaconing_at :: "int \<Rightarrow> identity \<Rightarrow> string \<Rightarrow> alert list" where
  "beaconing_at t i dest =
     (let ts = connection_times i dest in
      if length ts < beacon_min_connections then []
      else let vs = beacon_intervals ts in
        if length vs < beacon_min_connections - 1 then []
        else let (mean, cv) = mean_and_cv vs in
          if cv > beacon_max_cv then [] else [beacon_alert t i dest mean cv])"

definition beaconing_judge :: "int \<Rightarrow> identity \<Rightarrow> alert list" where
  "beaconing_judge t i = concat (map (beaconing_at t i) (beacon_destinations i))"

definition beaconing :: detect_fun where
  "beaconing t ids = sort_key a_identity (sort_key a_summary (concat (map (beaconing_judge t) ids)))"

end
