(* ===== verification/Egress_Facts.thy ===== *)
theory Egress_Facts
  imports Detect_Egress
begin

text \<open>
  Facts about the egress detectors: each satisfies the interface of \<open>Detect_Base\<close>, and the regularity
  test of \<^verbatim>\<open>beaconing.go\<close> is an inequality between integers.
\<close>

section \<open>The interface\<close>

interpretation shadow_ai: local_detector "''shadow_ai''" shadow_ai shadow_ai_judge
  by (rule local_detectorI) (auto simp: shadow_ai_def shadow_ai_judge_def Let_def split: if_splits)

interpretation undeclared: local_detector "''undeclared_llm''" undeclared_llm undeclared_llm_judge
  by (rule local_detectorI) (auto simp: undeclared_llm_def undeclared_llm_judge_def Let_def split: if_splits)

text \<open>A detector that gathers the alerts of its identities and orders them.\<close>

lemma gathered_detectorI:
  assumes "\<And>ids t i a. a \<in> set (judge ids t i) \<Longrightarrow>
      a_detector a = name \<and> a_identity a = i_id i \<and> SeverityInfo \<le> a_severity a"
    and "\<And>t ids. set (detect t ids) \<subseteq> (\<Union>i \<in> set ids. set (judge ids t i))"
  shows "detector name detect"
  by unfold_locales (use assms in \<open>blast+\<close>)

interpretation unmanaged: detector "''unmanaged_egress''" unmanaged_egress
proof (rule gathered_detectorI [where judge = "\<lambda>_. unmanaged_egress_judge"], goal_cases)
  case 1
  then show ?case by (auto simp: unmanaged_egress_judge_def Let_def split: if_splits option.splits)
next
  case 2
  show ?case by (auto simp: unmanaged_egress_def)
qed

interpretation claimed_unknown: detector "''claimed_agent_unknown''" claimed_agent_unknown
proof (rule gathered_detectorI [where judge = claimed_agent_unknown_judge], goal_cases)
  case 1
  then show ?case by (auto simp: claimed_agent_unknown_judge_def Let_def split: if_splits option.splits)
next
  case 2
  show ?case by (auto simp: claimed_agent_unknown_def)
qed

interpretation claimed_drift: detector "''claimed_agent_drift''" claimed_agent_drift
proof (rule gathered_detectorI [where judge = claimed_agent_drift_judge], goal_cases)
  case 1
  then show ?case by (auto simp: claimed_agent_drift_judge_def Let_def split: if_splits option.splits)
next
  case 2
  show ?case by (auto simp: claimed_agent_drift_def)
qed

interpretation claimed_unattested: detector "''claimed_agent_unattested''" claimed_agent_unattested
proof (rule gathered_detectorI [where judge = claimed_agent_unattested_judge], goal_cases)
  case 1
  then show ?case by (auto simp: claimed_agent_unattested_judge_def Let_def split: if_splits option.splits)
next
  case 2
  show ?case by (auto simp: claimed_agent_unattested_def)
qed

lemma beaconing_at_alert:
  "a \<in> set (beaconing_at t i dest) \<Longrightarrow>
     a_detector a = ''beaconing'' \<and> a_identity a = i_id i \<and> SeverityMedium \<le> a_severity a"
  by (auto simp: beaconing_at_def beacon_alert_def Let_def less_eq_severity_def split: if_splits prod.splits option.splits)

interpretation beacon: detector "''beaconing''" beaconing
proof (rule gathered_detectorI [where judge = "\<lambda>_. beaconing_judge"])
  fix t i a assume "a \<in> set (beaconing_judge t i)"
  then obtain dest where "a \<in> set (beaconing_at t i dest)" by (auto simp: beaconing_judge_def)
  from beaconing_at_alert [OF this]
  show "a_detector a = ''beaconing'' \<and> a_identity a = i_id i \<and> SeverityInfo \<le> a_severity a"
    by (auto simp: less_eq_severity_def)
qed (auto simp: beaconing_def)

lemma governed_agents_in: "k \<in> set (governed_agents ids) \<Longrightarrow> k \<in> i_id ` set ids"
  by (auto simp: governed_agents_def governed_ids_def)

lemma claimed_node_Some:
  "claimed_node ids k = Some i \<Longrightarrow> i \<in> set ids \<and> is_claimed (i_id i) \<and> claimed_name i = k"
  unfolding claimed_node_def by (drule find_SomeD) auto

interpretation unrouted: detector "''unrouted_egress''" unrouted_egress
proof
  fix a t ids assume "a \<in> set (unrouted_egress t ids)"
  then obtain k where k: "k \<in> set (governed_agents ids)" "a = unrouted_egress_judge ids t k"
    by (auto simp: unrouted_egress_def Let_def split: if_splits)
  show "a_detector a = ''unrouted_egress''" "SeverityInfo \<le> a_severity a"
    by (auto simp: k unrouted_egress_judge_def Let_def split: option.split)
  show "a_identity a \<in> i_id ` set ids"
    using governed_agents_in [OF k(1)] claimed_node_Some [of ids k]
    by (auto simp: k unrouted_egress_judge_def Let_def split: option.split)
qed

section \<open>A regular cadence\<close>

text \<open>The coefficient of variation of positive numbers, without a root or a division.\<close>

lemma sum_square_deviations:
  fixes vs :: "real list"
  shows "sum_list (map (\<lambda>v. (v - m) * (v - m)) vs)
    = sum_list (map (\<lambda>v. v * v) vs) - 2 * m * sum_list vs + real (length vs) * (m * m)"
  by (induction vs) (simp_all add: algebra_simps)

lemma cv_bound:
  assumes "vs \<noteq> []" "0 < sum_list vs" "0 \<le> c"
  shows "snd (mean_and_cv vs) \<le> c \<longleftrightarrow>
    real (length vs) * sum_list (map (\<lambda>v. v * v) vs) - (sum_list vs)\<^sup>2 \<le> c\<^sup>2 * (sum_list vs)\<^sup>2"
proof -
  define n s q where "n = real (length vs)" and "s = sum_list vs" and "q = sum_list (map (\<lambda>v. v * v) vs)"
  have n: "0 < n" and s: "0 < s" using assms by (auto simp: n_def s_def)
  have "sum_list (map (\<lambda>v. (v - s / n) * (v - s / n)) vs) = q - 2 * (s / n) * s + n * (s / n * (s / n))"
    using sum_square_deviations [of "s / n" vs] by (simp only: n_def s_def q_def)
  then have dev: "sum_list (map (\<lambda>v. (v - s / n) * (v - s / n)) vs) / n = (n * q - s\<^sup>2) / n\<^sup>2"
    using n by (simp only:) (simp add: field_simps power2_eq_square)
  have "snd (mean_and_cv vs) = sqrt ((n * q - s\<^sup>2) / n\<^sup>2) / (s / n)"
  proof -
    have "\<not> s / n \<le> 0" using n s by (simp add: not_le)
    then show ?thesis using assms(1) dev by (simp add: mean_and_cv_def Let_def flip: n_def s_def)
  qed
  also have "\<dots> \<le> c \<longleftrightarrow> sqrt ((n * q - s\<^sup>2) / n\<^sup>2) \<le> c * s / n"
    using n s by (simp add: field_simps)
  also have "\<dots> \<longleftrightarrow> sqrt ((n * q - s\<^sup>2) / n\<^sup>2) \<le> sqrt ((c * s / n)\<^sup>2)"
    using n s assms(3) by (simp add: real_sqrt_abs)
  also have "\<dots> \<longleftrightarrow> n * q - s\<^sup>2 \<le> c\<^sup>2 * s\<^sup>2"
    using n by (simp add: power_divide power_mult_distrib divide_le_cancel)
  finally show ?thesis by (simp add: n_def s_def q_def)
qed

lemma seconds_sums:
  "sum_list (map seconds_of gs) = of_int (sum_list gs) / of_int Second"
  "sum_list (map (\<lambda>v. v * v) (map seconds_of gs)) = of_int (sum_list (map (\<lambda>g. g * g) gs)) / (of_int Second)\<^sup>2"
  by (induction gs) (simp_all add: seconds_of_def add_divide_distrib power2_eq_square)

definition regular_gaps :: "int list \<Rightarrow> bool" where
  "regular_gaps gs \<longleftrightarrow>
     400 * (int (length gs) * sum_list (map (\<lambda>g. g * g) gs) - (sum_list gs)\<^sup>2) \<le> 9 * (sum_list gs)\<^sup>2"

definition heartbeat :: "int list \<Rightarrow> bool" where
  "heartbeat ts \<longleftrightarrow> 4 \<le> length ts \<and> (\<forall>g \<in> set (gaps ts). 2 * Second \<le> g) \<and> regular_gaps (gaps ts)"

lemma length_gaps [simp]: "length (gaps ts) = length ts - 1"
  by (induction ts rule: gaps.induct) simp_all

lemma regular_gaps_cv:
  assumes "gs \<noteq> []" "0 < sum_list gs"
  shows "snd (mean_and_cv (map seconds_of gs)) \<le> beacon_max_cv \<longleftrightarrow> regular_gaps gs"
proof -
  define n s q :: int where "n = int (length gs)" and "s = sum_list gs" and "q = sum_list (map (\<lambda>g. g * g) gs)"
  have S: "0 < (of_int Second :: real)" by (simp add: durations)
  have "snd (mean_and_cv (map seconds_of gs)) \<le> beacon_max_cv \<longleftrightarrow>
      of_int n * (of_int q / (of_int Second)\<^sup>2) - (of_int s / of_int Second)\<^sup>2
        \<le> beacon_max_cv\<^sup>2 * (of_int s / of_int Second)\<^sup>2"
    using assms S by (subst cv_bound)
      (simp_all only: seconds_sums length_map of_int_of_nat_eq n_def s_def q_def, simp_all add: beacon_max_cv_def)
  also have "\<dots> \<longleftrightarrow> (of_int n * of_int q - (of_int s)\<^sup>2 :: real) \<le> 9 / 400 * (of_int s)\<^sup>2"
  proof -
    have scale: "x / c\<^sup>2 \<le> 9 / 400 * (y / c\<^sup>2) \<longleftrightarrow> x \<le> 9 / 400 * y" if "0 < c" for x y c :: real
      using that divide_le_cancel [of x "c\<^sup>2" "9 / 400 * y"] by simp
    have "beacon_max_cv\<^sup>2 = 9 / 400" by (simp add: beacon_max_cv_def power_divide)
    then show ?thesis
      using scale [OF S, of "of_int n * of_int q - (of_int s)\<^sup>2" "(of_int s)\<^sup>2"]
      by (simp only: power_divide times_divide_eq_right diff_divide_distrib)
  qed
  also have "\<dots> \<longleftrightarrow> (of_int (400 * (n * q - s\<^sup>2)) :: real) \<le> of_int (9 * s\<^sup>2)"
    by (simp add: algebra_simps)
  also have "\<dots> \<longleftrightarrow> 400 * (n * q - s\<^sup>2) \<le> 9 * s\<^sup>2"
    by (rule of_int_le_iff)
  finally show ?thesis by (simp add: regular_gaps_def n_def s_def q_def)
qed

lemma sum_positive: "(\<And>g. g \<in> set gs \<Longrightarrow> 0 < g) \<Longrightarrow> gs \<noteq> [] \<Longrightarrow> 0 < sum_list (gs :: int list)"
proof (induction gs)
  case (Cons a gs)
  then show ?case by (cases "gs = []") (auto intro!: add_pos_pos)
qed simp

lemma beaconing_at_heartbeat: "beaconing_at t i dest \<noteq> [] \<longleftrightarrow> heartbeat (connection_times i dest)"
proof -
  let ?gs = "gaps (connection_times i dest)"
  show ?thesis
  proof (cases "4 \<le> length (connection_times i dest) \<and> (\<forall>g \<in> set ?gs. 2 * Second \<le> g)")
    case True
    then have ne: "?gs \<noteq> []" using length_gaps [of "connection_times i dest"] by force
    have pos: "0 < sum_list ?gs" using True ne by (intro sum_positive) (force simp: durations)+
    have "\<not> list_ex (\<lambda>g. g < beacon_min_interval) ?gs"
      using True by (auto simp: list_ex_iff beacon_min_interval_def)
    then show ?thesis using True regular_gaps_cv [OF ne pos]
      by (simp add: beaconing_at_def beacon_intervals_def beacon_min_connections_def heartbeat_def Let_def
        split: prod.split) force
  next
    case False
    then show ?thesis
      by (auto simp: beaconing_at_def beacon_intervals_def beacon_min_connections_def heartbeat_def Let_def
        list_ex_iff beacon_min_interval_def not_le)
  qed
qed

lemma connection_times_undeclared:
  assumes "dest \<notin> set (beacon_destinations i)" "dest \<noteq> []"
  shows "connection_times i dest = []"
proof -
  have "filter (\<lambda>e. is_egress e \<and> e_resource e = dest) (i_events i) = []"
    using assms by (auto simp: beacon_destinations_def filter_empty_conv)
  then show ?thesis by (simp add: connection_times_def)
qed

text \<open>
  \<^verbatim>\<open>beaconing\<close> reports an identity exactly when one of its destinations has at least four
  connections, every two neighbours at least two seconds apart, and the intervals \<open>g\<close> satisfy
  \<open>400 (n \<Sigma>g\<^sup>2 - (\<Sigma>g)\<^sup>2) \<le> 9 (\<Sigma>g)\<^sup>2\<close>: the floating-point test on the coefficient of variation is this
  comparison of integers.
\<close>

theorem beaconing_exact:
  "(\<exists>a \<in> set (beaconing t ids). a_identity a = k) \<longleftrightarrow>
     (\<exists>i \<in> set ids. i_id i = k \<and> (\<exists>dest. dest \<noteq> [] \<and> heartbeat (connection_times i dest)))"
proof -
  have alerts: "set (beaconing t ids) =
      (\<Union>i \<in> set ids. \<Union>dest \<in> set (beacon_destinations i). set (beaconing_at t i dest))"
    by (auto simp: beaconing_def beaconing_judge_def)
  have reported: "(\<exists>a \<in> set (beaconing_at t i dest). a_identity a = i_id i) \<longleftrightarrow> heartbeat (connection_times i dest)"
    for i dest
    using beaconing_at_heartbeat [of t i dest] beaconing_at_alert [of _ t i dest]
    by (metis list.set_intros(1) neq_Nil_conv empty_iff list.set(1))
  have dests: "dest \<in> set (beacon_destinations i) \<longleftrightarrow> dest \<noteq> []" if "heartbeat (connection_times i dest)" for i dest
  proof
    show "dest \<noteq> []" if "dest \<in> set (beacon_destinations i)" using that by (auto simp: beacon_destinations_def)
    show "dest \<in> set (beacon_destinations i)" if "dest \<noteq> []"
      using \<open>heartbeat _\<close> connection_times_undeclared [of dest i] that
      by (cases "dest \<in> set (beacon_destinations i)") (simp_all add: heartbeat_def)
  qed
  show ?thesis
  proof
    assume "\<exists>a \<in> set (beaconing t ids). a_identity a = k"
    then obtain a i dest where a: "a \<in> set (beaconing_at t i dest)" "a_identity a = k" "i \<in> set ids"
        "dest \<in> set (beacon_destinations i)"
      unfolding alerts by blast
    with beaconing_at_alert [OF a(1)] reported [of i dest] dests [of i dest]
    show "\<exists>i \<in> set ids. i_id i = k \<and> (\<exists>dest. dest \<noteq> [] \<and> heartbeat (connection_times i dest))" by metis
  next
    assume "\<exists>i \<in> set ids. i_id i = k \<and> (\<exists>dest. dest \<noteq> [] \<and> heartbeat (connection_times i dest))"
    then obtain i dest where "i \<in> set ids" "i_id i = k" "dest \<noteq> []" "heartbeat (connection_times i dest)" by blast
    then show "\<exists>a \<in> set (beaconing t ids). a_identity a = k"
      unfolding alerts using reported [of i dest] dests [of i dest] by blast
  qed
qed

end
