(* ===== verification/Graph_Keeps.thy ===== *)
theory Graph_Keeps
  imports Graph_Reader
begin

text \<open>
  Nothing loaded into the graph is lost: an event stays with its identity, and an inventory entry stays
  covered by the entry of its identity, whatever is ingested later.
\<close>

section \<open>Loaded events stay\<close>

definition keeps_events :: "store \<Rightarrow> bool" where
  "keeps_events s \<longleftrightarrow> (\<forall>e \<in> set (s_seen s). \<exists>i. lookup s (e_identity e) = Some i \<and> e \<in> set (i_events i))"

lemma lookup_put: "lookup (put k i s) k' = (if k' = k then Some i else lookup s k')"
  by (simp add: lookup_def put_def update_conv')

lemma merge_identity_events: "set (i_events i) \<subseteq> set (i_events (merge_identity inp i))"
  by (simp add: merge_identity_def)

lemma ensure_lookup: "lookup s k = Some i \<Longrightarrow> ensure s k = i"
  by (simp add: ensure_def)

lemma keeps_put:
  assumes "keeps_events s" "set (i_events (ensure s k)) \<subseteq> set (i_events i)"
    and seen: "\<And>e. e \<in> set (s_seen t) \<Longrightarrow> e \<in> set (s_seen s) \<or> e_identity e = k \<and> e \<in> set (i_events i)"
    and same: "\<And>k'. lookup t k' = lookup s k'"
  shows "keeps_events (put k i t)"
  unfolding keeps_events_def
proof
  fix e assume "e \<in> set (s_seen (put k i t))"
  then have e: "e \<in> set (s_seen s) \<or> e_identity e = k \<and> e \<in> set (i_events i)"
    using seen by (simp add: put_def)
  show "\<exists>j. lookup (put k i t) (e_identity e) = Some j \<and> e \<in> set (i_events j)"
  proof (cases "e_identity e = k")
    case True
    have "e \<in> set (i_events i)"
    proof (rule ccontr)
      assume "e \<notin> set (i_events i)"
      with e have "e \<in> set (s_seen s)" by blast
      with assms(1) True obtain j where "lookup s k = Some j" "e \<in> set (i_events j)"
        unfolding keeps_events_def by blast
      with assms(2) \<open>e \<notin> set (i_events i)\<close> show False using ensure_lookup by blast
    qed
    with True show ?thesis by (simp add: lookup_put)
  next
    case False
    with e assms(1) obtain j where "lookup s (e_identity e) = Some j" "e \<in> set (i_events j)"
      unfolding keeps_events_def by blast
    with False show ?thesis by (simp add: lookup_put same)
  qed
qed

lemma keeps_ingest: "keeps_events s \<Longrightarrow> keeps_events (apply_ingest op s)"
proof (cases op)
  case (Event_of e)
  assume "keeps_events s"
  then show ?thesis using Event_of
    by (auto simp: add_event_def Let_def lookup_def intro!: keeps_put [where s = s])
next
  case (Identity_of i)
  assume "keeps_events s"
  then show ?thesis using Identity_of merge_identity_events
    by (auto simp: add_identity_def intro!: keeps_put [where s = s])
next
  case (Mark ps)
  assume keeps: "keeps_events s"
  have look: "lookup (mark_privileged ps s) k = map_option (flag ps k) (lookup s k)" for k
    by (simp add: mark_alt lookup_def map_of_map_snd)
  have "s_seen (mark_privileged ps s) = s_seen s" by (simp add: mark_alt)
  moreover have "i_events (flag ps k i) = i_events i" for k i by (simp add: flag_def)
  ultimately show ?thesis using keeps Mark unfolding keeps_events_def by (force simp: look)
qed

lemma keeps_ingests: "keeps_events s \<Longrightarrow> keeps_events (fold apply_ingest ops s)"
  by (induction ops arbitrary: s) (simp_all add: keeps_ingest)

lemma seen_ingests: "e \<in> set (s_seen s) \<or> Event_of e \<in> set ops \<Longrightarrow> e \<in> set (s_seen (fold apply_ingest ops s))"
proof (induction ops arbitrary: s)
  case (Cons op ops)
  have "e \<in> set (s_seen s) \<or> op = Event_of e \<Longrightarrow> e \<in> set (s_seen (apply_ingest op s))"
    by (cases op) (auto simp: seen_add_event add_identity_def put_def mark_alt)
  with Cons show ?case by auto
qed simp

text \<open>Every loaded event is among the events of its identity, as the detectors read the graph.\<close>

lemma loaded_event_read:
  assumes "Event_of e \<in> set ops"
  shows "\<exists>i \<in> set (fst (identities (fold apply_ingest ops (new_store ps)))).
    i_id i = e_identity e \<and> e \<in> set (i_events i)"
proof -
  let ?s = "fold apply_ingest ops (new_store ps)"
  have wf: "wf_store ?s" by (rule wf_ingests [OF wf_new])
  have "keeps_events ?s" by (rule keeps_ingests) (simp add: keeps_events_def new_store_def)
  moreover have "e \<in> set (s_seen ?s)" using assms by (intro seen_ingests) simp
  ultimately obtain i where i: "lookup ?s (e_identity e) = Some i" "e \<in> set (i_events i)"
    unfolding keeps_events_def by blast
  have "(e_identity e, i) \<in> set (s_identities ?s)" using i(1) map_of_SomeD by (simp add: lookup_def)
  moreover from this wf have "i_id i = e_identity e" by (auto simp: wf_store_def)
  ultimately have "chronological i \<in> set (fst (identities ?s))" "i_id (chronological i) = e_identity e"
    by (force simp: identities_def Let_def sort_events_def, simp add: chronological_def)
  moreover have "e \<in> set (i_events (chronological i))" using i(2) by (simp add: chronological_def)
  ultimately show ?thesis by blast
qed

section \<open>Inventory entries stay covered\<close>

definition carries :: "identity \<Rightarrow> identity \<Rightarrow> bool" where
  "carries j i \<longleftrightarrow> i_id j = i_id i \<and> set (i_events i) \<subseteq> set (i_events j)
     \<and> (i_privileged i \<longrightarrow> i_privileged j) \<and> (i_shadow i \<longrightarrow> i_shadow j)
     \<and> (\<forall>p \<in> set (i_permissions i). \<exists>r \<in> set (i_permissions j). covers r p)"

lemma carries_refl [simp]: "carries i i"
  by (auto simp: carries_def intro: covers_refl)

lemma carries_trans: "carries k j \<Longrightarrow> carries j i \<Longrightarrow> carries k i"
  unfolding carries_def by (metis covers_trans subset_trans)

lemma carries_id: "carries j i \<Longrightarrow> i_id j = i_id i"
  by (simp add: carries_def)

lemma carries_chronological: "carries j i \<Longrightarrow> carries (chronological j) i"
  by (simp add: carries_def chronological_def)

lemma carries_merge:
  "carries (merge_identity inp d) d" "i_id d = i_id inp \<Longrightarrow> carries (merge_identity inp d) inp"
proof -
  have old: "\<forall>p \<in> set (i_permissions d). \<exists>r \<in> set (merge_permissions (i_permissions d) (i_permissions inp)). covers r p"
    using merge_covers_old by blast
  have new: "\<forall>p \<in> set (i_permissions inp). \<exists>r \<in> set (merge_permissions (i_permissions d) (i_permissions inp)). covers r p"
    using merge_covers_new by blast
  show "carries (merge_identity inp d) d" using old by (simp add: carries_def merge_identity_def)
  show "i_id d = i_id inp \<Longrightarrow> carries (merge_identity inp d) inp" using new by (simp add: carries_def merge_identity_def)
qed

lemma ingest_carries:
  assumes "lookup s k = Some i"
  shows "\<exists>j. lookup (apply_ingest op s) k = Some j \<and> carries j i"
proof (cases op)
  case (Event_of e)
  have "lookup (put (e_identity e) j (s\<lparr>s_seen := x\<rparr>)) k = (if k = e_identity e then Some j else lookup s k)" for j x
    by (simp add: lookup_def put_def update_conv')
  moreover have "carries (i\<lparr>i_events := i_events i @ [e]\<rparr>) i" by (auto simp: carries_def intro: covers_refl)
  ultimately show ?thesis using assms Event_of by (auto simp: add_event_def Let_def ensure_def)
next
  case (Identity_of inp)
  show ?thesis using assms Identity_of carries_merge(1)
    by (auto simp: add_identity_def lookup_put ensure_def)
next
  case (Mark ps)
  have "lookup (mark_privileged ps s) k = map_option (flag ps k) (lookup s k)"
    by (simp add: mark_alt lookup_def map_of_map_snd)
  moreover have "carries (flag ps k i) i" by (auto simp: carries_def flag_def intro: covers_refl)
  ultimately show ?thesis using assms Mark by simp
qed

lemma ingests_carry: "lookup s k = Some i \<Longrightarrow> \<exists>j. lookup (fold apply_ingest ops s) k = Some j \<and> carries j i"
proof (induction ops arbitrary: s i)
  case (Cons op ops)
  obtain j where j: "lookup (apply_ingest op s) k = Some j" "carries j i"
    using ingest_carries [OF Cons.prems] by blast
  then show ?case using Cons.IH [OF j(1)] carries_trans by fastforce
qed auto

lemma identity_carried:
  "wf_store s \<Longrightarrow> Identity_of inp \<in> set ops \<Longrightarrow>
     \<exists>j. lookup (fold apply_ingest ops s) (i_id inp) = Some j \<and> carries j inp"
proof (induction ops arbitrary: s)
  case (Cons op ops)
  show ?case
  proof (cases "op = Identity_of inp")
    case True
    have "lookup (apply_ingest op s) (i_id inp) = Some (merge_identity inp (ensure s (i_id inp)))"
      using True by (simp add: add_identity_def lookup_put)
    moreover have "carries (merge_identity inp (ensure s (i_id inp))) inp"
      by (rule carries_merge(2)) (simp add: ensure_id [OF Cons.prems(1)])
    ultimately show ?thesis using ingests_carry [of "apply_ingest op s" "i_id inp" _ ops] carries_trans by fastforce
  next
    case False
    with Cons.prems Cons.IH [OF wf_ingest [OF Cons.prems(1)]] show ?thesis by auto
  qed
qed simp

lemma lookup_read: "wf_store s \<Longrightarrow> lookup s k = Some i \<Longrightarrow> chronological i \<in> set (fst (identities s)) \<and> i_id i = k"
proof -
  assume wf: "wf_store s" and l: "lookup s k = Some i"
  then have m: "(k, i) \<in> set (s_identities s)" by (auto simp: lookup_def dest: map_of_SomeD)
  then have "chronological i \<in> set (fst (identities s))" by (force simp: identities_def Let_def sort_events_def)
  with m wf show ?thesis by (auto simp: wf_store_def)
qed

text \<open>Every entry that was loaded is carried by an identity the detectors read.\<close>

lemma loaded_identity_read:
  assumes "wf_store s" "Identity_of inp \<in> set ops"
  shows "\<exists>j \<in> set (fst (identities (fold apply_ingest ops s))). carries j inp"
proof -
  obtain j where "lookup (fold apply_ingest ops s) (i_id inp) = Some j" "carries j inp"
    using identity_carried [OF assms] by blast
  then show ?thesis using lookup_read [OF wf_ingests [OF assms(1)]] carries_chronological by blast
qed

section \<open>Nothing is invented\<close>

fun names :: "ingest \<Rightarrow> string option" where
  "names (Event_of e) = Some (e_identity e)"
| "names (Identity_of i) = Some (i_id i)"
| "names (Mark ps) = None"

lemma dom_ingest: "fst ` set (s_identities (apply_ingest op s)) \<subseteq> fst ` set (s_identities s) \<union> set_option (names op)"
proof (cases op)
  case (Mark ps)
  then show ?thesis by (force simp: mark_alt)
qed (auto simp: add_event_def add_identity_def Let_def put_def dest!: set_update_subset [THEN subsetD])

lemma dom_ingests:
  "fst ` set (s_identities (fold apply_ingest ops s)) \<subseteq> fst ` set (s_identities s) \<union> {k. Some k \<in> names ` set ops}"
proof (induction ops arbitrary: s)
  case (Cons op ops)
  have "fst ` set (s_identities (fold apply_ingest (op # ops) s)) \<subseteq>
      fst ` set (s_identities (apply_ingest op s)) \<union> {k. Some k \<in> names ` set ops}"
    using Cons.IH [of "apply_ingest op s"] by simp
  also have "\<dots> \<subseteq> fst ` set (s_identities s) \<union> set_option (names op) \<union> {k. Some k \<in> names ` set ops}"
    using dom_ingest [of op s] by blast
  finally show ?case by (cases "names op") auto
qed simp

lemma read_identity_named:
  assumes "j \<in> set (fst (identities (fold apply_ingest ops (new_store ps))))"
  shows "Some (i_id j) \<in> names ` set ops"
proof -
  let ?s = "fold apply_ingest ops (new_store ps)"
  obtain k i where i: "(k, i) \<in> set (s_identities ?s)" "j = chronological i"
    using assms by (auto simp: identities_def Let_def sort_events_def)
  then have "i_id j = k" using wf_ingests [OF wf_new, of ops ps] by (auto simp: wf_store_def chronological_def)
  moreover have "k \<in> fst ` set (s_identities ?s)" using i(1) by force
  ultimately show ?thesis using dom_ingests [of ops "new_store ps"] by (auto simp: new_store_def)
qed

end
