(* ===== verification/Pipeline.thy ===== *)
theory Pipeline
  imports Sensor_Capture Ingest_Events Egress_Facts Graph_Keeps
begin

text \<open>
  From a captured connection to an alert: the flows of the capture loop are written as an egress log,
  read back by the egress connector, loaded into the graph next to whatever else is in it, and judged
  by the detectors.
\<close>

section \<open>Writing and reading the log\<close>

text \<open>The entry that reads what was written: \<^verbatim>\<open>EgressFlow\<close> and \<^verbatim>\<open>egressFlow\<close> have the same JSON names.\<close>

definition wire_entry :: "egress_flow \<Rightarrow> egress_entry" where
  "wire_entry f = \<lparr>eg_time = ef_time f, eg_identity = ef_identity f, eg_destination = ef_destination f, eg_bytes = ef_bytes f\<rparr>"

definition flow_event :: "flow \<Rightarrow> event" where
  "flow_event f = (blank_event (fl_time f, 0) (fl_identity f) EventEgress ''SUCCESS'')\<lparr>e_resource := fl_destination f\<rparr>"

lemma egress_reads_flow:
  assumes "printable_time (fl_time f)"
  shows "egress_convert env n (wire_entry \<lparr>ef_time = format_nano (fl_time f), ef_identity = fl_identity f,
      ef_destination = fl_destination f, ef_bytes = 0\<rparr>) = Some (flow_event f)"
  using parse_format [OF printable_year [OF assms]]
  by (simp add: egress_convert_def wire_entry_def flow_event_def)

lemma egress_reads_flows:
  assumes "\<forall>f \<in> set flows. printable_time (fl_time f)"
  shows "read_entries (egress_convert env) (map wire_entry (to_egress_log format_nano flows)) =
      (map flow_event flows, \<lparr>rp_records = length flows, rp_malformed = 0\<rparr>)"
proof -
  let ?rs = "map wire_entry (to_egress_log format_nano flows)"
  have "convert_all (egress_convert env) ?rs = map (Some \<circ> flow_event) flows"
    using assms egress_reads_flow
    by (intro nth_equalityI) (simp_all add: convert_all_def to_egress_log_def)
  then show ?thesis
    by (simp add: read_entries_result map_filter_def comp_def filter_empty_conv to_egress_log_def)
qed

text \<open>
  A capture written with \<^verbatim>\<open>ebpf-capture\<close> and loaded as an egress log comes back whole: no entry is
  malformed, and every flow is one event of its identity and destination, at exactly its instant, to
  the nanosecond, for any instant of the years 0 to 9999, whatever the general time parser does.
\<close>

theorem capture_log_roundtrip:
  assumes "\<forall>f \<in> set flows. printable_time (fl_time f)"
    and "decode data = Inr (map wire_entry (to_egress_log format_nano flows))"
  shows "egress decode env data = Inr (map flow_event flows, \<lparr>rp_records = length flows, rp_malformed = 0\<rparr>)
    \<and> map e_time (map flow_event flows) = map fl_time flows"
  using egress_reads_flows [OF assms(1)] assms(2) by (simp add: egress_def flow_event_def blank_event_def comp_def)

definition sample_capture :: "flow list" where
  "sample_capture =
     [\<lparr>fl_time = 1769999999123456789, fl_identity = ''proc:curl'', fl_destination = ''api.openai.com:443'',
       fl_pid = 7, fl_cgroup_id = 0, fl_observed = ''proc:curl''\<rparr>]"

theorem capture_log_roundtrip_witness:
  "\<forall>env. egress (\<lambda>_ :: unit. Inr (map wire_entry (to_egress_log format_nano sample_capture)) :: unit + egress_entry list) env () =
     Inr (map flow_event sample_capture, \<lparr>rp_records = 1, rp_malformed = 0\<rparr>)"
proof
  fix env
  have "printable_time 1769999999123456789"
    by (simp add: printable_time_def date_ns_def days_before_year_def days_before_month_def epoch_days_def durations)
  then have "\<forall>f \<in> set sample_capture. printable_time (fl_time f)" by (simp add: sample_capture_def)
  from capture_log_roundtrip [OF this, of
      "\<lambda>_ :: unit. Inr (map wire_entry (to_egress_log format_nano sample_capture)) :: unit + egress_entry list"
      "()" env]
  show "egress (\<lambda>_ :: unit. Inr (map wire_entry (to_egress_log format_nano sample_capture)) :: unit + egress_entry list) env () =
      Inr (map flow_event sample_capture, \<lparr>rp_records = 1, rp_malformed = 0\<rparr>)" by (simp add: sample_capture_def)
qed

section \<open>From a connection to an alert\<close>

lemma known_hosts_match: "h \<in> set known_llm_hosts \<Longrightarrow> match_llm (h @ '':443'') \<noteq> None \<and> CHR '':'' \<notin> set h"
proof -
  have "\<forall>h \<in> set known_llm_hosts. match_llm (h @ '':443'') \<noteq> None \<and> CHR '':'' \<notin> set h" by code_simp
  then show "h \<in> set known_llm_hosts \<Longrightarrow> ?thesis" by blast
qed

lemma captured_label:
  assumes "capture_event env n ev = Keep f" "event_ip ev = Some a" "dc_dport ev = 443"
    "ce_llm_ips env (ip_string a) = Some h" "h \<in> set known_llm_hosts"
  shows "match_llm (fl_destination f) \<noteq> None"
proof -
  have "fl_destination f = join_host_port h ''443''"
    using assms by (auto simp: capture_event_def destination_def itoa_utoa Let_def gostr split: if_splits)
  then show ?thesis using known_hosts_match [OF assms(5)] by (simp add: join_host_port_def)
qed

lemma captured_identity:
  assumes "capture_event env n ev = Keep f"
  shows "fl_identity f = fl_observed f \<and> has_prefix (fl_identity f) identity_prefix \<or> is_claimed (fl_identity f)"
  using assms
  by (auto simp: capture_event_def flow_identity_def Let_def proc_identity_def claimed_identity_def is_claimed_def
    split: if_splits option.splits)

lemma llm_event_displays:
  assumes "e \<in> set es" "is_egress e" "match_llm (e_resource e) \<noteq> None"
  shows "llm_displays es \<noteq> []"
  using assms by (induction es) (auto simp: llm_displays_def map_filter_def)

lemma unmanaged_llm:
  assumes "i \<in> set ids" "has_prefix (i_id i) identity_prefix" "e \<in> set (i_events i)" "is_egress e"
    "match_llm (e_resource e) \<noteq> None"
  shows "\<exists>x \<in> set (unmanaged_egress t ids). a_identity x = i_id i \<and> a_severity x = SeverityHigh"
proof -
  have "egress_destinations i \<noteq> []" using assms by (auto simp: egress_destinations_def filter_empty_conv)
  then obtain x where "unmanaged_egress_judge t i = [x]" "a_identity x = i_id i" "a_severity x = SeverityHigh"
    using assms(2) llm_event_displays [OF assms(3-5)] by (simp add: unmanaged_egress_judge_def Let_def)
  then show ?thesis using assms(1) by (auto simp: unmanaged_egress_def intro!: bexI [where x = x] bexI [where x = i])
qed

lemma claimed_llm:
  assumes "i \<in> set ids" "is_claimed (i_id i)" "e \<in> set (i_events i)" "is_egress e"
    "match_llm (e_resource e) \<noteq> None" "claimed_name i \<notin> i_id ` set (governed_ids ids)"
  shows "\<exists>x \<in> set (claimed_agent_unknown t ids). a_identity x = i_id i \<and> a_severity x = SeverityCritical"
proof -
  obtain x where "claimed_agent_unknown_judge ids t i = [x]" "a_identity x = i_id i" "a_severity x = SeverityCritical"
    using assms(2,6) llm_event_displays [OF assms(3-5)] by (simp add: claimed_agent_unknown_judge_def Let_def)
  then show ?thesis using assms(1)
    by (auto simp: claimed_agent_unknown_def intro!: bexI [where x = x] bexI [where x = i])
qed

text \<open>
  C2: No captured connection to a model API goes unreported. Take any connection on port 443 to an
  address that the sensor resolved for one of its provider hosts, and any graph that its flow was loaded
  into, with whatever other events, inventories and marks before and after. If the process claimed
  nothing, \<^verbatim>\<open>unmanaged_egress\<close> reports its observed identity as high; if it claimed an agent, either
  \<^verbatim>\<open>claimed_agent_unknown\<close> reports the claim as critical, or the graph holds an established identity of
  exactly the claimed name.
\<close>

theorem captured_llm_flow_reported:
  assumes "capture_event env n ev = Keep f" "event_ip ev = Some a" "dc_dport ev = 443"
    "ce_llm_ips env (ip_string a) = Some h" "h \<in> set known_llm_hosts"
    and "Event_of (flow_event f) \<in> set ops"
    and "ids = fst (identities (fold apply_ingest ops (new_store ps)))"
  shows "fl_identity f = fl_observed f
      \<and> (\<exists>x \<in> set (unmanaged_egress t ids). a_identity x = fl_identity f \<and> a_severity x = SeverityHigh)
    \<or> is_claimed (fl_identity f)
      \<and> ((\<exists>x \<in> set (claimed_agent_unknown t ids). a_identity x = fl_identity f \<and> a_severity x = SeverityCritical)
        \<or> (\<exists>j \<in> set ids. \<not> is_claimed (i_id j) \<and> claimed_prefix @ i_id j = fl_identity f))"
proof -
  let ?e = "flow_event f"
  have e: "e_identity ?e = fl_identity f" "is_egress ?e" "e_resource ?e = fl_destination f"
    by (simp_all add: flow_event_def blank_event_def is_egress_def)
  have llm: "match_llm (e_resource ?e) \<noteq> None" using captured_label [OF assms(1-5)] e by simp
  obtain i where i: "i \<in> set ids" "i_id i = fl_identity f" "?e \<in> set (i_events i)"
    using loaded_event_read [OF assms(6), of ps] assms(7) e by auto
  consider "fl_identity f = fl_observed f" "has_prefix (fl_identity f) identity_prefix" | "is_claimed (fl_identity f)"
    using captured_identity [OF assms(1)] by blast
  then show ?thesis
  proof cases
    case 1
    with unmanaged_llm [OF i(1) _ i(3) e(2) llm, of t] i(2) show ?thesis by auto
  next
    case 2
    show ?thesis
    proof (cases "claimed_name i \<in> i_id ` set (governed_ids ids)")
      case True
      then obtain j where j: "j \<in> set ids" "\<not> is_claimed (i_id j)" "i_id j = claimed_name i"
        by (auto simp: governed_ids_def)
      have "claimed_prefix @ claimed_name i = fl_identity f"
        using 2 has_prefixD [of "fl_identity f" claimed_prefix] by (simp add: claimed_name_def is_claimed_def i(2))
      with 2 j show ?thesis by metis
    next
      case False
      with claimed_llm [OF i(1) _ i(3) e(2) llm False, of t] 2 i(2) show ?thesis by auto
    qed
  qed
qed

text \<open>The sample connection of \<open>Sensor_Capture\<close>, its address now known as a provider's.\<close>

definition labelled_env :: capture_env where
  "labelled_env = sample_env\<lparr>ce_llm_ips := [''192.0.2.7'' \<mapsto> ''api.openai.com'']\<rparr>"

definition labelled_flow :: flow where
  "labelled_flow =
     \<lparr>fl_time = 999, fl_identity = ''proc:curl@cg8471'', fl_destination = ''api.openai.com:443'',
      fl_pid = 4242, fl_cgroup_id = 8471, fl_observed = ''proc:curl@cg8471''\<rparr>"

theorem captured_llm_flow_reported_witness:
  "\<exists>x \<in> set (unmanaged_egress 0 (fst (identities (fold apply_ingest [Event_of (flow_event labelled_flow)] (new_store []))))).
     a_identity x = ''proc:curl@cg8471'' \<and> a_severity x = SeverityHigh"
proof -
  have keep: "capture_event labelled_env 0 (decoded_of sample_record) = Keep labelled_flow"
    by (simp add: labelled_env_def labelled_flow_def sample_capture_simps gostr)
  have ip: "event_ip (decoded_of sample_record) = Some (v4_in_v6_prefix @ [192, 0, 2, 7])"
    and port: "dc_dport (decoded_of sample_record) = 443"
    by (simp_all add: sample_decoded event_ip_def)
  have label: "ce_llm_ips labelled_env (ip_string (v4_in_v6_prefix @ [192, 0, 2, 7])) = Some ''api.openai.com''"
    by (simp add: labelled_env_def sample_texts)
  have known: "''api.openai.com'' \<in> set known_llm_hosts" by (simp add: known_llm_hosts_def)
  have "\<not> is_claimed ''proc:curl@cg8471''" by code_simp
  with captured_llm_flow_reported [OF keep ip port label known _ refl,
      where ops = "[Event_of (flow_event labelled_flow)]" and ps = "[]" and t = 0]
  show ?thesis by (simp add: labelled_flow_def)
qed

end
