(* ===== verification/Egress_Judged.thy ===== *)
theory Egress_Judged
  imports Egress_Facts Ingest_Events
begin

text \<open>
  What \<^verbatim>\<open>unrouted_egress\<close> judges: the ranges of addresses it leaves aside, as CIDR blocks, and the
  account it gives of every governed agent.
\<close>

section \<open>Blocks of addresses\<close>

definition in_cidr :: "u8 list \<times> nat \<Rightarrow> u8 list \<Rightarrow> bool" where
  "in_cidr c a \<longleftrightarrow> (case c of (p, n) \<Rightarrow> length a = length p
     \<and> be_nat a div 2 ^ (8 * length a - n) = be_nat p div 2 ^ (8 * length a - n))"

definition v4_not_judged :: "(u8 list \<times> nat) list" where
  "v4_not_judged =
     [([0, 0, 0, 0], 8), ([10, 0, 0, 0], 8), ([100, 64, 0, 0], 10), ([127, 0, 0, 0], 8), ([169, 254, 0, 0], 16),
      ([172, 16, 0, 0], 12), ([192, 168, 0, 0], 16), ([224, 0, 0, 0], 4), ([255, 255, 255, 255], 32)]"

definition v6_not_judged :: "(u8 list \<times> nat) list" where
  "v6_not_judged =
     [(replicate 16 0, 128), (replicate 15 0 @ [1], 128), (252 # replicate 15 0, 7),
      ([254, 128] @ replicate 14 0, 10), (255 # replicate 15 0, 8)]"

lemma be_nat_append: "be_nat (xs @ ys) = be_nat xs * 256 ^ length ys + be_nat ys"
proof -
  have "le_nat (us @ vs) = le_nat us + 256 ^ length us * le_nat vs" for us vs
    by (induction us) simp_all
  then show ?thesis by (simp add: be_nat_def)
qed

lemma be_nat_bound: "be_nat xs < 256 ^ length xs"
  using le_nat_bound [of "rev xs"] by (simp add: be_nat_def)

lemma be_nat_inj: "length xs = length ys \<Longrightarrow> be_nat xs = be_nat ys \<longleftrightarrow> xs = ys"
proof -
  assume "length xs = length ys"
  then have "le_nat (rev xs) = le_nat (rev ys) \<Longrightarrow> rev xs = rev ys"
    using le_bytes_nat_le_nat [of "rev xs"] le_bytes_nat_le_nat [of "rev ys"] by simp
  then show ?thesis by (auto simp: be_nat_def)
qed

lemma be_nat_front: "be_nat (xs @ ys) div 2 ^ (8 * length ys + k) = be_nat xs div 2 ^ k"
proof -
  have "(2 :: nat) ^ (8 * length ys + k) = 256 ^ length ys * 2 ^ k"
    by (simp add: power_add power_mult)
  then show ?thesis using be_nat_bound [of ys] by (simp add: be_nat_append div_mult2_eq)
qed

lemma in_cidr_front:
  assumes "length a = length p" "length xs = length ps" "length ps * 8 = n + k" "a = xs @ ys" "p = ps @ qs"
  shows "in_cidr (p, n) a \<longleftrightarrow> be_nat xs div 2 ^ k = be_nat ps div 2 ^ k"
proof -
  have len: "length ys = length qs" "8 * length a - n = 8 * length ys + k" using assms by simp_all
  show ?thesis using assms(1) be_nat_front [of xs ys k] be_nat_front [of ps qs k] len
    by (simp add: in_cidr_def assms(4,5))
qed

lemma be_nat_short [simp]: "be_nat [x] = unat x" "be_nat [x, y] = unat x * 256 + unat y"
  by (simp_all add: be_nat_def)

lemma unat_and_high: "unat (w AND NOT (mask n)) = 2 ^ n * (unat w div 2 ^ n)" for w :: u8
proof -
  have "w AND NOT (mask n) = push_bit n (drop_bit n w)"
    by (rule bit_word_eqI) (auto simp: bit_simps)
  also have "\<dots> = w - take_bit n w"
    using bits_ident [of n w] by (simp add: algebra_simps)
  finally have "w AND NOT (mask n) = w - take_bit n w" .
  moreover have low: "unat (take_bit n w) = unat w mod 2 ^ n"
    unfolding unsigned_take_bit_eq by (rule take_bit_eq_mod)
  moreover from low have "take_bit n w \<le> w" by (simp only: word_le_nat_alt mod_less_eq_dividend)
  ultimately have "unat (w AND NOT (mask n)) = unat w - unat w mod 2 ^ n"
    by (simp only: unat_sub)
  then show ?thesis by (simp add: minus_mod_eq_mult_div)
qed

lemma and_high:
  assumes "v = 2 ^ n * q" "unat (c :: u8) = v"
  shows "w AND NOT (mask n) = c \<longleftrightarrow> unat w div 2 ^ n = q"
  using assms by (simp add: word_unat_eq_iff [of _ c] unat_and_high)

lemma byte_masks:
  "(w :: u8) AND 240 = 224 \<longleftrightarrow> unat w div 16 = 14" "w AND 240 = 16 \<longleftrightarrow> unat w div 16 = 1"
  "w AND 192 = 64 \<longleftrightarrow> unat w div 64 = 1" "w AND 192 = 128 \<longleftrightarrow> unat w div 64 = 2"
  "w AND 254 = 252 \<longleftrightarrow> unat w div 2 = 126"
proof -
  have m: "(240 :: u8) = NOT (mask 4)" "(192 :: u8) = NOT (mask 6)" "(254 :: u8) = NOT (mask 1)"
    by (simp_all add: mask_eq_exp_minus_1)
  show "w AND 240 = 224 \<longleftrightarrow> unat w div 16 = 14" using and_high [of 224 4 14 224 w] by (simp add: m)
  show "w AND 240 = 16 \<longleftrightarrow> unat w div 16 = 1" using and_high [of 16 4 1 16 w] by (simp add: m)
  show "w AND 192 = 64 \<longleftrightarrow> unat w div 64 = 1" using and_high [of 64 6 1 64 w] by (simp add: m)
  show "w AND 192 = 128 \<longleftrightarrow> unat w div 64 = 2" using and_high [of 128 6 2 128 w] by (simp add: m)
  show "w AND 254 = 252 \<longleftrightarrow> unat w div 2 = 126" using and_high [of 252 1 126 252 w] by (simp add: m)
qed

lemma v4_block8: "in_cidr ([p, q, r, s], 8) [w, x, y, z] \<longleftrightarrow> w = p"
  using in_cidr_front [of "[w, x, y, z]" "[p, q, r, s]" "[w]" "[p]" 8 0] by (simp add: word_unat_eq_iff)

lemma v4_block16: "in_cidr ([p, q, r, s], 16) [w, x, y, z] \<longleftrightarrow> w = p \<and> x = q"
proof -
  have "in_cidr ([p, q, r, s], 16) [w, x, y, z] \<longleftrightarrow> be_nat [w, x] = be_nat [p, q]"
    using in_cidr_front [of "[w, x, y, z]" "[p, q, r, s]" "[w, x]" "[p, q]" 16 0] by simp
  then show ?thesis using be_nat_inj [of "[w, x]" "[p, q]"] by simp
qed

lemma two_bytes_div:
  fixes w x p q :: u8
  assumes "m dvd 256" "0 < m"
  shows "(unat w * 256 + unat x) div m = (unat p * 256 + unat q) div m \<longleftrightarrow> w = p \<and> unat x div m = unat q div m"
proof -
  obtain k where k: "256 = m * k" using assms(1) by (rule dvdE)
  then have div: "(u * 256 + v) div m = u * k + v div m" for u v
    using assms(2) by (simp add: k mult.assoc mult.left_commute)
  have "unat x div m < k" "unat q div m < k"
    using unat_byte [of x] unat_byte [of q] k by (simp_all add: less_mult_imp_div_less mult.commute)
  then have "(unat w * k + unat x div m) div k = unat w" "(unat p * k + unat q div m) div k = unat p"
    by simp_all
  then have "unat w * k + unat x div m = unat p * k + unat q div m \<longleftrightarrow> unat w = unat p \<and> unat x div m = unat q div m"
    by (metis add_left_cancel)
  then show ?thesis by (simp add: div word_unat_eq_iff)
qed

lemma power_numeral_values: "(2 :: nat) ^ 6 = 64" "(2 :: nat) ^ 4 = 16"
  by simp_all

lemma two_bytes_64:
  "(unat w * 256 + unat x) div 2 ^ 6 = (unat p * 256 + unat q) div 2 ^ 6 \<longleftrightarrow> w = p \<and> unat x div 64 = unat q div 64"
  for w x p q :: u8
  using two_bytes_div [of 64 w x p q] by (simp only: power_numeral_values) simp

lemma two_bytes_16:
  "(unat w * 256 + unat x) div 2 ^ 4 = (unat p * 256 + unat q) div 2 ^ 4 \<longleftrightarrow> w = p \<and> unat x div 16 = unat q div 16"
  for w x p q :: u8
  using two_bytes_div [of 16 w x p q] by (simp only: power_numeral_values) simp

lemma v4_block10: "in_cidr ([p, q, r, s], 10) [w, x, y, z] \<longleftrightarrow> w = p \<and> unat x div 64 = unat q div 64"
  by (subst in_cidr_front [where xs = "[w, x]" and ps = "[p, q]" and k = 6 and ys = "[y, z]" and qs = "[r, s]"])
    (simp_all only: be_nat_short two_bytes_64, simp_all)

lemma v4_block12: "in_cidr ([p, q, r, s], 12) [w, x, y, z] \<longleftrightarrow> w = p \<and> unat x div 16 = unat q div 16"
  by (subst in_cidr_front [where xs = "[w, x]" and ps = "[p, q]" and k = 4 and ys = "[y, z]" and qs = "[r, s]"])
    (simp_all only: be_nat_short two_bytes_16, simp_all)

lemma v4_block4: "in_cidr ([p, q, r, s], 4) [w, x, y, z] \<longleftrightarrow> unat w div 16 = unat p div 16"
  by (subst in_cidr_front [where xs = "[w]" and ps = "[p]" and k = 4 and ys = "[x, y, z]" and qs = "[q, r, s]"]) simp_all

lemma block_all: "n = 8 * length p \<Longrightarrow> length a = length p \<Longrightarrow> in_cidr (p, n) a \<longleftrightarrow> a = p"
  by (simp add: in_cidr_def be_nat_inj)

lemma v6_block8: "length ps = 15 \<Longrightarrow> length xs = 15 \<Longrightarrow> in_cidr (p # ps, 8) (x # xs) \<longleftrightarrow> x = p"
  by (subst in_cidr_front [where xs = "[x]" and ps = "[p]" and k = 0 and ys = xs and qs = ps])
    (simp_all add: word_unat_eq_iff)

lemma v6_block7: "length ps = 15 \<Longrightarrow> length xs = 15 \<Longrightarrow> in_cidr (p # ps, 7) (x # xs) \<longleftrightarrow> unat x div 2 = unat p div 2"
  by (subst in_cidr_front [where xs = "[x]" and ps = "[p]" and k = 1 and ys = xs and qs = ps]) simp_all

lemma v6_block10:
  "length ps = 14 \<Longrightarrow> length xs = 14 \<Longrightarrow>
     in_cidr (p # q # ps, 10) (x # y # xs) \<longleftrightarrow> x = p \<and> unat y div 64 = unat q div 64"
  by (subst in_cidr_front [where xs = "[x, y]" and ps = "[p, q]" and k = 6 and ys = xs and qs = ps])
    (simp_all only: be_nat_short two_bytes_64, simp_all)

section \<open>Addresses judged\<close>

definition public_address :: "addr \<Rightarrow> bool" where
  "public_address a \<longleftrightarrow> is_global_unicast a \<and> \<not> is_private a \<and> \<not> in_carrier_nat a \<and> \<not> in_this_network a"

lemma byte_literals: "(w :: u8) = 10 \<longleftrightarrow> unat w = 10"
  by (simp add: word_unat_eq_iff)

lemma public_v4:
  assumes "length b = 4"
  shows "public_address (V4 b) \<longleftrightarrow> (\<forall>c \<in> set v4_not_judged. \<not> in_cidr c b)"
proof -
  obtain w x y z where b: "b = [w, x, y, z]" using length4 [OF assms] by blast
  show ?thesis
    unfolding public_address_def b v4_not_judged_def
    by (simp add: is_global_unicast_def is_private_def in_carrier_nat_def in_this_network_def addr_loopback_def
      is_multicast_def is_link_local_unicast_def unmap_def byte_masks v4_block4 v4_block8 v4_block10 v4_block12
      v4_block16 block_all) blast
qed

lemma public_v6:
  assumes "length a = 16" "take 12 a \<noteq> v4_in_v6_prefix"
  shows "public_address (V6 a []) \<longleftrightarrow> (\<forall>c \<in> set v6_not_judged. \<not> in_cidr c a)"
proof -
  obtain x y xs where a: "a = x # y # xs" "length xs = 14" using assms(1)
    by (cases a; cases "tl a") auto
  have "in_cidr (replicate 16 0, 128) a \<longleftrightarrow> a = replicate 16 0"
    "in_cidr (replicate 15 0 @ [1], 128) a \<longleftrightarrow> a = ipv6_loopback"
    using assms(1) by (simp_all only: ipv6_loopback_def) (simp_all add: block_all)
  moreover have "in_cidr (252 # replicate 15 0, 7) a \<longleftrightarrow> unat x div 2 = 126"
    "in_cidr (255 # replicate 15 0, 8) a \<longleftrightarrow> x = 255"
    "in_cidr ([254, 128] @ replicate 14 0, 10) a \<longleftrightarrow> x = 254 \<and> unat y div 64 = 2"
    using a by (simp_all add: v6_block7 v6_block8 v6_block10)
  moreover have "unmap (V6 a []) = V6 a []" using assms(2) by (simp add: unmap_def)
  ultimately show ?thesis
    unfolding public_address_def v6_not_judged_def
    by (simp add: is_global_unicast_def is_private_def in_carrier_nat_def in_this_network_def addr_loopback_def
      is_multicast_def is_link_local_unicast_def byte_masks a) blast
qed

section \<open>What the sensor's destinations are judged as\<close>

text \<open>The characters of an address: lower-case hexadecimal digits, colons and dots.\<close>

definition address_char :: "char \<Rightarrow> bool" where
  "address_char c \<longleftrightarrow> (\<exists>d < 16. c = digit_char d) \<or> c = CHR '':'' \<or> c = CHR ''.''"

lemma ip_string_address_chars:
  assumes "length a = 16" "c \<in> set (ip_string a)"
  shows "address_char c"
proof (cases "take 12 a = v4_in_v6_prefix")
  case True
  then have "c \<in> set (v4_string (drop 12 a))" using assms by (simp add: ip_string_16)
  then consider "c = CHR ''.''" | x where "c \<in> set (utoa x)"
    using set_join [of "''.''" "map (\<lambda>x. utoa (unat x)) (drop 12 a)"] by (auto simp: v4_string_def)
  then show ?thesis
  proof cases
    case 2
    then obtain d where "d < 10" "c = digit_char d" using digits_base_chars [of 10 c x] by (auto simp: utoa_def)
    then have "d < 16" by simp
    with \<open>c = digit_char d\<close> show ?thesis unfolding address_char_def by blast
  qed (simp add: address_char_def)
next
  case False
  have groups: "c = CHR '':'' \<or> (\<exists>g. c \<in> set (hextoa g))" if "c \<in> set (hex_groups gs)" for gs
    using that set_join [of "'':''" "map hextoa gs"] by (auto simp: hex_groups_def)
  have "c \<in> set (v6_string a)" using False assms by (simp add: ip_string_16)
  then have "c = CHR '':'' \<or> (\<exists>g. c \<in> set (hextoa g))"
    using groups by (auto simp: v6_string_def Let_def split: option.splits prod.splits)
  then show ?thesis using digits_base_chars [of 16 c] by (auto simp: address_char_def hextoa_def)
qed

lemma address_char_code:
  assumes "address_char c"
  shows "lower_char c = c" "c \<notin> set white" "c \<noteq> CHR ''l''" "c \<noteq> CHR ''n''"
proof -
  have "(\<exists>d < 16. of_char c = (if d < 10 then 48 + d else 87 + d :: nat)) \<or> of_char c = (58 :: nat) \<or> of_char c = (46 :: nat)"
    using assms of_char_digit by (auto simp: address_char_def)
  then have n: "46 \<le> (of_char c :: nat)" "(of_char c :: nat) \<le> 102" "\<not> (65 \<le> (of_char c :: nat) \<and> (of_char c :: nat) \<le> 90)"
    by (auto split: if_splits)
  show "lower_char c = c" using n(3) by (auto simp: lower_char_def Let_def)
  show "c \<notin> set white" using n(1) by (auto simp: white_def)
  show "c \<noteq> CHR ''l''" "c \<noteq> CHR ''n''" using n(2) by auto
qed

lemma trim_nothing: "(\<And>c. c \<in> set s \<Longrightarrow> c \<notin> set cs) \<Longrightarrow> trim s cs = s"
proof -
  assume "\<And>c. c \<in> set s \<Longrightarrow> c \<notin> set cs"
  then have "dropWhile (\<lambda>c. c \<in> set cs) s = s" "dropWhile (\<lambda>c. c \<in> set cs) (rev s) = rev s"
    by (auto simp: dropWhile_eq_self_iff dest: hd_in_set [of "rev s", simplified])
  then show "trim s cs = s" by (simp add: trim_def trim_right_def)
qed

lemma suffix_last: "has_suffix s (x @ [c]) \<Longrightarrow> c \<in> set s"
  by (auto simp: has_suffix_def suffix_def)

lemma no_internal_suffix:
  assumes "CHR ''l'' \<notin> set s" "CHR ''n'' \<notin> set s"
  shows "\<not> list_ex (has_suffix s) internal_suffixes"
  using assms suffix_last [of s "''.interna''" "CHR ''l''"] suffix_last [of s "''.loca''" "CHR ''l''"]
    suffix_last [of s "''.localdomai''" "CHR ''n''"] suffix_last [of s "''.cluster.loca''" "CHR ''l''"]
  by (auto simp: internal_suffixes_def)

lemma parse_addr_ip_string:
  assumes "length a = 16"
  shows "parse_addr (ip_string a) = Some (if take 12 a = v4_in_v6_prefix then V4 (drop 12 a) else V6 a [])"
  using assms parse_addr_v4 [of "drop 12 a"] parse_addr_v6 [of a] by (simp add: ip_string_16)

text \<open>
  The addresses the sensor reports are judged exactly as the plane's rules say, whatever text they
  went through: a destination of a 16-byte address on any port, IPv6 in brackets included, counts as
  public exactly when the address, read in its short form if it is a mapped one, lies in none of the
  nine blocks of IPv4 and five of IPv6 that the plane refuses.
\<close>

theorem sensor_destinations_judged:
  assumes "length a = 16" "port = 443 \<longrightarrow> llm_ips (ip_string a) = None"
  shows "\<exists>d. destination a port llm_ips = Some d
    \<and> (is_public_destination (destination_host d) \<longleftrightarrow>
        (case to4 a of
           Some b \<Rightarrow> \<forall>c \<in> set v4_not_judged. \<not> in_cidr c b
         | None \<Rightarrow> \<forall>c \<in> set v6_not_judged. \<not> in_cidr c a))"
proof -
  obtain d where d: "destination a port llm_ips = Some d" "split_host_port d = Some (ip_string a, utoa (unat port))"
    using destination_splits [where port = port and llm_ips = llm_ips, OF assms] by blast
  let ?h = "ip_string a"
  have chars: "lower_char c = c" "c \<notin> set white" "c \<noteq> CHR ''l''" "c \<noteq> CHR ''n''" if "c \<in> set ?h" for c
    using address_char_code [OF ip_string_address_chars [OF assms(1) that]] by simp_all
  have "to_lower ?h = ?h" unfolding to_lower_def by (rule map_idI) (rule chars(1))
  then have host: "destination_host d = ?h"
    using chars(2) by (simp add: destination_host_def d(2) trim_space_def trim_nothing)
  have no: "CHR ''l'' \<notin> set ?h" "CHR ''n'' \<notin> set ?h" using chars(3,4) by blast+
  then have names: "\<not> list_ex (has_suffix ?h) internal_suffixes" "?h \<noteq> ''localhost''"
    using no_internal_suffix by auto
  have ne: "?h \<noteq> []" using parse_addr_ip_string [OF assms(1)] by (auto simp: parse_addr_def)
  have "is_public_destination ?h \<longleftrightarrow>
      public_address (unmap (if take 12 a = v4_in_v6_prefix then V4 (drop 12 a) else V6 a []))"
    using names ne parse_addr_ip_string [OF assms(1)]
    by (simp add: is_public_destination_def public_address_def Let_def)
  also have "\<dots> \<longleftrightarrow> (case to4 a of
      Some b \<Rightarrow> \<forall>c \<in> set v4_not_judged. \<not> in_cidr c b | None \<Rightarrow> \<forall>c \<in> set v6_not_judged. \<not> in_cidr c a)"
  proof (cases "take 12 a = v4_in_v6_prefix")
    case True
    then have "to4 a = Some (drop 12 a)" "unmap (V4 (drop 12 a)) = V4 (drop 12 a)" "length (drop 12 a) = 4"
      using assms(1) by (simp_all add: to4_def unmap_def)
    then show ?thesis using public_v4 [of "drop 12 a"] True by simp
  next
    case False
    then have t: "to4 a = None" "unmap (V6 a []) = V6 a []" using assms(1) by (simp_all add: to4_def unmap_def)
    show ?thesis unfolding if_not_P [OF False] t option.case by (rule public_v6 [OF assms(1) False])
  qed
  finally show ?thesis by (intro exI [of _ d] conjI d(1)) (simp only: host)
qed

theorem sensor_destinations_judged_witness:
  "\<exists>d. destination (v4_in_v6_prefix @ [100, 127, 255, 255]) 8443 Map.empty = Some d \<and> \<not> is_public_destination (destination_host d)"
proof -
  let ?a = "v4_in_v6_prefix @ [100, 127, 255, 255] :: ip"
  have "to4 ?a = Some [100, 127, 255, 255]" by (simp add: to4_def v4_in_v6_prefix_def)
  moreover have "in_cidr ([100, 64, 0, 0], 10) [100, 127, 255, 255]" by (simp add: v4_block10)
  moreover have "([100, 64, 0, 0], 10) \<in> set v4_not_judged" by (simp add: v4_not_judged_def)
  ultimately show ?thesis
    using sensor_destinations_judged [of ?a 8443 Map.empty] by (force simp: v4_in_v6_prefix_def)
qed

section \<open>Every governed agent is accounted for\<close>

definition bypassing :: "event \<Rightarrow> bool" where
  "bypassing e \<longleftrightarrow> is_egress e \<and> match_llm (e_resource e) = None \<and> is_public_destination (destination_host (e_resource e))"

lemma split_events_public:
  "set (sp_public (fold split_event es sp)) =
     set (sp_public sp) \<union> (\<lambda>e. destination_host (e_resource e)) ` {e \<in> set es. bypassing e}"
proof (induction es arbitrary: sp)
  case (Cons e es)
  have "set (sp_public (split_event e sp)) =
      set (sp_public sp) \<union> (\<lambda>e. destination_host (e_resource e)) ` {x \<in> {e}. bypassing x}"
    by (auto simp: split_event_def bypassing_def Let_def)
  with Cons.IH [of "split_event e sp"] show ?case by auto
qed simp

lemma split_public: "sp_public (split_egress i) \<noteq> [] \<longleftrightarrow> (\<exists>e \<in> set (i_events i). bypassing e)"
proof -
  have "sp_public (split_egress i) = sorted_keys (sp_public (fold split_event (i_events i) \<lparr>sp_public = [], sp_private = 0, sp_llm = 0\<rparr>))"
    by (simp add: split_egress_def Let_def)
  then have "set (sp_public (split_egress i)) = (\<lambda>e. destination_host (e_resource e)) ` {e \<in> set (i_events i). bypassing e}"
    by (simp add: split_events_public)
  then show ?thesis by (metis (mono_tags, lifting) Collect_empty_eq empty_set image_is_empty set_empty)
qed

lemma refused_iff:
  assumes "\<not> is_claimed k"
  shows "gv_refused (governance_of ids k) > 0 \<longleftrightarrow>
    (\<exists>i \<in> set ids. i_id i = k \<and> (\<exists>e \<in> set (i_events i). enforced e \<and> e_type e = EventWebBlocked))"
proof -
  have "gv_refused (governance_of ids k) > 0 \<longleftrightarrow>
      (\<exists>i \<in> set (governed_ids ids). i_id i = k \<and> (\<exists>e \<in> set (i_events i). enforced e \<and> e_type e = EventWebBlocked))"
    by (auto simp: governance_of_def Let_def filter_empty_conv split: if_splits)
  then show ?thesis using assms by (auto simp: governed_ids_def)
qed

lemma claimed_node_iff:
  assumes "distinct (map i_id ids)"
  shows "claimed_node ids k = Some i \<longleftrightarrow> i \<in> set ids \<and> i_id i = claimed_prefix @ k"
proof -
  have name: "is_claimed (i_id j) \<and> claimed_name j = k \<longleftrightarrow> i_id j = claimed_prefix @ k" for j
    using has_prefixD [of "i_id j" claimed_prefix] by (auto simp: is_claimed_def claimed_name_def)
  have one: "i_id j = i_id i \<Longrightarrow> j \<in> set ids \<Longrightarrow> i \<in> set ids \<Longrightarrow> j = i" for j i
    using assms by (meson distinct_map inj_onD)
  show ?thesis
  proof
    assume "claimed_node ids k = Some i"
    from claimed_node_Some [OF this] name [of i] show "i \<in> set ids \<and> i_id i = claimed_prefix @ k" by blast
  next
    assume i: "i \<in> set ids \<and> i_id i = claimed_prefix @ k"
    have "claimed_node ids k \<noteq> None"
      using i name [of i] by (auto simp: claimed_node_def find_None_iff intro!: exI [of _ i])
    then obtain j where j: "claimed_node ids k = Some j" by blast
    from claimed_node_Some [OF this] name [of j] i one [of j i] have "j = i" by simp
    with j show "claimed_node ids k = Some i" by simp
  qed
qed

definition about :: "string \<Rightarrow> alert \<Rightarrow> bool" where
  "about k a \<longleftrightarrow> a_identity a = k \<or> a_identity a = claimed_prefix @ k"

lemma judge_about:
  assumes "distinct (map i_id ids)"
  shows "about k (unrouted_egress_judge ids t k)"
  using claimed_node_iff [OF assms, of k]
  by (auto simp: about_def unrouted_egress_judge_def Let_def split: option.split)

lemma about_unique:
  assumes "about k a" "about k' a" "\<not> is_claimed k" "\<not> is_claimed k'"
  shows "k = k'"
  using assms by (auto simp: about_def is_claimed_def)

lemma judge_severity:
  assumes "distinct (map i_id ids)" "\<not> is_claimed k"
  shows "SeverityInfo < a_severity (unrouted_egress_judge ids t k) \<longleftrightarrow>
      (\<exists>i \<in> set ids. i_id i = claimed_prefix @ k \<and> (\<exists>e \<in> set (i_events i). bypassing e))"
    and "SeverityMedium < a_severity (unrouted_egress_judge ids t k) \<longleftrightarrow>
      (\<exists>i \<in> set ids. i_id i = claimed_prefix @ k \<and> (\<exists>e \<in> set (i_events i). bypassing e))
      \<and> (\<exists>i \<in> set ids. i_id i = k \<and> (\<exists>e \<in> set (i_events i). enforced e \<and> e_type e = EventWebBlocked))"
proof -
  have node: "(\<exists>i \<in> set ids. i_id i = claimed_prefix @ k \<and> (\<exists>e \<in> set (i_events i). bypassing e)) \<longleftrightarrow>
      (\<exists>i. claimed_node ids k = Some i \<and> sp_public (split_egress i) \<noteq> [])"
    using claimed_node_iff [OF assms(1), of k] split_public by blast
  have sev: "a_severity (unrouted_egress_judge ids t k) =
      (if \<exists>i. claimed_node ids k = Some i \<and> sp_public (split_egress i) \<noteq> []
       then if gv_refused (governance_of ids k) > 0 then SeverityHigh else SeverityMedium
       else SeverityInfo)"
    by (auto simp: unrouted_egress_judge_def Let_def split: option.split)
  show "SeverityInfo < a_severity (unrouted_egress_judge ids t k) \<longleftrightarrow>
      (\<exists>i \<in> set ids. i_id i = claimed_prefix @ k \<and> (\<exists>e \<in> set (i_events i). bypassing e))"
    unfolding node sev by (simp add: less_severity_def)
  show "SeverityMedium < a_severity (unrouted_egress_judge ids t k) \<longleftrightarrow>
      (\<exists>i \<in> set ids. i_id i = claimed_prefix @ k \<and> (\<exists>e \<in> set (i_events i). bypassing e))
      \<and> (\<exists>i \<in> set ids. i_id i = k \<and> (\<exists>e \<in> set (i_events i). enforced e \<and> e_type e = EventWebBlocked))"
    unfolding node sev refused_iff [OF assms(2), symmetric] by (simp add: less_severity_def)
qed


text \<open>A governed agent whose process reaches a public address directly.\<close>

definition governed_agent :: identity where
  "governed_agent = (new_identity ''agent://a/x'' False)
     \<lparr>i_events := [(blank_event (0, 0) ''agent://a/x'' EventWebFetch ''SUCCESS'')\<lparr>e_source := ''scopyx''\<rparr>]\<rparr>"

definition claiming_process :: identity where
  "claiming_process = (new_identity ''claimed:agent://a/x'' False)
     \<lparr>i_events := [(blank_event (0, 0) ''claimed:agent://a/x'' EventEgress ''SUCCESS'')\<lparr>e_resource := ''192.0.2.9:8443''\<rparr>]\<rparr>"


end
