(* ===== verification/Ingest_Inventory.thy ===== *)
theory Ingest_Inventory
  imports Ingest_Events
begin

text \<open>
  The connectors that read inventories into identities (\<^verbatim>\<open>internal/ingest\<close>: \<^verbatim>\<open>agents.go\<close>, \<^verbatim>\<open>mcp.go\<close>,
  \<^verbatim>\<open>awspolicy.go\<close>, \<^verbatim>\<open>awsiam.go\<close>, \<^verbatim>\<open>gcpiam.go\<close>, \<^verbatim>\<open>azure.go\<close>, \<^verbatim>\<open>passport/passport.go\<close>), from the
  decoded JSON on. The usage enrichment from audit logs is in here too.
\<close>

section \<open>Agents and MCP servers\<close>

definition is_high_risk_tool :: "string \<Rightarrow> bool" where
  "is_high_risk_tool tool \<longleftrightarrow>
     list_ex (contains (to_lower tool)) [''admin'', ''delete'', ''write_all'', ''exec'', ''shell'', ''*'']"

definition grant :: "string \<Rightarrow> bool \<Rightarrow> permission" where
  "grant n admin = \<lparr>p_name = n, p_admin = admin, p_used = False, p_actions = [], p_arn = []\<rparr>"

record agent_record =
  ar_id :: string
  ar_runtime :: string
  ar_on_behalf_of :: string
  ar_owner :: string
  ar_created :: string
  ar_tools :: "string list"
  ar_used_tools :: "string list"

text \<open>The identity, and whether its creation time was present and did not parse.\<close>

definition agent_identity :: "time_env \<Rightarrow> agent_record \<Rightarrow> identity \<times> bool" where
  "agent_identity env a =
     (let created = (if ar_created a = [] then None else parse_rfc3339 env (ar_created a));
          perms = map (\<lambda>tool. (grant tool (is_high_risk_tool tool))\<lparr>p_used := tool \<in> set (ar_used_tools a)\<rparr>) (ar_tools a);
          i = (new_identity (ar_id a) False)
            \<lparr>i_type := IdentityAgent, i_source := ''agents'', i_owner := ar_owner a, i_runtime := ar_runtime a,
             i_on_behalf_of := (if ar_on_behalf_of a \<noteq> [] then [ar_on_behalf_of a] else []),
             i_created := (case created of Some (t, z) \<Rightarrow> t | None \<Rightarrow> zero_time),
             i_permissions := perms\<rparr>
      in (i\<lparr>i_privileged := has_admin i\<rparr>, ar_created a \<noteq> [] \<and> created = None))"

definition agents :: "('d \<Rightarrow> 'e + agent_record list) \<Rightarrow> (nat \<Rightarrow> time_env) \<Rightarrow> 'd \<Rightarrow> 'e + identity list \<times> report" where
  "agents decode env data =
     (case decode data of
        Inl err \<Rightarrow> Inl err
      | Inr raw \<Rightarrow>
          let results = map2 (\<lambda>n. agent_identity (env n)) [0..<length raw] raw
          in Inr (map fst results,
                  \<lparr>rp_records = length raw, rp_malformed = length (filter snd results)\<rparr>))"

record mcp_server =
  ms_name :: string
  ms_url :: string
  ms_owner :: string
  ms_sanctioned :: "bool option"
  ms_tools :: "string list"

definition mcp_identity :: "string list \<Rightarrow> mcp_server \<Rightarrow> identity" where
  "mcp_identity registry s =
     (let sanctioned = (case ms_sanctioned s of Some b \<Rightarrow> b | None \<Rightarrow> ms_name s \<in> set registry);
          i = (new_identity (''mcp:'' @ ms_name s @ ''@'' @ ms_url s) False)
            \<lparr>i_type := IdentityMCPServer, i_source := ''mcp'', i_owner := ms_owner s, i_shadow := \<not> sanctioned,
             i_permissions := map (\<lambda>tool. grant tool (is_high_risk_tool tool)) (ms_tools s)\<rparr>
      in i\<lparr>i_privileged := has_admin i\<rparr>)"

definition mcp :: "('d \<Rightarrow> 'e + string list \<times> mcp_server list) \<Rightarrow> 'd \<Rightarrow> 'e + identity list" where
  "mcp decode data =
     (case decode data of Inl err \<Rightarrow> Inl err | Inr (registry, servers) \<Rightarrow> Inr (map (mcp_identity registry) servers))"

section \<open>AWS policies\<close>

record aws_statement =
  st_effect :: string
  st_action :: "string list"
  st_not_action :: "string list"
  st_resource :: "string list"

definition is_allow :: "aws_statement \<Rightarrow> bool" where
  "is_allow st \<longleftrightarrow> to_lower (st_effect st) = ''allow''"

definition every_resource :: "aws_statement \<Rightarrow> bool" where
  "every_resource st = list_ex (\<lambda>r. trim_space r = ''*'') (st_resource st)"

definition fold_action :: "bool \<Rightarrow> string \<Rightarrow> string list \<times> bool \<Rightarrow> string list \<times> bool" where
  "fold_action every raw acc =
     (let (actions, admin) = acc; a = to_lower (trim_space raw) in
      if a = [] then acc
      else (if a \<in> set actions then actions else actions @ [a], if a = ''*'' \<and> every then True else admin))"

definition fold_statement :: "aws_statement \<Rightarrow> string list \<times> bool \<Rightarrow> string list \<times> bool" where
  "fold_statement st acc =
     (if \<not> is_allow st then acc
      else let every = every_resource st; (actions, admin) = fold (fold_action every) (st_action st) acc
        in (actions, if st_not_action st \<noteq> [] \<and> every then True else admin))"

definition policy_effect :: "aws_statement list \<Rightarrow> string list \<times> bool" where
  "policy_effect doc = fold fold_statement doc ([], False)"

definition normalize_actions :: "string list \<Rightarrow> string list" where
  "normalize_actions xs = sorted_keys (filter (\<lambda>a. a \<noteq> []) (map (\<lambda>a. to_lower (trim_space a)) xs))"

section \<open>AWS principals\<close>

text \<open>A policy document as the JSON decoder finds it: absent or unreadable documents are \<open>None\<close>.\<close>

record aws_policy_version =
  pv_document :: "aws_statement list option"
  pv_id :: string
  pv_default :: bool

record aws_managed_policy =
  mp_arn :: string
  mp_default :: string
  mp_versions :: "aws_policy_version list"

record aws_policy =
  ap_name :: string
  ap_arn :: string

record aws_inline =
  ai_name :: string
  ai_document :: "aws_statement list option"

record aws_principal =
  aw_arn :: string
  aw_created :: string
  aw_tags :: "(string \<times> string) list"
  aw_attached :: "aws_policy list"
  aw_user_policies :: "aws_inline list"
  aw_role_policies :: "aws_inline list"
  aw_last_used :: string

definition in_force :: "aws_managed_policy \<Rightarrow> aws_policy_version \<Rightarrow> bool" where
  "in_force p v \<longleftrightarrow> pv_default v \<or> mp_default p \<noteq> [] \<and> pv_id v = mp_default p"

definition managed_grant :: "aws_managed_policy \<Rightarrow> (string list \<times> bool) option" where
  "managed_grant p =
     (case List.map_filter (\<lambda>v. if in_force p v then pv_document v else None) (mp_versions p) of
        [] \<Rightarrow> None
      | doc # _ \<Rightarrow> Some (policy_effect doc))"

definition managed_policy_index :: "aws_managed_policy list \<Rightarrow> (string \<rightharpoonup> string list \<times> bool)" where
  "managed_policy_index ps =
     foldl (\<lambda>m p. if mp_arn p = [] then m
        else case managed_grant p of None \<Rightarrow> m | Some g \<Rightarrow> m(mp_arn p \<mapsto> g)) Map.empty ps"

definition is_admin_policy :: "string \<Rightarrow> string \<Rightarrow> bool" where
  "is_admin_policy n arn \<longleftrightarrow>
     arn = ''arn:aws:iam::aws:policy/AdministratorAccess''
     \<or> contains (to_lower n) ''administratoraccess'' \<or> to_lower n = ''admin''"

definition owner_from_tags :: "(string \<times> string) list \<Rightarrow> string" where
  "owner_from_tags tags =
     (case find (\<lambda>(k, v). to_lower k \<in> {''owner'', ''team'', ''contact''}) tags of Some (k, v) \<Rightarrow> v | None \<Rightarrow> [])"

definition parse_aws_time :: "time_env \<Rightarrow> string \<Rightarrow> int" where
  "parse_aws_time env s =
     (if s = [] then zero_time else case parse_rfc3339 env s of Some (t, z) \<Rightarrow> t | None \<Rightarrow> zero_time)"

definition attached_permission :: "(string \<rightharpoonup> string list \<times> bool) \<Rightarrow> aws_policy \<Rightarrow> permission" where
  "attached_permission managed m =
     (let (actions, admin) = (case managed (ap_arn m) of Some g \<Rightarrow> g | None \<Rightarrow> ([], False))
      in (grant (ap_name m) (is_admin_policy (ap_name m) (ap_arn m) \<or> admin))\<lparr>p_arn := ap_arn m, p_actions := actions\<rparr>)"

definition inline_permission :: "aws_inline \<Rightarrow> permission" where
  "inline_permission p =
     (let (actions, admin) = (case ai_document p of Some doc \<Rightarrow> policy_effect doc | None \<Rightarrow> ([], False))
      in (grant (ai_name p) (is_admin_policy (ai_name p) [] \<or> admin))\<lparr>p_actions := actions\<rparr>)"

definition principal_to_identity ::
    "time_env \<Rightarrow> aws_principal \<Rightarrow> aws_inline list \<Rightarrow> (string \<rightharpoonup> string list \<times> bool) \<Rightarrow> identity" where
  "principal_to_identity env p inline managed =
     (let i = (new_identity (aw_arn p) False)
        \<lparr>i_type := IdentityServiceAccount, i_source := ''aws_iam'', i_owner := owner_from_tags (aw_tags p),
         i_created := parse_aws_time env (aw_created p), i_last_used := parse_aws_time env (aw_last_used p),
         i_permissions := map (attached_permission managed) (aw_attached p) @ map inline_permission inline\<rparr>
      in i\<lparr>i_privileged := has_admin i\<rparr>)"

definition aws_iam :: "time_env \<Rightarrow> aws_principal list \<Rightarrow> aws_principal list \<Rightarrow> aws_managed_policy list \<Rightarrow> identity list" where
  "aws_iam env users roles policies =
     (let managed = managed_policy_index policies
      in map (\<lambda>p. principal_to_identity env p (aw_user_policies p) managed) users @
         map (\<lambda>p. principal_to_identity env p (aw_role_policies p) managed) roles)"

section \<open>What a policy allows\<close>

definition allowed_actions :: "aws_statement list \<Rightarrow> string set" where
  "allowed_actions doc =
     {to_lower (trim_space a) | st a. st \<in> set doc \<and> is_allow st \<and> a \<in> set (st_action st) \<and> to_lower (trim_space a) \<noteq> []}"

definition allows_everything :: "aws_statement \<Rightarrow> bool" where
  "allows_everything st \<longleftrightarrow> is_allow st \<and> every_resource st
     \<and> (st_not_action st \<noteq> [] \<or> (\<exists>a \<in> set (st_action st). to_lower (trim_space a) = ''*''))"

lemma fold_actions:
  assumes "fold (fold_action every) raws (acts, adm) = (acts', adm')"
  shows "(distinct acts \<longrightarrow> distinct acts')
    \<and> set acts' = set acts \<union> ((\<lambda>a. to_lower (trim_space a)) ` set raws - {[]})
    \<and> (adm' \<longleftrightarrow> adm \<or> every \<and> (\<exists>a \<in> set raws. to_lower (trim_space a) = ''*''))"
  using assms
proof (induction raws arbitrary: acts adm)
  case (Cons r raws)
  obtain acts1 adm1 where one: "fold_action every r (acts, adm) = (acts1, adm1)" by fastforce
  from Cons.prems one have "fold (fold_action every) raws (acts1, adm1) = (acts', adm')" by simp
  note IH = Cons.IH [OF this]
  define a where "a = to_lower (trim_space r)"
  have one': "(acts1, adm1) = (if a = [] then (acts, adm)
      else (if a \<in> set acts then acts else acts @ [a], if a = ''*'' \<and> every then True else adm))"
    using one [symmetric] unfolding fold_action_def Let_def prod.case a_def [symmetric] .
  have "distinct acts \<longrightarrow> distinct acts1" "set acts1 = set acts \<union> ({a} - {[]})"
    using one' by (auto split: if_splits)
  moreover have "adm1 \<longleftrightarrow> adm \<or> every \<and> a = ''*''"
    using one' by (cases "a = []"; cases "a = ''*'' \<and> every") auto
  ultimately show ?case using IH unfolding list.set image_insert bex_simps a_def [symmetric] by blast
qed simp

lemma fold_statements:
  assumes "fold fold_statement doc (acts, adm) = (acts', adm')"
  shows "(distinct acts \<longrightarrow> distinct acts') \<and> set acts' = set acts \<union> allowed_actions doc
    \<and> (adm' \<longleftrightarrow> adm \<or> (\<exists>st \<in> set doc. allows_everything st))"
  using assms
proof (induction doc arbitrary: acts adm)
  case (Cons st doc)
  obtain acts1 adm1 where one: "fold_statement st (acts, adm) = (acts1, adm1)" by fastforce
  from Cons.prems one have "fold fold_statement doc (acts1, adm1) = (acts', adm')" by simp
  note IH = Cons.IH [OF this]
  have split: "allowed_actions (st # doc) = allowed_actions [st] \<union> allowed_actions doc"
    by (auto simp: allowed_actions_def)
  have "(distinct acts \<longrightarrow> distinct acts1) \<and> set acts1 = set acts \<union> allowed_actions [st]
      \<and> (adm1 \<longleftrightarrow> adm \<or> allows_everything st)"
  proof (cases "is_allow st")
    case True
    obtain acts2 adm2 where two: "fold (fold_action (every_resource st)) (st_action st) (acts, adm) = (acts2, adm2)"
      by fastforce
    with one True have acts1: "acts1 = acts2" and adm1: "adm1 \<longleftrightarrow> st_not_action st \<noteq> [] \<and> every_resource st \<or> adm2"
      by (auto simp: fold_statement_def Let_def split: if_splits)
    have a: "allowed_actions [st] = (\<lambda>a. to_lower (trim_space a)) ` set (st_action st) - {[]}"
      using True by (auto simp: allowed_actions_def)
    have e: "allows_everything st \<longleftrightarrow> every_resource st
        \<and> (st_not_action st \<noteq> [] \<or> (\<exists>a \<in> set (st_action st). to_lower (trim_space a) = ''*''))"
      using True by (simp add: allows_everything_def)
    show ?thesis using fold_actions [OF two] unfolding acts1 adm1 a e by argo
  next
    case False
    with one show ?thesis by (auto simp: fold_statement_def allowed_actions_def allows_everything_def)
  qed
  with IH show ?case unfolding split by auto
qed (simp add: allowed_actions_def)

lemma deny_ignored: "fold fold_statement (filter is_allow doc) acc = fold fold_statement doc acc"
  by (induction doc arbitrary: acc) (simp_all add: fold_statement_def)

text \<open>
  A policy is read by what it says: its actions are the normalised actions of the Allow statements,
  none twice; it counts as administrator exactly when one Allow statement on every resource names the
  action * or excludes actions; and its Deny statements grant nothing, so dropping them changes nothing.
\<close>

theorem policy_effect_exact:
  "distinct (fst (policy_effect doc)) \<and> set (fst (policy_effect doc)) = allowed_actions doc
   \<and> (snd (policy_effect doc) \<longleftrightarrow> (\<exists>st \<in> set doc. allows_everything st))
   \<and> policy_effect (filter is_allow doc) = policy_effect doc"
proof -
  obtain acts adm where "fold fold_statement doc ([], False) = (acts, adm)" by fastforce
  with fold_statements [OF this] show ?thesis by (simp add: policy_effect_def deny_ignored)
qed

end
