(* ===== verification/Ingest_Cloud.thy ===== *)
theory Ingest_Cloud
  imports Ingest_Inventory
begin

text \<open>
  The rest of the inventory connectors: \<^verbatim>\<open>gcpiam.go\<close> and \<^verbatim>\<open>azure.go\<close> with their tables of
  escalation permissions, \<^verbatim>\<open>passport/passport.go\<close>, and the marking of permissions as used from
  CloudTrail and Cloud Audit logs. A Passport document comes from the shared module's parser, an
  optional record here.
\<close>

section \<open>GCP\<close>

record gcp_account =
  ga_email :: string
  ga_display :: string

record gcp_binding =
  gb_role :: string
  gb_members :: "string list"

definition service_account_roles :: "gcp_binding list \<Rightarrow> string \<Rightarrow> string list" where
  "service_account_roles bs email =
     concat (map (\<lambda>b. map (\<lambda>m. gb_role b)
       (filter (\<lambda>m. cut_prefix m ''serviceAccount:'' = Some email) (gb_members b))) bs)"

definition gcp_escalation :: "(string \<times> string list) list" where
  "gcp_escalation =
     [(''roles/owner'',
        [''iam.serviceaccounts.actas'', ''iam.serviceaccounts.getaccesstoken'', ''iam.serviceaccounts.getopenidtoken'',
         ''iam.serviceaccounts.implicitdelegation'', ''iam.serviceaccounts.signblob'', ''iam.serviceaccounts.signjwt'',
         ''iam.serviceaccounts.setiampolicy'', ''iam.serviceaccountkeys.create'']),
      (''roles/editor'', [''iam.serviceaccounts.actas'', ''iam.serviceaccountkeys.create'']),
      (''roles/iam.serviceaccountuser'', [''iam.serviceaccounts.actas'']),
      (''roles/iam.serviceaccounttokencreator'',
        [''iam.serviceaccounts.getaccesstoken'', ''iam.serviceaccounts.getopenidtoken'',
         ''iam.serviceaccounts.implicitdelegation'', ''iam.serviceaccounts.signblob'', ''iam.serviceaccounts.signjwt'']),
      (''roles/iam.serviceaccountkeyadmin'', [''iam.serviceaccountkeys.create'']),
      (''roles/iam.serviceaccountadmin'', [''iam.serviceaccounts.setiampolicy'']),
      (''roles/iam.workloadidentityuser'',
        [''iam.serviceaccounts.getaccesstoken'', ''iam.serviceaccounts.getopenidtoken''])]"

definition escalation_permissions_in_role :: "string \<Rightarrow> string list" where
  "escalation_permissions_in_role role =
     (case map_of gcp_escalation (to_lower role) of Some ps \<Rightarrow> normalize_actions ps | None \<Rightarrow> [])"

definition is_admin_role :: "string \<Rightarrow> bool" where
  "is_admin_role role \<longleftrightarrow> role \<in> {''roles/owner'', ''roles/editor''} \<or> has_suffix (to_lower role) ''admin''"

definition owner_from_display_name :: "string \<Rightarrow> string" where
  "owner_from_display_name n =
     (case List.map_filter (\<lambda>p. cut_prefix (to_lower n) p) [''owner:'', ''team:'', ''contact:''] of
        rest # _ \<Rightarrow> trim_space rest | [] \<Rightarrow> [])"

definition gcp_iam :: "gcp_account list \<Rightarrow> gcp_binding list \<Rightarrow> identity list" where
  "gcp_iam accounts bindings =
     map (\<lambda>sa.
       let i = (new_identity (''gcp:'' @ ga_email sa) False)
         \<lparr>i_type := IdentityServiceAccount, i_source := ''gcp_iam'', i_owner := owner_from_display_name (ga_display sa),
          i_permissions := map (\<lambda>role. (grant role (is_admin_role role))\<lparr>p_actions := escalation_permissions_in_role role\<rparr>)
            (service_account_roles bindings (ga_email sa))\<rparr>
       in i\<lparr>i_privileged := has_admin i\<rparr>) accounts"

section \<open>Azure\<close>

record azure_sp =
  sp_id :: string
  sp_owners :: "string list"
  sp_credential_ends :: "string list"

record azure_assignment =
  ra_principal :: string
  ra_role :: string

definition azure_escalation :: "(string \<times> string list) list" where
  "azure_escalation =
     [(''owner'',
        [''microsoft.authorization/roleassignments/write'', ''microsoft.authorization/roledefinitions/write'',
         ''microsoft.resources/deployments/write'', ''microsoft.compute/virtualmachines/runcommand/action'']),
      (''user access administrator'',
        [''microsoft.authorization/roleassignments/write'', ''microsoft.authorization/roledefinitions/write'']),
      (''role based access control administrator'', [''microsoft.authorization/roleassignments/write'']),
      (''contributor'',
        [''microsoft.resources/deployments/write'', ''microsoft.compute/virtualmachines/runcommand/action'']),
      (''virtual machine contributor'', [''microsoft.compute/virtualmachines/runcommand/action''])]"

definition escalation_actions_in_azure_role :: "string \<Rightarrow> string list" where
  "escalation_actions_in_azure_role role =
     (case map_of azure_escalation (to_lower (trim_space role)) of Some xs \<Rightarrow> normalize_actions xs | None \<Rightarrow> [])"

definition is_azure_admin_role :: "string \<Rightarrow> bool" where
  "is_azure_admin_role role \<longleftrightarrow>
     role \<in> {''Owner'', ''Contributor'', ''User Access Administrator''} \<or> contains (to_lower role) ''administrator''"

definition first_non_empty :: "string list \<Rightarrow> string" where
  "first_non_empty ss = (case find (\<lambda>s. s \<noteq> []) (map trim_space ss) of Some s \<Rightarrow> s | None \<Rightarrow> [])"

definition latest_time :: "time_env \<Rightarrow> string list \<Rightarrow> int" where
  "latest_time env ss =
     foldl (\<lambda>latest s. case parse_rfc3339 env s of
         Some (t, z) \<Rightarrow> if t > latest then t else latest | None \<Rightarrow> latest) zero_time ss"

definition azure :: "time_env \<Rightarrow> azure_sp list \<Rightarrow> azure_assignment list \<Rightarrow> identity list" where
  "azure env sps assignments =
     map (\<lambda>sp.
       let roles = map ra_role (filter (\<lambda>a. ra_principal a = sp_id sp) assignments);
           i = (new_identity (''azure:'' @ sp_id sp) False)
         \<lparr>i_type := IdentityServiceAccount, i_source := ''azure'', i_owner := first_non_empty (sp_owners sp),
          i_permissions := map (\<lambda>role. (grant role (is_azure_admin_role role))
            \<lparr>p_actions := escalation_actions_in_azure_role role\<rparr>) roles,
          i_last_used := latest_time env (sp_credential_ends sp)\<rparr>
       in i\<lparr>i_privileged := has_admin i\<rparr>) sps"

section \<open>Passports\<close>

record passport_doc =
  pd_id :: string
  pd_owner :: string
  pd_runtime :: string
  pd_parent :: string
  pd_attestation :: "string option"
  pd_models :: "declared_model list"

definition passport_identity :: "passport_doc \<Rightarrow> identity" where
  "passport_identity doc =
     (new_identity (pd_id doc) False)
       \<lparr>i_type := IdentityAgent, i_source := ''passport'', i_owner := pd_owner doc, i_runtime := pd_runtime doc,
        i_parent := pd_parent doc, i_attestation := (case pd_attestation doc of Some m \<Rightarrow> m | None \<Rightarrow> []),
        i_models := filter (\<lambda>m. dm_provider m \<noteq> []) (pd_models doc)\<rparr>"

definition parse_passport :: "('d \<Rightarrow> 'e + passport_doc) \<Rightarrow> 'd \<Rightarrow> 'e + identity" where
  "parse_passport decode data =
     (case decode data of Inl err \<Rightarrow> Inl err | Inr doc \<Rightarrow> Inr (passport_identity doc))"

section \<open>Usage\<close>

definition service_from_event_source :: "string \<Rightarrow> string" where
  "service_from_event_source src =
     (case index_byte src (CHR ''.'') of
        Some i \<Rightarrow> if i > 0 then to_lower (take i src) else to_lower src
      | None \<Rightarrow> to_lower src)"

text \<open>\<^verbatim>\<open>strings.SplitN(s, [c], n)\<close> for a positive \<open>n\<close>: the last part keeps the rest.\<close>

fun split_n :: "nat \<Rightarrow> char \<Rightarrow> string \<Rightarrow> string list" where
  "split_n n c s =
     (if n \<le> 1 then [s]
      else case index_byte s c of None \<Rightarrow> [s] | Some i \<Rightarrow> take i s # split_n (n - 1) c (drop (Suc i) s))"

declare split_n.simps [simp del]

definition normalize_arn :: "string \<Rightarrow> string" where
  "normalize_arn arn =
     (if \<not> contains arn '':assumed-role/'' then arn
      else let parts = split_n 6 (CHR '':'') arn in
        if length parts \<noteq> 6 then arn
        else let segments = split_n 3 (CHR ''/'') (parts ! 5) in
          if length segments < 2 then arn
          else ''arn:aws:iam::'' @ parts ! 4 @ '':role/'' @ segments ! 1)"

text \<open>The services a principal was seen calling.\<close>

definition cloud_trail_usage :: "ct_record list \<Rightarrow> string \<Rightarrow> string list" where
  "cloud_trail_usage rs arn =
     map (\<lambda>r. service_from_event_source (ct_event_source r))
       (filter (\<lambda>r. normalize_arn (ct_arn r) = arn \<and> normalize_arn (ct_arn r) \<noteq> [] \<and> ct_event_source r \<noteq> []) rs)"

record audit_entry =
  au_service :: string
  au_email :: string

definition gcp_audit_usage :: "audit_entry list \<Rightarrow> string \<Rightarrow> string list" where
  "gcp_audit_usage es k =
     map (\<lambda>e. service_from_event_source (au_service e))
       (filter (\<lambda>e. au_email e \<noteq> [] \<and> au_service e \<noteq> [] \<and> ''gcp:'' @ au_email e = k) es)"

definition aws_keywords :: "string list" where
  "aws_keywords = [''s3'', ''ec2'', ''iam'', ''sts'', ''lambda'', ''dynamodb'', ''rds'', ''ecs'', ''eks'', ''sqs'',
     ''sns'', ''kms'', ''secretsmanager'', ''cloudwatch'', ''logs'', ''codebuild'', ''codedeploy'', ''codecommit'',
     ''cloudformation'', ''ssm'', ''route53'', ''elasticloadbalancing'', ''autoscaling'', ''glue'', ''athena'',
     ''emr'', ''redshift'', ''kinesis'', ''firehose'']"

definition services_from_policy :: "string \<Rightarrow> string list" where
  "services_from_policy n =
     (let l = to_lower n in
      if contains l ''administrator'' \<or> l = ''admin'' then [''*''] else filter (contains l) aws_keywords)"

definition services_from_role :: "string \<Rightarrow> string list" where
  "services_from_role role =
     (let l = to_lower role in
      if l \<in> {''roles/owner'', ''roles/editor'', ''roles/viewer''} then [''*'']
      else let r = trim_prefix l ''roles/'' in
        case index_byte r (CHR ''.'') of Some i \<Rightarrow> if i > 0 then [take i r] else [] | None \<Rightarrow> [])"

definition mark_used :: "(string \<Rightarrow> string list) \<Rightarrow> (string \<Rightarrow> string list) \<Rightarrow> identity \<Rightarrow> identity" where
  "mark_used services usage i =
     (let seen = usage (i_id i) in
      i\<lparr>i_permissions := map (\<lambda>p.
          if list_ex (\<lambda>svc. svc = ''*'' \<and> seen \<noteq> [] \<or> svc \<in> set seen) (services (p_name p)) then p\<lparr>p_used := True\<rparr> else p)
        (i_permissions i)\<rparr>)"

definition aws_iam_with_usage ::
    "time_env \<Rightarrow> aws_principal list \<Rightarrow> aws_principal list \<Rightarrow> aws_managed_policy list \<Rightarrow> ct_record list \<Rightarrow> identity list" where
  "aws_iam_with_usage env users roles policies trail =
     map (mark_used services_from_policy (cloud_trail_usage trail)) (aws_iam env users roles policies)"

definition gcp_iam_with_usage :: "gcp_account list \<Rightarrow> gcp_binding list \<Rightarrow> audit_entry list \<Rightarrow> identity list" where
  "gcp_iam_with_usage accounts bindings audit =
     map (mark_used services_from_role (gcp_audit_usage audit)) (gcp_iam accounts bindings)"

end
