(* ===== verification/Detect_Travel.thy ===== *)
theory Detect_Travel
  imports Detect_Base Go_Float
begin

text \<open>
  \<^verbatim>\<open>impossible_travel.go\<close>: successive successful logins that are too far apart for the time between
  them, with the great-circle distance of \<^verbatim>\<open>haversineKm\<close> over the real numbers.
\<close>

section \<open>Distance\<close>

definition max_feasible_kmh :: real where "max_feasible_kmh = 1000"
definition earth_km :: real where "earth_km = 6371"

text \<open>\<^verbatim>\<open>math.Atan2\<close>.\<close>

definition atan2 :: "real \<Rightarrow> real \<Rightarrow> real" where
  "atan2 y x =
     (if x > 0 then arctan (y / x)
      else if x < 0 then (if y \<ge> 0 then arctan (y / x) + pi else arctan (y / x) - pi)
      else if y > 0 then pi / 2 else if y < 0 then - (pi / 2) else 0)"

definition rad :: "real \<Rightarrow> real" where
  "rad d = d * pi / 180"

definition half_chord :: "real \<Rightarrow> real \<Rightarrow> real \<Rightarrow> real \<Rightarrow> real" where
  "half_chord lat1 lon1 lat2 lon2 =
     (let dLat = rad (lat2 - lat1); dLon = rad (lon2 - lon1) in
      sin (dLat / 2) * sin (dLat / 2) +
      cos (rad lat1) * cos (rad lat2) * sin (dLon / 2) * sin (dLon / 2))"

definition haversine_km :: "real \<Rightarrow> real \<Rightarrow> real \<Rightarrow> real \<Rightarrow> real" where
  "haversine_km lat1 lon1 lat2 lon2 =
     (let a = half_chord lat1 lon1 lat2 lon2 in earth_km * 2 * atan2 (sqrt a) (sqrt (1 - a)))"

section \<open>The detector\<close>

definition has_geo :: "event \<Rightarrow> bool" where
  "has_geo e \<longleftrightarrow> e_lat e \<noteq> 0 \<or> e_lon e \<noteq> 0"

definition travel_alert :: "identity \<Rightarrow> event \<Rightarrow> event \<Rightarrow> alert list" where
  "travel_alert i prev e =
     (let hours = hours_of (time_sub (e_time e) (e_time prev)) in
      if hours > 0 then
        let km = haversine_km (e_lat prev) (e_lon prev) (e_lat e) (e_lon e) in
        if km / hours > max_feasible_kmh then
          [mk_alert ''impossible_travel'' (i_id i) (if i_privileged i then SeverityCritical else SeverityHigh) (e_time e)
             (fmt_fixed 0 km @ '' km in '' @ fmt_fixed 1 hours @ ''h ('' @ fmt_fixed 0 (km / hours) @
              '' km/h) between '' @ e_city prev @ '' and '' @ e_city e)]
        else []
      else [])"

definition travel_step :: "identity \<Rightarrow> event option \<times> alert list \<Rightarrow> event \<Rightarrow> event option \<times> alert list" where
  "travel_step i = (\<lambda>(prev, out) e.
     if e_type e \<noteq> EventLogin \<or> e_outcome e \<noteq> ''SUCCESS'' then (prev, out)
     else if \<not> has_geo e then (prev, out)
     else (Some e, out @ (case prev of None \<Rightarrow> [] | Some p \<Rightarrow> travel_alert i p e)))"

definition impossible_travel_judge :: "int \<Rightarrow> identity \<Rightarrow> alert list" where
  "impossible_travel_judge t i = snd (foldl (travel_step i) (None, []) (i_events i))"

definition impossible_travel :: detect_fun where
  "impossible_travel t ids = concat (map (impossible_travel_judge t) ids)"

section \<open>Bounds of the distance\<close>

lemma half_chord_alt:
  "2 * half_chord lat1 lon1 lat2 lon2 =
     1 - sin (rad lat1) * sin (rad lat2) - cos (rad lat1) * cos (rad lat2) * cos (rad (lon2 - lon1))"
proof -
  have half: "2 * (sin (x / 2) * sin (x / 2)) = 1 - cos x" for x :: real
    using cos_double_sin [of "x / 2"] by (simp add: power2_eq_square)
  have "cos (rad (lat2 - lat1)) = cos (rad lat1) * cos (rad lat2) + sin (rad lat1) * sin (rad lat2)"
    by (simp add: rad_def cos_diff [symmetric] algebra_simps diff_divide_distrib) (simp add: cos_diff mult.commute)
  moreover have "2 * half_chord lat1 lon1 lat2 lon2 =
      (1 - cos (rad (lat2 - lat1))) + cos (rad lat1) * cos (rad lat2) * (1 - cos (rad (lon2 - lon1)))"
    unfolding half_chord_def Let_def half [symmetric] by (simp add: algebra_simps)
  ultimately show ?thesis by (simp add: algebra_simps)
qed

lemma half_chord_range: "0 \<le> half_chord lat1 lon1 lat2 lon2 \<and> half_chord lat1 lon1 lat2 lon2 \<le> 1"
proof -
  let ?s = "sin (rad lat1) * sin (rad lat2)" and ?c = "cos (rad lat1) * cos (rad lat2)" and ?l = "cos (rad (lon2 - lon1))"
  have "\<bar>?s + ?c\<bar> \<le> 1" "\<bar>?s - ?c\<bar> \<le> 1"
    using abs_cos_le_one [of "rad lat1 - rad lat2"] abs_cos_le_one [of "rad lat1 + rad lat2"]
    by (simp_all add: cos_diff cos_add algebra_simps abs_minus_commute)
  moreover have "\<bar>?c * ?l\<bar> \<le> \<bar>?c\<bar>"
    by (simp add: abs_mult mult_left_le)
  ultimately have "\<bar>?s + ?c * ?l\<bar> \<le> 1" by linarith
  then show ?thesis using half_chord_alt [of lat1 lon1 lat2 lon2] by linarith
qed

lemma atan2_quadrant: "0 \<le> y \<Longrightarrow> 0 \<le> x \<Longrightarrow> 0 \<le> atan2 y x \<and> atan2 y x \<le> pi / 2"
  using arctan_ubound [of "y / x"] by (auto simp: atan2_def arctan_le_zero_iff less_imp_le)

lemma haversine_bounds: "0 \<le> haversine_km lat1 lon1 lat2 lon2 \<and> haversine_km lat1 lon1 lat2 lon2 \<le> earth_km * pi"
  using atan2_quadrant [of "sqrt (half_chord lat1 lon1 lat2 lon2)" "sqrt (1 - half_chord lat1 lon1 lat2 lon2)"]
    half_chord_range [of lat1 lon1 lat2 lon2]
  by (simp add: haversine_km_def Let_def earth_km_def)

lemma half_chord_sym: "half_chord lat2 lon2 lat1 lon1 = half_chord lat1 lon1 lat2 lon2"
proof -
  have "cos (rad (lon1 - lon2)) = cos (rad (lon2 - lon1))"
    using cos_minus [of "rad (lon2 - lon1)"] by (simp add: rad_def algebra_simps minus_divide_left)
  then have "2 * half_chord lat2 lon2 lat1 lon1 = 2 * half_chord lat1 lon1 lat2 lon2"
    unfolding half_chord_alt by (simp add: mult.commute)
  then show ?thesis by simp
qed

lemma haversine_antipodes: "haversine_km lat lon (- lat) (lon + 180) = earth_km * pi"
proof -
  have "2 * half_chord lat lon (- lat) (lon + 180) = 2"
    unfolding half_chord_alt
    using sin_cos_squared_add3 [of "rad lat"] by (simp add: rad_def algebra_simps)
  then show ?thesis by (simp add: haversine_km_def atan2_def)
qed

lemma haversine_same: "haversine_km lat lon lat lon = 0"
  by (simp add: haversine_km_def half_chord_def atan2_def rad_def)

section \<open>Consecutive logins\<close>

definition located_logins :: "identity \<Rightarrow> event list" where
  "located_logins i = filter (\<lambda>e. e_type e = EventLogin \<and> e_outcome e = ''SUCCESS'' \<and> has_geo e) (i_events i)"

fun consecutive :: "'a list \<Rightarrow> ('a \<times> 'a) list" where
  "consecutive (x # y # zs) = (x, y) # consecutive (y # zs)"
| "consecutive _ = []"

lemma travel_loop:
  "snd (foldl (travel_step i) (prev, out) es) =
     out @ concat (map (\<lambda>(p, e). travel_alert i p e)
       (consecutive ((case prev of None \<Rightarrow> [] | Some p \<Rightarrow> [p]) @
          filter (\<lambda>e. e_type e = EventLogin \<and> e_outcome e = ''SUCCESS'' \<and> has_geo e) es)))"
  by (induction es arbitrary: prev out) (auto simp: travel_step_def split: option.splits)

lemma travel_judged:
  "impossible_travel_judge t i = concat (map (\<lambda>(p, e). travel_alert i p e) (consecutive (located_logins i)))"
  by (simp add: impossible_travel_judge_def travel_loop located_logins_def)

interpretation travel: local_detector "''impossible_travel''" impossible_travel impossible_travel_judge
  by (rule local_detectorI)
     (auto simp: travel_judged travel_alert_def impossible_travel_def Let_def split: if_splits)

text \<open>
  Impossible travel is judged on consecutive located logins: an identity is alerted exactly when
  two of its successful logins with coordinates, one right after the other, are further apart than the
  time between them allows at 1000 km/h. The distance is symmetric, zero for the same place, and at most
  half the circumference of the Earth, which antipodes reach; so two logins at least that many
  kilometres over 1000 in hours apart are never flagged, whatever their coordinates.
\<close>

theorem impossible_travel_exact:
  "((\<exists>a \<in> set (impossible_travel t ids). a_identity a = k) \<longleftrightarrow>
      (\<exists>i \<in> set ids. i_id i = k \<and> (\<exists>(p, e) \<in> set (consecutive (located_logins i)).
         0 < hours_of (time_sub (e_time e) (e_time p))
         \<and> 1000 * hours_of (time_sub (e_time e) (e_time p)) < haversine_km (e_lat p) (e_lon p) (e_lat e) (e_lon e))))
   \<and> haversine_km a1 o1 a2 o2 = haversine_km a2 o2 a1 o1 \<and> haversine_km a1 o1 a1 o1 = 0
   \<and> 0 \<le> haversine_km a1 o1 a2 o2 \<and> haversine_km a1 o1 a2 o2 \<le> 6371 * pi
   \<and> haversine_km a1 o1 (- a1) (o1 + 180) = 6371 * pi"
proof (intro conjI)
  have fires: "travel_alert i p e \<noteq> [] \<longleftrightarrow> 0 < hours_of (time_sub (e_time e) (e_time p))
         \<and> 1000 * hours_of (time_sub (e_time e) (e_time p)) < haversine_km (e_lat p) (e_lon p) (e_lat e) (e_lon e)"
    for i p e by (auto simp: travel_alert_def Let_def max_feasible_kmh_def pos_less_divide_eq)
  have "impossible_travel_judge t i \<noteq> [] \<longleftrightarrow> (\<exists>(p, e) \<in> set (consecutive (located_logins i)). travel_alert i p e \<noteq> [])" for i
    by (simp add: travel_judged split_def)
  then show "(\<exists>a \<in> set (impossible_travel t ids). a_identity a = k) \<longleftrightarrow>
      (\<exists>i \<in> set ids. i_id i = k \<and> (\<exists>(p, e) \<in> set (consecutive (located_logins i)).
         0 < hours_of (time_sub (e_time e) (e_time p))
         \<and> 1000 * hours_of (time_sub (e_time e) (e_time p)) < haversine_km (e_lat p) (e_lon p) (e_lat e) (e_lon e)))"
    unfolding travel.alerted fires by simp
  show "haversine_km a1 o1 a2 o2 = haversine_km a2 o2 a1 o1"
    by (simp add: haversine_km_def half_chord_sym [of a1])
qed (use haversine_bounds haversine_same haversine_antipodes in \<open>simp_all add: earth_km_def\<close>)

end
