(* ===== verification/Detect_Humans.thy ===== *)
theory Detect_Humans
  imports Detect_Base
begin

text \<open>
  Detectors over logins: the sliding window of \<^verbatim>\<open>mfa_fatigue.go\<close>, \<^verbatim>\<open>new_device.go\<close>, and
  \<^verbatim>\<open>behavior_anomaly.go\<close> with the profile of \<^verbatim>\<open>internal/baseline\<close>. Scores are counted in
  tenths: the sums the code can form, 0.2, 0.3, 0.5, 0.7, 0.8 and 1.0, are compared with 0.6 and 0.8
  the same way in binary floating point.
\<close>

section \<open>MFA fatigue\<close>

definition mfa_window :: int where "mfa_window = 5 * Minute"
definition mfa_threshold :: nat where "mfa_threshold = 5"

text \<open>The inner loop moves the start of the window; it stops at the end at the latest, where the gap is 0.\<close>

function advance :: "event list \<Rightarrow> nat \<Rightarrow> nat \<Rightarrow> nat" where
  "advance cs e s =
     (if s < e \<and> time_sub (e_time (cs ! e)) (e_time (cs ! s)) > mfa_window
      then advance cs e (Suc s) else s)"
  by pat_completeness auto

termination
  by (relation "measure (\<lambda>(cs, e, s). e - s)") auto

declare advance.simps [simp del]

text \<open>The end index and the number of challenges of the first window that is full.\<close>

function mfa_loop :: "event list \<Rightarrow> nat \<Rightarrow> nat \<Rightarrow> (nat \<times> nat) option" where
  "mfa_loop cs e s =
     (if length cs \<le> e then None
      else let s' = advance cs e s in
        if e - s' + 1 \<ge> mfa_threshold then Some (e, e - s' + 1) else mfa_loop cs (Suc e) s')"
  by pat_completeness auto

termination
  by (relation "measure (\<lambda>(cs, e, s). length cs - e)") auto

declare mfa_loop.simps [simp del]

definition challenges :: "identity \<Rightarrow> event list" where
  "challenges i = filter (\<lambda>e. e_type e = EventMFAChallenge) (i_events i)"

definition mfa_fatigue_judge :: "int \<Rightarrow> identity \<Rightarrow> alert list" where
  "mfa_fatigue_judge t i =
     (case mfa_loop (challenges i) 0 0 of
        None \<Rightarrow> []
      | Some (e, n) \<Rightarrow>
          [mk_alert ''mfa_fatigue'' (i_id i) (if i_privileged i then SeverityCritical else SeverityHigh)
            (e_time (challenges i ! e)) (utoa n @ '' MFA challenges within 5m0s'')])"

definition mfa_fatigue :: detect_fun where
  "mfa_fatigue t ids = concat (map (mfa_fatigue_judge t) ids)"

section \<open>New devices\<close>

definition successful_login :: "event \<Rightarrow> bool" where
  "successful_login e \<longleftrightarrow> e_type e = EventLogin \<and> e_outcome e = ''SUCCESS''"

definition new_device_step :: "identity \<Rightarrow> string list \<times> alert list \<Rightarrow> event \<Rightarrow> string list \<times> alert list" where
  "new_device_step i sa e =
     (let (seen, alerts) = sa in
      if \<not> successful_login e \<or> e_device e = [] then (seen, alerts)
      else
        ((if e_device e \<in> set seen then seen else e_device e # seen),
         (if e_device e \<notin> set seen \<and> seen \<noteq> []
          then alerts @ [mk_alert ''new_device'' (i_id i) SeverityHigh (e_time e)
                 (''privileged login from new device '' @ quoted (e_device e))]
          else alerts)))"

definition new_device_judge :: "int \<Rightarrow> identity \<Rightarrow> alert list" where
  "new_device_judge t i =
     (if \<not> i_privileged i then [] else snd (foldl (new_device_step i) ([], []) (i_events i)))"

definition new_device :: detect_fun where
  "new_device t ids = concat (map (new_device_judge t) ids)"

section \<open>Baseline profiles\<close>

record profile =
  pr_identity :: string
  pr_countries :: "(string \<times> nat) list"
  pr_devices :: "(string \<times> nat) list"
  pr_hours :: "nat list"
  pr_total :: nat
  pr_first_seen :: int
  pr_last_seen :: int

definition new_profile :: "string \<Rightarrow> profile" where
  "new_profile k =
     \<lparr>pr_identity = k, pr_countries = [], pr_devices = [], pr_hours = replicate 24 0, pr_total = 0,
      pr_first_seen = zero_time, pr_last_seen = zero_time\<rparr>"

definition count_of :: "(string \<times> nat) list \<Rightarrow> string \<Rightarrow> nat" where
  "count_of m k = (case map_of m k of Some n \<Rightarrow> n | None \<Rightarrow> 0)"

definition increment :: "string \<Rightarrow> (string \<times> nat) list \<Rightarrow> (string \<times> nat) list" where
  "increment k m = AList.update k (Suc (count_of m k)) m"

definition hour_of :: "int \<Rightarrow> nat" where
  "hour_of t = nat ((t div Hour) mod 24)"

definition observe :: "profile \<Rightarrow> event \<Rightarrow> profile" where
  "observe p e =
     (if \<not> successful_login e then p
      else
        let h = hour_of (e_time e) in
        p\<lparr>pr_first_seen := (if pr_total p = 0 \<or> e_time e < pr_first_seen p then e_time e else pr_first_seen p),
          pr_last_seen := (if e_time e > pr_last_seen p then e_time e else pr_last_seen p),
          pr_total := Suc (pr_total p),
          pr_countries := (if e_country e \<noteq> [] then increment (e_country e) (pr_countries p) else pr_countries p),
          pr_devices := (if e_device e \<noteq> [] then increment (e_device e) (pr_devices p) else pr_devices p),
          pr_hours := (pr_hours p)[h := Suc (pr_hours p ! h)]\<rparr>)"

definition build_profile :: "identity \<Rightarrow> profile" where
  "build_profile i = foldl observe (new_profile (i_id i)) (i_events i)"

definition min_logins_to_score :: nat where
  "min_logins_to_score = 5"

definition score :: "profile \<Rightarrow> event \<Rightarrow> nat" where
  "score p e =
     (if pr_total p < min_logins_to_score then 0
      else
        min 10
          ((if e_country e \<noteq> [] \<and> count_of (pr_countries p) (e_country e) = 0 then 5 else 0) +
           (if e_device e \<noteq> [] \<and> count_of (pr_devices p) (e_device e) = 0 then 3 else 0) +
           (if e_type e = EventLogin \<and> pr_hours p ! hour_of (e_time e) = 0 then 2 else 0)))"

definition rare_countries :: "nat \<Rightarrow> profile \<Rightarrow> string list" where
  "rare_countries max_count p =
     sort_key (count_of (pr_countries p))
       (sort (map fst (filter (\<lambda>(c, n). n \<le> max_count) (pr_countries p))))"

section \<open>Behaviour anomalies\<close>

definition anomaly_threshold :: nat where
  "anomaly_threshold = 6"

definition anomaly_severity :: "bool \<Rightarrow> nat \<Rightarrow> severity" where
  "anomaly_severity privileged s =
     (if s \<ge> 8 then (if privileged then SeverityCritical else SeverityHigh)
      else (if privileged then SeverityHigh else SeverityMedium))"

definition score_text :: "nat \<Rightarrow> string" where
  "score_text s = utoa (s div 10) @ ''.'' @ utoa (s mod 10) @ ''0''"

definition anomaly_step :: "identity \<Rightarrow> profile \<times> alert list \<Rightarrow> event \<Rightarrow> profile \<times> alert list" where
  "anomaly_step i pa e =
     (let (p, alerts) = pa in
      if \<not> successful_login e then (p, alerts)
      else
        let s = score p e in
        (observe p e,
         if s < anomaly_threshold then alerts
         else alerts @ [mk_alert ''behavior_anomaly'' (i_id i) (anomaly_severity (i_privileged i) s) (e_time e)
           (''anomaly score '' @ score_text s @ '': login from '' @ e_country e @ '' ('' @ e_device e @
            '') deviates from baseline'')]))"

definition behavior_anomaly_judge :: "int \<Rightarrow> identity \<Rightarrow> alert list" where
  "behavior_anomaly_judge t i = snd (foldl (anomaly_step i) (new_profile (i_id i), []) (i_events i))"

definition behavior_anomaly :: detect_fun where
  "behavior_anomaly t ids = concat (map (behavior_anomaly_judge t) ids)"

section \<open>They are detectors\<close>

lemma foldl_alerts:
  assumes "\<And>s al e a. a \<in> set (snd (f (s, al) e)) \<Longrightarrow> a \<in> set al \<or> P a"
  shows "a \<in> set (snd (foldl f (s, al) es)) \<Longrightarrow> a \<in> set al \<or> P a"
proof (induction es arbitrary: s al)
  case (Cons e es)
  obtain s' al' where f: "f (s, al) e = (s', al')" by fastforce
  with Cons assms [of a s al e] show ?case by auto
qed simp

interpretation mfa: local_detector "''mfa_fatigue''" mfa_fatigue mfa_fatigue_judge
  by (rule local_detectorI) (auto simp: mfa_fatigue_judge_def mfa_fatigue_def split: option.splits)

interpretation devices: local_detector "''new_device''" new_device new_device_judge
proof (rule local_detectorI)
  fix t i a assume "a \<in> set (new_device_judge t i)"
  then have "a \<in> set (snd (foldl (new_device_step i) ([], []) (i_events i)))"
    by (auto simp: new_device_judge_def split: if_splits)
  then show "a_detector a = ''new_device'' \<and> a_identity a = i_id i \<and> SeverityInfo \<le> a_severity a"
    by (auto dest!: foldl_alerts [rotated, where P = "\<lambda>a. a_detector a = ''new_device'' \<and> a_identity a = i_id i \<and> SeverityInfo \<le> a_severity a"]
        simp: new_device_step_def split: if_splits)
qed (simp add: new_device_def)

interpretation anomaly: local_detector "''behavior_anomaly''" behavior_anomaly behavior_anomaly_judge
proof (rule local_detectorI)
  fix t i a assume "a \<in> set (behavior_anomaly_judge t i)"
  then show "a_detector a = ''behavior_anomaly'' \<and> a_identity a = i_id i \<and> SeverityInfo \<le> a_severity a"
    unfolding behavior_anomaly_judge_def
    by (auto dest!: foldl_alerts [rotated, where P = "\<lambda>a. a_detector a = ''behavior_anomaly'' \<and> a_identity a = i_id i \<and> SeverityInfo \<le> a_severity a"]
        simp: anomaly_step_def anomaly_severity_def Let_def split: if_splits)
qed (simp add: behavior_anomaly_def)

section \<open>The sliding window\<close>

lemma time_sub_window: "time_sub t u > mfa_window \<longleftrightarrow> t - u > mfa_window"
  by (auto simp: time_sub_def mfa_window_def durations min_duration_def max_duration_def min_def max_def)

lemma mfa_window_nonneg: "0 \<le> mfa_window"
  by (simp add: mfa_window_def durations)

definition in_window :: "event list \<Rightarrow> nat \<Rightarrow> nat \<Rightarrow> bool" where
  "in_window cs s e \<longleftrightarrow> e_time (cs ! e) - e_time (cs ! s) \<le> mfa_window"

lemma advance_least:
  "s \<le> e \<Longrightarrow> s \<le> advance cs e s \<and> advance cs e s \<le> e \<and> in_window cs (advance cs e s) e
     \<and> (\<forall>k. s \<le> k \<longrightarrow> k < advance cs e s \<longrightarrow> \<not> in_window cs k e)"
proof (induction cs e s rule: advance.induct)
  case (1 cs e s)
  show ?case
  proof (cases "s < e \<and> time_sub (e_time (cs ! e)) (e_time (cs ! s)) > mfa_window")
    case True
    have "advance cs e s = advance cs e (Suc s)" using True by (simp add: advance.simps [of cs e s])
    moreover have "\<not> in_window cs s e" using True by (auto simp: in_window_def time_sub_window)
    ultimately show ?thesis using 1(1) [OF True] True by (metis Suc_leI Suc_leD le_less not_less_eq_eq)
  next
    case False
    have "advance cs e s = s" using False by (subst advance.simps) auto
    moreover have "in_window cs s e" using False 1(2)
      by (cases "s = e") (auto simp: in_window_def time_sub_window mfa_window_nonneg)
    ultimately show ?thesis using 1(2) by auto
  qed
qed

text \<open>A window \<open>[s, e]\<close> with enough challenges close enough together.\<close>

definition full_window :: "event list \<Rightarrow> nat \<Rightarrow> nat \<Rightarrow> bool" where
  "full_window cs s e \<longleftrightarrow> s \<le> e \<and> e < length cs \<and> mfa_threshold \<le> e - s + 1 \<and> in_window cs s e"

lemma in_window_later:
  assumes "sorted (map e_time cs)" "e \<le> e'" "e' < length cs" "in_window cs s e'"
  shows "in_window cs s e"
  using assms sorted_nth_mono [OF assms(1), of e e'] by (auto simp: in_window_def)

lemma mfa_loop_correct:
  "sorted (map e_time cs) \<Longrightarrow> s \<le> e \<Longrightarrow> \<forall>k < s. \<forall>e' \<ge> e. e' < length cs \<longrightarrow> \<not> in_window cs k e' \<Longrightarrow>
    (\<forall>s' e'. full_window cs s' e' \<longrightarrow> e \<le> e') \<Longrightarrow>
    (case mfa_loop cs e s of
       None \<Rightarrow> \<forall>s' e'. \<not> full_window cs s' e'
     | Some (e0, n) \<Rightarrow> (\<exists>s'. full_window cs s' e0 \<and> n = e0 - s' + 1) \<and> (\<forall>s' e'. full_window cs s' e' \<longrightarrow> e0 \<le> e'))"
proof (induction cs e s rule: mfa_loop.induct)
  case (1 cs e s)
  show ?case
  proof (cases "length cs \<le> e")
    case True
    then show ?thesis using 1(5) by (force simp: mfa_loop.simps [of cs e s] full_window_def)
  next
    case False
    define s' where "s' = advance cs e s"
    have adv: "s \<le> s'" "s' \<le> e" "in_window cs s' e" "\<forall>k. s \<le> k \<longrightarrow> k < s' \<longrightarrow> \<not> in_window cs k e"
      using advance_least [OF 1(3), of cs] by (auto simp: s'_def)
    have before: "\<not> in_window cs k e" if "k < s'" for k
      using that adv(4) 1(4) False by (cases "k < s") auto
    show ?thesis
    proof (cases "e - s' + 1 \<ge> mfa_threshold")
      case True
      then have "mfa_loop cs e s = Some (e, e - s' + 1)"
        using False by (subst mfa_loop.simps) (simp add: s'_def Let_def)
      moreover have "full_window cs s' e" using adv True False by (simp add: full_window_def)
      ultimately show ?thesis using 1(5) by auto
    next
      case small: False
      then have step: "mfa_loop cs e s = mfa_loop cs (Suc e) s'"
        using False by (subst mfa_loop.simps) (simp add: s'_def Let_def)
      have none_here: "\<not> full_window cs k e" for k
      proof
        assume full: "full_window cs k e"
        then have "s' \<le> k" using before by (metis full_window_def not_le)
        then have "e - k \<le> e - s'" by (rule diff_le_mono2)
        with full small show False by (simp add: full_window_def)
      qed
      have later: "\<forall>k < s'. \<forall>e' \<ge> Suc e. e' < length cs \<longrightarrow> \<not> in_window cs k e'"
      proof (intro allI impI)
        fix k e' assume k: "k < s'" and e': "Suc e \<le> e'" "e' < length cs"
        show "\<not> in_window cs k e'"
        proof
          assume "in_window cs k e'"
          with e' have "in_window cs k e" by (intro in_window_later [OF 1(2), of e e']) simp_all
          with before [OF k] show False ..
        qed
      qed
      have "\<forall>k e'. full_window cs k e' \<longrightarrow> Suc e \<le> e'"
      proof (intro allI impI)
        fix k e' assume full: "full_window cs k e'"
        then have "e \<le> e'" "e' \<noteq> e" using 1(5) none_here by auto
        then show "Suc e \<le> e'" by simp
      qed
      then show ?thesis
        unfolding step using 1(1) [OF False s'_def small] 1(2) adv(2) later by simp
    qed
  qed
qed

text \<open>
  C34: MFA fatigue is detected exactly: over events in chronological order an identity is alerted if and
  only if some five or more of its challenges lie within five minutes of each other, the alert carries
  the time of the earliest challenge that completes such a burst, and it is critical exactly for a
  privileged identity. The two-pointer loop misses no burst and invents none.
\<close>

theorem mfa_fatigue_exact:
  assumes "sorted (map e_time (i_events i))"
  shows "(mfa_fatigue_judge t i = [] \<longleftrightarrow> (\<forall>s e. \<not> full_window (challenges i) s e))
    \<and> (\<forall>a \<in> set (mfa_fatigue_judge t i). \<exists>s e. full_window (challenges i) s e
         \<and> (\<forall>s' e'. full_window (challenges i) s' e' \<longrightarrow> e \<le> e')
         \<and> a_time a = e_time (challenges i ! e)
         \<and> (a_severity a = SeverityCritical \<longleftrightarrow> i_privileged i))"
proof -
  have srt: "sorted (map e_time (challenges i))"
    using assms unfolding challenges_def by (rule sorted_filter)
  show ?thesis
    using mfa_loop_correct [OF srt, of 0 0]
    by (auto simp: mfa_fatigue_judge_def split: option.splits)
qed

definition sample_challenge :: "int \<Rightarrow> event" where
  "sample_challenge t =
     \<lparr>e_time = t, e_zone = 0, e_identity = ''ann'', e_type = EventMFAChallenge, e_outcome = [], e_ip = [],
      e_city = [], e_country = [], e_lat = 0, e_lon = 0, e_device = [], e_resource = [], e_severity = [], e_source = []\<rparr>"

theorem mfa_fatigue_exact_witness:
  "\<exists>s e. full_window (map sample_challenge [0, 1, 2, 3, 4]) s e
    \<and> mfa_fatigue_judge 0 ((new_identity ''ann'' True)\<lparr>i_events := map sample_challenge [0, 1, 2, 3, 4]\<rparr>) \<noteq> []"
proof -
  let ?cs = "map sample_challenge [0, 1, 2, 3, 4]"
  let ?i = "(new_identity ''ann'' True)\<lparr>i_events := ?cs\<rparr>"
  have cs: "challenges ?i = ?cs" by (simp add: challenges_def sample_challenge_def)
  have "full_window ?cs 0 4"
    by (simp add: full_window_def in_window_def mfa_threshold_def mfa_window_def durations sample_challenge_def)
  moreover have "sorted (map e_time (i_events ?i))" by (simp add: sample_challenge_def)
  ultimately show ?thesis using mfa_fatigue_exact [of ?i 0] cs by metis
qed

section \<open>New devices\<close>

lemma new_device_run:
  "distinct seen \<Longrightarrow>
   distinct (fst (foldl (new_device_step i) (seen, al) es))
   \<and> set (fst (foldl (new_device_step i) (seen, al) es)) =
       set seen \<union> {d. d \<noteq> [] \<and> (\<exists>e \<in> set es. successful_login e \<and> e_device e = d)}
   \<and> length (snd (foldl (new_device_step i) (seen, al) es)) + (if seen = [] then 1 else length seen) =
       length al + max 1 (length (fst (foldl (new_device_step i) (seen, al) es)))"
proof (induction es arbitrary: seen al)
  case (Cons e es)
  show ?case
  proof (cases "successful_login e \<and> e_device e \<noteq> []")
    case False
    then have "new_device_step i (seen, al) e = (seen, al)" by (auto simp: new_device_step_def)
    moreover have "{d. d \<noteq> [] \<and> (\<exists>x \<in> set (e # es). successful_login x \<and> e_device x = d)} =
        {d. d \<noteq> [] \<and> (\<exists>x \<in> set es. successful_login x \<and> e_device x = d)}"
      using False by auto
    ultimately show ?thesis using Cons.IH [OF Cons.prems, of al] by (simp only: foldl_Cons)
  next
    case True
    define seen1 al1 where "seen1 = fst (new_device_step i (seen, al) e)"
      and "al1 = snd (new_device_step i (seen, al) e)"
    have st: "new_device_step i (seen, al) e = (seen1, al1)" by (simp add: seen1_def al1_def)
    have s1: "seen1 = (if e_device e \<in> set seen then seen else e_device e # seen)"
      and l1: "length al1 = length al + (if e_device e \<notin> set seen \<and> seen \<noteq> [] then 1 else 0)"
      using True by (simp_all add: seen1_def al1_def new_device_step_def)
    have d1: "distinct seen1" "seen1 \<noteq> []" using Cons.prems True s1 by auto
    have dev: "{d. d \<noteq> [] \<and> (\<exists>x \<in> set (e # es). successful_login x \<and> e_device x = d)} =
        insert (e_device e) {d. d \<noteq> [] \<and> (\<exists>x \<in> set es. successful_login x \<and> e_device x = d)}"
      using True by auto
    have sz: "length al1 + (if seen = [] then 1 else length seen) = length al + length seen1"
      using s1 l1 by auto
    have "insert (e_device e) (set seen) = set seen1" using s1 by auto
    then show ?thesis
      using Cons.IH [OF d1(1), of al1] d1(2) sz by (simp only: foldl_Cons st dev) auto
  qed
qed (auto simp: max_def Suc_le_eq)

text \<open>
  A privileged identity gets one new-device alert for every distinct device it ever logged in with,
  except the first: devices seen again, failed logins and logins without a device raise nothing.
\<close>

theorem new_device_counts:
  assumes "i_privileged i"
  shows "length (new_device_judge t i) =
    card {d. d \<noteq> [] \<and> (\<exists>e \<in> set (i_events i). successful_login e \<and> e_device e = d)} - 1"
proof -
  let ?run = "foldl (new_device_step i) ([], []) (i_events i)"
  let ?devices = "{d. d \<noteq> [] \<and> (\<exists>e \<in> set (i_events i). successful_login e \<and> e_device e = d)}"
  have run: "distinct (fst ?run)" "set (fst ?run) = ?devices"
    "length (snd ?run) + 1 = max 1 (length (fst ?run))"
    using new_device_run [of "[]" i "[]" "i_events i"] by auto
  have "length (fst ?run) = card ?devices" using run(1,2) distinct_card by fastforce
  with run(3) have "length (snd ?run) = card ?devices - 1" by simp
  with assms show ?thesis by (simp add: new_device_judge_def)
qed

definition sample_login :: "string \<Rightarrow> int \<Rightarrow> event" where
  "sample_login dev t =
     \<lparr>e_time = t, e_zone = 0, e_identity = ''ann'', e_type = EventLogin, e_outcome = ''SUCCESS'', e_ip = [],
      e_city = [], e_country = ''UA'', e_lat = 0, e_lon = 0, e_device = dev, e_resource = [], e_severity = [], e_source = []\<rparr>"

theorem new_device_counts_witness:
  "length (new_device_judge 0 ((new_identity ''ann'' True)
     \<lparr>i_events := [sample_login ''mac'' 0, sample_login ''pc'' 1, sample_login ''mac'' 2]\<rparr>)) = 1"
proof -
  have "{d. d \<noteq> [] \<and> (\<exists>e \<in> {sample_login ''mac'' 0, sample_login ''pc'' 1, sample_login ''mac'' 2}.
      successful_login e \<and> e_device e = d)} = {''mac'', ''pc''}"
    by (auto simp: sample_login_def successful_login_def)
  moreover have "i_privileged ((new_identity ''ann'' True)\<lparr>i_events := es\<rparr>)" for es
    by (simp add: new_identity_def)
  ultimately show ?thesis
    using new_device_counts [of "(new_identity ''ann'' True)
      \<lparr>i_events := [sample_login ''mac'' 0, sample_login ''pc'' 1, sample_login ''mac'' 2]\<rparr>" 0] by simp
qed

section \<open>Anomaly scores\<close>

text \<open>What a profile built from logins knows.\<close>

lemma count_increment [simp]: "count_of (increment k m) k' = count_of m k' + (if k' = k then 1 else 0)"
  by (auto simp: count_of_def increment_def update_conv')

definition knows :: "profile \<Rightarrow> event list \<Rightarrow> bool" where
  "knows p es \<longleftrightarrow> pr_total p = length (filter successful_login es) \<and> length (pr_hours p) = 24
     \<and> (\<forall>c. c \<noteq> [] \<longrightarrow> count_of (pr_countries p) c = length (filter (\<lambda>e. successful_login e \<and> e_country e = c) es))
     \<and> (\<forall>d. d \<noteq> [] \<longrightarrow> count_of (pr_devices p) d = length (filter (\<lambda>e. successful_login e \<and> e_device e = d) es))
     \<and> (\<forall>h < 24. pr_hours p ! h = length (filter (\<lambda>e. successful_login e \<and> hour_of (e_time e) = h) es))"

lemma hour_of_less: "hour_of t < 24"
  by (simp add: hour_of_def)

lemma observe_knows: "knows p es \<Longrightarrow> knows (observe p e) (es @ [e])"
  by (auto simp: knows_def observe_def Let_def nth_list_update hour_of_less)

lemma new_profile_knows: "knows (new_profile k) []"
  by (simp add: knows_def new_profile_def count_of_def)

lemma build_profile_knows: "knows (build_profile i) (i_events i)"
proof -
  have "knows (foldl observe (new_profile k) es) es" for k es
    by (induction es rule: rev_induct) (simp_all add: new_profile_knows observe_knows)
  then show ?thesis by (simp add: build_profile_def)
qed

text \<open>
  A login is anomalous exactly when at least five successful logins came before it, its country is
  new, and its device or its hour is new as well: a new device at a new hour from a known country never
  is. The score is at most 1.0, and it is 0 until five logins have been observed.
\<close>

theorem anomaly_needs_new_country:
  assumes "knows p es" "successful_login e"
  shows "(anomaly_threshold \<le> score p e \<longleftrightarrow>
      min_logins_to_score \<le> length (filter successful_login es)
      \<and> e_country e \<noteq> [] \<and> (\<forall>x \<in> set es. successful_login x \<longrightarrow> e_country x \<noteq> e_country e)
      \<and> (e_device e \<noteq> [] \<and> (\<forall>x \<in> set es. successful_login x \<longrightarrow> e_device x \<noteq> e_device e)
         \<or> (\<forall>x \<in> set es. successful_login x \<longrightarrow> hour_of (e_time x) \<noteq> hour_of (e_time e))))
    \<and> score p e \<le> 10
    \<and> (length (filter successful_login es) < min_logins_to_score \<longrightarrow> score p e = 0)"
proof -
  have login: "e_type e = EventLogin" using assms(2) by (simp add: successful_login_def)
  have none: "length (filter (\<lambda>x. successful_login x \<and> P x) es) = 0 \<longleftrightarrow> (\<forall>x \<in> set es. successful_login x \<longrightarrow> \<not> P x)" for P
    by (auto simp: filter_empty_conv)
  have facts: "pr_total p = length (filter successful_login es)"
    "e_country e \<noteq> [] \<Longrightarrow> count_of (pr_countries p) (e_country e) = 0 \<longleftrightarrow> (\<forall>x \<in> set es. successful_login x \<longrightarrow> e_country x \<noteq> e_country e)"
    "e_device e \<noteq> [] \<Longrightarrow> count_of (pr_devices p) (e_device e) = 0 \<longleftrightarrow> (\<forall>x \<in> set es. successful_login x \<longrightarrow> e_device x \<noteq> e_device e)"
    "pr_hours p ! hour_of (e_time e) = 0 \<longleftrightarrow> (\<forall>x \<in> set es. successful_login x \<longrightarrow> hour_of (e_time x) \<noteq> hour_of (e_time e))"
    using assms(1) hour_of_less [of "e_time e"] none by (simp_all add: knows_def)
  show ?thesis
    using login facts(1,4) facts(2) facts(3)
    by (cases "e_country e = []"; cases "e_device e = []") (auto simp: score_def anomaly_threshold_def)
qed

theorem anomaly_needs_new_country_witness:
  "anomaly_threshold \<le> score (foldl observe (new_profile ''ann'') (map (sample_login ''mac'') [0, 1, 2, 3, 4]))
     ((sample_login ''pc'' 5)\<lparr>e_country := ''PT''\<rparr>)"
proof -
  let ?es = "map (sample_login ''mac'') [0, 1, 2, 3, 4]" and ?e = "(sample_login ''pc'' 5)\<lparr>e_country := ''PT''\<rparr>"
  have "knows (foldl observe (new_profile ''ann'') ?es) ?es"
    using build_profile_knows [of "(new_identity ''ann'' True)\<lparr>i_events := ?es\<rparr>"]
    by (simp add: build_profile_def new_identity_def)
  from anomaly_needs_new_country [OF this, of ?e] show ?thesis
    by (simp add: sample_login_def successful_login_def min_logins_to_score_def)
qed

end
