(* ===== verification/Detect_NHI.thy ===== *)
theory Detect_NHI
  imports Detect_Base
begin

text \<open>
  Detectors over non-human identities: \<^verbatim>\<open>nhi.go\<close> (stale, over-privileged, orphaned),
  \<^verbatim>\<open>least_privilege.go\<close>, \<^verbatim>\<open>privilege_escalation.go\<close>, \<^verbatim>\<open>shared_credential.go\<close> and
  \<^verbatim>\<open>shadow_mcp.go\<close>. Each judges one identity at a time.
\<close>

section \<open>Stale, over-privileged and orphaned\<close>

definition stale_after :: int where
  "stale_after = 90 * 24 * Hour"

definition stale_nhi_judge :: "int \<Rightarrow> identity \<Rightarrow> alert list" where
  "stale_nhi_judge t i =
     (if \<not> is_nhi i then []
      else
        let (last_seen, ref) = (if is_zero (i_last_used i) then (i_created i, ''created'')
                                else (i_last_used i, ''last used''))
        in if is_zero last_seen then []
           else let age = time_sub t last_seen in
             if age < stale_after then []
             else [mk_alert ''stale_nhi'' (i_id i) (if has_admin i then SeverityHigh else SeverityMedium) t
                    (''NHI stale: '' @ ref @ '' '' @ utoa (nat (age div (24 * Hour))) @ ''d ago'')])"

definition stale_nhi :: detect_fun where
  "stale_nhi t ids = concat (map (stale_nhi_judge t) ids)"

definition over_privileged_nhi_judge :: "int \<Rightarrow> identity \<Rightarrow> alert list" where
  "over_privileged_nhi_judge t i =
     (if \<not> is_nhi i \<or> \<not> has_admin i then []
      else [mk_alert ''over_privileged_nhi'' (i_id i) SeverityHigh t ''NHI holds admin-equivalent permissions''])"

definition over_privileged_nhi :: detect_fun where
  "over_privileged_nhi t ids = concat (map (over_privileged_nhi_judge t) ids)"

definition orphaned_nhi_judge :: "int \<Rightarrow> identity \<Rightarrow> alert list" where
  "orphaned_nhi_judge t i =
     (if \<not> is_nhi i \<or> i_owner i \<noteq> [] then []
      else [mk_alert ''orphaned_nhi'' (i_id i) SeverityLow t ''NHI has no mapped owner''])"

definition orphaned_nhi :: detect_fun where
  "orphaned_nhi t ids = concat (map (orphaned_nhi_judge t) ids)"

section \<open>Least privilege\<close>

definition least_privilege_judge :: "int \<Rightarrow> identity \<Rightarrow> alert list" where
  "least_privilege_judge t i =
     (let ps = i_permissions i;
          unused = map p_name (filter (\<lambda>p. \<not> p_used p) ps);
          unused_admin = list_ex (\<lambda>p. \<not> p_used p \<and> p_admin p) ps
      in if \<not> list_ex p_used ps \<or> unused = [] then []
         else [mk_alert ''least_privilege'' (i_id i) (if unused_admin then SeverityHigh else SeverityMedium) t
                (utoa (length unused) @ ''/'' @ utoa (length ps) @
                 '' granted permissions unused, recommend revoking: '' @ commas (sort unused))])"

definition least_privilege :: detect_fun where
  "least_privilege t ids = concat (map (least_privilege_judge t) ids)"

section \<open>Privilege escalation\<close>

definition dangerous_permissions :: "(string \<times> string) list" where
  "dangerous_permissions =
     [(''iam:createaccesskey'', ''AWS: Allow generating new access keys for users''),
      (''iam:createuserpolicy'', ''AWS: Allow inline user policy creation''),
      (''iam:putuserpolicy'', ''AWS: Allow writing inline user policies''),
      (''iam:attachuserpolicy'', ''AWS: Allow attaching managed user policies''),
      (''iam:attachrolepolicy'', ''AWS: Allow attaching managed role policies''),
      (''iam:putrolepolicy'', ''AWS: Allow writing inline role policies''),
      (''iam:createpolicyversion'', ''AWS: Allow creating new IAM policy versions''),
      (''iam:setdefaultpolicyversion'', ''AWS: Allow changing active IAM policy version''),
      (''iam:passrole'', ''AWS: Allow passing roles to AWS services''),
      (''iam:updateassumerolepolicy'', ''AWS: Allow updating trust relationships''),
      (''iam.serviceaccounts.getaccesstoken'', ''GCP: Allow acquiring short-lived SA access tokens''),
      (''iam.serviceaccounts.actas'', ''GCP: Allow executing operations as the service account''),
      (''iam.serviceaccounts.implicitdelegation'', ''GCP: Allow delegation across projects''),
      (''iam.serviceaccounts.getopenidtoken'', ''GCP: Allow acquiring OpenID Connect tokens''),
      (''iam.serviceaccounts.signblob'', ''GCP: Allow signing raw payloads''),
      (''iam.serviceaccounts.signjwt'', ''GCP: Allow signing JSON Web Tokens''),
      (''iam.serviceaccountkeys.create'', ''GCP: Allow creating new Service Account keys''),
      (''iam.serviceaccounts.setiampolicy'', ''GCP: Allow granting itself impersonation on the service account''),
      (''microsoft.authorization/roleassignments/write'', ''Azure: Allow creating new role assignments''),
      (''microsoft.authorization/roledefinitions/write'', ''Azure: Allow creating new custom role definitions''),
      (''microsoft.resources/deployments/write'', ''Azure: Allow running resource templates with admin privileges''),
      (''microsoft.compute/virtualmachines/runcommand/action'', ''Azure: Allow running arbitrary shell commands inside VMs'')]"

definition dangerous_keys :: "string list" where
  "dangerous_keys = sort (map fst dangerous_permissions)"

definition is_perm_boundary :: "char \<Rightarrow> bool" where
  "is_perm_boundary c =
     (let n = of_char c :: nat in
      \<not> (97 \<le> n \<and> n \<le> 122 \<or> 48 \<le> n \<and> n \<le> 57 \<or> n = 45 \<or> n = 95))"

text \<open>The loop over the occurrences of one key: whether the one at \<open>idx\<close> or a later one is bounded.\<close>

lemma index_of_Some:
  "index_of s p = Some n \<Longrightarrow> n \<le> length s \<and> prefix p (drop n s) \<and> (\<forall>m < n. \<not> prefix p (drop m s))"
proof (induction s p arbitrary: n rule: index_of.induct)
  case (2 x xs p)
  show ?case
  proof (cases "prefix p (x # xs)")
    case False
    with 2(2) obtain n' where n': "index_of xs p = Some n'" "n = Suc n'" by auto
    with 2(1) [OF False n'(1)] have IH: "n' \<le> length xs" "prefix p (drop n' xs)" "\<forall>m < n'. \<not> prefix p (drop m xs)" by auto
    have "\<not> prefix p (drop m (x # xs))" if "m < n" for m
      using that IH(3) False n'(2) by (cases m) auto
    with IH n'(2) show ?thesis by simp
  qed (use 2 in auto)
qed (auto split: if_splits)

lemma index_of_None: "index_of s p = None \<longleftrightarrow> (\<forall>m \<le> length s. \<not> prefix p (drop m s))"
proof (induction s p rule: index_of.induct)
  case (2 x xs p)
  have "(\<forall>m \<le> length (x # xs). \<not> prefix p (drop m (x # xs))) \<longleftrightarrow>
      \<not> prefix p (x # xs) \<and> (\<forall>m \<le> length xs. \<not> prefix p (drop m xs))"
    by (metis (no_types, lifting) drop0 drop_Suc_Cons le0 length_Cons not0_implies_Suc not_less_eq_eq)
  with 2 show ?case by simp
qed auto

definition bounded_at :: "string \<Rightarrow> string \<Rightarrow> nat \<Rightarrow> bool" where
  "bounded_at perm k idx \<longleftrightarrow>
     (idx = 0 \<or> is_perm_boundary (perm ! (idx - 1)))
     \<and> (idx + length k = length perm \<or> is_perm_boundary (perm ! (idx + length k)))"

function match_loop :: "string \<Rightarrow> string \<Rightarrow> nat \<Rightarrow> bool" where
  "match_loop perm k idx =
     (if bounded_at perm k idx then True
      else if length perm \<le> idx then False
      else case index_of (drop (Suc idx) perm) k of
          None \<Rightarrow> False
        | Some n \<Rightarrow> match_loop perm k (Suc idx + n))"
  by pat_completeness auto

termination
  by (relation "measure (\<lambda>(perm, k, idx). Suc (length perm) - idx)") auto

declare match_loop.simps [simp del]

definition occurs_bounded :: "string \<Rightarrow> string \<Rightarrow> bool" where
  "occurs_bounded k perm = (case index_of perm k of None \<Rightarrow> False | Some idx \<Rightarrow> match_loop perm k idx)"

definition match_dangerous :: "string \<Rightarrow> string option" where
  "match_dangerous perm =
     (case map_of dangerous_permissions perm of
        Some desc \<Rightarrow> Some desc
      | None \<Rightarrow>
         (case find (\<lambda>k. occurs_bounded k perm) dangerous_keys of
            Some k \<Rightarrow> map_of dangerous_permissions k
          | None \<Rightarrow> None))"

definition max_named_in_wildcard :: nat where
  "max_named_in_wildcard = 3"

definition match_dangerous_action :: "string \<Rightarrow> string option" where
  "match_dangerous_action action =
     (if action = ''*'' then None
      else case cut_suffix action ''*'' of
        Some pre \<Rightarrow>
          (let matched = filter (\<lambda>k. has_prefix k pre) dangerous_keys in
           if matched = [] then None
           else Some (''wildcard grant covering '' @ utoa (length matched) @ '' escalation permission(s): '' @
             commas (take max_named_in_wildcard matched) @
             (if length matched > max_named_in_wildcard
              then '' and '' @ utoa (length matched - max_named_in_wildcard) @ '' more'' else [])))
      | None \<Rightarrow> match_dangerous action)"

definition escalation_alert :: "int \<Rightarrow> identity \<Rightarrow> string \<Rightarrow> alert" where
  "escalation_alert t i what =
     mk_alert ''privilege_escalation'' (i_id i) SeverityHigh t (''NHI holds dangerous escalation permission '' @ what)"

text \<open>One grant: its name first, then the first of its actions that is dangerous.\<close>

fun first_dangerous_action :: "string list \<Rightarrow> (string \<times> string) option" where
  "first_dangerous_action [] = None"
| "first_dangerous_action (a # as) =
     (case match_dangerous_action (to_lower a) of
        Some desc \<Rightarrow> Some (a, desc)
      | None \<Rightarrow> first_dangerous_action as)"

definition escalation_of_grant :: "int \<Rightarrow> identity \<Rightarrow> permission \<Rightarrow> alert list" where
  "escalation_of_grant t i p =
     (case match_dangerous (to_lower (p_name p)) of
        Some desc \<Rightarrow> [escalation_alert t i (quoted (p_name p) @ '' ('' @ desc @ '')'')]
      | None \<Rightarrow>
         (case first_dangerous_action (p_actions p) of
            Some (a, desc) \<Rightarrow> [escalation_alert t i (quoted a @ '' via grant '' @ quoted (p_name p) @ '' ('' @ desc @ '')'')]
          | None \<Rightarrow> []))"

definition privilege_escalation_judge :: "int \<Rightarrow> identity \<Rightarrow> alert list" where
  "privilege_escalation_judge t i =
     (if \<not> is_nhi i then [] else concat (map (escalation_of_grant t i) (i_permissions i)))"

definition privilege_escalation :: detect_fun where
  "privilege_escalation t ids = concat (map (privilege_escalation_judge t) ids)"

section \<open>Shared credentials and shadow MCP servers\<close>

text \<open>The distinct non-empty values of a field over the successful events.\<close>

definition spread :: "(event \<Rightarrow> string) \<Rightarrow> event list \<Rightarrow> nat" where
  "spread f es =
     card (set (filter (\<lambda>v. v \<noteq> []) (map f (filter (\<lambda>e. e_outcome e = ''SUCCESS'' \<or> e_outcome e = []) es))))"

definition shared_credential_judge :: "int \<Rightarrow> identity \<Rightarrow> alert list" where
  "shared_credential_judge t i =
     (if \<not> is_nhi i then []
      else
        let ips = spread e_ip (i_events i); countries = spread e_country (i_events i);
            devices = spread e_device (i_events i)
        in if ips > 2 \<or> countries > 2 \<or> devices > 2 then
             [mk_alert ''shared_credential'' (i_id i) SeverityHigh t
               (''NHI credential sharing/leakage: used across '' @ utoa ips @ '' IPs, '' @ utoa countries @
                '' countries, '' @ utoa devices @ '' devices'')]
           else [])"

definition shared_credential :: detect_fun where
  "shared_credential t ids = concat (map (shared_credential_judge t) ids)"

definition shadow_mcp_judge :: "int \<Rightarrow> identity \<Rightarrow> alert list" where
  "shadow_mcp_judge t i =
     (if i_type i \<noteq> IdentityMCPServer \<or> \<not> i_shadow i then []
      else if has_admin i then
        [mk_alert ''shadow_mcp'' (i_id i) SeverityCritical t
          ''unsanctioned MCP server exposes high-risk tools (shadow MCP + tool poisoning)'']
      else [mk_alert ''shadow_mcp'' (i_id i) SeverityHigh t ''unsanctioned MCP server in use (shadow MCP)''])"

definition shadow_mcp :: detect_fun where
  "shadow_mcp t ids = concat (map (shadow_mcp_judge t) ids)"

section \<open>They are detectors\<close>

interpretation stale: local_detector "''stale_nhi''" stale_nhi stale_nhi_judge
  by (rule local_detectorI) (auto simp: stale_nhi_judge_def stale_nhi_def Let_def split: if_splits)

interpretation over_privileged: local_detector "''over_privileged_nhi''" over_privileged_nhi over_privileged_nhi_judge
  by (rule local_detectorI) (auto simp: over_privileged_nhi_judge_def over_privileged_nhi_def split: if_splits)

interpretation orphaned: local_detector "''orphaned_nhi''" orphaned_nhi orphaned_nhi_judge
  by (rule local_detectorI) (auto simp: orphaned_nhi_judge_def orphaned_nhi_def split: if_splits)

interpretation least: local_detector "''least_privilege''" least_privilege least_privilege_judge
  by (rule local_detectorI) (auto simp: least_privilege_judge_def least_privilege_def Let_def split: if_splits)

interpretation escalation: local_detector "''privilege_escalation''" privilege_escalation privilege_escalation_judge
  by (rule local_detectorI)
     (auto simp: privilege_escalation_judge_def privilege_escalation_def escalation_of_grant_def
       escalation_alert_def split: if_splits option.splits)

interpretation shared_cred: local_detector "''shared_credential''" shared_credential shared_credential_judge
  by (rule local_detectorI) (auto simp: shared_credential_judge_def shared_credential_def Let_def split: if_splits)

interpretation shadow_server: local_detector "''shadow_mcp''" shadow_mcp shadow_mcp_judge
  by (rule local_detectorI) (auto simp: shadow_mcp_judge_def shadow_mcp_def split: if_splits)

section \<open>What counts as an escalation permission\<close>

lemma match_loop_correct:
  "k \<noteq> [] \<Longrightarrow> prefix k (drop idx perm) \<Longrightarrow>
    match_loop perm k idx \<longleftrightarrow> (\<exists>j \<ge> idx. prefix k (drop j perm) \<and> bounded_at perm k j)"
proof (induction perm k idx rule: match_loop.induct)
  case (1 perm k idx)
  have in_range: "j < length perm" if "prefix k (drop j perm)" for j
    using that 1(2) by (cases "j < length perm") (auto simp: prefix_def)
  show ?case
  proof (cases "bounded_at perm k idx")
    case True
    with 1(3) show ?thesis by (subst match_loop.simps) auto
  next
    case nb: False
    have later: "(\<exists>j \<ge> idx. prefix k (drop j perm) \<and> bounded_at perm k j) \<longleftrightarrow>
        (\<exists>j \<ge> Suc idx. prefix k (drop j perm) \<and> bounded_at perm k j)"
    proof (intro iffI; elim exE conjE)
      fix j assume j: "idx \<le> j" "prefix k (drop j perm)" "bounded_at perm k j"
      then have "Suc idx \<le> j" using nb by (cases "j = idx") auto
      with j show "\<exists>j \<ge> Suc idx. prefix k (drop j perm) \<and> bounded_at perm k j" by blast
    next
      fix j assume "Suc idx \<le> j" "prefix k (drop j perm)" "bounded_at perm k j"
      then show "\<exists>j \<ge> idx. prefix k (drop j perm) \<and> bounded_at perm k j" by (intro exI [of _ j]) simp
    qed
    show ?thesis
    proof (cases "index_of (drop (Suc idx) perm) k")
      case None
      then have "\<not> prefix k (drop j perm)" if "Suc idx \<le> j" "j < length perm" for j
        using that index_of_None [of "drop (Suc idx) perm" k] by (auto dest!: spec [of _ "j - Suc idx"])
      then show ?thesis using nb None in_range later
        by (subst match_loop.simps) auto
    next
      case (Some n)
      note first = index_of_Some [OF Some]
      have step: "match_loop perm k idx = match_loop perm k (Suc idx + n)"
        using nb Some in_range [OF 1(3)] by (subst match_loop.simps) auto
      have here: "prefix k (drop (Suc idx + n) perm)" using first by (simp add: add.commute)
      have "\<not> prefix k (drop j perm)" if "Suc idx \<le> j" "j < Suc idx + n" for j
        using first that by (auto dest!: spec [of _ "j - Suc idx"])
      then have "(\<exists>j \<ge> Suc idx. prefix k (drop j perm) \<and> bounded_at perm k j) \<longleftrightarrow>
          (\<exists>j \<ge> Suc idx + n. prefix k (drop j perm) \<and> bounded_at perm k j)"
        by (meson add_leD1 not_le)
      then show ?thesis
        using 1(1) [OF nb _ Some 1(2) here] in_range [OF 1(3)] step later by simp
    qed
  qed
qed

lemma bounded_parts:
  "k \<noteq> [] \<Longrightarrow> prefix k (drop j perm) \<and> bounded_at perm k j \<longleftrightarrow>
     (\<exists>pre post. perm = pre @ k @ post \<and> length pre = j
        \<and> (pre = [] \<or> is_perm_boundary (last pre)) \<and> (post = [] \<or> is_perm_boundary (hd post)))"
proof -
  assume k: "k \<noteq> []"
  have at: "bounded_at (pre @ k @ post) k (length pre) \<longleftrightarrow>
      (pre = [] \<or> is_perm_boundary (last pre)) \<and> (post = [] \<or> is_perm_boundary (hd post))" for pre post
    by (cases "pre = []"; cases "post = []") (simp_all add: bounded_at_def nth_append last_conv_nth hd_conv_nth)
  show ?thesis
  proof
    assume a: "prefix k (drop j perm) \<and> bounded_at perm k j"
    then obtain post where post: "drop j perm = k @ post" by (auto simp: prefix_def)
    with k have "j < length perm" by (metis Nil_is_append_conv drop_eq_Nil not_le)
    then have "perm = take j perm @ k @ post" "length (take j perm) = j"
      using post append_take_drop_id [of j perm] by simp_all
    with a at [of "take j perm" post]
    show "\<exists>pre post. perm = pre @ k @ post \<and> length pre = j
        \<and> (pre = [] \<or> is_perm_boundary (last pre)) \<and> (post = [] \<or> is_perm_boundary (hd post))" by metis
  next
    assume "\<exists>pre post. perm = pre @ k @ post \<and> length pre = j
        \<and> (pre = [] \<or> is_perm_boundary (last pre)) \<and> (post = [] \<or> is_perm_boundary (hd post))"
    then show "prefix k (drop j perm) \<and> bounded_at perm k j" using at by auto
  qed
qed

definition names_permission :: "string \<Rightarrow> string \<Rightarrow> bool" where
  "names_permission perm k \<longleftrightarrow>
     (\<exists>pre post. perm = pre @ k @ post
        \<and> (pre = [] \<or> is_perm_boundary (last pre)) \<and> (post = [] \<or> is_perm_boundary (hd post)))"

lemma occurs_bounded_iff: "k \<noteq> [] \<Longrightarrow> occurs_bounded k perm \<longleftrightarrow> names_permission perm k"
proof -
  assume k: "k \<noteq> []"
  have names: "names_permission perm k \<longleftrightarrow> (\<exists>j. prefix k (drop j perm) \<and> bounded_at perm k j)"
    unfolding bounded_parts [OF k] names_permission_def by blast
  show ?thesis
  proof (cases "index_of perm k")
    case None
    have "\<not> prefix k (drop j perm)" for j
      using None k index_of_None [of perm k] by (cases "j \<le> length perm") auto
    with None names show ?thesis by (simp add: occurs_bounded_def)
  next
    case (Some n)
    note first = index_of_Some [OF Some]
    have "(\<exists>j. prefix k (drop j perm) \<and> bounded_at perm k j) \<longleftrightarrow>
        (\<exists>j \<ge> n. prefix k (drop j perm) \<and> bounded_at perm k j)"
      using first by (meson not_le)
    with Some first names match_loop_correct [OF k, of n perm] show ?thesis by (simp add: occurs_bounded_def)
  qed
qed

lemma dangerous_keys_known: "k \<in> set dangerous_keys \<longleftrightarrow> map_of dangerous_permissions k \<noteq> None"
  by (simp add: dangerous_keys_def map_of_eq_None_iff)

lemma dangerous_keys_nonempty: "k \<in> set dangerous_keys \<Longrightarrow> k \<noteq> []"
  by (auto simp: dangerous_keys_def dangerous_permissions_def)

lemma match_dangerous_iff:
  "match_dangerous perm \<noteq> None \<longleftrightarrow> (\<exists>k \<in> set dangerous_keys. names_permission perm k)"
proof (cases "map_of dangerous_permissions perm")
  case (Some desc)
  then have "perm \<in> set dangerous_keys" by (simp add: dangerous_keys_known)
  moreover have "names_permission perm perm" unfolding names_permission_def by (intro exI [of _ "[]"]) simp
  ultimately show ?thesis using Some by (auto simp: match_dangerous_def)
next
  case None
  show ?thesis
  proof (cases "find (\<lambda>k. occurs_bounded k perm) dangerous_keys")
    case no_key: None
    then have "\<forall>k \<in> set dangerous_keys. \<not> names_permission perm k"
      using occurs_bounded_iff dangerous_keys_nonempty by (auto simp: find_None_iff)
    moreover have "match_dangerous perm = None" using None no_key by (simp add: match_dangerous_def)
    ultimately show ?thesis by blast
  next
    case (Some k)
    then have "k \<in> set dangerous_keys" "occurs_bounded k perm"
      by (auto simp: find_Some_iff dest: nth_mem)
    with None Some show ?thesis using occurs_bounded_iff dangerous_keys_nonempty dangerous_keys_known
      by (auto simp: match_dangerous_def)
  qed
qed

text \<open>
  \<^verbatim>\<open>privilege_escalation\<close> reports a non-human identity exactly when one of its grants names an
  escalation permission of the table, in the grant's own name or in an action, embedded anywhere but
  never inside a longer identifier, or holds a wildcard action, other than the bare *, that covers one;
  the loop over the occurrences of a permission misses none.
\<close>

theorem escalation_exact:
  "privilege_escalation_judge t i \<noteq> [] \<longleftrightarrow>
     is_nhi i \<and> (\<exists>p \<in> set (i_permissions i).
       (\<exists>k \<in> set dangerous_keys. names_permission (to_lower (p_name p)) k)
       \<or> (\<exists>a \<in> set (p_actions p). to_lower a \<noteq> ''*'' \<and>
            (case cut_suffix (to_lower a) ''*'' of
               Some pre \<Rightarrow> \<exists>k \<in> set dangerous_keys. prefix pre k
             | None \<Rightarrow> \<exists>k \<in> set dangerous_keys. names_permission (to_lower a) k)))"
proof -
  have action: "match_dangerous_action a \<noteq> None \<longleftrightarrow> a \<noteq> ''*'' \<and>
      (case cut_suffix a ''*'' of Some pre \<Rightarrow> \<exists>k \<in> set dangerous_keys. prefix pre k
       | None \<Rightarrow> \<exists>k \<in> set dangerous_keys. names_permission a k)" for a
    unfolding match_dangerous_iff [symmetric]
    by (auto simp: match_dangerous_action_def Let_def has_prefix_def filter_empty_conv split: option.split)
  have first: "first_dangerous_action as \<noteq> None \<longleftrightarrow> (\<exists>a \<in> set as. match_dangerous_action (to_lower a) \<noteq> None)" for as
    by (induction as) (auto split: option.split)
  have grant: "escalation_of_grant t i p \<noteq> [] \<longleftrightarrow>
      match_dangerous (to_lower (p_name p)) \<noteq> None \<or> (\<exists>a \<in> set (p_actions p). match_dangerous_action (to_lower a) \<noteq> None)" for p
    unfolding first [symmetric] by (auto simp: escalation_of_grant_def split: option.split)
  have "privilege_escalation_judge t i \<noteq> [] \<longleftrightarrow> is_nhi i \<and> (\<exists>p \<in> set (i_permissions i). escalation_of_grant t i p \<noteq> [])"
    by (simp add: privilege_escalation_judge_def)
  then show ?thesis unfolding grant match_dangerous_iff action .
qed

end
