(* ===== verification/Detect_Agents.thy ===== *)
theory Detect_Agents
  imports Detect_Base
begin

text \<open>
  Detectors over AI agents: the three that count blocked actions in a window
  (\<^verbatim>\<open>data_exfiltration.go\<close>, \<^verbatim>\<open>tainted_agent.go\<close>, \<^verbatim>\<open>mcp_drift.go\<close>), the two that look at
  the inventory (\<^verbatim>\<open>attestation_missing.go\<close>, \<^verbatim>\<open>bom_incomplete.go\<close>), those that follow the
  delegation graph (\<^verbatim>\<open>excessive_agency.go\<close>, \<^verbatim>\<open>runaway_agent.go\<close>) and
  \<^verbatim>\<open>agent_shadow_tool.go\<close>.
\<close>

section \<open>Blocked actions in a window\<close>

definition elevated :: "identity \<Rightarrow> bool" where
  "elevated i \<longleftrightarrow> i_privileged i \<or> has_admin i"

definition dlp_block_window :: int where "dlp_block_window = 24 * Hour"
definition dlp_block_threshold :: nat where "dlp_block_threshold = 3"

definition data_exfiltration_judge :: "int \<Rightarrow> identity \<Rightarrow> alert list" where
  "data_exfiltration_judge t i =
     (if \<not> is_agent i then []
      else let count = count_recent t dlp_block_window EventDLPBlock i in
        if count < dlp_block_threshold then []
        else [mk_alert ''data_exfiltration'' (i_id i)
               (if count \<ge> dlp_block_threshold * 2 \<or> i_privileged i \<or> has_admin i
                then SeverityCritical else SeverityHigh) t
               (utoa count @ '' DLP-blocked action(s) within 24h0m0s (possible data exfiltration attempt)'')])"

definition data_exfiltration :: detect_fun where
  "data_exfiltration t ids = concat (map (data_exfiltration_judge t) ids)"

definition taint_block_window :: int where "taint_block_window = 30 * 24 * Hour"
definition taint_block_repeat_threshold :: nat where "taint_block_repeat_threshold = 2"

definition tainted_agent_judge :: "int \<Rightarrow> identity \<Rightarrow> alert list" where
  "tainted_agent_judge t i =
     (if \<not> is_agent i then []
      else let count = count_recent t taint_block_window EventTaintBlock i in
        if count = 0 then []
        else [mk_alert ''tainted_agent'' (i_id i)
               (if count \<ge> taint_block_repeat_threshold \<or> i_privileged i \<or> has_admin i
                then SeverityCritical else SeverityHigh) t
               (utoa count @ '' taint-tracked action(s) blocked within 720h0m0s (blocked injection/exfiltration attempt)'')])"

definition tainted_agent :: detect_fun where
  "tainted_agent t ids = concat (map (tainted_agent_judge t) ids)"

definition mcp_drift_window :: int where "mcp_drift_window = 30 * 24 * Hour"
definition mcp_drift_repeat_threshold :: nat where "mcp_drift_repeat_threshold = 2"

definition mcp_drift_judge :: "int \<Rightarrow> identity \<Rightarrow> alert list" where
  "mcp_drift_judge t i =
     (if \<not> is_agent i then []
      else let count = count_recent t mcp_drift_window EventMCPDrift i in
        if count = 0 then []
        else [mk_alert ''mcp_drift'' (i_id i)
               (if count \<ge> mcp_drift_repeat_threshold \<or> i_privileged i \<or> has_admin i
                then SeverityCritical else SeverityHigh) t
               (utoa count @ '' MCP config/tooling drift event(s) within 720h0m0s (supply-chain integrity signal)'')])"

definition mcp_drift :: detect_fun where
  "mcp_drift t ids = concat (map (mcp_drift_judge t) ids)"

section \<open>Inventory\<close>

definition attestation_missing_judge :: "int \<Rightarrow> identity \<Rightarrow> alert list" where
  "attestation_missing_judge t i =
     (if \<not> is_agent i then []
      else if \<not> (i_privileged i \<or> has_admin i) then []
      else if i_attestation i \<noteq> [] \<and> i_attestation i \<noteq> ''none'' then []
      else [mk_alert ''attestation_missing'' (i_id i) SeverityHigh t
             (''privileged agent has no attestation on record (attestation='' @ attestation_label (i_attestation i) @ '')'')])"

definition attestation_missing :: detect_fun where
  "attestation_missing t ids = concat (map (attestation_missing_judge t) ids)"

definition bom_missing :: "identity \<Rightarrow> string list" where
  "bom_missing i =
     (if i_owner i = [] then [''owner''] else []) @
     (if i_runtime i = [] then [''runtime''] else []) @
     (if i_attestation i = [] \<or> i_attestation i = ''none'' then [''attestation''] else [])"

definition bom_incomplete_judge :: "int \<Rightarrow> identity \<Rightarrow> alert list" where
  "bom_incomplete_judge t i =
     (if \<not> is_agent i then []
      else if bom_missing i = [] then []
      else [mk_alert ''bom_incomplete'' (i_id i) SeverityMedium t
             (''agent-bom incomplete: missing '' @ commas (bom_missing i))])"

definition bom_incomplete :: detect_fun where
  "bom_incomplete t ids = concat (map (bom_incomplete_judge t) ids)"

section \<open>Along the delegation chain\<close>

text \<open>The map from ID to identity the detectors build: a later identity of the same ID wins.\<close>

definition index_of_ids :: "identity list \<Rightarrow> (string \<times> identity) list" where
  "index_of_ids ids = foldl (\<lambda>m i. AList.update (i_id i) i m) [] ids"

definition admin_in_chain :: "(string \<times> identity) list \<Rightarrow> string list \<Rightarrow> string option" where
  "admin_in_chain index chain =
     find (\<lambda>link. case map_of index link of Some node \<Rightarrow> has_admin node | None \<Rightarrow> False) chain"

definition excessive_agency_judge :: "(string \<times> identity) list \<Rightarrow> int \<Rightarrow> identity \<Rightarrow> alert list" where
  "excessive_agency_judge index t i =
     (if \<not> is_agent i then []
      else let chain = walk_delegation_chain index (i_id i) in
        case admin_in_chain index chain of
          None \<Rightarrow> []
        | Some via \<Rightarrow>
            if via = i_id i then []
            else [mk_alert ''excessive_agency'' (i_id i)
                   (if length chain > 2 then SeverityCritical else SeverityHigh) t
                   (''agent reaches admin via '' @ via @ '' (delegation depth '' @ utoa (length chain - 1) @ '')'')])"

definition excessive_agency :: detect_fun where
  "excessive_agency t ids = concat (map (excessive_agency_judge (index_of_ids ids) t) ids)"

section \<open>Runaway agents\<close>

definition spend_window :: int where "spend_window = 30 * 24 * Hour"
definition blast_radius_threshold :: nat where "blast_radius_threshold = 5"
definition repeated_incident_threshold :: nat where "repeated_incident_threshold = 10"
definition sustained_incident_threshold :: nat where "sustained_incident_threshold = 50"

definition spend_event_types :: "string list" where
  "spend_event_types =
     [EventBudgetExhausted, EventSustainedLoop, EventSpendSpike, EventFanoutExplosion, EventBreakerTripped]"

definition spend_events :: "int \<Rightarrow> identity \<Rightarrow> string list" where
  "spend_events t i =
     map e_type (filter (\<lambda>e. e_type e \<in> set spend_event_types \<and> recent t spend_window e) (i_events i))"

definition format_event_counts :: "string list \<Rightarrow> string" where
  "format_event_counts types =
     commas (map (\<lambda>ty. ty @ ''='' @ utoa (length (filter (\<lambda>x. x = ty) types))) (sorted_keys types))"

definition runaway_reasons :: "identity \<Rightarrow> nat \<Rightarrow> nat \<Rightarrow> nat \<Rightarrow> nat \<times> string list" where
  "runaway_reasons i chain blast incidents =
     (let priv = i_privileged i \<or> has_admin i; deep = chain \<ge> 2; wide = blast \<ge> blast_radius_threshold
      in (of_bool priv + of_bool deep + of_bool (unattested i) + of_bool wide,
          (if priv then [''privileged''] else []) @
          (if deep then [''delegation depth '' @ utoa (chain - 1)] else []) @
          (if unattested i then [''unattested''] else []) @
          (if wide then [''blast radius '' @ utoa blast] else []) @
          (if incidents \<ge> repeated_incident_threshold then [utoa incidents @ '' incidents''] else [])))"

definition runaway_severity :: "nat \<Rightarrow> nat \<Rightarrow> severity" where
  "runaway_severity facts incidents =
     (let sev = (if facts \<ge> 3 then SeverityCritical else if facts \<ge> 2 then SeverityHigh else SeverityMedium)
      in if incidents \<ge> sustained_incident_threshold \<and> sev < SeverityCritical then SeverityCritical
         else if incidents \<ge> repeated_incident_threshold \<and> sev < SeverityHigh then SeverityHigh
         else sev)"

definition runaway_agent_judge :: "(string \<times> identity) list \<Rightarrow> int \<Rightarrow> identity \<Rightarrow> alert list" where
  "runaway_agent_judge index t i =
     (if \<not> is_agent i then []
      else let spent = spend_events t i in
        if spent = [] then []
        else
          let chain = walk_delegation_chain index (i_id i); blast = blast_radius index (i_id i);
              incidents = length spent;
              (facts, reasons) = runaway_reasons i (length chain) (length blast) incidents
          in [mk_alert ''runaway_agent'' (i_id i) (runaway_severity facts incidents) t
               (''agent spend incident: '' @ format_event_counts spent @ ''; delegation depth '' @ utoa (length chain - 1) @
                ''; attestation='' @ attestation_label (i_attestation i) @ ''; blast radius '' @ utoa (length blast) @
                '' permission(s); corroborating: '' @ commas (if reasons = [] then [''none''] else reasons))])"

definition runaway_agent :: detect_fun where
  "runaway_agent t ids = sort_key a_identity (concat (map (runaway_agent_judge (index_of_ids ids) t) ids))"

section \<open>Tools of shadow servers\<close>

text \<open>Whether a tool name is offered by an unsanctioned server, and as an admin tool by any of them.\<close>

definition shadow_tools :: "identity list \<Rightarrow> permission list" where
  "shadow_tools ids =
     concat (map i_permissions (filter (\<lambda>i. i_type i = IdentityMCPServer \<and> i_shadow i) ids))"

definition agent_shadow_tool_judge :: "permission list \<Rightarrow> int \<Rightarrow> identity \<Rightarrow> alert list" where
  "agent_shadow_tool_judge tools t i =
     (if \<not> is_agent i then []
      else
        let matched = filter (\<lambda>p. p_name p \<in> p_name ` set tools) (i_permissions i);
            risky = list_ex (\<lambda>p. list_ex (\<lambda>q. p_name q = p_name p \<and> p_admin q) tools \<or> p_admin p) matched
        in if matched = [] then []
           else [mk_alert ''agent_shadow_tool'' (i_id i) (if risky then SeverityCritical else SeverityHigh) t
                  (''agent uses tool(s) from an unsanctioned MCP server: '' @ commas (sort (map p_name matched)))])"

definition agent_shadow_tool :: detect_fun where
  "agent_shadow_tool t ids =
     (if shadow_tools ids = [] then [] else concat (map (agent_shadow_tool_judge (shadow_tools ids) t) ids))"

section \<open>They are detectors\<close>

text \<open>The shape the three counting detectors share.\<close>

locale counting_detector = local_detector name detect judge for name detect judge +
  fixes ty :: string and window :: int and threshold :: nat and repeat :: nat
  assumes fires: "judge t i \<noteq> [] \<longleftrightarrow> is_agent i \<and> threshold \<le> count_recent t window ty i"
    and severity_of: "a \<in> set (judge t i) \<Longrightarrow>
      a_severity a = (if repeat \<le> count_recent t window ty i \<or> elevated i then SeverityCritical else SeverityHigh)"
    and threshold_pos: "0 < threshold"
begin

lemma alerted_iff:
  "(\<exists>a \<in> set (detect t ids). a_identity a = k) \<longleftrightarrow>
     (\<exists>i \<in> set ids. i_id i = k \<and> is_agent i \<and> threshold \<le> count_recent t window ty i)"
  by (simp add: alerted fires)

text \<open>More recent events never withdraw an alert nor lower it.\<close>

lemma count_mono:
  assumes "mset (filter (\<lambda>e. e_type e = ty) (i_events i)) \<subseteq># mset (filter (\<lambda>e. e_type e = ty) (i_events j))"
  shows "count_recent t window ty i \<le> count_recent t window ty j"
proof -
  have "size (filter_mset (recent t window) (mset (filter (\<lambda>e. e_type e = ty) (i_events k)))) = count_recent t window ty k" for k
    by (simp add: count_recent_def mset_filter [symmetric] conj_commute del: mset_filter)
  with size_mset_mono [OF multiset_filter_mono [OF assms, of "recent t window"]] show ?thesis by simp
qed

lemma quiet_humans: "\<not> is_agent i \<Longrightarrow> judge t i = []"
  using fires [of t i] by blast

end

interpretation exfiltration: counting_detector "''data_exfiltration''" data_exfiltration data_exfiltration_judge
  EventDLPBlock dlp_block_window dlp_block_threshold "dlp_block_threshold * 2"
proof (rule counting_detector.intro)
  show "local_detector ''data_exfiltration'' data_exfiltration data_exfiltration_judge"
    by (rule local_detectorI) (auto simp: data_exfiltration_judge_def data_exfiltration_def Let_def split: if_splits)
  show "counting_detector_axioms data_exfiltration_judge EventDLPBlock dlp_block_window dlp_block_threshold
      (dlp_block_threshold * 2)"
    by unfold_locales (auto simp: data_exfiltration_judge_def Let_def elevated_def dlp_block_threshold_def split: if_splits)
qed

interpretation tainted: counting_detector "''tainted_agent''" tainted_agent tainted_agent_judge
  EventTaintBlock taint_block_window 1 taint_block_repeat_threshold
proof (rule counting_detector.intro)
  show "local_detector ''tainted_agent'' tainted_agent tainted_agent_judge"
    by (rule local_detectorI) (auto simp: tainted_agent_judge_def tainted_agent_def Let_def split: if_splits)
  show "counting_detector_axioms tainted_agent_judge EventTaintBlock taint_block_window 1 taint_block_repeat_threshold"
    by unfold_locales (auto simp: tainted_agent_judge_def Let_def elevated_def split: if_splits)
qed

interpretation drift: counting_detector "''mcp_drift''" mcp_drift mcp_drift_judge
  EventMCPDrift mcp_drift_window 1 mcp_drift_repeat_threshold
proof (rule counting_detector.intro)
  show "local_detector ''mcp_drift'' mcp_drift mcp_drift_judge"
    by (rule local_detectorI) (auto simp: mcp_drift_judge_def mcp_drift_def Let_def split: if_splits)
  show "counting_detector_axioms mcp_drift_judge EventMCPDrift mcp_drift_window 1 mcp_drift_repeat_threshold"
    by unfold_locales (auto simp: mcp_drift_judge_def Let_def elevated_def split: if_splits)
qed

interpretation unattested_agents: local_detector "''attestation_missing''" attestation_missing attestation_missing_judge
  by (rule local_detectorI) (auto simp: attestation_missing_judge_def attestation_missing_def split: if_splits)

interpretation bom: local_detector "''bom_incomplete''" bom_incomplete bom_incomplete_judge
  by (rule local_detectorI) (auto simp: bom_incomplete_judge_def bom_incomplete_def split: if_splits)

interpretation agency: detector "''excessive_agency''" excessive_agency
  by unfold_locales
     (auto simp: excessive_agency_def excessive_agency_judge_def Let_def split: if_splits option.splits)

lemma runaway_severity_graded: "SeverityMedium \<le> runaway_severity f n"
  by (auto simp: runaway_severity_def Let_def less_eq_severity_def)

interpretation runaway: detector "''runaway_agent''" runaway_agent
  using order_trans [OF _ runaway_severity_graded, of SeverityInfo]
  by unfold_locales (auto simp: runaway_agent_def runaway_agent_judge_def Let_def split: if_splits prod.splits)

interpretation shadow_tool: detector "''agent_shadow_tool''" agent_shadow_tool
  by unfold_locales
     (auto simp: agent_shadow_tool_def agent_shadow_tool_judge_def Let_def split: if_splits)

end
