(* ===== verification/Agents_Facts.thy ===== *)
theory Agents_Facts
  imports Detect_Agents
begin

text \<open>
  Facts about the agent detectors on the graph: what more data does to the alerts of the counting
  detectors, and when an agent is said to reach an admin through its delegation chain.
\<close>

section \<open>Identities only grow\<close>

definition grows :: "identity \<Rightarrow> identity \<Rightarrow> bool" where
  "grows i j \<longleftrightarrow> i_id j = i_id i \<and> mset (i_events i) \<subseteq># mset (i_events j)
     \<and> (is_agent i \<longrightarrow> is_agent j) \<and> (i_privileged i \<longrightarrow> i_privileged j) \<and> (has_admin i \<longrightarrow> has_admin j)"

lemma grows_refl [simp]: "grows i i"
  by (simp add: grows_def)

lemma grows_trans: "grows i j \<Longrightarrow> grows j k \<Longrightarrow> grows i k"
  unfolding grows_def using subset_mset.order_trans by metis

text \<open>Inventory data that does not turn an agent into another kind of identity.\<close>

fun keeps_agents :: "ingest \<Rightarrow> bool" where
  "keeps_agents (Identity_of i) = (i_type i = IdentityHuman \<or> is_agent i)"
| "keeps_agents (Event_of e) = True"
| "keeps_agents (Mark ps) = True"

lemma has_admin_iff: "has_admin i \<longleftrightarrow> (\<exists>p \<in> set (i_permissions i). p_admin p)"
  by (simp add: has_admin_def list_ex_iff)

lemma merge_admin: "\<exists>p \<in> set ps. p_admin p \<Longrightarrow> \<exists>p \<in> set (merge_permissions ps ins). p_admin p"
  using merge_covers_old [of _ ps ins] by (auto simp: covers_def)

lemma merge_identity_grows: "i_type inp = IdentityHuman \<or> is_agent inp \<Longrightarrow> grows i (merge_identity inp i)"
  using merge_admin [of "i_permissions i" "i_permissions inp"]
  by (auto simp: grows_def has_admin_iff merge_identity_def is_agent_def)

lemma ingest_grows:
  assumes "lookup s k = Some i" "keeps_agents op"
  shows "\<exists>j. lookup (apply_ingest op s) k = Some j \<and> grows i j"
proof (cases op)
  case (Event_of e)
  have "lookup (put (e_identity e) j (s\<lparr>s_seen := x\<rparr>)) k = (if k = e_identity e then Some j else lookup s k)" for j x
    by (simp add: lookup_def put_def update_conv')
  then show ?thesis using assms(1) Event_of
    by (auto simp: add_event_def Let_def ensure_def grows_def is_agent_def has_admin_def)
next
  case (Identity_of inp)
  have "lookup (put (i_id inp) j s) k = (if k = i_id inp then Some j else lookup s k)" for j
    by (simp add: lookup_def put_def update_conv')
  then show ?thesis using assms Identity_of merge_identity_grows [of inp i]
    by (auto simp: add_identity_def ensure_def)
next
  case (Mark ps)
  have "lookup (mark_privileged ps s) k = map_option (flag ps k) (lookup s k)"
    by (simp add: mark_alt lookup_def map_of_map_snd)
  then show ?thesis using assms(1) Mark
    by (simp add: grows_def flag_def is_agent_def has_admin_def)
qed

lemma ingests_grow:
  "lookup s k = Some i \<Longrightarrow> list_all keeps_agents ops \<Longrightarrow>
     \<exists>j. lookup (fold apply_ingest ops s) k = Some j \<and> grows i j"
proof (induction ops arbitrary: s i)
  case (Cons op ops)
  then obtain j where "lookup (apply_ingest op s) k = Some j" "grows i j"
    using ingest_grows [of s k i op] by auto
  with Cons.IH [of "apply_ingest op s" j] Cons.prems show ?case by (auto intro: grows_trans)
qed auto

text \<open>The identities as the detectors read them are those of the store, their events in order.\<close>

lemma read_identity: "wf_store s \<Longrightarrow> j \<in> set (fst (identities s)) \<longleftrightarrow> (\<exists>i. lookup s (i_id j) = Some i \<and> j = chronological i)"
proof
  assume wf: "wf_store s" and "j \<in> set (fst (identities s))"
  then obtain k i where i: "(k, i) \<in> set (s_identities s)" "j = chronological i"
    by (auto simp: identities_def Let_def sort_events_def)
  with wf have "i_id j = k" "lookup s k = Some i" by (auto simp: wf_store_def chronological_def lookup_def)
  with i show "\<exists>i. lookup s (i_id j) = Some i \<and> j = chronological i" by auto
next
  assume "\<exists>i. lookup s (i_id j) = Some i \<and> j = chronological i"
  then obtain i where "(i_id j, i) \<in> set (s_identities s)" "j = chronological i"
    by (auto simp: lookup_def dest: map_of_SomeD)
  then show "j \<in> set (fst (identities s))" by (force simp: identities_def Let_def sort_events_def)
qed

lemma read_grows:
  assumes "wf_store s" "list_all keeps_agents later" "i \<in> set (fst (identities s))"
  shows "\<exists>j \<in> set (fst (identities (fold apply_ingest later s))). grows i j"
proof -
  obtain i0 where i0: "lookup s (i_id i) = Some i0" "i = chronological i0"
    using assms(1,3) read_identity by blast
  then obtain j0 where j0: "lookup (fold apply_ingest later s) (i_id i) = Some j0" "grows i0 j0"
    using ingests_grow assms(2) by blast
  have g: "grows i (chronological j0)"
    using j0(2) by (simp add: grows_def i0(2) chronological_def is_agent_def has_admin_def)
  then have "i_id (chronological j0) = i_id i" by (simp add: grows_def)
  then have "chronological j0 \<in> set (fst (identities (fold apply_ingest later s)))"
    using j0(1) read_identity [OF wf_ingests [OF assms(1)]] by auto
  with g show ?thesis by blast
qed

section \<open>Counting detectors\<close>

context counting_detector begin

lemma grows_count: "grows i j \<Longrightarrow> count_recent t window ty i \<le> count_recent t window ty j"
  by (rule count_mono) (simp add: grows_def multiset_filter_mono)

lemma persists:
  assumes alert: "a \<in> set (detect t ids)" and grown: "\<forall>i \<in> set ids. \<exists>j \<in> set ids'. grows i j"
  shows "\<exists>b \<in> set (detect t ids'). a_identity b = a_identity a \<and> a_severity a \<le> a_severity b"
proof -
  obtain i where i: "i \<in> set ids" "a \<in> set (judge t i)"
    using alert by_identity by blast
  then obtain j where j: "j \<in> set ids'" "grows i j" using grown by blast
  have "is_agent i" "threshold \<le> count_recent t window ty i" using i(2) fires [of t i] by auto
  then have "judge t j \<noteq> []"
    using fires [of t j] j(2) grows_count [OF j(2), of t] by (auto simp: grows_def)
  then obtain b where b: "b \<in> set (judge t j)" by (cases "judge t j") auto
  have "a_identity a = i_id i" "a_identity b = i_id j" using i(2) b by (simp_all add: names_its_identity)
  moreover have "a_severity a \<le> a_severity b"
    using severity_of [OF i(2)] severity_of [OF b] grows_count [OF j(2), of t] j(2)
    by (auto simp: grows_def elevated_def less_eq_severity_def)
  moreover have "b \<in> set (detect t ids')" using b j(1) by_identity by blast
  ultimately show ?thesis using j(2) by (auto simp: grows_def)
qed

end

definition counting_detectors :: "detect_fun list" where
  "counting_detectors = [data_exfiltration, tainted_agent, mcp_drift]"

text \<open>
  Blocked actions accumulate. An alert of \<^verbatim>\<open>data_exfiltration\<close>, \<^verbatim>\<open>tainted_agent\<close> or
  \<^verbatim>\<open>mcp_drift\<close> on what the store holds is still raised for that identity, at the same severity or a
  higher one, after any further events, marks and inventory of agents and humans have been ingested:
  nothing that arrives later, in any order, withdraws it or lowers it.
\<close>

theorem blocked_actions_accumulate:
  assumes "detect \<in> set counting_detectors"
    and "list_all keeps_agents later"
    and "a \<in> set (detect t (fst (identities (fold apply_ingest ops (new_store ps)))))"
  shows "\<exists>b \<in> set (detect t (fst (identities (fold apply_ingest (ops @ later) (new_store ps))))).
           a_identity b = a_identity a \<and> a_severity a \<le> a_severity b"
proof -
  have "\<forall>i \<in> set (fst (identities (fold apply_ingest ops (new_store ps)))).
      \<exists>j \<in> set (fst (identities (fold apply_ingest (ops @ later) (new_store ps)))). grows i j"
    using read_grows [OF wf_ingests [OF wf_new] assms(2)] by simp
  with assms(1,3) show ?thesis
    using exfiltration.persists tainted.persists drift.persists by (auto simp: counting_detectors_def)
qed

definition sample_block :: "int \<Rightarrow> event" where
  "sample_block t =
     \<lparr>e_time = t, e_zone = 0, e_identity = ''bot'', e_type = EventTaintBlock, e_outcome = [], e_ip = [],
      e_city = [], e_country = [], e_lat = 0, e_lon = 0, e_device = [], e_resource = [], e_severity = [], e_source = []\<rparr>"

definition sample_bot :: identity where
  "sample_bot = (new_identity ''bot'' False)\<lparr>i_type := IdentityAgent\<rparr>"

text \<open>Two blocks where there was one.\<close>

lemma sample_blocked:
  "fst (identities (fold apply_ingest [Identity_of sample_bot, Event_of (sample_block 0)] (new_store []))) =
     [sample_bot\<lparr>i_events := [sample_block 0]\<rparr>]"
  by (simp add: sample_bot_def sample_block_def new_identity_def add_identity_def merge_identity_def merge_permissions_def
      add_event_def Let_def ensure_def lookup_def put_def new_store_def identities_def sort_events_def chronological_def
      identity_types)

theorem blocked_actions_accumulate_witness:
  "\<exists>b \<in> set (tainted_agent 5 (fst (identities (fold apply_ingest
       ([Identity_of sample_bot, Event_of (sample_block 0)] @ [Event_of (sample_block 1)]) (new_store []))))).
     a_identity b = ''bot'' \<and> SeverityHigh \<le> a_severity b"
proof -
  let ?a = "mk_alert ''tainted_agent'' ''bot'' SeverityHigh 5
    (utoa 1 @ '' taint-tracked action(s) blocked within 720h0m0s (blocked injection/exfiltration attempt)'')"
  have "?a \<in> set (tainted_agent 5 [sample_bot\<lparr>i_events := [sample_block 0]\<rparr>])"
    by (simp add: tainted_agent_def tainted_agent_judge_def is_agent_def sample_bot_def sample_block_def count_recent_def
        recent_def taint_block_window_def taint_block_repeat_threshold_def has_admin_def new_identity_def durations
        time_sub_def max_duration_def min_duration_def Let_def)
  then have "?a \<in> set (tainted_agent 5 (fst (identities
      (fold apply_ingest [Identity_of sample_bot, Event_of (sample_block 0)] (new_store [])))))"
    by (simp only: sample_blocked)
  from blocked_actions_accumulate [where detect = tainted_agent and later = "[Event_of (sample_block 1)]", OF _ _ this]
  show ?thesis by (simp add: counting_detectors_def)
qed

section \<open>Admin through the chain\<close>

lemma map_of_foldl_update:
  "map_of (foldl (\<lambda>m i. AList.update (i_id i) i m) m0 ids) k =
     (case find (\<lambda>i. i_id i = k) (rev ids) of Some i \<Rightarrow> Some i | None \<Rightarrow> map_of m0 k)"
  by (induction ids arbitrary: m0) (auto simp: update_conv' find_append split: option.splits)

lemma map_of_index_of_ids:
  assumes "distinct (map i_id ids)"
  shows "map_of (index_of_ids ids) k = Some i \<longleftrightarrow> i \<in> set ids \<and> i_id i = k"
proof -
  have same: "i = j" if "i \<in> set ids" "j \<in> set ids" "i_id i = i_id j" for i j
    using assms that by (auto simp: distinct_map inj_on_def)
  have "map_of (index_of_ids ids) k = find (\<lambda>i. i_id i = k) (rev ids)"
    by (simp add: index_of_ids_def map_of_foldl_update split: option.splits)
  moreover have "find (\<lambda>i. i_id i = k) (rev ids) = Some i \<longleftrightarrow> i \<in> set ids \<and> i_id i = k"
  proof
    assume "i \<in> set ids \<and> i_id i = k"
    moreover from this have "find (\<lambda>i. i_id i = k) (rev ids) \<noteq> None" by (auto simp: find_None_iff)
    then obtain j where j: "find (\<lambda>i. i_id i = k) (rev ids) = Some j" by blast
    ultimately show "find (\<lambda>i. i_id i = k) (rev ids) = Some i"
      using find_SomeD [OF j] same [of i j] by simp
  qed (use find_SomeD in fastforce)
  ultimately show ?thesis by simp
qed

text \<open>
  \<^verbatim>\<open>excessive_agency\<close> finds exactly the hidden admins: of identities with distinct IDs, an agent is
  alerted precisely when it holds no admin permission itself and somebody in its delegation chain
  does; the severity is critical exactly when the chain is longer than the agent and one principal.
\<close>

theorem excessive_agency_exact:
  assumes "distinct (map i_id ids)" and "i \<in> set ids"
  shows "((\<exists>a \<in> set (excessive_agency t ids). a_identity a = i_id i) \<longleftrightarrow>
            is_agent i \<and> \<not> has_admin i
            \<and> (\<exists>node \<in> set ids. has_admin node \<and> i_id node \<in> set (walk_delegation_chain (index_of_ids ids) (i_id i))))
         \<and> (\<forall>a \<in> set (excessive_agency t ids). a_identity a = i_id i \<longrightarrow>
              a_severity a = (if 2 < length (walk_delegation_chain (index_of_ids ids) (i_id i))
                              then SeverityCritical else SeverityHigh))"
proof -
  let ?ix = "index_of_ids ids" and ?chain = "walk_delegation_chain (index_of_ids ids) (i_id i)"
  have ix: "map_of ?ix k = Some j \<longleftrightarrow> j \<in> set ids \<and> i_id j = k" for k j
    by (rule map_of_index_of_ids [OF assms(1)])
  obtain new where chain: "?chain = i_id i # new" by (rule walk_chain)
  have self: "map_of ?ix (i_id i) = Some i" using ix assms(2) by simp
  then have own: "admin_in_chain ?ix ?chain = Some (i_id i)" if "has_admin i"
    using that by (simp add: admin_in_chain_def chain)
  have linked: "(\<exists>node. map_of ?ix via = Some node \<and> has_admin node) \<and> via \<in> set ?chain"
    if "admin_in_chain ?ix ?chain = Some via" for via
    using find_SomeD [OF that [unfolded admin_in_chain_def]] by (auto split: option.splits)
  have none: "admin_in_chain ?ix ?chain = None \<longleftrightarrow> \<not> (\<exists>node \<in> set ids. has_admin node \<and> i_id node \<in> set ?chain)"
    using ix by (fastforce simp: admin_in_chain_def find_None_iff split: option.splits)
  have mine: "a \<in> set (excessive_agency t ids) \<and> a_identity a = i_id i \<longleftrightarrow> a \<in> set (excessive_agency_judge ?ix t i)" for a
  proof -
    have "a_identity a = i_id j" if "a \<in> set (excessive_agency_judge ?ix t j)" for j
      using that by (auto simp: excessive_agency_judge_def Let_def split: if_splits option.splits)
    moreover have "j = i" if "j \<in> set ids" "i_id j = i_id i" for j
      using that assms by (auto simp: distinct_map inj_on_def)
    moreover have "a \<in> set (excessive_agency t ids) \<longleftrightarrow> (\<exists>j \<in> set ids. a \<in> set (excessive_agency_judge ?ix t j))"
      by (simp add: excessive_agency_def)
    ultimately show ?thesis using assms(2) by metis
  qed
  show ?thesis
  proof (cases "admin_in_chain ?ix ?chain")
    case None
    then have "excessive_agency_judge ?ix t i = []" by (simp add: excessive_agency_judge_def)
    with None none mine show ?thesis by auto
  next
    case (Some via)
    then have "via = i_id i \<longleftrightarrow> has_admin i" using own linked [OF Some] self by auto
    moreover have "\<exists>node \<in> set ids. has_admin node \<and> i_id node \<in> set ?chain" using none Some by auto
    moreover have "(\<exists>a \<in> set (excessive_agency t ids). a_identity a = i_id i) \<longleftrightarrow> excessive_agency_judge ?ix t i \<noteq> []"
      using mine by (cases "excessive_agency_judge ?ix t i") auto
    moreover have "\<forall>a \<in> set (excessive_agency_judge ?ix t i).
        a_severity a = (if 2 < length ?chain then SeverityCritical else SeverityHigh)"
      by (simp add: excessive_agency_judge_def Some Let_def)
    moreover have "excessive_agency_judge ?ix t i \<noteq> [] \<longleftrightarrow> is_agent i \<and> via \<noteq> i_id i"
      by (simp add: excessive_agency_judge_def Some Let_def)
    ultimately show ?thesis using mine by blast
  qed
qed

definition sample_delegation :: "identity list" where
  "sample_delegation =
     [snd (sample_agent ''a'' [''b''] [''s3'']),
      (snd (sample_agent ''b'' [] []))\<lparr>i_permissions := [sample_permission ''iam'' True False]\<rparr>]"

theorem excessive_agency_exact_witness:
  "\<exists>a \<in> set (excessive_agency 0 sample_delegation). a_identity a = ''a''"
proof -
  let ?a = "snd (sample_agent ''a'' [''b''] [''s3''])"
  have chain: "walk_delegation_chain (index_of_ids sample_delegation) ''a'' = [''a'', ''b'']"
    by (simp add: sample_delegation_def index_of_ids_def walk_delegation_chain_def sample_agent_def new_identity_def walk.simps)
  have facts: "distinct (map i_id sample_delegation)" "?a \<in> set sample_delegation" "i_id ?a = ''a''"
    "is_agent ?a" "\<not> has_admin ?a"
    "\<exists>node \<in> set sample_delegation. has_admin node \<and> i_id node \<in> set [''a'', ''b'']"
    by (simp_all add: sample_delegation_def sample_agent_def sample_permission_def new_identity_def is_agent_def
        has_admin_def identity_types)
  show ?thesis
    using excessive_agency_exact [OF facts(1,2), of 0, THEN conjunct1] facts(3-6) by (simp only: chain facts)
qed

end
