(* ===== verification/Detect_Run.thy ===== *)
theory Detect_Run
  imports Detect_Travel Detect_Humans Detect_NHI Agents_Facts Egress_Facts
begin

text \<open>
  \<^verbatim>\<open>runDetectors\<close> of \<^verbatim>\<open>cmd/idryx/main.go\<close>: the detectors in the order the command builds them, each with
  its \<^verbatim>\<open>Name()\<close>, and their alerts one after the other.
\<close>

definition all_detectors :: "(string \<times> detect_fun) list" where
  "all_detectors =
     [(''impossible_travel'', impossible_travel),
      (''mfa_fatigue'', mfa_fatigue),
      (''new_device'', new_device),
      (''behavior_anomaly'', behavior_anomaly),
      (''stale_nhi'', stale_nhi),
      (''over_privileged_nhi'', over_privileged_nhi),
      (''orphaned_nhi'', orphaned_nhi),
      (''excessive_agency'', excessive_agency),
      (''shadow_ai'', shadow_ai),
      (''least_privilege'', least_privilege),
      (''privilege_escalation'', privilege_escalation),
      (''shared_credential'', shared_credential),
      (''shadow_mcp'', shadow_mcp),
      (''agent_shadow_tool'', agent_shadow_tool),
      (''runaway_agent'', runaway_agent),
      (''attestation_missing'', attestation_missing),
      (''bom_incomplete'', bom_incomplete),
      (''data_exfiltration'', data_exfiltration),
      (''tainted_agent'', tainted_agent),
      (''mcp_drift'', mcp_drift),
      (''unmanaged_egress'', unmanaged_egress),
      (''beaconing'', beaconing),
      (''claimed_agent_unknown'', claimed_agent_unknown),
      (''claimed_agent_drift'', claimed_agent_drift),
      (''undeclared_llm'', undeclared_llm),
      (''unrouted_egress'', unrouted_egress),
      (''claimed_agent_unattested'', claimed_agent_unattested)]"

definition run_detectors :: detect_fun where
  "run_detectors t ids = concat (map (\<lambda>(_, detect). detect t ids) all_detectors)"

lemmas detectors_registered =
  travel.detector_axioms mfa.detector_axioms devices.detector_axioms anomaly.detector_axioms
  stale.detector_axioms over_privileged.detector_axioms orphaned.detector_axioms agency.detector_axioms
  shadow_ai.detector_axioms least.detector_axioms escalation.detector_axioms shared_cred.detector_axioms
  shadow_server.detector_axioms shadow_tool.detector_axioms runaway.detector_axioms
  unattested_agents.detector_axioms bom.detector_axioms exfiltration.detector_axioms tainted.detector_axioms
  drift.detector_axioms unmanaged.detector_axioms beacon.detector_axioms claimed_unknown.detector_axioms
  claimed_drift.detector_axioms undeclared.detector_axioms unrouted.detector_axioms
  claimed_unattested.detector_axioms

lemma registered: "(n, d) \<in> set all_detectors \<Longrightarrow> detector n d"
  by (simp only: all_detectors_def list.set insert_iff empty_iff prod.inject simp_thms)
     (elim disjE conjE; hypsubst; rule detectors_registered)

lemma names_distinct: "distinct (map fst all_detectors)"
  by (simp add: all_detectors_def)

text \<open>
  C36: Every alert of a run is well formed: it names one of the 27 registered detectors, it was raised by
  that detector and by no other, it is about an identity of the graph, and its severity is a level of the
  scale; and a graph without identities raises none.
\<close>

theorem alerts_well_formed:
  "(\<forall>a \<in> set (run_detectors t ids).
      a_detector a \<in> fst ` set all_detectors
      \<and> (\<forall>(n, d) \<in> set all_detectors. a \<in> set (d t ids) \<longleftrightarrow> n = a_detector a)
      \<and> a_identity a \<in> i_id ` set ids
      \<and> SeverityInfo \<le> a_severity a)
   \<and> run_detectors t [] = []"
proof (intro conjI ballI)
  show "run_detectors t [] = []"
    using detector.nothing_on_empty [OF registered] by (auto simp: run_detectors_def)
next
  fix a assume "a \<in> set (run_detectors t ids)"
  then obtain n d where nd: "(n, d) \<in> set all_detectors" "a \<in> set (d t ids)" by (auto simp: run_detectors_def)
  note det = registered [OF nd(1)]
  have name: "a_detector a = n" by (rule detector.named [OF det nd(2)])
  with nd show "a_detector a \<in> fst ` set all_detectors" by force
  show "a_identity a \<in> i_id ` set ids" by (rule detector.attributed [OF det nd(2)])
  show "SeverityInfo \<le> a_severity a" by (rule detector.graded [OF det nd(2)])
  fix nd' assume nd': "nd' \<in> set all_detectors"
  obtain n' d' where e: "nd' = (n', d')" by fastforce
  have "a \<in> set (d' t ids) \<longleftrightarrow> n' = a_detector a"
    using detector.named [OF registered [OF nd' [unfolded e]]] name nd nd' e
      eq_key_imp_eq_value [OF names_distinct] by metis
  then show "case nd' of (n, d) \<Rightarrow> (a \<in> set (d t ids)) = (n = a_detector a)" by (simp add: e)
qed

text \<open>An agent without owner, runtime and attestation.\<close>

theorem alerts_well_formed_witness:
  "\<exists>a \<in> set (run_detectors 0 [sample_bot]). a_detector a = ''bom_incomplete'' \<and> a_identity a = ''bot''
     \<and> a \<notin> set (mcp_drift 0 [sample_bot])"
proof -
  have "bom_incomplete 0 [sample_bot] \<noteq> []"
    by (simp add: bom_incomplete_def bom_incomplete_judge_def bom_missing_def is_agent_def sample_bot_def new_identity_def)
  then obtain a where a: "a \<in> set (bom_incomplete 0 [sample_bot])" by (cases "bom_incomplete 0 [sample_bot]") auto
  then have run: "a \<in> set (run_detectors 0 [sample_bot])" by (simp add: run_detectors_def all_detectors_def)
  have bot: "i_id sample_bot = ''bot''" by (simp add: sample_bot_def new_identity_def)
  have regs: "(''bom_incomplete'', bom_incomplete) \<in> set all_detectors" "(''mcp_drift'', mcp_drift) \<in> set all_detectors"
    by (simp_all add: all_detectors_def)
  from alerts_well_formed [of 0 "[sample_bot]", THEN conjunct1] run
  have all: "\<forall>(n, d) \<in> set all_detectors. a \<in> set (d 0 [sample_bot]) \<longleftrightarrow> n = a_detector a"
    and who: "a_identity a \<in> i_id ` set [sample_bot]" by blast+
  have "a_detector a = ''bom_incomplete''" using bspec [OF all regs(1)] a by simp
  moreover from this have "a \<notin> set (mcp_drift 0 [sample_bot])" using bspec [OF all regs(2)] by simp
  moreover have "a_identity a = ''bot''" using who bot by simp
  ultimately show ?thesis using run by blast
qed

end
