(* ===== verification/Stream_Policy.thy ===== *)
theory Stream_Policy
  imports Go_Strings "HOL-Library.AList"
begin

text \<open>
  \<^verbatim>\<open>internal/ingest/stream\<close>: which sources a file of the shared event bus may carry. A policy is a
  table from stems to sources; the operator's declaration is parsed, and only ever adds to it.
\<close>

section \<open>The policy\<close>

datatype stream_verdict = Allowed | AllowedUnknownStem | Foreign

definition known_sources :: "string list" where
  "known_sources =
     [''agent-conform'', ''console'', ''costcrew'', ''engram'', ''heraldyx'', ''idryx'',
      ''mockryx'', ''qryx'', ''scopyx'', ''tokenfuse'', ''typryx'', ''vouchryx'', ''verdryx'',
      ''wardryx'']"

type_synonym policy = "(string \<times> string list) list"

definition exceptions :: policy where
  "exceptions =
     [(''tokenfuse-cloud'', [''tokenfuse'']), (''tokenfuse-mcp'', [''tokenfuse'']),
      (''tokenfuse-openai'', [''tokenfuse''])]"

definition add_source :: "string \<Rightarrow> policy \<Rightarrow> string \<Rightarrow> policy" where
  "add_source stem p source =
     (let set_of = (case map_of p stem of None \<Rightarrow> [] | Some ss \<Rightarrow> ss) in
      AList.update stem (if source \<in> set set_of then set_of else set_of @ [source]) p)"

text \<open>The two nested loops that go over a table.\<close>

definition add_table :: "policy \<Rightarrow> (string \<times> string list) list \<Rightarrow> policy" where
  "add_table p table = foldl (\<lambda>p (stem, sources). foldl (add_source stem) p sources) p table"

definition default_policy :: policy where
  "default_policy = add_table (foldl (\<lambda>p s. add_source s p s) [] known_sources) exceptions"

definition extend :: "policy \<Rightarrow> (string \<times> string list) list \<Rightarrow> policy" where
  "extend p extra = add_table (add_table [] p) extra"

definition check :: "policy \<Rightarrow> string \<Rightarrow> string \<Rightarrow> stream_verdict" where
  "check p stem source =
     (case map_of p stem of
        Some ss \<Rightarrow> if source \<in> set ss then Allowed else Foreign
      | None \<Rightarrow> if source = stem then AllowedUnknownStem else Foreign)"

definition allowed_for :: "policy \<Rightarrow> string \<Rightarrow> string list" where
  "allowed_for p stem = (case map_of p stem of None \<Rightarrow> [stem] | Some ss \<Rightarrow> sorted_keys ss)"

section \<open>File names\<close>

text \<open>\<^verbatim>\<open>filepath.Base\<close> and \<^verbatim>\<open>filepath.Ext\<close> on a Unix path.\<close>

definition file_base :: "string \<Rightarrow> string" where
  "file_base path =
     (if path = [] then ''.''
      else let p = trim_right path ''/'';
               b = (case last_index_byte p (CHR ''/'') of Some i \<Rightarrow> drop (Suc i) p | None \<Rightarrow> p)
           in if b = [] then ''/'' else b)"

definition file_ext :: "string \<Rightarrow> string" where
  "file_ext path =
     (case last_index_byte path (CHR ''.'') of
        None \<Rightarrow> []
      | Some i \<Rightarrow> if CHR ''/'' \<in> set (drop i path) then [] else drop i path)"

definition trim_suffix :: "string \<Rightarrow> string \<Rightarrow> string" where
  "trim_suffix s x = (if has_suffix s x then take (length s - length x) s else s)"

definition stem_of :: "string \<Rightarrow> string" where
  "stem_of path =
     (let base = file_base path; t = trim_suffix base ''.ndjson''
      in if t \<noteq> base then t else trim_suffix base (file_ext base))"

section \<open>The operator's declaration\<close>

definition is_alnum :: "char \<Rightarrow> bool" where
  "is_alnum c \<longleftrightarrow> (let n = of_char c :: nat in
     48 \<le> n \<and> n \<le> 57 \<or> 65 \<le> n \<and> n \<le> 90 \<or> 97 \<le> n \<and> n \<le> 122)"

text \<open>\<^verbatim>\<open>^[A-Za-z0-9][A-Za-z0-9._-]{0,63}$\<close>.\<close>

fun valid_name :: "string \<Rightarrow> bool" where
  "valid_name [] = False"
| "valid_name (c # cs) = (is_alnum c \<and> length cs \<le> 63 \<and> list_all (\<lambda>d. is_alnum d \<or> d \<in> set ''._-'') cs)"

datatype stream_error = WantStemSource string | NotASourceName string string

fun parse_sources :: "string \<Rightarrow> string list \<Rightarrow> stream_error + string list" where
  "parse_sources entry [] = Inr []"
| "parse_sources entry (s # ss) =
     (let s = trim_space s in
      if \<not> valid_name s then Inl (NotASourceName entry s)
      else case parse_sources entry ss of Inl e \<Rightarrow> Inl e | Inr out \<Rightarrow> Inr (s # out))"

definition parse_entry :: "string \<Rightarrow> stream_error + (string \<times> string list)" where
  "parse_entry entry =
     (case index_byte entry (CHR ''='') of
        None \<Rightarrow> Inl (WantStemSource entry)
      | Some i \<Rightarrow>
          let stem = trim_space (take i entry) in
          if \<not> valid_name stem then Inl (WantStemSource entry)
          else case parse_sources entry (split_on (CHR ''|'') (drop (Suc i) entry)) of
              Inl e \<Rightarrow> Inl e
            | Inr sources \<Rightarrow> Inr (stem, sources))"

fun parse_entries :: "policy \<Rightarrow> string list \<Rightarrow> stream_error + policy" where
  "parse_entries out [] = Inr out"
| "parse_entries out (entry # es) =
     (let entry = trim_space entry in
      if entry = [] then parse_entries out es
      else case parse_entry entry of
          Inl e \<Rightarrow> Inl e
        | Inr (stem, sources) \<Rightarrow>
            parse_entries (AList.update stem ((case map_of out stem of None \<Rightarrow> [] | Some ss \<Rightarrow> ss) @ sources) out) es)"

definition parse_extra :: "string \<Rightarrow> stream_error + policy" where
  "parse_extra spec =
     (let spec = trim_space spec in
      if spec = [] then Inr [] else parse_entries [] (split_on (CHR '','') spec))"

section \<open>What a table allows\<close>

definition sources :: "policy \<Rightarrow> string \<Rightarrow> string set" where
  "sources p stem = (case map_of p stem of None \<Rightarrow> {} | Some ss \<Rightarrow> set ss)"

lemma sources_update: "sources (AList.update a ss p) stem = (if stem = a then set ss else sources p stem)"
  by (simp add: sources_def update_conv')

lemma sources_add [simp]: "sources (add_source a p b) stem = sources p stem \<union> {s. stem = a \<and> s = b}"
  by (auto simp: add_source_def Let_def sources_update) (auto simp: sources_def split: option.splits if_splits)

lemma sources_adds: "sources (foldl (add_source a) p bs) stem = sources p stem \<union> {s. stem = a \<and> s \<in> set bs}"
  by (induction bs arbitrary: p) auto

lemma sources_add_table:
  "sources (add_table p table) stem = sources p stem \<union> {s. \<exists>ss. (stem, ss) \<in> set table \<and> s \<in> set ss}"
  unfolding add_table_def by (induction table arbitrary: p) (auto simp: sources_adds)

text \<open>A policy as the package builds it: one row per stem, none of them empty.\<close>

definition wf_policy :: "policy \<Rightarrow> bool" where
  "wf_policy p \<longleftrightarrow> distinct (map fst p) \<and> (\<forall>stem. map_of p stem \<noteq> Some [])"

lemma wf_update: "wf_policy p \<Longrightarrow> ss \<noteq> [] \<Longrightarrow> wf_policy (AList.update a ss p)"
  by (simp add: wf_policy_def distinct_update update_conv')

lemma wf_add: "wf_policy p \<Longrightarrow> wf_policy (add_source a p b)"
  unfolding add_source_def Let_def by (rule wf_update) (auto simp: wf_policy_def split: option.splits)

lemma wf_adds: "wf_policy p \<Longrightarrow> wf_policy (foldl (add_source a) p bs)"
  by (induction bs arbitrary: p) (simp_all add: wf_add)

lemma wf_add_table: "wf_policy p \<Longrightarrow> wf_policy (add_table p table)"
  unfolding add_table_def by (induction table arbitrary: p) (auto simp: wf_adds)

lemma wf_empty [simp]: "wf_policy []"
  by (simp add: wf_policy_def)

lemma wf_default: "wf_policy default_policy"
proof -
  have "wf_policy (foldl (\<lambda>p s. add_source s p s) p ss)" if "wf_policy p" for p ss
    using that by (induction ss arbitrary: p) (simp_all add: wf_add)
  then show ?thesis by (simp add: default_policy_def wf_add_table)
qed

lemma wf_extend: "wf_policy (extend p extra)"
  by (simp add: extend_def wf_add_table)

lemma sources_rows:
  assumes "wf_policy p"
  shows "{s. \<exists>ss. (stem, ss) \<in> set p \<and> s \<in> set ss} = sources p stem"
proof -
  have "(stem, ss) \<in> set p \<longleftrightarrow> map_of p stem = Some ss" for ss
    using assms by (simp add: wf_policy_def)
  then show ?thesis by (auto simp: sources_def split: option.splits)
qed

lemma sources_extend: "wf_policy p \<Longrightarrow> wf_policy extra \<Longrightarrow> sources (extend p extra) stem = sources p stem \<union> sources extra stem"
  by (simp add: extend_def sources_add_table sources_rows) (simp add: sources_def)

lemma check_iff:
  assumes "wf_policy p"
  shows "check p stem source =
    (if sources p stem = {} then (if source = stem then AllowedUnknownStem else Foreign)
     else if source \<in> sources p stem then Allowed else Foreign)"
  using assms by (auto simp: check_def sources_def wf_policy_def split: option.splits)

lemma sources_known: "sources (foldl (\<lambda>p s. add_source s p s) p ss) stem = sources p stem \<union> {s. stem \<in> set ss \<and> s = stem}"
  by (induction ss arbitrary: p) auto

lemma default_sources:
  "sources default_policy stem =
     (if stem \<in> set known_sources then {stem} else {s. \<exists>ss. (stem, ss) \<in> set exceptions \<and> s \<in> set ss})"
  unfolding default_policy_def sources_add_table sources_known
  by (auto simp: sources_def exceptions_def known_sources_def)

section \<open>What a declaration says\<close>

text \<open>An entry is well formed, and declares a source for a stem.\<close>

definition entry_parts :: "string \<Rightarrow> string \<Rightarrow> string list \<Rightarrow> bool" where
  "entry_parts entry stem names \<longleftrightarrow>
     (\<exists>l r. entry = l @ CHR ''='' # r \<and> CHR ''='' \<notin> set l \<and> stem = trim_space l
        \<and> names = map trim_space (split_on (CHR ''|'') r))"

lemma parse_sources_Inr: "parse_sources entry ss = Inr out \<longleftrightarrow> out = map trim_space ss \<and> (\<forall>s \<in> set ss. valid_name (trim_space s))"
  by (induction ss arbitrary: out) (auto simp: Let_def split: sum.splits)

lemma index_byte_SomeD:
  "index_byte s c = Some i \<Longrightarrow> \<exists>l r. s = l @ c # r \<and> c \<notin> set l \<and> i = length l"
proof (induction s arbitrary: i)
  case (Cons x xs)
  show ?case
  proof (cases "x = c")
    case False
    with Cons obtain l r where "xs = l @ c # r" "c \<notin> set l" "i = Suc (length l)" by auto
    with False show ?thesis by (intro exI [of _ "x # l"] exI [of _ r]) simp
  qed (use Cons.prems in auto)
qed simp

lemma append_at_first: "c \<notin> set l \<Longrightarrow> c \<notin> set l' \<Longrightarrow> l @ (c :: char) # r = l' @ c # r' \<longleftrightarrow> l = l' \<and> r = r'"
  using index_byte_append [of c l r] index_byte_append [of c l' r'] append_eq_append_conv [of l l' "c # r" "c # r'"] by auto

lemma parse_entry_Inr:
  "parse_entry entry = Inr (stem, names) \<longleftrightarrow> entry_parts entry stem names \<and> valid_name stem \<and> list_all valid_name names"
proof (cases "index_byte entry (CHR ''='')")
  case None
  then have "CHR ''='' \<notin> set entry" by (simp add: index_byte_None)
  moreover have "parse_entry entry \<noteq> Inr (stem, names)" using None by (simp add: parse_entry_def)
  ultimately show ?thesis by (auto simp: entry_parts_def)
next
  case (Some i)
  then obtain l r where lr: "entry = l @ CHR ''='' # r" "CHR ''='' \<notin> set l" "i = length l"
    using index_byte_SomeD by blast
  then have "entry_parts entry stem names \<longleftrightarrow> stem = trim_space l \<and> names = map trim_space (split_on (CHR ''|'') r)"
    by (auto simp: entry_parts_def append_at_first)
  moreover have "parse_entry entry = Inr (stem, names) \<longleftrightarrow> valid_name (trim_space l) \<and> stem = trim_space l
      \<and> parse_sources entry (split_on (CHR ''|'') r) = Inr names"
    using lr index_byte_append [OF lr(2), of r] by (auto simp: parse_entry_def Let_def split: sum.splits)
  ultimately show ?thesis by (auto simp: parse_sources_Inr list_all_iff)
qed

text \<open>The entries of a declaration that are not blank, and what they say together.\<close>

definition entries :: "string list \<Rightarrow> string list" where
  "entries pieces = filter (\<lambda>e. e \<noteq> []) (map trim_space pieces)"

definition declares :: "string list \<Rightarrow> string \<Rightarrow> string set" where
  "declares es stem = {source. \<exists>e \<in> set es. \<exists>names. entry_parts e stem names \<and> source \<in> set names}"

definition well_formed_entry :: "string \<Rightarrow> bool" where
  "well_formed_entry e \<longleftrightarrow> (\<exists>stem names. entry_parts e stem names \<and> valid_name stem \<and> list_all valid_name names)"

lemma well_formed_parse: "well_formed_entry e \<longleftrightarrow> (\<exists>stem names. parse_entry e = Inr (stem, names))"
  by (simp add: well_formed_entry_def parse_entry_Inr)

lemma entry_parts_unique: "entry_parts e stem names \<Longrightarrow> entry_parts e stem' names' \<Longrightarrow> stem' = stem \<and> names' = names"
  by (auto simp: entry_parts_def append_at_first)

lemma entry_parts_nonempty: "entry_parts e stem names \<Longrightarrow> names \<noteq> []"
  by (auto simp: entry_parts_def)

lemma declares_Cons: "declares (e # es) stem = declares [e] stem \<union> declares es stem"
  by (auto simp: declares_def)

lemma declares_one: "entry_parts e a names \<Longrightarrow> declares [e] stem = {s. stem = a \<and> s \<in> set names}"
  by (auto simp: declares_def dest: entry_parts_unique)

lemma entries_Cons:
  "entries (e # es) = (if trim_space e = [] then entries es else trim_space e # entries es)"
  by (simp add: entries_def)

lemma parse_entries_step:
  "parse_entries out (e # es) =
     (if trim_space e = [] then parse_entries out es
      else case parse_entry (trim_space e) of
          Inl err \<Rightarrow> Inl err
        | Inr (stem, names) \<Rightarrow>
            parse_entries (AList.update stem ((case map_of out stem of None \<Rightarrow> [] | Some ss \<Rightarrow> ss) @ names) out) es)"
  by (simp add: Let_def)

lemma parse_entries_fails: "(\<exists>err. parse_entries out pieces = Inl err) \<longleftrightarrow> (\<exists>e \<in> set (entries pieces). \<not> well_formed_entry e)"
proof (induction pieces arbitrary: out)
  case (Cons e es)
  then show ?case
    by (auto simp: parse_entries_step entries_Cons well_formed_parse simp del: parse_entries.simps split: sum.splits)
qed (simp add: entries_def)

lemma parse_entries_sources:
  "parse_entries out pieces = Inr extra \<Longrightarrow> wf_policy out \<Longrightarrow>
     wf_policy extra \<and> sources extra stem = sources out stem \<union> declares (entries pieces) stem"
proof (induction pieces arbitrary: out)
  case (Cons e es)
  show ?case
  proof (cases "trim_space e = []")
    case True
    with Cons show ?thesis by (simp add: parse_entries_step entries_Cons del: parse_entries.simps)
  next
    case False
    with Cons.prems(1) obtain a names where p: "parse_entry (trim_space e) = Inr (a, names)"
      by (auto simp: parse_entries_step simp del: parse_entries.simps split: sum.splits)
    then have parts: "entry_parts (trim_space e) a names" by (simp add: parse_entry_Inr)
    let ?out = "AList.update a ((case map_of out a of None \<Rightarrow> [] | Some ss \<Rightarrow> ss) @ names) out"
    have "wf_policy ?out" using Cons.prems(2) entry_parts_nonempty [OF parts] by (simp add: wf_update)
    moreover have "parse_entries ?out es = Inr extra"
      using Cons.prems(1) False p by (simp add: parse_entries_step del: parse_entries.simps)
    ultimately have "wf_policy extra \<and> sources extra stem = sources ?out stem \<union> declares (entries es) stem"
      by (rule Cons.IH [rotated])
    moreover have "sources ?out stem = sources out stem \<union> {s. stem = a \<and> s \<in> set names}"
    proof -
      have "set (case map_of out a of None \<Rightarrow> [] | Some ss \<Rightarrow> ss) = sources out a"
        by (simp add: sources_def split: option.split)
      then show ?thesis by (auto simp: sources_update)
    qed
    moreover have "declares (trim_space e # entries es) stem = {s. stem = a \<and> s \<in> set names} \<union> declares (entries es) stem"
      by (subst declares_Cons) (simp only: declares_one [OF parts])
    ultimately show ?thesis using False by (simp add: entries_Cons Un_assoc)
  qed
qed (simp add: entries_def declares_def)


definition sample_declaration :: string where
  "sample_declaration = ''events=tokenfuse|wardryx, mix=a''"


end
