(* ===== verification/Event_Bus.thy ===== *)
theory Event_Bus
  imports Sensor_Decode Go_Time
begin

text \<open>
  \<^verbatim>\<open>internal/events\<close>: findings as events on the shared bus. The grammar of subjects
  (\<^verbatim>\<open>passport.ValidateAgentURI\<close>, \<^verbatim>\<open>passport.ValidateSubject\<close>) and the journal (\<^verbatim>\<open>event.Writer\<close>) belong to
  the module \<^verbatim>\<open>agent-stack-go\<close> and are parameters: two predicates, and a function from an event and
  the journal's state to whether the write went through and the state after it.
\<close>

section \<open>Envelopes\<close>

definition schema_established :: string where "schema_established = ''taipanbox.dev/agent-event/v0.2''"
definition schema_claimed :: string where "schema_claimed = ''taipanbox.dev/agent-event/v0.3''"
definition bus_source :: string where "bus_source = ''idryx''"
definition TypeIdentityFinding :: string where "TypeIdentityFinding = ''identity_finding''"

datatype bus_outcome = Written | WrittenClaimed | SkippedNoAgentSubject | WriteFailed

record finding =
  fe_schema :: string
  fe_ts :: string
  fe_source :: string
  fe_type :: string
  fe_agent :: string
  fe_severity :: string
  fe_run :: string
  fe_detector :: string

record grammar =
  valid_agent_uri :: "string \<Rightarrow> bool"
  valid_subject :: "string \<Rightarrow> bool"

record 'w bus_sink =
  bs_writer :: 'w
  bs_run :: string
  bs_domain :: string
  bs_skipped :: nat
  bs_claimed :: nat
  bs_failed :: nat

fun severity_wire :: "severity \<Rightarrow> string" where
  "severity_wire SeverityCritical = ''critical''"
| "severity_wire SeverityHigh = ''high''"
| "severity_wire SeverityMedium = ''medium''"
| "severity_wire SeverityLow = ''low''"
| "severity_wire SeverityInfo = ''info''"
| "severity_wire SeverityNone = ''medium''"

text \<open>\<^verbatim>\<open>Format("2006-01-02T15:04:05.000Z")\<close> of a UTC time.\<close>

definition format_millis :: "int \<Rightarrow> string" where
  "format_millis t =
     (let c = civil_of t
      in date_text c @ ''T'' @ clock_text c @ ''.'' @ zero_padded 3 (c_nsec c div 1000000) @ ''Z'')"

section \<open>Opening\<close>

datatype bus_error = BadTrustDomain string | CannotOpen string string

definition new_sink :: "grammar \<Rightarrow> (string \<Rightarrow> string + 'w) \<Rightarrow> string \<Rightarrow> string \<Rightarrow> string \<Rightarrow> bus_error + 'w bus_sink option" where
  "new_sink g new_writer path run_id trust_domain =
     (if trim_space path = [] then Inr None
      else let domain = trim_space trust_domain in
        if domain \<noteq> [] \<and> \<not> valid_agent_uri g (''agent://'' @ domain @ ''/probe'') then Inl (BadTrustDomain trust_domain)
        else case new_writer path of
            Inl err \<Rightarrow> Inl (CannotOpen path err)
          | Inr w \<Rightarrow> Inr (Some \<lparr>bs_writer = w, bs_run = run_id, bs_domain = domain,
                                bs_skipped = 0, bs_claimed = 0, bs_failed = 0\<rparr>))"

section \<open>Subjects\<close>

definition trusted_id :: "grammar \<Rightarrow> string \<Rightarrow> string \<Rightarrow> string option" where
  "trusted_id g domain identity_id =
     (if domain = [] then None
      else if valid_agent_uri g identity_id then Some identity_id
      else case cut_prefix identity_id ''agent:'' of
          None \<Rightarrow> None
        | Some name \<Rightarrow>
            if name = [] then None
            else if has_prefix name ''/'' then None
            else let built = ''agent://'' @ domain @ ''/'' @ name in
              if \<not> valid_agent_uri g built then None else Some built)"

definition claimed_id :: "grammar \<Rightarrow> string \<Rightarrow> string \<Rightarrow> string option" where
  "claimed_id g domain identity_id =
     (if domain = [] then None
      else if \<not> is_claimed identity_id then None
      else if \<not> valid_subject g identity_id then None
      else Some identity_id)"

section \<open>Writing\<close>

definition bus_event :: "string \<Rightarrow> alert \<Rightarrow> string \<Rightarrow> string \<Rightarrow> finding" where
  "bus_event run a schema agent =
     \<lparr>fe_schema = schema, fe_ts = format_millis (a_time a), fe_source = bus_source, fe_type = TypeIdentityFinding,
      fe_agent = agent, fe_severity = severity_wire (a_severity a), fe_run = run, fe_detector = a_detector a\<rparr>"

definition journal :: "(finding \<Rightarrow> 'w \<Rightarrow> bool \<times> 'w) \<Rightarrow> finding \<Rightarrow> bus_outcome \<Rightarrow> 'w bus_sink \<Rightarrow> bus_outcome \<times> 'w bus_sink" where
  "journal wr e outcome s =
     (let (ok, w) = wr e (bs_writer s); s = s\<lparr>bs_writer := w\<rparr>
      in if ok then (outcome, s) else (WriteFailed, s\<lparr>bs_failed := bs_failed s + 1\<rparr>))"

definition bus_write :: "grammar \<Rightarrow> (finding \<Rightarrow> 'w \<Rightarrow> bool \<times> 'w) \<Rightarrow> alert \<Rightarrow> 'w bus_sink \<Rightarrow> bus_outcome \<times> 'w bus_sink" where
  "bus_write g wr a s =
     (case trusted_id g (bs_domain s) (a_identity a) of
        Some agent \<Rightarrow> journal wr (bus_event (bs_run s) a schema_established agent) Written s
      | None \<Rightarrow>
          (case claimed_id g (bs_domain s) (a_identity a) of
             None \<Rightarrow> (SkippedNoAgentSubject, s\<lparr>bs_skipped := bs_skipped s + 1\<rparr>)
           | Some agent \<Rightarrow>
               journal wr (bus_event (bs_run s) a schema_claimed agent) WrittenClaimed (s\<lparr>bs_claimed := bs_claimed s + 1\<rparr>)))"

text \<open>The first error is kept, and it names the detector.\<close>

fun send_loop :: "grammar \<Rightarrow> (finding \<Rightarrow> 'w \<Rightarrow> bool \<times> 'w) \<Rightarrow> alert list \<Rightarrow> string option \<Rightarrow> 'w bus_sink \<Rightarrow> string option \<times> 'w bus_sink" where
  "send_loop g wr [] err s = (err, s)"
| "send_loop g wr (a # as) err s =
     (let (out, s) = bus_write g wr a s
      in send_loop g wr as (if out = WriteFailed \<and> err = None then Some (a_detector a) else err) s)"

definition send :: "grammar \<Rightarrow> (finding \<Rightarrow> 'w \<Rightarrow> bool \<times> 'w) \<Rightarrow> alert list \<Rightarrow> 'w bus_sink option \<Rightarrow> string option \<times> 'w bus_sink option" where
  "send g wr alerts sink =
     (case sink of
        None \<Rightarrow> (None, None)
      | Some s \<Rightarrow> if alerts = [] then (None, Some s)
                 else let (err, s) = send_loop g wr alerts None s in (err, Some s))"

definition counts :: "'w bus_sink option \<Rightarrow> nat \<times> nat \<times> nat" where
  "counts sink = (case sink of None \<Rightarrow> (0, 0, 0) | Some s \<Rightarrow> (bs_skipped s, bs_claimed s, bs_failed s))"

section \<open>What reaches the journal\<close>

text \<open>The event an alert becomes, when it has a subject.\<close>

definition finding_of :: "grammar \<Rightarrow> string \<Rightarrow> string \<Rightarrow> alert \<Rightarrow> finding option" where
  "finding_of g domain run a =
     (case trusted_id g domain (a_identity a) of
        Some agent \<Rightarrow> Some (bus_event run a schema_established agent)
      | None \<Rightarrow> map_option (bus_event run a schema_claimed) (claimed_id g domain (a_identity a)))"

fun journal_all :: "(finding \<Rightarrow> 'w \<Rightarrow> bool \<times> 'w) \<Rightarrow> finding list \<Rightarrow> 'w \<Rightarrow> nat \<times> 'w" where
  "journal_all wr [] w = (0, w)"
| "journal_all wr (e # es) w =
     (let (ok, w) = wr e w; (n, w) = journal_all wr es w in (if ok then n else Suc n, w))"

lemma schemas_differ [simp]: "schema_established \<noteq> schema_claimed"
  by (simp add: schema_established_def schema_claimed_def)

lemma bus_event_fields [simp]:
  "fe_schema (bus_event run a sc k) = sc" "fe_agent (bus_event run a sc k) = k"
  "fe_detector (bus_event run a sc k) = a_detector a"
  by (simp_all add: bus_event_def)

text \<open>One alert: a skip, or one event handed to the journal.\<close>

lemma bus_write_cases:
  "bus_write g wr a s =
     (case finding_of g (bs_domain s) (bs_run s) a of
        None \<Rightarrow> (SkippedNoAgentSubject, s\<lparr>bs_skipped := bs_skipped s + 1\<rparr>)
      | Some e \<Rightarrow>
          let (ok, w) = wr e (bs_writer s); c = (if fe_schema e = schema_claimed then 1 else 0);
              out = (if fe_schema e = schema_claimed then WrittenClaimed else Written)
          in (if ok then out else WriteFailed,
              s\<lparr>bs_writer := w, bs_claimed := bs_claimed s + c, bs_failed := bs_failed s + (if ok then 0 else 1)\<rparr>))"
  by (auto simp: bus_write_def finding_of_def journal_def Let_def split: option.splits prod.splits)

lemma send_loop_spec:
  "journal_all wr (List.map_filter (finding_of g (bs_domain s) (bs_run s)) alerts) (bs_writer s) = (n, w) \<Longrightarrow>
   \<exists>err'. send_loop g wr alerts err s = (err',
      s\<lparr>bs_writer := w,
        bs_skipped := bs_skipped s + length (filter (\<lambda>a. finding_of g (bs_domain s) (bs_run s) a = None) alerts),
        bs_claimed := bs_claimed s + length (filter (\<lambda>e. fe_schema e = schema_claimed)
          (List.map_filter (finding_of g (bs_domain s) (bs_run s)) alerts)),
        bs_failed := bs_failed s + n\<rparr>)
    \<and> (err' = None \<longleftrightarrow> err = None \<and> n = 0)"
proof (induction alerts arbitrary: err s n)
  case (Cons a as)
  let ?f = "finding_of g (bs_domain s) (bs_run s)"
  show ?case
  proof (cases "?f a")
    case None
    let ?s = "s\<lparr>bs_skipped := bs_skipped s + 1\<rparr>"
    have "journal_all wr (List.map_filter (finding_of g (bs_domain ?s) (bs_run ?s)) as) (bs_writer ?s) = (n, w)"
      using Cons.prems None by simp
    from Cons.IH [OF this, of err] None show ?thesis by (auto simp: bus_write_cases)
  next
    case (Some e)
    obtain ok w1 where wr: "wr e (bs_writer s) = (ok, w1)" by fastforce
    let ?out = "if ok then if fe_schema e = schema_claimed then WrittenClaimed else Written else WriteFailed"
    let ?s = "s\<lparr>bs_writer := w1, bs_claimed := bs_claimed s + (if fe_schema e = schema_claimed then 1 else 0),
      bs_failed := bs_failed s + (if ok then 0 else 1)\<rparr>"
    obtain m where m: "journal_all wr (List.map_filter ?f as) w1 = (m, w)" "n = (if ok then m else Suc m)"
      using Cons.prems Some wr by (auto split: prod.splits)
    have step: "bus_write g wr a s = (?out, ?s)" by (simp add: bus_write_cases Some wr Let_def)
    have "journal_all wr (List.map_filter (finding_of g (bs_domain ?s) (bs_run ?s)) as) (bs_writer ?s) = (m, w)"
      using m(1) by simp
    from Cons.IH [OF this, of "if ?out = WriteFailed \<and> err = None then Some (a_detector a) else err"] m(2) Some
    show ?thesis by (auto simp: step)
  qed
qed simp

lemma trusted_id_Some:
  "trusted_id g domain k = Some agent \<Longrightarrow>
     domain \<noteq> [] \<and> valid_agent_uri g agent
     \<and> (agent = k \<or> (\<exists>name. k = ''agent:'' @ name \<and> name \<noteq> [] \<and> \<not> has_prefix name ''/''
                        \<and> agent = ''agent://'' @ domain @ ''/'' @ name))"
  by (auto simp: trusted_id_def cut_prefix_def has_prefix_def prefix_def Let_def split: if_splits)

lemma claimed_id_Some:
  "claimed_id g domain k = Some agent \<Longrightarrow> domain \<noteq> [] \<and> agent = k \<and> is_claimed k \<and> valid_subject g k"
  by (auto simp: claimed_id_def split: if_splits)

text \<open>What an event may say about the alert it came from.\<close>

definition established_subject :: "grammar \<Rightarrow> string \<Rightarrow> string \<Rightarrow> finding \<Rightarrow> bool" where
  "established_subject g domain k e \<longleftrightarrow>
     fe_schema e = schema_established \<and> valid_agent_uri g (fe_agent e) \<and> \<not> is_claimed (fe_agent e)
     \<and> (fe_agent e = k \<or> (\<exists>name. k = ''agent:'' @ name \<and> name \<noteq> [] \<and> \<not> has_prefix name ''/''
                             \<and> fe_agent e = ''agent://'' @ domain @ ''/'' @ name))"

definition self_declared :: "grammar \<Rightarrow> string \<Rightarrow> finding \<Rightarrow> bool" where
  "self_declared g k e \<longleftrightarrow>
     fe_schema e = schema_claimed \<and> fe_agent e = k \<and> is_claimed k \<and> valid_subject g k"

lemma finding_of_truthful:
  assumes "\<And>u. valid_agent_uri g u \<Longrightarrow> has_prefix u ''agent://''" and "finding_of g domain run a = Some e"
  shows "domain \<noteq> [] \<and> fe_detector e = a_detector a
    \<and> (established_subject g domain (a_identity a) e \<or> self_declared g (a_identity a) e)"
proof (cases "trusted_id g domain (a_identity a)")
  case None
  with assms(2) show ?thesis
    by (auto simp: finding_of_def self_declared_def dest!: claimed_id_Some)
next
  case (Some agent)
  have "\<not> is_claimed u" if "valid_agent_uri g u" for u
    using assms(1) [OF that] by (auto simp: is_claimed_def claimed_prefix_def has_prefix_def prefix_def)
  with Some assms(2) trusted_id_Some [OF Some] show ?thesis
    by (auto simp: finding_of_def established_subject_def)
qed


definition sample_grammar :: grammar where
  "sample_grammar = \<lparr>valid_agent_uri = (\<lambda>u. has_prefix u ''agent://''), valid_subject = (\<lambda>u. has_prefix u ''claimed:agent://'')\<rparr>"

definition sample_journal :: "finding \<Rightarrow> finding list \<Rightarrow> bool \<times> finding list" where
  "sample_journal e w = (True, w @ [e])"

definition sample_bus :: "finding list bus_sink" where
  "sample_bus = \<lparr>bs_writer = [], bs_run = ''r1'', bs_domain = ''acme'', bs_skipped = 0, bs_claimed = 0, bs_failed = 0\<rparr>"

definition sample_alert :: "string \<Rightarrow> alert" where
  "sample_alert k = \<lparr>a_detector = ''beaconing'', a_identity = k, a_severity = SeverityHigh, a_time = 0, a_summary = []\<rparr>"


text \<open>The claimed counter is raised before the write, so a claim the journal refused counts twice.\<close>

lemma refused_claim_counts_twice:
  assumes "trusted_id g (bs_domain s) (a_identity a) = None" and "claimed_id g (bs_domain s) (a_identity a) = Some k"
    and "fst (wr (bus_event (bs_run s) a schema_claimed k) (bs_writer s)) = False"
  shows "\<exists>s'. bus_write g wr a s = (WriteFailed, s') \<and> bs_claimed s' = bs_claimed s + 1 \<and> bs_failed s' = bs_failed s + 1"
  using assms by (auto simp: bus_write_def journal_def Let_def split: prod.splits)

text \<open>
  Why a canonical identity is tried first: cutting \<^verbatim>\<open>agent:\<close> off a subject of another domain would
  build a second scheme onto it.
\<close>

lemma canonical_travels_unchanged:
  "domain \<noteq> [] \<Longrightarrow> valid_agent_uri g k \<Longrightarrow> trusted_id g domain k = Some k"
  by (simp add: trusted_id_def)

end
