(* ===== verification/Report_Out.thy ===== *)
theory Report_Out
  imports Go_Time "HOL-Library.Product_Lexorder"
begin

text \<open>
  What leaves a run: the prioritised order of \<^verbatim>\<open>internal/report\<close>, the JSON rows, and the threshold and
  payloads of the sinks of \<^verbatim>\<open>internal/sink\<close> (Slack and the webhook). The JSON encoder and the HTTP
  client are the standard library's: a payload is the value that is encoded, and the client a parameter
  from a payload to a status or an error.
\<close>

section \<open>The order\<close>

definition alert_less :: "alert \<Rightarrow> alert \<Rightarrow> bool" where
  "alert_less a b =
     (if a_severity a \<noteq> a_severity b then a_severity a > a_severity b
      else if a_time a \<noteq> a_time b then a_time a < a_time b
      else a_detector a < a_detector b)"

text \<open>\<^verbatim>\<open>sort.SliceStable\<close>: an element goes before the first one it is not greater than.\<close>

fun insert_stable :: "('a \<Rightarrow> 'a \<Rightarrow> bool) \<Rightarrow> 'a \<Rightarrow> 'a list \<Rightarrow> 'a list" where
  "insert_stable lt x [] = [x]"
| "insert_stable lt x (y # ys) = (if lt y x then y # insert_stable lt x ys else x # y # ys)"

definition slice_stable :: "('a \<Rightarrow> 'a \<Rightarrow> bool) \<Rightarrow> 'a list \<Rightarrow> 'a list" where
  "slice_stable lt xs = foldr (insert_stable lt) xs []"

definition sort_alerts :: "alert list \<Rightarrow> alert list" where
  "sort_alerts alerts = slice_stable alert_less alerts"

record json_alert =
  ja_detector :: string
  ja_identity :: string
  ja_severity :: string
  ja_time :: string
  ja_summary :: string

text \<open>\<^verbatim>\<open>Format("2006-01-02T15:04:05Z")\<close> of a UTC time.\<close>

definition format_seconds :: "int \<Rightarrow> string" where
  "format_seconds t = (let c = civil_of t in date_text c @ ''T'' @ clock_text c @ ''Z'')"

definition json_alerts :: "alert list \<Rightarrow> json_alert list" where
  "json_alerts alerts =
     map (\<lambda>a. \<lparr>ja_detector = a_detector a, ja_identity = a_identity a, ja_severity = severity_string (a_severity a),
                ja_time = format_seconds (a_time a), ja_summary = a_summary a\<rparr>) (sort_alerts alerts)"

section \<open>Sinks\<close>

definition at_least :: "alert list \<Rightarrow> severity \<Rightarrow> alert list" where
  "at_least alerts least = filter (\<lambda>a. a_severity a \<ge> least) alerts"

definition parse_severity :: "string \<Rightarrow> severity option" where
  "parse_severity s =
     (if s = ''low'' then Some SeverityLow
      else if s = ''medium'' then Some SeverityMedium
      else if s = ''high'' then Some SeverityHigh
      else if s = ''critical'' then Some SeverityCritical
      else None)"

datatype delivery = Delivered | TransportFailed string | Refused nat

text \<open>The bullet and the dash of the message are three bytes each.\<close>

definition slack_line :: "alert \<Rightarrow> string" where
  "slack_line a =
     [CHR 0xE2, CHR 0x80, CHR 0xA2] @ '' ['' @ severity_string (a_severity a) @ ''] `'' @ a_detector a @ ''` '' @
     a_identity a @ '' '' @ [CHR 0xE2, CHR 0x80, CHR 0x94] @ '' '' @ a_summary a @ [CHR 10]"

definition slack_text :: "alert list \<Rightarrow> string" where
  "slack_text alerts = ''*idryx: '' @ utoa (length alerts) @ '' alert(s)*'' @ [CHR 10] @ concat (map slack_line alerts)"

definition respond :: "string + nat \<Rightarrow> delivery" where
  "respond answer =
     (case answer of Inl err \<Rightarrow> TransportFailed err | Inr status \<Rightarrow> if status \<ge> 300 then Refused status else Delivered)"

definition slack_send :: "(string \<Rightarrow> string + nat) \<Rightarrow> severity \<Rightarrow> alert list \<Rightarrow> delivery" where
  "slack_send post least alerts =
     (let alerts = at_least alerts least in if alerts = [] then Delivered else respond (post (slack_text alerts)))"

definition webhook_payload :: "alert list \<Rightarrow> json_alert list" where
  "webhook_payload alerts =
     map (\<lambda>a. \<lparr>ja_detector = a_detector a, ja_identity = a_identity a, ja_severity = severity_string (a_severity a),
                ja_time = format_seconds (a_time a), ja_summary = a_summary a\<rparr>) alerts"

definition webhook_send :: "(json_alert list \<Rightarrow> string + nat) \<Rightarrow> severity \<Rightarrow> alert list \<Rightarrow> delivery" where
  "webhook_send post least alerts =
     (let alerts = at_least alerts least in if alerts = [] then Delivered else respond (post (webhook_payload alerts)))"

section \<open>The order is one of keys\<close>

definition alert_key :: "alert \<Rightarrow> int \<times> int \<times> string" where
  "alert_key a = (- int (severity_rank (a_severity a)), a_time a, a_detector a)"

lemma rank_inj: "severity_rank s = severity_rank t \<longleftrightarrow> s = t"
  by (cases s; cases t; simp)

lemma alert_less_key: "alert_less a b \<longleftrightarrow> alert_key a < alert_key b"
  using rank_inj [of "a_severity a" "a_severity b"]
  by (auto simp: alert_less_def alert_key_def less_prod_def' less_severity_def)

lemma insert_stable_key: "insert_stable alert_less x ys = insort_key alert_key x ys"
  by (induction ys) (auto simp: alert_less_key not_le)

lemma sort_alerts_key: "sort_alerts as = sort_key alert_key as"
  by (simp add: sort_alerts_def slice_stable_def sort_key_def insert_stable_key cong: foldr_cong)

text \<open>
  The report is the alerts themselves in priority order: a permutation of what the detectors raised,
  in which no alert stands before one that the comparison puts strictly ahead of it, so a more severe alert
  always comes first; alerts the comparison does not separate keep the order they were raised in; and a
  threshold may be applied before or after the sorting. The JSON output has one row for each of them, in
  that order.
\<close>

theorem report_prioritised:
  "mset (sort_alerts as) = mset as
   \<and> sorted_wrt (\<lambda>a b. \<not> alert_less b a \<and> a_severity b \<le> a_severity a) (sort_alerts as)
   \<and> filter (\<lambda>a. \<not> alert_less a x \<and> \<not> alert_less x a) (sort_alerts as) = filter (\<lambda>a. \<not> alert_less a x \<and> \<not> alert_less x a) as
   \<and> sort_alerts (at_least as least) = at_least (sort_alerts as) least
   \<and> map ja_severity (json_alerts as) = map (severity_string \<circ> a_severity) (sort_alerts as)"
proof (intro conjI)
  have sev: "\<not> alert_less b a \<Longrightarrow> a_severity b \<le> a_severity a" for a b
    by (cases "a_severity b = a_severity a") (auto simp: alert_less_def)
  have "sorted_wrt (\<lambda>a b. alert_key a \<le> alert_key b) (sort_alerts as)"
    using sorted_sort_key [of alert_key as] by (simp add: sort_alerts_key sorted_map)
  then show "sorted_wrt (\<lambda>a b. \<not> alert_less b a \<and> a_severity b \<le> a_severity a) (sort_alerts as)"
    by (rule sorted_wrt_mono_rel [rotated]) (use sev in \<open>auto simp: alert_less_key not_less\<close>)
  have "(\<not> alert_less a x \<and> \<not> alert_less x a) \<longleftrightarrow> alert_key a = alert_key x" for a
    by (auto simp: alert_less_key)
  then show "filter (\<lambda>a. \<not> alert_less a x \<and> \<not> alert_less x a) (sort_alerts as) = filter (\<lambda>a. \<not> alert_less a x \<and> \<not> alert_less x a) as"
    by (simp add: sort_alerts_key sort_key_stable)
qed (simp_all add: sort_alerts_key at_least_def filter_sort json_alerts_def)

text \<open>Nothing below the threshold reaches a sink, and an empty batch reaches none.\<close>

lemma sinks_respect_threshold:
  "slack_send post least (at_least as least) = slack_send post least as"
  "webhook_send post' least (at_least as least) = webhook_send post' least as"
  "at_least as least = [] \<Longrightarrow> slack_send post least as = Delivered \<and> webhook_send post' least as = Delivered"
  by (simp_all add: slack_send_def webhook_send_def at_least_def Let_def)

lemma parse_severity_round: "s \<noteq> SeverityNone \<Longrightarrow> s \<noteq> SeverityInfo \<Longrightarrow> parse_severity (severity_string s) = Some s"
  by (cases s) (code_simp | simp)+

end
