(* ===== verification/Remediation.thy ===== *)
theory Remediation
  imports Detect_Base Go_Float
begin

text \<open>
  \<^verbatim>\<open>internal/remediation\<close>: the right-sizing and rotation recommendations of an identity, with the text
  each provider gets, and the writer of the artifact files. The file system is a map from the names in
  the directory to their contents; which writes fail, and what a failed write leaves, is a parameter.
\<close>

section \<open>Recommendations\<close>

record recommendation =
  rc_identity :: string
  rc_kind :: string
  rc_explanation :: string
  rc_code :: string

definition rotation_max_age :: int where "rotation_max_age = 90 * 24 * Hour"

definition line :: "string \<Rightarrow> string" where
  "line s = s @ [CHR 10]"

definition in_quotes :: "string \<Rightarrow> string" where
  "in_quotes s = [CHR 34] @ s @ [CHR 34]"

definition last_segment :: "string \<Rightarrow> string" where
  "last_segment s =
     (case last_index_byte s (CHR ''/'') of
        Some i \<Rightarrow> drop (i + 1) s
      | None \<Rightarrow> (case last_index_byte s (CHR '':'') of Some i \<Rightarrow> drop (i + 1) s | None \<Rightarrow> s))"

definition before_at :: "string \<Rightarrow> string" where
  "before_at s = (case index_byte s (CHR ''@'') of Some i \<Rightarrow> take i s | None \<Rightarrow> s)"

definition gcp_email :: "identity \<Rightarrow> string" where
  "gcp_email i = trim_prefix (i_id i) ''gcp:''"

text \<open>A numbered block for each unused permission.\<close>

definition numbered_blocks :: "(nat \<Rightarrow> permission \<Rightarrow> string) \<Rightarrow> permission list \<Rightarrow> string" where
  "numbered_blocks block ps = concat (map (\<lambda>(n, p). block n p) (zip [0..<length ps] ps))"

definition resource_name :: "nat \<Rightarrow> string" where
  "resource_name n = ''revoke_unused_'' @ utoa n"

definition policy_arn :: "permission \<Rightarrow> string" where
  "policy_arn p =
     (if p_arn p \<noteq> [] then p_arn p
      else if has_prefix (p_name p) ''arn:'' then p_name p else ''arn:aws:iam::aws:policy/'' @ p_name p)"

definition generate_aws :: "identity \<Rightarrow> permission list \<Rightarrow> string" where
  "generate_aws i unused =
     trim_space
       (line ''# AWS IAM Least-Privilege Remediation'' @
        line ''# Revoke unused policy attachments from the IAM role'' @ line [] @
        numbered_blocks (\<lambda>n p.
          line (''- resource '' @ in_quotes ''aws_iam_role_policy_attachment'' @ '' '' @ in_quotes (resource_name n) @ '' {'') @
          line (''-   role       = '' @ in_quotes (last_segment (i_id i))) @
          line (''-   policy_arn = '' @ in_quotes (policy_arn p)) @
          line ''- }'' @ line []) unused)"

definition gcp_role :: "permission \<Rightarrow> string" where
  "gcp_role p = (if has_prefix (p_name p) ''roles/'' then p_name p else ''roles/'' @ to_lower (p_name p))"

definition generate_gcp :: "identity \<Rightarrow> permission list \<Rightarrow> string" where
  "generate_gcp i unused =
     trim_space
       (line ''# GCP IAM Least-Privilege Remediation'' @
        line ''# Remove unused role bindings from the Service Account'' @ line [] @
        numbered_blocks (\<lambda>n p.
          line (''- resource '' @ in_quotes ''google_project_iam_member'' @ '' '' @ in_quotes (resource_name n) @ '' {'') @
          line (''-   project = '' @ in_quotes ''my-gcp-project'') @
          line (''-   role    = '' @ in_quotes (gcp_role p)) @
          line (''-   member  = '' @ in_quotes (''serviceAccount:'' @ gcp_email i)) @
          line ''- }'' @ line []) unused)"

definition generate_azure :: "identity \<Rightarrow> permission list \<Rightarrow> string" where
  "generate_azure i unused =
     trim_space
       (line ''# Azure RBAC Least-Privilege Remediation'' @
        line ''# Revoke unused role assignments from the Service Principal'' @ line [] @
        numbered_blocks (\<lambda>n p.
          line (''- resource '' @ in_quotes ''azurerm_role_assignment'' @ '' '' @ in_quotes (resource_name n) @ '' {'') @
          line (''-   scope                = '' @ in_quotes ''/subscriptions/00000000-0000-0000-0000-000000000000'') @
          line (''-   role_definition_name = '' @ in_quotes (p_name p)) @
          line (''-   principal_id         = '' @ in_quotes (before_at (i_id i) @ ''-object-id'')) @
          line ''- }'' @ line []) unused)"

definition generate_agent :: "identity \<Rightarrow> permission list \<Rightarrow> string" where
  "generate_agent i unused =
     trim_space
       (line ''# AI Agent MCP Configuration Remediation'' @
        line ''# Revoke unused tools from the agent's tool declaration list'' @ line [] @
        line ''  tools:'' @
        concat (map (\<lambda>p. line (''    - '' @ in_quotes (p_name p))) (filter p_used (i_permissions i))) @
        concat (map (\<lambda>p. line (''-   - '' @ in_quotes (p_name p))) unused))"

definition generate_generic :: "identity \<Rightarrow> permission list \<Rightarrow> string" where
  "generate_generic i unused =
     trim_space
       (line (''# Generic Remediation for '' @ i_id i @ '' ('' @ i_source i @ '')'') @
        line ''# Revoke the following unused capabilities:'' @ line [] @
        concat (map (\<lambda>p. line (''- '' @ p_name p)) unused))"

definition right_size_code :: "identity \<Rightarrow> permission list \<Rightarrow> string" where
  "right_size_code i unused =
     (if i_source i = ''aws_iam'' then generate_aws i unused
      else if i_source i = ''gcp_iam'' then generate_gcp i unused
      else if i_source i = ''azure'' then generate_azure i unused
      else if i_source i = ''agents'' then generate_agent i unused
      else generate_generic i unused)"

definition generate :: "identity \<Rightarrow> recommendation option" where
  "generate i =
     (if i_permissions i = [] then None
      else let unused = filter (\<lambda>p. \<not> p_used p) (i_permissions i); has_usage = list_ex p_used (i_permissions i) in
        if \<not> has_usage \<or> unused = [] then None
        else Some \<lparr>rc_identity = i_id i, rc_kind = ''right_size'',
               rc_explanation = utoa (length unused) @ '' of '' @ utoa (length (i_permissions i)) @
                 '' granted permissions have never been exercised by this identity. We recommend revoking these unused capabilities to enforce least-privilege.'',
               rc_code = right_size_code i unused\<rparr>)"

section \<open>Rotation\<close>

definition rotate_aws :: "identity \<Rightarrow> string" where
  "rotate_aws i =
     (let name = last_segment (i_id i) in
      trim_space
       (line ''# AWS IAM Access Key Rotation'' @
        line (''# Replace the long-lived access key for IAM user '' @ quoted name @ ''.'') @
        line (''# terraform taint aws_iam_access_key.'' @ name @ ''   # force re-creation on next apply'') @ line [] @
        line (''resource '' @ in_quotes ''aws_iam_access_key'' @ '' '' @ in_quotes name @ '' {'') @
        line (''  user = '' @ in_quotes name) @
        line ''}''))"

definition rotate_gcp :: "identity \<Rightarrow> string" where
  "rotate_gcp i =
     (let email = gcp_email i; name = before_at email in
      trim_space
       (line ''# GCP Service Account Key Rotation'' @
        line (''# Replace the user-managed key for service account '' @ email @ ''.'') @
        line (''# terraform taint google_service_account_key.'' @ name) @ line [] @
        line (''resource '' @ in_quotes ''google_service_account_key'' @ '' '' @ in_quotes name @ '' {'') @
        line (''  service_account_id = '' @ in_quotes email) @
        line ''}''))"

definition rotate_azure :: "identity \<Rightarrow> string" where
  "rotate_azure i =
     (let name = before_at (i_id i) in
      trim_space
       (line ''# Azure Service Principal Credential Rotation'' @
        line (''# Roll the client secret for service principal '' @ quoted name @ ''.'') @
        line (''# terraform taint azuread_application_password.'' @ name) @ line [] @
        line (''resource '' @ in_quotes ''azuread_application_password'' @ '' '' @ in_quotes name @ '' {'') @
        line (''  application_id    = azuread_application.'' @ name @ ''.id'') @
        line (''  end_date_relative = '' @ in_quotes ''2160h'' @ '' # 90 days'') @
        line ''}''))"

definition rotate_agent :: "identity \<Rightarrow> string" where
  "rotate_agent i =
     (let name = last_segment (i_id i) in
      trim_space
       (line ''# AI Agent Credential Rotation'' @
        line (''# Revoke and reissue the long-lived API token for agent '' @ quoted (i_id i) @ ''.'') @
        (if i_on_behalf_of i \<noteq> []
         then line (''# This agent delegates from '' @ last (i_on_behalf_of i) @ ''; rotating its token does not change that grant.'')
         else []) @
        line (''# 1. Issue a new token in the agent runtime/gateway for '' @ quoted name @ ''.'') @
        line ''# 2. Update the agent's secret store, then revoke the previous token.'' @ line [] @
        line (''resource '' @ in_quotes ''vault_token'' @ '' '' @ in_quotes name @ '' {'') @
        line (''  display_name = '' @ in_quotes name) @
        line (''  ttl          = '' @ in_quotes ''2160h'' @ '' # 90 days'') @
        line ''}''))"

definition rotation_code :: "identity \<Rightarrow> string option" where
  "rotation_code i =
     (if i_source i = ''aws_iam'' then (if \<not> contains (i_id i) '':user/'' then None else Some (rotate_aws i))
      else if i_source i = ''gcp_iam'' then Some (rotate_gcp i)
      else if i_source i = ''azure'' then Some (rotate_azure i)
      else if i_source i = ''agents'' then Some (rotate_agent i)
      else None)"

definition generate_rotation :: "int \<Rightarrow> identity \<Rightarrow> recommendation option" where
  "generate_rotation t i =
     (if \<not> is_nhi i \<or> is_zero (i_created i) then None
      else let age = time_sub t (i_created i) in
        if age < rotation_max_age then None
        else case rotation_code i of
            None \<Rightarrow> None
          | Some code \<Rightarrow>
              Some \<lparr>rc_identity = i_id i, rc_kind = ''rotation'',
                rc_explanation = ''This identity's credential is '' @ utoa (nat \<lfloor>hours_of age / 24\<rfloor>) @
                  '' days old (rotation threshold '' @ utoa (nat \<lfloor>hours_of rotation_max_age / 24\<rfloor>) @
                  '' days). Rotate it to limit how long a leaked secret stays valid.'',
                rc_code = code\<rparr>)"

text \<open>The recommendations of a graph, in the order \<^verbatim>\<open>runRemediate\<close> collects them.\<close>

definition recommendations :: "int \<Rightarrow> identity list \<Rightarrow> recommendation list" where
  "recommendations t ids =
     concat (map (\<lambda>i. List.map_filter id [generate i, generate_rotation t i]) ids)"

end
