(* ===== verification/Artifacts.thy ===== *)
theory Artifacts
  imports Remediation
begin

text \<open>
  \<^verbatim>\<open>artifacts.go\<close>: the files a batch of recommendations is written to. The loop that looks for a free
  name is a total function: the used names are finitely many and the candidates differ. The directory
  is a map from names to contents; \<open>disk\<close> says which calls fail, with the error and with what the failed
  write leaves of the file. \<^verbatim>\<open>json.MarshalIndent\<close> is a parameter.
\<close>

section \<open>Names\<close>

text \<open>How many bytes the rune at the head of a string takes (\<^verbatim>\<open>utf8.DecodeRune\<close>): one for an invalid one.\<close>

definition byte_in :: "nat \<Rightarrow> nat \<Rightarrow> char \<Rightarrow> bool" where
  "byte_in lo hi c \<longleftrightarrow> lo \<le> of_char c \<and> of_char c \<le> hi"

fun rune_length :: "string \<Rightarrow> nat" where
  "rune_length (a # b # c # d # _) =
     (if byte_in 0xC2 0xDF a \<and> byte_in 0x80 0xBF b then 2
      else if (byte_in 0xE0 0xE0 a \<and> byte_in 0xA0 0xBF b \<or> (byte_in 0xE1 0xEC a \<or> byte_in 0xEE 0xEF a) \<and> byte_in 0x80 0xBF b
               \<or> byte_in 0xED 0xED a \<and> byte_in 0x80 0x9F b) \<and> byte_in 0x80 0xBF c then 3
      else if (byte_in 0xF0 0xF0 a \<and> byte_in 0x90 0xBF b \<or> byte_in 0xF1 0xF3 a \<and> byte_in 0x80 0xBF b
               \<or> byte_in 0xF4 0xF4 a \<and> byte_in 0x80 0x8F b) \<and> byte_in 0x80 0xBF c \<and> byte_in 0x80 0xBF d then 4
      else 1)"
| "rune_length [a, b, c] =
     (if byte_in 0xC2 0xDF a \<and> byte_in 0x80 0xBF b then 2
      else if (byte_in 0xE0 0xE0 a \<and> byte_in 0xA0 0xBF b \<or> (byte_in 0xE1 0xEC a \<or> byte_in 0xEE 0xEF a) \<and> byte_in 0x80 0xBF b
               \<or> byte_in 0xED 0xED a \<and> byte_in 0x80 0x9F b) \<and> byte_in 0x80 0xBF c then 3
      else 1)"
| "rune_length [a, b] = (if byte_in 0xC2 0xDF a \<and> byte_in 0x80 0xBF b then 2 else 1)"
| "rune_length _ = 1"

lemma rune_length_pos: "0 < rune_length s"
  by (cases s rule: rune_length.cases) auto

definition safe_char :: "char \<Rightarrow> bool" where
  "safe_char c \<longleftrightarrow> byte_in 97 122 c \<or> byte_in 65 90 c \<or> byte_in 48 57 c \<or> c = CHR ''.'' \<or> c = CHR ''-'' \<or> c = CHR ''_''"

function sanitize_name :: "string \<Rightarrow> string" where
  "sanitize_name [] = []"
| "sanitize_name (c # cs) =
     (if safe_char c then c # sanitize_name cs else CHR ''_'' # sanitize_name (drop (rune_length (c # cs)) (c # cs)))"
  by pat_completeness auto
termination
proof (relation "measure length")
  fix c :: char and cs :: string
  have "length (c # cs) - rune_length (c # cs) < length (c # cs)" using rune_length_pos by (intro diff_less) simp_all
  then show "(drop (rune_length (c # cs)) (c # cs), c # cs) \<in> measure length" by (simp only: in_measure length_drop)
qed simp_all

definition stem_name :: "recommendation \<Rightarrow> string" where
  "stem_name r = rc_kind r @ ''__'' @ sanitize_name (rc_identity r)"

definition numbered_name :: "string \<Rightarrow> nat \<Rightarrow> string" where
  "numbered_name stem n = stem @ ''_'' @ utoa n @ ''.tf''"

lemma numbered_name_inj [simp]: "numbered_name stem m = numbered_name stem n \<longleftrightarrow> m = n"
  by (simp add: numbered_name_def)

lemma finite_candidates: "finite {m. n \<le> m \<and> numbered_name stem m \<in> set used}"
proof (rule finite_subset)
  show "{m. n \<le> m \<and> numbered_name stem m \<in> set used} \<subseteq> numbered_name stem -` set used" by auto
  show "finite (numbered_name stem -` set used)" by (rule finite_vimageI) (auto simp: inj_on_def)
qed

function free_name :: "string \<Rightarrow> string list \<Rightarrow> nat \<Rightarrow> string" where
  "free_name stem used n =
     (if numbered_name stem n \<in> set used then free_name stem used (n + 1) else numbered_name stem n)"
  by pat_completeness auto
termination
proof (relation "measure (\<lambda>(stem, used, n). card {m. n \<le> m \<and> numbered_name stem m \<in> set used})")
  fix stem used and n :: nat
  assume used: "numbered_name stem n \<in> set used"
  have "{m. n + 1 \<le> m \<and> numbered_name stem m \<in> set used} \<subset> {m. n \<le> m \<and> numbered_name stem m \<in> set used}"
    using used by (intro psubsetI) (auto simp: set_eq_iff intro: exI [of _ n])
  then show "((stem, used, n + 1), stem, used, n) \<in> measure (\<lambda>(stem, used, n). card {m. n \<le> m \<and> numbered_name stem m \<in> set used})"
    by (simp add: psubset_card_mono finite_candidates)
qed simp

declare free_name.simps [simp del]

definition artifact_name :: "recommendation \<Rightarrow> string list \<Rightarrow> string" where
  "artifact_name r used =
     (let name = stem_name r @ ''.tf'' in if name \<in> set used then free_name (stem_name r) used 2 else name)"

section \<open>Files\<close>

record artifact =
  ar_identity :: string
  ar_kind :: string
  ar_file :: string
  ar_explanation :: string

type_synonym files = "(string \<times> string) list"

record disk =
  dk_mkdir :: "string option"
  dk_fails :: "string \<Rightarrow> (string \<times> string option) option"

text \<open>\<^verbatim>\<open>os.WriteFile\<close>: the error if there was one, and the directory after it.\<close>

definition write_file :: "disk \<Rightarrow> string \<Rightarrow> string \<Rightarrow> files \<Rightarrow> string option \<times> files" where
  "write_file d name content fs =
     (case dk_fails d name of
        None \<Rightarrow> (None, AList.update name content fs)
      | Some (err, None) \<Rightarrow> (Some err, fs)
      | Some (err, Some torn) \<Rightarrow> (Some err, AList.update name torn fs))"

definition artifact_of :: "recommendation \<Rightarrow> string \<Rightarrow> artifact" where
  "artifact_of r name =
     \<lparr>ar_identity = rc_identity r, ar_kind = rc_kind r, ar_file = name, ar_explanation = rc_explanation r\<rparr>"

fun write_all :: "disk \<Rightarrow> artifact list \<Rightarrow> string list \<Rightarrow> recommendation list \<Rightarrow> files \<Rightarrow> (string + artifact list) \<times> files" where
  "write_all d manifest used [] fs = (Inr manifest, fs)"
| "write_all d manifest used (r # rs) fs =
     (let name = artifact_name r used in
      case write_file d name (rc_code r @ [CHR 10]) fs of
        (Some err, fs) \<Rightarrow> (Inl err, fs)
      | (None, fs) \<Rightarrow> write_all d (manifest @ [artifact_of r name]) (name # used) rs fs)"

definition write_artifacts :: "(artifact list \<Rightarrow> string) \<Rightarrow> disk \<Rightarrow> recommendation list \<Rightarrow> files \<Rightarrow> (string + artifact list) \<times> files" where
  "write_artifacts encode d recs fs =
     (case dk_mkdir d of
        Some err \<Rightarrow> (Inl err, fs)
      | None \<Rightarrow>
          (case write_all d [] [] recs fs of
             (Inl err, fs) \<Rightarrow> (Inl err, fs)
           | (Inr manifest, fs) \<Rightarrow>
               (case write_file d ''manifest.json'' (encode manifest @ [CHR 10]) fs of
                  (Some err, fs) \<Rightarrow> (Inl err, fs)
                | (None, fs) \<Rightarrow> (Inr manifest, fs))))"

section \<open>Names are fresh and safe\<close>

lemma free_name_fresh: "free_name stem used n \<notin> set used \<and> (\<exists>m \<ge> n. free_name stem used n = numbered_name stem m)"
proof (induction stem used n rule: free_name.induct)
  case (1 stem used n)
  then show ?case by (subst (1 2) free_name.simps) (auto intro: Suc_leD)
qed

lemma artifact_name_fresh: "artifact_name r used \<notin> set used"
  using free_name_fresh [of "stem_name r" used 2] by (simp add: artifact_name_def Let_def)

lemma sanitize_safe: "list_all safe_char (sanitize_name s)"
  by (induction s rule: sanitize_name.induct) (auto simp: safe_char_def)

lemma digits_safe: "list_all safe_char (utoa n)"
proof -
  have "safe_char c" if "c \<in> set (utoa n)" for c
    using utoa_digits [OF that] by (auto simp: is_digit_def safe_char_def byte_in_def)
  then show ?thesis by (simp add: list_all_iff)
qed

lemma plain_safe: "list_all safe_char ''__''" "list_all safe_char ''.tf''" "list_all safe_char ''_''"
  "list_all safe_char ''right_size''" "list_all safe_char ''rotation''"
  by (simp_all add: safe_char_def byte_in_def)

lemma artifact_name_shape:
  assumes "list_all safe_char (rc_kind r)"
  shows "list_all safe_char (artifact_name r used) \<and> has_suffix (artifact_name r used) ''.tf''"
proof -
  have stem: "list_all safe_char (stem_name r)"
    using assms plain_safe(1) sanitize_safe by (simp only: stem_name_def list_all_append simp_thms)
  have "list_all safe_char (numbered_name (stem_name r) n) \<and> has_suffix (numbered_name (stem_name r) n) ''.tf''" for n
    using stem plain_safe digits_safe
    by (simp only: numbered_name_def list_all_append simp_thms has_suffix_def)
       (intro suffix_appendI suffix_order.refl)
  moreover have "list_all safe_char (stem_name r @ ''.tf'') \<and> has_suffix (stem_name r @ ''.tf'') ''.tf''"
    using stem plain_safe by (simp only: list_all_append simp_thms has_suffix_def) (intro suffix_appendI suffix_order.refl)
  ultimately show ?thesis
    using free_name_fresh [of "stem_name r" used 2] by (auto simp: artifact_name_def Let_def)
qed

lemma artifact_of_fields [simp]: "ar_file (artifact_of r name) = name" "ar_identity (artifact_of r name) = rc_identity r"
  "ar_explanation (artifact_of r name) = rc_explanation r"
  by (simp_all add: artifact_of_def)

text \<open>One file per recommendation, and nothing else touched.\<close>

definition filed :: "recommendation list \<Rightarrow> artifact list \<Rightarrow> files \<Rightarrow> files \<Rightarrow> bool" where
  "filed recs as fs fs' \<longleftrightarrow>
     list_all2 (\<lambda>r a. a = artifact_of r (ar_file a) \<and> map_of fs' (ar_file a) = Some (rc_code r @ [CHR 10])) recs as
     \<and> (\<forall>name. name \<notin> ar_file ` set as \<longrightarrow> map_of fs' name = map_of fs name)"

lemma write_all_files:
  "write_all d manifest used recs fs = (Inr out, fs') \<Longrightarrow> \<forall>r \<in> set recs. list_all safe_char (rc_kind r) \<Longrightarrow>
   \<exists>as. out = manifest @ as \<and> filed recs as fs fs' \<and> distinct (map ar_file as) \<and> ar_file ` set as \<inter> set used = {}
     \<and> (\<forall>a \<in> set as. list_all safe_char (ar_file a) \<and> has_suffix (ar_file a) ''.tf'')"
proof (induction recs arbitrary: manifest used fs)
  case (Cons r rs)
  let ?name = "artifact_name r used"
  let ?fs = "AList.update ?name (rc_code r @ [CHR 10]) fs"
  from Cons.prems(1) have "dk_fails d ?name = None"
    by (auto simp: write_file_def Let_def split: option.splits)
  with Cons.prems(1) have "write_all d (manifest @ [artifact_of r ?name]) (?name # used) rs ?fs = (Inr out, fs')"
    by (simp add: write_file_def Let_def)
  then obtain as where as: "out = (manifest @ [artifact_of r ?name]) @ as" "filed rs as ?fs fs'" "distinct (map ar_file as)"
    "ar_file ` set as \<inter> set (?name # used) = {}" "\<forall>a \<in> set as. list_all safe_char (ar_file a) \<and> has_suffix (ar_file a) ''.tf''"
    using Cons.IH [OF _ , of "manifest @ [artifact_of r ?name]" "?name # used" ?fs] Cons.prems(2) by auto
  have "map_of fs' ?name = Some (rc_code r @ [CHR 10])"
    using as(2,4) by (auto simp: filed_def update_conv')
  then have "filed (r # rs) (artifact_of r ?name # as) fs fs'"
    using as(2) by (auto simp: filed_def update_conv')
  moreover have "distinct (map ar_file (artifact_of r ?name # as))" using as(3,4) by auto
  moreover have "ar_file ` set (artifact_of r ?name # as) \<inter> set used = {}"
    using as(4) artifact_name_fresh [of r used] by auto
  ultimately show ?case
    using as(1,5) artifact_name_shape [of r used] Cons.prems(2)
    by (intro exI [of _ "artifact_of r ?name # as"]) simp
qed (simp add: filed_def)

lemma generated_kinds: "r \<in> set (recommendations t ids) \<Longrightarrow> list_all safe_char (rc_kind r)"
proof -
  assume "r \<in> set (recommendations t ids)"
  then obtain i where "generate i = Some r \<or> generate_rotation t i = Some r"
    by (force simp: recommendations_def List.map_filter_def split: if_splits)
  then have "rc_kind r = ''right_size'' \<or> rc_kind r = ''rotation''"
    unfolding generate_def generate_rotation_def Let_def by (auto split: if_splits option.splits)
  then show ?thesis using plain_safe(4,5) by (elim disjE) (simp_all only:)
qed

text \<open>
  C25: The artifacts are the recommendations, no file lost or overwritten: when writing the recommendations
  of a graph succeeds, the manifest lists them in their order, every file it names holds exactly its
  recommendation's text, no two share a file even when their identities sanitise to the same name, the
  names contain no separator and cannot be the manifest's, the manifest is written, and every other file of
  the directory is what it was. When it does not succeed, some call of the file system failed, with the
  error returned; on a disk where nothing fails it always succeeds.
\<close>

theorem artifacts_faithful:
  "(\<forall>manifest fs'. write_artifacts encode d (recommendations t ids) fs = (Inr manifest, fs') \<longrightarrow>
      filed (recommendations t ids) manifest (AList.update ''manifest.json'' (encode manifest @ [CHR 10]) fs) fs'
      \<and> distinct (map ar_file manifest)
      \<and> (\<forall>a \<in> set manifest. list_all safe_char (ar_file a) \<and> CHR ''/'' \<notin> set (ar_file a) \<and> ar_file a \<noteq> ''manifest.json''))
   \<and> (\<forall>err fs'. write_artifacts encode d (recommendations t ids) fs = (Inl err, fs') \<longrightarrow>
        dk_mkdir d = Some err \<or> (\<exists>name torn. dk_fails d name = Some (err, torn)))
   \<and> (dk_mkdir d = None \<and> (\<forall>name. dk_fails d name = None) \<longrightarrow>
        (\<exists>manifest fs'. write_artifacts encode d (recommendations t ids) fs = (Inr manifest, fs')))"
proof (intro conjI allI impI ballI)
  let ?rs = "recommendations t ids"
  fix manifest fs' assume ok: "write_artifacts encode d ?rs fs = (Inr manifest, fs')"
  obtain fs1 where all: "write_all d [] [] ?rs fs = (Inr manifest, fs1)"
    and last: "write_file d ''manifest.json'' (encode manifest @ [CHR 10]) fs1 = (None, fs')"
    using ok by (auto simp: write_artifacts_def split: option.splits prod.splits sum.splits)
  have fs': "fs' = AList.update ''manifest.json'' (encode manifest @ [CHR 10]) fs1"
    using last by (auto simp: write_file_def split: option.splits)
  obtain as where as: "manifest = [] @ as" "filed ?rs as fs fs1" "distinct (map ar_file as)"
    "\<forall>a \<in> set as. list_all safe_char (ar_file a) \<and> has_suffix (ar_file a) ''.tf''"
    using write_all_files [OF all] generated_kinds by blast
  have shape: "CHR ''/'' \<notin> set (ar_file a) \<and> ar_file a \<noteq> ''manifest.json''" if "a \<in> set as" for a
  proof -
    have "\<not> safe_char (CHR ''/'')" "\<not> has_suffix ''manifest.json'' ''.tf''"
      by (simp_all add: safe_char_def byte_in_def has_suffix_def suffix_to_prefix)
    with as(4) that show ?thesis by (auto simp: list_all_iff)
  qed
  show "filed ?rs manifest (AList.update ''manifest.json'' (encode manifest @ [CHR 10]) fs) fs'"
    unfolding filed_def
  proof (intro conjI allI impI)
    have "\<forall>a \<in> set as. map_of fs' (ar_file a) = map_of fs1 (ar_file a)" using shape by (auto simp: fs' update_conv')
    then show "list_all2 (\<lambda>r a. a = artifact_of r (ar_file a) \<and> map_of fs' (ar_file a) = Some (rc_code r @ [CHR 10])) ?rs manifest"
      using as(1,2) unfolding filed_def by (auto simp: list_all2_conv_all_nth)
  next
    fix name assume "name \<notin> ar_file ` set manifest"
    then show "map_of fs' name = map_of (AList.update ''manifest.json'' (encode manifest @ [CHR 10]) fs) name"
      using as(1,2) by (simp add: fs' update_conv' filed_def)
  qed
  show "distinct (map ar_file manifest)" using as(1,3) by simp
  fix a assume "a \<in> set manifest"
  with as(1,4) shape show "list_all safe_char (ar_file a)" "CHR ''/'' \<notin> set (ar_file a)" "ar_file a \<noteq> ''manifest.json''"
    by auto
next
  fix err fs' assume "write_artifacts encode d (recommendations t ids) fs = (Inl err, fs')"
  moreover have "write_all d manifest used recs fs0 = (Inl err, fs1) \<Longrightarrow> \<exists>name torn. dk_fails d name = Some (err, torn)"
    for manifest used recs fs0 fs1
    by (induction recs arbitrary: manifest used fs0)
       (auto simp: write_file_def Let_def split: option.splits prod.splits)
  ultimately show "dk_mkdir d = Some err \<or> (\<exists>name torn. dk_fails d name = Some (err, torn))"
    by (auto simp: write_artifacts_def write_file_def split: option.splits prod.splits sum.splits)
next
  assume healthy: "dk_mkdir d = None \<and> (\<forall>name. dk_fails d name = None)"
  then have "\<exists>m fs'. write_all d manifest used recs fs0 = (Inr m, fs')" for manifest used recs fs0
    by (induction recs arbitrary: manifest used fs0) (simp_all add: write_file_def Let_def)
  then obtain m fs1 where "write_all d [] [] (recommendations t ids) fs = (Inr m, fs1)" by blast
  with healthy show "\<exists>manifest fs'. write_artifacts encode d (recommendations t ids) fs = (Inr manifest, fs')"
    by (simp add: write_artifacts_def write_file_def)
qed

text \<open>Two identities whose names sanitise to the same one.\<close>

definition sample_unused :: "string \<Rightarrow> identity" where
  "sample_unused k =
     (new_identity k False)\<lparr>i_permissions := [\<lparr>p_name = ''r'', p_admin = False, p_used = True, p_actions = [], p_arn = []\<rparr>,
        \<lparr>p_name = ''w'', p_admin = False, p_used = False, p_actions = [], p_arn = []\<rparr>]\<rparr>"

theorem artifacts_faithful_witness:
  "\<exists>manifest fs'. write_artifacts (\<lambda>_. []) \<lparr>dk_mkdir = None, dk_fails = \<lambda>_. None\<rparr>
       (recommendations 0 [sample_unused ''a/b'', sample_unused ''a:b'']) [] = (Inr manifest, fs')
     \<and> length manifest = 2 \<and> distinct (map ar_file manifest)"
proof -
  let ?rs = "recommendations 0 [sample_unused ''a/b'', sample_unused ''a:b'']"
  let ?d = "\<lparr>dk_mkdir = None, dk_fails = \<lambda>_. None\<rparr>"
  have two: "length ?rs = 2"
    by (simp add: recommendations_def List.map_filter_def generate_def generate_rotation_def sample_unused_def new_identity_def
        is_nhi_def identity_types Let_def)
  note all = artifacts_faithful [of "\<lambda>_. []" ?d 0 "[sample_unused ''a/b'', sample_unused ''a:b'']" "[]"]
  obtain manifest fs' where ok: "write_artifacts (\<lambda>_. []) ?d ?rs [] = (Inr manifest, fs')"
    using all [THEN conjunct2, THEN conjunct2] by auto
  then have "distinct (map ar_file manifest)" and rows: "list_all2 (\<lambda>r a. a = artifact_of r (ar_file a)
      \<and> map_of fs' (ar_file a) = Some (rc_code r @ [CHR 10])) ?rs manifest"
    using all [THEN conjunct1, rule_format, OF ok] unfolding filed_def by blast+
  moreover have "length manifest = 2" using list_all2_lengthD [OF rows] two by simp
  ultimately show ?thesis using ok by blast
qed

end
