(* ===== verification/Bus_Ingest.thy ===== *)
theory Bus_Ingest
  imports Graph_Reader Stream_Policy Go_Time Detect_Base "HOL-Library.Product_Lexorder"
begin

text \<open>
  \<^verbatim>\<open>internal/ingest/tokenfuse\<close>: files of the shared agent-event bus become identities and events. The
  envelope decoder, the verifier of the \<^verbatim>\<open>prev_hash\<close> chain and the test for a claimed subject belong to
  \<^verbatim>\<open>agent-stack-go\<close> and are the fields of \<open>bus_env\<close>; so is the parser of times. Reading a file is a function
  from its path.
\<close>

section \<open>Envelopes and reports\<close>

record envelope =
  en_ts :: string
  en_source :: string
  en_type :: string
  en_agent :: string
  en_on_behalf_of :: "string list"
  en_severity :: string

record chain_break =
  cb_file :: string
  cb_line :: nat
  cb_expected :: string
  cb_found :: string

record chain =
  ch_verified :: bool
  ch_chained :: nat
  ch_heads :: nat
  ch_unverifiable :: "nat list"
  ch_breaks :: "chain_break list"

record foreign_pair =
  fo_file :: string
  fo_stem :: string
  fo_claimed :: string
  fo_count :: nat
  fo_allowed :: "string list"

record unknown_file =
  uf_file :: string
  uf_stem :: string
  uf_count :: nat

record bus_report =
  br_lines :: nat
  br_malformed :: nat
  br_unknown_types :: "(string \<times> nat) list"
  br_chain :: chain
  br_sources :: "(string \<times> nat \<times> nat) list"
  br_foreign_source :: nat
  br_foreign :: "foreign_pair list"
  br_unknown_stream :: nat
  br_unknown :: "unknown_file list"

text \<open>What the shared module's verifier reports: \<^verbatim>\<open>event.ChainReport\<close>, or \<open>None\<close> for its error.\<close>

record chain_report =
  cr_chained :: nat
  cr_heads :: "nat list"
  cr_unverifiable :: "nat list"
  cr_breaks :: "(nat \<times> string \<times> string) list"

record bus_env =
  be_unmarshal :: "string \<Rightarrow> envelope option"
  be_time :: "string \<Rightarrow> (int \<times> nat) option"
  be_claimed :: "string \<Rightarrow> bool"
  be_verify :: "string \<Rightarrow> chain_report option"

definition known_types :: "string list" where
  "known_types =
     [EventBudgetExhausted, EventSustainedLoop, EventSpendSpike, EventFanoutExplosion, EventBreakerTripped,
      EventDLPBlock, EventTaintBlock, EventMCPDrift, EventWebFetch, EventWebBlocked]"

definition max_foreign_pairs :: nat where "max_foreign_pairs = 64"

definition empty_chain :: chain where
  "empty_chain = \<lparr>ch_verified = False, ch_chained = 0, ch_heads = 0, ch_unverifiable = [], ch_breaks = []\<rparr>"

definition new_report :: bus_report where
  "new_report =
     \<lparr>br_lines = 0, br_malformed = 0, br_unknown_types = [], br_chain = empty_chain, br_sources = [],
      br_foreign_source = 0, br_foreign = [], br_unknown_stream = 0, br_unknown = []\<rparr>"

section \<open>The integrity chain\<close>

definition chain_present :: "chain \<Rightarrow> bool" where
  "chain_present c \<longleftrightarrow> ch_chained c > 0 \<or> ch_unverifiable c \<noteq> [] \<or> ch_breaks c \<noteq> []"

definition chain_intact :: "chain \<Rightarrow> bool" where
  "chain_intact c \<longleftrightarrow> ch_verified c \<and> ch_breaks c = []"

definition merge_chain :: "chain \<Rightarrow> chain \<Rightarrow> chain" where
  "merge_chain c o' =
     \<lparr>ch_verified = (ch_verified c \<and> ch_verified o'), ch_chained = ch_chained c + ch_chained o',
      ch_heads = ch_heads c + ch_heads o', ch_unverifiable = ch_unverifiable c @ ch_unverifiable o',
      ch_breaks = ch_breaks c @ ch_breaks o'\<rparr>"

definition verify_chain :: "bus_env \<Rightarrow> string \<Rightarrow> string \<Rightarrow> chain" where
  "verify_chain env data file =
     (case be_verify env data of
        None \<Rightarrow> empty_chain
      | Some rep \<Rightarrow>
          \<lparr>ch_verified = True, ch_chained = cr_chained rep, ch_heads = length (cr_heads rep),
           ch_unverifiable = cr_unverifiable rep,
           ch_breaks = map (\<lambda>(n, e, f). \<lparr>cb_file = file, cb_line = n, cb_expected = e, cb_found = f\<rparr>) (cr_breaks rep)\<rparr>)"

section \<open>Tallies\<close>

definition add_count :: "string \<Rightarrow> nat \<Rightarrow> (string \<times> nat) list \<Rightarrow> (string \<times> nat) list" where
  "add_count k n m = AList.update k ((case map_of m k of None \<Rightarrow> 0 | Some c \<Rightarrow> c) + n) m"

definition add_tally :: "string \<Rightarrow> nat \<times> nat \<Rightarrow> (string \<times> nat \<times> nat) list \<Rightarrow> (string \<times> nat \<times> nat) list" where
  "add_tally k t m =
     (let cur = (case map_of m k of None \<Rightarrow> (0, 0) | Some c \<Rightarrow> c)
      in AList.update k (fst cur + fst t, snd cur + snd t) m)"

definition unread_sources :: "bus_report \<Rightarrow> string list" where
  "unread_sources r = sort (map fst (filter (\<lambda>(_, events, read). events > 0 \<and> read = 0) (br_sources r)))"

definition merge_report :: "bus_report \<Rightarrow> bus_report \<Rightarrow> bus_report" where
  "merge_report r r' =
     \<lparr>br_lines = br_lines r + br_lines r', br_malformed = br_malformed r + br_malformed r',
      br_unknown_types = foldl (\<lambda>m (t, n). add_count t n m) (br_unknown_types r) (br_unknown_types r'),
      br_chain = merge_chain (br_chain r) (br_chain r'),
      br_sources = foldl (\<lambda>m (s, t). add_tally s t m) (br_sources r) (br_sources r'),
      br_foreign_source = br_foreign_source r + br_foreign_source r',
      br_foreign = br_foreign r @ take (max_foreign_pairs - length (br_foreign r)) (br_foreign r'),
      br_unknown_stream = br_unknown_stream r + br_unknown_stream r',
      br_unknown = br_unknown r @ take (max_foreign_pairs - length (br_unknown r)) (br_unknown r')\<rparr>"

section \<open>The line a load earns\<close>

definition max_named :: nat where "max_named = 8"
definition max_name_shown :: nat where "max_name_shown = 64"

definition names_list :: "string list \<Rightarrow> string" where
  "names_list names =
     (let shown = take max_named names; rest = length names - length shown
      in commas (map (\<lambda>n. quoted (if length n > max_name_shown then take max_name_shown n @ ''...'' else n)) shown) @
         (if rest > 0 then '' +'' @ utoa rest @ '' more'' else []))"

definition stderr_summary :: "bus_report \<Rightarrow> string" where
  "stderr_summary r =
     (let types = sort (map fst (br_unknown_types r)); sources = unread_sources r
      in join ''; ''
        ((if br_malformed r > 0 then [utoa (br_lines r) @ '' line(s) read, '' @ utoa (br_malformed r) @ '' malformed''] else []) @
         (if types \<noteq> [] then [utoa (length types) @ '' event type(s) no idryx detector reads, ingested as they are: '' @ names_list types] else []) @
         (if sources \<noteq> [] then [utoa (length sources) @ '' source(s) no idryx detector reads, ingested as they are: '' @ names_list sources] else [])))"

section \<open>Lines\<close>

definition max_line :: nat where "max_line = 4 * 1024 * 1024"

definition drop_cr :: "string \<Rightarrow> string" where
  "drop_cr s = (if s \<noteq> [] \<and> last s = CHR 13 then butlast s else s)"

text \<open>
  \<^verbatim>\<open>bufio.Scanner\<close> with \<^verbatim>\<open>ScanLines\<close> and a buffer of 4 MiB: a last empty piece is no line, and the scan
  stops at the first line the buffer does not hold together with its newline.
\<close>

definition scan_lines :: "string \<Rightarrow> string list" where
  "scan_lines data =
     (let pieces = split_on (CHR 10) data;
          ls = (if last pieces = [] then butlast pieces else pieces)
      in map drop_cr (takeWhile (\<lambda>l. length l < max_line) ls))"

section \<open>One file\<close>

record bus_state =
  st_report :: bus_report
  st_foreign :: "(string \<times> foreign_pair) list"
  st_unknown :: "unknown_file option"
  st_agents :: "string list"
  st_humans :: "string list"
  st_identities :: "identity list"
  st_events :: "event list"

text \<open>The refused and the unknown, per file; both tables are bounded.\<close>

definition note_foreign :: "policy \<Rightarrow> string \<Rightarrow> string \<Rightarrow> string \<Rightarrow> bus_state \<Rightarrow> bus_state" where
  "note_foreign p file stem source s =
     s\<lparr>st_report := (st_report s)\<lparr>br_foreign_source := br_foreign_source (st_report s) + 1\<rparr>,
       st_foreign :=
         (case map_of (st_foreign s) source of
            Some f \<Rightarrow> AList.update source (f\<lparr>fo_count := fo_count f + 1\<rparr>) (st_foreign s)
          | None \<Rightarrow>
              if length (st_foreign s) < max_foreign_pairs then
                AList.update source \<lparr>fo_file = file, fo_stem = stem, fo_claimed = source, fo_count = 1,
                                     fo_allowed = allowed_for p stem\<rparr> (st_foreign s)
              else st_foreign s)\<rparr>"

definition note_unknown :: "string \<Rightarrow> string \<Rightarrow> bus_state \<Rightarrow> bus_state" where
  "note_unknown file stem s =
     s\<lparr>st_report := (st_report s)\<lparr>br_unknown_stream := br_unknown_stream (st_report s) + 1\<rparr>,
       st_unknown := Some (case st_unknown s of
            Some u \<Rightarrow> u\<lparr>uf_count := uf_count u + 1\<rparr>
          | None \<Rightarrow> \<lparr>uf_file = file, uf_stem = stem, uf_count = 1\<rparr>)\<rparr>"

definition bus_identity :: "string \<Rightarrow> string \<Rightarrow> string \<Rightarrow> string list \<Rightarrow> identity" where
  "bus_identity k ty source on_behalf =
     (new_identity k False)\<lparr>i_type := ty, i_source := source, i_on_behalf_of := on_behalf\<rparr>"

definition add_agent :: "bus_env \<Rightarrow> envelope \<Rightarrow> bus_state \<Rightarrow> bus_state" where
  "add_agent env e s =
     (if en_agent e \<in> set (st_agents s) then s
      else s\<lparr>st_agents := en_agent e # st_agents s,
             st_identities := st_identities s @
               [bus_identity (en_agent e) (if be_claimed env (en_agent e) then [] else IdentityAgent)
                  (en_source e) (en_on_behalf_of e)]\<rparr>)"

definition add_human :: "string \<Rightarrow> bus_state \<Rightarrow> string \<Rightarrow> bus_state" where
  "add_human source s p =
     (if has_prefix p ''user://'' \<and> p \<notin> set (st_humans s) then
        s\<lparr>st_humans := p # st_humans s, st_identities := st_identities s @ [bus_identity p IdentityHuman source []]\<rparr>
      else s)"

definition tally_event :: "envelope \<Rightarrow> bus_report \<Rightarrow> bus_report" where
  "tally_event e r =
     r\<lparr>br_unknown_types := (if en_type e \<in> set known_types then br_unknown_types r else add_count (en_type e) 1 (br_unknown_types r)),
       br_sources := add_tally (en_source e) (1, if en_type e \<in> set known_types then 1 else 0) (br_sources r)\<rparr>"

definition envelope_event :: "envelope \<Rightarrow> int \<times> nat \<Rightarrow> event" where
  "envelope_event e ts =
     \<lparr>e_time = fst ts, e_zone = snd ts, e_identity = en_agent e, e_type = en_type e, e_outcome = [], e_ip = [],
      e_city = [], e_country = [], e_lat = 0, e_lon = 0, e_device = [], e_resource = [],
      e_severity = en_severity e, e_source = en_source e\<rparr>"

definition ingest_envelope :: "bus_env \<Rightarrow> envelope \<Rightarrow> int \<times> nat \<Rightarrow> bus_state \<Rightarrow> bus_state" where
  "ingest_envelope env e ts s =
     (let s = foldl (add_human (en_source e)) (add_agent env e s) (en_on_behalf_of e)
      in s\<lparr>st_report := tally_event e (st_report s), st_events := st_events s @ [envelope_event e ts]\<rparr>)"

definition malformed :: "bus_state \<Rightarrow> bus_state" where
  "malformed s = s\<lparr>st_report := (st_report s)\<lparr>br_malformed := br_malformed (st_report s) + 1\<rparr>\<rparr>"

definition parse_line :: "bus_env \<Rightarrow> policy option \<Rightarrow> string \<Rightarrow> bus_state \<Rightarrow> string \<Rightarrow> bus_state" where
  "parse_line env pol file s raw =
     (let line = trim_space raw in
      if line = [] then s
      else
        let s = s\<lparr>st_report := (st_report s)\<lparr>br_lines := br_lines (st_report s) + 1\<rparr>\<rparr> in
        case be_unmarshal env line of
          None \<Rightarrow> malformed s
        | Some e \<Rightarrow>
            (case be_time env (en_ts e) of
               None \<Rightarrow> malformed s
             | Some ts \<Rightarrow>
                 (case pol of
                    None \<Rightarrow> ingest_envelope env e ts s
                  | Some p \<Rightarrow>
                      (case check p (stem_of file) (en_source e) of
                         Foreign \<Rightarrow> note_foreign p file (stem_of file) (en_source e) s
                       | AllowedUnknownStem \<Rightarrow> ingest_envelope env e ts (note_unknown file (stem_of file) s)
                       | Allowed \<Rightarrow> ingest_envelope env e ts s))))"

definition start_state :: "chain \<Rightarrow> bus_state" where
  "start_state c =
     \<lparr>st_report = new_report\<lparr>br_chain := c\<rparr>, st_foreign = [], st_unknown = None, st_agents = [], st_humans = [],
      st_identities = [], st_events = []\<rparr>"

definition finish_report :: "bus_state \<Rightarrow> bus_report" where
  "finish_report s =
     (st_report s)\<lparr>br_foreign := sort_key (\<lambda>f. (fo_file f, fo_claimed f)) (map snd (st_foreign s)),
       br_unknown := (case st_unknown s of None \<Rightarrow> [] | Some u \<Rightarrow> [u])\<rparr>"

definition parse_bus :: "bus_env \<Rightarrow> policy option \<Rightarrow> string \<Rightarrow> string \<Rightarrow> identity list \<times> event list \<times> bus_report" where
  "parse_bus env pol file data =
     (let s = foldl (parse_line env pol file) (start_state (verify_chain env data file)) (scan_lines data)
      in (st_identities s, st_events s, finish_report s))"

section \<open>Several files\<close>

text \<open>An agent or a person seen in an earlier file is not given again.\<close>

definition keep_new :: "string list \<times> string list \<times> identity list \<Rightarrow> identity \<Rightarrow> string list \<times> string list \<times> identity list" where
  "keep_new = (\<lambda>(agents, humans, out) i.
     (if i_type i = IdentityAgent then
        (if i_id i \<in> set agents then (agents, humans, out) else (i_id i # agents, humans, out @ [i]))
      else if i_type i = IdentityHuman then
        (if i_id i \<in> set humans then (agents, humans, out) else (agents, i_id i # humans, out @ [i]))
      else (agents, humans, out @ [i])))"

fun load_files :: "bus_env \<Rightarrow> policy \<Rightarrow> (string \<Rightarrow> string + string) \<Rightarrow> string list \<Rightarrow>
    (string list \<times> string list \<times> identity list) \<Rightarrow> event list \<Rightarrow> bus_report \<Rightarrow>
    string + (identity list \<times> event list \<times> bus_report)" where
  "load_files env p read [] (_, _, ids) evs rep = Inr (ids, evs, rep)"
| "load_files env p read (path # paths) acc evs rep =
     (case read path of
        Inl err \<Rightarrow> Inl err
      | Inr data \<Rightarrow>
          let (new_ids, new_evs, r) = parse_bus env (Some p) path data
          in load_files env p read paths (foldl keep_new acc new_ids) (evs @ new_evs) (merge_report rep r))"

definition load_with :: "bus_env \<Rightarrow> (string \<Rightarrow> string + string list) \<Rightarrow> (string \<Rightarrow> string + string) \<Rightarrow> string \<Rightarrow> policy \<Rightarrow>
    string + (identity list \<times> event list \<times> bus_report)" where
  "load_with env glob read pattern p =
     (case glob pattern of
        Inl err \<Rightarrow> Inl err
      | Inr matches \<Rightarrow>
          let paths = sort (if matches = [] then [pattern] else matches)
          in load_files env p read paths ([], [], []) [] (new_report\<lparr>br_chain := empty_chain\<lparr>ch_verified := True\<rparr>\<rparr>))"

end
