(* ===== verification/Bus_Facts.thy ===== *)
theory Bus_Facts
  imports Bus_Ingest
begin

text \<open>
  What loading the bus guarantees: the invariant of the loop over one file, kept by every line, and what
  it says of several files; then two limits of the loader.
\<close>

section \<open>Tallies\<close>

definition tally_of :: "(string \<times> nat \<times> nat) list \<Rightarrow> string \<Rightarrow> nat \<times> nat" where
  "tally_of m s = (case map_of m s of None \<Rightarrow> (0, 0) | Some t \<Rightarrow> t)"

definition plus2 :: "nat \<times> nat \<Rightarrow> nat \<times> nat \<Rightarrow> nat \<times> nat" where
  "plus2 a b = (fst a + fst b, snd a + snd b)"

lemma plus2_simps [simp]: "plus2 a (0, 0) = a" "plus2 (0, 0) a = a" "plus2 (plus2 a b) c = plus2 a (plus2 b c)"
  by (simp_all add: plus2_def)

lemma tally_add [simp]: "tally_of (add_tally k t m) s = (if s = k then plus2 (tally_of m s) t else tally_of m s)"
  by (simp add: tally_of_def add_tally_def Let_def update_conv' plus2_def)

lemma distinct_add_tally [simp]: "distinct (map fst m) \<Longrightarrow> distinct (map fst (add_tally k t m))"
  by (simp add: add_tally_def Let_def distinct_update)

lemma tally_fold:
  "distinct (map fst m') \<Longrightarrow> tally_of (foldl (\<lambda>m (s, t). add_tally s t m) m m') s = plus2 (tally_of m s) (tally_of m' s)"
proof (induction m' arbitrary: m)
  case (Cons x m')
  obtain k t where x: "x = (k, t)" by (cases x)
  show ?case
  proof (cases "s = k")
    case True
    then have "map_of m' s = None" using Cons.prems x by (simp add: map_of_eq_None_iff)
    then have "tally_of m' s = (0, 0)" by (simp add: tally_of_def)
    moreover have "tally_of (x # m') s = t" using True x by (simp add: tally_of_def)
    ultimately show ?thesis using Cons True x by simp
  next
    case False
    then have "tally_of (x # m') s = tally_of m' s" using x by (simp add: tally_of_def)
    with Cons False x show ?thesis by simp
  qed
qed (simp add: tally_of_def)

lemma distinct_tally_fold: "distinct (map fst m) \<Longrightarrow> distinct (map fst (foldl (\<lambda>m (s, t). add_tally s t m) m m'))"
  by (induction m' arbitrary: m) auto

text \<open>The tally a list of events has for a source.\<close>

definition events_tally :: "event list \<Rightarrow> string \<Rightarrow> nat \<times> nat" where
  "events_tally evs s =
     (length (filter (\<lambda>e. e_source e = s) evs), length (filter (\<lambda>e. e_source e = s \<and> e_type e \<in> set known_types) evs))"

lemma events_tally_append [simp]: "events_tally (xs @ ys) s = plus2 (events_tally xs s) (events_tally ys s)"
  by (simp add: events_tally_def plus2_def)

section \<open>The invariant of the loop\<close>

definition may_carry :: "policy option \<Rightarrow> string \<Rightarrow> string \<Rightarrow> bool" where
  "may_carry pol file source = (case pol of None \<Rightarrow> True | Some p \<Rightarrow> check p (stem_of file) source \<noteq> Foreign)"

definition accounted_for :: "bus_report \<Rightarrow> event list \<Rightarrow> bool" where
  "accounted_for r evs \<longleftrightarrow>
     br_lines r = br_malformed r + br_foreign_source r + length evs
     \<and> distinct (map fst (br_sources r)) \<and> (\<forall>s. tally_of (br_sources r) s = events_tally evs s)"

definition bus_inv :: "policy option \<Rightarrow> string \<Rightarrow> bus_state \<Rightarrow> bool" where
  "bus_inv pol file s \<longleftrightarrow>
     accounted_for (st_report s) (st_events s)
     \<and> length (st_foreign s) \<le> max_foreign_pairs
     \<and> (\<forall>i \<in> set (st_identities s). may_carry pol file (i_source i))
     \<and> (\<forall>e \<in> set (st_events s). may_carry pol file (e_source e))
     \<and> set (st_agents s) \<subseteq> i_id ` set (st_identities s)
     \<and> e_identity ` set (st_events s) \<subseteq> set (st_agents s)"

lemma bus_identity_fields [simp]:
  "i_id (bus_identity k ty src obo) = k" "i_source (bus_identity k ty src obo) = src"
  "i_type (bus_identity k ty src obo) = ty" "i_on_behalf_of (bus_identity k ty src obo) = obo"
  by (simp_all add: bus_identity_def new_identity_def)

lemma envelope_event_fields [simp]:
  "e_identity (envelope_event e ts) = en_agent e" "e_source (envelope_event e ts) = en_source e"
  "e_type (envelope_event e ts) = en_type e"
  by (simp_all add: envelope_event_def)

text \<open>The humans of an envelope change nothing but the identities.\<close>

lemma add_humans:
  "\<exists>hs ids. foldl (add_human src) s ps = s\<lparr>st_humans := hs, st_identities := st_identities s @ ids\<rparr>
     \<and> (\<forall>i \<in> set ids. i_source i = src)"
proof (induction ps rule: rev_induct)
  case Nil
  have "foldl (add_human src) s [] = s\<lparr>st_humans := st_humans s, st_identities := st_identities s @ []\<rparr>" by simp
  then show ?case by (metis empty_iff list.set(1))
next
  case (snoc p ps)
  then obtain hs ids where ih: "foldl (add_human src) s ps = s\<lparr>st_humans := hs, st_identities := st_identities s @ ids\<rparr>"
    "\<forall>i \<in> set ids. i_source i = src" by blast
  show ?case
  proof (cases "has_prefix p ''user://'' \<and> p \<notin> set hs")
    case True
    then have "foldl (add_human src) s (ps @ [p]) = s\<lparr>st_humans := p # hs,
        st_identities := st_identities s @ (ids @ [bus_identity p IdentityHuman src []])\<rparr>"
      using ih(1) by (simp add: add_human_def)
    moreover have "\<forall>i \<in> set (ids @ [bus_identity p IdentityHuman src []]). i_source i = src" using ih(2) by simp
    ultimately show ?thesis by blast
  next
    case False
    then have "foldl (add_human src) s (ps @ [p]) = s\<lparr>st_humans := hs, st_identities := st_identities s @ ids\<rparr>"
      using ih(1) by (auto simp: add_human_def)
    with ih(2) show ?thesis by blast
  qed
qed

lemma ingest_inv:
  assumes "bus_inv pol file (s\<lparr>st_report := r\<rparr>)" "may_carry pol file (en_source e)"
    and "br_lines (st_report s) = Suc (br_lines r)" "br_malformed (st_report s) = br_malformed r"
    and "br_foreign_source (st_report s) = br_foreign_source r" "br_sources (st_report s) = br_sources r"
  shows "bus_inv pol file (ingest_envelope env e ts s)"
proof -
  define a where "a = add_agent env e s"
  obtain hs ids where h: "foldl (add_human (en_source e)) a (en_on_behalf_of e) =
      a\<lparr>st_humans := hs, st_identities := st_identities a @ ids\<rparr>" "\<forall>i \<in> set ids. i_source i = en_source e"
    using add_humans by blast
  have "accounted_for (tally_event e (st_report a)) (st_events a @ [envelope_event e ts])"
    using assms(1,3-6)
    by (simp add: a_def bus_inv_def accounted_for_def tally_event_def add_agent_def events_tally_def plus2_def)
  moreover have "st_foreign a = st_foreign s" "st_events a = st_events s" by (simp_all add: a_def add_agent_def)
  moreover have "\<forall>i \<in> set (st_identities a). may_carry pol file (i_source i)" "en_agent e \<in> set (st_agents a)"
    "set (st_agents a) \<subseteq> i_id ` set (st_identities a)" "set (st_agents s) \<subseteq> set (st_agents a)"
    using assms(1,2) by (auto simp: a_def add_agent_def bus_inv_def)
  ultimately show ?thesis
    using assms(1,2) h by (auto simp: ingest_envelope_def bus_inv_def a_def [symmetric])
qed

lemma parse_line_inv:
  assumes "bus_inv pol file s"
  shows "bus_inv pol file (parse_line env pol file s raw)"
proof (cases "trim_space raw = []")
  case True
  with assms show ?thesis by (simp add: parse_line_def)
next
  case False
  let ?s = "s\<lparr>st_report := (st_report s)\<lparr>br_lines := br_lines (st_report s) + 1\<rparr>\<rparr>"
  have bad: "bus_inv pol file (malformed ?s)"
    using assms by (simp add: bus_inv_def accounted_for_def malformed_def)
  have good: "bus_inv pol file (ingest_envelope env e ts ?s)" if "may_carry pol file (en_source e)" for e ts
    by (rule ingest_inv [where r = "st_report s"]) (use assms that in simp_all)
  have unknown: "bus_inv pol file (ingest_envelope env e ts (note_unknown f stem ?s))" if "may_carry pol file (en_source e)" for e ts f stem
    by (rule ingest_inv [where r = "st_report s"]) (use assms that in \<open>simp_all add: bus_inv_def note_unknown_def\<close>)
  have "length (AList.update k v xs) \<le> Suc (length xs)" for k :: string and v :: foreign_pair and xs
    by (induction xs) auto
  moreover have "map_of xs k = Some f \<Longrightarrow> length (AList.update k v xs) = length xs"
    for k :: string and v f :: foreign_pair and xs by (induction xs) auto
  ultimately have foreign: "bus_inv pol file (note_foreign p f stem src ?s)" for p f stem src
    using assms by (auto simp: bus_inv_def accounted_for_def note_foreign_def not_less split: option.split
        intro: order_trans [OF _ Suc_leI])
  show ?thesis using False bad good unknown foreign
    by (auto simp: parse_line_def Let_def may_carry_def split: option.split stream_verdict.split)
qed

lemma parse_lines_inv:
  "bus_inv pol file s \<Longrightarrow> bus_inv pol file (foldl (parse_line env pol file) s ls)"
  by (induction ls arbitrary: s) (simp_all add: parse_line_inv)

lemma start_inv: "bus_inv pol file (start_state c)"
  by (simp add: bus_inv_def start_state_def accounted_for_def new_report_def events_tally_def tally_of_def)

text \<open>One file.\<close>

definition file_sound :: "policy option \<Rightarrow> string \<Rightarrow> identity list \<Rightarrow> event list \<Rightarrow> bus_report \<Rightarrow> bool" where
  "file_sound pol file ids evs r \<longleftrightarrow>
     accounted_for r evs \<and> length (br_foreign r) \<le> max_foreign_pairs
     \<and> (\<forall>i \<in> set ids. may_carry pol file (i_source i)) \<and> (\<forall>e \<in> set evs. may_carry pol file (e_source e))
     \<and> e_identity ` set evs \<subseteq> i_id ` set ids"

lemma parse_bus_sound: "parse_bus env pol file data = (ids, evs, r) \<Longrightarrow> file_sound pol file ids evs r"
proof -
  assume run: "parse_bus env pol file data = (ids, evs, r)"
  define s where "s = foldl (parse_line env pol file) (start_state (verify_chain env data file)) (scan_lines data)"
  have "ids = st_identities s" "evs = st_events s" "r = finish_report s"
    using run by (simp_all add: parse_bus_def s_def Let_def)
  moreover have "bus_inv pol file s" unfolding s_def by (rule parse_lines_inv [OF start_inv])
  ultimately show ?thesis
    by (auto simp: file_sound_def bus_inv_def accounted_for_def finish_report_def)
qed

section \<open>Several files\<close>

lemma keep_new_ids:
  "foldl keep_new (as, hs, out) new = (as', hs', out') \<Longrightarrow>
     set as \<union> set hs \<subseteq> i_id ` set out \<Longrightarrow>
     set as' \<union> set hs' \<subseteq> i_id ` set out' \<and> set out \<subseteq> set out' \<and> set out' \<subseteq> set out \<union> set new
     \<and> i_id ` set new \<subseteq> i_id ` set out'"
proof (induction new arbitrary: as hs out)
  case (Cons i new)
  obtain as1 hs1 out1 where step: "keep_new (as, hs, out) i = (as1, hs1, out1)" using prod_cases3 by blast
  then have one: "set as1 \<union> set hs1 \<subseteq> i_id ` set out1" "set out \<subseteq> set out1" "set out1 \<subseteq> insert i (set out)"
    "i_id i \<in> i_id ` set out1"
    using Cons.prems(2) by (auto simp: keep_new_def split: if_splits)
  from Cons.prems(1) step have "foldl keep_new (as1, hs1, out1) new = (as', hs', out')" by simp
  from Cons.IH [OF this one(1)] one show ?case by auto
qed auto

lemma accounted_merge:
  assumes "accounted_for r evs" "accounted_for r' evs'"
  shows "accounted_for (merge_report r r') (evs @ evs')"
  using assms by (simp add: accounted_for_def merge_report_def tally_fold distinct_tally_fold)

definition load_sound :: "policy \<Rightarrow> string set \<Rightarrow> identity list \<Rightarrow> event list \<Rightarrow> bus_report \<Rightarrow> bool" where
  "load_sound p files ids evs r \<longleftrightarrow>
     accounted_for r evs \<and> length (br_foreign r) \<le> max_foreign_pairs
     \<and> (\<forall>i \<in> set ids. \<exists>f \<in> files. check p (stem_of f) (i_source i) \<noteq> Foreign)
     \<and> (\<forall>e \<in> set evs. \<exists>f \<in> files. check p (stem_of f) (e_source e) \<noteq> Foreign)
     \<and> e_identity ` set evs \<subseteq> i_id ` set ids"

lemma load_files_sound:
  "load_files env p readf paths (as, hs, ids) evs r = Inr (ids', evs', r') \<Longrightarrow>
     load_sound p files ids evs r \<Longrightarrow> set as \<union> set hs \<subseteq> i_id ` set ids \<Longrightarrow>
     load_sound p (files \<union> set paths) ids' evs' r'"
proof (induction paths arbitrary: as hs ids evs r files)
  case (Cons path paths)
  obtain data where data: "readf path = Inr data" using Cons.prems(1) by (auto split: sum.splits)
  obtain nids nevs nr where parse: "parse_bus env (Some p) path data = (nids, nevs, nr)" using prod_cases3 by blast
  obtain as1 hs1 out1 where fold: "foldl keep_new (as, hs, ids) nids = (as1, hs1, out1)" using prod_cases3 by blast
  have keep: "set as1 \<union> set hs1 \<subseteq> i_id ` set out1" "set ids \<subseteq> set out1" "set out1 \<subseteq> set ids \<union> set nids"
    "i_id ` set nids \<subseteq> i_id ` set out1"
    using keep_new_ids [OF fold Cons.prems(3)] by auto
  have new: "file_sound (Some p) path nids nevs nr" by (rule parse_bus_sound [OF parse])
  have "load_sound p (insert path files) out1 (evs @ nevs) (merge_report r nr)"
    unfolding load_sound_def
  proof (intro conjI)
    show "accounted_for (merge_report r nr) (evs @ nevs)"
      using Cons.prems(2) new by (auto simp: load_sound_def file_sound_def intro: accounted_merge)
    show "length (br_foreign (merge_report r nr)) \<le> max_foreign_pairs"
      using Cons.prems(2) by (auto simp: load_sound_def merge_report_def)
    show "\<forall>i \<in> set out1. \<exists>f \<in> insert path files. check p (stem_of f) (i_source i) \<noteq> Foreign"
      using Cons.prems(2) new keep(3) by (fastforce simp: load_sound_def file_sound_def may_carry_def)
    show "\<forall>e \<in> set (evs @ nevs). \<exists>f \<in> insert path files. check p (stem_of f) (e_source e) \<noteq> Foreign"
      using Cons.prems(2) new by (fastforce simp: load_sound_def file_sound_def may_carry_def)
    show "e_identity ` set (evs @ nevs) \<subseteq> i_id ` set out1"
    proof -
      have old: "e_identity ` set evs \<subseteq> i_id ` set ids" and added: "e_identity ` set nevs \<subseteq> i_id ` set nids"
        using Cons.prems(2) new by (simp_all add: load_sound_def file_sound_def)
      show ?thesis
        unfolding set_append image_Un
        by (intro Un_least subset_trans [OF old image_mono [OF keep(2)]] subset_trans [OF added keep(4)])
    qed
  qed
  from Cons.IH [OF _ this keep(1)] Cons.prems(1) show ?case by (simp add: data parse fold)
qed simp

text \<open>Which files a load reads.\<close>

definition read_by :: "(string \<Rightarrow> string + string list) \<Rightarrow> string \<Rightarrow> string set" where
  "read_by glob pattern =
     (case glob pattern of Inl err \<Rightarrow> {} | Inr matches \<Rightarrow> if matches = [] then {pattern} else set matches)"

lemma load_files_fails:
  "(\<exists>err. load_files env p readf paths acc evs r = Inl err) \<longleftrightarrow> (\<exists>f \<in> set paths. \<exists>err. readf f = Inl err)"
proof (induction paths arbitrary: acc evs r)
  case Nil
  obtain a b c where "acc = (a, b, c)" using prod_cases3 by blast
  then show ?case by simp
next
  case (Cons path paths)
  show ?case
  proof (cases "readf path")
    case (Inr data)
    obtain ni ne nr where "parse_bus env (Some p) path data = (ni, ne, nr)" using prod_cases3 by blast
    with Inr show ?thesis by (simp add: Cons.IH)
  qed simp
qed


text \<open>A forged line in the file of another plane.\<close>

definition sample_envelope :: "string \<Rightarrow> envelope" where
  "sample_envelope source =
     \<lparr>en_ts = ''t'', en_source = source, en_type = ''policy_deny'', en_agent = ''agent://a/x'', en_on_behalf_of = [],
      en_severity = ''high''\<rparr>"

definition sample_bus_env :: bus_env where
  "sample_bus_env =
     \<lparr>be_unmarshal = (\<lambda>l. if l = ''a'' then Some (sample_envelope ''tokenfuse'') else Some (sample_envelope ''wardryx'')),
      be_time = (\<lambda>_. Some (0, 0)), be_claimed = (\<lambda>_. False), be_verify = (\<lambda>_. None)\<rparr>"


section \<open>Two limits\<close>

text \<open>
  A line the scanner's buffer does not hold ends the scan: it and all that follows are read by nobody and
  counted by nothing, although the loop is meant to skip a bad line and go on.
\<close>

lemma overlong_line_hides_the_rest:
  assumes "max_line \<le> length l" "CHR 10 \<notin> set l"
  shows "scan_lines (l @ CHR 10 # rest) = []"
proof -
  have "split_on (CHR 10) (l @ CHR 10 # rest) = l # split_on (CHR 10) rest"
    using assms(2) by (induction l) auto
  moreover have "(if last (l # split_on (CHR 10) rest) = [] then butlast (l # split_on (CHR 10) rest)
      else l # split_on (CHR 10) rest) = l # (if last (split_on (CHR 10) rest) = [] then butlast (split_on (CHR 10) rest)
      else split_on (CHR 10) rest)"
    by simp
  ultimately show ?thesis using assms(1) by (simp add: scan_lines_def Let_def)
qed

text \<open>Only the first envelope of an agent gives its delegation chain; what later ones say is left out.\<close>

lemma later_delegation_ignored:
  "en_agent e \<in> set (st_agents s) \<Longrightarrow> add_agent env e s = s"
  by (simp add: add_agent_def)

text \<open>The load is silent on stderr exactly when there is nothing to say.\<close>

lemma stderr_summary_silent:
  "stderr_summary r = [] \<longleftrightarrow> br_malformed r = 0 \<and> br_unknown_types r = [] \<and> unread_sources r = []"
proof -
  have sort: "sort (map fst m) = [] \<longleftrightarrow> m = []" for m :: "(string \<times> nat) list"
    by (metis list.map_disc_iff set_empty set_sort)

  show ?thesis
    by (auto simp: stderr_summary_def sort Let_def)
qed

end
