(* ===== verification/Pull_Request.thy ===== *)
theory Pull_Request
  imports Artifacts
begin

text \<open>
  \<^verbatim>\<open>internal/enforce\<close>: the remediation artifacts as a pull request. The runner of external commands is a
  parameter: a function from a command and the world to its output, its error if there was one, and the
  world after it. The state keeps, beside the world and the artifact directory, the actions taken so far
  and whether each succeeded.
\<close>

section \<open>Commands and state\<close>

record command =
  cm_dir :: string
  cm_name :: string
  cm_args :: "string list"

datatype action = Ran command | Wrote string

record 'w repo =
  rp_world :: 'w
  rp_files :: files
  rp_log :: "(action \<times> bool) list"

type_synonym 'w runner = "command \<Rightarrow> 'w \<times> files \<Rightarrow> (string \<times> string option) \<times> 'w \<times> files"

datatype pr_error =
    NoRemediations
  | RepoDirRequired
  | NotARepository string
  | UncommittedChanges string
  | NotAuthenticated string string
  | CommandFailed command string string
  | ArtifactsFailed string

record pr_options =
  po_repo :: string
  po_subdir :: string
  po_base :: string
  po_branch :: string
  po_title :: string
  po_body :: string

type_synonym ('w, 'a) pr = "'w repo \<Rightarrow> (pr_error + 'a) \<times> 'w repo"

text \<open>A step, and what follows it when it did not return an error.\<close>

definition and_then :: "('w, 'a) pr \<Rightarrow> ('a \<Rightarrow> ('w, 'b) pr) \<Rightarrow> ('w, 'b) pr" where
  "and_then m f st = (case m st of (Inl e, st) \<Rightarrow> (Inl e, st) | (Inr x, st) \<Rightarrow> f x st)"

definition call :: "'w runner \<Rightarrow> command \<Rightarrow> (string \<Rightarrow> string \<Rightarrow> pr_error) \<Rightarrow> ('w, string) pr" where
  "call run c failure st =
     (let ((out, err), w, fs) = run c (rp_world st, rp_files st)
      in (case err of Some e \<Rightarrow> Inl (failure e out) | None \<Rightarrow> Inr out,
          \<lparr>rp_world = w, rp_files = fs, rp_log = rp_log st @ [(Ran c, err = None)]\<rparr>))"

definition git :: "string \<Rightarrow> string list \<Rightarrow> command" where
  "git dir args = \<lparr>cm_dir = dir, cm_name = ''git'', cm_args = args\<rparr>"

definition gh :: "string \<Rightarrow> string list \<Rightarrow> command" where
  "gh dir args = \<lparr>cm_dir = dir, cm_name = ''gh'', cm_args = args\<rparr>"

definition fail_with :: "pr_error \<Rightarrow> ('w, 'a) pr" where
  "fail_with e st = (Inl e, st)"

definition done_with :: "'a \<Rightarrow> ('w, 'a) pr" where
  "done_with x st = (Inr x, st)"

section \<open>Preflight\<close>

definition is_work_tree :: "string \<Rightarrow> command" where
  "is_work_tree dir = git dir [''rev-parse'', ''--is-inside-work-tree'']"

definition tree_status :: "string \<Rightarrow> command" where
  "tree_status dir = git dir [''status'', ''--porcelain'']"

definition auth_status :: "string \<Rightarrow> command" where
  "auth_status dir = gh dir [''auth'', ''status'']"

definition preflight :: "'w runner \<Rightarrow> string \<Rightarrow> ('w, unit) pr" where
  "preflight run dir =
     and_then (call run (is_work_tree dir) (\<lambda>_ _. NotARepository dir)) (\<lambda>_.
     and_then (call run (tree_status dir) (CommandFailed (tree_status dir))) (\<lambda>out.
     if trim_space out \<noteq> [] then fail_with (UncommittedChanges dir)
     else and_then (call run (auth_status dir) NotAuthenticated) (\<lambda>_. done_with ())))"

section \<open>The pull request\<close>

definition write_step :: "(artifact list \<Rightarrow> string) \<Rightarrow> disk \<Rightarrow> string \<Rightarrow> recommendation list \<Rightarrow> ('w, unit) pr" where
  "write_step encode d subdir recs st =
     (let (res, fs) = write_artifacts encode d recs (rp_files st)
      in (case res of Inl e \<Rightarrow> Inl (ArtifactsFailed e) | Inr _ \<Rightarrow> Inr (),
          st\<lparr>rp_files := fs, rp_log := rp_log st @ [(Wrote subdir, \<exists>m. res = Inr m)]\<rparr>))"

definition show_int :: "int \<Rightarrow> string" where
  "show_int n = (if n < 0 then ''-'' @ utoa (nat (- n)) else utoa (nat n))"

definition default_body :: "recommendation list \<Rightarrow> string" where
  "default_body recs =
     line ''Automated least-privilege and credential-rotation remediations proposed by idryx.'' @ line [] @
     ''idryx is read-only against your cloud and IdP '' @ [CHR 0xE2, CHR 0x80, CHR 0x94] @ '' this PR is a proposal. '' @
     line ''The files under the artifacts directory are human-readable proposed diffs, not drop-in Terraform: review each one, fold the change into your own configuration, and apply through your normal plan/apply workflow.'' @
     line [] @
     concat (map (\<lambda>r. line (''- **'' @ rc_identity r @ ''** (`'' @ rc_kind r @ ''`): '' @ rc_explanation r)) recs)"

definition or_else :: "string \<Rightarrow> string \<Rightarrow> string" where
  "or_else s fallback = (if s = [] then fallback else s)"

text \<open>The options with their defaults filled in, at the time \<open>t\<close>.\<close>

definition with_defaults :: "int \<Rightarrow> recommendation list \<Rightarrow> pr_options \<Rightarrow> pr_options" where
  "with_defaults t recs opts =
     opts\<lparr>po_subdir := or_else (po_subdir opts) ''idryx'',
          po_base := or_else (po_base opts) ''main'',
          po_branch := or_else (po_branch opts) (''idryx/remediation-'' @ show_int (t div Second)),
          po_title := or_else (po_title opts)
            (''idryx: least-privilege & rotation remediations ('' @ utoa (length recs) @ '')''),
          po_body := or_else (po_body opts) (default_body recs)\<rparr>"

definition checkout :: "pr_options \<Rightarrow> command" where
  "checkout po = git (po_repo po) [''checkout'', ''-b'', po_branch po]"

definition stage :: "pr_options \<Rightarrow> command" where
  "stage po = git (po_repo po) [''add'', po_subdir po]"

definition commit_all :: "pr_options \<Rightarrow> command" where
  "commit_all po = git (po_repo po) [''commit'', ''-m'', po_title po]"

definition push :: "pr_options \<Rightarrow> command" where
  "push po = git (po_repo po) [''push'', ''-u'', ''origin'', po_branch po]"

definition pr_create :: "pr_options \<Rightarrow> command" where
  "pr_create po =
     gh (po_repo po) [''pr'', ''create'', ''--base'', po_base po, ''--head'', po_branch po, ''--title'', po_title po,
       ''--body'', po_body po]"

definition open_pr :: "'w runner \<Rightarrow> (artifact list \<Rightarrow> string) \<Rightarrow> disk \<Rightarrow> int \<Rightarrow> recommendation list \<Rightarrow> pr_options \<Rightarrow> ('w, string) pr" where
  "open_pr run encode d t recs opts =
     (if recs = [] then fail_with NoRemediations
      else if po_repo opts = [] then fail_with RepoDirRequired
      else
        let po = with_defaults t recs opts; git_call = (\<lambda>c. call run c (CommandFailed c)) in
        and_then (preflight run (po_repo po)) (\<lambda>_.
        and_then (git_call (checkout po)) (\<lambda>_.
        and_then (write_step encode d (po_subdir po) recs) (\<lambda>_.
        and_then (git_call (stage po)) (\<lambda>_.
        and_then (git_call (commit_all po)) (\<lambda>_.
        and_then (git_call (push po)) (\<lambda>_.
        and_then (git_call (pr_create po)) (\<lambda>out.
        done_with (trim_space out)))))))))"

section \<open>Scripts\<close>

text \<open>
  A process follows a script when it takes a prefix of the script's actions: all of them, every one
  successful, when it returns; and none after the first that fails.
\<close>

definition follows :: "('w, 'a) pr \<Rightarrow> action list \<Rightarrow> bool" where
  "follows m script \<longleftrightarrow> (\<forall>st. \<exists>new. rp_log (snd (m st)) = rp_log st @ new
     \<and> prefix (map fst new) script \<and> list_all snd (butlast new)
     \<and> (\<forall>x. fst (m st) = Inr x \<longrightarrow> map fst new = script \<and> list_all snd new))"

lemma follows_done [simp]: "follows (done_with x) []"
  by (simp add: follows_def done_with_def)

lemma follows_fail [simp]: "follows (fail_with e) script"
  by (simp add: follows_def fail_with_def)

lemma follows_call: "follows (call run c failure) [Ran c]"
  by (auto simp: follows_def call_def Let_def split: prod.splits option.splits)

lemma follows_write: "follows (write_step encode d sub recs) [Wrote sub]"
  by (auto simp: follows_def write_step_def Let_def split: prod.splits sum.splits)

lemma follows_and_then:
  assumes m: "follows m s1" and f: "\<And>x. follows (f x) s2"
  shows "follows (and_then m f) (s1 @ s2)"
  unfolding follows_def
proof
  fix st
  obtain new1 where n1: "rp_log (snd (m st)) = rp_log st @ new1" "prefix (map fst new1) s1" "list_all snd (butlast new1)"
    "\<forall>x. fst (m st) = Inr x \<longrightarrow> map fst new1 = s1 \<and> list_all snd new1"
    using m unfolding follows_def by blast
  show "\<exists>new. rp_log (snd (and_then m f st)) = rp_log st @ new \<and> prefix (map fst new) (s1 @ s2) \<and> list_all snd (butlast new)
     \<and> (\<forall>x. fst (and_then m f st) = Inr x \<longrightarrow> map fst new = s1 @ s2 \<and> list_all snd new)"
  proof (cases "m st")
    case (Pair res st1)
    show ?thesis
    proof (cases res)
      case (Inl e)
      then show ?thesis using n1 Pair by (intro exI [of _ new1]) (auto simp: and_then_def)
    next
      case (Inr x)
      obtain new2 where n2: "rp_log (snd (f x st1)) = rp_log st1 @ new2" "prefix (map fst new2) s2" "list_all snd (butlast new2)"
        "\<forall>y. fst (f x st1) = Inr y \<longrightarrow> map fst new2 = s2 \<and> list_all snd new2"
        using f unfolding follows_def by blast
      have done1: "map fst new1 = s1" "list_all snd new1" using n1(4) Pair Inr by auto
      have "list_all snd (butlast (new1 @ new2))" using done1(2) n1(3) n2(3) by (simp add: butlast_append)
      then show ?thesis
        using n1(1) n2 Pair Inr done1 by (intro exI [of _ "new1 @ new2"]) (auto simp: and_then_def)
    qed
  qed
qed

section \<open>The order of a pull request\<close>

definition preflight_script :: "string \<Rightarrow> action list" where
  "preflight_script dir = [Ran (is_work_tree dir), Ran (tree_status dir), Ran (auth_status dir)]"

definition pr_script :: "pr_options \<Rightarrow> action list" where
  "pr_script po =
     preflight_script (po_repo po) @
     [Ran (checkout po), Wrote (po_subdir po), Ran (stage po), Ran (commit_all po), Ran (push po), Ran (pr_create po)]"

lemma follows_sequel: "follows m [a] \<Longrightarrow> (\<And>x. follows (f x) s) \<Longrightarrow> follows (and_then m f) (a # s)"
  using follows_and_then [of m "[a]" f s] by simp

lemma follows_preflight: "follows (preflight run dir) (preflight_script dir)"
  unfolding preflight_def preflight_script_def
  by (intro follows_sequel follows_call) (simp add: follows_sequel follows_call)

lemma follows_open_pr: "follows (open_pr run encode d t recs opts) (pr_script (with_defaults t recs opts))"
proof -
  have repo: "po_repo (with_defaults t recs opts) = po_repo opts" by (simp add: with_defaults_def)
  show ?thesis
    unfolding open_pr_def Let_def pr_script_def
    by (auto intro!: follows_and_then [OF follows_preflight] follows_sequel follows_call follows_write simp: repo)
qed

lemma dirty_tree_stops:
  assumes "run (is_work_tree dir) (rp_world st, rp_files st) = (o1, w1, fs1)" "fst (fst (run (tree_status dir) (w1, fs1))) = out"
    and "trim_space out \<noteq> []"
  shows "\<exists>e st'. preflight run dir st = (Inl e, st')
    \<and> (\<exists>new. rp_log st' = rp_log st @ new \<and> set (map fst new) \<subseteq> {Ran (is_work_tree dir), Ran (tree_status dir)})"
  using assms
  by (auto simp: preflight_def and_then_def call_def fail_with_def Let_def split: prod.splits option.splits)

text \<open>
  C22: A pull request is opened by the script or not at all. Whatever the commands do, the actions taken are
  a prefix of the three checks, the new branch, the artifacts, staging, commit, push and the request; no
  action follows one that failed; a URL is returned only when the whole script succeeded. When a check
  fails nothing but the checks has been run, and when the tree is not clean not even the third of them:
  the branch is not created and no artifact is written.
\<close>

theorem pull_request_ordered:
  assumes "open_pr run encode d t recs opts st = (res, st')" and "rp_log st = []"
    and "po = with_defaults t recs opts"
  shows "prefix (map fst (rp_log st')) (pr_script po) \<and> list_all snd (butlast (rp_log st'))
    \<and> (\<forall>url. res = Inr url \<longrightarrow> map fst (rp_log st') = pr_script po \<and> list_all snd (rp_log st'))
    \<and> (\<forall>e st1. preflight run (po_repo po) st = (Inl e, st1) \<longrightarrow> set (map fst (rp_log st')) \<subseteq> set (preflight_script (po_repo po)))
    \<and> (\<forall>o1 w1 fs1 out. run (is_work_tree (po_repo po)) (rp_world st, rp_files st) = (o1, w1, fs1) \<longrightarrow>
         fst (fst (run (tree_status (po_repo po)) (w1, fs1))) = out \<longrightarrow> trim_space out \<noteq> [] \<longrightarrow>
         set (map fst (rp_log st')) \<subseteq> {Ran (is_work_tree (po_repo po)), Ran (tree_status (po_repo po))})"
proof -
  obtain new where log: "rp_log (snd (open_pr run encode d t recs opts st)) = rp_log st @ new" "prefix (map fst new) (pr_script po)"
    "list_all snd (butlast new)"
    "\<forall>x. fst (open_pr run encode d t recs opts st) = Inr x \<longrightarrow> map fst new = pr_script po \<and> list_all snd new"
    using follows_open_pr [of run encode d t recs opts] unfolding follows_def assms(3) by blast
  have stop: "rp_log st' = [] \<or> rp_log st' = rp_log st1" if "preflight run (po_repo po) st = (Inl e, st1)" for e st1
    using assms that by (auto simp: open_pr_def fail_with_def Let_def and_then_def split: if_splits)
  have check: "\<exists>new. rp_log st1 = rp_log st @ new \<and> prefix (map fst new) (preflight_script (po_repo po))"
    if "preflight run (po_repo po) st = (Inl e, st1)" for e st1
    using follows_preflight [of run "po_repo po"] that unfolding follows_def by (metis snd_conv)
  have dirty: "set (map fst (rp_log st')) \<subseteq> {Ran (is_work_tree (po_repo po)), Ran (tree_status (po_repo po))}"
    if d: "run (is_work_tree (po_repo po)) (rp_world st, rp_files st) = (o1, w1, fs1)"
      "fst (fst (run (tree_status (po_repo po)) (w1, fs1))) = out" "trim_space out \<noteq> []" for o1 w1 fs1 out
  proof -
    obtain e st1 new where "preflight run (po_repo po) st = (Inl e, st1)" "rp_log st1 = rp_log st @ new"
      "set (map fst new) \<subseteq> {Ran (is_work_tree (po_repo po)), Ran (tree_status (po_repo po))}"
      using dirty_tree_stops [OF d] by blast
    with stop assms(2) show ?thesis by fastforce
  qed
  have early: "set (map fst (rp_log st')) \<subseteq> set (preflight_script (po_repo po))"
    if "preflight run (po_repo po) st = (Inl e, st1)" for e st1
    using stop [OF that] check [OF that] assms(2) set_mono_prefix by fastforce
  show ?thesis using log assms(1,2) early dirty by simp
qed

text \<open>A repository with an uncommitted file.\<close>

definition sample_runner :: "unit runner" where
  "sample_runner c w = ((if cm_args c = [''status'', ''--porcelain''] then '' M main.tf'' else [], None), w)"

definition sample_options :: pr_options where
  "sample_options = \<lparr>po_repo = ''/iac'', po_subdir = [], po_base = [], po_branch = [], po_title = [], po_body = []\<rparr>"

theorem pull_request_ordered_witness:
  "\<exists>res st'. open_pr sample_runner (\<lambda>_. []) \<lparr>dk_mkdir = None, dk_fails = \<lambda>_. None\<rparr> 0
       [\<lparr>rc_identity = ''a'', rc_kind = ''rotation'', rc_explanation = [], rc_code = []\<rparr>] sample_options
       \<lparr>rp_world = (), rp_files = [], rp_log = []\<rparr> = (res, st')
     \<and> Wrote ''idryx'' \<notin> set (map fst (rp_log st'))"
proof -
  let ?d = "\<lparr>dk_mkdir = None, dk_fails = \<lambda>_. None\<rparr>"
  let ?recs = "[\<lparr>rc_identity = ''a'', rc_kind = ''rotation'', rc_explanation = [], rc_code = []\<rparr>]"
  let ?st = "\<lparr>rp_world = (), rp_files = [], rp_log = []\<rparr>"
  obtain res st' where run: "open_pr sample_runner (\<lambda>_. []) ?d 0 ?recs sample_options ?st = (res, st')" by fastforce
  have "sample_runner (is_work_tree dir) w = (([], None), w)" "fst (fst (sample_runner (tree_status dir) w)) = '' M main.tf''" for dir w
    by (simp_all add: sample_runner_def is_work_tree_def tree_status_def git_def)
  moreover have "trim_space '' M main.tf'' \<noteq> []" by code_simp
  ultimately have "set (map fst (rp_log st')) \<subseteq> {Ran (is_work_tree (po_repo (with_defaults 0 ?recs sample_options))),
      Ran (tree_status (po_repo (with_defaults 0 ?recs sample_options)))}"
    using pull_request_ordered [OF run _ refl] by simp
  then have "Wrote ''idryx'' \<notin> set (map fst (rp_log st'))" by auto
  with run show ?thesis by blast
qed

end
