(* ===== verification/Load_Graph.thy ===== *)
theory Load_Graph
  imports Bus_Ingest Ingest_Cloud Ingest_Events Graph_Facts
begin

text \<open>
  The front half of every command in \<^verbatim>\<open>cmd/idryx/main.go\<close>: which inputs a command line names
  (\<^verbatim>\<open>inputArg\<close>, \<^verbatim>\<open>loadList.Set\<close>), whether its usage logs have something to enrich (\<^verbatim>\<open>checkUsageFlags\<close>), and
  the graph built from all of it (\<^verbatim>\<open>populate\<close>, \<^verbatim>\<open>buildGraph\<close>). Files, the glob, the decoders of
  \<^verbatim>\<open>encoding/json\<close>, the clock locations, the database snapshot and the directory walk of
  \<^verbatim>\<open>agent-passport\<close> are the fields of \<open>load_env\<close>.
\<close>

section \<open>What the command line names\<close>

record load_spec =
  ls_source :: string
  ls_path :: string
  ls_trail :: string
  ls_audit :: string

datatype load_error =
    Bad_Load string | Load_Alone | Db_Or_File | One_Input
  | Useless_With_Db string string | Useless_Without string string
  | Streams_Refused string stream_error | Bus_Failed string string
  | Unreadable string | Trail_Unreadable string | Audit_Unreadable string
  | Trail_Failed string | Audit_Failed string | Inventory_Failed string string | Log_Failed string string
  | Unknown_Source string | Db_Failed string | Passports_Failed string

definition set_load :: "load_spec list \<Rightarrow> string \<Rightarrow> load_error + load_spec list" where
  "set_load l v =
     (case index_byte v (CHR '':'') of
        None \<Rightarrow> Inl (Bad_Load v)
      | Some n \<Rightarrow>
          let src = take n v; path = drop (Suc n) v
          in if src = [] \<or> path = [] then Inl (Bad_Load v)
             else Inr (l @ [\<lparr>ls_source = src, ls_path = path, ls_trail = [], ls_audit = []\<rparr>]))"

fun set_loads :: "load_spec list \<Rightarrow> string list \<Rightarrow> load_error + load_spec list" where
  "set_loads l [] = Inr l"
| "set_loads l (v # vs) = (case set_load l v of Inl err \<Rightarrow> Inl err | Inr l' \<Rightarrow> set_loads l' vs)"

definition input_arg :: "string list \<Rightarrow> string \<Rightarrow> load_spec list \<Rightarrow> load_error + string" where
  "input_arg args db loads =
     (if loads \<noteq> [] then (if db \<noteq> [] \<or> args \<noteq> [] then Inl Load_Alone else Inr [])
      else if db \<noteq> [] \<and> args = [] then Inr []
      else if db \<noteq> [] then Inl Db_Or_File
      else case args of [path] \<Rightarrow> Inr path | _ \<Rightarrow> Inl One_Input)"

definition privileged_set :: "string \<Rightarrow> string list" where
  "privileged_set csv = filter (\<lambda>p. p \<noteq> []) (map trim_space (split_on (CHR '','') csv))"

definition usage_enrichment :: "(string \<times> string) list" where
  "usage_enrichment = [(''--cloudtrail'', ''aws_iam''), (''--gcp-audit'', ''gcp_iam'')]"

fun first_useless :: "(string \<times> string) list \<Rightarrow> (string \<Rightarrow> bool) \<Rightarrow> string \<Rightarrow> string \<Rightarrow> string \<Rightarrow> load_error option" where
  "first_useless [] present db trail audit = None"
| "first_useless ((flg, src) # us) present db trail audit =
     (let given = (if flg = ''--gcp-audit'' then audit else trail)
      in if given = [] \<or> present src then first_useless us present db trail audit
         else if db \<noteq> [] then Some (Useless_With_Db flg src)
         else Some (Useless_Without flg src))"

definition check_usage_flags :: "string \<Rightarrow> string \<Rightarrow> string \<Rightarrow> string \<Rightarrow> load_spec list \<Rightarrow> load_error option" where
  "check_usage_flags source db trail audit loads =
     (let present = (\<lambda>s. if loads \<noteq> [] then s \<in> ls_source ` set loads else db = [] \<and> s = source)
      in first_useless usage_enrichment present db trail audit)"

definition with_usage_paths :: "string \<Rightarrow> string \<Rightarrow> load_spec \<Rightarrow> load_spec" where
  "with_usage_paths trail audit spec =
     (let spec = (if ls_source spec = ''aws_iam'' \<and> ls_trail spec = [] then spec\<lparr>ls_trail := trail\<rparr> else spec)
      in if ls_source spec = ''gcp_iam'' \<and> ls_audit spec = [] then spec\<lparr>ls_audit := audit\<rparr> else spec)"

section \<open>Reading one source\<close>

record load_env =
  le_read :: "string \<Rightarrow> string + string"
  le_glob :: "string \<Rightarrow> string + string list"
  le_streams :: string
  le_bus :: bus_env
  le_zones :: "string \<Rightarrow> nat \<Rightarrow> time_env"
  le_okta :: "string \<Rightarrow> string + okta_event list"
  le_entra_envelope :: "string \<Rightarrow> string + entra_sign_in list option"
  le_entra_bare :: "string \<Rightarrow> string + entra_sign_in list"
  le_trail :: "string \<Rightarrow> string + ct_record list"
  le_egress :: "string \<Rightarrow> string + egress_entry list"
  le_aws :: "string \<Rightarrow> string + aws_principal list \<times> aws_principal list \<times> aws_managed_policy list"
  le_gcp :: "string \<Rightarrow> string + gcp_account list \<times> gcp_binding list"
  le_audit :: "string \<Rightarrow> string + audit_entry list"
  le_azure :: "string \<Rightarrow> string + azure_sp list \<times> azure_assignment list"
  le_agents :: "string \<Rightarrow> string + agent_record list"
  le_mcp :: "string \<Rightarrow> string + string list \<times> mcp_server list"
  le_passport :: "string \<Rightarrow> string + passport_doc"
  le_load_dir :: "string \<Rightarrow> (string \<Rightarrow> string + identity) \<Rightarrow> (identity \<Rightarrow> string) \<Rightarrow> string + identity list \<times> nat \<times> nat"
  le_snapshot :: "string \<Rightarrow> string + store"

definition agent_bus_sources :: "string list" where
  "agent_bus_sources = [''tokenfuse'', ''wardryx'', ''mockryx'', ''verdryx'', ''scopyx'']"

definition load_agent_bus :: "load_env \<Rightarrow> string \<Rightarrow> string \<Rightarrow> load_error + identity list \<times> event list \<times> bus_report" where
  "load_agent_bus env source path =
     (case parse_extra (le_streams env) of
        Inl err \<Rightarrow> Inl (Streams_Refused source err)
      | Inr extra \<Rightarrow>
          case load_with (le_bus env) (le_glob env) (le_read env) path (Stream_Policy.extend default_policy extra) of
            Inl err \<Rightarrow> Inl (Bus_Failed source err)
          | Inr loaded \<Rightarrow> Inr loaded)"

definition aws_usage :: "load_env \<Rightarrow> time_env \<Rightarrow> string \<Rightarrow> string \<Rightarrow> string + identity list" where
  "aws_usage env z data ct =
     (case le_aws env data of
        Inl err \<Rightarrow> Inl err
      | Inr (users, roles, policies) \<Rightarrow>
          case le_trail env ct of
            Inl err \<Rightarrow> Inl err
          | Inr records \<Rightarrow> Inr (aws_iam_with_usage z users roles policies records))"

definition gcp_usage :: "load_env \<Rightarrow> string \<Rightarrow> string \<Rightarrow> string + identity list" where
  "gcp_usage env data au =
     (case le_gcp env data of
        Inl err \<Rightarrow> Inl err
      | Inr (accounts, bindings) \<Rightarrow>
          case le_audit env au of
            Inl err \<Rightarrow> Inl err
          | Inr audit \<Rightarrow> Inr (gcp_iam_with_usage accounts bindings audit))"

definition wrap_parse :: "string \<Rightarrow> string + 'a \<Rightarrow> load_error + 'a" where
  "wrap_parse source r = (case r of Inl err \<Rightarrow> Inl (Inventory_Failed source err) | Inr x \<Rightarrow> Inr x)"

text \<open>\<open>None\<close> when the name is no inventory source.\<close>

definition parse_inventory :: "load_env \<Rightarrow> (nat \<Rightarrow> time_env) \<Rightarrow> string \<Rightarrow> string \<Rightarrow> (load_error + identity list) option" where
  "parse_inventory env z source data =
     (if source = ''aws_iam'' then
        Some (wrap_parse source (map_sum id (\<lambda>(us, rs, ps). aws_iam (z 0) us rs ps) (le_aws env data)))
      else if source = ''gcp_iam'' then
        Some (wrap_parse source (map_sum id (\<lambda>(sas, bs). gcp_iam sas bs) (le_gcp env data)))
      else if source = ''azure'' then
        Some (wrap_parse source (map_sum id (\<lambda>(sps, ras). azure (z 0) sps ras) (le_azure env data)))
      else if source = ''agents'' then Some (wrap_parse source (map_sum id fst (agents (le_agents env) z data)))
      else if source = ''mcp'' then Some (wrap_parse source (mcp (le_mcp env) data))
      else None)"

definition parse_source :: "load_env \<Rightarrow> (nat \<Rightarrow> time_env) \<Rightarrow> string \<Rightarrow> string \<Rightarrow> load_error + event list" where
  "parse_source env z source data =
     (let log = map_sum (Log_Failed source) fst
      in if source = ''okta'' then log (okta (le_okta env) z data)
         else if source = ''entra'' then log (entra (le_entra_envelope env) (le_entra_bare env) z data)
         else if source = ''cloudtrail'' then log (cloud_trail (le_trail env) z data)
         else if source = ''egress'' then log (egress (le_egress env) z data)
         else Inl (Unknown_Source source))"

text \<open>What \<^verbatim>\<open>populate\<close> finds in a source before it adds anything to the graph.\<close>

definition read_spec :: "load_env \<Rightarrow> load_spec \<Rightarrow> load_error + identity list \<times> event list" where
  "read_spec env spec =
     (if ls_source spec \<in> set agent_bus_sources then
        map_sum id (\<lambda>(ids, evs, rep). (ids, evs)) (load_agent_bus env (ls_source spec) (ls_path spec))
      else case le_read env (ls_path spec) of
        Inl err \<Rightarrow> Inl (Unreadable err)
      | Inr data \<Rightarrow>
          let z = le_zones env (ls_path spec)
          in if ls_source spec = ''aws_iam'' \<and> ls_trail spec \<noteq> [] then
               (case le_read env (ls_trail spec) of
                  Inl err \<Rightarrow> Inl (Trail_Unreadable err)
                | Inr ct \<Rightarrow> map_sum Trail_Failed (\<lambda>ids. (ids, [])) (aws_usage env (z 0) data ct))
             else if ls_source spec = ''gcp_iam'' \<and> ls_audit spec \<noteq> [] then
               (case le_read env (ls_audit spec) of
                  Inl err \<Rightarrow> Inl (Audit_Unreadable err)
                | Inr au \<Rightarrow> map_sum Audit_Failed (\<lambda>ids. (ids, [])) (gcp_usage env data au))
             else case parse_inventory env z (ls_source spec) data of
                 Some r \<Rightarrow> map_sum id (\<lambda>ids. (ids, [])) r
               | None \<Rightarrow> map_sum id (\<lambda>evs. ([], evs)) (parse_source env z (ls_source spec) data))"

definition populate :: "load_env \<Rightarrow> load_spec \<Rightarrow> store \<Rightarrow> load_error + store" where
  "populate env spec g =
     (case read_spec env spec of
        Inl err \<Rightarrow> Inl err
      | Inr (ids, evs) \<Rightarrow> Inr (fold add_event evs (fold add_identity ids g)))"

section \<open>The graph of a run\<close>

fun populate_all :: "load_env \<Rightarrow> load_spec list \<Rightarrow> store \<Rightarrow> load_error + store" where
  "populate_all env [] g = Inr g"
| "populate_all env (spec # specs) g =
     (case populate env spec g of Inl err \<Rightarrow> Inl err | Inr g' \<Rightarrow> populate_all env specs g')"

definition load_passports :: "load_env \<Rightarrow> string \<Rightarrow> store \<Rightarrow> load_error + store" where
  "load_passports env dir g =
     (if dir = [] then Inr g
      else case le_load_dir env dir (parse_passport (le_passport env)) i_id of
        Inl err \<Rightarrow> Inl (Passports_Failed err)
      | Inr (ids, files, bad) \<Rightarrow> Inr (fold add_identity ids g))"

record build_args =
  ba_source :: string
  ba_privileged :: string
  ba_path :: string
  ba_db :: string
  ba_trail :: string
  ba_audit :: string
  ba_passports :: string
  ba_loads :: "load_spec list"

definition build_graph :: "load_env \<Rightarrow> build_args \<Rightarrow> load_error + store" where
  "build_graph env a =
     (case check_usage_flags (ba_source a) (ba_db a) (ba_trail a) (ba_audit a) (ba_loads a) of
        Some err \<Rightarrow> Inl err
      | None \<Rightarrow>
          if ba_db a \<noteq> [] then
            (case le_snapshot env (ba_db a) of
               Inl err \<Rightarrow> Inl (Db_Failed err)
             | Inr snap \<Rightarrow> load_passports env (ba_passports a) (mark_privileged (privileged_set (ba_privileged a)) snap))
          else
            let g = new_store (privileged_set (ba_privileged a));
                specs = (if ba_loads a \<noteq> [] then map (with_usage_paths (ba_trail a) (ba_audit a)) (ba_loads a)
                         else [\<lparr>ls_source = ba_source a, ls_path = ba_path a, ls_trail = ba_trail a, ls_audit = ba_audit a\<rparr>])
            in case populate_all env specs g of Inl err \<Rightarrow> Inl err | Inr g' \<Rightarrow> load_passports env (ba_passports a) g')"

end
