(* ===== verification/Load_Facts.thy ===== *)
theory Load_Facts
  imports Load_Graph Graph_Keeps
begin

text \<open>
  What the graph of a run holds: everything its inputs said, nothing else, and nothing at all when one of
  them could not be read. A usage log that was given has been applied.
\<close>

section \<open>A run as a sequence of ingests\<close>

definition ops_of :: "identity list \<times> event list \<Rightarrow> ingest list" where
  "ops_of = (\<lambda>(ids, evs). map Identity_of ids @ map Event_of evs)"

lemma fold_identities: "fold add_identity ids g = fold apply_ingest (map Identity_of ids) g"
  by (induction ids arbitrary: g) simp_all

lemma fold_events: "fold add_event evs g = fold apply_ingest (map Event_of evs) g"
  by (induction evs arbitrary: g) simp_all

lemma populate_result:
  "populate env spec g =
     (case read_spec env spec of Inl err \<Rightarrow> Inl err | Inr r \<Rightarrow> Inr (fold apply_ingest (ops_of r) g))"
  by (simp add: populate_def fold_identities fold_events ops_of_def split: sum.splits prod.splits)

lemma populate_all_Inr:
  "populate_all env specs g = Inr g' \<longleftrightarrow>
     (\<exists>rs. map (read_spec env) specs = map Inr rs \<and> g' = fold apply_ingest (concat (map ops_of rs)) g)"
proof (induction specs arbitrary: g)
  case (Cons spec specs)
  show ?case
  proof (cases "read_spec env spec")
    case (Inr r)
    have "(\<exists>rs. map (read_spec env) (spec # specs) = map Inr rs \<and> g' = fold apply_ingest (concat (map ops_of rs)) g)
        \<longleftrightarrow> (\<exists>rs. map (read_spec env) specs = map Inr rs \<and> g' = fold apply_ingest (ops_of r @ concat (map ops_of rs)) g)"
      using Inr by (cases r) (auto simp: Cons_eq_map_conv)
    then show ?thesis using Inr Cons.IH [of "fold apply_ingest (ops_of r) g"] by (simp add: populate_result)
  qed (auto simp: populate_result Cons_eq_map_conv)
qed auto

lemma populate_all_Inl:
  "(\<exists>err. populate_all env specs g = Inl err) \<longleftrightarrow> (\<exists>spec \<in> set specs. \<exists>err. read_spec env spec = Inl err)"
proof (induction specs arbitrary: g)
  case (Cons spec specs)
  then show ?case by (cases "read_spec env spec") (auto simp: populate_result)
qed simp

text \<open>The sources of a run that reads no database, and the passports of one.\<close>

definition run_specs :: "build_args \<Rightarrow> load_spec list" where
  "run_specs a =
     (if ba_loads a \<noteq> [] then map (with_usage_paths (ba_trail a) (ba_audit a)) (ba_loads a)
      else [\<lparr>ls_source = ba_source a, ls_path = ba_path a, ls_trail = ba_trail a, ls_audit = ba_audit a\<rparr>])"

definition passport_ids :: "load_env \<Rightarrow> string \<Rightarrow> string + identity list" where
  "passport_ids env dir =
     (if dir = [] then Inr [] else map_sum id fst (le_load_dir env dir (parse_passport (le_passport env)) i_id))"

lemma load_passports_result:
  "load_passports env dir g =
     (case passport_ids env dir of Inl err \<Rightarrow> Inl (Passports_Failed err)
      | Inr ids \<Rightarrow> Inr (fold apply_ingest (map Identity_of ids) g))"
  by (simp add: load_passports_def passport_ids_def fold_identities split: sum.splits prod.splits)

definition flags_ok :: "build_args \<Rightarrow> bool" where
  "flags_ok a \<longleftrightarrow> check_usage_flags (ba_source a) (ba_db a) (ba_trail a) (ba_audit a) (ba_loads a) = None"

lemma build_graph_result:
  "ba_db a = [] \<Longrightarrow> build_graph env a =
     (case check_usage_flags (ba_source a) (ba_db a) (ba_trail a) (ba_audit a) (ba_loads a) of
        Some err \<Rightarrow> Inl err
      | None \<Rightarrow>
          case populate_all env (run_specs a) (new_store (privileged_set (ba_privileged a))) of
            Inl err \<Rightarrow> Inl err
          | Inr g \<Rightarrow> load_passports env (ba_passports a) g)"
  by (simp add: build_graph_def run_specs_def Let_def split: option.splits)

lemma build_graph_Inr:
  assumes "build_graph env a = Inr g" "ba_db a = []"
  obtains rs ids where "flags_ok a" "map (read_spec env) (run_specs a) = map Inr rs" "passport_ids env (ba_passports a) = Inr ids"
    "g = fold apply_ingest (concat (map ops_of rs) @ map Identity_of ids) (new_store (privileged_set (ba_privileged a)))"
proof -
  let ?g0 = "new_store (privileged_set (ba_privileged a))"
  from assms obtain g1 ids where flags: "flags_ok a" and pop: "populate_all env (run_specs a) ?g0 = Inr g1"
    and pass: "passport_ids env (ba_passports a) = Inr ids" "g = fold apply_ingest (map Identity_of ids) g1"
    by (auto simp: build_graph_result flags_ok_def load_passports_result split: option.splits sum.splits)
  from pop obtain rs where "map (read_spec env) (run_specs a) = map Inr rs" "g1 = fold apply_ingest (concat (map ops_of rs)) ?g0"
    using populate_all_Inr by blast
  with that [of rs ids] flags pass show thesis by simp
qed

lemma map_Inr_read: "map f xs = map Inr rs \<Longrightarrow> x \<in> set xs \<Longrightarrow> \<exists>r \<in> set rs. f x = Inr r"
  by (metis (no_types, lifting) image_iff list.set_map)

lemma map_Inr_from: "map f xs = map Inr rs \<Longrightarrow> r \<in> set rs \<Longrightarrow> \<exists>x \<in> set xs. f x = Inr r"
  by (metis (no_types, lifting) image_iff list.set_map)


section \<open>The graph holds what was read\<close>

definition named_by :: "load_env \<Rightarrow> build_args \<Rightarrow> string \<Rightarrow> bool" where
  "named_by env a k \<longleftrightarrow>
     (\<exists>spec \<in> set (run_specs a). \<exists>ids evs. read_spec env spec = Inr (ids, evs) \<and> k \<in> i_id ` set ids \<union> e_identity ` set evs)
     \<or> (\<exists>ids. passport_ids env (ba_passports a) = Inr ids \<and> k \<in> i_id ` set ids)"

lemma build_graph_fails:
  assumes "ba_db a = []"
  shows "(\<exists>err. build_graph env a = Inl err) \<longleftrightarrow>
    \<not> flags_ok a \<or> (\<exists>spec \<in> set (run_specs a). \<exists>err. read_spec env spec = Inl err)
    \<or> (\<exists>err. passport_ids env (ba_passports a) = Inl err)"
  using populate_all_Inl [of env "run_specs a" "new_store (privileged_set (ba_privileged a))"]
  by (auto simp: build_graph_result [OF assms] flags_ok_def load_passports_result split: option.splits sum.splits)

lemma build_graph_named:
  assumes "build_graph env a = Inr g" "ba_db a = []" "j \<in> set (fst (identities g))"
  shows "named_by env a (i_id j)"
  using assms(1,2)
proof (rule build_graph_Inr)
  fix rs ids
  assume rs: "map (read_spec env) (run_specs a) = map Inr rs" and ids: "passport_ids env (ba_passports a) = Inr ids"
    and g: "g = fold apply_ingest (concat (map ops_of rs) @ map Identity_of ids) (new_store (privileged_set (ba_privileged a)))"
  have "Some (i_id j) \<in> names ` set (concat (map ops_of rs) @ map Identity_of ids)"
    using read_identity_named assms(3) unfolding g by blast
  then consider r where "r \<in> set rs" "Some (i_id j) \<in> names ` set (ops_of r)" | "i_id j \<in> i_id ` set ids" by auto
  then show ?thesis
  proof cases
    case (1 r)
    obtain inv es where r: "r = (inv, es)" by (cases r)
    from 1(2) have "i_id j \<in> i_id ` set inv \<union> e_identity ` set es" by (auto simp: r ops_of_def)
    with map_Inr_from [OF rs 1(1)] show ?thesis unfolding named_by_def r by blast
  next
    case 2
    with ids show ?thesis unfolding named_by_def by blast
  qed
qed

lemma build_graph_carries:
  assumes "build_graph env a = Inr g" "ba_db a = []" "spec \<in> set (run_specs a)"
  shows "\<exists>ids evs. read_spec env spec = Inr (ids, evs)
    \<and> (\<forall>i \<in> set ids. \<exists>j \<in> set (fst (identities g)). carries j i)
    \<and> (\<forall>e \<in> set evs. \<exists>j \<in> set (fst (identities g)). i_id j = e_identity e \<and> e \<in> set (i_events j))"
  using assms(1,2)
proof (rule build_graph_Inr)
  fix rs ps
  assume rs: "map (read_spec env) (run_specs a) = map Inr rs"
    and g: "g = fold apply_ingest (concat (map ops_of rs) @ map Identity_of ps) (new_store (privileged_set (ba_privileged a)))"
  let ?ops = "concat (map ops_of rs) @ map Identity_of ps"
  obtain ids evs where r: "read_spec env spec = Inr (ids, evs)" "(ids, evs) \<in> set rs"
    using map_Inr_read [OF rs assms(3)] by fast
  have "\<exists>j \<in> set (fst (identities g)). carries j i" if "i \<in> set ids" for i
  proof -
    have "Identity_of i \<in> set ?ops" using r(2) that by (force simp: ops_of_def)
    then show ?thesis unfolding g by (rule loaded_identity_read [OF wf_new])
  qed
  moreover have "\<exists>j \<in> set (fst (identities g)). i_id j = e_identity e \<and> e \<in> set (i_events j)" if "e \<in> set evs" for e
  proof -
    have "Event_of e \<in> set ?ops" using r(2) that by (force simp: ops_of_def)
    then show ?thesis unfolding g by (rule loaded_event_read)
  qed
  ultimately show ?thesis using r(1) by blast
qed

lemma build_graph_wf:
  assumes "build_graph env a = Inr g" "ba_db a = []"
  shows "wf_store g"
  using assms by (rule build_graph_Inr) (simp add: wf_ingests wf_new del: fold_append)


section \<open>A usage log is never ignored\<close>

definition plain :: "load_spec \<Rightarrow> bool" where
  "plain s \<longleftrightarrow> ls_trail s = [] \<and> ls_audit s = []"

lemma set_load_plain: "set_load l v = Inr l' \<Longrightarrow> list_all plain l \<Longrightarrow> list_all plain l'"
  by (auto simp: set_load_def plain_def Let_def split: option.splits if_splits)

lemma set_loads_plain: "set_loads l vs = Inr loads \<Longrightarrow> list_all plain l \<Longrightarrow> list_all plain loads"
proof (induction vs arbitrary: l)
  case (Cons v vs)
  then obtain l' where "set_load l v = Inr l'" "set_loads l' vs = Inr loads" by (auto split: sum.splits)
  with Cons.IH [of l'] set_load_plain [of l v l'] Cons.prems(2) show ?case by simp
qed simp

lemma input_db: "input_arg args db loads = Inr path \<Longrightarrow> db \<noteq> [] \<Longrightarrow> loads = []"
  by (auto simp: input_arg_def split: if_splits)

lemma with_usage_paths_trail:
  "ls_source s = ''aws_iam'' \<Longrightarrow> ls_trail s = [] \<Longrightarrow>
     ls_source (with_usage_paths trail audit s) = ''aws_iam'' \<and> ls_trail (with_usage_paths trail audit s) = trail"
  by (simp add: with_usage_paths_def Let_def)

lemma with_usage_paths_audit:
  "ls_source s = ''gcp_iam'' \<Longrightarrow> ls_audit s = [] \<Longrightarrow>
     ls_source (with_usage_paths trail audit s) = ''gcp_iam'' \<and> ls_audit (with_usage_paths trail audit s) = audit"
  by (simp add: with_usage_paths_def Let_def)

lemma flags_ok_present:
  assumes "flags_ok a"
  shows "ba_trail a \<noteq> [] \<Longrightarrow> if ba_loads a \<noteq> [] then ''aws_iam'' \<in> ls_source ` set (ba_loads a) else ba_db a = [] \<and> ba_source a = ''aws_iam''"
    and "ba_audit a \<noteq> [] \<Longrightarrow> if ba_loads a \<noteq> [] then ''gcp_iam'' \<in> ls_source ` set (ba_loads a) else ba_db a = [] \<and> ba_source a = ''gcp_iam''"
  using assms by (auto simp: flags_ok_def check_usage_flags_def usage_enrichment_def Let_def split: if_splits)

lemma flags_ok_trail:
  assumes "flags_ok a" "ba_trail a \<noteq> []" "ba_db a \<noteq> [] \<longrightarrow> ba_loads a = []" "\<forall>s \<in> set (ba_loads a). ls_trail s = []"
  shows "ba_db a = [] \<and> (\<exists>s \<in> set (run_specs a). ls_source s = ''aws_iam'' \<and> ls_trail s = ba_trail a)"
proof (cases "ba_loads a = []")
  case True
  then show ?thesis using flags_ok_present(1) [OF assms(1,2)] by (simp add: run_specs_def)
next
  case False
  then obtain s where "s \<in> set (ba_loads a)" "ls_source s = ''aws_iam''"
    using flags_ok_present(1) [OF assms(1,2)] by auto
  with False assms(3,4) with_usage_paths_trail [of s "ba_trail a" "ba_audit a"] show ?thesis
    unfolding run_specs_def by auto
qed

lemma flags_ok_audit:
  assumes "flags_ok a" "ba_audit a \<noteq> []" "ba_db a \<noteq> [] \<longrightarrow> ba_loads a = []" "\<forall>s \<in> set (ba_loads a). ls_audit s = []"
  shows "ba_db a = [] \<and> (\<exists>s \<in> set (run_specs a). ls_source s = ''gcp_iam'' \<and> ls_audit s = ba_audit a)"
proof (cases "ba_loads a = []")
  case True
  then show ?thesis using flags_ok_present(2) [OF assms(1,2)] by (simp add: run_specs_def)
next
  case False
  then obtain s where "s \<in> set (ba_loads a)" "ls_source s = ''gcp_iam''"
    using flags_ok_present(2) [OF assms(1,2)] by auto
  with False assms(3,4) with_usage_paths_audit [of s "ba_trail a" "ba_audit a"] show ?thesis
    unfolding run_specs_def by auto
qed

lemma read_aws_usage:
  assumes "read_spec env s = Inr (ids, evs)" "ls_source s = ''aws_iam''" "ls_trail s \<noteq> []"
  shows "\<exists>data ct. le_read env (ls_path s) = Inr data \<and> le_read env (ls_trail s) = Inr ct
    \<and> aws_usage env (le_zones env (ls_path s) 0) data ct = Inr ids"
  using assms by (auto simp: read_spec_def agent_bus_sources_def Let_def split: sum.splits)
    (auto simp: map_sum_def split: sum.splits)

lemma read_gcp_usage:
  assumes "read_spec env s = Inr (ids, evs)" "ls_source s = ''gcp_iam''" "ls_audit s \<noteq> []"
  shows "\<exists>data au. le_read env (ls_path s) = Inr data \<and> le_read env (ls_audit s) = Inr au \<and> gcp_usage env data au = Inr ids"
  using assms by (auto simp: read_spec_def agent_bus_sources_def Let_def split: sum.splits)
    (auto simp: map_sum_def split: sum.splits)

text \<open>
  C19: A usage log on the command line is applied or the run is refused. Whatever else is given, a run that
  has been accepted with \<^verbatim>\<open>--cloudtrail\<close> has read that log, next to an AWS inventory, and the graph carries
  the entries of that inventory with the permissions the log shows in use marked; likewise
  \<^verbatim>\<open>--gcp-audit\<close>. In particular the flag is never accepted beside \<^verbatim>\<open>--db\<close>.
\<close>

theorem usage_log_applied:
  assumes "set_loads [] flags = Inr (ba_loads a)" "input_arg args (ba_db a) (ba_loads a) = Inr (ba_path a)"
    and "build_graph env a = Inr g"
  shows "(ba_trail a \<noteq> [] \<longrightarrow> ba_db a = []
      \<and> (\<exists>path data ct ids. le_read env path = Inr data \<and> le_read env (ba_trail a) = Inr ct
          \<and> aws_usage env (le_zones env path 0) data ct = Inr ids
          \<and> (\<forall>i \<in> set ids. \<exists>j \<in> set (fst (identities g)). carries j i)))
    \<and> (ba_audit a \<noteq> [] \<longrightarrow> ba_db a = []
      \<and> (\<exists>path data au ids. le_read env path = Inr data \<and> le_read env (ba_audit a) = Inr au
          \<and> gcp_usage env data au = Inr ids
          \<and> (\<forall>i \<in> set ids. \<exists>j \<in> set (fst (identities g)). carries j i)))"
proof -
  have plain: "\<forall>s \<in> set (ba_loads a). ls_trail s = [] \<and> ls_audit s = []"
    using set_loads_plain [OF assms(1)] by (simp add: list_all_iff plain_def)
  have ok: "flags_ok a" using assms(3) by (auto simp: build_graph_def flags_ok_def split: option.splits)
  have db: "ba_db a \<noteq> [] \<longrightarrow> ba_loads a = []" using input_db [OF assms(2)] by blast
  show ?thesis
  proof (intro conjI impI)
    assume given: "ba_trail a \<noteq> []"
    then obtain s where none: "ba_db a = []" and s: "s \<in> set (run_specs a)" "ls_source s = ''aws_iam''" "ls_trail s = ba_trail a"
      using flags_ok_trail [OF ok _ db] plain by blast
    then show "ba_db a = []" by simp
    obtain ids evs where ids: "read_spec env s = Inr (ids, evs)" "\<forall>i \<in> set ids. \<exists>j \<in> set (fst (identities g)). carries j i"
      using build_graph_carries [OF assms(3) none s(1)] by blast
    show "\<exists>path data ct ids. le_read env path = Inr data \<and> le_read env (ba_trail a) = Inr ct
        \<and> aws_usage env (le_zones env path 0) data ct = Inr ids
        \<and> (\<forall>i \<in> set ids. \<exists>j \<in> set (fst (identities g)). carries j i)"
      using read_aws_usage [OF ids(1) s(2)] given ids(2) unfolding s(3) by blast
  next
    assume given: "ba_audit a \<noteq> []"
    then obtain s where none: "ba_db a = []" and s: "s \<in> set (run_specs a)" "ls_source s = ''gcp_iam''" "ls_audit s = ba_audit a"
      using flags_ok_audit [OF ok _ db] plain by blast
    then show "ba_db a = []" by simp
    obtain ids evs where ids: "read_spec env s = Inr (ids, evs)" "\<forall>i \<in> set ids. \<exists>j \<in> set (fst (identities g)). carries j i"
      using build_graph_carries [OF assms(3) none s(1)] by blast
    show "\<exists>path data au ids. le_read env path = Inr data \<and> le_read env (ba_audit a) = Inr au
        \<and> gcp_usage env data au = Inr ids
        \<and> (\<forall>i \<in> set ids. \<exists>j \<in> set (fst (identities g)). carries j i)"
      using read_gcp_usage [OF ids(1) s(2)] given ids(2) unfolding s(3) by blast
  qed
qed

text \<open>Two inventories stitched into one graph, with a CloudTrail log for one of them.\<close>

definition sample_load_env :: load_env where
  "sample_load_env =
     \<lparr>le_read = Inr, le_glob = (\<lambda>p. Inr [p]), le_streams = [],
      le_bus = \<lparr>be_unmarshal = (\<lambda>_. None), be_time = (\<lambda>_. None), be_claimed = (\<lambda>_. False), be_verify = (\<lambda>_. None)\<rparr>,
      le_zones = (\<lambda>_ _. \<lparr>te_location = (\<lambda>_. 0), te_general = (\<lambda>_. None)\<rparr>),
      le_okta = (\<lambda>_. Inr []), le_entra_envelope = (\<lambda>_. Inr None), le_entra_bare = (\<lambda>_. Inr []),
      le_trail = (\<lambda>_. Inr []), le_egress = (\<lambda>_. Inr []), le_aws = (\<lambda>_. Inr ([], [], [])),
      le_gcp = (\<lambda>_. Inr ([\<lparr>ga_email = ''ci'', ga_display = []\<rparr>], [])), le_audit = (\<lambda>_. Inr []),
      le_azure = (\<lambda>_. Inr ([], [])), le_agents = (\<lambda>_. Inl ''bad''), le_mcp = (\<lambda>_. Inr ([], [])),
      le_passport = (\<lambda>_. Inl ''bad''), le_load_dir = (\<lambda>_ _ _. Inr ([], 0, 0)), le_snapshot = (\<lambda>_. Inl ''none'')\<rparr>"

definition sample_args :: "load_spec list \<Rightarrow> build_args" where
  "sample_args loads =
     \<lparr>ba_source = ''okta'', ba_privileged = [], ba_path = [], ba_db = [], ba_trail = ''ct.json'', ba_audit = [],
      ba_passports = [], ba_loads = loads\<rparr>"

definition sample_loads :: "load_spec list" where
  "sample_loads =
     [\<lparr>ls_source = ''aws_iam'', ls_path = ''a.json'', ls_trail = [], ls_audit = []\<rparr>,
      \<lparr>ls_source = ''gcp_iam'', ls_path = ''g.json'', ls_trail = [], ls_audit = []\<rparr>]"

lemma sample_flags: "set_loads [] [''aws_iam:a.json'', ''gcp_iam:g.json''] = Inr (ba_loads (sample_args sample_loads))"
  by code_simp

lemma sample_graph: "\<exists>g. build_graph sample_load_env (sample_args sample_loads) = Inr g"
  by (simp add: build_graph_def sample_args_def sample_loads_def check_usage_flags_def usage_enrichment_def
      with_usage_paths_def populate_def read_spec_def agent_bus_sources_def sample_load_env_def aws_usage_def
      parse_inventory_def wrap_parse_def load_passports_def Let_def)


theorem usage_log_applied_witness:
  "\<exists>g path data ct ids. build_graph sample_load_env (sample_args sample_loads) = Inr g
     \<and> le_read sample_load_env path = Inr data \<and> le_read sample_load_env ''ct.json'' = Inr ct
     \<and> aws_usage sample_load_env (le_zones sample_load_env path 0) data ct = Inr ids"
proof -
  obtain g where g: "build_graph sample_load_env (sample_args sample_loads) = Inr g" using sample_graph by blast
  have "input_arg [] (ba_db (sample_args sample_loads)) (ba_loads (sample_args sample_loads)) = Inr (ba_path (sample_args sample_loads))"
    by code_simp
  from usage_log_applied [OF sample_flags this g, THEN conjunct1] g show ?thesis
    by (simp add: sample_args_def) blast
qed

end
