(* ===== verification/Webhook_Headers.thy ===== *)
theory Webhook_Headers
  imports Go_Strings Detect_Base "HOL-Library.AList" "HOL-Library.Word"
begin

text \<open>
  The headers of the webhook sink (\<^verbatim>\<open>cmd/idryx/main.go\<close>) and the rule for the file they may be read from
  (\<^verbatim>\<open>cmd/idryx/owner_rule.go\<close>). Opening, stating and reading the file are a parameter; a map of headers is
  an association list. \<^verbatim>\<open>http.CanonicalHeaderKey\<close> is written out for the byte strings it changes.
\<close>

unbundle bit_operations_syntax

section \<open>The owner rule\<close>

record header_stat =
  hs_mode :: "32 word"
  hs_uid :: int
  hs_regular :: bool

datatype header_error =
    Cannot_Open string | Cannot_Stat string string | Not_Regular string | Owner_Unknown string
  | Too_Open string "32 word" | Too_Open_Root string "32 word" | Foreign_Owner string int int
  | Cannot_Read string string | Bad_Line string nat | Bad_Header string

definition perm :: "32 word \<Rightarrow> 32 word" where
  "perm m = m AND 0x1FF"

text \<open>\<^verbatim>\<open>0o077\<close> is 63 and \<^verbatim>\<open>0o037\<close> is 31.\<close>

definition header_file_refusal :: "string \<Rightarrow> string \<Rightarrow> header_stat \<Rightarrow> int \<Rightarrow> header_error option" where
  "header_file_refusal goos path st euid =
     (if \<not> hs_regular st then Some (Not_Regular path)
      else if goos = ''windows'' then None
      else
        let p = perm (hs_mode st) in
        if hs_uid st < 0 then Some (Owner_Unknown path)
        else if hs_uid st = euid then (if p AND 63 \<noteq> 0 then Some (Too_Open path p) else None)
        else if hs_uid st = 0 then (if p AND 31 \<noteq> 0 then Some (Too_Open_Root path p) else None)
        else Some (Foreign_Owner path (hs_uid st) euid))"

section \<open>Names\<close>

definition is_token :: "char \<Rightarrow> bool" where
  "is_token c \<longleftrightarrow>
     (let n = of_char c :: nat in 48 \<le> n \<and> n \<le> 57 \<or> 65 \<le> n \<and> n \<le> 90 \<or> 97 \<le> n \<and> n \<le> 122
        \<or> n \<in> {33, 35, 36, 37, 38, 39, 42, 43, 45, 46, 94, 95, 96, 124, 126})"

definition upper_char :: "char \<Rightarrow> char" where
  "upper_char c = (let n = of_char c :: nat in if 97 \<le> n \<and> n \<le> 122 then char_of (n - 32) else c)"

fun canonical_from :: "bool \<Rightarrow> string \<Rightarrow> string" where
  "canonical_from up [] = []"
| "canonical_from up (c # cs) = (if up then upper_char c else lower_char c) # canonical_from (c = CHR ''-'') cs"

definition canonical_header_key :: "string \<Rightarrow> string" where
  "canonical_header_key s = (if list_all is_token s then canonical_from True s else s)"

definition is_credential_header :: "string \<Rightarrow> bool" where
  "is_credential_header name =
     list_ex (contains (to_lower name)) [''authorization'', ''cookie'', ''key'', ''token'', ''secret'']"

text \<open>The lines of \<^verbatim>\<open>warnCredentialHeaders\<close>: names, never values.\<close>

definition credential_warnings :: "(string \<times> string) list \<Rightarrow> string list" where
  "credential_warnings h = sort (filter is_credential_header (map fst h))"

section \<open>Reading\<close>

definition header_pair :: "string \<Rightarrow> (string \<times> string) option" where
  "header_pair line =
     (case index_byte line (CHR '':'') of
        None \<Rightarrow> None
      | Some n \<Rightarrow>
          let name = trim_space (take n line); v = trim_space (drop (Suc n) line)
          in if name = [] \<or> v = [] then None else Some (canonical_header_key name, v))"

definition set_header :: "(string \<times> string) list \<Rightarrow> string \<Rightarrow> header_error + (string \<times> string) list" where
  "set_header h v = (case header_pair v of None \<Rightarrow> Inl (Bad_Header v) | Some (k, x) \<Rightarrow> Inr (AList.update k x h))"

fun read_lines :: "string \<Rightarrow> nat \<Rightarrow> string list \<Rightarrow> (string \<times> string) list \<Rightarrow> header_error + (string \<times> string) list" where
  "read_lines path n [] h = Inr h"
| "read_lines path n (line # ls) h =
     (let line = trim_space line in
      if line = [] \<or> has_prefix line ''#'' then read_lines path (Suc n) ls h
      else case header_pair line of
        None \<Rightarrow> Inl (Bad_Line path (Suc n))
      | Some (k, x) \<Rightarrow> read_lines path (Suc n) ls (AList.update k x h))"

record header_env =
  he_goos :: string
  he_euid :: int
  he_open :: "string \<Rightarrow> string + (string + header_stat) \<times> (string + string)"

definition read_header_file :: "header_env \<Rightarrow> string \<Rightarrow> header_error + (string \<times> string) list" where
  "read_header_file env path =
     (case he_open env path of
        Inl err \<Rightarrow> Inl (Cannot_Open err)
      | Inr (stat, content) \<Rightarrow>
          (case stat of
             Inl err \<Rightarrow> Inl (Cannot_Stat path err)
           | Inr st \<Rightarrow>
               (case header_file_refusal (he_goos env) path st (he_euid env) of
                  Some err \<Rightarrow> Inl err
                | None \<Rightarrow>
                    (case content of
                       Inl err \<Rightarrow> Inl (Cannot_Read path err)
                     | Inr bytes \<Rightarrow> read_lines path 0 (split_on (CHR 10) bytes) []))))"

definition put_all :: "(string \<times> string) list \<Rightarrow> (string \<times> string) list \<Rightarrow> (string \<times> string) list" where
  "put_all out h = foldl (\<lambda>out (k, v). AList.update k v out) out h"

definition webhook_headers :: "header_env \<Rightarrow> string \<Rightarrow> (string \<times> string) list \<Rightarrow> header_error + (string \<times> string) list" where
  "webhook_headers env file flagged =
     (if file = [] then Inr (put_all [] flagged)
      else case read_header_file env file of
        Inl err \<Rightarrow> Inl err
      | Inr from_file \<Rightarrow> Inr (put_all (put_all [] from_file) flagged))"

section \<open>What the rule lets through\<close>

lemma low_bits: "(p :: 32 word) AND mask n = 0 \<longleftrightarrow> (\<forall>i < n. \<not> bit p i)"
proof -
  have "bit p i \<Longrightarrow> i < 32" for i using bit_imp_le_length [of p i] by simp
  then show ?thesis by (auto simp: bit_eq_iff bit_and_iff bit_mask_iff)
qed

lemma perm_low:
  assumes "n \<le> 9"
  shows "perm m AND mask n = m AND mask n"
proof -
  have "perm m = m AND mask 9" by (simp add: perm_def mask_eq_exp_minus_1)
  then show ?thesis using assms
    by (intro bit_eqI) (simp only: bit_and_iff bit_mask_iff, linarith)
qed

lemma octal_masks: "(63 :: 32 word) = mask 6" "(31 :: 32 word) = mask 5"
  by (simp_all add: mask_eq_exp_minus_1)

text \<open>Bits 0 to 2 are the rights of others, 3 to 5 those of the group: execute, write, read.\<close>

lemma header_file_accepted:
  "header_file_refusal goos path st euid = None \<longleftrightarrow>
     hs_regular st \<and> (goos = ''windows'' \<or> hs_uid st \<ge> 0 \<and>
       (if hs_uid st = euid then \<forall>i < 6. \<not> bit (hs_mode st) i
        else hs_uid st = 0 \<and> (\<forall>i < 5. \<not> bit (hs_mode st) i)))"
  by (auto simp: header_file_refusal_def octal_masks perm_low low_bits Let_def)

section \<open>The headers sent\<close>

lemma map_of_put_all: "map_of (put_all out h) k = (case map_of (rev h) k of Some v \<Rightarrow> Some v | None \<Rightarrow> map_of out k)"
proof (induction h arbitrary: out)
  case (Cons x h)
  then show ?case by (cases x) (auto simp: put_all_def update_conv' map_add_def split: option.split)
qed (simp add: put_all_def)

text \<open>The headers a file gives: of each line that is neither blank nor a comment, its pair.\<close>

definition header_lines :: "string \<Rightarrow> string list" where
  "header_lines bytes = filter (\<lambda>l. l \<noteq> [] \<and> \<not> has_prefix l ''#'') (map trim_space (split_on (CHR 10) bytes))"

lemma read_lines_Inr:
  "read_lines path n ls h = Inr h' \<longleftrightarrow>
     (let kept = filter (\<lambda>l. l \<noteq> [] \<and> \<not> has_prefix l ''#'') (map trim_space ls)
      in list_all (\<lambda>l. header_pair l \<noteq> None) kept \<and> h' = put_all h (List.map_filter header_pair kept))"
  by (induction path n ls h rule: read_lines.induct)
    (auto simp: put_all_def map_filter_simps Let_def split: option.splits)

lemma read_lines_Inl:
  "read_lines path n ls h = Inl err \<Longrightarrow>
     \<exists>k < length ls. err = Bad_Line path (Suc (n + k)) \<and> header_pair (trim_space (ls ! k)) = None"
proof (induction ls arbitrary: n h)
  case (Cons l ls)
  show ?case
  proof (cases "trim_space l = [] \<or> has_prefix (trim_space l) ''#'' \<or> header_pair (trim_space l) \<noteq> None")
    case True
    then obtain h' where "read_lines path (Suc n) ls h' = Inl err"
      using Cons.prems by (auto simp: Let_def split: if_splits)
    then obtain k where "k < length ls" "err = Bad_Line path (Suc (Suc n + k))" "header_pair (trim_space (ls ! k)) = None"
      using Cons.IH by blast
    then show ?thesis by (intro exI [of _ "Suc k"]) simp
  next
    case False
    then have "header_pair (trim_space l) = None" by (cases "header_pair (trim_space l)") auto
    with False Cons.prems show ?thesis by (intro exI [of _ 0]) (simp add: Let_def)
  qed
qed simp

lemma distinct_put_all: "distinct (map fst out) \<Longrightarrow> distinct (map fst (put_all out h))"
  by (induction h arbitrary: out) (auto simp: put_all_def distinct_update)

lemma map_of_rev: "distinct (map fst h) \<Longrightarrow> map_of (rev h) = map_of h"
proof (rule ext)
  fix k assume d: "distinct (map fst h)"
  then have "distinct (map fst (rev h))" by (simp add: rev_map [symmetric])
  with d have "map_of (rev h) k = Some v \<longleftrightarrow> map_of h k = Some v" for v by (simp add: map_of_eq_Some_iff)
  then show "map_of (rev h) k = map_of h k" by (cases "map_of h k"; cases "map_of (rev h) k") auto
qed

lemma map_of_put_again: "map_of (put_all [] (put_all [] h)) k = map_of (put_all [] h) k"
  using map_of_rev [OF distinct_put_all [of "[]" h]] by (simp add: map_of_put_all [of "[]" "put_all [] h"] split: option.split)

definition owner_rule :: "header_env \<Rightarrow> header_stat \<Rightarrow> bool" where
  "owner_rule env st \<longleftrightarrow> hs_regular st \<and> (he_goos env = ''windows'' \<or> hs_uid st \<ge> 0 \<and>
     (if hs_uid st = he_euid env then \<forall>i < 6. \<not> bit (hs_mode st) i
      else hs_uid st = 0 \<and> (\<forall>i < 5. \<not> bit (hs_mode st) i)))"

lemma refusal_rule: "owner_rule env st \<longleftrightarrow> header_file_refusal (he_goos env) path st (he_euid env) = None"
  by (simp only: owner_rule_def header_file_accepted)

lemma read_header_file_Inr:
  "read_header_file env path = Inr h \<longleftrightarrow>
     (\<exists>st bytes. he_open env path = Inr (Inr st, Inr bytes) \<and> owner_rule env st
        \<and> list_all (\<lambda>l. header_pair l \<noteq> None) (header_lines bytes)
        \<and> h = put_all [] (List.map_filter header_pair (header_lines bytes)))"
  unfolding refusal_rule [of env _ path]
  by (auto simp: read_header_file_def read_lines_Inr header_lines_def Let_def split: sum.splits option.splits)

text \<open>
  C23: A file of webhook headers is used only when it is safe to, and then exactly. The run goes on exactly
  when the file opened is a regular one that this user or root owns with no more rights than the owner
  rule grants (on Windows, regular), and every line of it that is neither blank nor a comment is a name
  and a value. What is sent is then, for every name, the value of the command line, and without one the
  value of the last line of the file with that name.
\<close>

theorem webhook_headers_exact:
  assumes "file \<noteq> []" "distinct (map fst flagged)"
  shows "((\<exists>hs. webhook_headers env file flagged = Inr hs) \<longleftrightarrow>
      (\<exists>st bytes. he_open env file = Inr (Inr st, Inr bytes) \<and> owner_rule env st
         \<and> list_all (\<lambda>l. header_pair l \<noteq> None) (header_lines bytes)))
    \<and> (\<forall>hs st bytes k. webhook_headers env file flagged = Inr hs \<longrightarrow> he_open env file = Inr (st, Inr bytes) \<longrightarrow>
         map_of hs k = (case map_of flagged k of
            Some v \<Rightarrow> Some v
          | None \<Rightarrow> map_of (rev (List.map_filter header_pair (header_lines bytes))) k))"
proof (intro conjI allI impI)
  have split: "webhook_headers env file flagged = Inr hs \<longleftrightarrow>
      (\<exists>h. read_header_file env file = Inr h \<and> hs = put_all (put_all [] h) flagged)" for hs
    using assms(1) by (auto simp: webhook_headers_def split: sum.splits)
  show "(\<exists>hs. webhook_headers env file flagged = Inr hs) \<longleftrightarrow>
      (\<exists>st bytes. he_open env file = Inr (Inr st, Inr bytes) \<and> owner_rule env st
         \<and> list_all (\<lambda>l. header_pair l \<noteq> None) (header_lines bytes))"
    unfolding split read_header_file_Inr by blast
  fix hs st bytes k
  assume "webhook_headers env file flagged = Inr hs" and opened: "he_open env file = Inr (st, Inr bytes)"
  then have hs: "hs = put_all (put_all [] (put_all [] (List.map_filter header_pair (header_lines bytes)))) flagged"
    unfolding split read_header_file_Inr by auto
  have flags: "map_of (rev flagged) k = map_of flagged k" by (simp add: map_of_rev [OF assms(2)])
  show "map_of hs k = (case map_of flagged k of Some v \<Rightarrow> Some v
      | None \<Rightarrow> map_of (rev (List.map_filter header_pair (header_lines bytes))) k)"
    unfolding hs map_of_put_all [of _ flagged] flags map_of_put_again by (simp add: map_of_put_all split: option.split)
qed

text \<open>A file of this user at 0600, with one header that the command line replaces.\<close>

definition sample_header_env :: header_env where
  "sample_header_env =
     \<lparr>he_goos = ''linux'', he_euid = 1000,
      he_open = (\<lambda>_. Inr (Inr \<lparr>hs_mode = 0x180, hs_uid = 1000, hs_regular = True\<rparr>, Inr ''authorization: file''))\<rparr>"

theorem webhook_headers_exact_witness:
  "\<exists>hs. webhook_headers sample_header_env ''h.txt'' [(''Authorization'', ''flag'')] = Inr hs
     \<and> map_of hs ''Authorization'' = Some ''flag''"
proof -
  let ?st = "\<lparr>hs_mode = 0x180, hs_uid = 1000, hs_regular = True\<rparr>"
  have open_it: "he_open sample_header_env ''h.txt'' = Inr (Inr ?st, Inr ''authorization: file'')"
    by (simp add: sample_header_env_def)
  have "owner_rule sample_header_env ?st"
    unfolding refusal_rule [of _ _ "[]"] by (simp add: sample_header_env_def header_file_refusal_def perm_def)
  moreover have "list_all (\<lambda>l. header_pair l \<noteq> None) (header_lines ''authorization: file'')" by code_simp
  moreover note exact = webhook_headers_exact [of "''h.txt''" "[(''Authorization'', ''flag'')]" sample_header_env]
  ultimately obtain hs where hs: "webhook_headers sample_header_env ''h.txt'' [(''Authorization'', ''flag'')] = Inr hs"
    using open_it by fastforce
  moreover have "map_of hs ''Authorization'' = Some ''flag''"
    using exact [THEN conjunct2, rule_format, OF _ _ hs open_it, of "''Authorization''"] by simp
  ultimately show ?thesis by blast
qed

end
