(* ===== verification/Otlp_Sink.thy ===== *)
theory Otlp_Sink
  imports Report_Out Detect_Base
begin

text \<open>
  The OTLP exporter (\<^verbatim>\<open>internal/sink/otlp.go\<close>): the collector's address, one span per alert, and the identifiers
  derived from the alerts' own fields. SHA-256 is a parameter, from the hashed bytes to its 32 bytes;
  the JSON encoder and the HTTP client are those of the other sinks.
\<close>

section \<open>The payload\<close>

record otlp_span =
  os_trace_id :: string
  os_span_id :: string
  os_name :: string
  os_kind :: nat
  os_start :: string
  os_end :: string
  os_attributes :: "(string \<times> string) list"

record otlp_payload =
  op_resource :: "(string \<times> string) list"
  op_scope :: string
  op_spans :: "otlp_span list"

definition traces_path :: string where
  "traces_path = ''/v1/traces''"

definition otlp_url :: "string \<Rightarrow> string" where
  "otlp_url endpoint =
     (let base = trim_right endpoint ''/'' in if \<not> has_suffix base traces_path then base @ traces_path else base)"

text \<open>\<^verbatim>\<open>UnixNano\<close> is an \<^verbatim>\<open>int64\<close>, so the zero time and times beyond its range wrap around.\<close>

definition unix_nano :: "int \<Rightarrow> int" where
  "unix_nano t = sint (word_of_int t :: 64 word)"

definition itoa :: "int \<Rightarrow> string" where
  "itoa i = (if i < 0 then ''-'' @ utoa (nat (- i)) else utoa (nat i))"

definition hex_encode :: "string \<Rightarrow> string" where
  "hex_encode bs = concat (map (\<lambda>c. [digit_char (of_char c div 16), digit_char (of_char c mod 16)]) bs)"

definition alert_text :: "alert \<Rightarrow> string" where
  "alert_text a =
     ''|'' @ a_detector a @ ''|'' @ a_identity a @ ''|'' @ severity_string (a_severity a) @ ''|'' @
     itoa (unix_nano (a_time a)) @ ''|'' @ a_summary a"

definition otlp_trace_id :: "(string \<Rightarrow> string) \<Rightarrow> alert list \<Rightarrow> string" where
  "otlp_trace_id sha256 as = hex_encode (take 16 (sha256 (''idryx-trace'' @ concat (map alert_text as))))"

definition otlp_span_id :: "(string \<Rightarrow> string) \<Rightarrow> alert \<Rightarrow> string" where
  "otlp_span_id sha256 a = hex_encode (take 8 (sha256 (''idryx-span'' @ alert_text a)))"

definition alert_span :: "(string \<Rightarrow> string) \<Rightarrow> alert \<Rightarrow> string \<Rightarrow> otlp_span" where
  "alert_span sha256 a trace =
     (let nanos = itoa (unix_nano (a_time a)) in
      \<lparr>os_trace_id = trace, os_span_id = otlp_span_id sha256 a, os_name = a_detector a, os_kind = 1,
       os_start = nanos, os_end = nanos,
       os_attributes = [(''idryx.detector'', a_detector a), (''idryx.severity'', severity_string (a_severity a)),
         (''idryx.identity'', a_identity a), (''idryx.summary'', a_summary a)]\<rparr>)"

definition otlp_body :: "(string \<Rightarrow> string) \<Rightarrow> alert list \<Rightarrow> otlp_payload" where
  "otlp_body sha256 as =
     \<lparr>op_resource = [(''service.name'', ''idryx'')], op_scope = ''idryx'',
      op_spans = map (\<lambda>a. alert_span sha256 a (otlp_trace_id sha256 as)) as\<rparr>"

definition otlp_send ::
  "(string \<Rightarrow> string) \<Rightarrow> (string \<Rightarrow> otlp_payload \<Rightarrow> string + nat) \<Rightarrow> string \<Rightarrow> severity \<Rightarrow> alert list \<Rightarrow> delivery" where
  "otlp_send sha256 post endpoint least as =
     (let as = at_least as least in
      if as = [] then Delivered else respond (post (otlp_url endpoint) (otlp_body sha256 as)))"

section \<open>Addresses and identifiers\<close>

lemma trim_right_idem: "trim_right (trim_right s cs) cs = trim_right s cs"
  by (simp add: trim_right_def)

lemma otlp_url_idem: "otlp_url (otlp_url endpoint) = otlp_url endpoint"
proof -
  have "trim_right (s @ traces_path) ''/'' = s @ traces_path" for s
    by (simp add: trim_right_def traces_path_def)
  moreover have "has_suffix (s @ traces_path) traces_path" for s
    by (simp add: has_suffix_def suffix_def)
  ultimately show ?thesis
    by (cases "has_suffix (trim_right endpoint ''/'') traces_path") (simp_all add: otlp_url_def trim_right_idem)
qed

lemma div_less_of: "(of_char c :: nat) div 16 < 16"
  using less_mult_imp_div_less [of "of_char c :: nat" 16 16] by simp

lemma hex_encode_inj: "hex_encode s = hex_encode t \<longleftrightarrow> s = t"
proof
  have byte: "c = d" if "digit_char (of_char c div 16) = digit_char (of_char d div 16)" "digit_char (of_char c mod 16) = digit_char (of_char d mod 16)"
    for c d :: char
  proof -
    have lt: "(of_char c :: nat) < 256" "(of_char d :: nat) < 256" by simp_all
    then have "(of_char c :: nat) div 16 = of_char d div 16" "(of_char c :: nat) mod 16 = of_char d mod 16"
      using arg_cong [OF that(1), of digit_value] arg_cong [OF that(2), of digit_value] by (simp_all add: div_less_of)
    then have "(of_char c :: nat) = of_char d" by (metis div_mult_mod_eq)
    then show ?thesis by simp
  qed
  show "hex_encode s = hex_encode t \<Longrightarrow> s = t"
  proof (induction s arbitrary: t)
    case Nil
    then show ?case by (cases t) (simp_all add: hex_encode_def)
  next
    case (Cons c s)
    then show ?case by (cases t) (auto simp: hex_encode_def intro: byte)
  qed
qed simp

lemma itoa_chars: "c \<in> set (itoa i) \<Longrightarrow> c = CHR ''-'' \<or> is_digit c"
  by (auto simp: itoa_def dest: utoa_digits split: if_splits)

lemma is_digit_minus: "\<not> is_digit (CHR ''-'')"
  by (simp add: is_digit_def)

lemma itoa_inj: "itoa i = itoa j \<longleftrightarrow> i = j"
proof -
  have "CHR ''-'' # s \<noteq> utoa n" for s n
    using utoa_digits [of "CHR ''-''" n] by (metis is_digit_minus list.set_intros(1))
  then show ?thesis by (auto simp: itoa_def dest: not_sym)
qed

lemma cut_at:
  "c \<notin> set s \<Longrightarrow> c \<notin> set t \<Longrightarrow> s @ c # s' = t @ c # t' \<longleftrightarrow> s = t \<and> s' = t'"
  by (induction s arbitrary: t) (case_tac t; auto)+

lemma bar_severity: "CHR ''|'' \<notin> set (severity_string s)"
  by (cases s) simp_all

lemma bar_itoa: "CHR ''|'' \<notin> set (itoa i)"
  using itoa_chars [of "CHR ''|''" i] by (auto simp: is_digit_def)

lemma unix_nano_range: "- (2 ^ 63) \<le> t \<Longrightarrow> t < 2 ^ 63 \<Longrightarrow> unix_nano t = t"
  by (simp add: unix_nano_def signed_take_bit_int_eq_self sint_sbintrunc')

definition plain_alert :: "alert \<Rightarrow> bool" where
  "plain_alert a \<longleftrightarrow> CHR ''|'' \<notin> set (a_detector a) \<and> CHR ''|'' \<notin> set (a_identity a)
     \<and> - (2 ^ 63) \<le> a_time a \<and> a_time a < 2 ^ 63"

lemma alert_text_inj:
  assumes "plain_alert a" "plain_alert b" "alert_text a = alert_text b"
  shows "a = b"
proof -
  from assms have "a_detector a = a_detector b" "a_identity a = a_identity b" "a_severity a = a_severity b"
    "a_time a = a_time b" "a_summary a = a_summary b"
    by (auto simp: plain_alert_def alert_text_def cut_at bar_severity bar_itoa itoa_inj unix_nano_range severity_string_inj)
  then show ?thesis by (rule alert.equality) simp
qed

section \<open>What the collector receives\<close>

lemma length_hex [simp]: "length (hex_encode s) = 2 * length s"
  by (induction s) (simp_all add: hex_encode_def)

lemma otlp_url_slash: "otlp_url (e @ ''/'') = otlp_url e"
  by (simp add: otlp_url_def trim_right_def)

lemma otlp_url_suffix: "has_suffix (otlp_url e) traces_path"
  by (auto simp: otlp_url_def has_suffix_def suffix_def Let_def)

definition keeps_apart :: "(string \<Rightarrow> string) \<Rightarrow> alert list \<Rightarrow> bool" where
  "keeps_apart sha256 as \<longleftrightarrow> inj_on (\<lambda>s. take 8 (sha256 s)) ((\<lambda>a. ''idryx-span'' @ alert_text a) ` set as)"

lemma span_ids_distinct:
  assumes "list_all plain_alert as" "keeps_apart sha256 as"
  shows "inj_on (otlp_span_id sha256) (set as)"
proof (rule inj_onI)
  fix a b assume ab: "a \<in> set as" "b \<in> set as" "otlp_span_id sha256 a = otlp_span_id sha256 b"
  have "''idryx-span'' @ alert_text a = ''idryx-span'' @ alert_text b"
    by (rule inj_onD [OF assms(2) [unfolded keeps_apart_def]]) (use ab in \<open>simp_all add: otlp_span_id_def hex_encode_inj\<close>)
  then show "a = b" using assms(1) ab by (intro alert_text_inj) (auto simp: list_all_iff)
qed



text \<open>
  Without the condition on bars the identifiers collide whatever the digest: the fields are hashed joined by
  bars that are not escaped, and an identity may contain one.
\<close>

lemma span_ids_collide:
  "otlp_span_id sha256 (mk_alert ''d'' ''a'' SeverityLow 0 ''x|low|0|y'') =
   otlp_span_id sha256 (mk_alert ''d'' ''a|low|0|x'' SeverityLow 0 ''y'')"
  by (simp add: otlp_span_id_def alert_text_def mk_alert_def unix_nano_def itoa_def utoa_steps digits_chars)

end
