(* ===== verification/Detect_Command.thy ===== *)
theory Detect_Command
  imports Load_Facts Webhook_Headers Detect_Run Event_Bus Otlp_Sink
begin

text \<open>
  \<^verbatim>\<open>idryx detect\<close> from its parsed flags to its exit code (\<^verbatim>\<open>runDetect\<close> and \<^verbatim>\<open>main\<close> in \<^verbatim>\<open>cmd/idryx/main.go\<close>):
  the order in which inputs are refused, what is reported, which sinks get the alerts, and what the exit
  code then says. The flag package, the environment, the clock, HTTP, SHA-256 and the journal's file
  are parameters.
\<close>

section \<open>The command\<close>

record detect_args =
  da_format :: string
  da_privileged :: string
  da_source :: string
  da_slack :: string
  da_webhook :: string
  da_headers :: "(string \<times> string) list"
  da_header_file :: string
  da_min_severity :: string
  da_trail :: string
  da_audit :: string
  da_passports :: string
  da_db :: string
  da_loads :: "load_spec list"
  da_args :: "string list"

record 'w detect_env =
  dv_load :: load_env
  dv_header :: header_env
  dv_getenv :: "string \<Rightarrow> string"
  dv_now :: int
  dv_slack :: "string \<Rightarrow> string \<Rightarrow> string + nat"
  dv_webhook :: "string \<Rightarrow> (string \<times> string) list \<Rightarrow> json_alert list \<Rightarrow> string + nat"
  dv_otlp :: "string \<Rightarrow> otlp_payload \<Rightarrow> string + nat"
  dv_sha256 :: "string \<Rightarrow> string"
  dv_grammar :: grammar
  dv_open :: "string \<Rightarrow> string + 'w"
  dv_write :: "finding \<Rightarrow> 'w \<Rightarrow> bool \<times> 'w"

datatype detect_error =
    Bad_Input load_error | Bad_Headers header_error | Bad_Graph load_error | Unknown_Format string
  | Bad_Severity string | No_Trust_Domain | Bad_Bus bus_error | Sinks_Failed nat nat

datatype rendered = Human_Report "alert list" | Json_Report "json_alert list"

record detect_run =
  dr_report :: "rendered option"
  dr_sent :: "(string \<times> bool) list"
  dr_error :: "detect_error option"

definition delivered :: "delivery \<Rightarrow> bool" where
  "delivered d \<longleftrightarrow> d = Delivered"

text \<open>A configured sink is its name and what sending does; the journal's is the last.\<close>

type_synonym sink = "string \<times> (alert list \<Rightarrow> bool)"

definition run_id :: "int \<Rightarrow> string" where
  "run_id now = ''idryx-'' @ (let s = now div Second in if s < 0 then ''-'' @ utoa (nat (- s)) else utoa (nat s))"

definition paging_sinks :: "'w detect_env \<Rightarrow> detect_args \<Rightarrow> (string \<times> string) list \<Rightarrow> severity \<Rightarrow> sink list" where
  "paging_sinks env a hdrs least =
     (if da_slack a \<noteq> [] then [(''slack'', \<lambda>as. delivered (slack_send (dv_slack env (da_slack a)) least as))] else []) @
     (if da_webhook a \<noteq> [] then [(''webhook'', \<lambda>as. delivered (webhook_send (dv_webhook env (da_webhook a) hdrs) least as))] else []) @
     (let endpoint = dv_getenv env ''IDRYX_OTLP_ENDPOINT''
      in if endpoint \<noteq> [] then [(''otlp'', \<lambda>as. delivered (otlp_send (dv_sha256 env) (dv_otlp env) endpoint least as))] else [])"

definition journal_sink :: "'w detect_env \<Rightarrow> detect_error + sink list" where
  "journal_sink env =
     (let path = dv_getenv env ''IDRYX_EVENTS''; domain = dv_getenv env ''IDRYX_TRUST_DOMAIN'' in
      if path = [] then Inr []
      else if domain = [] then Inl No_Trust_Domain
      else case new_sink (dv_grammar env) (dv_open env) path (run_id (dv_now env)) domain of
        Inl err \<Rightarrow> Inl (Bad_Bus err)
      | Inr None \<Rightarrow> Inr []
      | Inr (Some s) \<Rightarrow> Inr [(''agent-event'', \<lambda>as. fst (send (dv_grammar env) (dv_write env) as (Some s)) = None)])"

definition render :: "string \<Rightarrow> alert list \<Rightarrow> rendered option" where
  "render fmt alerts =
     (if fmt = ''human'' then Some (Human_Report (sort_alerts alerts))
      else if fmt = ''json'' then Some (Json_Report (json_alerts alerts))
      else None)"

definition deliver_all :: "sink list \<Rightarrow> alert list \<Rightarrow> (string \<times> bool) list" where
  "deliver_all sinks alerts = map (\<lambda>(n, f). (n, f alerts)) sinks"

definition after_report :: "'w detect_env \<Rightarrow> detect_args \<Rightarrow> (string \<times> string) list \<Rightarrow> rendered \<Rightarrow> alert list \<Rightarrow> detect_run" where
  "after_report env a hdrs rep alerts =
     (case parse_severity (da_min_severity a) of
        None \<Rightarrow> \<lparr>dr_report = Some rep, dr_sent = [], dr_error = Some (Bad_Severity (da_min_severity a))\<rparr>
      | Some least \<Rightarrow>
          (case journal_sink env of
             Inl err \<Rightarrow> \<lparr>dr_report = Some rep, dr_sent = [], dr_error = Some err\<rparr>
           | Inr bus \<Rightarrow>
               let sinks = paging_sinks env a hdrs least @ bus; sent = deliver_all sinks alerts;
                   failed = length (filter (\<lambda>(n, ok). \<not> ok) sent)
               in \<lparr>dr_report = Some rep, dr_sent = sent,
                   dr_error = (if failed > 0 then Some (Sinks_Failed failed (length sinks)) else None)\<rparr>))"

definition refused :: "detect_error \<Rightarrow> detect_run" where
  "refused err = \<lparr>dr_report = None, dr_sent = [], dr_error = Some err\<rparr>"

definition chosen_header_file :: "'w detect_env \<Rightarrow> detect_args \<Rightarrow> string" where
  "chosen_header_file env a =
     (if da_header_file a \<noteq> [] then da_header_file a else dv_getenv env ''IDRYX_WEBHOOK_HEADER_FILE'')"

definition detect_headers :: "'w detect_env \<Rightarrow> detect_args \<Rightarrow> header_error + (string \<times> string) list" where
  "detect_headers env a =
     (if da_webhook a \<noteq> [] then webhook_headers (dv_header env) (chosen_header_file env a) (da_headers a) else Inr [])"

definition graph_args :: "detect_args \<Rightarrow> string \<Rightarrow> build_args" where
  "graph_args a path =
     \<lparr>ba_source = da_source a, ba_privileged = da_privileged a, ba_path = path, ba_db = da_db a, ba_trail = da_trail a,
      ba_audit = da_audit a, ba_passports = da_passports a, ba_loads = da_loads a\<rparr>"

definition run_detect :: "'w detect_env \<Rightarrow> detect_args \<Rightarrow> detect_run" where
  "run_detect env a =
     (case input_arg (da_args a) (da_db a) (da_loads a) of
        Inl err \<Rightarrow> refused (Bad_Input err)
      | Inr path \<Rightarrow>
          (case detect_headers env a of
             Inl err \<Rightarrow> refused (Bad_Headers err)
           | Inr hdrs \<Rightarrow>
               (case build_graph (dv_load env) (graph_args a path) of
                  Inl err \<Rightarrow> refused (Bad_Graph err)
                | Inr g \<Rightarrow>
                    let alerts = run_detectors (dv_now env) (fst (identities g)) in
                    (case render (da_format a) alerts of
                       None \<Rightarrow> refused (Unknown_Format (da_format a))
                     | Some rep \<Rightarrow> after_report env a hdrs rep alerts))))"

definition exit_sink_delivery :: nat where "exit_sink_delivery = 3"

definition exit_code :: "detect_run \<Rightarrow> nat" where
  "exit_code r =
     (case dr_error r of None \<Rightarrow> 0 | Some (Sinks_Failed _ _) \<Rightarrow> exit_sink_delivery | Some _ \<Rightarrow> 1)"

section \<open>What the exit code says\<close>

lemma failures_counted: "length (filter (\<lambda>(n, ok). \<not> ok) sent) > 0 \<longleftrightarrow> (\<exists>n. (n, False) \<in> set sent)"
  by (auto simp: filter_empty_conv)

lemma after_report_cases:
  obtains err where "after_report env a hdrs rep alerts = \<lparr>dr_report = Some rep, dr_sent = [], dr_error = Some err\<rparr>"
      "exit_code (after_report env a hdrs rep alerts) = 1"
  | least bus sent where "parse_severity (da_min_severity a) = Some least" "journal_sink env = Inr bus"
      "sent = deliver_all (paging_sinks env a hdrs least @ bus) alerts"
      "dr_report (after_report env a hdrs rep alerts) = Some rep" "dr_sent (after_report env a hdrs rep alerts) = sent"
      "exit_code (after_report env a hdrs rep alerts) = (if \<exists>n. (n, False) \<in> set sent then 3 else 0)"
proof (cases "parse_severity (da_min_severity a)")
  case None
  then show thesis using that(1) by (simp add: after_report_def exit_code_def)
next
  case (Some least)
  show thesis
  proof (cases "journal_sink env")
    case (Inl err)
    moreover have "\<nexists>m n. err = Sinks_Failed m n"
      using Inl by (auto simp: journal_sink_def Let_def split: if_splits sum.splits option.splits)
    ultimately show thesis using Some that(1) by (cases err) (simp_all add: after_report_def exit_code_def)
  next
    case (Inr bus)
    let ?sent = "deliver_all (paging_sinks env a hdrs least @ bus) alerts"
    show thesis
      by (rule that(2) [OF Some Inr refl])
        (use failures_counted [of ?sent] Some Inr in \<open>simp_all add: after_report_def exit_code_def exit_sink_delivery_def Let_def\<close>)
  qed
qed

lemma refused_exit: "\<nexists>m n. err = Sinks_Failed m n \<Longrightarrow> exit_code (refused err) = 1 \<and> dr_sent (refused err) = [] \<and> dr_report (refused err) = None"
  by (cases err) (simp_all add: refused_def exit_code_def)

definition ran :: "'w detect_env \<Rightarrow> detect_args \<Rightarrow> store \<Rightarrow> (string \<times> string) list \<Rightarrow> alert list \<Rightarrow> rendered \<Rightarrow> bool" where
  "ran env a g hdrs alerts rep \<longleftrightarrow>
     (\<exists>path. input_arg (da_args a) (da_db a) (da_loads a) = Inr path \<and> detect_headers env a = Inr hdrs
        \<and> build_graph (dv_load env) (graph_args a path) = Inr g)
     \<and> alerts = run_detectors (dv_now env) (fst (identities g)) \<and> render (da_format a) alerts = Some rep"

lemma run_detect_cases:
  obtains err where "run_detect env a = refused err" "\<nexists>m n. err = Sinks_Failed m n"
  | g hdrs alerts rep where "ran env a g hdrs alerts rep" "run_detect env a = after_report env a hdrs rep alerts"
proof (cases "input_arg (da_args a) (da_db a) (da_loads a)")
  case (Inl err)
  then show thesis using that(1) [of "Bad_Input err"] by (simp add: run_detect_def)
next
  case path: (Inr path)
  show thesis
  proof (cases "detect_headers env a")
    case (Inl err)
    with path show thesis using that(1) [of "Bad_Headers err"] by (simp add: run_detect_def)
  next
    case hdrs: (Inr hdrs)
    show thesis
    proof (cases "build_graph (dv_load env) (graph_args a path)")
      case (Inl err)
      with path hdrs show thesis using that(1) [of "Bad_Graph err"] by (simp add: run_detect_def)
    next
      case g: (Inr g)
      show thesis
      proof (cases "render (da_format a) (run_detectors (dv_now env) (fst (identities g)))")
        case None
        with path hdrs g show thesis using that(1) [of "Unknown_Format (da_format a)"] by (simp add: run_detect_def Let_def)
      next
        case (Some rep)
        with path hdrs g show thesis using that(2) [of g hdrs] by (simp add: run_detect_def ran_def Let_def)
      qed
    qed
  qed
qed


text \<open>An empty inventory: the collector is down, but there is nothing to send to it.\<close>

definition sample_detect_env :: "unit detect_env" where
  "sample_detect_env =
     \<lparr>dv_load = sample_load_env, dv_header = sample_header_env,
      dv_getenv = (\<lambda>v. if v = ''IDRYX_OTLP_ENDPOINT'' then ''http://localhost:4318'' else []), dv_now = 0,
      dv_slack = (\<lambda>_ _. Inr 200), dv_webhook = (\<lambda>_ _ _. Inr 200), dv_otlp = (\<lambda>_ _. Inr 503), dv_sha256 = (\<lambda>_. replicate 32 CHR 0x00),
      dv_grammar = \<lparr>valid_agent_uri = (\<lambda>_. False), valid_subject = (\<lambda>_. False)\<rparr>,
      dv_open = (\<lambda>_. Inr ()), dv_write = (\<lambda>_ w. (True, w))\<rparr>"

definition sample_detect_args :: detect_args where
  "sample_detect_args =
     \<lparr>da_format = ''json'', da_privileged = [], da_source = ''mcp'', da_slack = [], da_webhook = [], da_headers = [],
      da_header_file = [], da_min_severity = ''high'', da_trail = [], da_audit = [], da_passports = [], da_db = [],
      da_loads = [], da_args = [''m.json'']\<rparr>"


end
