(* ===== verification/Text_Escape.thy ===== *)
theory Text_Escape
  imports Go_Strings
begin

text \<open>
  \<^verbatim>\<open>internal/aiusage/sanitize.go\<close>: text from outside rendered printable and bounded. A string is its
  bytes, read rune by rune as \<^verbatim>\<open>unicode/utf8\<close> does. Which code points the category Cf holds is a table
  of the standard library and a parameter; what is used of it is \<open>format_table\<close>.
\<close>

section \<open>Runes\<close>

definition rune_error :: nat where "rune_error = 0xFFFD"

definition byte :: "char \<Rightarrow> nat" where "byte c = of_char c"

definition continues :: "nat \<Rightarrow> nat \<Rightarrow> char \<Rightarrow> bool" where
  "continues lo hi c \<longleftrightarrow> lo \<le> byte c \<and> byte c \<le> hi"

text \<open>\<^verbatim>\<open>utf8.DecodeRuneInString\<close>: the rune at the front and its width, \<open>(rune_error, 1)\<close> for a bad byte.\<close>

fun decode_rune :: "string \<Rightarrow> nat \<times> nat" where
  "decode_rune [] = (rune_error, 0)"
| "decode_rune (c # cs) =
     (let b = byte c in
      if b < 0x80 then (b, 1)
      else if b < 0xC2 \<or> 0xF4 < b then (rune_error, 1)
      else if b < 0xE0 then
        (case cs of
           c1 # _ \<Rightarrow> if continues 0x80 0xBF c1 then ((b - 0xC0) * 64 + (byte c1 - 0x80), 2) else (rune_error, 1)
         | _ \<Rightarrow> (rune_error, 1))
      else if b < 0xF0 then
        (case cs of
           c1 # c2 # _ \<Rightarrow>
             if continues (if b = 0xE0 then 0xA0 else 0x80) (if b = 0xED then 0x9F else 0xBF) c1 \<and> continues 0x80 0xBF c2
             then ((b - 0xE0) * 4096 + (byte c1 - 0x80) * 64 + (byte c2 - 0x80), 3) else (rune_error, 1)
         | _ \<Rightarrow> (rune_error, 1))
      else
        (case cs of
           c1 # c2 # c3 # _ \<Rightarrow>
             if continues (if b = 0xF0 then 0x90 else 0x80) (if b = 0xF4 then 0x8F else 0xBF) c1
                \<and> continues 0x80 0xBF c2 \<and> continues 0x80 0xBF c3
             then ((b - 0xF0) * 262144 + (byte c1 - 0x80) * 4096 + (byte c2 - 0x80) * 64 + (byte c3 - 0x80), 4)
             else (rune_error, 1)
         | _ \<Rightarrow> (rune_error, 1)))"

lemma decode_width: "s \<noteq> [] \<Longrightarrow> 0 < snd (decode_rune s) \<and> snd (decode_rune s) \<le> length s"
  by (cases s) (auto simp: Let_def split: list.splits)

lemma decode_smaller: "s \<noteq> [] \<Longrightarrow> length (drop (snd (decode_rune s)) s) < length s"
  using decode_width [of s] by (cases s) auto

function rune_count :: "string \<Rightarrow> nat" where
  "rune_count s = (if s = [] then 0 else Suc (rune_count (drop (snd (decode_rune s)) s)))"
  by auto
termination by (relation "measure length") (use decode_width in auto)

declare rune_count.simps [simp del]

section \<open>Escaping\<close>

definition is_control :: "nat \<Rightarrow> bool" where
  "is_control r \<longleftrightarrow> r < 0x20 \<or> 0x7F \<le> r \<and> r < 0xA0"

definition unprintable :: "(nat \<Rightarrow> bool) \<Rightarrow> nat \<Rightarrow> bool" where
  "unprintable cf r \<longleftrightarrow> is_control r \<or> cf r \<or> r = 0x2028 \<or> r = 0x2029"

text \<open>\<^verbatim>\<open>%02x\<close> and \<^verbatim>\<open>%04x\<close>.\<close>

definition hex_pad :: "nat \<Rightarrow> nat \<Rightarrow> string" where
  "hex_pad n v = replicate (n - length (hextoa v)) (CHR ''0'') @ hextoa v"

definition escaped_byte :: "nat \<Rightarrow> string" where
  "escaped_byte v = [CHR 92, CHR ''x''] @ hex_pad 2 v"

definition escaped_rune :: "nat \<Rightarrow> string" where
  "escaped_rune r = (if r < 0x100 then escaped_byte r else [CHR 92, CHR ''u''] @ hex_pad 4 r)"

definition ellipsis :: string where "ellipsis = [CHR 0xE2, CHR 0x80, CHR 0xA6]"

definition piece :: "(nat \<Rightarrow> bool) \<Rightarrow> string \<Rightarrow> string" where
  "piece cf s =
     (let (r, size) = decode_rune s in
      if r = rune_error \<and> size = 1 then escaped_byte (byte (hd s))
      else if unprintable cf r then escaped_rune r
      else take size s)"

function escape_from :: "(nat \<Rightarrow> bool) \<Rightarrow> nat \<Rightarrow> nat \<Rightarrow> string \<Rightarrow> string" where
  "escape_from cf most n s =
     (if s = [] then []
      else
        let rest = drop (snd (decode_rune s)) s; pr = rune_count (piece cf s);
            limit = (if rest \<noteq> [] then most - 1 else most)
        in if n + pr > limit then ellipsis else piece cf s @ escape_from cf most (n + pr) rest)"
  by auto
termination by (relation "measure (\<lambda>(_, _, _, s). length s)") (use decode_width in auto)

declare escape_from.simps [simp del]

definition escape :: "(nat \<Rightarrow> bool) \<Rightarrow> string \<Rightarrow> nat \<Rightarrow> string" where
  "escape cf s most = escape_from cf most 0 s"

definition max_shown :: nat where "max_shown = 120"
definition max_stored :: nat where "max_stored = 300"

definition shown :: "(nat \<Rightarrow> bool) \<Rightarrow> string \<Rightarrow> string" where
  "shown cf s = escape cf s max_shown"

section \<open>Printable text\<close>

text \<open>Every rune is valid and none of them is escaped.\<close>

function printable :: "(nat \<Rightarrow> bool) \<Rightarrow> string \<Rightarrow> bool" where
  "printable cf s =
     (if s = [] then True
      else \<not> (fst (decode_rune s) = rune_error \<and> snd (decode_rune s) = 1)
        \<and> \<not> unprintable cf (fst (decode_rune s)) \<and> printable cf (drop (snd (decode_rune s)) s))"
  by auto
termination by (relation "measure (\<lambda>(_, s). length s)") (use decode_width in auto)

declare printable.simps [simp del]

definition format_table :: "(nat \<Rightarrow> bool) \<Rightarrow> bool" where
  "format_table cf \<longleftrightarrow> (\<forall>r < 0x80. \<not> cf r) \<and> \<not> cf 0x2026"

lemma decode_prefix:
  assumes "s \<noteq> []" "\<not> (fst (decode_rune s) = rune_error \<and> snd (decode_rune s) = 1)"
  shows "decode_rune (take (snd (decode_rune s)) s @ t) = decode_rune s"
proof (cases s)
  case (Cons c cs)
  let ?b = "byte c"
  have ok: "decode_rune (c # cs) \<noteq> (rune_error, 1)" using assms(2) unfolding Cons by (metis fst_conv snd_conv)
  consider "?b < 0x80" | "0xC2 \<le> ?b" "?b < 0xE0" | "0xE0 \<le> ?b" "?b < 0xF0" | "0xF0 \<le> ?b" "?b \<le> 0xF4"
    using ok by (fastforce simp: Let_def)
  then show ?thesis
  proof cases
    case 1
    then show ?thesis unfolding Cons by simp
  next
    case 2
    with ok obtain c1 cs1 where "cs = c1 # cs1" "continues 0x80 0xBF c1"
      by (cases cs) (auto simp: Let_def split: if_splits)
    with 2 show ?thesis unfolding Cons by simp
  next
    case 3
    with ok obtain c1 c2 cs2 where "cs = c1 # c2 # cs2"
      "continues (if ?b = 0xE0 then 0xA0 else 0x80) (if ?b = 0xED then 0x9F else 0xBF) c1" "continues 0x80 0xBF c2"
      by (cases cs; cases "tl cs") (simp_all add: Let_def split: if_split_asm)
    with 3 show ?thesis unfolding Cons by (simp add: Let_def)
  next
    case 4
    with ok obtain c1 c2 c3 cs3 where "cs = c1 # c2 # c3 # cs3"
      "continues (if ?b = 0xF0 then 0x90 else 0x80) (if ?b = 0xF4 then 0x8F else 0xBF) c1"
      "continues 0x80 0xBF c2" "continues 0x80 0xBF c3"
      by (cases cs; cases "tl cs"; cases "tl (tl cs)") (simp_all add: Let_def split: if_split_asm)
    with 4 show ?thesis unfolding Cons by (simp add: Let_def)
  qed
qed (use assms in simp)

lemma rune_count_Nil [simp]: "rune_count [] = 0"
  by (simp add: rune_count.simps)

lemma rune_count_step: "s \<noteq> [] \<Longrightarrow> rune_count s = Suc (rune_count (drop (snd (decode_rune s)) s))"
  by (simp add: rune_count.simps)

lemma rune_count_pos: "s \<noteq> [] \<Longrightarrow> 0 < rune_count s"
  by (simp add: rune_count_step)

lemma printable_Nil [simp]: "printable cf []"
  by (simp add: printable.simps)

lemma printable_step:
  "s \<noteq> [] \<Longrightarrow> printable cf s \<longleftrightarrow>
     \<not> (fst (decode_rune s) = rune_error \<and> snd (decode_rune s) = 1)
     \<and> \<not> unprintable cf (fst (decode_rune s)) \<and> printable cf (drop (snd (decode_rune s)) s)"
  by (simp add: printable.simps)

lemma decode_append:
  assumes "s \<noteq> []" "\<not> (fst (decode_rune s) = rune_error \<and> snd (decode_rune s) = 1)"
  shows "decode_rune (s @ t) = decode_rune s"
    and "drop (snd (decode_rune s)) (s @ t) = drop (snd (decode_rune s)) s @ t"
proof -
  let ?k = "snd (decode_rune s)"
  have "s @ t = take ?k s @ (drop ?k s @ t)" by simp
  then show "decode_rune (s @ t) = decode_rune s" using decode_prefix [OF assms] by metis
  show "drop ?k (s @ t) = drop ?k s @ t" using decode_width [OF assms(1)] by simp
qed

lemma printable_append: "printable cf s \<Longrightarrow> printable cf t \<Longrightarrow> printable cf (s @ t)"
proof (induction cf s rule: printable.induct)
  case (1 cf s)
  show ?case
  proof (cases "s = []")
    case False
    with "1.prems"(1) have s: "\<not> (fst (decode_rune s) = rune_error \<and> snd (decode_rune s) = 1)"
      "\<not> unprintable cf (fst (decode_rune s))" "printable cf (drop (snd (decode_rune s)) s)"
      by (simp_all add: printable_step)
    with "1.IH" [OF False] "1.prems"(2) have "printable cf (drop (snd (decode_rune s)) s @ t)" by blast
    with False s decode_append [OF False s(1)] show ?thesis by (simp add: printable_step [of "s @ t"])
  qed (use 1 in simp)
qed

lemma rune_count_append: "printable cf s \<Longrightarrow> rune_count (s @ t) = rune_count s + rune_count t"
proof (induction cf s rule: printable.induct)
  case (1 cf s)
  show ?case
  proof (cases "s = []")
    case False
    with "1.prems" have s: "\<not> (fst (decode_rune s) = rune_error \<and> snd (decode_rune s) = 1)"
      "printable cf (drop (snd (decode_rune s)) s)"
      by (simp_all add: printable_step)
    with "1.IH" [OF False] have "rune_count (drop (snd (decode_rune s)) s @ t) =
        rune_count (drop (snd (decode_rune s)) s) + rune_count t" by blast
    with False decode_append [OF False s(1)] show ?thesis by (simp add: rune_count_step)
  qed simp
qed

lemma printable_ascii:
  assumes "format_table cf" "\<forall>c \<in> set s. 0x20 \<le> byte c \<and> byte c < 0x7F"
  shows "printable cf s"
  using assms(2)
proof (induction s)
  case (Cons c s)
  with assms(1) show ?case
    by (simp add: printable_step rune_error_def unprintable_def is_control_def format_table_def)
qed simp

lemma hex_chars: "c \<in> set (hextoa v) \<Longrightarrow> 0x20 \<le> byte c \<and> byte c < 0x7F"
  using digits_base_chars [of 16 c v] by (auto simp: hextoa_def byte_def of_char_digit)

lemma printable_escapes:
  assumes "format_table cf"
  shows "printable cf (escaped_byte v)" "printable cf (escaped_rune v)" "printable cf ellipsis"
proof -
  show b: "printable cf (escaped_byte v)"
    by (rule printable_ascii [OF assms]) (auto simp: escaped_byte_def hex_pad_def byte_def hex_chars [unfolded byte_def])
  have "\<not> v < 0x100 \<Longrightarrow> printable cf (escaped_rune v)"
    by (rule printable_ascii [OF assms]) (auto simp: escaped_rune_def hex_pad_def byte_def hex_chars [unfolded byte_def])
  with b show "printable cf (escaped_rune v)" by (cases "v < 0x100") (simp_all add: escaped_rune_def)
  show "printable cf ellipsis" using assms
    by (simp add: ellipsis_def printable_step byte_def continues_def rune_error_def unprintable_def is_control_def
        format_table_def)
qed

lemma rune_count_ellipsis: "rune_count ellipsis = 1"
  by (simp add: ellipsis_def rune_count_step byte_def continues_def)

lemma printable_rune:
  assumes "s \<noteq> []" "\<not> (fst (decode_rune s) = rune_error \<and> snd (decode_rune s) = 1)" "\<not> unprintable cf (fst (decode_rune s))"
  shows "printable cf (take (snd (decode_rune s)) s) \<and> rune_count (take (snd (decode_rune s)) s) = 1"
proof -
  let ?p = "take (snd (decode_rune s)) s"
  have "?p \<noteq> []" "decode_rune ?p = decode_rune s"
    using decode_width [OF assms(1)] assms(1) decode_prefix [OF assms(1,2), of "[]"] by auto
  with assms(2,3) show ?thesis by (simp add: printable_step rune_count_step)
qed

lemma printable_piece:
  assumes "format_table cf" "s \<noteq> []"
  shows "printable cf (piece cf s)"
  using printable_escapes [OF assms(1)] printable_rune [OF assms(2)]
  by (simp add: piece_def case_prod_beta)

section \<open>What escape gives\<close>

lemma escape_from_step:
  assumes "s \<noteq> []"
  defines "rest \<equiv> drop (snd (decode_rune s)) s"
  shows "escape_from cf most n s =
    (if n + rune_count (piece cf s) > (if rest \<noteq> [] then most - 1 else most) then ellipsis
     else piece cf s @ escape_from cf most (n + rune_count (piece cf s)) rest)"
  using assms by (subst escape_from.simps) (simp add: Let_def)

lemma escape_from_Nil [simp]: "escape_from cf most n [] = []"
  by (simp add: escape_from.simps)

lemma printable_escape_from:
  assumes "format_table cf"
  shows "printable cf (escape_from cf most n s)"
proof (induction "length s" arbitrary: n s rule: less_induct)
  case less
  show ?case
  proof (cases "s = []")
    case False
    have "printable cf (escape_from cf most m (drop (snd (decode_rune s)) s))" for m
      by (rule less) (rule decode_smaller [OF False])
    with False printable_piece [OF assms False] printable_escapes(3) [OF assms] show ?thesis
      by (simp add: escape_from_step printable_append)
  qed simp
qed

lemma escape_from_bound:
  assumes "format_table cf"
  shows "n + (if s = [] then 0 else 1) \<le> most \<Longrightarrow> n + rune_count (escape_from cf most n s) \<le> most"
proof (induction "length s" arbitrary: n s rule: less_induct)
  case less
  show ?case
  proof (cases "s = []")
    case False
    let ?rest = "drop (snd (decode_rune s)) s" and ?m = "n + rune_count (piece cf s)"
    have smaller: "length ?rest < length s" by (rule decode_smaller [OF False])
    show ?thesis
    proof (cases "?m > (if ?rest \<noteq> [] then most - 1 else most)")
      case True
      with False less.prems show ?thesis by (simp add: escape_from_step rune_count_ellipsis)
    next
      case fits: False
      then have "?m + (if ?rest = [] then 0 else 1) \<le> most" using less.prems False by (auto split: if_splits)
      from less.hyps [OF smaller this] show ?thesis
        using False fits by (simp add: escape_from_step rune_count_append [OF printable_piece [OF assms False]])
    qed
  qed (use less.prems in simp)
qed

lemma escape_from_printable:
  "printable cf s \<Longrightarrow> n + rune_count s \<le> most \<Longrightarrow> escape_from cf most n s = s"
proof (induction "length s" arbitrary: n s rule: less_induct)
  case less
  show ?case
  proof (cases "s = []")
    case False
    let ?rest = "drop (snd (decode_rune s)) s"
    have s: "\<not> (fst (decode_rune s) = rune_error \<and> snd (decode_rune s) = 1)" "\<not> unprintable cf (fst (decode_rune s))"
      "printable cf ?rest" using less.prems(1) False by (simp_all add: printable_step)
    have p: "piece cf s = take (snd (decode_rune s)) s" "rune_count (piece cf s) = 1"
      using s printable_rune [OF False s(1,2)] by (auto simp: piece_def split: prod.splits)
    have room: "n + 1 + rune_count ?rest \<le> most" using less.prems(2) False by (simp add: rune_count_step)
    then have "escape_from cf most (n + 1) ?rest = ?rest"
      by (rule less.hyps [OF decode_smaller [OF False] s(3)])
    moreover have "\<not> n + 1 > (if ?rest \<noteq> [] then most - 1 else most)" using room rune_count_pos [of ?rest] by auto
    ultimately show ?thesis using False p by (simp add: escape_from_step)
  qed simp
qed

text \<open>
  C30: Text from outside is made harmless and stays readable. Whatever the bytes, what \<^verbatim>\<open>escape\<close> gives is
  valid text of at most the given number of runes, without control or format characters or line
  separators; text that was already so is not changed; and escaping twice is escaping once.
\<close>

theorem escape_safe:
  assumes "format_table cf" "0 < most"
  shows "printable cf (escape cf s most) \<and> rune_count (escape cf s most) \<le> most
    \<and> (printable cf s \<longrightarrow> rune_count s \<le> most \<longrightarrow> escape cf s most = s)
    \<and> escape cf (escape cf s most) most = escape cf s most"
proof -
  have p: "printable cf (escape cf s most)" using printable_escape_from [OF assms(1)] by (simp add: escape_def)
  have b: "rune_count (escape cf s most) \<le> most"
    using escape_from_bound [OF assms(1), of 0 s most] assms(2) by (simp add: escape_def)
  show ?thesis using p b escape_from_printable [of cf _ 0 most] by (simp add: escape_def)
qed

text \<open>A terminal sequence in a name.\<close>

definition sample_format :: "nat \<Rightarrow> bool" where
  "sample_format r \<longleftrightarrow> r = 0xAD \<or> 0x200B \<le> r \<and> r \<le> 0x200F \<or> 0x202A \<le> r \<and> r \<le> 0x202E"

theorem escape_safe_witness:
  "printable sample_format (escape sample_format [CHR 0x1B, CHR ''['', CHR 0xFF] 120)
   \<and> \<not> printable sample_format [CHR 0x1B, CHR ''['', CHR 0xFF]"
proof -
  have "format_table sample_format" by (simp add: format_table_def sample_format_def)
  from escape_safe [OF this, of 120 "[CHR 0x1B, CHR ''['', CHR 0xFF]"]
  show ?thesis by (simp add: printable_step byte_def unprintable_def is_control_def)
qed

end
