(* ===== verification/Code_Scan.thy ===== *)
theory Code_Scan
  imports Text_Escape "HOL-Library.AList"
begin

text \<open>
  \<^verbatim>\<open>internal/aiusage/codescan.go\<close>: the source scan, a document somebody else wrote, cut to what a report
  carries. Decoding its JSON is a parameter. A provider is carried with the sites of all its entries or
  not at all, and what is not carried is counted in the limits.
\<close>

section \<open>The document\<close>

record scan_line =
  sl_provider :: string
  sl_label :: string
  sl_occurrences :: "(string \<times> int) list"

record scan_doc =
  sd_schema :: string
  sd_generated :: string
  sd_root :: string
  sd_tool_name :: string
  sd_tool_version :: string
  sd_entries :: "scan_line list"
  sd_limits :: "string list"

record scan_entry =
  se_sites :: nat
  se_labels :: "string list"

record code_scan =
  cs_root :: string
  cs_generated :: string
  cs_tool :: string
  cs_limits :: "string list"
  cs_providers :: "(string \<times> scan_entry) list"

datatype scan_error = Scan_Too_Large | Scan_Unparsable string | Scan_Schema string

definition code_scan_schema :: string where "code_scan_schema = ''qryx.ai-inventory/v1''"
definition max_scan_bytes :: nat where "max_scan_bytes = 32 * 1024 * 1024"
definition max_providers :: nat where "max_providers = 512"
definition max_labels :: nat where "max_labels = 32"
definition max_scan_limits :: nat where "max_scan_limits = 64"

definition normalize_provider :: "string \<Rightarrow> string" where
  "normalize_provider p = to_lower (trim_space p)"

definition is_lower_alnum :: "char \<Rightarrow> bool" where
  "is_lower_alnum c \<longleftrightarrow> byte (CHR ''a'') \<le> byte c \<and> byte c \<le> byte (CHR ''z'') \<or> byte (CHR ''0'') \<le> byte c \<and> byte c \<le> byte (CHR ''9'')"

definition valid_provider_id :: "string \<Rightarrow> bool" where
  "valid_provider_id s \<longleftrightarrow> s \<noteq> [] \<and> length s \<le> 64 \<and> is_lower_alnum (hd s)
     \<and> list_all (\<lambda>c. is_lower_alnum c \<or> c \<in> {CHR ''.'', CHR ''_'', CHR ''-''}) (tl s)"

text \<open>An empty slice stays nil; a slice of strings is sorted with its repeats dropped.\<close>

definition dedupe_sorted :: "string list \<Rightarrow> string list" where
  "dedupe_sorted xs = sorted_keys xs"

section \<open>Reading it\<close>

definition carried_limits :: "(nat \<Rightarrow> bool) \<Rightarrow> string list \<Rightarrow> string list" where
  "carried_limits cf ls =
     map (\<lambda>l. escape cf l max_stored) (take max_scan_limits ls) @
     (if length ls > max_scan_limits
      then [''The scan listed '' @ utoa (length ls) @ '' limit(s) and this report carries the first '' @ utoa max_scan_limits @ ''.'']
      else [])"

record scan_tally =
  sc_providers :: "(string \<times> scan_entry) list"
  sc_unnamed :: "nat \<times> nat"
  sc_not_id :: "nat \<times> nat"
  sc_beyond :: "nat \<times> nat"

definition bump_tally_by :: "nat \<Rightarrow> nat \<times> nat \<Rightarrow> nat \<times> nat" where
  "bump_tally_by sites = (\<lambda>(rows, total). (Suc rows, total + sites))"

definition scan_entry_step :: "(nat \<Rightarrow> bool) \<Rightarrow> scan_tally \<Rightarrow> scan_line \<Rightarrow> scan_tally" where
  "scan_entry_step cf t e =
     (let sites = length (sl_occurrences e); p = normalize_provider (sl_provider e) in
      if p = [] then t\<lparr>sc_unnamed := bump_tally_by sites (sc_unnamed t)\<rparr>
      else if \<not> valid_provider_id p then t\<lparr>sc_not_id := bump_tally_by sites (sc_not_id t)\<rparr>
      else
        let known = map_of (sc_providers t) p in
        if known = None \<and> length (sc_providers t) \<ge> max_providers then t\<lparr>sc_beyond := bump_tally_by sites (sc_beyond t)\<rparr>
        else
          let entry = (case known of Some x \<Rightarrow> x | None \<Rightarrow> \<lparr>se_sites = 0, se_labels = []\<rparr>);
              entry = entry\<lparr>se_sites := se_sites entry + sites\<rparr>;
              label = trim_space (sl_label e);
              entry = (if label \<noteq> [] \<and> length (se_labels entry) < max_labels
                       then entry\<lparr>se_labels := se_labels entry @ [escape cf label max_stored]\<rparr> else entry)
          in t\<lparr>sc_providers := AList.update p entry (sc_providers t)\<rparr>)"

definition empty_tally :: scan_tally where
  "empty_tally = \<lparr>sc_providers = [], sc_unnamed = (0, 0), sc_not_id = (0, 0), sc_beyond = (0, 0)\<rparr>"

definition tally_limits :: "scan_tally \<Rightarrow> string list" where
  "tally_limits t =
     (if fst (sc_unnamed t) > 0 then
        [''The scan found '' @ utoa (fst (sc_unnamed t)) @ '' row(s) at '' @ utoa (snd (sc_unnamed t)) @
         '' site(s) that reach a model through an indirection it could not resolve, so they name no provider and appear in no row below.'']
      else []) @
     (if fst (sc_not_id t) > 0 then
        [''The scan named '' @ utoa (fst (sc_not_id t)) @ '' row(s) at '' @ utoa (snd (sc_not_id t)) @
         '' site(s) with something that is not a provider id, so they appear in no row below.'']
      else []) @
     (if fst (sc_beyond t) > 0 then
        [''The scan named more than '' @ utoa max_providers @ '' providers; '' @ utoa (fst (sc_beyond t)) @ '' row(s) at '' @
         utoa (snd (sc_beyond t)) @ '' site(s) for the rest are not carried.'']
      else [])"

definition parse_code_scan :: "(nat \<Rightarrow> bool) \<Rightarrow> (string \<Rightarrow> string + scan_doc) \<Rightarrow> string \<Rightarrow> scan_error + code_scan" where
  "parse_code_scan cf decode data =
     (if length data > max_scan_bytes then Inl Scan_Too_Large
      else case decode data of
        Inl err \<Rightarrow> Inl (Scan_Unparsable err)
      | Inr doc \<Rightarrow>
          if sd_schema doc \<noteq> code_scan_schema then Inl (Scan_Schema (escape cf (sd_schema doc) 80))
          else
            let t = foldl (scan_entry_step cf) empty_tally (sd_entries doc)
            in Inr \<lparr>cs_root = escape cf (sd_root doc) max_stored, cs_generated = escape cf (sd_generated doc) max_stored,
                    cs_tool = escape cf (sd_tool_name doc @ '' '' @ sd_tool_version doc) max_stored,
                    cs_limits = carried_limits cf (sd_limits doc) @ tally_limits t,
                    cs_providers = map (\<lambda>(p, e). (p, e\<lparr>se_labels := dedupe_sorted (se_labels e)\<rparr>)) (sc_providers t)\<rparr>)"

text \<open>\<^verbatim>\<open>LoadCodeScan\<close>: at most one byte past the bound is read.\<close>

definition load_code_scan :: "(nat \<Rightarrow> bool) \<Rightarrow> (string \<Rightarrow> string + scan_doc) \<Rightarrow> string + string \<Rightarrow> (string + scan_error) + code_scan" where
  "load_code_scan cf decode file =
     (case file of
        Inl err \<Rightarrow> Inl (Inl err)
      | Inr content \<Rightarrow> map_sum Inr id (parse_code_scan cf decode (take (max_scan_bytes + 1) content)))"

definition sorted_providers :: "code_scan \<Rightarrow> string list" where
  "sorted_providers c = sort (map fst (cs_providers c))"

section \<open>Every site is carried or counted\<close>

definition named :: "scan_line list \<Rightarrow> (string \<Rightarrow> bool) \<Rightarrow> scan_line list" where
  "named es P = filter (\<lambda>e. P (normalize_provider (sl_provider e))) es"

definition sites_of :: "scan_line list \<Rightarrow> nat" where
  "sites_of es = sum_list (map (length \<circ> sl_occurrences) es)"

definition tally_of_lines :: "scan_line list \<Rightarrow> nat \<times> nat" where
  "tally_of_lines es = (length es, sites_of es)"

text \<open>A row is beyond the table when its provider is an id the table does not hold.\<close>

definition left_out :: "string list \<Rightarrow> string \<Rightarrow> bool" where
  "left_out keys p \<longleftrightarrow> p \<noteq> [] \<and> valid_provider_id p \<and> p \<notin> set keys"

definition scan_inv :: "scan_line list \<Rightarrow> scan_tally \<Rightarrow> bool" where
  "scan_inv es t \<longleftrightarrow>
     distinct (map fst (sc_providers t)) \<and> length (sc_providers t) \<le> max_providers
     \<and> (\<forall>p \<in> fst ` set (sc_providers t). valid_provider_id p)
     \<and> (\<forall>(p, x) \<in> set (sc_providers t). se_sites x = sites_of (named es ((=) p)) \<and> length (se_labels x) \<le> max_labels)
     \<and> sc_unnamed t = tally_of_lines (named es (\<lambda>p. p = []))
     \<and> sc_not_id t = tally_of_lines (named es (\<lambda>p. p \<noteq> [] \<and> \<not> valid_provider_id p))
     \<and> sc_beyond t = tally_of_lines (named es (left_out (map fst (sc_providers t))))
     \<and> (named es (left_out (map fst (sc_providers t))) \<noteq> [] \<longrightarrow> length (sc_providers t) = max_providers)"

lemma named_append [simp]: "named (es @ fs) P = named es P @ named fs P"
  by (simp add: named_def)

lemma named_Cons: "named (e # es) P = (if P (normalize_provider (sl_provider e)) then e # named es P else named es P)"
  by (simp add: named_def)

lemma named_Nil [simp]: "named [] P = []"
  by (simp add: named_def)

lemma sites_append [simp]: "sites_of (es @ fs) = sites_of es + sites_of fs"
  by (simp add: sites_of_def)

lemma sites_Nil [simp]: "sites_of [] = 0"
  by (simp add: sites_of_def)

lemma bump_tally: "bump_tally_by (length (sl_occurrences e)) (tally_of_lines es) = tally_of_lines (es @ [e])"
  by (simp add: bump_tally_by_def tally_of_lines_def sites_of_def)

lemma scan_inv_empty: "scan_inv [] empty_tally"
  by (simp add: scan_inv_def empty_tally_def tally_of_lines_def sites_of_def)

lemma not_valid_Nil [simp]: "\<not> valid_provider_id []"
  by (simp add: valid_provider_id_def)

text \<open>The entry a provider gets from one more row.\<close>

definition grown :: "(nat \<Rightarrow> bool) \<Rightarrow> scan_line \<Rightarrow> scan_entry \<Rightarrow> scan_entry" where
  "grown cf e x =
     (let x = x\<lparr>se_sites := se_sites x + length (sl_occurrences e)\<rparr>; label = trim_space (sl_label e)
      in if label \<noteq> [] \<and> length (se_labels x) < max_labels
         then x\<lparr>se_labels := se_labels x @ [escape cf label max_stored]\<rparr> else x)"

lemma grown_fields:
  "se_sites (grown cf e x) = se_sites x + length (sl_occurrences e)"
  "length (se_labels x) \<le> max_labels \<Longrightarrow> length (se_labels (grown cf e x)) \<le> max_labels"
  by (auto simp: grown_def Let_def)

definition fresh_entry :: scan_entry where
  "fresh_entry = \<lparr>se_sites = 0, se_labels = []\<rparr>"

lemma update_new: "k \<notin> fst ` set al \<Longrightarrow> AList.update k v al = al @ [(k, v)]"
  by (induction al) auto

lemma scan_entry_step_none:
  assumes "p = normalize_provider (sl_provider e)"
  shows "p = [] \<Longrightarrow> scan_entry_step cf t e = t\<lparr>sc_unnamed := bump_tally_by (length (sl_occurrences e)) (sc_unnamed t)\<rparr>"
    and "p \<noteq> [] \<Longrightarrow> \<not> valid_provider_id p \<Longrightarrow>
      scan_entry_step cf t e = t\<lparr>sc_not_id := bump_tally_by (length (sl_occurrences e)) (sc_not_id t)\<rparr>"
  using assms by (simp_all add: scan_entry_step_def Let_def)

lemma scan_entry_step_beyond:
  assumes "p = normalize_provider (sl_provider e)" "valid_provider_id p" "p \<notin> set (map fst (sc_providers t))"
    and "length (sc_providers t) \<ge> max_providers"
  shows "scan_entry_step cf t e = t\<lparr>sc_beyond := bump_tally_by (length (sl_occurrences e)) (sc_beyond t)\<rparr>"
proof -
  have "map_of (sc_providers t) p = None" "p \<noteq> []" using assms(2,3) by (auto simp: map_of_eq_None_iff valid_provider_id_def)
  with assms show ?thesis by (simp add: scan_entry_step_def Let_def)
qed

lemma scan_entry_step_new:
  assumes "p = normalize_provider (sl_provider e)" "valid_provider_id p" "p \<notin> set (map fst (sc_providers t))"
    and "length (sc_providers t) < max_providers"
  shows "scan_entry_step cf t e = t\<lparr>sc_providers := sc_providers t @ [(p, grown cf e fresh_entry)]\<rparr>"
proof -
  have none: "map_of (sc_providers t) p = None" "p \<noteq> []" using assms(2,3) by (auto simp: map_of_eq_None_iff valid_provider_id_def)
  have "scan_entry_step cf t e = t\<lparr>sc_providers := AList.update p (grown cf e fresh_entry) (sc_providers t)\<rparr>"
    using assms(2,4) none unfolding assms(1) by (simp add: scan_entry_step_def grown_def fresh_entry_def Let_def)
  with assms(3) show ?thesis by (simp add: update_new)
qed

lemma scan_entry_step_known:
  assumes "p = normalize_provider (sl_provider e)" "valid_provider_id p" "map_of (sc_providers t) p = Some x"
  shows "scan_entry_step cf t e = t\<lparr>sc_providers := AList.update p (grown cf e x) (sc_providers t)\<rparr>"
proof -
  have "p \<noteq> []" using assms(2) by (auto simp: valid_provider_id_def)
  with assms(2,3) show ?thesis unfolding assms(1) by (simp add: scan_entry_step_def grown_def Let_def)
qed

lemma scan_inv_step:
  assumes inv: "scan_inv es t"
  shows "scan_inv (es @ [e]) (scan_entry_step cf t e)"
proof -
  define p where p: "p = normalize_provider (sl_provider e)"
  let ?ks = "map fst (sc_providers t)"
  have one: "named [e] P = (if P p then [e] else [])" for P by (simp add: named_Cons p)
  have same: "named (es @ [e]) ((=) q) = named es ((=) q)" if "q \<noteq> p" for q using that by (simp add: one)
  have valid: "valid_provider_id q" if "(q, x) \<in> set (sc_providers t)" for q x
    using inv that unfolding scan_inv_def by force
  consider "p = []" | "p \<noteq> []" "\<not> valid_provider_id p"
    | "valid_provider_id p" "p \<notin> set ?ks" "length (sc_providers t) \<ge> max_providers"
    | "valid_provider_id p" "p \<notin> set ?ks" "length (sc_providers t) < max_providers"
    | x where "valid_provider_id p" "map_of (sc_providers t) p = Some x"
    by (metis list.set_map map_of_eq_None_iff not_le option.exhaust)
  then show ?thesis
  proof cases
    case 1
    have "q \<noteq> p" if "(q, x) \<in> set (sc_providers t)" for q x using valid [OF that] 1 by auto
    with inv 1 show ?thesis
      by (auto simp: scan_entry_step_none(1) [OF p 1] scan_inv_def one left_out_def bump_tally)
  next
    case 2
    have "q \<noteq> p" if "(q, x) \<in> set (sc_providers t)" for q x using valid [OF that] 2 by auto
    with inv 2 show ?thesis by (auto simp: scan_entry_step_none(2) [OF p 2] scan_inv_def one left_out_def bump_tally)
  next
    case 3
    have "q \<noteq> p" if "(q, x) \<in> set (sc_providers t)" for q x using that 3(2) by force
    moreover have "p \<noteq> []" using 3(1) by (auto simp: valid_provider_id_def)
    ultimately show ?thesis using inv 3
      by (auto simp: scan_entry_step_beyond [OF p 3] scan_inv_def one left_out_def bump_tally)
  next
    case 4
    have ne: "p \<noteq> []" using 4(1) by (auto simp: valid_provider_id_def)
    have clear: "named es (left_out ?ks) = []" using inv 4(3) by (auto simp: scan_inv_def)
    then have unseen: "named es ((=) p) = []" using 4(1,2) ne by (auto simp: named_def filter_empty_conv left_out_def)
    have still: "named es (left_out (?ks @ [p])) = []" using clear by (auto simp: named_def filter_empty_conv left_out_def)
    have q: "q \<noteq> p" if "(q, x) \<in> set (sc_providers t)" for q x using that 4(2) by force
    show ?thesis using inv 4 ne q unseen clear still
      by (auto simp: scan_entry_step_new [OF p 4] scan_inv_def one left_out_def grown_fields fresh_entry_def sites_of_def
          tally_of_lines_def)
  next
    case (5 x)
    have ne: "p \<noteq> []" using 5(1) by (auto simp: valid_provider_id_def)
    have mem: "(p, x) \<in> set (sc_providers t)" using 5(2) by (rule map_of_SomeD)
    have keys: "map fst (AList.update p (grown cf e x) (sc_providers t)) = ?ks"
      using mem by (force simp: update_keys)
    have sub: "(q, y) \<in> set (AList.update p (grown cf e x) (sc_providers t)) \<Longrightarrow>
        q = p \<and> y = grown cf e x \<or> q \<noteq> p \<and> (q, y) \<in> set (sc_providers t)" for q y
      using inv distinct_update [of "sc_providers t" p "grown cf e x"]
      by (metis (no_types, lifting) map_of_is_SomeI map_of_SomeD scan_inv_def update_conv' fun_upd_apply option.inject)
    have len: "length (AList.update p (grown cf e x) (sc_providers t)) = length (sc_providers t)"
      using keys by (metis length_map)
    have "se_sites x = sites_of (named es ((=) p))" "length (se_labels x) \<le> max_labels"
      using inv mem by (auto simp: scan_inv_def)
    then have "se_sites (grown cf e x) = sites_of (named (es @ [e]) ((=) p))" "length (se_labels (grown cf e x)) \<le> max_labels"
      by (simp_all add: grown_fields one sites_of_def)
    then have new: "q = p \<and> y = grown cf e x \<Longrightarrow> se_sites y = sites_of (named (es @ [e]) ((=) q)) \<and> length (se_labels y) \<le> max_labels" for q y
      by simp
    have old: "(q, y) \<in> set (sc_providers t) \<Longrightarrow> se_sites y = sites_of (named es ((=) q)) \<and> length (se_labels y) \<le> max_labels" for q y
      using inv by (auto simp: scan_inv_def)
    have "se_sites y = sites_of (named (es @ [e]) ((=) q)) \<and> length (se_labels y) \<le> max_labels"
      if "(q, y) \<in> set (AList.update p (grown cf e x) (sc_providers t))" for q y
      using sub [OF that] new [of q y] old [of q y] same [of q] by metis
    then have "\<forall>(q, y) \<in> set (AList.update p (grown cf e x) (sc_providers t)).
        se_sites y = sites_of (named (es @ [e]) ((=) q)) \<and> length (se_labels y) \<le> max_labels" by blast
    moreover have "named (es @ [e]) (left_out ?ks) = named es (left_out ?ks)"
      using mem by (force simp: one left_out_def)
    moreover have "named (es @ [e]) (\<lambda>p. p = []) = named es (\<lambda>p. p = [])"
      "named (es @ [e]) (\<lambda>p. p \<noteq> [] \<and> \<not> valid_provider_id p) = named es (\<lambda>p. p \<noteq> [] \<and> \<not> valid_provider_id p)"
      using ne 5(1) by (simp_all add: one)
    moreover have "\<forall>y \<in> set (AList.update p (grown cf e x) (sc_providers t)). valid_provider_id (fst y)"
      using sub valid 5(1) by (metis prod.collapse)
    ultimately show ?thesis using inv
      by (simp add: scan_entry_step_known [OF p 5] scan_inv_def keys len del: named_append)
  qed
qed

section \<open>The scan a report gets\<close>

lemma scan_inv_all: "scan_inv es (foldl (scan_entry_step cf) empty_tally es)"
proof (induction es rule: rev_induct)
  case (snoc e es)
  then show ?case using scan_inv_step by simp
qed (simp add: scan_inv_empty)

definition tally_line :: "nat \<times> nat \<Rightarrow> (string \<Rightarrow> string \<Rightarrow> string) \<Rightarrow> string list" where
  "tally_line n say = (if fst n > 0 then [say (utoa (fst n)) (utoa (snd n))] else [])"

definition say_unnamed :: "string \<Rightarrow> string \<Rightarrow> string" where
  "say_unnamed rows sites = ''The scan found '' @ rows @ '' row(s) at '' @ sites @
     '' site(s) that reach a model through an indirection it could not resolve, so they name no provider and appear in no row below.''"

definition say_not_id :: "string \<Rightarrow> string \<Rightarrow> string" where
  "say_not_id rows sites = ''The scan named '' @ rows @ '' row(s) at '' @ sites @
     '' site(s) with something that is not a provider id, so they appear in no row below.''"

definition say_beyond :: "string \<Rightarrow> string \<Rightarrow> string" where
  "say_beyond rows sites = ''The scan named more than '' @ utoa max_providers @ '' providers; '' @ rows @ '' row(s) at '' @
     sites @ '' site(s) for the rest are not carried.''"

lemma tally_limits_lines:
  "tally_limits t = tally_line (sc_unnamed t) say_unnamed @ tally_line (sc_not_id t) say_not_id @ tally_line (sc_beyond t) say_beyond"
  by (simp add: tally_limits_def tally_line_def say_unnamed_def say_not_id_def say_beyond_def)


text \<open>A row of a framework, which names no provider, beside one that does.\<close>

definition sample_scan_doc :: scan_doc where
  "sample_scan_doc =
     \<lparr>sd_schema = code_scan_schema, sd_generated = [], sd_root = ''repo'', sd_tool_name = ''qryx'', sd_tool_version = ''1'',
      sd_entries = [\<lparr>sl_provider = ''OpenAI '', sl_label = ''SDK'', sl_occurrences = [(''a.py'', 3), (''b.py'', 7)]\<rparr>,
        \<lparr>sl_provider = [], sl_label = ''LangChain'', sl_occurrences = [(''c.py'', 1)]\<rparr>],
      sd_limits = []\<rparr>"


end
