(* ===== verification/AI_Usage.thy ===== *)
theory AI_Usage
  imports Code_Scan Detect_Egress Ingest_Events
begin

text \<open>
  \<^verbatim>\<open>internal/aiusage/aiusage.go\<close>: where an estate uses AI models, by provider, as its three sources say
  it: declared by a Passport, observed by the sensor, found in code. The matcher of hosts is a parameter,
  as in the code, and \<open>match_llm_host\<close> is the one \<^verbatim>\<open>aiInventoryReport\<close> passes.
\<close>

section \<open>Rows\<close>

record usage_row =
  ur_provider :: string
  ur_declared :: "string list"
  ur_observed :: "string list"
  ur_sites :: nat
  ur_labels :: "string list"
  ur_gaps :: "string list"

definition GapAgrees :: string where "GapAgrees = ''agrees''"
definition GapDeclaredNotSeen :: string where "GapDeclaredNotSeen = ''declared_not_seen''"
definition GapDeclaredBusOnly :: string where "GapDeclaredBusOnly = ''declared_bus_only''"
definition GapSeenNotDeclared :: string where "GapSeenNotDeclared = ''seen_not_declared''"
definition GapSeenNoDeclaration :: string where "GapSeenNoDeclaration = ''seen_no_declaration''"
definition GapDeclaresNoModels :: string where "GapDeclaresNoModels = ''declares_no_models''"
definition GapNoDeclaration :: string where "GapNoDeclaration = ''no_declaration''"
definition GapInCodeNotSeen :: string where "GapInCodeNotSeen = ''in_code_not_seen''"

lemmas gap_names = GapAgrees_def GapDeclaredNotSeen_def GapDeclaredBusOnly_def GapSeenNotDeclared_def
  GapSeenNoDeclaration_def GapDeclaresNoModels_def GapNoDeclaration_def GapInCodeNotSeen_def

definition match_llm_host :: "string \<Rightarrow> string option" where
  "match_llm_host dest = map_option lp_id (match_llm dest)"

definition row_declared :: "usage_row \<Rightarrow> bool" where "row_declared r \<longleftrightarrow> ur_declared r \<noteq> []"
definition row_observed :: "usage_row \<Rightarrow> bool" where "row_observed r \<longleftrightarrow> ur_observed r \<noteq> []"
definition row_coded :: "usage_row \<Rightarrow> bool" where "row_coded r \<longleftrightarrow> ur_sites r > 0"
definition row_agrees :: "usage_row \<Rightarrow> bool" where "row_agrees r \<longleftrightarrow> row_declared r \<and> row_observed r \<and> row_coded r"

definition provider_gaps :: "usage_row \<Rightarrow> bool \<Rightarrow> string list" where
  "provider_gaps r scanned =
     (if row_declared r \<and> \<not> row_observed r then [GapDeclaredNotSeen] else []) @
     (if row_observed r \<and> \<not> row_declared r then [GapSeenNotDeclared] else []) @
     (if scanned \<and> row_coded r \<and> \<not> row_observed r then [GapInCodeNotSeen] else [])"

text \<open>
  The map of rows. \<^verbatim>\<open>row\<close> makes a row on first use and gives nothing for an empty name; the two sets of
  pairs already added hold exactly the names in the rows' lists.
\<close>

definition new_row :: "string \<Rightarrow> usage_row" where
  "new_row p = \<lparr>ur_provider = p, ur_declared = [], ur_observed = [], ur_sites = 0, ur_labels = [], ur_gaps = []\<rparr>"

type_synonym usage_rows = "(string \<times> usage_row) list"

definition on_row :: "string \<Rightarrow> (usage_row \<Rightarrow> usage_row) \<Rightarrow> usage_rows \<Rightarrow> usage_rows" where
  "on_row name f rows =
     (let p = normalize_provider name in
      if p = [] then rows
      else AList.update p (f (case map_of rows p of Some r \<Rightarrow> r | None \<Rightarrow> new_row p)) rows)"

definition add_declared :: "string \<Rightarrow> usage_row \<Rightarrow> usage_row" where
  "add_declared k r = (if k \<in> set (ur_declared r) then r else r\<lparr>ur_declared := ur_declared r @ [k]\<rparr>)"

definition add_observed :: "string \<Rightarrow> usage_row \<Rightarrow> usage_row" where
  "add_observed k r = (if k \<in> set (ur_observed r) then r else r\<lparr>ur_observed := ur_observed r @ [k]\<rparr>)"

definition add_coded :: "scan_entry \<Rightarrow> usage_row \<Rightarrow> usage_row" where
  "add_coded x r = r\<lparr>ur_sites := ur_sites r + se_sites x, ur_labels := ur_labels r @ se_labels x\<rparr>"

definition usage_identity :: "(string \<Rightarrow> string option) \<Rightarrow> usage_rows \<Rightarrow> identity \<Rightarrow> usage_rows" where
  "usage_identity match rows i =
     (let rows = foldl (\<lambda>rows m. on_row (dm_provider m) (add_declared (i_id i)) rows) rows (i_models i)
      in foldl (\<lambda>rows e.
           if \<not> is_egress e then rows
           else case match (e_resource e) of
             None \<Rightarrow> rows
           | Some p \<Rightarrow> on_row p (add_observed (i_id i)) rows) rows (i_events i))"

definition usage_scan :: "usage_rows \<Rightarrow> code_scan \<Rightarrow> usage_rows" where
  "usage_scan rows scan = foldl (\<lambda>rows (p, x). on_row p (add_coded x) rows) rows (cs_providers scan)"

definition finish_row :: "bool \<Rightarrow> usage_row \<Rightarrow> usage_row" where
  "finish_row scanned r =
     (let r = r\<lparr>ur_declared := sort (ur_declared r), ur_observed := sort (ur_observed r), ur_labels := dedupe_sorted (ur_labels r)\<rparr>
      in r\<lparr>ur_gaps := provider_gaps r scanned\<rparr>)"

definition build_rows :: "(string \<Rightarrow> string option) \<Rightarrow> identity list \<Rightarrow> code_scan option \<Rightarrow> usage_row list" where
  "build_rows match ids scan =
     (let rows = foldl (usage_identity match) [] ids;
          rows = (case scan of None \<Rightarrow> rows | Some c \<Rightarrow> usage_scan rows c)
      in sort_key ur_provider (map (finish_row (scan \<noteq> None) \<circ> snd) rows))"

definition base_limits :: "string list" where
  "base_limits =
     [''A provider in no column is not a provider nobody uses: it is one nothing here can see.'',
      ''The observed column shows only hosts this sensor recognises, and only traffic it captured.'',
      ''The declared column is a self-declaration. agent-passport SPEC 4.5 says so, and nothing here attests it.'',
      ''The coded column has no agent: a source scan finds a file and a line, and no field binds a repository to an identity. Its counts are estate-wide.'',
      ''Attribution of a flow to an agent is self-declared: a process names itself through AGENT_PASSPORT_ID (agent-passport SPEC 3.3), and one that unsets it is still seen but unattributed. That is enough for detection and never for authorisation.'',
      ''The eBPF sensor is Linux-only and needs privilege and a kernel with BTF, so a laptop is not covered; an absent capture is not a capture that saw nothing.'',
      ''A process that can execute code can open a socket of its own. An enforcement point constrains traffic routed through it, and the bus names no provider, so an agent active there is seen to be governed and the provider it calls is visible only where its connection is captured.'']"

record scan_ref =
  rf_present :: bool
  rf_root :: string
  rf_generated :: string
  rf_tool :: string

definition scan_reference :: "code_scan option \<Rightarrow> scan_ref" where
  "scan_reference scan =
     (case scan of
        None \<Rightarrow> \<lparr>rf_present = False, rf_root = [], rf_generated = [], rf_tool = []\<rparr>
      | Some c \<Rightarrow> \<lparr>rf_present = True, rf_root = cs_root c, rf_generated = cs_generated c, rf_tool = cs_tool c\<rparr>)"

definition report_limits :: "code_scan option \<Rightarrow> string list" where
  "report_limits scan = base_limits @ (case scan of None \<Rightarrow> [] | Some c \<Rightarrow> cs_limits c)"

section \<open>What the rows hold\<close>

text \<open>A row as it is before it is finished, described by what has been added.\<close>

definition declares_model :: "string \<Rightarrow> identity \<Rightarrow> bool" where
  "declares_model p i \<longleftrightarrow> (\<exists>m \<in> set (i_models i). normalize_provider (dm_provider m) = p)"

definition reaches :: "(string \<Rightarrow> string option) \<Rightarrow> string \<Rightarrow> identity \<Rightarrow> bool" where
  "reaches match p i \<longleftrightarrow>
     (\<exists>e \<in> set (i_events i). is_egress e \<and> (\<exists>q. match (e_resource e) = Some q \<and> normalize_provider q = p))"

datatype usage_fact = Decl string string | Obs string string | Code string scan_entry

fun apply_fact :: "usage_fact \<Rightarrow> usage_rows \<Rightarrow> usage_rows" where
  "apply_fact (Decl p k) = on_row p (add_declared k)"
| "apply_fact (Obs p k) = on_row p (add_observed k)"
| "apply_fact (Code p x) = on_row p (add_coded x)"

fun about_provider :: "usage_fact \<Rightarrow> string" where
  "about_provider (Decl p k) = normalize_provider p"
| "about_provider (Obs p k) = normalize_provider p"
| "about_provider (Code p x) = normalize_provider p"

definition row_of :: "usage_fact list \<Rightarrow> string \<Rightarrow> usage_row \<Rightarrow> bool" where
  "row_of fs p r \<longleftrightarrow> ur_provider r = p
     \<and> distinct (ur_declared r) \<and> set (ur_declared r) = {k. \<exists>q. Decl q k \<in> set fs \<and> normalize_provider q = p}
     \<and> distinct (ur_observed r) \<and> set (ur_observed r) = {k. \<exists>q. Obs q k \<in> set fs \<and> normalize_provider q = p}
     \<and> ur_sites r = sum_list (map (\<lambda>f. case f of Code q x \<Rightarrow> if normalize_provider q = p then se_sites x else 0 | _ \<Rightarrow> 0) fs)
     \<and> set (ur_labels r) = (\<Union>f \<in> set fs. case f of Code q x \<Rightarrow> if normalize_provider q = p then set (se_labels x) else {} | _ \<Rightarrow> {})"

definition rows_of :: "usage_fact list \<Rightarrow> usage_rows \<Rightarrow> bool" where
  "rows_of fs rows \<longleftrightarrow> distinct (map fst rows)
     \<and> (\<forall>p. (map_of rows p = None \<longleftrightarrow> p \<notin> about_provider ` set fs - {[]}) \<and> (\<forall>r. map_of rows p = Some r \<longrightarrow> row_of fs p r))"

fun put_fact :: "usage_fact \<Rightarrow> usage_row \<Rightarrow> usage_row" where
  "put_fact (Decl p k) = add_declared k"
| "put_fact (Obs p k) = add_observed k"
| "put_fact (Code p x) = add_coded x"

lemma apply_fact_on_row:
  "apply_fact f rows =
     (if about_provider f = [] then rows
      else AList.update (about_provider f) (put_fact f (case map_of rows (about_provider f) of Some r \<Rightarrow> r | None \<Rightarrow> new_row (about_provider f))) rows)"
  by (cases f) (simp_all add: on_row_def Let_def split: option.split)

lemma row_of_other: "about_provider f \<noteq> p \<Longrightarrow> row_of (fs @ [f]) p r \<longleftrightarrow> row_of fs p r"
  by (cases f) (auto simp: row_of_def)

lemma row_of_same: "row_of fs (about_provider f) r \<Longrightarrow> row_of (fs @ [f]) (about_provider f) (put_fact f r)"
  by (cases f) (auto simp: row_of_def add_declared_def add_observed_def add_coded_def)

lemma row_of_new: "p \<notin> about_provider ` set fs \<Longrightarrow> row_of fs p (new_row p)"
proof -
  assume out: "p \<notin> about_provider ` set fs"
  have no: "f \<in> set fs \<Longrightarrow> about_provider f \<noteq> p" for f using out by blast
  have "Code q x \<in> set fs \<Longrightarrow> normalize_provider q \<noteq> p" "Decl q k \<in> set fs \<Longrightarrow> normalize_provider q \<noteq> p"
    "Obs q k \<in> set fs \<Longrightarrow> normalize_provider q \<noteq> p" for q k x
    using no by fastforce+
  then show ?thesis by (auto simp: row_of_def new_row_def split: usage_fact.splits)
qed

lemma rows_of_step: "rows_of fs rows \<Longrightarrow> rows_of (fs @ [f]) (apply_fact f rows)"
proof (cases "about_provider f = []")
  case True
  assume "rows_of fs rows"
  moreover from this have "map_of rows [] = None" by (simp add: rows_of_def)
  then have "row_of (fs @ [f]) p r \<longleftrightarrow> row_of fs p r" if "map_of rows p = Some r" for p r
    using that True by (intro row_of_other) auto
  ultimately show ?thesis using True by (auto simp: rows_of_def apply_fact_on_row)
next
  case False
  assume inv: "rows_of fs rows"
  let ?r = "case map_of rows (about_provider f) of Some r \<Rightarrow> r | None \<Rightarrow> new_row (about_provider f)"
  have "row_of fs (about_provider f) ?r"
    using inv False row_of_new [of "about_provider f" fs] by (auto simp: rows_of_def split: option.split)
  then have new: "row_of (fs @ [f]) (about_provider f) (put_fact f ?r)" by (rule row_of_same)
  show ?thesis
    using inv False new row_of_other [of f _ fs]
    by (auto simp: rows_of_def apply_fact_on_row update_conv' distinct_update split: if_splits)
qed

lemma rows_of_facts: "rows_of fs (foldl (\<lambda>rows f. apply_fact f rows) [] fs)"
proof (induction fs rule: rev_induct)
  case (snoc f fs)
  then show ?case using rows_of_step by simp
qed (simp add: rows_of_def)

text \<open>The run as a list of facts, in the order the code meets them.\<close>

definition identity_facts :: "(string \<Rightarrow> string option) \<Rightarrow> identity \<Rightarrow> usage_fact list" where
  "identity_facts match i =
     map (\<lambda>m. Decl (dm_provider m) (i_id i)) (i_models i) @
     List.map_filter (\<lambda>e. if is_egress e then map_option (\<lambda>p. Obs p (i_id i)) (match (e_resource e)) else None) (i_events i)"

definition scan_facts :: "code_scan option \<Rightarrow> usage_fact list" where
  "scan_facts scan = (case scan of None \<Rightarrow> [] | Some c \<Rightarrow> map (\<lambda>(p, x). Code p x) (cs_providers c))"

lemma foldl_map_filter:
  "foldl (\<lambda>s x. case f x of None \<Rightarrow> s | Some y \<Rightarrow> g y s) s xs = foldl (\<lambda>s y. g y s) s (List.map_filter f xs)"
  by (induction xs arbitrary: s) (simp_all add: map_filter_simps split: option.split)

lemma foldl_cong_fun: "(\<And>s x. f s x = g s x) \<Longrightarrow> foldl f s xs = foldl g s xs"
  by (rule arg_cong [of f g]) (simp add: fun_eq_iff)

lemma usage_identity_facts: "usage_identity match rows i = foldl (\<lambda>rows f. apply_fact f rows) rows (identity_facts match i)"
proof -
  let ?ev = "\<lambda>e. if is_egress e then map_option (\<lambda>p. Obs p (i_id i)) (match (e_resource e)) else None"
  let ?step = "\<lambda>rows e. if \<not> is_egress e then rows
           else case match (e_resource e) of None \<Rightarrow> rows | Some p \<Rightarrow> on_row p (add_observed (i_id i)) rows"
  have "?step s x = (case ?ev x of None \<Rightarrow> s | Some y \<Rightarrow> apply_fact y s)" for s x
    by (simp split: option.split)
  then have ev: "foldl ?step rows (i_events i) = foldl (\<lambda>s y. apply_fact y s) rows (List.map_filter ?ev (i_events i))" for rows
    unfolding foldl_map_filter [symmetric] by (rule foldl_cong_fun)
  have "foldl (\<lambda>rows m. on_row (dm_provider m) (add_declared (i_id i)) rows) rows ms =
      foldl (\<lambda>s y. apply_fact y s) rows (map (\<lambda>m. Decl (dm_provider m) (i_id i)) ms)" for rows and ms :: "declared_model list"
    by (induction ms arbitrary: rows) simp_all
  with ev show ?thesis unfolding usage_identity_def identity_facts_def Let_def foldl_append by (simp only:)
qed

lemma build_rows_facts:
  "build_rows match ids scan =
     sort_key ur_provider (map (finish_row (scan \<noteq> None) \<circ> snd)
       (foldl (\<lambda>rows f. apply_fact f rows) [] (concat (map (identity_facts match) ids) @ scan_facts scan)))"
proof -
  have ids: "foldl (usage_identity match) rows ids =
      foldl (\<lambda>rows f. apply_fact f rows) rows (concat (map (identity_facts match) ids))" for rows
    by (induction ids arbitrary: rows) (simp_all add: usage_identity_facts)
  have scans: "foldl (\<lambda>rows (p, x). on_row p (add_coded x) rows) rows xs =
      foldl (\<lambda>rows f. apply_fact f rows) rows (map (\<lambda>(p, x). Code p x) xs)" for rows xs
    by (induction xs arbitrary: rows) auto
  show ?thesis by (cases scan) (simp_all add: build_rows_def ids scan_facts_def usage_scan_def scans)
qed


lemma identity_facts_set:
  "Decl p k \<in> set (identity_facts match i) \<longleftrightarrow> k = i_id i \<and> (\<exists>m \<in> set (i_models i). dm_provider m = p)"
  "Obs p k \<in> set (identity_facts match i) \<longleftrightarrow>
     k = i_id i \<and> (\<exists>e \<in> set (i_events i). is_egress e \<and> match (e_resource e) = Some p)"
  "Code p x \<notin> set (identity_facts match i)"
  by (auto simp: identity_facts_def map_filter_set split: if_splits)

lemma scan_facts_set:
  "Decl p k \<notin> set (scan_facts scan)" "Obs p k \<notin> set (scan_facts scan)"
  "Code p x \<in> set (scan_facts scan) \<longleftrightarrow> (\<exists>c. scan = Some c \<and> (p, x) \<in> set (cs_providers c))"
  by (auto simp: scan_facts_def split: option.splits)

definition coded_as :: "code_scan option \<Rightarrow> string \<Rightarrow> (string \<times> scan_entry) list" where
  "coded_as scan p =
     (case scan of None \<Rightarrow> [] | Some c \<Rightarrow> filter (\<lambda>(q, x). normalize_provider q = p) (cs_providers c))"

definition run_facts :: "(string \<Rightarrow> string option) \<Rightarrow> identity list \<Rightarrow> code_scan option \<Rightarrow> usage_fact list" where
  "run_facts match ids scan = concat (map (identity_facts match) ids) @ scan_facts scan"

lemma run_facts_declared:
  "{k. \<exists>q. Decl q k \<in> set (run_facts match ids scan) \<and> normalize_provider q = p} = i_id ` {i \<in> set ids. declares_model p i}"
  by (auto simp: run_facts_def identity_facts_set scan_facts_set declares_model_def)

lemma run_facts_observed:
  "{k. \<exists>q. Obs q k \<in> set (run_facts match ids scan) \<and> normalize_provider q = p} = i_id ` {i \<in> set ids. reaches match p i}"
  by (auto simp: run_facts_def identity_facts_set scan_facts_set reaches_def)

lemma run_facts_sites:
  "sum_list (map (\<lambda>f. case f of Code q x \<Rightarrow> if normalize_provider q = p then se_sites x else 0 | _ \<Rightarrow> 0) (run_facts match ids scan))
     = sum_list (map (se_sites \<circ> snd) (coded_as scan p))"
proof -
  let ?w = "\<lambda>f. case f of Code q x \<Rightarrow> if normalize_provider q = p then se_sites x else 0 | _ \<Rightarrow> 0"
  have "sum_list (map ?w (identity_facts match i)) = 0" for i
    using identity_facts_set(3) [of _ _ match i] by (fastforce simp: sum_list_eq_0_iff split: usage_fact.splits)
  then have "sum_list (map ?w (concat (map (identity_facts match) ids))) = 0" by (induction ids) simp_all
  moreover have "sum_list (map ?w (map (\<lambda>(p, x). Code p x) xs)) =
      sum_list (map (se_sites \<circ> snd) (filter (\<lambda>(q, x). normalize_provider q = p) xs))" for xs
    by (induction xs) auto
  ultimately show ?thesis by (simp add: run_facts_def scan_facts_def coded_as_def split: option.split)
qed

lemma about_run_facts:
  "p \<in> about_provider ` set (run_facts match ids scan) \<longleftrightarrow>
     (\<exists>i \<in> set ids. declares_model p i \<or> reaches match p i) \<or> coded_as scan p \<noteq> []"
proof -
  have split: "p \<in> about_provider ` A \<longleftrightarrow> (\<exists>q k. Decl q k \<in> A \<and> normalize_provider q = p) \<or> (\<exists>q k. Obs q k \<in> A \<and> normalize_provider q = p)
      \<or> (\<exists>q x. Code q x \<in> A \<and> normalize_provider q = p)" for A
  proof
    assume "p \<in> about_provider ` A"
    then obtain f where "f \<in> A" "about_provider f = p" by blast
    then show "(\<exists>q k. Decl q k \<in> A \<and> normalize_provider q = p) \<or> (\<exists>q k. Obs q k \<in> A \<and> normalize_provider q = p)
      \<or> (\<exists>q x. Code q x \<in> A \<and> normalize_provider q = p)" by (cases f) auto
  qed force
  have code: "(\<exists>q x. Code q x \<in> set (run_facts match ids scan) \<and> normalize_provider q = p) \<longleftrightarrow> coded_as scan p \<noteq> []"
    by (auto simp: run_facts_def identity_facts_set scan_facts_set coded_as_def filter_empty_conv split: option.splits)
  have decl: "(\<exists>q k. Decl q k \<in> set (run_facts match ids scan) \<and> normalize_provider q = p) \<longleftrightarrow> (\<exists>i \<in> set ids. declares_model p i)"
    using run_facts_declared [of match ids scan p] by blast
  have obs: "(\<exists>q k. Obs q k \<in> set (run_facts match ids scan) \<and> normalize_provider q = p) \<longleftrightarrow> (\<exists>i \<in> set ids. reaches match p i)"
    using run_facts_observed [of match ids scan p] by blast
  show ?thesis unfolding split code decl obs by blast
qed

section \<open>The reconciliation\<close>

lemma sort_Nil_iff [simp]: "sort xs = [] \<longleftrightarrow> xs = []"
  by (metis set_empty set_sort)

lemma finish_row_fields:
  "ur_provider (finish_row b r) = ur_provider r" "ur_declared (finish_row b r) = sort (ur_declared r)"
  "ur_observed (finish_row b r) = sort (ur_observed r)" "ur_sites (finish_row b r) = ur_sites r"
  "ur_gaps (finish_row b r) = provider_gaps r b"
  by (simp_all add: finish_row_def provider_gaps_def row_declared_def row_observed_def row_coded_def Let_def)

lemma build_rows_spec:
  "distinct (map ur_provider (build_rows match ids scan))
   \<and> ur_provider ` set (build_rows match ids scan) = about_provider ` set (run_facts match ids scan) - {[]}
   \<and> (\<forall>r \<in> set (build_rows match ids scan). \<exists>r0. row_of (run_facts match ids scan) (ur_provider r) r0 \<and> r = finish_row (scan \<noteq> None) r0)"
proof -
  let ?fs = "run_facts match ids scan"
  define rows where "rows = foldl (\<lambda>rows f. apply_fact f rows) [] ?fs"
  have inv: "rows_of ?fs rows" using rows_of_facts by (simp add: rows_def)
  have build: "build_rows match ids scan = sort_key ur_provider (map (finish_row (scan \<noteq> None) \<circ> snd) rows)"
    by (simp add: build_rows_facts rows_def run_facts_def)
  have row: "row_of ?fs p r" if "(p, r) \<in> set rows" for p r
    using inv that by (simp add: rows_of_def)
  have "map ur_provider (map (finish_row (scan \<noteq> None) \<circ> snd) rows) = map fst rows"
    using row by (auto simp: finish_row_fields row_of_def)
  then have perm: "mset (map ur_provider (build_rows match ids scan)) = mset (map fst rows)"
    unfolding build by (metis mset_map mset_sort)
  have "fst ` set rows = about_provider ` set ?fs - {[]}"
    using inv by (auto simp: rows_of_def map_of_eq_None_iff)
  moreover have "\<exists>r0. row_of ?fs (ur_provider r) r0 \<and> r = finish_row (scan \<noteq> None) r0" if mem: "r \<in> set (build_rows match ids scan)" for r
  proof -
    obtain p r0 where "(p, r0) \<in> set rows" "r = finish_row (scan \<noteq> None) r0"
      using mem unfolding build by (fastforce simp del: not_None_eq)
    then show ?thesis using row [of p r0] by (auto simp: finish_row_fields row_of_def)
  qed
  moreover have "distinct (map ur_provider (build_rows match ids scan))"
    using inv perm by (metis mset_eq_imp_distinct_iff rows_of_def)
  moreover have "ur_provider ` set (build_rows match ids scan) = fst ` set rows"
    using perm by (metis list.set_map mset_eq_setD)
  ultimately show ?thesis by simp
qed


lemma observed_in_row:
  assumes "r \<in> set (build_rows match ids scan)" "ur_provider r = p"
  shows "set (ur_observed r) = i_id ` {i \<in> set ids. reaches match p i}"
proof -
  obtain r0 where r0: "row_of (run_facts match ids scan) p r0" "r = finish_row (scan \<noteq> None) r0"
    using build_rows_spec [of match ids scan] assms by blast
  then show ?thesis using run_facts_observed [of match ids scan p] by (simp add: row_of_def finish_row_fields)
qed

text \<open>
  The provider table is exactly what the three sources say. It has one row, in order, for each
  normalised provider name that an identity declares, an identity was seen to reach or the scan carries,
  and none for the empty name; a row lists, each once and in order, exactly the identities that declare
  the provider and exactly those seen reaching it, and the total of the scan's sites for it; and its gaps
  are exactly the disagreements between the three.
\<close>

theorem usage_rows_exact:
  "sorted (map ur_provider (build_rows match ids scan)) \<and> distinct (map ur_provider (build_rows match ids scan))
   \<and> (\<forall>p. p \<in> ur_provider ` set (build_rows match ids scan) \<longleftrightarrow>
        p \<noteq> [] \<and> ((\<exists>i \<in> set ids. declares_model p i \<or> reaches match p i) \<or> coded_as scan p \<noteq> []))
   \<and> (\<forall>r p. r \<in> set (build_rows match ids scan) \<longrightarrow> ur_provider r = p \<longrightarrow>
        ur_declared r = sorted_list_of_set (i_id ` {i \<in> set ids. declares_model p i})
        \<and> ur_observed r = sorted_list_of_set (i_id ` {i \<in> set ids. reaches match p i})
        \<and> ur_sites r = sum_list (map (se_sites \<circ> snd) (coded_as scan p))
        \<and> (GapDeclaredNotSeen \<in> set (ur_gaps r) \<longleftrightarrow> (\<exists>i \<in> set ids. declares_model p i) \<and> \<not> (\<exists>i \<in> set ids. reaches match p i))
        \<and> (GapSeenNotDeclared \<in> set (ur_gaps r) \<longleftrightarrow> (\<exists>i \<in> set ids. reaches match p i) \<and> \<not> (\<exists>i \<in> set ids. declares_model p i))
        \<and> (GapInCodeNotSeen \<in> set (ur_gaps r) \<longleftrightarrow> ur_sites r > 0 \<and> \<not> (\<exists>i \<in> set ids. reaches match p i)))"
proof (intro conjI allI impI)
  note spec = build_rows_spec [of match ids scan]
  show "sorted (map ur_provider (build_rows match ids scan))"
    by (simp add: build_rows_facts sorted_sort_key)
  show "distinct (map ur_provider (build_rows match ids scan))" using spec by blast
  show "p \<in> ur_provider ` set (build_rows match ids scan) \<longleftrightarrow>
      p \<noteq> [] \<and> ((\<exists>i \<in> set ids. declares_model p i \<or> reaches match p i) \<or> coded_as scan p \<noteq> [])" for p
    using spec about_run_facts [of p match ids scan] by blast
  fix r p assume r: "r \<in> set (build_rows match ids scan)" "ur_provider r = p"
  then obtain r0 where r0: "row_of (run_facts match ids scan) p r0" "r = finish_row (scan \<noteq> None) r0"
    using spec by blast
  have d: "set (ur_declared r0) = i_id ` {i \<in> set ids. declares_model p i}" "distinct (ur_declared r0)"
    and ob: "set (ur_observed r0) = i_id ` {i \<in> set ids. reaches match p i}" "distinct (ur_observed r0)"
    using r0(1) run_facts_declared [of match ids scan p] run_facts_observed [of match ids scan p] by (simp_all add: row_of_def)
  show "ur_declared r = sorted_list_of_set (i_id ` {i \<in> set ids. declares_model p i})"
    "ur_observed r = sorted_list_of_set (i_id ` {i \<in> set ids. reaches match p i})"
    using d ob by (simp_all add: r0(2) finish_row_fields sorted_list_of_set_sort_remdups [symmetric] flip: d(1) ob(1))
      (simp_all add: sorted_list_of_set_sort_remdups distinct_remdups_id)
  have s: "ur_sites r0 = sum_list (map (se_sites \<circ> snd) (coded_as scan p))"
    using r0(1) run_facts_sites [of p match ids scan] by (simp add: row_of_def)
  then show "ur_sites r = sum_list (map (se_sites \<circ> snd) (coded_as scan p))" by (simp add: r0(2) finish_row_fields)
  have dn: "row_declared r0 \<longleftrightarrow> (\<exists>i \<in> set ids. declares_model p i)" using d(1) by (auto simp: row_declared_def simp flip: set_empty)
  have obn: "row_observed r0 \<longleftrightarrow> (\<exists>i \<in> set ids. reaches match p i)" using ob(1) by (auto simp: row_observed_def simp flip: set_empty)
  have "ur_sites r0 = 0" if "scan = None" using that by (simp add: s coded_as_def)
  then have sites: "scan \<noteq> None \<and> row_coded r0 \<longleftrightarrow> ur_sites r > 0"
    by (cases "scan = None") (simp_all add: row_coded_def r0(2) finish_row_fields)
  have gaps: "ur_gaps r = provider_gaps r0 (scan \<noteq> None)" by (simp add: r0(2) finish_row_fields)
  show "GapDeclaredNotSeen \<in> set (ur_gaps r) \<longleftrightarrow> (\<exists>i \<in> set ids. declares_model p i) \<and> \<not> (\<exists>i \<in> set ids. reaches match p i)"
    "GapSeenNotDeclared \<in> set (ur_gaps r) \<longleftrightarrow> (\<exists>i \<in> set ids. reaches match p i) \<and> \<not> (\<exists>i \<in> set ids. declares_model p i)"
    "GapInCodeNotSeen \<in> set (ur_gaps r) \<longleftrightarrow> ur_sites r > 0 \<and> \<not> (\<exists>i \<in> set ids. reaches match p i)"
    using dn obn sites by (auto simp: gaps provider_gaps_def gap_names)
qed

text \<open>An agent that declares one provider and was seen reaching another.\<close>

definition sample_usage_agent :: identity where
  "sample_usage_agent =
     (new_identity ''agent:a'' False)
       \<lparr>i_type := IdentityAgent, i_models := [\<lparr>dm_provider = ''OpenAI'', dm_model = [], dm_endpoint = []\<rparr>],
        i_events := [(blank_event (0, 0) ''agent:a'' EventEgress ''SUCCESS'')\<lparr>e_resource := ''api.anthropic.com:443''\<rparr>]\<rparr>"

lemma sample_usage:
  "declares_model ''openai'' sample_usage_agent" "reaches match_llm_host ''anthropic'' sample_usage_agent"
  "\<not> declares_model ''anthropic'' sample_usage_agent"
proof -
  have n: "normalize_provider ''OpenAI'' = ''openai''" "normalize_provider ''anthropic'' = ''anthropic''"
    "match_llm_host ''api.anthropic.com:443'' = Some ''anthropic''" by (code_simp, code_simp, code_simp)
  show "declares_model ''openai'' sample_usage_agent" "\<not> declares_model ''anthropic'' sample_usage_agent"
    by (simp_all add: declares_model_def sample_usage_agent_def n)
  show "reaches match_llm_host ''anthropic'' sample_usage_agent"
    by (simp add: reaches_def sample_usage_agent_def is_egress_def blank_event_def n)
qed

theorem usage_rows_exact_witness:
  "\<exists>r \<in> set (build_rows match_llm_host [sample_usage_agent] None).
     ur_provider r = ''anthropic'' \<and> ur_observed r = [''agent:a''] \<and> GapSeenNotDeclared \<in> set (ur_gaps r)"
proof -
  note exact = usage_rows_exact [of match_llm_host "[sample_usage_agent]" None]
  have ex: "\<exists>i \<in> set [sample_usage_agent]. declares_model ''anthropic'' i \<or> reaches match_llm_host ''anthropic'' i"
    using sample_usage by simp
  then have "''anthropic'' \<in> ur_provider ` set (build_rows match_llm_host [sample_usage_agent] None)"
    by (intro exact [THEN conjunct2, THEN conjunct2, THEN conjunct1, THEN spec, THEN iffD2] conjI disjI1 list.distinct(2))
  then obtain r where r0: "''anthropic'' = ur_provider r" "r \<in> set (build_rows match_llm_host [sample_usage_agent] None)"
    by (rule imageE)
  note r = r0(2) r0(1) [symmetric]
  have "{i \<in> set [sample_usage_agent]. reaches match_llm_host ''anthropic'' i} = {sample_usage_agent}"
    using sample_usage(2) by auto
  moreover have "i_id sample_usage_agent = ''agent:a''" by (simp add: sample_usage_agent_def new_identity_def)
  ultimately have "ur_observed r = [''agent:a'']"
    using exact [THEN conjunct2, THEN conjunct2, THEN conjunct2, rule_format, OF r] by simp
  moreover have "GapSeenNotDeclared \<in> set (ur_gaps r)"
    using exact [THEN conjunct2, THEN conjunct2, THEN conjunct2, rule_format, OF r] sample_usage(2,3) by simp
  ultimately show ?thesis using r by blast
qed

end
