(* ===== verification/AI_Subjects.thy ===== *)
theory AI_Subjects
  imports AI_Usage Egress_Facts "HOL-Library.Product_Lexorder"
begin

text \<open>
  \<^verbatim>\<open>internal/aiusage/subjects.go\<close> and the table cells of \<^verbatim>\<open>render.go\<close>: the same comparison for each
  subject and provider, with the disagreement named, and the list of sources it was made from. Column
  alignment and the JSON text are the standard library's.
\<close>

section \<open>What one identity says\<close>

definition SeenEgress :: string where "SeenEgress = ''egress''"
definition SeenBusOnly :: string where "SeenBusOnly = ''bus_only''"
definition SeenNone :: string where "SeenNone = ''none''"
definition CodeFound :: string where "CodeFound = ''found''"
definition CodeNotFound :: string where "CodeNotFound = ''not_found''"
definition CodeNotScanned :: string where "CodeNotScanned = ''not_scanned''"

lemmas seen_names = SeenEgress_def SeenBusOnly_def SeenNone_def
lemmas code_names = CodeFound_def CodeNotFound_def CodeNotScanned_def

record subject_facts =
  sf_declared :: "(string \<times> string list) list"
  sf_hosts :: "string list"
  sf_seen :: "(string \<times> string list) list"
  sf_bus :: "(string \<times> nat) list"

definition host_only :: "string \<Rightarrow> string" where
  "host_only dest =
     (let host = (case last_index_byte dest (CHR '':'') of Some i \<Rightarrow> take i dest | None \<Rightarrow> dest)
      in to_lower (trim_space host))"

definition is_captured :: "string \<Rightarrow> bool" where
  "is_captured k \<longleftrightarrow> has_prefix k identity_prefix \<or> has_prefix k claimed_prefix"

definition has_declaration :: "identity \<Rightarrow> bool" where
  "has_declaration i \<longleftrightarrow> i_source i = ''passport'' \<or> i_models i \<noteq> [] \<or> i_attestation i \<noteq> []"

definition subject_class :: "identity \<Rightarrow> string \<times> string" where
  "subject_class i =
     (if has_prefix (i_id i) claimed_prefix then (''claimed agent'', ''self-declared'')
      else if has_prefix (i_id i) identity_prefix then (''process'', ''process name'')
      else if i_type i = IdentityAgent then (''agent'', [])
      else if i_type i = IdentityServiceAccount then (''service account'', [])
      else if i_type i = IdentityKey then (''key'', [])
      else if i_type i = IdentityMCPServer then (''mcp server'', [])
      else if i_type i = IdentityHuman then (''human'', [])
      else (i_type i, []))"

definition entry_of :: "(string \<times> 'a list) list \<Rightarrow> string \<Rightarrow> 'a list" where
  "entry_of m p = (case map_of m p of Some xs \<Rightarrow> xs | None \<Rightarrow> [])"

text \<open>A model entry: its name is added to the provider's, and its endpoint to the hosts.\<close>

definition gather_model :: "subject_facts \<Rightarrow> declared_model \<Rightarrow> subject_facts" where
  "gather_model f m =
     (let p = normalize_provider (dm_provider m) in
      if p = [] then f
      else
        let name = trim_space (dm_model m);
            f = f\<lparr>sf_declared := AList.update p (entry_of (sf_declared f) p @ (if name \<noteq> [] then [name] else [])) (sf_declared f)\<rparr>
        in if dm_endpoint m \<noteq> [] then f\<lparr>sf_hosts := host_only (dm_endpoint m) # sf_hosts f\<rparr> else f)"

definition gather_event :: "(string \<Rightarrow> string option) \<Rightarrow> subject_facts \<Rightarrow> event \<Rightarrow> subject_facts" where
  "gather_event match f e =
     (if is_egress e then
        (case match (e_resource e) of
           None \<Rightarrow> f
         | Some q \<Rightarrow>
             let p = normalize_provider q in
             if p = [] then f
             else f\<lparr>sf_seen := AList.update p (host_only (e_resource e) # entry_of (sf_seen f) p) (sf_seen f)\<rparr>)
      else if e_source e \<noteq> [] then
        f\<lparr>sf_bus := AList.update (e_source e) (Suc (case map_of (sf_bus f) (e_source e) of Some n \<Rightarrow> n | None \<Rightarrow> 0)) (sf_bus f)\<rparr>
      else f)"

definition gather :: "(string \<Rightarrow> string option) \<Rightarrow> identity \<Rightarrow> subject_facts" where
  "gather match i =
     foldl (gather_event match)
       (foldl gather_model \<lparr>sf_declared = [], sf_hosts = [], sf_seen = [], sf_bus = []\<rparr> (i_models i)) (i_events i)"

definition covered_by_endpoint :: "subject_facts \<Rightarrow> string \<Rightarrow> bool" where
  "covered_by_endpoint f p =
     (let hosts = entry_of (sf_seen f) p in hosts \<noteq> [] \<and> list_all (\<lambda>h. h \<in> set (sf_hosts f)) hosts)"

section \<open>Rows\<close>

record subject_row =
  su_subject :: string
  su_kind :: string
  su_attribution :: string
  su_provider :: string
  su_declared :: bool
  su_models :: "string list"
  su_seen :: string
  su_via :: "string list"
  su_hosts :: "string list"
  su_bus :: "(string \<times> nat) list"
  su_code :: string
  su_code_sites :: nat
  su_gap :: string

definition bus_counts :: "(string \<times> nat) list \<Rightarrow> (string \<times> nat) list" where
  "bus_counts bus = sort_key fst bus"

definition subject_providers :: "subject_facts \<Rightarrow> string list" where
  "subject_providers f = sorted_keys (map fst (sf_declared f) @ map fst (sf_seen f))"

definition bare_subject :: "identity \<Rightarrow> subject_facts \<Rightarrow> subject_row" where
  "bare_subject i f =
     \<lparr>su_subject = i_id i, su_kind = fst (subject_class i), su_attribution = snd (subject_class i), su_provider = [],
      su_declared = False, su_models = [], su_seen = (if sf_bus f \<noteq> [] then SeenBusOnly else SeenNone), su_via = [],
      su_hosts = [], su_bus = bus_counts (sf_bus f), su_code = [], su_code_sites = 0,
      su_gap = (if has_declaration i then GapDeclaresNoModels else GapNoDeclaration)\<rparr>"

definition subject_gap :: "bool \<Rightarrow> string \<Rightarrow> bool \<Rightarrow> string" where
  "subject_gap declared seen declares_some =
     (if declared \<and> seen = SeenEgress then GapAgrees
      else if declared \<and> seen = SeenBusOnly then GapDeclaredBusOnly
      else if declared then GapDeclaredNotSeen
      else if declares_some then GapSeenNotDeclared
      else GapSeenNoDeclaration)"

definition scan_sites :: "code_scan \<Rightarrow> string \<Rightarrow> nat" where
  "scan_sites c p = (case map_of (cs_providers c) p of Some x \<Rightarrow> se_sites x | None \<Rightarrow> 0)"

definition subject_row_of :: "code_scan option \<Rightarrow> identity \<Rightarrow> subject_facts \<Rightarrow> string \<Rightarrow> subject_row" where
  "subject_row_of scan i f p =
     (let declared = (map_of (sf_declared f) p \<noteq> None \<or> covered_by_endpoint f p);
          reached = (map_of (sf_seen f) p \<noteq> None);
          seen = (if reached then SeenEgress else if sf_bus f \<noteq> [] then SeenBusOnly else SeenNone)
      in \<lparr>su_subject = i_id i, su_kind = fst (subject_class i), su_attribution = snd (subject_class i), su_provider = p,
          su_declared = declared, su_models = dedupe_sorted (entry_of (sf_declared f) p), su_seen = seen,
          su_via = (if reached then [if is_captured (i_id i) then ''ebpf'' else ''egress-log''] else []),
          su_hosts = (if reached then sorted_keys (entry_of (sf_seen f) p) else []),
          su_bus = bus_counts (sf_bus f),
          su_code = (case scan of
             None \<Rightarrow> CodeNotScanned
           | Some c \<Rightarrow> if scan_sites c p > 0 then CodeFound else CodeNotFound),
          su_code_sites = (case scan of None \<Rightarrow> 0 | Some c \<Rightarrow> scan_sites c p),
          su_gap = subject_gap declared seen (sf_declared f \<noteq> [])\<rparr>)"

definition identity_rows :: "(string \<Rightarrow> string option) \<Rightarrow> code_scan option \<Rightarrow> identity \<Rightarrow> subject_row list" where
  "identity_rows match scan i =
     (let f = gather match i in
      if \<not> is_agent i \<and> sf_declared f = [] \<and> sf_seen f = [] then []
      else if subject_providers f = [] then [bare_subject i f]
      else map (subject_row_of scan i f) (subject_providers f))"

definition build_subjects :: "(string \<Rightarrow> string option) \<Rightarrow> code_scan option \<Rightarrow> identity list \<Rightarrow> subject_row list" where
  "build_subjects match scan ids =
     sort_key (\<lambda>r. (su_subject r, su_provider r)) (concat (map (identity_rows match scan) ids))"

section \<open>What is gathered\<close>

lemma entry_of_update [simp]: "entry_of (AList.update p xs m) q = (if q = p then xs else entry_of m q)"
  by (simp add: entry_of_def update_conv')

lemma entry_of_Nil [simp]: "entry_of [] p = []"
  by (simp add: entry_of_def)

lemma keys_map_of: "p \<in> fst ` set m \<longleftrightarrow> map_of m p \<noteq> None"
  by (simp add: map_of_eq_None_iff)

definition endpoint_hosts :: "declared_model list \<Rightarrow> string set" where
  "endpoint_hosts ms = {host_only (dm_endpoint m) | m. m \<in> set ms \<and> normalize_provider (dm_provider m) \<noteq> [] \<and> dm_endpoint m \<noteq> []}"

lemma gather_models:
  fixes ms :: "declared_model list"
  defines "f' \<equiv> \<lambda>f. foldl gather_model f ms"
  shows "map_of (sf_declared (f' f)) p = None \<longleftrightarrow>
      map_of (sf_declared f) p = None \<and> (p = [] \<or> (\<forall>m \<in> set ms. normalize_provider (dm_provider m) \<noteq> p))"
    and "set (sf_hosts (f' f)) = set (sf_hosts f) \<union> endpoint_hosts ms"
    and "sf_seen (f' f) = sf_seen f" and "sf_bus (f' f) = sf_bus f"
  unfolding f'_def
  by (induction ms arbitrary: f) (auto simp: gather_model_def endpoint_hosts_def update_conv' Let_def)

definition reached_hosts :: "(string \<Rightarrow> string option) \<Rightarrow> string \<Rightarrow> event list \<Rightarrow> string set" where
  "reached_hosts match p es =
     {host_only (e_resource e) | e q. e \<in> set es \<and> is_egress e \<and> match (e_resource e) = Some q \<and> normalize_provider q = p}"

lemma reached_hosts_Cons:
  "reached_hosts match p (e # es) =
     (case match (e_resource e) of
        Some q \<Rightarrow> if is_egress e \<and> normalize_provider q = p then insert (host_only (e_resource e)) (reached_hosts match p es)
                   else reached_hosts match p es
      | None \<Rightarrow> reached_hosts match p es)"
  by (auto simp: reached_hosts_def split: option.splits)

definition bus_active :: "event list \<Rightarrow> bool" where
  "bus_active es \<longleftrightarrow> (\<exists>e \<in> set es. \<not> is_egress e \<and> e_source e \<noteq> [])"

lemma gather_events:
  fixes match :: "string \<Rightarrow> string option" and es :: "event list"
  defines "f' \<equiv> \<lambda>f. foldl (gather_event match) f es"
  shows "sf_declared (f' f) = sf_declared f" and "sf_hosts (f' f) = sf_hosts f"
    and "p \<noteq> [] \<Longrightarrow> set (entry_of (sf_seen (f' f)) p) = set (entry_of (sf_seen f) p) \<union> reached_hosts match p es"
    and "map_of (sf_seen (f' f)) p = None \<longleftrightarrow> map_of (sf_seen f) p = None \<and> (p = [] \<or> reached_hosts match p es = {})"
    and "sf_bus (f' f) = [] \<longleftrightarrow> sf_bus f = [] \<and> \<not> bus_active es"
proof -
  have update_ne: "AList.update k v al \<noteq> []" for k v and al :: "(string \<times> nat) list" by (cases al) auto
  show "sf_declared (f' f) = sf_declared f" "sf_hosts (f' f) = sf_hosts f" unfolding f'_def
    by (induction es arbitrary: f) (simp_all add: gather_event_def Let_def split: option.split)
  show "p \<noteq> [] \<Longrightarrow> set (entry_of (sf_seen (f' f)) p) = set (entry_of (sf_seen f) p) \<union> reached_hosts match p es" unfolding f'_def
    by (induction es arbitrary: f)
      (auto simp: gather_event_def reached_hosts_Cons Let_def reached_hosts_def [of _ _ "[]"] split: option.split)
  show "map_of (sf_seen (f' f)) p = None \<longleftrightarrow> map_of (sf_seen f) p = None \<and> (p = [] \<or> reached_hosts match p es = {})" unfolding f'_def
    by (induction es arbitrary: f)
      (auto simp: gather_event_def reached_hosts_Cons update_conv' Let_def reached_hosts_def [of _ _ "[]"] split: option.split)
  show "sf_bus (f' f) = [] \<longleftrightarrow> sf_bus f = [] \<and> \<not> bus_active es" unfolding f'_def
    by (induction es arbitrary: f) (auto simp: gather_event_def bus_active_def update_ne Let_def split: option.split)
qed

lemma reaches_hosts: "reaches match p i \<longleftrightarrow> reached_hosts match p (i_events i) \<noteq> {}"
  by (auto simp: reaches_def reached_hosts_def)

lemma gathered:
  "map_of (sf_declared (gather match i)) p = None \<longleftrightarrow> p = [] \<or> \<not> declares_model p i"
  "set (sf_hosts (gather match i)) = endpoint_hosts (i_models i)"
  "p \<noteq> [] \<Longrightarrow> set (entry_of (sf_seen (gather match i)) p) = reached_hosts match p (i_events i)"
  "map_of (sf_seen (gather match i)) p = None \<longleftrightarrow> p = [] \<or> \<not> reaches match p i"
  "sf_bus (gather match i) = [] \<longleftrightarrow> \<not> bus_active (i_events i)"
  by (auto simp: gather_def gather_events gather_models declares_model_def reaches_hosts)

lemma alist_Nil_iff: "m = [] \<longleftrightarrow> (\<forall>p. map_of m p = None)"
  by (cases m) auto

lemma gathered_Nil:
  "sf_declared (gather match i) = [] \<longleftrightarrow> (\<forall>p. p = [] \<or> \<not> declares_model p i)"
  "sf_seen (gather match i) = [] \<longleftrightarrow> (\<forall>p. p = [] \<or> \<not> reaches match p i)"
  by (simp_all add: alist_Nil_iff gathered)

text \<open>Every host it reached the provider on is an endpoint it declares.\<close>

definition covered :: "(string \<Rightarrow> string option) \<Rightarrow> string \<Rightarrow> identity \<Rightarrow> bool" where
  "covered match p i \<longleftrightarrow> reaches match p i \<and> reached_hosts match p (i_events i) \<subseteq> endpoint_hosts (i_models i)"

lemma covered_by_gathered: "p \<noteq> [] \<Longrightarrow> covered_by_endpoint (gather match i) p \<longleftrightarrow> covered match p i"
proof -
  assume "p \<noteq> []"
  then have hosts: "set (entry_of (sf_seen (gather match i)) p) = reached_hosts match p (i_events i)" by (rule gathered(3))
  then have "entry_of (sf_seen (gather match i)) p \<noteq> [] \<longleftrightarrow> reaches match p i"
    by (simp add: reaches_hosts flip: set_empty)
  with hosts show ?thesis
    by (auto simp: covered_by_endpoint_def covered_def list_all_iff gathered(2) Let_def)
qed

lemma subject_providers_set:
  "p \<in> set (subject_providers (gather match i)) \<longleftrightarrow> p \<noteq> [] \<and> (declares_model p i \<or> reaches match p i)"
  unfolding subject_providers_def set_sorted_keys set_append set_map Un_iff keys_map_of gathered(1,4) by blast

section \<open>The rows of a subject\<close>

lemma build_subjects_set: "r \<in> set (build_subjects match scan ids) \<longleftrightarrow> (\<exists>i \<in> set ids. r \<in> set (identity_rows match scan i))"
  by (simp add: build_subjects_def)

lemma subject_row_fields [simp]:
  "su_subject (subject_row_of scan i f p) = i_id i" "su_provider (subject_row_of scan i f p) = p"
  "su_declared (subject_row_of scan i f p) \<longleftrightarrow> map_of (sf_declared f) p \<noteq> None \<or> covered_by_endpoint f p"
  "su_seen (subject_row_of scan i f p) =
     (if map_of (sf_seen f) p \<noteq> None then SeenEgress else if sf_bus f \<noteq> [] then SeenBusOnly else SeenNone)"
  "su_hosts (subject_row_of scan i f p) = (if map_of (sf_seen f) p \<noteq> None then sorted_keys (entry_of (sf_seen f) p) else [])"
  "su_gap (subject_row_of scan i f p) =
     subject_gap (su_declared (subject_row_of scan i f p)) (su_seen (subject_row_of scan i f p)) (sf_declared f \<noteq> [])"
  unfolding subject_row_of_def Let_def by simp_all

lemma bare_subject_fields [simp]: "su_subject (bare_subject i f) = i_id i" "su_provider (bare_subject i f) = []"
  by (simp_all add: bare_subject_def)

lemma identity_rows_subject: "r \<in> set (identity_rows match scan i) \<Longrightarrow> su_subject r = i_id i"
  by (auto simp: identity_rows_def Let_def simp del: subject_row_fields(3-) split: if_splits)

lemma identity_rows_provider:
  assumes "p \<noteq> []"
  shows "r \<in> set (identity_rows match scan i) \<and> su_provider r = p \<longleftrightarrow>
    (declares_model p i \<or> reaches match p i) \<and> r = subject_row_of scan i (gather match i) p"
proof
  assume "r \<in> set (identity_rows match scan i) \<and> su_provider r = p"
  with assms have "p \<in> set (subject_providers (gather match i)) \<and> r = subject_row_of scan i (gather match i) p"
    by (auto simp: identity_rows_def Let_def simp del: subject_row_fields(3-) split: if_splits)
  then show "(declares_model p i \<or> reaches match p i) \<and> r = subject_row_of scan i (gather match i) p"
    by (simp add: subject_providers_set)
next
  assume r: "(declares_model p i \<or> reaches match p i) \<and> r = subject_row_of scan i (gather match i) p"
  with assms have "p \<in> set (subject_providers (gather match i))" by (simp add: subject_providers_set)
  moreover have "\<not> (sf_declared (gather match i) = [] \<and> sf_seen (gather match i) = [])"
    using r assms by (auto simp: gathered_Nil)
  ultimately show "r \<in> set (identity_rows match scan i) \<and> su_provider r = p"
    using r by (auto simp: identity_rows_def Let_def simp del: subject_row_fields(3-))
qed

lemma subject_rows:
  assumes "p \<noteq> []" "distinct (map i_id ids)" "i \<in> set ids"
  shows "r \<in> set (build_subjects match scan ids) \<and> su_subject r = i_id i \<and> su_provider r = p \<longleftrightarrow>
    (declares_model p i \<or> reaches match p i) \<and> r = subject_row_of scan i (gather match i) p"
proof -
  have same: "j \<in> set ids \<Longrightarrow> i_id j = i_id i \<Longrightarrow> j = i" for j
    using assms(2,3) by (metis distinct_map inj_onD)
  have "r \<in> set (build_subjects match scan ids) \<and> su_subject r = i_id i \<longleftrightarrow> r \<in> set (identity_rows match scan i)"
    unfolding build_subjects_set using same identity_rows_subject assms(3) by metis
  then show ?thesis using identity_rows_provider [OF assms(1)] by blast
qed

lemma row_fields:
  fixes scan :: "code_scan option"
  assumes "p \<noteq> []" "declares_model p i \<or> reaches match p i"
  defines "r \<equiv> subject_row_of scan i (gather match i) p"
  shows "su_declared r \<longleftrightarrow> declares_model p i \<or> covered match p i"
    and "su_seen r = (if reaches match p i then SeenEgress else if bus_active (i_events i) then SeenBusOnly else SeenNone)"
    and "su_hosts r = sorted_list_of_set (reached_hosts match p (i_events i))"
    and "su_gap r = subject_gap (su_declared r) (su_seen r) (\<exists>q. q \<noteq> [] \<and> declares_model q i)"
proof -
  have reached: "(map_of (sf_seen (gather match i)) p \<noteq> None) = reaches match p i"
    "(map_of (sf_declared (gather match i)) p \<noteq> None) = declares_model p i" unfolding gathered(1,4) using assms(1) by simp_all
  show "su_declared r \<longleftrightarrow> declares_model p i \<or> covered match p i"
    unfolding r_def subject_row_fields(3) reached(2) covered_by_gathered [OF assms(1)] ..
  have bus: "(sf_bus (gather match i) \<noteq> []) = bus_active (i_events i)" unfolding gathered(5) by simp
  show "su_seen r = (if reaches match p i then SeenEgress else if bus_active (i_events i) then SeenBusOnly else SeenNone)"
    unfolding r_def subject_row_fields(4) reached(1) bus ..
  have "sorted_keys (entry_of (sf_seen (gather match i)) p) = sorted_list_of_set (reached_hosts match p (i_events i))"
    unfolding gathered(3) [OF assms(1), symmetric] by (simp add: sorted_keys_def sorted_list_of_set_sort_remdups)
  then show "su_hosts r = sorted_list_of_set (reached_hosts match p (i_events i))"
    unfolding r_def subject_row_fields(5) reached(1) by (simp add: reaches_hosts)
  have some: "(sf_declared (gather match i) \<noteq> []) = (\<exists>q. q \<noteq> [] \<and> declares_model q i)" by (auto simp: gathered_Nil)
  show "su_gap r = subject_gap (su_declared r) (su_seen r) (\<exists>q. q \<noteq> [] \<and> declares_model q i)"
    unfolding r_def some [symmetric] by (rule subject_row_fields(6))
qed

lemma gap_exact:
  fixes scan :: "code_scan option"
  assumes "p \<noteq> []" "declares_model p i \<or> reaches match p i"
  defines "g \<equiv> su_gap (subject_row_of scan i (gather match i) p)"
  shows "g = GapAgrees \<longleftrightarrow> reaches match p i \<and> (declares_model p i \<or> covered match p i)"
    and "g = GapDeclaredBusOnly \<longleftrightarrow> declares_model p i \<and> \<not> reaches match p i \<and> bus_active (i_events i)"
    and "g = GapDeclaredNotSeen \<longleftrightarrow> declares_model p i \<and> \<not> reaches match p i \<and> \<not> bus_active (i_events i)"
    and "g \<in> {GapSeenNotDeclared, GapSeenNoDeclaration} \<longleftrightarrow> reaches match p i \<and> \<not> declares_model p i \<and> \<not> covered match p i"
  using assms(2) unfolding g_def row_fields [OF assms(1,2)] subject_gap_def
  by (auto simp: gap_names seen_names covered_def)

definition rows_about :: "(string \<Rightarrow> string option) \<Rightarrow> code_scan option \<Rightarrow> identity list \<Rightarrow> identity \<Rightarrow> string \<Rightarrow> subject_row set" where
  "rows_about match scan ids i p = {r \<in> set (build_subjects match scan ids). su_subject r = i_id i \<and> su_provider r = p}"


section \<open>The report and the detector\<close>

lemma llm_ids_normal: "match_llm d = Some q \<Longrightarrow> normalize_provider (lp_id q) = lp_id q \<and> lp_id q \<noteq> []"
proof -
  have all: "\<forall>(h, q) \<in> set llm_hosts. normalize_provider (lp_id q) = lp_id q \<and> lp_id q \<noteq> []" by code_simp
  assume "match_llm d = Some q"
  then have "q \<in> snd ` set llm_hosts"
    by (auto simp: match_llm_def match_in_def Let_def find_Some_iff split: option.splits dest!: map_of_SomeD)
      (force simp: in_set_conv_nth)+
  with all show ?thesis by force
qed

lemma host_only_normalize: "host_only = normalize_host"
  by (simp add: fun_eq_iff host_only_def normalize_host_def)

definition tidy_models :: "identity \<Rightarrow> bool" where
  "tidy_models i \<longleftrightarrow> (\<forall>m \<in> set (i_models i). dm_provider m \<noteq> [] \<and> trim_space (dm_provider m) = dm_provider m)"

lemma tidy_declared:
  assumes "tidy_models i"
  shows "p \<in> set (declared_providers (i_models i)) \<longleftrightarrow> declares_model p i"
    and "set (declared_hosts (i_models i)) = endpoint_hosts (i_models i)"
  using assms
  by (auto simp: tidy_models_def declared_providers_def declares_model_def normalize_provider_def declared_hosts_def
      endpoint_hosts_def host_only_normalize to_lower_def)

text \<open>An undeclared destination: a provider reached and not declared, on a host no endpoint covers.\<close>

definition strays :: "identity \<Rightarrow> string \<Rightarrow> bool" where
  "strays i p \<longleftrightarrow> reaches match_llm_host p i \<and> \<not> declares_model p i \<and> \<not> covered match_llm_host p i"

lemma undeclared_reached_strays:
  assumes "tidy_models i"
  shows "undeclared_reached (i_models i) (i_events i) \<noteq> [] \<longleftrightarrow> (\<exists>p. p \<noteq> [] \<and> strays i p)"
proof -
  have one: "undeclared_reached (i_models i) (i_events i) \<noteq> [] \<longleftrightarrow>
      (\<exists>e \<in> set (i_events i). is_egress e \<and> (\<exists>q. match_llm (e_resource e) = Some q \<and> \<not> declares_model (lp_id q) i
        \<and> host_only (e_resource e) \<notin> endpoint_hosts (i_models i)))"
    unfolding set_empty [symmetric] undeclared_reached_def map_filter_set
    by (force simp: tidy_declared [OF assms] host_only_normalize Let_def split: option.splits)
  have reached: "reached_hosts match_llm_host p (i_events i) =
      {host_only (e_resource e) | e q. e \<in> set (i_events i) \<and> is_egress e \<and> match_llm (e_resource e) = Some q \<and> lp_id q = p}" for p
    unfolding reached_hosts_def match_llm_host_def using llm_ids_normal by fastforce
  have "strays i p \<longleftrightarrow> \<not> declares_model p i \<and> \<not> reached_hosts match_llm_host p (i_events i) \<subseteq> endpoint_hosts (i_models i)" for p
    unfolding strays_def covered_def reaches_hosts by blast
  then have two: "strays i p \<longleftrightarrow> \<not> declares_model p i \<and> (\<exists>e \<in> set (i_events i). is_egress e \<and> (\<exists>q. match_llm (e_resource e) = Some q
      \<and> lp_id q = p \<and> host_only (e_resource e) \<notin> endpoint_hosts (i_models i)))" for p
    unfolding reached by blast
  show ?thesis unfolding one two using llm_ids_normal by blast
qed

lemma undeclared_row_named:
  assumes "r \<in> set (build_subjects match scan ids)" "su_gap r \<in> {GapSeenNotDeclared, GapSeenNoDeclaration}"
  shows "su_provider r \<noteq> []"
proof -
  obtain j where j: "j \<in> set ids" "r \<in> set (identity_rows match scan j)" using assms(1) build_subjects_set by blast
  then consider "r = bare_subject j (gather match j)"
    | p where "p \<in> set (subject_providers (gather match j))" "r = subject_row_of scan j (gather match j) p"
    by (auto simp: identity_rows_def Let_def simp del: subject_row_fields(3-) split: if_splits)
  then show ?thesis
  proof cases
    case 1
    with assms(2) show ?thesis by (simp add: bare_subject_def gap_names split: if_splits)
  next
    case (2 p)
    then show ?thesis by (simp add: subject_providers_set)
  qed
qed

text \<open>
  C16: The report and the \<^verbatim>\<open>undeclared_llm\<close> detector agree. For an agent that declares models, every one of
  them with a provider written without surrounding blanks, the detector raises an alert exactly when the
  report has a row for it that is seen and not declared.
\<close>

theorem report_agrees_with_detector:
  assumes "distinct (map i_id ids)" "i \<in> set ids" "is_agent i" "i_models i \<noteq> []" "tidy_models i"
  shows "(\<exists>a \<in> set (undeclared_llm t ids). a_identity a = i_id i) \<longleftrightarrow>
    (\<exists>r \<in> set (build_subjects match_llm_host scan ids). su_subject r = i_id i \<and> su_gap r \<in> {GapSeenNotDeclared, GapSeenNoDeclaration})"
proof -
  have same: "j \<in> set ids \<Longrightarrow> i_id j = i_id i \<Longrightarrow> j = i" for j
    using assms(1,2) by (metis distinct_map inj_onD)
  have "(\<exists>a \<in> set (undeclared_llm t ids). a_identity a = i_id i) \<longleftrightarrow> undeclared_llm_judge t i \<noteq> []"
    unfolding undeclared.alerted using same assms(2) by metis
  also have "\<dots> \<longleftrightarrow> (\<exists>p. p \<noteq> [] \<and> strays i p)"
    unfolding undeclared_reached_strays [OF assms(5), symmetric] using assms(3,4)
    by (simp add: undeclared_llm_judge_def Let_def)
  also have "\<dots> \<longleftrightarrow> (\<exists>r \<in> set (build_subjects match_llm_host scan ids). su_subject r = i_id i
      \<and> su_gap r \<in> {GapSeenNotDeclared, GapSeenNoDeclaration})"
  proof
    assume "\<exists>p. p \<noteq> [] \<and> strays i p"
    then obtain p where p: "p \<noteq> []" "strays i p" by blast
    then have some: "declares_model p i \<or> reaches match_llm_host p i" by (simp add: strays_def)
    let ?r = "subject_row_of scan i (gather match_llm_host i) p"
    have "?r \<in> set (build_subjects match_llm_host scan ids)" "su_subject ?r = i_id i"
      using subject_rows [OF p(1) assms(1,2), of ?r] some by blast+
    moreover have "su_gap ?r \<in> {GapSeenNotDeclared, GapSeenNoDeclaration}"
      using gap_exact(4) [OF p(1) some, of scan] p(2) unfolding strays_def by blast
    ultimately show "\<exists>r \<in> set (build_subjects match_llm_host scan ids). su_subject r = i_id i
        \<and> su_gap r \<in> {GapSeenNotDeclared, GapSeenNoDeclaration}" by blast
  next
    assume "\<exists>r \<in> set (build_subjects match_llm_host scan ids). su_subject r = i_id i
        \<and> su_gap r \<in> {GapSeenNotDeclared, GapSeenNoDeclaration}"
    then obtain r where r: "r \<in> set (build_subjects match_llm_host scan ids)" "su_subject r = i_id i"
      "su_gap r \<in> {GapSeenNotDeclared, GapSeenNoDeclaration}" by blast
    have named: "su_provider r \<noteq> []" by (rule undeclared_row_named [OF r(1,3)])
    then have some: "declares_model (su_provider r) i \<or> reaches match_llm_host (su_provider r) i"
      and eq: "r = subject_row_of scan i (gather match_llm_host i) (su_provider r)"
      using subject_rows [OF named assms(1,2), of r] r(1,2) by blast+
    have "strays i (su_provider r)"
      using gap_exact(4) [OF named some, of scan] r(3) eq unfolding strays_def by metis
    with named show "\<exists>p. p \<noteq> [] \<and> strays i p" by blast
  qed
  finally show ?thesis .
qed


theorem report_agrees_with_detector_witness:
  "(\<exists>a \<in> set (undeclared_llm 0 [sample_usage_agent]). a_identity a = i_id sample_usage_agent) \<longleftrightarrow>
   (\<exists>r \<in> set (build_subjects match_llm_host None [sample_usage_agent]). su_subject r = i_id sample_usage_agent
      \<and> su_gap r \<in> {GapSeenNotDeclared, GapSeenNoDeclaration})"
proof (rule report_agrees_with_detector)
  have "trim_space ''OpenAI'' = ''OpenAI''" by code_simp
  then show "tidy_models sample_usage_agent" by (simp add: tidy_models_def sample_usage_agent_def)
qed (simp_all add: sample_usage_agent_def is_agent_def)

text \<open>
  Outside that agreement: a declaration of an endpoint that names no provider, and a provider written with
  a blank before it.
\<close>

definition untidy_agent :: "string \<Rightarrow> string \<Rightarrow> identity" where
  "untidy_agent name endpoint =
     (new_identity ''agent:a'' False)
       \<lparr>i_type := IdentityAgent, i_models := [\<lparr>dm_provider = name, dm_model = [], dm_endpoint = endpoint\<rparr>],
        i_events := [(blank_event (0, 0) ''agent:a'' EventEgress ''SUCCESS'')\<lparr>e_resource := ''api.openai.com:443''\<rparr>]\<rparr>"

lemma endpoint_without_provider_disagrees:
  "undeclared_llm t [untidy_agent [] ''api.openai.com''] = []"
  "map su_gap (build_subjects match_llm_host None [untidy_agent [] ''api.openai.com'']) = [GapSeenNoDeclaration]"
proof -
  have n: "normalize_host ''api.openai.com:443'' = ''api.openai.com''" "normalize_host ''api.openai.com'' = ''api.openai.com''"
    by code_simp+
  show "undeclared_llm t [untidy_agent [] ''api.openai.com''] = []"
    by (simp add: undeclared_llm_def undeclared_llm_judge_def untidy_agent_def undeclared_reached_def declared_hosts_def
        blank_event_def map_filter_simps n Let_def split: option.split)
  show "map su_gap (build_subjects match_llm_host None [untidy_agent [] ''api.openai.com'']) = [GapSeenNoDeclaration]"
    by code_simp
qed

lemma padded_provider_disagrees:
  "undeclared_llm t [untidy_agent '' openai'' []] \<noteq> []"
  "map su_gap (build_subjects match_llm_host None [untidy_agent '' openai'' []]) = [GapAgrees]"
proof -
  have "undeclared_reached (i_models (untidy_agent '' openai'' [])) (i_events (untidy_agent '' openai'' [])) \<noteq> []"
    by code_simp
  then show "undeclared_llm t [untidy_agent '' openai'' []] \<noteq> []"
    by (simp add: undeclared_llm_def undeclared_llm_judge_def Let_def) (simp add: untidy_agent_def is_agent_def)
  show "map su_gap (build_subjects match_llm_host None [untidy_agent '' openai'' []]) = [GapAgrees]"
    by code_simp
qed

end
