(* ===== verification/AI_Report.thy ===== *)
theory AI_Report
  imports AI_Subjects
begin

text \<open>
  What a reader of the report sees: the list of sources (\<^verbatim>\<open>buildSubjects\<close>, \<^verbatim>\<open>makeSourceRow\<close>), the whole
  report (\<^verbatim>\<open>Build\<close>, \<^verbatim>\<open>aiInventoryReport\<close>) and the cells of the tables of \<^verbatim>\<open>render.go\<close>. The width of the
  columns is the standard library's.
\<close>

section \<open>Sources\<close>

record source_row =
  so_source :: string
  so_present :: bool
  so_count :: nat
  so_detail :: string

definition make_source_row :: "string \<Rightarrow> nat \<Rightarrow> string \<Rightarrow> string \<Rightarrow> source_row" where
  "make_source_row source n present absent =
     (if n > 0 then \<lparr>so_source = source, so_present = True, so_count = n, so_detail = present\<rparr>
      else \<lparr>so_source = source, so_present = False, so_count = 0, so_detail = absent\<rparr>)"

definition list_names :: "(nat \<Rightarrow> bool) \<Rightarrow> string list \<Rightarrow> string" where
  "list_names cf xs = join '', '' (map (\<lambda>n. escape cf n 40) (sorted_keys xs))"

definition egress_of :: "identity \<Rightarrow> event list" where
  "egress_of i = filter is_egress (i_events i)"

definition bus_of :: "identity \<Rightarrow> event list" where
  "bus_of i = filter (\<lambda>e. \<not> is_egress e \<and> e_source e \<noteq> []) (i_events i)"

definition with_events :: "(identity \<Rightarrow> event list) \<Rightarrow> identity list \<Rightarrow> string list" where
  "with_events es ids = remdups (map i_id (filter (\<lambda>i. es i \<noteq> []) ids))"

definition n_sites :: "code_scan \<Rightarrow> nat" where
  "n_sites c = sum_list (map (se_sites \<circ> snd) (cs_providers c))"

definition source_rows :: "(nat \<Rightarrow> bool) \<Rightarrow> (string \<Rightarrow> string option) \<Rightarrow> code_scan option \<Rightarrow> identity list \<Rightarrow> source_row list" where
  "source_rows cf match scan ids =
     (let declared = filter has_declaration ids;
          models = filter (\<lambda>i. sf_declared (gather match i) \<noteq> []) declared;
          egress = concat (map egress_of ids);
          bus = concat (map bus_of ids);
          captured = filter (\<lambda>i. is_captured (i_id i)) ids;
          ebpf = concat (map egress_of captured);
          flows = filter (\<lambda>e. match (e_resource e) \<noteq> None) egress
      in [make_source_row ''declared'' (length declared)
            (utoa (length declared) @ '' subject(s) carry a declaration, '' @ utoa (length models) @ '' of them name at least one model'')
            ''no Passport or other declaration was loaded, so the DECLARED column is not a measurement; a subject with no declaration here is not one that declares nothing'',
          make_source_row ''bus'' (length bus)
            (utoa (length bus) @ '' event(s) from '' @ list_names cf (map e_source bus) @ '' about '' @
             utoa (length (with_events bus_of ids)) @
             '' subject(s); the bus names no provider, so it shows a subject is active through an enforcement point and not which provider it calls'')
            ''no agent-event bus file was loaded, so no subject can be said to be active on the bus'',
          make_source_row ''egress'' (length egress)
            (utoa (length egress) @ '' flow(s) about '' @ utoa (length (with_events egress_of ids)) @ '' subject(s), '' @
             utoa (length flows) @ '' of them to a model provider the host vocabulary recognises'')
            ''no egress log or capture was loaded, so no subject can be said to have reached a provider'',
          make_source_row ''ebpf'' (length ebpf)
            (utoa (length ebpf) @ '' flow(s) from '' @ utoa (length (with_events egress_of captured)) @
             '' captured process(es); a flow is attributed by the process's own name or its own claim'')
            ''no eBPF capture is in this graph; the sensor is Linux-only and needs privilege, so a laptop is not covered, and nothing here says whether a capture ran and saw nothing'',
          (case scan of
             Some c \<Rightarrow>
               \<lparr>so_source = ''code'', so_present = True, so_count = n_sites c,
                so_detail = trim_space (trim_space (cs_tool c) @ '' scanned '' @ cs_root c @ '': '' @ utoa (n_sites c) @
                  '' site(s) across '' @ utoa (length (cs_providers c)) @
                  '' provider(s); a scan has no subject, so its counts are for the whole estate'')\<rparr>
           | None \<Rightarrow> make_source_row ''code'' 0 []
               ''no code scan was supplied (run `qryx scan --format ai-inventory <path>` and pass it with --code-scan); the CODE column is not a measurement, and a scan nobody ran is not a tree with nothing in it'')])"

section \<open>The report\<close>

record usage_report =
  rp_rows :: "usage_row list"
  rp_sources :: "source_row list"
  rp_subjects :: "subject_row list"
  rp_code_scan :: scan_ref
  rp_limits :: "string list"

definition build_usage :: "(nat \<Rightarrow> bool) \<Rightarrow> (string \<Rightarrow> string option) \<Rightarrow> code_scan option \<Rightarrow> identity list \<Rightarrow> usage_report" where
  "build_usage cf match scan ids =
     \<lparr>rp_rows = build_rows match ids scan, rp_sources = source_rows cf match scan ids,
      rp_subjects = build_subjects match scan ids, rp_code_scan = scan_reference scan, rp_limits = report_limits scan\<rparr>"

definition ai_inventory_report :: "(nat \<Rightarrow> bool) \<Rightarrow> code_scan option \<Rightarrow> identity list \<Rightarrow> usage_report" where
  "ai_inventory_report cf scan ids = build_usage cf match_llm_host scan ids"

section \<open>Cells\<close>

definition gap_text :: "(nat \<Rightarrow> bool) \<Rightarrow> string \<Rightarrow> string" where
  "gap_text cf gap =
     (if gap = GapAgrees then []
      else if gap = GapDeclaredNotSeen then ''declared, and not seen reaching it''
      else if gap = GapDeclaredBusOnly then ''declared; active on the bus, which names no provider, and not seen reaching it directly''
      else if gap = GapSeenNotDeclared then ''seen reaching it, and not declared (this subject declares other providers)''
      else if gap = GapSeenNoDeclaration then ''seen reaching it; this subject declares nothing to compare with''
      else if gap = GapDeclaresNoModels then ''declares no model; no source names a provider for it''
      else if gap = GapNoDeclaration then ''no declaration loaded; no source names a provider for it''
      else if gap = GapInCodeNotSeen then ''in code, not seen in operation''
      else escape cf gap max_shown)"

definition or_dash :: "string \<Rightarrow> string" where
  "or_dash s = (if s = [] then ''-'' else s)"

definition counted :: "nat \<Rightarrow> string \<Rightarrow> string" where
  "counted n what = (if n = 0 then ''-'' else if n = 1 then ''1 '' @ what else utoa n @ '' '' @ what @ ''s'')"

definition subject_kind_cell :: "(nat \<Rightarrow> bool) \<Rightarrow> subject_row \<Rightarrow> string" where
  "subject_kind_cell cf s =
     (if su_attribution s = [] then shown cf (su_kind s) else shown cf (su_kind s) @ '', '' @ shown cf (su_attribution s))"

definition declared_cell :: "(nat \<Rightarrow> bool) \<Rightarrow> subject_row \<Rightarrow> string" where
  "declared_cell cf s =
     (if su_models s \<noteq> [] then shown cf (join '', '' (su_models s)) else if su_declared s then ''yes'' else ''-'')"

definition seen_cell :: "(nat \<Rightarrow> bool) \<Rightarrow> subject_row \<Rightarrow> string" where
  "seen_cell cf s =
     (if su_seen s = SeenEgress then shown cf (join ''+'' (su_via s) @ '' '' @ join '','' (su_hosts s))
      else if su_seen s = SeenBusOnly then
        ''bus only ('' @ join '', '' (map (\<lambda>(source, n). shown cf source @ '' '' @ utoa n) (su_bus s)) @ '')''
      else ''-'')"

definition subject_code_cell :: "subject_row \<Rightarrow> string" where
  "subject_code_cell s =
     (if su_code s = CodeFound then counted (su_code_sites s) ''site''
      else if su_code s = CodeNotFound then ''not found''
      else if su_code s = CodeNotScanned then ''not scanned''
      else ''-'')"

definition subject_cells :: "(nat \<Rightarrow> bool) \<Rightarrow> subject_row \<Rightarrow> string list" where
  "subject_cells cf s =
     [shown cf (su_subject s), subject_kind_cell cf s, or_dash (shown cf (su_provider s)), declared_cell cf s,
      seen_cell cf s, subject_code_cell s, gap_text cf (su_gap s)]"

definition source_cells :: "(nat \<Rightarrow> bool) \<Rightarrow> source_row \<Rightarrow> string list" where
  "source_cells cf s =
     [shown cf (so_source s), shown cf (if so_present s then ''present'' else ''absent''), shown cf (so_detail s)]"

definition disagreement :: "usage_row \<Rightarrow> string" where
  "disagreement r =
     (if row_agrees r then []
      else if row_observed r \<and> \<not> row_declared r then ''reached, and declared by nobody''
      else if row_declared r \<and> \<not> row_observed r \<and> \<not> row_coded r then ''declared, and neither reached nor in code''
      else if row_declared r \<and> \<not> row_observed r then ''declared and in code, not observed reaching it''
      else if row_coded r \<and> \<not> row_declared r then ''in code, declared by nobody''
      else ''not in every source'')"

definition row_cells :: "usage_row \<Rightarrow> string list" where
  "row_cells r =
     [ur_provider r, counted (length (ur_declared r)) ''agent'', counted (length (ur_observed r)) ''agent'',
      (if ur_sites r = 0 then ''-'' else counted (ur_sites r) ''site''), disagreement r]"

section \<open>What a terminal is given\<close>

lemma printable_join: "printable cf sep \<Longrightarrow> \<forall>x \<in> set xs. printable cf x \<Longrightarrow> printable cf (join sep xs)"
  by (induction sep xs rule: join.induct) (auto intro!: printable_append)

lemma printable_shown: "format_table cf \<Longrightarrow> printable cf (shown cf s)"
  by (simp add: shown_def escape_def printable_escape_from)

lemma printable_literal: "format_table cf \<Longrightarrow> list_all (\<lambda>c. 0x20 \<le> byte c \<and> byte c < 0x7F) s \<Longrightarrow> printable cf s"
  by (rule printable_ascii) (simp_all add: list_all_iff)

lemma utoa_ascii: "list_all (\<lambda>c. 0x20 \<le> byte c \<and> byte c < 0x7F) (utoa n)"
proof -
  have "32 \<le> byte c \<and> byte c < 127" if c: "c \<in> set (utoa n)" for c
  proof -
    obtain d where "d < 10" "c = digit_char d" using c digits_base_chars [of 10 c n] by (auto simp: utoa_def)
    then show ?thesis by (simp add: byte_def of_char_digit)
  qed
  then show ?thesis by (simp add: list_all_iff)
qed

lemma printable_gap_text: "format_table cf \<Longrightarrow> printable cf (gap_text cf g)"
  unfolding gap_text_def
  by (auto intro!: printable_literal simp: byte_def printable_shown [unfolded shown_def])

lemma printable_counted: "format_table cf \<Longrightarrow> printable cf (counted n ''site'')"
  by (rule printable_literal) (use utoa_ascii [of n] in \<open>simp_all add: counted_def byte_def\<close>)

lemma printable_subject_cells: "format_table cf \<Longrightarrow> c \<in> set (subject_cells cf s) \<Longrightarrow> printable cf c"
proof -
  assume cf: "format_table cf" and c: "c \<in> set (subject_cells cf s)"
  have lit: "printable cf '', ''" "printable cf '' ''" "printable cf ''-''" "printable cf ''yes''" "printable cf ''bus only (''"
    "printable cf '')''" "printable cf ''not found''" "printable cf ''not scanned''"
    by (rule printable_literal [OF cf], simp add: byte_def)+
  have kind: "printable cf (subject_kind_cell cf s)"
    unfolding subject_kind_cell_def using lit printable_shown [OF cf] by (auto intro!: printable_append simp del: append_Cons)
  have dash: "printable cf (or_dash (shown cf (su_provider s)))" using cf lit by (simp add: or_dash_def printable_shown)
  have decl: "printable cf (declared_cell cf s)" using cf lit by (simp add: declared_cell_def printable_shown)
  have "printable cf (shown cf source @ '' '' @ utoa n)" for source n
    by (intro printable_append printable_shown [OF cf] lit printable_literal [OF cf utoa_ascii])
  then have "printable cf (join '', '' (map (\<lambda>(source, n). shown cf source @ '' '' @ utoa n) (su_bus s)))"
    by (intro printable_join lit) auto
  then have "printable cf (''bus only ('' @ join '', '' (map (\<lambda>(source, n). shown cf source @ '' '' @ utoa n) (su_bus s)) @ '')'')"
    by (intro printable_append lit)
  then have seen: "printable cf (seen_cell cf s)"
    unfolding seen_cell_def using lit(3) printable_shown [OF cf] by (simp only: split: if_split) blast
  have code: "printable cf (subject_code_cell s)"
    unfolding subject_code_cell_def using lit printable_counted [OF cf] by simp
  from c kind dash decl seen code printable_gap_text [OF cf] printable_shown [OF cf] show ?thesis
    by (auto simp: subject_cells_def)
qed

text \<open>
  Nothing a Passport, a bus file, a capture or a scan says reaches the terminal raw through the table
  of subjects or the list of sources: every cell of both is printable text, whatever the rows hold.
\<close>

theorem subject_table_printable:
  assumes "format_table cf"
  shows "\<forall>c \<in> set (concat (map (subject_cells cf) (rp_subjects r)) @ concat (map (source_cells cf) (rp_sources r))). printable cf c"
  using printable_subject_cells [OF assms] printable_shown [OF assms] by (auto simp: source_cells_def)

theorem subject_table_printable_witness:
  "\<forall>c \<in> set (concat (map (subject_cells sample_format) (rp_subjects (ai_inventory_report sample_format None [sample_usage_agent]))) @
      concat (map (source_cells sample_format) (rp_sources (ai_inventory_report sample_format None [sample_usage_agent])))).
     printable sample_format c"
  by (rule subject_table_printable) (simp add: format_table_def sample_format_def)

section \<open>Where the report falls short\<close>

text \<open>
  The first cell of the provider table is not escaped: a name from a Passport goes to the terminal as it
  is, a control sequence included.
\<close>

lemma provider_cell_raw:
  "map (hd \<circ> row_cells) (build_rows match_llm_host [untidy_agent (''x'' @ [CHR 0x1B] @ ''c'') []] None) =
     [''openai'', ''x'' @ [CHR 0x1B] @ ''c'']"
  "\<not> printable cf (''x'' @ [CHR 0x1B] @ ''c'')"
proof -
  show "map (hd \<circ> row_cells) (build_rows match_llm_host [untidy_agent (''x'' @ [CHR 0x1B] @ ''c'') []] None) =
      [''openai'', ''x'' @ [CHR 0x1B] @ ''c'']" by code_simp
  show "\<not> printable cf (''x'' @ [CHR 0x1B] @ ''c'')"
    by (simp add: printable_step byte_def unprintable_def is_control_def)
qed

text \<open>
  A provider reached only on endpoints its agent declares agrees in the table of subjects and is a
  disagreement in the table of providers.
\<close>

lemma endpoint_agrees_in_one_table:
  "map su_gap (filter (\<lambda>r. su_provider r = ''openai'')
     (build_subjects match_llm_host None [untidy_agent ''gateway'' ''api.openai.com''])) = [GapAgrees]"
  "map ur_gaps (filter (\<lambda>r. ur_provider r = ''openai'')
     (build_rows match_llm_host [untidy_agent ''gateway'' ''api.openai.com''] None)) = [[GapSeenNotDeclared]]"
  by code_simp+

end
