(* ===== verification/Agent_Bom.thy ===== *)
theory Agent_Bom
  imports Detect_Agents Graph_Delegation Report_Out
begin

text \<open>
  \<^verbatim>\<open>internal/bom\<close>: the bill of materials of the agents in the graph, and the CycloneDX document it is
  written as. \<^verbatim>\<open>sort.Slice\<close> is not stable; the agents are sorted by ids, which are distinct in a graph,
  and an identity's tools by names, which the store keeps distinct. The JSON text and the aligned table
  are the standard library's.
\<close>

section \<open>The inventory\<close>

record tool_ref =
  tr_name :: string
  tr_admin :: bool
  tr_used :: bool

record agent_bom =
  ab_id :: string
  ab_owner :: string
  ab_runtime :: string
  ab_parent :: string
  ab_attestation :: string
  ab_privileged :: bool
  ab_tools :: "tool_ref list"
  ab_chain :: "string list"
  ab_blast :: "string list"

record bom =
  bo_generated :: int
  bo_agents :: "agent_bom list"

definition tool_of :: "permission \<Rightarrow> tool_ref" where
  "tool_of p = \<lparr>tr_name = p_name p, tr_admin = p_admin p, tr_used = p_used p\<rparr>"

definition build_agent :: "(string \<times> identity) list \<Rightarrow> identity \<Rightarrow> agent_bom" where
  "build_agent index i =
     \<lparr>ab_id = i_id i, ab_owner = i_owner i, ab_runtime = i_runtime i, ab_parent = i_parent i,
      ab_attestation = i_attestation i, ab_privileged = i_privileged i,
      ab_tools = sort_key tr_name (map tool_of (i_permissions i)),
      ab_chain = walk_delegation_chain index (i_id i),
      ab_blast = sort (map p_name (blast_radius index (i_id i)))\<rparr>"

definition build_bom :: "int \<Rightarrow> identity list \<Rightarrow> bom" where
  "build_bom t ids =
     \<lparr>bo_generated = t,
      bo_agents = sort_key ab_id (map (build_agent (index_of_ids ids)) (filter is_agent ids))\<rparr>"

section \<open>The document\<close>

type_synonym property = "string \<times> string"

record tool_component =
  tc_ref :: string
  tc_name :: string
  tc_properties :: "property list"

record agent_component =
  ac_ref :: string
  ac_name :: string
  ac_properties :: "property list"
  ac_tools :: "tool_component list"

record dependency =
  de_ref :: string
  de_depends_on :: "string list"

record bom_document =
  bd_timestamp :: string
  bd_version :: string
  bd_components :: "agent_component list"
  bd_dependencies :: "dependency list"

definition bool_string :: "bool \<Rightarrow> string" where
  "bool_string b = (if b then ''true'' else ''false'')"

definition attestation_or :: "string \<Rightarrow> string" where
  "attestation_or a = (if a = [] then ''none'' else a)"

definition on_behalf_of_chain :: "string list \<Rightarrow> string list" where
  "on_behalf_of_chain chain = (if length chain < 2 then [] else tl chain)"

definition to_component :: "agent_bom \<Rightarrow> agent_component" where
  "to_component a =
     \<lparr>ac_ref = ab_id a, ac_name = ab_id a,
      ac_properties =
        [(''idryx:owner'', ab_owner a), (''idryx:runtime'', ab_runtime a), (''idryx:parent'', ab_parent a),
         (''idryx:attestation'', attestation_or (ab_attestation a)), (''idryx:privileged'', bool_string (ab_privileged a)),
         (''idryx:delegationDepth'', utoa (length (ab_chain a) - 1)),
         (''idryx:onBehalfOf'', join '','' (on_behalf_of_chain (ab_chain a))),
         (''idryx:blastRadiusCount'', utoa (length (ab_blast a))), (''idryx:blastRadius'', join '','' (ab_blast a))],
      ac_tools = map (\<lambda>t. \<lparr>tc_ref = ab_id a @ ''#tool:'' @ tr_name t, tc_name = tr_name t,
        tc_properties = [(''idryx:admin'', bool_string (tr_admin t)), (''idryx:used'', bool_string (tr_used t))]\<rparr>) (ab_tools a)\<rparr>"

definition to_dependency :: "agent_bom \<Rightarrow> dependency option" where
  "to_dependency a =
     (if length (ab_chain a) < 2 then None
      else Some \<lparr>de_ref = ab_id a, de_depends_on = on_behalf_of_chain (ab_chain a)\<rparr>)"

definition bom_json :: "string \<Rightarrow> bom \<Rightarrow> bom_document" where
  "bom_json version b =
     \<lparr>bd_timestamp = format_seconds (bo_generated b), bd_version = version,
      bd_components = map to_component (bo_agents b),
      bd_dependencies = List.map_filter to_dependency (bo_agents b)\<rparr>"

definition value_or :: "string \<Rightarrow> string \<Rightarrow> string" where
  "value_or s fallback = (if s = [] then fallback else s)"

definition bom_line :: "agent_bom \<Rightarrow> string list" where
  "bom_line a =
     [ab_id a, value_or (ab_owner a) ''-'', value_or (ab_runtime a) ''-'', attestation_or (ab_attestation a),
      bool_string (ab_privileged a), utoa (length (ab_tools a)), utoa (length (ab_blast a))]"

section \<open>The index of a graph\<close>

lemma index_of_ids_snoc: "index_of_ids (ids @ [i]) = AList.update (i_id i) i (index_of_ids ids)"
  by (simp add: index_of_ids_def)

lemma index_of_distinct:
  "distinct (map i_id ids) \<Longrightarrow> map_of (index_of_ids ids) k = Some i \<longleftrightarrow> i \<in> set ids \<and> i_id i = k"
proof (induction ids rule: rev_induct)
  case (snoc j ids)
  then show ?case by (auto simp: index_of_ids_snoc update_conv' rev_image_eqI)
qed (simp add: index_of_ids_def)

lemma index_of_permuted:
  assumes "mset ids = mset ids'" "distinct (map i_id ids)"
  shows "map_of (index_of_ids ids) = map_of (index_of_ids ids')"
proof
  fix k
  have d: "distinct (map i_id ids')" using assms by (metis mset_eq_imp_distinct_iff mset_map)
  have "map_of (index_of_ids ids) k = Some i \<longleftrightarrow> map_of (index_of_ids ids') k = Some i" for i
    using index_of_distinct [OF assms(2)] index_of_distinct [OF d] mset_eq_setD [OF assms(1)] by simp
  then show "map_of (index_of_ids ids) k = map_of (index_of_ids ids') k"
    by (metis not_None_eq)
qed

lemma walk_permuted:
  "map_of index = map_of index' \<Longrightarrow> walk index cur chain = walk index' cur chain"
proof (induction index cur chain rule: walk.induct)
  case (1 index cur chain)
  show ?case
    by (subst (1 2) walk.simps) (use 1 in \<open>auto simp: Let_def split: option.split\<close>)
qed

lemma chain_permuted: "map_of index = map_of index' \<Longrightarrow> walk_delegation_chain index k = walk_delegation_chain index' k"
  unfolding walk_delegation_chain_def by (rule walk_permuted)

lemma blast_permuted: "map_of index = map_of index' \<Longrightarrow> blast_radius index k = blast_radius index' k"
  using chain_permuted [of index index' k] unfolding blast_radius_def by (simp only:)

lemma build_agent_permuted: "map_of index = map_of index' \<Longrightarrow> build_agent index i = build_agent index' i"
  using chain_permuted [of index index' "i_id i"] blast_permuted [of index index' "i_id i"]
  unfolding build_agent_def by (simp only:)

lemma sort_key_permuted:
  assumes "mset xs = mset ys" "distinct (map f xs)"
  shows "sort_key f xs = sort_key f ys"
proof (rule properties_for_sort_key)
  show "mset (sort_key f ys) = mset xs" using assms(1) by simp
  have d: "distinct (map f ys)" using assms by (metis mset_eq_imp_distinct_iff mset_map)
  have one: "distinct (map f zs) \<Longrightarrow> x \<in> set zs \<Longrightarrow> filter (\<lambda>y. f x = f y) zs = [x]" for x and zs
    by (induction zs) (auto simp: filter_empty_conv rev_image_eqI)
  fix x assume "x \<in> set (sort_key f ys)"
  then have x: "x \<in> set ys" "x \<in> set xs" using mset_eq_setD [OF assms(1)] by simp_all
  show "filter (\<lambda>y. f x = f y) (sort_key f ys) = filter (\<lambda>y. f x = f y) xs"
    using one [OF assms(2) x(2)] one [OF d x(1)] by (simp add: filter_sort)
next
  show "sorted (map f (sort_key f ys))" by simp
qed

section \<open>What the bill says\<close>

lemma blast_names:
  "p_name ` set (blast_radius index k) =
     {p_name p | link node p. link \<in> set (walk_delegation_chain index k) \<and> map_of index link = Some node \<and> p \<in> set (i_permissions node)}"
  "distinct (map p_name (blast_radius index k))"
proof -
  have eq: "blast_radius index k = foldl keep_first []
      (concat (map (\<lambda>link. case map_of index link of Some node \<Rightarrow> i_permissions node | None \<Rightarrow> []) (walk_delegation_chain index k)))"
    by (simp add: blast_radius_def blast_radius_fold)
  show "p_name ` set (blast_radius index k) =
     {p_name p | link node p. link \<in> set (walk_delegation_chain index k) \<and> map_of index link = Some node \<and> p \<in> set (i_permissions node)}"
    using keep_first_names [of "[]"] unfolding eq by (force split: option.splits)
  show "distinct (map p_name (blast_radius index k))" using keep_first_names [of "[]"] unfolding eq by simp
qed

lemma chain_length: "length (walk_delegation_chain index k) < 2 \<longleftrightarrow> (\<forall>p. acts_for index k p \<longrightarrow> p = k)"
proof -
  obtain new where c: "walk_delegation_chain index k = k # new" "distinct (k # new)"
    "\<forall>p \<in> set new. \<exists>q \<in> set (k # new). acts_for index q p" "\<forall>p. acts_for index k p \<longrightarrow> p \<in> set (k # new)"
    using walk_chain [of index k] .
  show ?thesis
  proof
    assume "length (walk_delegation_chain index k) < 2"
    with c show "\<forall>p. acts_for index k p \<longrightarrow> p = k" by auto
  next
    assume only: "\<forall>p. acts_for index k p \<longrightarrow> p = k"
    show "length (walk_delegation_chain index k) < 2"
    proof (cases "map_of index k")
      case None
      then show ?thesis by (simp add: walk_delegation_chain_def walk.simps)
    next
      case (Some node)
      obtain chain nxt where r: "foldl add_principal ([k], []) (rev (i_on_behalf_of node)) = (chain, nxt)" by fastforce
      obtain ps where ps: "chain = [k] @ ps" "set ps = set (i_on_behalf_of node) - {k}" "nxt = (if ps = [] then [] else last ps)"
        using foldl_add_principal [OF r] by auto
      have "ps = []" using only Some ps(2) by (auto simp: acts_for_def simp flip: set_empty)
      then show ?thesis using Some r ps by (simp add: walk_delegation_chain_def walk.simps)
    qed
  qed
qed

lemma blast_listed: "sort (map p_name (blast_radius index k)) = sorted_list_of_set (p_name ` set (blast_radius index k))"
  using sorted_list_of_set.idem_if_sorted_distinct [of "sort (map p_name (blast_radius index k))"] blast_names(2) by simp

lemma bom_entry:
  assumes "a \<in> set (bo_agents (build_bom t ids))"
  shows "\<exists>i \<in> set ids. is_agent i \<and> a = build_agent (index_of_ids ids) i"
  using assms by (auto simp: build_bom_def)

lemma bom_ids:
  assumes "distinct (map i_id ids)"
  shows "map ab_id (bo_agents (build_bom t ids)) = sorted_list_of_set (i_id ` {i \<in> set ids. is_agent i})"
proof -
  let ?bs = "map (build_agent (index_of_ids ids)) (filter is_agent ids)"
  have ids: "map ab_id ?bs = map i_id (filter is_agent ids)" by (simp add: build_agent_def comp_def)
  have same: "mset (map ab_id (sort_key ab_id ?bs)) = mset (map i_id (filter is_agent ids))"
    unfolding ids [symmetric] by (metis mset_map mset_sort)
  have "distinct (map i_id (filter is_agent ids))" using assms by (simp add: distinct_map inj_on_def)
  then have "sorted (map ab_id (sort_key ab_id ?bs))" "distinct (map ab_id (sort_key ab_id ?bs))"
    using mset_eq_imp_distinct_iff [OF same] by simp_all
  moreover have "set (map ab_id (sort_key ab_id ?bs)) = i_id ` {i \<in> set ids. is_agent i}"
    using mset_eq_setD [OF same] by simp
  ultimately have "map ab_id (sort_key ab_id ?bs) = sorted_list_of_set (i_id ` {i \<in> set ids. is_agent i})"
    by (metis sorted_list_of_set.idem_if_sorted_distinct)
  then show ?thesis by (simp add: build_bom_def)
qed

lemma bom_dependency:
  "d \<in> set (bd_dependencies (bom_json v (build_bom t ids))) \<longleftrightarrow> (\<exists>k \<in> ab_id ` set (bo_agents (build_bom t ids)).
      (\<exists>p. p \<noteq> k \<and> acts_for (index_of_ids ids) k p)
      \<and> d = \<lparr>de_ref = k, de_depends_on = tl (walk_delegation_chain (index_of_ids ids) k)\<rparr>)"
proof -
  have "ab_chain a = walk_delegation_chain (index_of_ids ids) (ab_id a)" if "a \<in> set (bo_agents (build_bom t ids))" for a
    using bom_entry [OF that] by (auto simp: build_agent_def)
  then have "to_dependency a = Some d \<longleftrightarrow> (\<exists>p. p \<noteq> ab_id a \<and> acts_for (index_of_ids ids) (ab_id a) p)
      \<and> d = \<lparr>de_ref = ab_id a, de_depends_on = tl (walk_delegation_chain (index_of_ids ids) (ab_id a))\<rparr>"
    if "a \<in> set (bo_agents (build_bom t ids))" for a
    using that chain_length [of "index_of_ids ids" "ab_id a"]
    by (auto simp: to_dependency_def on_behalf_of_chain_def)
  moreover have "set (bd_dependencies (bom_json v (build_bom t ids))) = {d. \<exists>a \<in> set (bo_agents (build_bom t ids)). to_dependency a = Some d}"
    by (simp add: bom_json_def map_filter_set)
  ultimately show ?thesis by blast
qed

lemma chain_dependencies:
  "k \<notin> set (tl (walk_delegation_chain index k))
   \<and> (\<forall>p. acts_for index k p \<longrightarrow> p \<noteq> k \<longrightarrow> p \<in> set (tl (walk_delegation_chain index k)))"
proof -
  obtain new where "walk_delegation_chain index k = k # new" "distinct (k # new)"
    "\<forall>p. acts_for index k p \<longrightarrow> p \<in> set (k # new)"
    using walk_chain [of index k] by metis
  then show ?thesis by auto
qed

lemma bom_permuted:
  assumes "distinct (map i_id ids)" "mset ids' = mset ids"
  shows "build_bom t ids' = build_bom t ids"
proof -
  let ?bs = "map (build_agent (index_of_ids ids)) (filter is_agent ids)"
  have "map ab_id ?bs = map i_id (filter is_agent ids)" by (simp add: build_agent_def comp_def)
  then have d: "distinct (map ab_id ?bs)" using assms(1) by (simp add: distinct_map inj_on_def)
  have "map (build_agent (index_of_ids ids')) (filter is_agent ids') = map (build_agent (index_of_ids ids)) (filter is_agent ids')"
    using build_agent_permuted [OF index_of_permuted [OF assms(2) [symmetric] assms(1)]] by simp
  moreover have "sort_key ab_id ?bs = sort_key ab_id (map (build_agent (index_of_ids ids)) (filter is_agent ids'))"
    by (rule sort_key_permuted [OF _ d]) (simp add: assms(2))
  ultimately show ?thesis unfolding build_bom_def by (simp only: bom.simps)
qed

text \<open>
  C29: The bill of materials is complete, exact and reproducible. In a graph with distinct ids it has one
  entry for each agent and for nothing else, in order; an entry lists every grant of the agent, its
  resolved delegation chain, and as blast radius, each once and in order, exactly the names of what anyone
  in that chain may do. The document has a component for each entry, and a dependency exactly for the
  agents that act for somebody else, on everybody else in the chain and never on the agent itself. The
  order in which the identities are listed makes no difference.
\<close>

theorem bom_exact:
  assumes "distinct (map i_id ids)" "mset ids' = mset ids" "b = build_bom t ids" "index = index_of_ids ids"
  shows "map ab_id (bo_agents b) = sorted_list_of_set (i_id ` {i \<in> set ids. is_agent i})
    \<and> (\<forall>a \<in> set (bo_agents b). \<exists>i \<in> set ids. is_agent i \<and> ab_id a = i_id i \<and> ab_owner a = i_owner i
        \<and> mset (ab_tools a) = image_mset tool_of (mset (i_permissions i))
        \<and> ab_chain a = walk_delegation_chain index (i_id i)
        \<and> ab_blast a = sorted_list_of_set {p_name p | link node p. link \<in> set (walk_delegation_chain index (i_id i))
             \<and> map_of index link = Some node \<and> p \<in> set (i_permissions node)})
    \<and> map ac_ref (bd_components (bom_json v b)) = map ab_id (bo_agents b)
    \<and> de_ref ` set (bd_dependencies (bom_json v b)) = {k. k \<in> ab_id ` set (bo_agents b) \<and> (\<exists>p. p \<noteq> k \<and> acts_for index k p)}
    \<and> (\<forall>d \<in> set (bd_dependencies (bom_json v b)). de_ref d \<notin> set (de_depends_on d)
        \<and> (\<forall>p. acts_for index (de_ref d) p \<longrightarrow> p \<noteq> de_ref d \<longrightarrow> p \<in> set (de_depends_on d)))
    \<and> build_bom t ids' = b"
proof (intro conjI ballI)
  show "map ab_id (bo_agents b) = sorted_list_of_set (i_id ` {i \<in> set ids. is_agent i})"
    unfolding assms(3) by (rule bom_ids [OF assms(1)])
  show "\<exists>i \<in> set ids. is_agent i \<and> ab_id a = i_id i \<and> ab_owner a = i_owner i
      \<and> mset (ab_tools a) = image_mset tool_of (mset (i_permissions i))
      \<and> ab_chain a = walk_delegation_chain index (i_id i)
      \<and> ab_blast a = sorted_list_of_set {p_name p | link node p. link \<in> set (walk_delegation_chain index (i_id i))
           \<and> map_of index link = Some node \<and> p \<in> set (i_permissions node)}" if a: "a \<in> set (bo_agents b)" for a
    using bom_entry [OF a [unfolded assms(3)]]
    unfolding blast_names(1) [symmetric] assms(4) by (auto simp: build_agent_def blast_listed)
  show "map ac_ref (bd_components (bom_json v b)) = map ab_id (bo_agents b)"
    by (simp add: bom_json_def to_component_def)
  show "de_ref ` set (bd_dependencies (bom_json v b)) = {k. k \<in> ab_id ` set (bo_agents b) \<and> (\<exists>p. p \<noteq> k \<and> acts_for index k p)}"
  proof -
    have "set (bd_dependencies (bom_json v b)) = (\<lambda>k. \<lparr>de_ref = k, de_depends_on = tl (walk_delegation_chain index k)\<rparr>) `
        {k \<in> ab_id ` set (bo_agents b). \<exists>p. p \<noteq> k \<and> acts_for index k p}"
      using bom_dependency [of _ v t ids] unfolding assms(3,4) by blast
    then show ?thesis by (simp add: image_image)
  qed
  fix d assume "d \<in> set (bd_dependencies (bom_json v b))"
  then obtain k where "d = \<lparr>de_ref = k, de_depends_on = tl (walk_delegation_chain index k)\<rparr>"
    using bom_dependency [of d v t ids] assms(3,4) by blast
  with chain_dependencies [of k index]
  show "de_ref d \<notin> set (de_depends_on d)" "\<forall>p. acts_for index (de_ref d) p \<longrightarrow> p \<noteq> de_ref d \<longrightarrow> p \<in> set (de_depends_on d)"
    by simp_all
qed (simp add: assms(3) bom_permuted [OF assms(1,2)])

text \<open>An agent that acts for another one, which may do more.\<close>

definition sample_bom_ids :: "identity list" where
  "sample_bom_ids =
     [(new_identity ''b'' False)\<lparr>i_type := IdentityAgent, i_on_behalf_of := [''a''], i_permissions := [sample_permission ''read'' False False]\<rparr>,
      (new_identity ''a'' False)\<lparr>i_type := IdentityAgent, i_permissions := [sample_permission ''admin'' True False]\<rparr>]"

theorem bom_exact_witness:
  "build_bom 0 (rev sample_bom_ids) = build_bom 0 sample_bom_ids
   \<and> map ab_id (bo_agents (build_bom 0 sample_bom_ids)) = sorted_list_of_set {''a'', ''b''}"
proof -
  have d: "distinct (map i_id sample_bom_ids)" by (simp add: sample_bom_ids_def new_identity_def)
  have "{i \<in> set sample_bom_ids. is_agent i} = set sample_bom_ids" by (auto simp: sample_bom_ids_def is_agent_def)
  moreover have "i_id ` set sample_bom_ids = {''a'', ''b''}" by (auto simp: sample_bom_ids_def new_identity_def)
  ultimately have "i_id ` {i \<in> set sample_bom_ids. is_agent i} = {''a'', ''b''}" by simp
  with bom_exact [OF d _ refl refl, of "rev sample_bom_ids" 0] show ?thesis by simp
qed

end
