(* ===== verification/Pg_Store.thy ===== *)
theory Pg_Store
  imports Graph_Keeps Remediation
begin

text \<open>
  The Postgres backend (\<^verbatim>\<open>internal/graph/pgstore.go\<close>, \<^verbatim>\<open>remediations.go\<close> and the tables of \<^verbatim>\<open>schema.sql\<close>).
  A table is an association list from its key to the other columns, in the order of insertion; events
  have a serial key and are a list. Every SQL statement of the program is a constructor of \<open>stmt\<close>, with
  the constraints of the schema checked when it is executed. What a \<^verbatim>\<open>TIMESTAMPTZ\<close> keeps of a time, the
  order of rows a query does not order, the collation and the failures of the connection are parameters.
\<close>

section \<open>Tables\<close>

record identity_row =
  ir_privileged :: bool
  ir_type :: string
  ir_source :: string
  ir_owner :: string
  ir_created :: "int option"
  ir_last_used :: "int option"
  ir_runtime :: string
  ir_parent :: string
  ir_attestation :: string
  ir_shadow :: bool

record event_row =
  er_identity :: string
  er_ts :: int
  er_type :: string
  er_outcome :: string
  er_ip :: string
  er_city :: string
  er_country :: string
  er_lat :: real
  er_lon :: real
  er_device :: string
  er_resource :: string
  er_severity :: string

record permission_row =
  pr_admin :: bool
  pr_used :: bool
  pr_arn :: string

record remediation_row =
  rr_explanation :: string
  rr_code :: string
  rr_created :: int

record pg =
  t_identities :: "(string \<times> identity_row) list"
  t_models :: "((string \<times> nat) \<times> declared_model) list"
  t_chain :: "((string \<times> nat) \<times> string) list"
  t_events :: "event_row list"
  t_permissions :: "((string \<times> string) \<times> permission_row) list"
  t_actions :: "((string \<times> string \<times> nat) \<times> string) list"
  t_remediations :: "((string \<times> string) \<times> remediation_row) list"

definition empty_pg :: pg where
  "empty_pg = \<lparr>t_identities = [], t_models = [], t_chain = [], t_events = [], t_permissions = [], t_actions = [], t_remediations = []\<rparr>"

section \<open>Statements\<close>

datatype stmt =
    Upsert_Seen string bool
  | Insert_Event event_row
  | Upsert_Identity string identity_row
  | Clear_Permissions string
  | Upsert_Permission string string permission_row
  | Clear_Actions string string
  | Insert_Action string string nat string
  | Clear_Chain string
  | Insert_Principal string nat string
  | Clear_Models string
  | Insert_Model string nat declared_model
  | Upsert_Remediation string string remediation_row

definition blank_row :: identity_row where
  "blank_row =
     \<lparr>ir_privileged = False, ir_type = [], ir_source = [], ir_owner = [], ir_created = None, ir_last_used = None,
      ir_runtime = [], ir_parent = [], ir_attestation = [], ir_shadow = False\<rparr>"

definition said :: "string \<Rightarrow> string \<Rightarrow> string" where
  "said new old = (if new \<noteq> [] then new else old)"

text \<open>A comparison with \<^verbatim>\<open>NULL\<close> is not true.\<close>

definition later_of :: "int option \<Rightarrow> int option \<Rightarrow> int option" where
  "later_of new old =
     (case old of None \<Rightarrow> new | Some t \<Rightarrow> (case new of Some u \<Rightarrow> if u > t then new else old | None \<Rightarrow> old))"

definition merge_row :: "identity_row \<Rightarrow> identity_row \<Rightarrow> identity_row" where
  "merge_row new old =
     \<lparr>ir_privileged = (ir_privileged old \<or> ir_privileged new),
      ir_type = said (ir_type new) (ir_type old),
      ir_source = said (ir_source new) (ir_source old),
      ir_owner = said (ir_owner new) (ir_owner old),
      ir_created = (case ir_created new of Some t \<Rightarrow> Some t | None \<Rightarrow> ir_created old),
      ir_last_used = later_of (ir_last_used new) (ir_last_used old),
      ir_runtime = said (ir_runtime new) (ir_runtime old),
      ir_parent = said (ir_parent new) (ir_parent old),
      ir_attestation = said (ir_attestation new) (ir_attestation old),
      ir_shadow = (ir_shadow old \<or> ir_shadow new)\<rparr>"

definition known_identity :: "pg \<Rightarrow> string \<Rightarrow> bool" where
  "known_identity db k \<longleftrightarrow> k \<in> fst ` set (t_identities db)"

text \<open>\<open>INSERT\<close> without a conflict clause: the key must be new.\<close>

definition insert_new :: "'k \<Rightarrow> 'v \<Rightarrow> ('k \<times> 'v) list \<Rightarrow> ('k \<times> 'v) list option" where
  "insert_new k v rows = (if k \<in> fst ` set rows then None else Some (rows @ [(k, v)]))"

text \<open>\<open>None\<close> is a statement the schema refuses.\<close>

fun exec :: "stmt \<Rightarrow> pg \<Rightarrow> pg option" where
  "exec (Upsert_Seen k p) db =
     (let row = (case map_of (t_identities db) k of
          None \<Rightarrow> blank_row\<lparr>ir_privileged := p\<rparr>
        | Some old \<Rightarrow> old\<lparr>ir_privileged := ir_privileged old \<or> p\<rparr>)
      in Some (db\<lparr>t_identities := AList.update k row (t_identities db)\<rparr>))"
| "exec (Insert_Event r) db =
     (if \<not> known_identity db (er_identity r) then None
      else if r \<in> set (t_events db) then Some db
      else Some (db\<lparr>t_events := t_events db @ [r]\<rparr>))"
| "exec (Upsert_Identity k row) db =
     (let row = (case map_of (t_identities db) k of None \<Rightarrow> row | Some old \<Rightarrow> merge_row row old)
      in Some (db\<lparr>t_identities := AList.update k row (t_identities db)\<rparr>))"
| "exec (Clear_Permissions k) db =
     Some (db\<lparr>t_permissions := filter (\<lambda>((i, n), p). i \<noteq> k) (t_permissions db),
              t_actions := filter (\<lambda>((i, n, j), a). i \<noteq> k) (t_actions db)\<rparr>)"
| "exec (Upsert_Permission k n p) db =
     (if \<not> known_identity db k then None
      else Some (db\<lparr>t_permissions := AList.update (k, n) p (t_permissions db)\<rparr>))"
| "exec (Clear_Actions k n) db =
     Some (db\<lparr>t_actions := filter (\<lambda>((i, m, j), a). (i, m) \<noteq> (k, n)) (t_actions db)\<rparr>)"
| "exec (Insert_Action k n j a) db =
     (if (k, n) \<notin> fst ` set (t_permissions db) then None
      else map_option (\<lambda>rows. db\<lparr>t_actions := rows\<rparr>) (insert_new (k, n, j) a (t_actions db)))"
| "exec (Clear_Chain k) db = Some (db\<lparr>t_chain := filter (\<lambda>((i, j), p). i \<noteq> k) (t_chain db)\<rparr>)"
| "exec (Insert_Principal k j p) db =
     (if \<not> known_identity db k then None
      else map_option (\<lambda>rows. db\<lparr>t_chain := rows\<rparr>) (insert_new (k, j) p (t_chain db)))"
| "exec (Clear_Models k) db = Some (db\<lparr>t_models := filter (\<lambda>((i, j), m). i \<noteq> k) (t_models db)\<rparr>)"
| "exec (Insert_Model k j m) db =
     (if \<not> known_identity db k then None
      else map_option (\<lambda>rows. db\<lparr>t_models := rows\<rparr>) (insert_new (k, j) m (t_models db)))"
| "exec (Upsert_Remediation k n r) db = Some (db\<lparr>t_remediations := AList.update (k, n) r (t_remediations db)\<rparr>)"

section \<open>Transactions\<close>

record pg_env =
  pe_stamp :: "int \<Rightarrow> int"
  pe_zone :: nat
  pe_collate :: "string \<Rightarrow> real"
  pe_identity_order :: "(string \<times> identity_row) list \<Rightarrow> (string \<times> identity_row) list"
  pe_permission_order :: "((string \<times> string) \<times> permission_row) list \<Rightarrow> ((string \<times> string) \<times> permission_row) list"
  pe_fails :: "nat \<Rightarrow> bool"
  pe_commit_reached :: bool

datatype pg_error = Lost_Connection nat | Refused stmt

text \<open>
  The exchanges with the server are numbered: \<open>0\<close> opens the transaction, the last one commits it. An
  error before the commit rolls everything back; when the commit itself gets no answer, it has either
  been carried out or not.
\<close>

fun exec_all :: "(nat \<Rightarrow> bool) \<Rightarrow> nat \<Rightarrow> stmt list \<Rightarrow> pg \<Rightarrow> pg_error + pg" where
  "exec_all fails n [] db = Inr db"
| "exec_all fails n (s # ss) db =
     (if fails n then Inl (Lost_Connection n)
      else case exec s db of None \<Rightarrow> Inl (Refused s) | Some db' \<Rightarrow> exec_all fails (Suc n) ss db')"

definition transaction :: "pg_env \<Rightarrow> stmt list \<Rightarrow> pg \<Rightarrow> pg_error option \<times> pg" where
  "transaction env ss db =
     (if pe_fails env 0 then (Some (Lost_Connection 0), db)
      else case exec_all (pe_fails env) 1 ss db of
        Inl err \<Rightarrow> (Some err, db)
      | Inr db' \<Rightarrow>
          if pe_fails env (Suc (length ss))
          then (Some (Lost_Connection (Suc (length ss))), if pe_commit_reached env then db' else db)
          else (None, db'))"

section \<open>Writing\<close>

definition row_of_event :: "pg_env \<Rightarrow> event \<Rightarrow> event_row" where
  "row_of_event env e =
     \<lparr>er_identity = e_identity e, er_ts = pe_stamp env (e_time e), er_type = e_type e, er_outcome = e_outcome e,
      er_ip = e_ip e, er_city = e_city e, er_country = e_country e, er_lat = e_lat e, er_lon = e_lon e,
      er_device = e_device e, er_resource = e_resource e, er_severity = e_severity e\<rparr>"

fun ingest_stmts :: "pg_env \<Rightarrow> string list \<Rightarrow> string list \<Rightarrow> event list \<Rightarrow> stmt list" where
  "ingest_stmts env privileged seen [] = []"
| "ingest_stmts env privileged seen (e # es) =
     (let k = e_identity e
      in if k \<in> set seen then Insert_Event (row_of_event env e) # ingest_stmts env privileged seen es
         else Upsert_Seen k (k \<in> set privileged) # Insert_Event (row_of_event env e) #
              ingest_stmts env privileged (k # seen) es)"

definition pg_ingest :: "pg_env \<Rightarrow> event list \<Rightarrow> string list \<Rightarrow> pg \<Rightarrow> pg_error option \<times> pg" where
  "pg_ingest env events privileged = transaction env (ingest_stmts env privileged [] events)"

definition nullable :: "pg_env \<Rightarrow> int \<Rightarrow> int option" where
  "nullable env t = (if is_zero t then None else Some (pe_stamp env t))"

definition row_of_identity :: "pg_env \<Rightarrow> identity \<Rightarrow> identity_row" where
  "row_of_identity env i =
     \<lparr>ir_privileged = i_privileged i, ir_type = i_type i, ir_source = i_source i, ir_owner = i_owner i,
      ir_created = nullable env (i_created i), ir_last_used = nullable env (i_last_used i),
      ir_runtime = i_runtime i, ir_parent = i_parent i, ir_attestation = i_attestation i, ir_shadow = i_shadow i\<rparr>"

definition permission_stmts :: "string \<Rightarrow> permission \<Rightarrow> stmt list" where
  "permission_stmts k p =
     Upsert_Permission k (p_name p) \<lparr>pr_admin = p_admin p, pr_used = p_used p, pr_arn = p_arn p\<rparr> #
     Clear_Actions k (p_name p) #
     map (\<lambda>(j, a). Insert_Action k (p_name p) j a) (enumerate 0 (p_actions p))"

definition first_pass :: "pg_env \<Rightarrow> identity \<Rightarrow> stmt list" where
  "first_pass env i =
     Upsert_Identity (i_id i) (row_of_identity env i) # Clear_Permissions (i_id i) #
     concat (map (permission_stmts (i_id i)) (i_permissions i))"

definition second_pass :: "identity \<Rightarrow> stmt list" where
  "second_pass i =
     Clear_Chain (i_id i) # map (\<lambda>(j, p). Insert_Principal (i_id i) j p) (enumerate 0 (i_on_behalf_of i)) @
     Clear_Models (i_id i) # map (\<lambda>(j, m). Insert_Model (i_id i) j m) (enumerate 0 (i_models i))"

definition pg_ingest_identities :: "pg_env \<Rightarrow> identity list \<Rightarrow> pg \<Rightarrow> pg_error option \<times> pg" where
  "pg_ingest_identities env ids =
     transaction env (concat (map (first_pass env) ids) @ concat (map second_pass ids))"

text \<open>\<^verbatim>\<open>now()\<close> is the time the transaction began.\<close>

definition save_remediations :: "pg_env \<Rightarrow> int \<Rightarrow> recommendation list \<Rightarrow> pg \<Rightarrow> pg_error option \<times> pg" where
  "save_remediations env t recs db =
     (if recs = [] then (None, db)
      else transaction env
        (map (\<lambda>r. Upsert_Remediation (rc_identity r) (rc_kind r)
                    \<lparr>rr_explanation = rc_explanation r, rr_code = rc_code r, rr_created = t\<rparr>) recs) db)"

section \<open>Reading\<close>

definition time_of_null :: "int option \<Rightarrow> int" where
  "time_of_null t = (case t of None \<Rightarrow> zero_time | Some u \<Rightarrow> u)"

definition identity_of_row :: "string \<Rightarrow> identity_row \<Rightarrow> identity" where
  "identity_of_row k r =
     \<lparr>i_id = k, i_type = ir_type r, i_privileged = ir_privileged r, i_events = [], i_source = ir_source r,
      i_owner = ir_owner r, i_created = time_of_null (ir_created r), i_last_used = time_of_null (ir_last_used r),
      i_permissions = [], i_runtime = ir_runtime r, i_on_behalf_of = [], i_parent = ir_parent r,
      i_attestation = ir_attestation r, i_models = [], i_shadow = ir_shadow r\<rparr>"

definition event_of_row :: "pg_env \<Rightarrow> event_row \<Rightarrow> event" where
  "event_of_row env r =
     \<lparr>e_time = er_ts r, e_zone = pe_zone env, e_identity = er_identity r, e_type = er_type r, e_outcome = er_outcome r,
      e_ip = er_ip r, e_city = er_city r, e_country = er_country r, e_lat = er_lat r, e_lon = er_lon r,
      e_device = er_device r, e_resource = er_resource r, e_severity = er_severity r, e_source = []\<rparr>"

definition actions_of :: "pg_env \<Rightarrow> pg \<Rightarrow> string \<Rightarrow> string \<Rightarrow> string list" where
  "actions_of env db k n =
     map snd (filter (\<lambda>((i, m, j), a). (i, m) = (k, n))
       (sort_key (\<lambda>((i, m, j), a). pe_collate env i) (sort_key (\<lambda>((i, m, j), a). pe_collate env m)
         (sort_key (\<lambda>((i, m, j), a). j) (t_actions db)))))"

definition permission_of_row :: "pg_env \<Rightarrow> pg \<Rightarrow> string \<Rightarrow> string \<Rightarrow> permission_row \<Rightarrow> permission" where
  "permission_of_row env db k n r =
     \<lparr>p_name = n, p_admin = pr_admin r, p_used = pr_used r, p_actions = actions_of env db k n, p_arn = pr_arn r\<rparr>"

text \<open>\<^verbatim>\<open>ensure\<close>, then a change to the identity through the pointer.\<close>

definition attach :: "(identity \<Rightarrow> identity) \<Rightarrow> string \<Rightarrow> store \<Rightarrow> store" where
  "attach f k g = put k (f (ensure g k)) g"

definition by_key :: "pg_env \<Rightarrow> ((string \<times> nat) \<times> 'v) list \<Rightarrow> ((string \<times> nat) \<times> 'v) list" where
  "by_key env rows = sort_key (\<lambda>((i, j), v). pe_collate env i) (sort_key (\<lambda>((i, j), v). j) rows)"

definition ordered_events :: "pg_env \<Rightarrow> event_row list \<Rightarrow> event_row list" where
  "ordered_events env rows = sort_key (\<lambda>r. pe_collate env (er_identity r)) (sort_key er_ts rows)"

definition read_graph :: "pg_env \<Rightarrow> pg \<Rightarrow> store" where
  "read_graph env db =
     (let privileged = map fst (filter (\<lambda>(k, r). ir_privileged r) (pe_identity_order env (t_identities db)));
          g = new_store privileged;
          g = fold (\<lambda>(k, r). add_identity (identity_of_row k r)) (pe_identity_order env (t_identities db)) g;
          g = fold (\<lambda>((k, j), p). attach (\<lambda>i. i\<lparr>i_on_behalf_of := i_on_behalf_of i @ [p]\<rparr>) k) (by_key env (t_chain db)) g;
          g = fold (\<lambda>((k, j), m). attach (\<lambda>i. i\<lparr>i_models := i_models i @ [m]\<rparr>) k) (by_key env (t_models db)) g;
          g = fold (\<lambda>((k, n), r). attach (\<lambda>i. i\<lparr>i_permissions := i_permissions i @ [permission_of_row env db k n r]\<rparr>) k)
                (pe_permission_order env (t_permissions db)) g
      in fold (\<lambda>r. add_event (event_of_row env r)) (ordered_events env (t_events db)) g)"

text \<open>Seven queries, and an error as soon as one of them fails.\<close>

definition pg_snapshot :: "pg_env \<Rightarrow> pg \<Rightarrow> pg_error + store" where
  "pg_snapshot env db =
     (case filter (pe_fails env) [0..<7] of n # ns \<Rightarrow> Inl (Lost_Connection n) | [] \<Rightarrow> Inr (read_graph env db))"

record stored_remediation =
  sr_recommendation :: recommendation
  sr_created :: int

definition remediation_records :: "pg_env \<Rightarrow> pg \<Rightarrow> pg_error + stored_remediation list" where
  "remediation_records env db =
     (if pe_fails env 0 then Inl (Lost_Connection 0)
      else Inr (map (\<lambda>((k, n), r). \<lparr>sr_recommendation = \<lparr>rc_identity = k, rc_kind = n, rc_explanation = rr_explanation r, rc_code = rr_code r\<rparr>,
                                     sr_created = rr_created r\<rparr>)
             (sort_key (\<lambda>((k, n), r). pe_collate env k) (sort_key (\<lambda>((k, n), r). pe_collate env n) (t_remediations db)))))"

definition pg_remediations :: "pg_env \<Rightarrow> pg \<Rightarrow> pg_error + recommendation list" where
  "pg_remediations env db = map_sum id (map sr_recommendation) (remediation_records env db)"

end
