(* ===== verification/Pg_Facts.thy ===== *)
theory Pg_Facts
  imports Pg_Store
begin

text \<open>
  What the statements of the Postgres backend do to the tables: the integrity the schema promises, the
  closed forms of the transactions, and the rows a snapshot reads for one identity.
\<close>

section \<open>Integrity\<close>

definition keys :: "('k \<times> 'v) list \<Rightarrow> 'k set" where
  "keys rows = fst ` set rows"

definition refs :: "(('k \<times> 'n) \<times> 'v) list \<Rightarrow> 'k set" where
  "refs rows = fst ` fst ` set rows"

definition owners :: "((string \<times> string \<times> nat) \<times> string) list \<Rightarrow> (string \<times> string) set" where
  "owners rows = (\<lambda>x. (fst (fst x), fst (snd (fst x)))) ` set rows"

definition pg_ok :: "pg \<Rightarrow> bool" where
  "pg_ok db \<longleftrightarrow>
     distinct (map fst (t_identities db)) \<and> distinct (map fst (t_chain db)) \<and> distinct (map fst (t_models db))
     \<and> distinct (map fst (t_permissions db)) \<and> distinct (map fst (t_actions db)) \<and> distinct (map fst (t_remediations db))
     \<and> distinct (t_events db)
     \<and> er_identity ` set (t_events db) \<subseteq> keys (t_identities db)
     \<and> refs (t_chain db) \<subseteq> keys (t_identities db) \<and> refs (t_models db) \<subseteq> keys (t_identities db)
     \<and> refs (t_permissions db) \<subseteq> keys (t_identities db) \<and> owners (t_actions db) \<subseteq> keys (t_permissions db)"

lemma empty_pg_ok: "pg_ok empty_pg"
  by (simp add: pg_ok_def empty_pg_def keys_def refs_def owners_def)

lemma insert_new_Some: "insert_new k v rows = Some rows' \<longleftrightarrow> k \<notin> keys rows \<and> rows' = rows @ [(k, v)]"
  by (auto simp: insert_new_def keys_def)

lemma keys_update [simp]: "keys (AList.update k v rows) = insert k (keys rows)"
  by (simp add: keys_def dom_update)

lemma refs_keys: "refs rows = fst ` keys rows"
  by (simp add: refs_def keys_def)

lemma keys_simps [simp]:
  "keys (rows @ [(k, v)]) = insert k (keys rows)"
  "refs (AList.update (a, b) w srows) = insert a (refs srows)"
  "refs (trows @ [((a, b), w)]) = insert a (refs trows)"
  "owners (as @ [((c, d, j), x)]) = insert (c, d) (owners as)"
  by (simp_all add: refs_keys) (simp_all add: keys_def owners_def)

lemma refs_filter: "refs rows \<subseteq> A \<Longrightarrow> refs (filter P rows) \<subseteq> A"
  by (auto simp: refs_def)

lemma owners_filter: "owners rows \<subseteq> A \<Longrightarrow> owners (filter P rows) \<subseteq> A"
  by (auto simp: owners_def)

lemma distinct_filter_keys: "distinct (map fst rows) \<Longrightarrow> distinct (map fst (filter P rows))"
  by (rule distinct_map_filter)

lemma distinct_append_key: "distinct (map fst rows) \<Longrightarrow> k \<notin> keys rows \<Longrightarrow> distinct (map fst (rows @ [(k, v)]))"
  by (auto simp: keys_def)

lemma known_keys: "known_identity db k \<longleftrightarrow> k \<in> keys (t_identities db)"
  by (simp add: known_identity_def keys_def)

lemma exec_known:
  "exec s db = Some db' \<Longrightarrow> keys (t_identities db) \<subseteq> keys (t_identities db')"
  by (cases s) (auto simp: Let_def split: if_splits)

lemma owners_clear:
  assumes "owners as \<subseteq> keys ps"
  shows "owners (filter (\<lambda>((i, n, j), a). i \<noteq> k) as) \<subseteq> keys (filter (\<lambda>((i, n), p). i \<noteq> k) ps)"
proof
  fix x assume "x \<in> owners (filter (\<lambda>((i, n, j), a). i \<noteq> k) as)"
  then have "x \<in> owners as" "fst x \<noteq> k" by (auto simp: owners_def intro: rev_image_eqI)
  moreover from this assms obtain p where "(x, p) \<in> set ps" by (auto simp: keys_def)
  ultimately show "x \<in> keys (filter (\<lambda>((i, n), p). i \<noteq> k) ps)" unfolding keys_def by force
qed

lemma exec_ok:
  assumes ok: "pg_ok db" and "exec s db = Some db'"
  shows "pg_ok db'"
proof (cases s)
  case (Upsert_Seen k p)
  with assms show ?thesis unfolding pg_ok_def by (simp add: Let_def distinct_update subset_insertI2) (elim conjE; hypsubst; simp add: distinct_update subset_insertI2)
next
  case (Upsert_Identity k r)
  with assms show ?thesis unfolding pg_ok_def by (simp add: Let_def distinct_update subset_insertI2) (elim conjE; hypsubst; simp add: distinct_update subset_insertI2)
next
  case (Insert_Event r)
  with assms(2) have "er_identity r \<in> keys (t_identities db)"
    and "db' = db \<or> r \<notin> set (t_events db) \<and> db' = db\<lparr>t_events := t_events db @ [r]\<rparr>"
    by (auto simp: known_keys split: if_splits)
  with ok show ?thesis unfolding pg_ok_def by (elim disjE conjE; hypsubst; simp)
next
  case (Clear_Permissions k)
  with assms show ?thesis unfolding pg_ok_def
    by (simp del: set_filter) (elim conjE; hypsubst; simp add: distinct_filter_keys refs_filter owners_clear)
next
  case (Upsert_Permission k n p)
  with assms(2) have "k \<in> keys (t_identities db)" and d: "db' = db\<lparr>t_permissions := AList.update (k, n) p (t_permissions db)\<rparr>"
    by (auto simp: insert_new_Some known_keys simp flip: keys_def split: if_splits)
  with ok show ?thesis unfolding pg_ok_def d by (simp add: distinct_update subset_insertI2)
next
  case (Clear_Actions k n)
  with assms show ?thesis unfolding pg_ok_def
    by (simp del: set_filter) (elim conjE; hypsubst; simp add: distinct_filter_keys owners_filter)
next
  case (Insert_Action k n j a)
  with assms(2) have "(k, n) \<in> keys (t_permissions db) \<and> (k, n, j) \<notin> keys (t_actions db)" and d: "db' = db\<lparr>t_actions := t_actions db @ [((k, n, j), a)]\<rparr>"
    by (auto simp: insert_new_Some known_keys simp flip: keys_def split: if_splits)
  with ok show ?thesis unfolding pg_ok_def d by (simp add: distinct_append_key del: map_append distinct_append)
next
  case (Clear_Chain k)
  with assms show ?thesis unfolding pg_ok_def
    by simp (elim conjE; hypsubst; simp add: distinct_filter_keys refs_filter)
next
  case (Insert_Principal k j p)
  with assms(2) have "k \<in> keys (t_identities db) \<and> (k, j) \<notin> keys (t_chain db)" and d: "db' = db\<lparr>t_chain := t_chain db @ [((k, j), p)]\<rparr>"
    by (auto simp: insert_new_Some known_keys simp flip: keys_def split: if_splits)
  with ok show ?thesis unfolding pg_ok_def d by (simp add: distinct_append_key del: map_append distinct_append)
next
  case (Clear_Models k)
  with assms show ?thesis unfolding pg_ok_def
    by simp (elim conjE; hypsubst; simp add: distinct_filter_keys refs_filter)
next
  case (Insert_Model k j m)
  with assms(2) have "k \<in> keys (t_identities db) \<and> (k, j) \<notin> keys (t_models db)" and d: "db' = db\<lparr>t_models := t_models db @ [((k, j), m)]\<rparr>"
    by (auto simp: insert_new_Some known_keys simp flip: keys_def split: if_splits)
  with ok show ?thesis unfolding pg_ok_def d by (simp add: distinct_append_key del: map_append distinct_append)
next
  case (Upsert_Remediation k n r)
  with assms show ?thesis unfolding pg_ok_def by simp (elim conjE; hypsubst; simp add: distinct_update)
qed

section \<open>Running statements\<close>

fun run_stmts :: "stmt list \<Rightarrow> pg \<Rightarrow> pg option" where
  "run_stmts [] db = Some db"
| "run_stmts (s # ss) db = (case exec s db of None \<Rightarrow> None | Some db' \<Rightarrow> run_stmts ss db')"

lemma run_append: "run_stmts (ss @ ss') db = (case run_stmts ss db of None \<Rightarrow> None | Some db' \<Rightarrow> run_stmts ss' db')"
  by (induction ss arbitrary: db) (auto split: option.split)

lemma run_ok: "pg_ok db \<Longrightarrow> run_stmts ss db = Some db' \<Longrightarrow> pg_ok db'"
  by (induction ss arbitrary: db) (auto split: option.splits dest: exec_ok)

lemma exec_all_run:
  assumes "run_stmts ss db = Some db'"
  shows "(\<forall>j < length ss. \<not> fails (n + j)) \<and> exec_all fails n ss db = Inr db'
    \<or> (\<exists>j < length ss. fails (n + j) \<and> exec_all fails n ss db = Inl (Lost_Connection (n + j)))"
  using assms
proof (induction ss arbitrary: n db)
  case (Cons s ss)
  then obtain db1 where e: "exec s db = Some db1" and r: "run_stmts ss db1 = Some db'"
    by (auto split: option.splits)
  show ?case
  proof (cases "fails n")
    case True
    then have "\<exists>j < length (s # ss). fails (n + j) \<and> exec_all fails n (s # ss) db = Inl (Lost_Connection (n + j))"
      by (intro exI [of _ 0]) simp
    then show ?thesis by blast
  next
    case False
    from Cons.IH [OF r, of "Suc n"] show ?thesis
    proof
      assume "(\<forall>j < length ss. \<not> fails (Suc n + j)) \<and> exec_all fails (Suc n) ss db1 = Inr db'"
      with False e show ?thesis by (auto simp: less_Suc_eq_0_disj)
    next
      assume "\<exists>j < length ss. fails (Suc n + j) \<and> exec_all fails (Suc n) ss db1 = Inl (Lost_Connection (Suc n + j))"
      then obtain j where "j < length ss" "fails (Suc n + j)" "exec_all fails (Suc n) ss db1 = Inl (Lost_Connection (Suc n + j))"
        by blast
      with False e have "\<exists>j < length (s # ss). fails (n + j) \<and> exec_all fails n (s # ss) db = Inl (Lost_Connection (n + j))"
        by (intro exI [of _ "Suc j"]) simp
      then show ?thesis by blast
    qed
  qed
qed simp

text \<open>A transaction whose statements are all accepted is done, or not, and says which unless the commit was lost.\<close>

lemma transaction_run:
  assumes "run_stmts ss db = Some db'"
  shows "transaction env ss db = (None, db') \<and> (\<forall>n \<le> Suc (length ss). \<not> pe_fails env n)
    \<or> (\<exists>n \<le> Suc (length ss). pe_fails env n \<and> transaction env ss db =
         (Some (Lost_Connection n), if n = Suc (length ss) \<and> pe_commit_reached env then db' else db))"
proof (cases "pe_fails env 0")
  case True
  then have "\<exists>n \<le> Suc (length ss). pe_fails env n \<and> transaction env ss db =
         (Some (Lost_Connection n), if n = Suc (length ss) \<and> pe_commit_reached env then db' else db)"
    by (intro exI [of _ 0]) (simp add: transaction_def)
  then show ?thesis by blast
next
  case False
  from exec_all_run [OF assms, of "pe_fails env" 1] show ?thesis
  proof
    assume ok: "(\<forall>j < length ss. \<not> pe_fails env (1 + j)) \<and> exec_all (pe_fails env) 1 ss db = Inr db'"
    have "\<not> pe_fails env n" if "n \<le> length ss" for n
      using ok False that by (cases n) auto
    with ok False show ?thesis by (cases "pe_fails env (Suc (length ss))") (auto simp: transaction_def le_Suc_eq)
  next
    assume "\<exists>j < length ss. pe_fails env (1 + j) \<and> exec_all (pe_fails env) 1 ss db = Inl (Lost_Connection (1 + j))"
    then obtain j where "j < length ss" "pe_fails env (1 + j)" "exec_all (pe_fails env) 1 ss db = Inl (Lost_Connection (1 + j))"
      by blast
    with False have "\<exists>n \<le> Suc (length ss). pe_fails env n \<and> transaction env ss db =
         (Some (Lost_Connection n), if n = Suc (length ss) \<and> pe_commit_reached env then db' else db)"
      by (intro exI [of _ "Suc j"]) (simp add: transaction_def)
    then show ?thesis by blast
  qed
qed

section \<open>Closed forms of the writes\<close>

definition row_of_permission :: "permission \<Rightarrow> permission_row" where
  "row_of_permission p = \<lparr>pr_admin = p_admin p, pr_used = p_used p, pr_arn = p_arn p\<rparr>"

definition action_rows :: "string \<Rightarrow> permission \<Rightarrow> ((string \<times> string \<times> nat) \<times> string) list" where
  "action_rows k p = map (\<lambda>(j, a). ((k, p_name p, j), a)) (enumerate 0 (p_actions p))"

definition put_permission :: "string \<Rightarrow> permission \<Rightarrow> pg \<Rightarrow> pg" where
  "put_permission k p db =
     db\<lparr>t_permissions := AList.update (k, p_name p) (row_of_permission p) (t_permissions db),
        t_actions := filter (\<lambda>((i, m, j), a). (i, m) \<noteq> (k, p_name p)) (t_actions db) @ action_rows k p\<rparr>"

definition upserted :: "pg_env \<Rightarrow> identity \<Rightarrow> pg \<Rightarrow> pg" where
  "upserted env i db =
     db\<lparr>t_identities := AList.update (i_id i)
          (case map_of (t_identities db) (i_id i) of None \<Rightarrow> row_of_identity env i | Some old \<Rightarrow> merge_row (row_of_identity env i) old)
          (t_identities db),
        t_permissions := filter (\<lambda>((k, n), p). k \<noteq> i_id i) (t_permissions db),
        t_actions := filter (\<lambda>((k, n, j), a). k \<noteq> i_id i) (t_actions db)\<rparr>"

definition put_first :: "pg_env \<Rightarrow> identity \<Rightarrow> pg \<Rightarrow> pg" where
  "put_first env i db = fold (put_permission (i_id i)) (i_permissions i) (upserted env i db)"

definition put_second :: "identity \<Rightarrow> pg \<Rightarrow> pg" where
  "put_second i db =
     db\<lparr>t_chain := filter (\<lambda>((k, j), p). k \<noteq> i_id i) (t_chain db) @
          map (\<lambda>(j, p). ((i_id i, j), p)) (enumerate 0 (i_on_behalf_of i)),
        t_models := filter (\<lambda>((k, j), m). k \<noteq> i_id i) (t_models db) @
          map (\<lambda>(j, m). ((i_id i, j), m)) (enumerate 0 (i_models i))\<rparr>"

definition put_identities :: "pg_env \<Rightarrow> identity list \<Rightarrow> pg \<Rightarrow> pg" where
  "put_identities env ids db = fold put_second ids (fold (put_first env) ids db)"

lemma run_actions:
  assumes "(k, n) \<in> keys (t_permissions db)" "\<And>j. n0 \<le> j \<Longrightarrow> (k, n, j) \<notin> keys (t_actions db)"
  shows "run_stmts (map (\<lambda>(j, a). Insert_Action k n j a) (enumerate n0 as)) db =
    Some (db\<lparr>t_actions := t_actions db @ map (\<lambda>(j, a). ((k, n, j), a)) (enumerate n0 as)\<rparr>)"
  using assms
proof (induction as arbitrary: db n0)
  case (Cons a as)
  let ?db = "db\<lparr>t_actions := t_actions db @ [((k, n, n0), a)]\<rparr>"
  have "exec (Insert_Action k n n0 a) db = Some ?db"
    using Cons.prems by (simp add: insert_new_Some flip: keys_def)
  moreover have "run_stmts (map (\<lambda>(j, a). Insert_Action k n j a) (enumerate (Suc n0) as)) ?db =
    Some (?db\<lparr>t_actions := t_actions ?db @ map (\<lambda>(j, a). ((k, n, j), a)) (enumerate (Suc n0) as)\<rparr>)"
    using Cons.prems by (intro Cons.IH) auto
  ultimately show ?case by simp
qed simp

lemma run_permission:
  assumes "known_identity db k"
  shows "run_stmts (permission_stmts k p) db = Some (put_permission k p db)"
proof -
  let ?db = "db\<lparr>t_permissions := AList.update (k, p_name p) (row_of_permission p) (t_permissions db),
        t_actions := filter (\<lambda>((i, m, j), a). (i, m) \<noteq> (k, p_name p)) (t_actions db)\<rparr>"
  have "run_stmts (map (\<lambda>(j, a). Insert_Action k (p_name p) j a) (enumerate 0 (p_actions p))) ?db =
    Some (?db\<lparr>t_actions := t_actions ?db @ action_rows k p\<rparr>)"
    unfolding action_rows_def by (rule run_actions) (auto simp: keys_def dom_update)
  with assms show ?thesis by (simp add: permission_stmts_def put_permission_def row_of_permission_def)
qed

lemma run_permissions:
  "known_identity db k \<Longrightarrow> run_stmts (concat (map (permission_stmts k) ps)) db = Some (fold (put_permission k) ps db)"
proof (induction ps arbitrary: db)
  case (Cons p ps)
  have "known_identity (put_permission k p db) k" using Cons.prems by (simp add: known_identity_def put_permission_def)
  with Cons show ?case by (simp add: run_append run_permission)
qed simp

lemma run_first_pass: "run_stmts (first_pass env i) db = Some (put_first env i db)"
proof -
  have "known_identity (upserted env i db) (i_id i)" by (simp add: known_identity_def upserted_def dom_update)
  then show ?thesis
    by (simp add: first_pass_def put_first_def upserted_def [symmetric] Let_def run_permissions)
qed

lemma run_chain:
  assumes "known_identity db k" "\<And>j. n0 \<le> j \<Longrightarrow> (k, j) \<notin> keys (t_chain db)"
  shows "run_stmts (map (\<lambda>(j, p). Insert_Principal k j p) (enumerate n0 ps)) db =
    Some (db\<lparr>t_chain := t_chain db @ map (\<lambda>(j, p). ((k, j), p)) (enumerate n0 ps)\<rparr>)"
  using assms
proof (induction ps arbitrary: db n0)
  case (Cons p ps)
  let ?db = "db\<lparr>t_chain := t_chain db @ [((k, n0), p)]\<rparr>"
  have "exec (Insert_Principal k n0 p) db = Some ?db" using Cons.prems by (simp add: insert_new_Some)
  moreover have "run_stmts (map (\<lambda>(j, p). Insert_Principal k j p) (enumerate (Suc n0) ps)) ?db =
    Some (?db\<lparr>t_chain := t_chain ?db @ map (\<lambda>(j, p). ((k, j), p)) (enumerate (Suc n0) ps)\<rparr>)"
    using Cons.prems by (intro Cons.IH) (auto simp: known_identity_def)
  ultimately show ?case by simp
qed simp

lemma run_models:
  assumes "known_identity db k" "\<And>j. n0 \<le> j \<Longrightarrow> (k, j) \<notin> keys (t_models db)"
  shows "run_stmts (map (\<lambda>(j, m). Insert_Model k j m) (enumerate n0 ms)) db =
    Some (db\<lparr>t_models := t_models db @ map (\<lambda>(j, m). ((k, j), m)) (enumerate n0 ms)\<rparr>)"
  using assms
proof (induction ms arbitrary: db n0)
  case (Cons m ms)
  let ?db = "db\<lparr>t_models := t_models db @ [((k, n0), m)]\<rparr>"
  have "exec (Insert_Model k n0 m) db = Some ?db" using Cons.prems by (simp add: insert_new_Some)
  moreover have "run_stmts (map (\<lambda>(j, m). Insert_Model k j m) (enumerate (Suc n0) ms)) ?db =
    Some (?db\<lparr>t_models := t_models ?db @ map (\<lambda>(j, m). ((k, j), m)) (enumerate (Suc n0) ms)\<rparr>)"
    using Cons.prems by (intro Cons.IH) (auto simp: known_identity_def)
  ultimately show ?case by simp
qed simp

lemma run_second_pass:
  assumes "known_identity db (i_id i)"
  shows "run_stmts (second_pass i) db = Some (put_second i db)"
proof -
  let ?db = "db\<lparr>t_chain := filter (\<lambda>((k, j), p). k \<noteq> i_id i) (t_chain db)\<rparr>"
  let ?ch = "map (\<lambda>(j, p). ((i_id i, j), p)) (enumerate 0 (i_on_behalf_of i))"
  let ?db1 = "?db\<lparr>t_chain := t_chain ?db @ ?ch\<rparr>"
  let ?db2 = "?db1\<lparr>t_models := filter (\<lambda>((k, j), m). k \<noteq> i_id i) (t_models db)\<rparr>"
  have "run_stmts (map (\<lambda>(j, p). Insert_Principal (i_id i) j p) (enumerate 0 (i_on_behalf_of i))) ?db = Some ?db1"
    using assms by (intro run_chain) (auto simp: known_identity_def keys_def)
  moreover have "run_stmts (map (\<lambda>(j, m). Insert_Model (i_id i) j m) (enumerate 0 (i_models i))) ?db2 =
      Some (?db2\<lparr>t_models := t_models ?db2 @ map (\<lambda>(j, m). ((i_id i, j), m)) (enumerate 0 (i_models i))\<rparr>)"
    using assms by (intro run_models) (auto simp: known_identity_def keys_def)
  ultimately show ?thesis by (simp add: second_pass_def put_second_def run_append)
qed

lemma known_permissions: "t_identities (fold (put_permission k) ps db) = t_identities db"
  by (induction ps arbitrary: db) (simp_all add: put_permission_def)

lemma known_first: "keys (t_identities (put_first env i db)) = insert (i_id i) (keys (t_identities db))"
  by (simp add: put_first_def known_permissions upserted_def)

lemma run_identities:
  "run_stmts (concat (map (first_pass env) ids) @ concat (map second_pass ids)) db = Some (put_identities env ids db)"
proof -
  have one: "run_stmts (concat (map (first_pass env) js)) db = Some (fold (put_first env) js db)" for js db
    by (induction js arbitrary: db) (simp_all add: run_append run_first_pass)
  have two: "run_stmts (concat (map second_pass js)) db = Some (fold put_second js db)"
    if "i_id ` set js \<subseteq> keys (t_identities db)" for js db
    using that
  proof (induction js arbitrary: db)
    case (Cons j js)
    then have "run_stmts (second_pass j) db = Some (put_second j db)" by (intro run_second_pass) (simp add: known_keys)
    moreover have "t_identities (put_second j db) = t_identities db" by (simp add: put_second_def)
    ultimately show ?case using Cons by (simp add: run_append)
  qed simp
  have "keys (t_identities (fold (put_first env) js db)) = i_id ` set js \<union> keys (t_identities db)" for js db
    by (induction js arbitrary: db) (auto simp: known_first)
  then show ?thesis by (simp add: run_append one two put_identities_def)
qed

section \<open>Events\<close>

definition record_event :: "pg_env \<Rightarrow> string list \<Rightarrow> event \<Rightarrow> pg \<Rightarrow> pg" where
  "record_event env ps e db =
     (let k = e_identity e; r = row_of_event env e;
          row = (case map_of (t_identities db) k of
              None \<Rightarrow> blank_row\<lparr>ir_privileged := k \<in> set ps\<rparr>
            | Some old \<Rightarrow> old\<lparr>ir_privileged := ir_privileged old \<or> k \<in> set ps\<rparr>)
      in db\<lparr>t_identities := AList.update k row (t_identities db),
            t_events := (if r \<in> set (t_events db) then t_events db else t_events db @ [r])\<rparr>)"

definition flagged :: "string list \<Rightarrow> string list \<Rightarrow> pg \<Rightarrow> bool" where
  "flagged ps seen db \<longleftrightarrow>
     (\<forall>k \<in> set seen. \<exists>row. map_of (t_identities db) k = Some row \<and> (k \<in> set ps \<longrightarrow> ir_privileged row))"

lemma flagged_record: "flagged ps seen db \<Longrightarrow> flagged ps (e_identity e # seen) (record_event env ps e db)"
  by (auto simp: flagged_def record_event_def Let_def update_conv' split: option.split)

lemma row_identity [simp]: "er_identity (row_of_event env e) = e_identity e"
  by (simp add: row_of_event_def)

lemma record_flagged:
  assumes "flagged ps seen db" "e_identity e \<in> set seen"
  shows "exec (Insert_Event (row_of_event env e)) db = Some (record_event env ps e db)"
proof -
  obtain row where row: "map_of (t_identities db) (e_identity e) = Some row" "e_identity e \<in> set ps \<longrightarrow> ir_privileged row"
    using assms unfolding flagged_def by blast
  then have same: "row\<lparr>ir_privileged := ir_privileged row \<or> e_identity e \<in> set ps\<rparr> = row" by auto
  have "known_identity db (e_identity e)" using row(1) map_of_SomeD by (force simp: known_identity_def)
  with row same show ?thesis by (simp add: record_event_def Let_def update_same)
qed

lemma run_ingest:
  "flagged ps seen db \<Longrightarrow> run_stmts (ingest_stmts env ps seen es) db = Some (fold (record_event env ps) es db)"
proof (induction es arbitrary: seen db)
  case (Cons e es)
  show ?case
  proof (cases "e_identity e \<in> set seen")
    case True
    have "flagged ps seen (record_event env ps e db)"
      using flagged_record [OF Cons.prems] by (simp add: flagged_def)
    from Cons.IH [OF this] True record_flagged [OF Cons.prems True] show ?thesis by (simp add: Let_def)
  next
    case False
    have "run_stmts [Upsert_Seen (e_identity e) (e_identity e \<in> set ps), Insert_Event (row_of_event env e)] db =
        Some (record_event env ps e db)"
      by (simp add: record_event_def Let_def known_identity_def dom_update)
    moreover have "ingest_stmts env ps seen (e # es) =
        [Upsert_Seen (e_identity e) (e_identity e \<in> set ps), Insert_Event (row_of_event env e)] @
        ingest_stmts env ps (e_identity e # seen) es"
      using False by (simp add: Let_def)
    ultimately show ?thesis using Cons.IH [OF flagged_record [OF Cons.prems]]
      by (simp only: run_append option.case fold.simps comp_apply)
  qed
qed simp

lemma run_ingest_all: "run_stmts (ingest_stmts env ps [] es) db = Some (fold (record_event env ps) es db)"
  by (rule run_ingest) (simp add: flagged_def)

lemma run_remediations:
  "run_stmts (map (\<lambda>r. Upsert_Remediation (kf r) (nf r) (vf r)) recs) db =
    Some (db\<lparr>t_remediations := fold (\<lambda>r. AList.update (kf r, nf r) (vf r)) recs (t_remediations db)\<rparr>)"
  by (induction recs arbitrary: db) simp_all

end
