(* ===== verification/Pg_Snapshot.thy ===== *)
theory Pg_Snapshot
  imports Pg_Facts
begin

text \<open>
  What a snapshot of the database gives: for every identity of the tables the identity of its row, with the
  chain, the declared models and the actions in their positions, its grants and its events.
\<close>

section \<open>Rows of one identity\<close>

lemma sort_key_same: "(\<And>x. x \<in> set xs \<Longrightarrow> f x = c) \<Longrightarrow> sort_key f xs = xs"
  by (induction xs) (auto simp: insort_is_Cons)

definition chain_in :: "pg \<Rightarrow> string \<Rightarrow> string list" where
  "chain_in db k = map snd (sort_key (\<lambda>((i, j), p). j) (filter (\<lambda>((i, j), p). i = k) (t_chain db)))"

definition models_in :: "pg \<Rightarrow> string \<Rightarrow> declared_model list" where
  "models_in db k = map snd (sort_key (\<lambda>((i, j), m). j) (filter (\<lambda>((i, j), m). i = k) (t_models db)))"

definition actions_in :: "pg \<Rightarrow> string \<Rightarrow> string \<Rightarrow> string list" where
  "actions_in db k n = map snd (sort_key (\<lambda>((i, m, j), a). j) (filter (\<lambda>((i, m, j), a). (i, m) = (k, n)) (t_actions db)))"

definition permissions_in :: "pg \<Rightarrow> ((string \<times> string) \<times> permission_row) list \<Rightarrow> string \<Rightarrow> permission list" where
  "permissions_in db rows k =
     map (\<lambda>((i, n), r). \<lparr>p_name = n, p_admin = pr_admin r, p_used = pr_used r, p_actions = actions_in db k n, p_arn = pr_arn r\<rparr>)
       (filter (\<lambda>((i, n), r). i = k) rows)"

definition events_in :: "pg_env \<Rightarrow> event_row list \<Rightarrow> string \<Rightarrow> event list" where
  "events_in env rows k = map (event_of_row env) (filter (\<lambda>r. er_identity r = k) rows)"

definition base :: "string \<Rightarrow> identity_row \<Rightarrow> identity" where
  "base k r = merge_identity (identity_of_row k r) (new_identity k (ir_privileged r))"

definition view :: "pg_env \<Rightarrow> pg \<Rightarrow> string \<Rightarrow> identity option" where
  "view env db k =
     map_option (\<lambda>r. (base k r)\<lparr>i_on_behalf_of := chain_in db k, i_models := models_in db k,
         i_permissions := permissions_in db (t_permissions db) k, i_events := events_in env (t_events db) k\<rparr>)
       (map_of (t_identities db) k)"

lemma actions_of_in: "actions_of env db k n = actions_in db k n"
proof -
  let ?P = "\<lambda>((i, m, j), a :: string). (i, m) = (k, n)"
  have "filter ?P (sort_key (\<lambda>((i, m, j), a). pe_collate env i) (sort_key (\<lambda>((i, m, j), a). pe_collate env m)
         (sort_key (\<lambda>((i, m, j), a). j) (t_actions db))))
     = sort_key (\<lambda>((i, m, j), a). j) (filter ?P (t_actions db))"
    unfolding filter_sort
    by (subst sort_key_same [where c = "pe_collate env k"], force,
        subst sort_key_same [where c = "pe_collate env n"], force, rule refl)
  then show ?thesis by (simp add: actions_of_def actions_in_def)
qed

lemma by_key_filter:
  "filter (\<lambda>((i, j), v). i = k) (by_key env rows) = sort_key (\<lambda>((i, j), v). j) (filter (\<lambda>((i, j), v). i = k) rows)"
  unfolding by_key_def filter_sort by (rule sort_key_same [where c = "pe_collate env k"]) force

lemma ordered_events_filter:
  "filter (\<lambda>r. er_identity r = k) (ordered_events env rows) = sort_key er_ts (filter (\<lambda>r. er_identity r = k) rows)"
  unfolding ordered_events_def filter_sort by (rule sort_key_same [where c = "pe_collate env k"]) simp

section \<open>Attaching rows\<close>

lemma lookup_attach: "lookup (attach f k g) k' = (if k' = k then Some (f (ensure g k)) else lookup g k')"
  by (simp add: attach_def lookup_put)

lemma attach_privileged [simp]: "s_privileged (attach f k g) = s_privileged g" "s_seen (attach f k g) = s_seen g"
  by (simp_all add: attach_def put_def)

lemma lookup_attach_all:
  assumes "\<And>x. x \<in> set rows \<Longrightarrow> lookup g (key x) \<noteq> None"
  shows "lookup (fold (\<lambda>x. attach (f x) (key x)) rows g) k = map_option (fold f (filter (\<lambda>x. key x = k) rows)) (lookup g k)"
  using assms
proof (induction rows arbitrary: g)
  case (Cons x rows)
  let ?g = "attach (f x) (key x) g"
  have "lookup ?g (key y) \<noteq> None" if "y \<in> set rows" for y
    using Cons.prems that by (auto simp: lookup_attach)
  then have "lookup (fold (\<lambda>x. attach (f x) (key x)) rows ?g) k = map_option (fold f (filter (\<lambda>x. key x = k) rows)) (lookup ?g k)"
    by (rule Cons.IH)
  moreover obtain i where "lookup g (key x) = Some i" using Cons.prems [of x] by auto
  ultimately show ?case by (simp add: lookup_attach ensure_def)
qed (simp add: option.map_id0 [unfolded id_def] id_def [symmetric] option.map_id)

lemma attach_all_fields [simp]:
  "s_privileged (fold (\<lambda>x. attach (f x) (key x)) rows g) = s_privileged g"
  "s_seen (fold (\<lambda>x. attach (f x) (key x)) rows g) = s_seen g"
  by (induction rows arbitrary: g) simp_all

lemma fold_appends:
  "fold (\<lambda>x i. i\<lparr>i_on_behalf_of := i_on_behalf_of i @ [h1 x]\<rparr>) xs i = i\<lparr>i_on_behalf_of := i_on_behalf_of i @ map h1 xs\<rparr>"
  "fold (\<lambda>x i. i\<lparr>i_models := i_models i @ [h2 x]\<rparr>) xs i = i\<lparr>i_models := i_models i @ map h2 xs\<rparr>"
  "fold (\<lambda>x i. i\<lparr>i_permissions := i_permissions i @ [h3 x]\<rparr>) xs i = i\<lparr>i_permissions := i_permissions i @ map h3 xs\<rparr>"
  "fold (\<lambda>x i. i\<lparr>i_events := i_events i @ [h4 x]\<rparr>) xs i = i\<lparr>i_events := i_events i @ map h4 xs\<rparr>"
  by (induction xs arbitrary: i) simp_all

lemma add_fresh_events:
  assumes "distinct es" "set es \<inter> set (s_seen g) = {}"
  shows "lookup (fold add_event es g) k =
    lookup (fold (\<lambda>e. attach (\<lambda>i. i\<lparr>i_events := i_events i @ [e]\<rparr>) (e_identity e)) es g) k"
proof -
  have "s_identities (fold add_event es g) = s_identities (fold (\<lambda>e. attach (\<lambda>i. i\<lparr>i_events := i_events i @ [e]\<rparr>) (e_identity e)) es h)"
    if "distinct es" "set es \<inter> set (s_seen g) = {}" "s_identities h = s_identities g" "s_privileged h = s_privileged g" for es g h
    using that
  proof (induction es arbitrary: g h)
    case (Cons e es)
    have same: "ensure h (e_identity e) = ensure g (e_identity e)" using Cons.prems(3,4)
      by (simp add: ensure_def lookup_def split: option.split)
    show ?case unfolding fold.simps comp_apply
    proof (rule Cons.IH)
      show "set es \<inter> set (s_seen (add_event e g)) = {}" using Cons.prems(1,2) by (auto simp: seen_add_event)
    qed (use Cons.prems same in \<open>auto simp: add_event_def Let_def put_def attach_def\<close>)
  qed simp
  from this [OF assms refl refl] show ?thesis by (simp add: lookup_def)
qed

lemma lookup_add_identities:
  assumes "distinct (map fst rows)" "\<And>k. k \<in> fst ` set rows \<Longrightarrow> lookup g k = None"
  shows "lookup (fold (\<lambda>(k, r). add_identity (identity_of_row k r)) rows g) k =
    (case map_of rows k of
       Some r \<Rightarrow> Some (merge_identity (identity_of_row k r) (new_identity k (k \<in> set (s_privileged g))))
     | None \<Rightarrow> lookup g k)"
  using assms
proof (induction rows arbitrary: g)
  case (Cons x rows)
  obtain k0 r0 where x: "x = (k0, r0)" by (cases x)
  let ?g = "add_identity (identity_of_row k0 r0) g"
  have fields: "s_privileged ?g = s_privileged g" by (simp add: add_identity_def put_def)
  have look: "lookup ?g k' = (if k' = k0 then Some (merge_identity (identity_of_row k0 r0) (new_identity k0 (k0 \<in> set (s_privileged g))))
      else lookup g k')" for k'
    using Cons.prems(2) [of k0] x by (simp add: add_identity_def lookup_put ensure_def identity_of_row_def)
  have "lookup (fold (\<lambda>(k, r). add_identity (identity_of_row k r)) rows ?g) k =
    (case map_of rows k of
       Some r \<Rightarrow> Some (merge_identity (identity_of_row k r) (new_identity k (k \<in> set (s_privileged ?g))))
     | None \<Rightarrow> lookup ?g k)"
  proof (rule Cons.IH)
    show "distinct (map fst rows)" using Cons.prems(1) by simp
    show "lookup ?g k' = None" if "k' \<in> fst ` set rows" for k'
    proof -
      have "k' \<noteq> k0" using Cons.prems(1) that x by auto
      moreover have "lookup g k' = None" by (rule Cons.prems(2)) (use that in simp)
      ultimately show ?thesis by (simp add: look)
    qed
  qed
  moreover have "map_of rows k0 = None" using Cons.prems(1) x by (simp add: map_of_eq_None_iff)
  ultimately show ?case using x by (simp add: look fields split: option.split)
qed simp

section \<open>The snapshot\<close>

definition any_order :: "pg_env \<Rightarrow> bool" where
  "any_order env \<longleftrightarrow> (\<forall>rows. mset (pe_identity_order env rows) = mset rows) \<and> (\<forall>rows. mset (pe_permission_order env rows) = mset rows)"

lemma any_orderD:
  assumes "any_order env"
  shows "set (pe_identity_order env rows) = set rows" "set (pe_permission_order env prows) = set prows"
    "distinct (map fst rows) \<Longrightarrow> distinct (map fst (pe_identity_order env rows))"
    "distinct (map fst rows) \<Longrightarrow> map_of (pe_identity_order env rows) = map_of rows"
proof -
  have m: "mset (pe_identity_order env rows) = mset rows" "mset (pe_permission_order env prows) = mset prows"
    using assms by (simp_all add: any_order_def)
  then show s: "set (pe_identity_order env rows) = set rows" "set (pe_permission_order env prows) = set prows"
    by (metis set_mset_mset)+
  show d: "distinct (map fst rows) \<Longrightarrow> distinct (map fst (pe_identity_order env rows))"
    using m(1) by (metis mset_map mset_eq_imp_distinct_iff)
  show "distinct (map fst rows) \<Longrightarrow> map_of (pe_identity_order env rows) = map_of rows"
    using d s(1) by (metis map_of_inject_set)
qed

lemma event_of_row_inj: "event_of_row env r = event_of_row env r' \<Longrightarrow> r = r'"
  by (simp add: event_of_row_def)

lemma event_of_row_identity [simp]: "e_identity (event_of_row env r) = er_identity r"
  by (simp add: event_of_row_def)

lemma base_fields [simp]:
  "i_id (base k r) = k" "i_on_behalf_of (base k r) = []" "i_models (base k r) = []" "i_permissions (base k r) = []"
  "i_events (base k r) = []" "i_privileged (base k r) = ir_privileged r"
  by (auto simp: base_def merge_identity_def identity_of_row_def new_identity_def merge_permissions_def)

definition shown_as :: "pg_env \<Rightarrow> pg \<Rightarrow> string \<Rightarrow> identity \<Rightarrow> identity" where
  "shown_as env db k i =
     i\<lparr>i_permissions := permissions_in db (pe_permission_order env (t_permissions db)) k,
       i_events := events_in env (sort_key er_ts (t_events db)) k\<rparr>"

lemma pg_ok_known:
  assumes "pg_ok db"
  shows "x \<in> set (t_chain db) \<Longrightarrow> fst (fst x) \<in> keys (t_identities db)"
    "y \<in> set (t_models db) \<Longrightarrow> fst (fst y) \<in> keys (t_identities db)"
    "z \<in> set (t_permissions db) \<Longrightarrow> fst (fst z) \<in> keys (t_identities db)"
    "r \<in> set (t_events db) \<Longrightarrow> er_identity r \<in> keys (t_identities db)"
  using assms by (simp_all add: pg_ok_def refs_def image_subset_iff)

lemma lookup_read_graph:
  assumes ok: "pg_ok db" and order: "any_order env"
  shows "lookup (read_graph env db) k = map_option (shown_as env db k) (view env db k)"
proof -
  let ?rows = "pe_identity_order env (t_identities db)"
  let ?ps = "map fst (filter (\<lambda>(k, r). ir_privileged r) ?rows)"
  define g1 where "g1 = fold (\<lambda>(k, r). add_identity (identity_of_row k r)) ?rows (new_store ?ps)"
  define g2 where "g2 = fold (\<lambda>x. attach (\<lambda>i. i\<lparr>i_on_behalf_of := i_on_behalf_of i @ [snd x]\<rparr>) (fst (fst x))) (by_key env (t_chain db)) g1"
  define g3 where "g3 = fold (\<lambda>x. attach (\<lambda>i. i\<lparr>i_models := i_models i @ [snd x]\<rparr>) (fst (fst x))) (by_key env (t_models db)) g2"
  define perm where "perm x = permission_of_row env db (fst (fst x)) (snd (fst x)) (snd x)" for x
  define g4 where "g4 = fold (\<lambda>x. attach (\<lambda>i. i\<lparr>i_permissions := i_permissions i @ [perm x]\<rparr>) (fst (fst x)))
      (pe_permission_order env (t_permissions db)) g3"
  have dist: "distinct (map fst (t_identities db))" using ok by (simp add: pg_ok_def)
  have priv: "k \<in> set ?ps \<longleftrightarrow> ir_privileged r" if "map_of (t_identities db) k = Some r" for k r
  proof -
    have iff: "(k, r') \<in> set (t_identities db) \<longleftrightarrow> r' = r" for r' using that dist by (metis map_of_eq_Some_iff option.inject)
    show ?thesis using iff by (auto simp: any_orderD [OF order] image_iff)
  qed
  have l1: "lookup g1 k = map_option (base k) (map_of (t_identities db) k)" for k
  proof -
    have none: "lookup (new_store ?ps) k = None" for k by (simp add: lookup_def new_store_def)
    have priv_of: "s_privileged (new_store ps) = ps" for ps by (simp add: new_store_def)
    have "lookup g1 k = (case map_of (t_identities db) k of
        Some r \<Rightarrow> Some (merge_identity (identity_of_row k r) (new_identity k (k \<in> set ?ps))) | None \<Rightarrow> None)"
      unfolding g1_def
      using lookup_add_identities [OF any_orderD(3) [OF order dist], of "new_store ?ps" k]
      by (simp add: none priv_of any_orderD(4) [OF order dist] del: set_map set_filter split: option.split)
    with priv [of k] show ?thesis by (cases "map_of (t_identities db) k") (simp_all add: base_def)
  qed
  have known: "lookup g1 k \<noteq> None" if "k \<in> keys (t_identities db)" for k
    using that by (simp add: l1 map_of_eq_None_iff keys_def)
  have l2: "lookup g2 k = map_option (fold (\<lambda>x i. i\<lparr>i_on_behalf_of := i_on_behalf_of i @ [snd x]\<rparr>)
      (filter (\<lambda>x. fst (fst x) = k) (by_key env (t_chain db)))) (lookup g1 k)" for k
    unfolding g2_def by (intro lookup_attach_all known) (simp add: by_key_def pg_ok_known [OF ok])
  have l3: "lookup g3 k = map_option (fold (\<lambda>x i. i\<lparr>i_models := i_models i @ [snd x]\<rparr>)
      (filter (\<lambda>x. fst (fst x) = k) (by_key env (t_models db)))) (lookup g2 k)" for k
    unfolding g3_def by (intro lookup_attach_all) (simp add: l2 known by_key_def pg_ok_known [OF ok])
  have l4: "lookup g4 k = map_option (fold (\<lambda>x i. i\<lparr>i_permissions := i_permissions i @ [perm x]\<rparr>)
      (filter (\<lambda>x. fst (fst x) = k) (pe_permission_order env (t_permissions db)))) (lookup g3 k)" for k
    unfolding g4_def
    by (intro lookup_attach_all) (simp add: l2 l3 known any_orderD(2) [OF order] pg_ok_known [OF ok])
  let ?evs = "map (event_of_row env) (ordered_events env (t_events db))"
  have seen: "s_seen g4 = []"
  proof -
    have "s_seen (fold (\<lambda>(k, r). add_identity (identity_of_row k r)) rows g) = s_seen g" for rows g
      by (induction rows arbitrary: g) (auto simp: add_identity_def put_def)
    then show ?thesis by (simp add: g4_def g3_def g2_def g1_def new_store_def)
  qed
  have "distinct ?evs" using ok event_of_row_inj
    by (auto simp: distinct_map ordered_events_def pg_ok_def inj_on_def)
  from add_fresh_events [OF this] seen have l5: "lookup (fold add_event ?evs g4) k =
      lookup (fold (\<lambda>e. attach (\<lambda>i. i\<lparr>i_events := i_events i @ [e]\<rparr>) (e_identity e)) ?evs g4) k" by simp
  have l6: "lookup (fold (\<lambda>e. attach (\<lambda>i. i\<lparr>i_events := i_events i @ [e]\<rparr>) (e_identity e)) ?evs g4) k =
      map_option (fold (\<lambda>e i. i\<lparr>i_events := i_events i @ [e]\<rparr>) (filter (\<lambda>e. e_identity e = k) ?evs)) (lookup g4 k)"
  proof (rule lookup_attach_all)
    fix e assume "e \<in> set ?evs"
    then obtain r where "r \<in> set (t_events db)" "e = event_of_row env r" by (auto simp: ordered_events_def)
    with known [OF pg_ok_known(4) [OF ok]] show "lookup g4 (e_identity e) \<noteq> None" by (simp add: l2 l3 l4)
  qed
  have rg: "read_graph env db = fold add_event ?evs g4"
    unfolding read_graph_def Let_def g4_def g3_def g2_def g1_def perm_def
    by (simp add: fold_map comp_def case_prod_unfold)
  have evs: "filter (\<lambda>e. e_identity e = k) ?evs = events_in env (sort_key er_ts (t_events db)) k"
    by (simp add: filter_map comp_def ordered_events_filter events_in_def filter_sort)
  have ch: "map snd (filter (\<lambda>x. fst (fst x) = k) (by_key env (t_chain db))) = chain_in db k"
    using by_key_filter [of k env "t_chain db"] by (simp add: chain_in_def case_prod_unfold)
  have mo: "map snd (filter (\<lambda>x. fst (fst x) = k) (by_key env (t_models db))) = models_in db k"
    using by_key_filter [of k env "t_models db"] by (simp add: models_in_def case_prod_unfold)
  have pe: "map perm (filter (\<lambda>x. fst (fst x) = k) rows) = permissions_in db rows k" for rows
    by (auto simp: permissions_in_def perm_def permission_of_row_def actions_of_in case_prod_unfold)
  show ?thesis unfolding rg l5 l6 l4 l3 l2 l1 view_def fold_appends evs
    by (simp add: option.map_comp comp_def fold_appends ch mo pe evs shown_as_def cong: option.map_cong)
qed

end
