(* ===== verification/Pg_Memory.thy ===== *)
theory Pg_Memory
  imports Pg_Snapshot Detect_Run
begin

text \<open>
  The durable backend against the in-memory one: what a write changes in the rows of an identity, and the
  simulation between the tables and the store that holds the same events and inventories.
\<close>

section \<open>What writing an inventory entry changes\<close>

lemma put_swap: "put_second i (put_first env j db) = put_first env j (put_second i db)"
proof -
  have p: "put_second i (put_permission k q db) = put_permission k q (put_second i db)" for k q db
    by (simp add: put_second_def put_permission_def)
  have "put_second i (fold (put_permission k) qs db) = fold (put_permission k) qs (put_second i db)" for k qs db
    by (induction qs arbitrary: db) (simp_all add: p)
  moreover have "put_second i (upserted env j db) = upserted env j (put_second i db)"
    by (simp add: put_second_def upserted_def)
  ultimately show ?thesis by (simp add: put_first_def)
qed

lemma put_identities_one_by_one:
  "put_identities env ids db = fold (\<lambda>i db. put_second i (put_first env i db)) ids db"
proof -
  have one: "fold put_second ids (put_first env i db) = put_first env i (fold put_second ids db)" for i ids db
    by (induction ids arbitrary: db) (simp_all add: put_swap)
  have all: "fold (put_first env) ids (put_second i db) = put_second i (fold (put_first env) ids db)" for i ids db
    by (induction ids arbitrary: db) (simp_all flip: put_swap)
  show ?thesis unfolding put_identities_def
    by (induction ids arbitrary: db) (simp_all flip: all)
qed

lemma put_new_row: "k \<notin> fst ` set al \<Longrightarrow> AList.update k v al = al @ [(k, v)]"
  by (induction al) auto

lemma filter_none: "(\<And>x. x \<in> set xs \<Longrightarrow> \<not> P x) \<Longrightarrow> filter P xs = []"
  by (simp add: filter_empty_conv)

lemma put_permission_tables:
  "t_permissions (put_permission k p db) = AList.update (k, p_name p) (row_of_permission p) (t_permissions db)"
  "t_actions (put_permission k p db) = filter (\<lambda>((i, m, j), a). (i, m) \<noteq> (k, p_name p)) (t_actions db) @ action_rows k p"
  by (simp_all add: put_permission_def)

lemma put_permissions_rows:
  assumes "distinct (map p_name ps)" "\<And>n. (k, n) \<notin> keys (t_permissions db)" "\<And>x. x \<in> set (t_actions db) \<Longrightarrow> fst (fst x) \<noteq> k"
  shows "t_permissions (fold (put_permission k) ps db) =
      t_permissions db @ map (\<lambda>p. ((k, p_name p), row_of_permission p)) ps
    \<and> t_actions (fold (put_permission k) ps db) = t_actions db @ concat (map (action_rows k) ps)"
  using assms(1)
proof (induction ps rule: rev_induct)
  case (snoc p ps)
  then have IH: "t_permissions (fold (put_permission k) ps db) =
      t_permissions db @ map (\<lambda>p. ((k, p_name p), row_of_permission p)) ps"
    "t_actions (fold (put_permission k) ps db) = t_actions db @ concat (map (action_rows k) ps)" by simp_all
  have new: "p_name q \<noteq> p_name p" if "q \<in> set ps" for q using snoc.prems that by (auto simp: image_iff)
  have fresh: "(k, p_name p) \<notin> fst ` set (t_permissions db @ map (\<lambda>p. ((k, p_name p), row_of_permission p)) ps)"
    using assms(2) new by (force simp: keys_def)
  moreover have "filter (\<lambda>((i, m, j), a). (i, m) \<noteq> (k, p_name p)) (t_actions db @ concat (map (action_rows k) ps)) =
      t_actions db @ concat (map (action_rows k) ps)"
    unfolding filter_id_conv using assms(3) new by (force simp: action_rows_def)
  ultimately show ?case
    by (simp only: fold_append comp_apply fold.simps id_apply put_permission_tables IH put_new_row [OF fresh]) simp
qed simp

lemma positions_in_order: "map snd (sort_key (\<lambda>(x, v). pos x) (map (\<lambda>(j, v). (mk j, v)) (enumerate n vs))) = vs"
  if "\<And>j. pos (mk j) = (j :: nat)"
proof -
  have srt: "sorted (map (\<lambda>(x, v). pos x) (map (\<lambda>(j, v). (mk j, v)) (enumerate n vs)))"
    by (simp add: comp_def case_prod_unfold that flip: fst_def)
  have "sort_key f xs = xs" if "sorted (map f xs)" for f :: "'a \<times> 'b \<Rightarrow> nat" and xs
    using that by (induction xs) (auto simp: insort_is_Cons)
  from this [OF srt] show ?thesis by (simp add: comp_def case_prod_unfold)
qed

definition put_entry :: "pg_env \<Rightarrow> identity \<Rightarrow> pg \<Rightarrow> pg" where
  "put_entry env i db = put_second i (put_first env i db)"

lemma kept_tables:
  "t_events (fold (put_permission k) ps db) = t_events db" "t_chain (fold (put_permission k) ps db) = t_chain db"
  "t_models (fold (put_permission k) ps db) = t_models db"
  by (induction ps arbitrary: db) (simp_all add: put_permission_def)

lemma put_entry_tables:
  "t_identities (put_entry env i db) = AList.update (i_id i)
      (case map_of (t_identities db) (i_id i) of None \<Rightarrow> row_of_identity env i | Some old \<Rightarrow> merge_row (row_of_identity env i) old)
      (t_identities db)"
  "t_events (put_entry env i db) = t_events db"
  "t_chain (put_entry env i db) = filter (\<lambda>((k, j), p). k \<noteq> i_id i) (t_chain db) @
      map (\<lambda>(j, p). ((i_id i, j), p)) (enumerate 0 (i_on_behalf_of i))"
  "t_models (put_entry env i db) = filter (\<lambda>((k, j), m). k \<noteq> i_id i) (t_models db) @
      map (\<lambda>(j, m). ((i_id i, j), m)) (enumerate 0 (i_models i))"
  by (simp_all add: put_entry_def put_second_def put_first_def known_permissions upserted_def kept_tables)

lemma put_entry_grants:
  assumes "distinct (map p_name (i_permissions i))"
  shows "t_permissions (put_entry env i db) = filter (\<lambda>((k, n), p). k \<noteq> i_id i) (t_permissions db) @
      map (\<lambda>p. ((i_id i, p_name p), row_of_permission p)) (i_permissions i)"
    "t_actions (put_entry env i db) = filter (\<lambda>((k, n, j), a). k \<noteq> i_id i) (t_actions db) @
      concat (map (action_rows (i_id i)) (i_permissions i))"
proof -
  have "t_permissions (fold (put_permission (i_id i)) (i_permissions i) (upserted env i db)) =
      t_permissions (upserted env i db) @ map (\<lambda>p. ((i_id i, p_name p), row_of_permission p)) (i_permissions i)
    \<and> t_actions (fold (put_permission (i_id i)) (i_permissions i) (upserted env i db)) =
      t_actions (upserted env i db) @ concat (map (action_rows (i_id i)) (i_permissions i))"
    by (rule put_permissions_rows [OF assms]) (auto simp: upserted_def keys_def)
  then show "t_permissions (put_entry env i db) = filter (\<lambda>((k, n), p). k \<noteq> i_id i) (t_permissions db) @
      map (\<lambda>p. ((i_id i, p_name p), row_of_permission p)) (i_permissions i)"
    "t_actions (put_entry env i db) = filter (\<lambda>((k, n, j), a). k \<noteq> i_id i) (t_actions db) @
      concat (map (action_rows (i_id i)) (i_permissions i))"
    by (simp_all add: put_entry_def put_second_def put_first_def upserted_def)
qed

lemma chain_put_entry: "chain_in (put_entry env i db) k = (if k = i_id i then i_on_behalf_of i else chain_in db k)"
proof (cases "k = i_id i")
  case True
  have "filter (\<lambda>((x, j), p). x = k) (map (\<lambda>(j, p). ((k, j), p)) (enumerate 0 (i_on_behalf_of i))) =
      map (\<lambda>(j, p). ((k, j), p)) (enumerate 0 (i_on_behalf_of i))" by (simp add: filter_id_conv case_prod_unfold)
  with True positions_in_order [where pos = snd and mk = "Pair k" and n = 0 and vs = "i_on_behalf_of i"]
  show ?thesis by (simp add: chain_in_def put_entry_tables case_prod_unfold)
next
  case False
  have "filter (\<lambda>((x, j), p). x = k) (map (\<lambda>(j, p). ((i_id i, j), p)) (enumerate 0 (i_on_behalf_of i))) = []"
    using False by (intro filter_none) auto
  moreover have "(x \<noteq> i_id i \<and> x = k) = (x = k)" for x using False by auto
  ultimately show ?thesis using False by (simp add: chain_in_def put_entry_tables case_prod_unfold)
qed

lemma models_put_entry: "models_in (put_entry env i db) k = (if k = i_id i then i_models i else models_in db k)"
proof (cases "k = i_id i")
  case True
  have "filter (\<lambda>((x, j), p). x = k) (map (\<lambda>(j, p). ((k, j), p)) (enumerate 0 (i_models i))) =
      map (\<lambda>(j, p). ((k, j), p)) (enumerate 0 (i_models i))" by (simp add: filter_id_conv case_prod_unfold)
  with True positions_in_order [where pos = snd and mk = "Pair k" and n = 0 and vs = "i_models i"]
  show ?thesis by (simp add: models_in_def put_entry_tables case_prod_unfold)
next
  case False
  have "filter (\<lambda>((x, j), p). x = k) (map (\<lambda>(j, p). ((i_id i, j), p)) (enumerate 0 (i_models i))) = []"
    using False by (intro filter_none) auto
  moreover have "(x \<noteq> i_id i \<and> x = k) = (x = k)" for x using False by auto
  ultimately show ?thesis using False by (simp add: models_in_def put_entry_tables case_prod_unfold)
qed

lemma actions_put_entry:
  assumes "distinct (map p_name (i_permissions i))"
  shows "k \<noteq> i_id i \<Longrightarrow> actions_in (put_entry env i db) k n = actions_in db k n"
    "p \<in> set (i_permissions i) \<Longrightarrow> actions_in (put_entry env i db) (i_id i) (p_name p) = p_actions p"
proof -
  let ?P = "\<lambda>k n. \<lambda>((x, m, j), a). (x, m) = (k, n)"
  assume k: "k \<noteq> i_id i"
  have "filter (?P k n) (concat (map (action_rows (i_id i)) (i_permissions i))) = []"
    using k by (intro filter_none) (auto simp: action_rows_def)
  moreover have "filter (?P k n) (filter (\<lambda>((k, n, j), a). k \<noteq> i_id i) (t_actions db)) = filter (?P k n) (t_actions db)"
    unfolding filter_filter by (rule filter_cong) (use k in auto)
  ultimately show "actions_in (put_entry env i db) k n = actions_in db k n"
    unfolding actions_in_def put_entry_grants [OF assms] filter_append by simp
next
  let ?P = "\<lambda>((x, m, j), a). (x, m) = (i_id i, p_name p)"
  assume p: "p \<in> set (i_permissions i)"
  have "filter ?P (filter (\<lambda>((k, n, j), a). k \<noteq> i_id i) (t_actions db)) = []"
    by (intro filter_none) auto
  moreover have "filter ?P (concat (map (action_rows (i_id i)) qs)) = action_rows (i_id i) p"
    if "distinct (map p_name qs)" "p \<in> set qs" for qs
    using that
  proof (induction qs)
    case (Cons q qs)
    have other: "filter ?P (action_rows (i_id i) r) = []" if "p_name r \<noteq> p_name p" for r
      using that by (intro filter_none) (auto simp: action_rows_def)
    have self: "filter ?P (action_rows (i_id i) p) = action_rows (i_id i) p"
      unfolding filter_id_conv by (auto simp: action_rows_def)
    show ?case
    proof (cases "p = q")
      case True
      have "filter ?P (concat (map (action_rows (i_id i)) qs)) = []"
        using Cons.prems True by (intro filter_none) (auto simp: action_rows_def image_iff)
      with True self show ?thesis by simp
    next
      case False
      with Cons have "filter ?P (concat (map (action_rows (i_id i)) qs)) = action_rows (i_id i) p" by simp
      moreover have "p_name q \<noteq> p_name p" using Cons.prems False by auto
      ultimately show ?thesis using other [of q] by simp
    qed
  qed simp
  ultimately have "filter ?P (t_actions (put_entry env i db)) = action_rows (i_id i) p"
    unfolding put_entry_grants [OF assms] filter_append using assms p by simp
  moreover have "map snd (sort_key (\<lambda>((x, m, j), a). j) (action_rows (i_id i) p)) = p_actions p"
    using positions_in_order [where pos = "\<lambda>x. snd (snd x)" and mk = "\<lambda>j. (i_id i, p_name p, j)" and n = 0 and vs = "p_actions p"]
    by (simp add: action_rows_def case_prod_unfold)
  ultimately show "actions_in (put_entry env i db) (i_id i) (p_name p) = p_actions p"
    unfolding actions_in_def by simp
qed

definition grants_in :: "pg \<Rightarrow> string \<Rightarrow> permission list" where
  "grants_in db k = permissions_in db (t_permissions db) k"

lemma grants_put_entry:
  assumes "distinct (map p_name (i_permissions i))"
  shows "grants_in (put_entry env i db) k = (if k = i_id i then i_permissions i else grants_in db k)"
proof (cases "k = i_id i")
  case True
  have "filter (\<lambda>((x, n), r). x = k) (filter (\<lambda>((k, n), p). k \<noteq> i_id i) (t_permissions db)) = []"
    using True by (intro filter_none) auto
  moreover have "filter (\<lambda>((x, n), r). x = k) (map (\<lambda>p. ((i_id i, p_name p), row_of_permission p)) (i_permissions i)) =
      map (\<lambda>p. ((i_id i, p_name p), row_of_permission p)) (i_permissions i)"
    using True by (simp add: filter_id_conv)
  ultimately have "grants_in (put_entry env i db) k =
      map (\<lambda>p. p\<lparr>p_actions := actions_in (put_entry env i db) k (p_name p)\<rparr>) (i_permissions i)"
    using True by (simp add: grants_in_def permissions_in_def put_entry_grants [OF assms] row_of_permission_def)
  also have "\<dots> = i_permissions i"
    by (rule map_idI) (use True in \<open>simp add: actions_put_entry(2) [OF assms]\<close>)
  finally show ?thesis using True by simp
next
  case False
  have "filter (\<lambda>((x, n), r). x = k) (map (\<lambda>p. ((i_id i, p_name p), row_of_permission p)) (i_permissions i)) = []"
    using False by (intro filter_none) auto
  moreover have "filter (\<lambda>((x, n), r). x = k) (filter (\<lambda>((k, n), p). k \<noteq> i_id i) (t_permissions db)) =
      filter (\<lambda>((x, n), r). x = k) (t_permissions db)"
    unfolding filter_filter by (rule filter_cong) (use False in auto)
  ultimately show ?thesis using False
    by (simp add: grants_in_def permissions_in_def put_entry_grants [OF assms] actions_put_entry(1) [OF assms False])
qed

lemma view_put_entry:
  assumes "distinct (map p_name (i_permissions i))"
  shows "view env (put_entry env i db) k =
    (if k = i_id i then
       Some ((base k (case map_of (t_identities db) k of None \<Rightarrow> row_of_identity env i | Some old \<Rightarrow> merge_row (row_of_identity env i) old))
         \<lparr>i_on_behalf_of := i_on_behalf_of i, i_models := i_models i, i_permissions := i_permissions i,
          i_events := events_in env (t_events db) k\<rparr>)
     else view env db k)"
  unfolding view_def grants_in_def [symmetric] grants_put_entry [OF assms] chain_put_entry models_put_entry put_entry_tables
  by (simp add: update_conv')

section \<open>The store that mirrors the tables\<close>

text \<open>What the database keeps of an event and of an inventory entry.\<close>

definition stored :: "pg_env \<Rightarrow> event \<Rightarrow> event" where
  "stored env e = e\<lparr>e_time := pe_stamp env (e_time e), e_zone := pe_zone env, e_source := []\<rparr>"

definition kept :: "pg_env \<Rightarrow> identity \<Rightarrow> identity" where
  "kept env i =
     i\<lparr>i_created := (if is_zero (i_created i) then zero_time else pe_stamp env (i_created i)),
       i_last_used := (if is_zero (i_last_used i) then zero_time else pe_stamp env (i_last_used i))\<rparr>"

text \<open>That is what comes back from the row of an event, and from the nullable columns of an identity.\<close>

lemma stored_row_of: "stored env e = event_of_row env (row_of_event env e)"
  by (simp add: stored_def event_of_row_def row_of_event_def)

lemma kept_times: "kept env i = i\<lparr>i_created := time_of_null (nullable env (i_created i)), i_last_used := time_of_null (nullable env (i_last_used i))\<rparr>"
  by (simp add: kept_def nullable_def time_of_null_def)

definition mirrors :: "pg_env \<Rightarrow> string list \<Rightarrow> pg \<Rightarrow> store \<Rightarrow> bool" where
  "mirrors env ps db g \<longleftrightarrow>
     pg_ok db \<and> wf_store g \<and> s_privileged g = ps \<and> (\<forall>k. lookup g k = view env db k)
     \<and> set (s_seen g) = event_of_row env ` set (t_events db)
     \<and> (\<forall>k \<in> set ps. \<forall>r. map_of (t_identities db) k = Some r \<longrightarrow> ir_privileged r)"

lemma mirrors_empty: "mirrors env ps empty_pg (new_store ps)"
  by (simp add: mirrors_def empty_pg_ok wf_new) (simp add: new_store_def empty_pg_def lookup_def view_def)

lemma rows_of_unknown:
  assumes "pg_ok db" "map_of (t_identities db) k = None"
  shows "chain_in db k = []" "models_in db k = []" "grants_in db k = []" "events_in env (t_events db) k = []"
proof -
  have no: "k \<notin> keys (t_identities db)" using assms(2) by (simp add: map_of_eq_None_iff keys_def)
  have "filter (\<lambda>((x, j), p). x = k) (t_chain db) = []" "filter (\<lambda>((x, j), p). x = k) (t_models db) = []"
    "filter (\<lambda>((x, j), p). x = k) (t_permissions db) = []" "filter (\<lambda>r. er_identity r = k) (t_events db) = []"
    using no pg_ok_known [OF assms(1)] by (auto intro!: filter_none)
  then show "chain_in db k = []" "models_in db k = []" "grants_in db k = []" "events_in env (t_events db) k = []"
    by (simp_all add: chain_in_def models_in_def grants_in_def permissions_in_def events_in_def)
qed

lemma run_keeps_ok: "pg_ok db \<Longrightarrow> run_stmts ss db = Some db' \<Longrightarrow> pg_ok db'"
  by (rule run_ok)

lemma record_event_ok: "pg_ok db \<Longrightarrow> pg_ok (record_event env ps e db)"
  using run_keeps_ok [OF _ run_ingest_all [of env ps "[e]" db]] by simp

lemma put_entry_ok: "pg_ok db \<Longrightarrow> pg_ok (put_entry env i db)"
  using run_keeps_ok [OF _ run_identities [of env "[i]" db]] by (simp add: put_identities_def put_entry_def)

lemma base_blank: "base k (blank_row\<lparr>ir_privileged := p\<rparr>) = new_identity k p"
  by (simp add: base_def blank_row_def merge_identity_def identity_of_row_def new_identity_def time_of_null_def
      merge_permissions_def is_zero_def IdentityHuman_def)

lemma view_record_event:
  assumes "pg_ok db"
  shows "view env (record_event env ps e db) k =
    (if k \<noteq> e_identity e then view env db k
     else let i = (case map_of (t_identities db) k of
              None \<Rightarrow> new_identity k (k \<in> set ps)
            | Some r \<Rightarrow> (base k (r\<lparr>ir_privileged := ir_privileged r \<or> k \<in> set ps\<rparr>))
                \<lparr>i_on_behalf_of := chain_in db k, i_models := models_in db k, i_permissions := grants_in db k,
                 i_events := events_in env (t_events db) k\<rparr>)
       in Some (if row_of_event env e \<in> set (t_events db) then i else i\<lparr>i_events := i_events i @ [stored env e]\<rparr>))"
proof -
  have tables: "t_chain (record_event env ps e db) = t_chain db" "t_models (record_event env ps e db) = t_models db"
    "t_permissions (record_event env ps e db) = t_permissions db" "t_actions (record_event env ps e db) = t_actions db"
    by (simp_all add: record_event_def Let_def)
  then have rest: "chain_in (record_event env ps e db) = chain_in db" "models_in (record_event env ps e db) = models_in db"
    "grants_in (record_event env ps e db) = grants_in db"
    by (simp_all add: fun_eq_iff chain_in_def models_in_def grants_in_def permissions_in_def actions_in_def)
  have evs: "events_in env (t_events (record_event env ps e db)) k =
      events_in env (t_events db) k @ (if k = e_identity e \<and> row_of_event env e \<notin> set (t_events db) then [stored env e] else [])"
    by (simp add: record_event_def Let_def events_in_def stored_row_of)
  have row: "map_of (t_identities (record_event env ps e db)) k =
      (if k \<noteq> e_identity e then map_of (t_identities db) k
       else Some (case map_of (t_identities db) k of
              None \<Rightarrow> blank_row\<lparr>ir_privileged := k \<in> set ps\<rparr>
            | Some old \<Rightarrow> old\<lparr>ir_privileged := ir_privileged old \<or> k \<in> set ps\<rparr>))"
    by (cases "k = e_identity e") (simp_all add: record_event_def Let_def update_conv' split: option.split)
  show ?thesis
  proof (cases "k = e_identity e")
    case False
    then show ?thesis by (simp add: view_def grants_in_def [symmetric] row rest evs)
  next
    case True
    note view_simps = view_def grants_in_def [symmetric] row rest evs base_blank True [symmetric] Let_def
    show ?thesis
    proof (cases "map_of (t_identities db) k")
      case None
      with True rows_of_unknown [OF assms None] show ?thesis by (simp add: view_simps) (simp add: new_identity_def)
    next
      case (Some r)
      with True show ?thesis by (simp add: view_simps)
    qed
  qed
qed

lemma mirrors_event:
  assumes "mirrors env ps db g"
  shows "mirrors env ps (record_event env ps e db) (add_event (stored env e) g)"
proof -
  let ?k = "e_identity e"
  have ok: "pg_ok db" and wf: "wf_store g" and priv: "s_privileged g = ps" and look: "\<And>k. lookup g k = view env db k"
    and seen: "set (s_seen g) = event_of_row env ` set (t_events db)"
    and flags: "\<And>k r. k \<in> set ps \<Longrightarrow> map_of (t_identities db) k = Some r \<Longrightarrow> ir_privileged r"
    using assms unfolding mirrors_def by blast+
  have k: "e_identity (stored env e) = ?k" by (simp add: stored_row_of)
  have old: "stored env e \<in> set (s_seen g) \<longleftrightarrow> row_of_event env e \<in> set (t_events db)"
    unfolding seen stored_row_of using event_of_row_inj by (auto simp: image_iff)
  have known: "row_of_event env e \<in> set (t_events db) \<Longrightarrow> map_of (t_identities db) ?k \<noteq> None"
    using pg_ok_known(4) [OF ok, of "row_of_event env e"] by (auto simp: map_of_eq_None_iff keys_def)
  have ens: "ensure g ?k = (case map_of (t_identities db) ?k of
              None \<Rightarrow> new_identity ?k (?k \<in> set ps)
            | Some r \<Rightarrow> (base ?k (r\<lparr>ir_privileged := ir_privileged r \<or> ?k \<in> set ps\<rparr>))
                \<lparr>i_on_behalf_of := chain_in db ?k, i_models := models_in db ?k, i_permissions := grants_in db ?k,
                 i_events := events_in env (t_events db) ?k\<rparr>)"
  proof (cases "map_of (t_identities db) ?k")
    case (Some r)
    have "r\<lparr>ir_privileged := ir_privileged r \<or> ?k \<in> set ps\<rparr> = r" using flags [OF _ Some] by (cases r) auto
    with Some show ?thesis by (simp add: ensure_def look view_def grants_in_def)
  qed (simp add: ensure_def look view_def priv)
  have "lookup (add_event (stored env e) g) k = view env (record_event env ps e db) k" for k
  proof (cases "k = ?k")
    case False
    then show ?thesis by (simp add: view_record_event [OF ok] add_event_def Let_def k lookup_put look lookup_def [of "_\<lparr>s_seen := _\<rparr>"] flip: lookup_def)
  next
    case True
    show ?thesis
    proof (cases "row_of_event env e \<in> set (t_events db)")
      case in_db: True
      with known obtain i where "lookup g ?k = Some i" by (auto simp: look view_def)
      then have "lookup g ?k = Some (ensure g ?k)" by (simp add: ensure_def)
      with True in_db old show ?thesis by (simp add: view_record_event [OF ok] add_event_def ens Let_def)
    next
      case False
      with True old show ?thesis by (simp add: view_record_event [OF ok] add_event_def k lookup_put ens Let_def)
    qed
  qed
  moreover have "set (s_seen (add_event (stored env e) g)) = event_of_row env ` set (t_events (record_event env ps e db))"
    unfolding seen_add_event seen by (auto simp: record_event_def Let_def stored_row_of)
  moreover have "ir_privileged r" if "k \<in> set ps" "map_of (t_identities (record_event env ps e db)) k = Some r" for k r
    using that flags by (auto simp: record_event_def Let_def update_conv' split: if_splits option.splits)
  moreover have "s_privileged (add_event (stored env e) g) = ps" using priv by (simp add: add_event_def Let_def put_def)
  ultimately show ?thesis unfolding mirrors_def
    using record_event_ok [OF ok] wf_add_event [OF wf] by blast
qed

lemma merge_into_none: "distinct (map p_name ps) \<Longrightarrow> merge_permissions [] ps = ps"
proof -
  have "merge_permissions qs ps = qs @ ps" if "distinct (map p_name (qs @ ps))" for qs ps
    using that
  proof (induction ps arbitrary: qs)
    case (Cons p ps)
    have "fold_permission qs p = qs @ [p]" using Cons.prems by (induction qs) auto
    with Cons.IH [of "qs @ [p]"] Cons.prems show ?case by simp
  qed (simp add: merge_permissions_def)
  from this [of "[]"] show "distinct (map p_name ps) \<Longrightarrow> merge_permissions [] ps = ps" by simp
qed

lemma merge_new:
  assumes "distinct (map p_name (i_permissions inp))"
  shows "merge_identity inp (new_identity (i_id inp) p) =
    inp\<lparr>i_privileged := i_privileged inp \<or> p, i_last_used := (if i_last_used inp > zero_time then i_last_used inp else zero_time)\<rparr>"
  by (rule identity.equality)
    (simp_all add: merge_identity_def new_identity_def merge_into_none [OF assms] IdentityHuman_def is_zero_def)

lemma base_row: "base k r = (identity_of_row k r)
    \<lparr>i_last_used := (if time_of_null (ir_last_used r) > zero_time then time_of_null (ir_last_used r) else zero_time)\<rparr>"
  using merge_new [of "identity_of_row k r" "ir_privileged r"] by (simp add: base_def identity_of_row_def)

lemma mirrors_identity:
  assumes m: "mirrors env ps db g" and new: "i_id i \<notin> keys (t_identities db)"
    and names: "distinct (map p_name (i_permissions i))" and "i_events i = []" and "i_id i \<in> set ps \<Longrightarrow> i_privileged i"
  shows "mirrors env ps (put_entry env i db) (add_identity (kept env i) g)"
proof -
  let ?k = "i_id i"
  have ok: "pg_ok db" and wf: "wf_store g" and priv: "s_privileged g = ps" and look: "\<And>k. lookup g k = view env db k"
    and seen: "set (s_seen g) = event_of_row env ` set (t_events db)"
    and flags: "\<And>k r. k \<in> set ps \<Longrightarrow> map_of (t_identities db) k = Some r \<Longrightarrow> ir_privileged r"
    using m unfolding mirrors_def by blast+
  have no_row: "map_of (t_identities db) ?k = None" using new by (simp add: map_of_eq_None_iff keys_def)
  then have ens: "ensure g ?k = new_identity ?k (?k \<in> set ps)" by (simp add: ensure_def look view_def priv)
  have none: "events_in env (t_events db) ?k = []" using rows_of_unknown [OF ok no_row] by simp
  have same: "merge_identity (kept env i) (new_identity ?k (?k \<in> set ps)) =
      (base ?k (row_of_identity env i))\<lparr>i_on_behalf_of := i_on_behalf_of i, i_models := i_models i, i_permissions := i_permissions i,
          i_events := []\<rparr>"
  proof -
    have "merge_identity (kept env i) (new_identity (i_id (kept env i)) (?k \<in> set ps)) =
        (kept env i)\<lparr>i_privileged := i_privileged (kept env i) \<or> ?k \<in> set ps,
          i_last_used := (if i_last_used (kept env i) > zero_time then i_last_used (kept env i) else zero_time)\<rparr>"
      by (rule merge_new) (simp add: kept_times names)
    moreover have "(i_privileged i \<or> ?k \<in> set ps) = i_privileged i" using assms(5) by blast
    ultimately show ?thesis
      using assms(4) by (simp add: kept_times base_row identity_of_row_def row_of_identity_def)
  qed
  have "lookup (add_identity (kept env i) g) k = view env (put_entry env i db) k" for k
    by (simp add: view_put_entry [OF names] add_identity_def lookup_put no_row ens look none same kept_times)
      (simp add: same [unfolded kept_times])
  moreover have "ir_privileged r" if "k \<in> set ps" "map_of (t_identities (put_entry env i db)) k = Some r" for k r
    using that flags assms(5) no_row by (auto simp: put_entry_tables update_conv' row_of_identity_def split: if_splits)
  moreover have "s_privileged (add_identity (kept env i) g) = ps" "s_seen (add_identity (kept env i) g) = s_seen g"
    using priv by (simp_all add: add_identity_def put_def)
  ultimately show ?thesis unfolding mirrors_def
    using put_entry_ok [OF ok] wf_add_identity [OF wf] seen by (simp add: put_entry_tables)
qed

lemma mirrors_identities:
  assumes "mirrors env ps db g" "distinct (map i_id ids)" "\<And>i. i \<in> set ids \<Longrightarrow> i_id i \<notin> keys (t_identities db)"
    and "\<And>i. i \<in> set ids \<Longrightarrow> distinct (map p_name (i_permissions i)) \<and> i_events i = [] \<and> (i_id i \<in> set ps \<longrightarrow> i_privileged i)"
  shows "mirrors env ps (fold (put_entry env) ids db) (fold (\<lambda>i. add_identity (kept env i)) ids g)"
  using assms
proof (induction ids arbitrary: db g)
  case (Cons i ids)
  have "mirrors env ps (put_entry env i db) (add_identity (kept env i) g)"
    using Cons.prems by (intro mirrors_identity) auto
  moreover have "i_id j \<notin> keys (t_identities (put_entry env i db))" if "j \<in> set ids" for j
  proof -
    have "i_id j \<noteq> i_id i" using Cons.prems(2) that by (metis distinct.simps(2) image_eqI list.set_map list.simps(9))
    with Cons.prems(3) [of j] that show ?thesis by (simp add: put_entry_tables)
  qed
  ultimately show ?case using Cons.prems by (simp add: Cons.IH)
qed simp

lemma mirrors_events:
  "mirrors env ps db g \<Longrightarrow> mirrors env ps (fold (record_event env ps) es db) (fold (\<lambda>e. add_event (stored env e)) es g)"
  by (induction es arbitrary: db g) (simp_all add: mirrors_event)

section \<open>What the readers see\<close>

lemma ids_of_store: "wf_store g \<Longrightarrow>
    fst (identities g) = map (\<lambda>k. chronological (the (lookup g k))) (sorted_list_of_set {k. lookup g k \<noteq> None})"
proof -
  assume wf: "wf_store g"
  let ?xs = "fst (identities g)"
  have srt: "sorted_wrt (<) (map i_id ?xs)" by (rule mem.ids_ordered [OF wf])
  have dom: "{k. lookup g k \<noteq> None} = i_id ` set ?xs"
  proof
    show "{k. lookup g k \<noteq> None} \<subseteq> i_id ` set ?xs"
    proof
      fix k assume "k \<in> {k. lookup g k \<noteq> None}"
      then obtain i where "lookup g k = Some i" by auto
      from lookup_read [OF wf this] show "k \<in> i_id ` set ?xs" by (metis chronological_def identity.simps image_eqI identity.select_convs(1) identity.surjective)
    qed
    show "i_id ` set ?xs \<subseteq> {k. lookup g k \<noteq> None}"
    proof
      fix k assume "k \<in> i_id ` set ?xs"
      then have "k \<in> i_id ` snd ` set (s_identities g)"
        by (force simp: identities_def Let_def sort_events_def chronological_def)
      with wf have "k \<in> fst ` set (s_identities g)" by (force simp: wf_store_def)
      then show "k \<in> {k. lookup g k \<noteq> None}" by (simp add: lookup_def map_of_eq_None_iff)
    qed
  qed
  have ids: "map i_id ?xs = sorted_list_of_set {k. lookup g k \<noteq> None}"
    unfolding dom using srt by (metis list.set_map sorted_list_of_set.idem_if_sorted_distinct strict_sorted_iff)
  have "chronological (the (lookup g (i_id i))) = i" if i: "i \<in> set ?xs" for i
  proof -
    obtain j where j: "lookup g (i_id i) = Some j" using i dom by blast
    from lookup_read [OF wf j] mem.same_id_same_identity [OF wf, of "chronological j" i] i
    show ?thesis by (simp add: j) (simp add: chronological_def)
  qed
  then have "map (\<lambda>k. chronological (the (lookup g k))) (map i_id ?xs) = ?xs" by (simp add: map_idI)
  with ids show ?thesis by simp
qed

lemma identities_same:
  assumes "wf_store g" "wf_store h" "\<And>k. map_option (f \<circ> chronological) (lookup g k) = map_option (f \<circ> chronological) (lookup h k)"
  shows "map f (fst (identities g)) = map f (fst (identities h))"
proof -
  have dom: "lookup g k = None \<longleftrightarrow> lookup h k = None" for k
    using assms(3) [of k] by (cases "lookup g k"; cases "lookup h k") auto
  have val: "f (chronological (the (lookup g k))) = f (chronological (the (lookup h k)))" if "lookup g k \<noteq> None" for k
    using assms(3) [of k] that by (cases "lookup g k"; cases "lookup h k") auto
  have "finite {k. lookup h k \<noteq> None}"
    using finite_dom_map_of [of "s_identities h"] by (simp add: lookup_def dom_def)
  then show ?thesis using dom val by (simp add: ids_of_store assms(1,2))
qed

end
