(* ===== verification/Pg_Loads.thy ===== *)
theory Pg_Loads
  imports Pg_Memory
begin

text \<open>
  Sequences of writes to the database: each is all or nothing and leaves the tables sound, an inventory
  entry replaces what it describes, and the graph read back is the one the in-memory store would hold.
\<close>

section \<open>Writes\<close>

datatype pg_write =
    Write_Events "event list" "string list"
  | Write_Identities "identity list"
  | Write_Remediations int "recommendation list"

definition pg_apply :: "pg_env \<Rightarrow> pg_write \<Rightarrow> pg \<Rightarrow> pg_error option \<times> pg" where
  "pg_apply env w db =
     (case w of
        Write_Events es ps \<Rightarrow> pg_ingest env es ps db
      | Write_Identities ids \<Rightarrow> pg_ingest_identities env ids db
      | Write_Remediations t recs \<Rightarrow> save_remediations env t recs db)"

text \<open>What a write does when it goes through.\<close>

definition written :: "pg_env \<Rightarrow> pg_write \<Rightarrow> pg \<Rightarrow> pg" where
  "written env w db =
     (case w of
        Write_Events es ps \<Rightarrow> fold (record_event env ps) es db
      | Write_Identities ids \<Rightarrow> fold (put_entry env) ids db
      | Write_Remediations t recs \<Rightarrow>
          db\<lparr>t_remediations := fold (\<lambda>r. AList.update (rc_identity r, rc_kind r)
              \<lparr>rr_explanation = rc_explanation r, rr_code = rc_code r, rr_created = t\<rparr>) recs (t_remediations db)\<rparr>)"

definition pg_history :: "(pg_env \<times> pg_write) list \<Rightarrow> pg" where
  "pg_history ws = fold (\<lambda>(env, w) db. snd (pg_apply env w db)) ws empty_pg"

lemma put_identities_entries: "put_identities env ids = fold (put_entry env) ids"
  by (rule ext) (simp add: put_identities_one_by_one put_entry_def [abs_def])

lemma written_stmts:
  obtains ss where "\<And>db. run_stmts ss db = Some (written env w db)" "\<And>db. pg_apply env w db = transaction env ss db"
    | "\<And>db. pg_apply env w db = (None, db)" "\<And>db. written env w db = db"
proof (cases w)
  case (Write_Events es ps)
  show ?thesis
    by (rule that(1) [of "ingest_stmts env ps [] es"]) (simp_all add: Write_Events written_def pg_apply_def pg_ingest_def run_ingest_all)
next
  case (Write_Identities ids)
  show ?thesis
    by (rule that(1) [of "concat (map (first_pass env) ids) @ concat (map second_pass ids)"])
      (simp_all add: Write_Identities written_def pg_apply_def pg_ingest_identities_def run_identities put_identities_entries
        del: map_append)
next
  case (Write_Remediations t recs)
  show ?thesis
  proof (cases "recs = []")
    case True
    show ?thesis by (rule that(2)) (simp_all add: True Write_Remediations written_def pg_apply_def save_remediations_def)
  next
    case False
    show ?thesis
      by (rule that(1)) (simp_all add: False Write_Remediations written_def pg_apply_def save_remediations_def run_remediations)
  qed
qed

lemma pg_apply_cases:
  assumes "pg_apply env w db = (err, db')"
  shows "err = None \<and> db' = written env w db
    \<or> (\<exists>n. err = Some (Lost_Connection n) \<and> pe_fails env n \<and> (db' = db \<or> db' = written env w db \<and> pe_commit_reached env))"
proof (rule written_stmts [of env w])
  fix ss assume run: "\<And>db. run_stmts ss db = Some (written env w db)" and app: "\<And>db. pg_apply env w db = transaction env ss db"
  from transaction_run [OF run [of db], of env] show ?thesis
    using assms unfolding app by (elim disjE exE conjE) (auto split: if_splits)
qed (use assms in auto)

lemma written_ok: "pg_ok db \<Longrightarrow> pg_ok (written env w db)"
  by (rule written_stmts [of env w]) (auto dest: run_ok)

lemma applied_ok: "pg_ok db \<Longrightarrow> pg_ok (snd (pg_apply env w db))"
proof -
  assume "pg_ok db"
  moreover obtain err db' where app: "pg_apply env w db = (err, db')" by fastforce
  ultimately show ?thesis using pg_apply_cases [OF app] written_ok by auto
qed

lemma history_ok: "pg_ok (pg_history ws)"
proof -
  have "pg_ok (fold (\<lambda>(env, w) db. snd (pg_apply env w db)) ws db)" if "pg_ok db" for db
    using that by (induction ws arbitrary: db) (auto simp: applied_ok)
  then show ?thesis by (simp add: pg_history_def empty_pg_ok)
qed

text \<open>What later writes keep: the events, the identities, and that somebody is privileged or a shadow.\<close>

definition keeps_rows :: "pg \<Rightarrow> pg \<Rightarrow> bool" where
  "keeps_rows db db' \<longleftrightarrow> set (t_events db) \<subseteq> set (t_events db')
     \<and> (\<forall>k r. map_of (t_identities db) k = Some r \<longrightarrow>
          (\<exists>r'. map_of (t_identities db') k = Some r' \<and> (ir_privileged r \<longrightarrow> ir_privileged r') \<and> (ir_shadow r \<longrightarrow> ir_shadow r')))"

lemma keeps_refl: "keeps_rows db db"
  by (auto simp: keeps_rows_def)

lemma keeps_trans: "keeps_rows db db' \<Longrightarrow> keeps_rows db' db'' \<Longrightarrow> keeps_rows db db''"
  unfolding keeps_rows_def by (meson subset_trans)

lemma keeps_record: "keeps_rows db (record_event env ps e db)"
  unfolding keeps_rows_def
  by (auto simp: record_event_def Let_def update_conv' split: option.split)

lemma keeps_entry: "keeps_rows db (put_entry env i db)"
  unfolding keeps_rows_def
  by (auto simp: put_entry_tables update_conv' merge_row_def)

lemma keeps_written: "keeps_rows db (written env w db)"
proof -
  have "keeps_rows db (fold (record_event env ps) es db)" for ps es
    by (induction es arbitrary: db) (auto intro: keeps_refl keeps_trans [OF keeps_record])
  moreover have "keeps_rows db (fold (put_entry env) ids db)" for ids
    by (induction ids arbitrary: db) (auto intro: keeps_refl keeps_trans [OF keeps_entry])
  moreover have "keeps_rows db (db\<lparr>t_remediations := x\<rparr>)" for x by (auto simp: keeps_rows_def)
  ultimately show ?thesis by (cases w) (simp_all add: written_def)
qed


definition sample_pg_env :: "(nat \<Rightarrow> bool) \<Rightarrow> pg_env" where
  "sample_pg_env fails =
     \<lparr>pe_stamp = \<lambda>t. t div 1000 * 1000, pe_zone = 0, pe_collate = \<lambda>k. 0, pe_identity_order = \<lambda>rows. rows,
      pe_permission_order = \<lambda>rows. rows, pe_fails = fails, pe_commit_reached = False\<rparr>"


section \<open>The database and the store\<close>

datatype batch = Events_Batch "event list" | Inventory_Batch "identity list"

definition write_of :: "string list \<Rightarrow> batch \<Rightarrow> pg_write" where
  "write_of ps b = (case b of Events_Batch es \<Rightarrow> Write_Events es ps | Inventory_Batch ids \<Rightarrow> Write_Identities ids)"

definition keep_batch :: "pg_env \<Rightarrow> batch \<Rightarrow> store \<Rightarrow> store" where
  "keep_batch env b =
     (case b of Events_Batch es \<Rightarrow> fold add_event (map (stored env) es) | Inventory_Batch ids \<Rightarrow> fold add_identity (map (kept env) ids))"

text \<open>No inventory describes an identity that is already known, and grants have one name each.\<close>

fun new_entries :: "string list \<Rightarrow> string set \<Rightarrow> batch list \<Rightarrow> bool" where
  "new_entries ps known [] \<longleftrightarrow> True"
| "new_entries ps known (Events_Batch es # bs) \<longleftrightarrow> new_entries ps (known \<union> e_identity ` set es) bs"
| "new_entries ps known (Inventory_Batch ids # bs) \<longleftrightarrow>
     distinct (map i_id ids)
     \<and> (\<forall>i \<in> set ids. i_id i \<notin> known \<and> distinct (map p_name (i_permissions i)) \<and> i_events i = []
          \<and> (i_id i \<in> set ps \<longrightarrow> i_privileged i))
     \<and> new_entries ps (known \<union> i_id ` set ids) bs"

lemma keys_record: "keys (t_identities (fold (record_event env ps) es db)) = keys (t_identities db) \<union> e_identity ` set es"
  by (induction es arbitrary: db) (auto simp: record_event_def Let_def)

lemma keys_entries: "keys (t_identities (fold (put_entry env) ids db)) = keys (t_identities db) \<union> i_id ` set ids"
  by (induction ids arbitrary: db) (auto simp: put_entry_tables)

lemma batch_writes:
  "written env (write_of ps (Events_Batch es)) = fold (record_event env ps) es"
  "written env (write_of ps (Inventory_Batch ids)) = fold (put_entry env) ids"
  "keep_batch env (Events_Batch es) = fold add_event (map (stored env) es)"
  "keep_batch env (Inventory_Batch ids) = fold add_identity (map (kept env) ids)"
  by (simp_all add: fun_eq_iff written_def write_of_def keep_batch_def)

lemma mirrors_history:
  assumes "mirrors env ps db g" "new_entries ps (keys (t_identities db)) bs"
  shows "mirrors env ps (fold (\<lambda>b. written env (write_of ps b)) bs db) (fold (keep_batch env) bs g)"
  using assms
proof (induction bs arbitrary: db g)
  case (Cons b bs)
  show ?case
  proof (cases b)
    case (Events_Batch es)
    have "mirrors env ps (fold (record_event env ps) es db) (fold add_event (map (stored env) es) g)"
      using mirrors_events [OF Cons.prems(1)] by (simp add: fold_map comp_def)
    with Cons Events_Batch show ?thesis by (simp add: batch_writes keys_record)
  next
    case (Inventory_Batch ids)
    have "mirrors env ps (fold (put_entry env) ids db) (fold (\<lambda>i. add_identity (kept env i)) ids g)"
      using Cons.prems Inventory_Batch by (intro mirrors_identities) auto
    then have "mirrors env ps (fold (put_entry env) ids db) (fold add_identity (map (kept env) ids) g)"
      by (simp add: fold_map comp_def)
    with Cons Inventory_Batch show ?thesis by (simp add: batch_writes keys_entries)
  qed
qed simp

lemma pg_apply_connected:
  assumes "\<And>n. \<not> pe_fails env n"
  shows "pg_apply env w db = (None, written env w db)"
proof -
  obtain err db' where app: "pg_apply env w db = (err, db')" by fastforce
  with pg_apply_cases [OF app] assms show ?thesis by auto
qed

lemma history_connected:
  assumes "\<And>n. \<not> pe_fails env n"
  shows "pg_history (map (Pair env) ws) = fold (written env) ws empty_pg"
proof -
  have "fold (\<lambda>(env, w) db. snd (pg_apply env w db)) (map (Pair env) ws) db = fold (written env) ws db" for db
    by (induction ws arbitrary: db) (simp_all add: pg_apply_connected [OF assms])
  then show ?thesis by (simp add: pg_history_def)
qed

text \<open>An identity without the order of its grants.\<close>

definition tidy :: "identity \<Rightarrow> identity \<times> permission multiset" where
  "tidy i = (i\<lparr>i_permissions := []\<rparr>, mset (i_permissions i))"

lemma wf_read_graph: "wf_store (read_graph env db)"
proof -
  have attach: "wf_store (fold (\<lambda>x. attach (f x) (key x)) rows g)" if "wf_store g" "\<And>x i. i_id (f x i) = i_id i" for f key rows g
    using that by (induction rows arbitrary: g) (auto simp: attach_def wf_put ensure_id)
  have ids: "wf_store (fold (\<lambda>(k, r). add_identity (identity_of_row k r)) rows g)" if "wf_store g" for rows g
    using that by (induction rows arbitrary: g) (auto simp: wf_add_identity)
  have evs: "wf_store (fold (\<lambda>r. add_event (event_of_row env r)) rows g)" if "wf_store g" for rows g
    using that by (induction rows arbitrary: g) (auto simp: wf_add_event)
  show ?thesis unfolding read_graph_def Let_def case_prod_unfold
    by (intro evs attach ids [unfolded case_prod_unfold] wf_new) simp_all
qed

lemma events_in_sorted: "sort_key e_time (events_in env (sort_key er_ts rows) k) = sort_key e_time (events_in env rows k)"
proof -
  have f: "filter P (sort_key er_ts rows) = sort_key er_ts (filter P rows)" for P by (rule filter_sort)
  have time: "e_time (event_of_row env r) = er_ts r" for r by (simp add: event_of_row_def)
  have map: "sort_key e_time (map (event_of_row env) rs) = map (event_of_row env) (sort_key er_ts rs)" for rs :: "event_row list"
  proof -
    have ins: "insort_key e_time (event_of_row env r) (map (event_of_row env) rs) = map (event_of_row env) (insort_key er_ts r rs)" for r rs
      by (induction rs) (simp_all add: time)
    show ?thesis by (induction rs) (simp_all add: ins)
  qed
  have "sort_key er_ts (sort_key er_ts rs) = sort_key er_ts rs" for rs :: "event_row list"
  proof -
    have id: "sort_key er_ts xs = xs" if "sorted (map er_ts xs)" for xs :: "event_row list"
      using that by (induction xs) (auto simp: insort_is_Cons)
    show ?thesis by (rule id) simp
  qed
  then show ?thesis by (simp add: events_in_def f map)
qed

lemma permissions_in_mset: "mset rows = mset rows' \<Longrightarrow> mset (permissions_in db rows k) = mset (permissions_in db rows' k)"
  by (simp only: permissions_in_def mset_map mset_filter)

lemma snapshot_mirrors:
  assumes "mirrors env ps db g" "any_order env"
  shows "map tidy (fst (identities (read_graph env db))) = map tidy (fst (identities g))"
    "(\<And>rows. pe_permission_order env rows = rows) \<Longrightarrow> fst (identities (read_graph env db)) = fst (identities g)"
proof -
  have ok: "pg_ok db" and wf: "wf_store g" and look: "\<And>k. lookup g k = view env db k"
    using assms(1) unfolding mirrors_def by blast+
  have read: "lookup (read_graph env db) k = map_option (shown_as env db k) (view env db k)" for k
    by (rule lookup_read_graph [OF ok assms(2)])
  have perms: "mset (permissions_in db (pe_permission_order env rows) k) = mset (permissions_in db rows k)" for rows k
    using assms(2) by (intro permissions_in_mset) (simp add: any_order_def)
  show "map tidy (fst (identities (read_graph env db))) = map tidy (fst (identities g))"
  proof (rule identities_same [OF wf_read_graph wf])
    fix k show "map_option (tidy \<circ> chronological) (lookup (read_graph env db) k) = map_option (tidy \<circ> chronological) (lookup g k)"
      by (auto simp: read look view_def shown_as_def tidy_def chronological_def events_in_sorted perms map_option_case split: option.split)
  qed
  assume same: "\<And>rows. pe_permission_order env rows = rows"
  have "map (\<lambda>i. i) (fst (identities (read_graph env db))) = map (\<lambda>i. i) (fst (identities g))"
  proof (rule identities_same [OF wf_read_graph wf])
    fix k show "map_option ((\<lambda>i. i) \<circ> chronological) (lookup (read_graph env db) k) = map_option ((\<lambda>i. i) \<circ> chronological) (lookup g k)"
      by (auto simp: read look view_def shown_as_def chronological_def events_in_sorted same map_option_case split: option.split)
  qed
  then show "fst (identities (read_graph env db)) = fst (identities g)" by simp
qed


definition connected :: pg_env where
  "connected = sample_pg_env (\<lambda>_. False)"

definition stored_agent :: identity where
  "stored_agent = (new_identity ''agent:a'' False)\<lparr>i_type := IdentityAgent, i_on_behalf_of := [''user:u''],
     i_permissions := [\<lparr>p_name = ''deploy'', p_admin = True, p_used = False, p_actions = [''iam:PassRole''], p_arn = []\<rparr>]\<rparr>"

definition stored_login :: event where
  "stored_login = \<lparr>e_time = 1500, e_zone = 0, e_identity = ''agent:a'', e_type = ''login'', e_outcome = ''success'', e_ip = [],
     e_city = [], e_country = [], e_lat = 0, e_lon = 0, e_device = [], e_resource = [], e_severity = [], e_source = ''scopyx''\<rparr>"

lemma connected_env: "any_order connected" "\<forall>n. \<not> pe_fails connected n" "pe_permission_order connected rows = rows"
  by (simp_all add: connected_def sample_pg_env_def any_order_def)


lemma entries_other: "k \<notin> i_id ` set ids \<Longrightarrow> (\<And>i. i \<in> set ids \<Longrightarrow> distinct (map p_name (i_permissions i))) \<Longrightarrow>
    view env (fold (put_entry env) ids db) k = view env db k"
  by (induction ids arbitrary: db) (simp_all add: view_put_entry)

lemma entries_events: "t_events (fold (put_entry env) ids db) = t_events db"
  by (induction ids arbitrary: db) (simp_all add: put_entry_tables)

lemma entries_view:
  assumes "distinct (map i_id ids)" "\<And>i. i \<in> set ids \<Longrightarrow> distinct (map p_name (i_permissions i))" "i \<in> set ids"
  shows "view env (fold (put_entry env) ids db) (i_id i) =
    Some ((base (i_id i) (case map_of (t_identities db) (i_id i) of
          None \<Rightarrow> row_of_identity env i | Some old \<Rightarrow> merge_row (row_of_identity env i) old))
      \<lparr>i_on_behalf_of := i_on_behalf_of i, i_models := i_models i, i_permissions := i_permissions i,
       i_events := events_in env (t_events db) (i_id i)\<rparr>)"
  using assms
proof (induction ids arbitrary: db)
  case (Cons a ids)
  show ?case
  proof (cases "i = a")
    case True
    have "i_id a \<notin> i_id ` set ids" using Cons.prems(1) by simp
    with Cons.prems(2) show ?thesis unfolding True by (simp add: entries_other view_put_entry)
  next
    case False
    then have i: "i \<in> set ids" using Cons.prems(3) by simp
    then have ne: "i_id i \<noteq> i_id a" using Cons.prems(1) by (auto simp: image_iff)
    have "map_of (t_identities (put_entry env a db)) (i_id i) = map_of (t_identities db) (i_id i)"
      using ne by (simp add: put_entry_tables update_conv')
    with Cons.IH [of "put_entry env a db"] Cons.prems i show ?thesis by (simp add: put_entry_tables)
  qed
qed simp

lemma shown_grants:
  assumes "any_order env" "view env db k = Some i"
  shows "mset (i_permissions (shown_as env db k i)) = mset (i_permissions i)"
proof -
  have "mset (permissions_in db (pe_permission_order env (t_permissions db)) k) = mset (permissions_in db (t_permissions db) k)"
    using assms(1) by (intro permissions_in_mset) (simp add: any_order_def)
  with assms(2) show ?thesis by (auto simp: view_def shown_as_def)
qed


text \<open>
  A Passport of an agent whose grants are stored: in the store it is merged into the agent, in the database
  it removes every grant and the chain.
\<close>

definition stored_passport :: identity where
  "stored_passport = (new_identity ''agent:a'' False)\<lparr>i_type := IdentityAgent, i_owner := ''team''\<rparr>"


lemma passport_merges_in_memory:
  "map_option (\<lambda>j. (map p_name (i_permissions j), i_on_behalf_of j))
     (lookup (add_identity stored_passport (add_identity stored_agent (new_store []))) ''agent:a'') = Some ([''deploy''], [''user:u''])"
  by code_simp

section \<open>The source of an event\<close>

text \<open>No column holds it, so the detectors that rest on it are silent on every graph read from the database.\<close>

lemma snapshot_sources:
  assumes "pg_ok db" "any_order env" "i \<in> set (fst (identities (read_graph env db)))" "e \<in> set (i_events i)"
  shows "e_source e = []"
proof -
  from assms(3) obtain k j where k: "(k, j) \<in> set (s_identities (read_graph env db))" and i: "i = chronological j"
    by (auto simp: identities_def Let_def sort_events_def)
  have "distinct (map fst (s_identities (read_graph env db)))" using wf_read_graph [of env db] by (simp add: wf_store_def)
  with k have "lookup (read_graph env db) k = Some j" by (simp add: lookup_def)
  with lookup_read_graph [OF assms(1,2), of k] obtain v where "j = shown_as env db k v"
    by (cases "view env db k") auto
  with assms(4) i show ?thesis by (auto simp: chronological_def shown_as_def events_in_def event_of_row_def)
qed

lemma silent_over_database:
  assumes "pg_ok db" "any_order env" "ids = fst (identities (read_graph env db))"
  shows "claimed_agent_unattested t ids = [] \<and> unrouted_egress t ids = []"
proof -
  have src: "e_source e = []" if "i \<in> set ids" "e \<in> set (i_events i)" for i e
    using snapshot_sources [OF assms(1,2)] that assms(3) by blast
  have gov: "set (governed_ids ids) \<subseteq> set ids" by (auto simp: governed_ids_def)
  have "\<not> carries_bus_evidence ids" using src gov by (auto simp: carries_bus_evidence_def list_ex_iff)
  moreover have "governed_agents ids = []"
    using src gov by (auto simp: governed_agents_def list_ex_iff enforced_def EnforcementSource_def filter_empty_conv)
  ultimately show ?thesis by (simp add: claimed_agent_unattested_def unrouted_egress_def Let_def)
qed

end
