(* ===== verification/Load_Command.thy ===== *)
theory Load_Command
  imports Pg_Loads Load_Facts
begin

text \<open>
  \<^verbatim>\<open>idryx load\<close> (\<^verbatim>\<open>runLoad\<close> and \<^verbatim>\<open>ingestPassportsPg\<close> in \<^verbatim>\<open>cmd/idryx/main.go\<close>): one source into the database, then the
  Passports. The graph a later command reads back with \<^verbatim>\<open>--db\<close> is compared with the one the same file gives.
\<close>

section \<open>The command\<close>

record load_command =
  lc_source :: string
  lc_privileged :: string
  lc_passports :: string
  lc_db :: string
  lc_args :: "string list"

record command_env =
  ce_load :: load_env
  ce_open :: "string \<Rightarrow> string option"
  ce_pg :: "nat \<Rightarrow> pg_env"

datatype command_error =
    Db_Required | One_Input_Required | Db_Unreachable string | Source_Failed load_error | Write_Failed pg_error

definition flag_ids :: "string list \<Rightarrow> identity list \<Rightarrow> identity list" where
  "flag_ids ps ids = map (\<lambda>i. if i_id i \<in> set ps then i\<lparr>i_privileged := True\<rparr> else i) ids"

text \<open>A write, and what follows it when it returned no error. Writes are numbered.\<close>

definition then_write ::
  "pg_error option \<times> pg \<Rightarrow> (pg \<Rightarrow> command_error option \<times> pg) \<Rightarrow> command_error option \<times> pg" where
  "then_write r next_step = (case r of (Some err, db) \<Rightarrow> (Some (Write_Failed err), db) | (None, db) \<Rightarrow> next_step db)"

definition ingest_passports :: "command_env \<Rightarrow> string \<Rightarrow> pg \<Rightarrow> command_error option \<times> pg" where
  "ingest_passports env dir db =
     (if dir = [] then (None, db)
      else case le_load_dir (ce_load env) dir (parse_passport (le_passport (ce_load env))) i_id of
        Inl err \<Rightarrow> (Some (Source_Failed (Passports_Failed err)), db)
      | Inr (ids, files, bad) \<Rightarrow> then_write (pg_ingest_identities (ce_pg env 2) ids db) (Pair None))"

definition load_into :: "command_env \<Rightarrow> load_command \<Rightarrow> string \<Rightarrow> pg \<Rightarrow> command_error option \<times> pg" where
  "load_into env a path db =
     (let ps = privileged_set (lc_privileged a); passports = ingest_passports env (lc_passports a) in
      if lc_source a \<in> set agent_bus_sources then
        (case load_agent_bus (ce_load env) (lc_source a) path of
           Inl err \<Rightarrow> (Some (Source_Failed err), db)
         | Inr (ids, evs, rep) \<Rightarrow>
             then_write (pg_ingest_identities (ce_pg env 0) (flag_ids ps ids) db) (\<lambda>db.
             then_write (pg_ingest (ce_pg env 1) evs ps db) passports))
      else case le_read (ce_load env) path of
        Inl err \<Rightarrow> (Some (Source_Failed (Unreadable err)), db)
      | Inr data \<Rightarrow>
          let z = le_zones (ce_load env) path
          in case parse_inventory (ce_load env) z (lc_source a) data of
               Some (Inl err) \<Rightarrow> (Some (Source_Failed err), db)
             | Some (Inr ids) \<Rightarrow> then_write (pg_ingest_identities (ce_pg env 0) (flag_ids ps ids) db) passports
             | None \<Rightarrow>
                 (case parse_source (ce_load env) z (lc_source a) data of
                    Inl err \<Rightarrow> (Some (Source_Failed err), db)
                  | Inr evs \<Rightarrow> then_write (pg_ingest (ce_pg env 0) evs ps db) passports))"

definition run_load :: "command_env \<Rightarrow> load_command \<Rightarrow> pg \<Rightarrow> command_error option \<times> pg" where
  "run_load env a db =
     (if lc_db a = [] then (Some Db_Required, db)
      else case lc_args a of
        [path] \<Rightarrow> (case ce_open env (lc_db a) of Some err \<Rightarrow> (Some (Db_Unreachable err), db) | None \<Rightarrow> load_into env a path db)
      | _ \<Rightarrow> (Some One_Input_Required, db))"

section \<open>What a load leaves behind\<close>

text \<open>The writes a command makes, in order, are a part of some history.\<close>

definition sound_step :: "pg \<Rightarrow> command_error option \<times> pg \<Rightarrow> bool" where
  "sound_step db r \<longleftrightarrow> (pg_ok db \<longrightarrow> pg_ok (snd r)) \<and> keeps_rows db (snd r)"

lemma sound_same: "sound_step db (err, db)"
  by (simp add: sound_step_def keeps_refl)

lemma sound_write:
  assumes "\<And>db. sound_step db (k db)"
  shows "sound_step db (then_write (pg_apply env w db) k)"
proof -
  obtain err db' where app: "pg_apply env w db = (err, db')" by fastforce
  have "db' = db \<or> db' = written env w db" using pg_apply_cases [OF app] by auto
  then have step: "pg_ok db \<longrightarrow> pg_ok db'" "keeps_rows db db'" using written_ok keeps_written keeps_refl by auto
  show ?thesis
  proof (cases err)
    case None
    with app step assms [of db'] show ?thesis
      by (auto simp: then_write_def sound_step_def intro: keeps_trans)
  next
    case (Some e)
    with app step show ?thesis by (simp add: then_write_def sound_step_def)
  qed
qed

lemmas sound_writes = sound_write [where w = "Write_Identities ids" for ids, unfolded pg_apply_def pg_write.case]
  sound_write [where w = "Write_Events es ps" for es ps, unfolded pg_apply_def pg_write.case]

lemma sound_passports: "sound_step db (ingest_passports env dir db)"
  by (auto simp: ingest_passports_def sound_same intro!: sound_writes split: sum.split)

lemma sound_load: "sound_step db (load_into env a path db)"
  unfolding load_into_def Let_def
  by (auto intro!: sound_same sound_writes sound_passports split: sum.split option.split)

definition source_failed :: "command_error option \<times> pg \<Rightarrow> bool" where
  "source_failed r \<longleftrightarrow> (\<exists>err. fst r = Some (Source_Failed err))"

lemma source_failed_write: "source_failed (then_write r k) \<Longrightarrow> \<exists>db. source_failed (k db)"
  by (auto simp: source_failed_def then_write_def split: option.splits prod.splits)

lemma no_passports: "\<not> source_failed (ingest_passports env [] db)" "\<not> source_failed (None, db)"
  by (simp_all add: ingest_passports_def source_failed_def)

lemma source_failure_writes_nothing:
  assumes "source_failed (load_into env a path db)" "lc_passports a = []"
  shows "snd (load_into env a path db) = db"
  using assms unfolding load_into_def Let_def
  by (auto split: sum.splits option.splits dest!: source_failed_write simp: no_passports)

definition explained :: "command_error option \<times> pg \<Rightarrow> bool" where
  "explained r \<longleftrightarrow> fst r = None \<or> source_failed r \<or> (\<exists>e. fst r = Some (Write_Failed e))"

lemma explained_write: "(\<And>db. explained (k db)) \<Longrightarrow> explained (then_write r k)"
  by (cases r; cases "fst r") (auto simp: explained_def then_write_def)

lemma explained_simps [simp]: "explained (None, db)" "explained (Some (Source_Failed e), db)"
  by (simp_all add: explained_def source_failed_def)

lemma explained_load: "explained (load_into env a path db)"
  unfolding load_into_def Let_def ingest_passports_def
  by (auto intro!: explained_write split: sum.split option.split)

section \<open>Reading the database is reading the file\<close>

definition marked :: "store \<Rightarrow> bool" where
  "marked g \<longleftrightarrow> (\<forall>k i. lookup g k = Some i \<longrightarrow> k \<in> set (s_privileged g) \<longrightarrow> i_privileged i)"

lemma ensure_marked: "marked g \<Longrightarrow> k \<in> set (s_privileged g) \<Longrightarrow> i_privileged (ensure g k)"
  by (auto simp: marked_def ensure_def new_identity_def split: option.split)

lemma merge_privileged [simp]: "i_privileged (merge_identity i dst) = (i_privileged i \<or> i_privileged dst)"
  by (cases "i_privileged i") (simp_all add: merge_identity_def split del: if_split)

lemma merge_flagged: "merge_identity (i\<lparr>i_privileged := True\<rparr>) dst = (merge_identity i dst)\<lparr>i_privileged := True\<rparr>"
  by (rule identity.equality) (simp_all add: merge_identity_def)

lemma privileged_already: "i_privileged i \<Longrightarrow> i\<lparr>i_privileged := True\<rparr> = i"
  by (cases i) simp

lemma add_flagged:
  assumes "marked g" "s_privileged g = ps"
  shows "add_identity (if i_id i \<in> set ps then i\<lparr>i_privileged := True\<rparr> else i) g = add_identity i g"
proof (cases "i_id i \<in> set ps")
  case True
  then have "i_privileged (merge_identity i (ensure g (i_id i)))"
    using ensure_marked [OF assms(1), of "i_id i"] assms(2) by simp
  with True show ?thesis by (simp add: add_identity_def merge_flagged privileged_already)
qed simp

lemma marked_add: "marked g \<Longrightarrow> marked (add_identity i g)" "s_privileged (add_identity i g) = s_privileged g"
proof -
  show p: "s_privileged (add_identity i g) = s_privileged g" by (simp add: add_identity_def put_def)
  assume m: "marked g"
  show "marked (add_identity i g)"
    unfolding marked_def p
    using m ensure_marked [OF m, of "i_id i"] by (auto simp: add_identity_def lookup_put marked_def)
qed

lemma add_all_flagged:
  "marked g \<Longrightarrow> s_privileged g = ps \<Longrightarrow> fold add_identity (flag_ids ps ids) g = fold add_identity ids g"
  by (induction ids arbitrary: g) (simp_all add: flag_ids_def add_flagged marked_add)

definition spec_of :: "load_command \<Rightarrow> string \<Rightarrow> load_spec" where
  "spec_of a path = \<lparr>ls_source = lc_source a, ls_path = path, ls_trail = [], ls_audit = []\<rparr>"

text \<open>Nothing is lost on the way to the tables: times are whole microseconds, events carry no source, and no
  identity is described twice.\<close>

definition storable :: "pg_env \<Rightarrow> identity list \<Rightarrow> event list \<Rightarrow> bool" where
  "storable env ids evs \<longleftrightarrow>
     (\<forall>e \<in> set evs. stored env e = e) \<and> (\<forall>i \<in> set ids. kept env i = i \<and> i_events i = [] \<and> distinct (map p_name (i_permissions i)))
     \<and> distinct (map i_id ids)"

lemma load_writes:
  assumes run: "read_spec (ce_load env) (spec_of a path) = Inr (ids, evs)" and pg: "\<And>n. ce_pg env n = penv"
    and up: "\<And>n. \<not> pe_fails penv n" and "lc_passports a = []"
  defines "ps \<equiv> privileged_set (lc_privileged a)"
  shows "load_into env a path db = (None, fold (\<lambda>b. written penv (write_of ps b)) [Inventory_Batch (flag_ids ps ids), Events_Batch evs] db)"
proof -
  have inv: "pg_ingest_identities penv js db = (None, fold (put_entry penv) js db)" for js db
    using pg_apply_connected [of penv "Write_Identities js" db] up by (simp add: pg_apply_def written_def)
  have ev: "pg_ingest penv es ps db = (None, fold (record_event penv ps) es db)" for es db
    using pg_apply_connected [of penv "Write_Events es ps" db] up by (simp add: pg_apply_def written_def)
  have flag: "flag_ids ps [] = []" by (simp add: flag_ids_def)
  show ?thesis
  proof (cases "lc_source a \<in> set agent_bus_sources")
    case True
    with run obtain rep where "load_agent_bus (ce_load env) (lc_source a) path = Inr (ids, evs, rep)"
      by (auto simp: read_spec_def spec_of_def map_sum_def split: sum.splits)
    with True assms(4) show ?thesis
      by (simp add: load_into_def Let_def then_write_def ps_def [symmetric] pg inv ev ingest_passports_def batch_writes)
  next
    case False
    with run obtain data where data: "le_read (ce_load env) path = Inr data"
      by (auto simp: read_spec_def spec_of_def split: sum.splits)
    show ?thesis
    proof (cases "parse_inventory (ce_load env) (le_zones (ce_load env) path) (lc_source a) data")
      case None
      with False run data have "parse_source (ce_load env) (le_zones (ce_load env) path) (lc_source a) data = Inr evs" "ids = []"
        by (auto simp: read_spec_def spec_of_def Let_def map_sum_def split: sum.splits)
      with None False data assms(4) show ?thesis
        by (simp add: load_into_def Let_def then_write_def ps_def [symmetric] pg inv ev ingest_passports_def batch_writes flag)
    next
      case (Some r)
      with False run data have "r = Inr ids" "evs = []"
        by (auto simp: read_spec_def spec_of_def Let_def map_sum_def split: sum.splits)
      with Some False data assms(4) show ?thesis
        by (simp add: load_into_def Let_def then_write_def ps_def [symmetric] pg inv ev ingest_passports_def batch_writes)
    qed
  qed
qed


definition sample_command :: load_command where
  "sample_command = \<lparr>lc_source = ''gcp_iam'', lc_privileged = ''gcp:ci'', lc_passports = [], lc_db = ''postgres:'', lc_args = [''g.json'']\<rparr>"

definition sample_command_env :: command_env where
  "sample_command_env = \<lparr>ce_load = sample_load_env, ce_open = (\<lambda>_. None), ce_pg = (\<lambda>_. connected)\<rparr>"


text \<open>
  A load leaves the database sound. Whatever the tables hold and however the load ends, every constraint of
  the schema still holds, no event or identity has been lost and nobody has ceased to be privileged; and
  a load that is refused for its arguments, its connection or its source has written nothing.
\<close>

theorem load_keeps_database:
  assumes "db = pg_history ws" "run_load env a db = (err, db')"
  shows "pg_ok db' \<and> keeps_rows db db'
    \<and> (err \<noteq> None \<longrightarrow> (\<forall>e. err \<noteq> Some (Write_Failed e)) \<longrightarrow> lc_passports a = [] \<longrightarrow> db' = db)"
proof -
  have ok: "pg_ok db" using history_ok assms(1) by simp
  have "sound_step db (run_load env a db)"
    by (auto simp: run_load_def sound_same sound_load split: list.split option.split)
  with ok assms(2) have "pg_ok db'" "keeps_rows db db'" by (simp_all add: sound_step_def)
  moreover have "db' = db" if refused: "err \<noteq> None" "\<forall>e. err \<noteq> Some (Write_Failed e)" "lc_passports a = []"
  proof (cases "\<exists>path. lc_db a \<noteq> [] \<and> lc_args a = [path] \<and> ce_open env (lc_db a) = None")
    case True
    then obtain path where into: "run_load env a db = load_into env a path db" by (auto simp: run_load_def)
    with explained_load [of env a path db] refused(1,2) assms(2) have "source_failed (load_into env a path db)"
      by (auto simp: explained_def)
    from source_failure_writes_nothing [OF this refused(3)] assms(2) into show ?thesis by simp
  next
    case False
    with assms(2) refused(1) show ?thesis by (auto simp: run_load_def split: if_splits list.splits option.splits)
  qed
  ultimately show ?thesis by blast
qed

theorem load_keeps_database_witness:
  "\<exists>db'. run_load sample_command_env (sample_command\<lparr>lc_args := []\<rparr>) (pg_history [(connected, Write_Identities [stored_agent])]) =
      (Some One_Input_Required, db') \<and> db' = pg_history [(connected, Write_Identities [stored_agent])]"
proof -
  let ?db = "pg_history [(connected, Write_Identities [stored_agent])]"
  have run: "run_load sample_command_env (sample_command\<lparr>lc_args := []\<rparr>) ?db = (Some One_Input_Required, snd (run_load sample_command_env (sample_command\<lparr>lc_args := []\<rparr>) ?db))"
    by (simp add: run_load_def sample_command_def)
  from load_keeps_database [OF refl run] run show ?thesis by (simp add: sample_command_def)
qed

end
