(* ===== verification/Dashboard.thy ===== *)
theory Dashboard
  imports Pg_Store Report_Out
begin

text \<open>
  The read-only server (\<^verbatim>\<open>internal/server/server.go\<close>): the rows of its JSON routes over one version of the graph
  and its alerts, and the lock that lets \<^verbatim>\<open>Replace\<close> exchange the version under running requests. The HTTP
  package and the page of \<^verbatim>\<open>dashboard.go\<close> are not modelled.
\<close>

section \<open>The rows\<close>

record server =
  sv_graph :: "identity list"
  sv_alerts :: "alert list"
  sv_stored :: "stored_remediation list option"

definition api_alert :: "alert \<Rightarrow> json_alert" where
  "api_alert a =
     \<lparr>ja_detector = a_detector a, ja_identity = a_identity a, ja_severity = severity_string (a_severity a),
      ja_time = format_seconds (a_time a), ja_summary = a_summary a\<rparr>"

definition rank_of :: "string \<Rightarrow> nat" where
  "rank_of s =
     (if s = ''critical'' then 5 else if s = ''high'' then 4 else if s = ''medium'' then 3
      else if s = ''low'' then 2 else if s = ''info'' then 1 else 0)"

definition row_before :: "json_alert \<Rightarrow> json_alert \<Rightarrow> bool" where
  "row_before a b =
     (if ja_severity a \<noteq> ja_severity b then rank_of (ja_severity a) > rank_of (ja_severity b) else ja_time a < ja_time b)"

definition alerts_json :: "server \<Rightarrow> json_alert list" where
  "alerts_json sv = slice_stable row_before (map api_alert (sv_alerts sv))"

text \<open>\<^verbatim>\<open>Format("2006-01-02 15:04:05 UTC")\<close>, and nothing for the zero time.\<close>

definition format_utc :: "int \<Rightarrow> string" where
  "format_utc t = (let c = civil_of t in date_text c @ '' '' @ clock_text c @ '' UTC'')"

definition shown_time :: "int \<Rightarrow> string" where
  "shown_time t = (if is_zero t then [] else format_utc t)"

record api_remediation =
  am_kind :: string
  am_explanation :: string
  am_code :: string
  am_created :: string

record api_recommendation = api_remediation +
  am_identity :: string

record api_identity =
  ai_id :: string
  ai_type :: string
  ai_privileged :: bool
  ai_source :: string
  ai_owner :: string
  ai_created :: string
  ai_last_used :: string
  ai_runtime :: string
  ai_chain :: "string list"
  ai_permissions :: "(string \<times> bool \<times> bool) list"
  ai_remediation :: "api_remediation option"
  ai_rotation :: "api_remediation option"
  ai_events :: nat
  ai_alerts :: nat

text \<open>The stored times by identity and kind; a later record of the same pair overwrites an earlier one.\<close>

definition stored_times :: "server \<Rightarrow> (string \<times> string) list" where
  "stored_times sv =
     foldl (\<lambda>m r. if is_zero (sr_created r) then m
                  else AList.update (rc_identity (sr_recommendation r) @ [CHR 0x00] @ rc_kind (sr_recommendation r))
                         (format_utc (sr_created r)) m)
       [] (case sv_stored sv of None \<Rightarrow> [] | Some rs \<Rightarrow> rs)"

definition with_stored_time :: "(string \<times> string) list \<Rightarrow> recommendation \<Rightarrow> api_remediation" where
  "with_stored_time stamps r =
     \<lparr>am_kind = rc_kind r, am_explanation = rc_explanation r, am_code = rc_code r,
      am_created = (case map_of stamps (rc_identity r @ [CHR 0x00] @ rc_kind r) of Some t \<Rightarrow> t | None \<Rightarrow> [])\<rparr>"

definition alert_count :: "server \<Rightarrow> string \<Rightarrow> nat" where
  "alert_count sv k = length (filter (\<lambda>a. a_identity a = k) (sv_alerts sv))"

definition identity_json :: "int \<Rightarrow> server \<Rightarrow> identity \<Rightarrow> api_identity" where
  "identity_json t sv i =
     \<lparr>ai_id = i_id i, ai_type = (if i_type i = [] then ''human'' else i_type i), ai_privileged = i_privileged i,
      ai_source = i_source i, ai_owner = i_owner i, ai_created = shown_time (i_created i),
      ai_last_used = shown_time (i_last_used i), ai_runtime = i_runtime i, ai_chain = i_on_behalf_of i,
      ai_permissions = map (\<lambda>p. (p_name p, p_admin p, p_used p)) (i_permissions i),
      ai_remediation = map_option (with_stored_time (stored_times sv)) (generate i),
      ai_rotation = map_option (with_stored_time (stored_times sv)) (generate_rotation t i),
      ai_events = length (i_events i), ai_alerts = alert_count sv (i_id i)\<rparr>"

definition identities_json :: "int \<Rightarrow> server \<Rightarrow> api_identity list" where
  "identities_json t sv = map (identity_json t sv) (sv_graph sv)"

definition flat_row :: "string \<Rightarrow> recommendation \<Rightarrow> api_recommendation" where
  "flat_row created r =
     \<lparr>am_kind = rc_kind r, am_explanation = rc_explanation r, am_code = rc_code r, am_created = created,
      am_identity = rc_identity r\<rparr>"

definition remediations_json :: "int \<Rightarrow> server \<Rightarrow> api_recommendation list" where
  "remediations_json t sv =
     (case sv_stored sv of
        Some rs \<Rightarrow> map (\<lambda>r. flat_row (shown_time (sr_created r)) (sr_recommendation r)) rs
      | None \<Rightarrow> concat (map (\<lambda>i. List.map_filter (map_option (flat_row [])) [generate i, generate_rotation t i]) (sv_graph sv)))"

section \<open>What the rows say\<close>

lemma insert_stable_mset: "mset (insert_stable lt x ys) = add_mset x (mset ys)"
  by (induction ys) auto

lemma slice_stable_mset: "mset (slice_stable lt xs) = mset xs"
  unfolding slice_stable_def by (induction xs) (simp_all add: insert_stable_mset)

lemma rank_string: "rank_of (severity_string s) = severity_rank s"
  by (cases s) (simp_all add: rank_of_def)

definition row_key :: "json_alert \<Rightarrow> int \<times> string" where
  "row_key a = (- int (rank_of (ja_severity a)), ja_time a)"

definition of_severity :: "json_alert \<Rightarrow> bool" where
  "of_severity a \<longleftrightarrow> ja_severity a \<in> range severity_string"

lemma row_before_key: "of_severity a \<Longrightarrow> of_severity b \<Longrightarrow> row_before a b \<longleftrightarrow> row_key a < row_key b"
  by (auto simp: of_severity_def row_before_def row_key_def rank_string less_prod_def' severity_string_inj rank_inj)

lemma insert_row_key: "of_severity x \<Longrightarrow> list_all of_severity ys \<Longrightarrow> insert_stable row_before x ys = insort_key row_key x ys"
  by (induction ys) (auto simp: row_before_key not_le)

lemma alerts_json_key: "alerts_json sv = sort_key row_key (map api_alert (sv_alerts sv))"
proof -
  have "foldr (insert_stable row_before) xs [] = foldr (insort_key row_key) xs []" if "list_all of_severity xs" for xs
    using that
  proof (induction xs)
    case (Cons x xs)
    have "list_all of_severity (foldr (insort_key row_key) xs [])"
      using Cons.prems by (simp add: sort_key_def [symmetric] list_all_iff)
    with Cons show ?case by (simp add: insert_row_key)
  qed simp
  moreover have "list_all of_severity (map api_alert (sv_alerts sv))"
    by (auto simp: list_all_iff of_severity_def api_alert_def)
  ultimately show ?thesis by (simp add: alerts_json_def slice_stable_def sort_key_def)
qed

lemma count_alerts: "distinct ks \<Longrightarrow> sum_list (map (\<lambda>k. length (filter (\<lambda>a. f a = k) as)) ks) = length (filter (\<lambda>a. f a \<in> set ks) as)"
proof (induction ks)
  case (Cons k ks)
  have "length (filter (\<lambda>a. f a = k) as) + length (filter (\<lambda>a. f a \<in> set ks) as) = length (filter (\<lambda>a. f a = k \<or> f a \<in> set ks) as)"
    using Cons.prems by (induction as) auto
  with Cons show ?case by simp
qed simp

text \<open>
  The dashboard shows the whole run and nothing else. Its alert rows are those of the alerts, each once, from
  the most to the least severe and by time within a severity; there is one identity row per identity, in
  the graph's order, and the alert counts over distinct identities of the graph add up to all its alerts;
  and the remediation rows are exactly the recommendations \<^verbatim>\<open>idryx remediate\<close> prints for the same graph,
  unless stored ones are served, which then are shown in their order, none left out.
\<close>

theorem dashboard_complete:
  "mset (alerts_json sv) = mset (map api_alert (sv_alerts sv))
   \<and> sorted_wrt (\<lambda>a b. rank_of (ja_severity b) < rank_of (ja_severity a)
        \<or> rank_of (ja_severity b) = rank_of (ja_severity a) \<and> ja_time a \<le> ja_time b) (alerts_json sv)
   \<and> map ai_id (identities_json t sv) = map i_id (sv_graph sv)
   \<and> (distinct (map i_id (sv_graph sv)) \<longrightarrow> (\<forall>a \<in> set (sv_alerts sv). a_identity a \<in> i_id ` set (sv_graph sv)) \<longrightarrow>
        sum_list (map ai_alerts (identities_json t sv)) = length (sv_alerts sv))
   \<and> map am_identity (remediations_json t sv) = (case sv_stored sv of
        None \<Rightarrow> map rc_identity (recommendations t (sv_graph sv)) | Some rs \<Rightarrow> map (rc_identity \<circ> sr_recommendation) rs)
   \<and> map am_code (remediations_json t sv) = (case sv_stored sv of
        None \<Rightarrow> map rc_code (recommendations t (sv_graph sv)) | Some rs \<Rightarrow> map (rc_code \<circ> sr_recommendation) rs)"
proof (intro conjI impI)
  show "mset (alerts_json sv) = mset (map api_alert (sv_alerts sv))" by (simp add: alerts_json_def slice_stable_mset)
  have "sorted_wrt (\<lambda>a b. row_key a \<le> row_key b) (alerts_json sv)"
    using sorted_sort_key [of row_key "map api_alert (sv_alerts sv)"] by (simp add: alerts_json_key sorted_map)
  then show "sorted_wrt (\<lambda>a b. rank_of (ja_severity b) < rank_of (ja_severity a)
        \<or> rank_of (ja_severity b) = rank_of (ja_severity a) \<and> ja_time a \<le> ja_time b) (alerts_json sv)"
    by (rule sorted_wrt_mono_rel [rotated]) (auto simp: row_key_def less_eq_prod_def)
  show "map ai_id (identities_json t sv) = map i_id (sv_graph sv)" by (simp add: identities_json_def identity_json_def)
  have flat: "map f (remediations_json t sv) = (case sv_stored sv of
        None \<Rightarrow> map g (recommendations t (sv_graph sv)) | Some rs \<Rightarrow> map (g \<circ> sr_recommendation) rs)"
    if "\<And>c r. f (flat_row c r) = g r" for f :: "api_recommendation \<Rightarrow> string" and g
  proof -
    have "List.map_filter (map_option (flat_row [])) xs = map (flat_row []) (List.map_filter id xs)" for xs
      by (induction xs) (auto simp: List.map_filter_simps split: option.split)
    then have "concat (map (\<lambda>i. List.map_filter (map_option (flat_row [])) [generate i, generate_rotation t i]) ids) =
        map (flat_row []) (recommendations t ids)" for ids
      by (induction ids) (simp_all add: recommendations_def del: List.map_filter_simps)
    then show ?thesis
      by (cases "sv_stored sv") (simp_all add: remediations_json_def that comp_def del: List.map_filter_simps)
  qed
  show "map am_identity (remediations_json t sv) = (case sv_stored sv of
        None \<Rightarrow> map rc_identity (recommendations t (sv_graph sv)) | Some rs \<Rightarrow> map (rc_identity \<circ> sr_recommendation) rs)"
    "map am_code (remediations_json t sv) = (case sv_stored sv of
        None \<Rightarrow> map rc_code (recommendations t (sv_graph sv)) | Some rs \<Rightarrow> map (rc_code \<circ> sr_recommendation) rs)"
    by (rule flat, simp add: flat_row_def)+
next
  assume "distinct (map i_id (sv_graph sv))" "\<forall>a \<in> set (sv_alerts sv). a_identity a \<in> i_id ` set (sv_graph sv)"
  then show "sum_list (map ai_alerts (identities_json t sv)) = length (sv_alerts sv)"
    using count_alerts [of "map i_id (sv_graph sv)" a_identity "sv_alerts sv"]
    by (simp add: identities_json_def identity_json_def alert_count_def comp_def)
qed

theorem dashboard_complete_witness:
  "sum_list (map ai_alerts (identities_json 0 \<lparr>sv_graph = [new_identity ''a'' False],
      sv_alerts = [mk_alert ''d'' ''a'' SeverityLow 0 [], mk_alert ''d'' ''a'' SeverityHigh 0 []], sv_stored = None\<rparr>)) = 2"
  using dashboard_complete [of "\<lparr>sv_graph = [new_identity ''a'' False],
      sv_alerts = [mk_alert ''d'' ''a'' SeverityLow 0 [], mk_alert ''d'' ''a'' SeverityHigh 0 []], sv_stored = None\<rparr>" 0]
  by (simp add: new_identity_def mk_alert_def)

end
