(* ===== verification/Dashboard_Conc.thy ===== *)
theory Dashboard_Conc
  imports Dashboard
begin

text \<open>
  Requests and refreshes of a running server: a step relation over any number of goroutines, each a request
  that takes the read lock and reads the fields one at a time, or an update that takes the write lock and
  sets them one at a time (\<^verbatim>\<open>Replace\<close>, \<^verbatim>\<open>SetRemediations\<close>). The mutex is that of \<^verbatim>\<open>sync.RWMutex\<close>: a reader enters while no
  writer holds it, a writer while nobody does.
\<close>

section \<open>Goroutines\<close>

datatype route = Alerts_Route | Identities_Route | Remediations_Route

record seen_fields =
  vw_graph :: "identity list option"
  vw_alerts :: "alert list option"
  vw_stored :: "stored_remediation list option option"

definition nothing_seen :: seen_fields where
  "nothing_seen = \<lparr>vw_graph = None, vw_alerts = None, vw_stored = None\<rparr>"

datatype field = Graph_Field | Alerts_Field | Stored_Field

text \<open>The field a handler reads next, in the order of its code.\<close>

definition next_field :: "route \<Rightarrow> seen_fields \<Rightarrow> field option" where
  "next_field r v =
     (case r of
        Alerts_Route \<Rightarrow> if vw_alerts v = None then Some Alerts_Field else None
      | Identities_Route \<Rightarrow>
          if vw_alerts v = None then Some Alerts_Field else if vw_graph v = None then Some Graph_Field
          else if vw_stored v = None then Some Stored_Field else None
      | Remediations_Route \<Rightarrow>
          if vw_stored v = None then Some Stored_Field
          else if vw_stored v = Some None \<and> vw_graph v = None then Some Graph_Field else None)"

definition read_field :: "field \<Rightarrow> server \<Rightarrow> seen_fields \<Rightarrow> seen_fields" where
  "read_field f sv v =
     (case f of
        Graph_Field \<Rightarrow> v\<lparr>vw_graph := Some (sv_graph sv)\<rparr>
      | Alerts_Field \<Rightarrow> v\<lparr>vw_alerts := Some (sv_alerts sv)\<rparr>
      | Stored_Field \<Rightarrow> v\<lparr>vw_stored := Some (sv_stored sv)\<rparr>)"

datatype answer =
    Alerts_Answer "json_alert list" | Identities_Answer "api_identity list" | Remediations_Answer "api_recommendation list"

definition answer_from :: "int \<Rightarrow> route \<Rightarrow> server \<Rightarrow> answer" where
  "answer_from t r sv =
     (case r of
        Alerts_Route \<Rightarrow> Alerts_Answer (alerts_json sv)
      | Identities_Route \<Rightarrow> Identities_Answer (identities_json t sv)
      | Remediations_Route \<Rightarrow> Remediations_Answer (remediations_json t sv))"

text \<open>What the handler computes from the fields it read; a field it did not read it does not use.\<close>

definition server_seen :: "seen_fields \<Rightarrow> server" where
  "server_seen v =
     \<lparr>sv_graph = (case vw_graph v of Some g \<Rightarrow> g | None \<Rightarrow> []), sv_alerts = (case vw_alerts v of Some a \<Rightarrow> a | None \<Rightarrow> []),
      sv_stored = (case vw_stored v of Some s \<Rightarrow> s | None \<Rightarrow> None)\<rparr>"

datatype goroutine =
    Idle
  | Reading route seen_fields
  | Answered int route answer
  | Replacing "identity list" "alert list"
  | Graph_Set "alert list"
  | Alerts_Set
  | Storing "stored_remediation list option"
  | Stored_Set

record process =
  pc_server :: server
  pc_readers :: "nat set"
  pc_writer :: "nat option"
  pc_versions :: "(identity list \<times> alert list) set"
  pc_recs :: "stored_remediation list option set"
  pc_threads :: "nat \<Rightarrow> goroutine"

text \<open>\<open>pc_versions\<close> and \<open>pc_recs\<close> record what was handed to \<^verbatim>\<open>New\<close>, \<^verbatim>\<open>Replace\<close> and \<^verbatim>\<open>SetRemediations\<close>, for the statements only.\<close>

definition started :: "identity list \<Rightarrow> alert list \<Rightarrow> process" where
  "started g as =
     \<lparr>pc_server = \<lparr>sv_graph = g, sv_alerts = as, sv_stored = None\<rparr>, pc_readers = {}, pc_writer = None,
      pc_versions = {(g, as)}, pc_recs = {None}, pc_threads = (\<lambda>_. Idle)\<rparr>"

definition becomes :: "nat \<Rightarrow> goroutine \<Rightarrow> process \<Rightarrow> process" where
  "becomes n th p = p\<lparr>pc_threads := (pc_threads p)(n := th)\<rparr>"

inductive request_step :: "process \<Rightarrow> process \<Rightarrow> bool" where
  read_lock: "pc_threads p n \<in> {Idle, Answered t' r' a} \<Longrightarrow> pc_writer p = None \<Longrightarrow>
    request_step p (becomes n (Reading r nothing_seen) (p\<lparr>pc_readers := insert n (pc_readers p)\<rparr>))"
| read_one: "pc_threads p n = Reading r v \<Longrightarrow> next_field r v = Some f \<Longrightarrow>
    request_step p (becomes n (Reading r (read_field f (pc_server p) v)) p)"
| answer: "pc_threads p n = Reading r v \<Longrightarrow> next_field r v = None \<Longrightarrow>
    request_step p (becomes n (Answered t r (answer_from t r (server_seen v))) (p\<lparr>pc_readers := pc_readers p - {n}\<rparr>))"
| replace_lock: "pc_threads p n = Idle \<Longrightarrow> pc_writer p = None \<Longrightarrow> pc_readers p = {} \<Longrightarrow>
    request_step p (becomes n (Replacing g as) (p\<lparr>pc_writer := Some n, pc_versions := insert (g, as) (pc_versions p)\<rparr>))"
| set_graph: "pc_threads p n = Replacing g as \<Longrightarrow>
    request_step p (becomes n (Graph_Set as) (p\<lparr>pc_server := (pc_server p)\<lparr>sv_graph := g\<rparr>\<rparr>))"
| set_alerts: "pc_threads p n = Graph_Set as \<Longrightarrow>
    request_step p (becomes n Alerts_Set (p\<lparr>pc_server := (pc_server p)\<lparr>sv_alerts := as\<rparr>\<rparr>))"
| replace_unlock: "pc_threads p n = Alerts_Set \<Longrightarrow> request_step p (becomes n Idle (p\<lparr>pc_writer := None\<rparr>))"
| store_lock: "pc_threads p n = Idle \<Longrightarrow> pc_writer p = None \<Longrightarrow> pc_readers p = {} \<Longrightarrow>
    request_step p (becomes n (Storing rs) (p\<lparr>pc_writer := Some n, pc_recs := insert rs (pc_recs p)\<rparr>))"
| set_stored: "pc_threads p n = Storing rs \<Longrightarrow>
    request_step p (becomes n Stored_Set (p\<lparr>pc_server := (pc_server p)\<lparr>sv_stored := rs\<rparr>\<rparr>))"
| store_unlock: "pc_threads p n = Stored_Set \<Longrightarrow> request_step p (becomes n Idle (p\<lparr>pc_writer := None\<rparr>))"

inductive serving :: "process \<Rightarrow> process \<Rightarrow> bool" for p where
  begin_serving: "serving p p"
| serve_on: "serving p q \<Longrightarrow> request_step q q' \<Longrightarrow> serving p q'"

section \<open>The invariant\<close>

definition writes :: "goroutine \<Rightarrow> bool" where
  "writes th \<longleftrightarrow> (case th of Idle \<Rightarrow> False | Reading r v \<Rightarrow> False | Answered t r a \<Rightarrow> False | _ \<Rightarrow> True)"

definition reads :: "goroutine \<Rightarrow> bool" where
  "reads th \<longleftrightarrow> (case th of Reading r v \<Rightarrow> True | _ \<Rightarrow> False)"

definition agrees :: "server \<Rightarrow> seen_fields \<Rightarrow> bool" where
  "agrees sv v \<longleftrightarrow> vw_graph v \<in> {None, Some (sv_graph sv)} \<and> vw_alerts v \<in> {None, Some (sv_alerts sv)}
     \<and> vw_stored v \<in> {None, Some (sv_stored sv)}"

text \<open>The fields form a version that was handed over as one.\<close>

definition published :: "process \<Rightarrow> server \<Rightarrow> bool" where
  "published p sv \<longleftrightarrow> (sv_graph sv, sv_alerts sv) \<in> pc_versions p \<and> sv_stored sv \<in> pc_recs p"

text \<open>What a goroutine in the middle of its work knows of the fields.\<close>

definition fits :: "process \<Rightarrow> goroutine \<Rightarrow> bool" where
  "fits p th \<longleftrightarrow>
     (case th of
        Reading r v \<Rightarrow> agrees (pc_server p) v
      | Answered t r a \<Rightarrow> \<exists>sv. published p sv \<and> a = answer_from t r sv
      | Replacing g as \<Rightarrow> (g, as) \<in> pc_versions p
      | Graph_Set as \<Rightarrow> (sv_graph (pc_server p), as) \<in> pc_versions p
      | Storing rs \<Rightarrow> rs \<in> pc_recs p
      | _ \<Rightarrow> True)"

definition sound :: "process \<Rightarrow> bool" where
  "sound p \<longleftrightarrow>
     (\<forall>n. writes (pc_threads p n) \<longleftrightarrow> pc_writer p = Some n)
     \<and> (\<forall>n. reads (pc_threads p n) \<longleftrightarrow> n \<in> pc_readers p)
     \<and> (pc_writer p = None \<or> pc_readers p = {})
     \<and> (\<forall>n. fits p (pc_threads p n))
     \<and> ((\<forall>n as. pc_threads p n \<noteq> Graph_Set as) \<longrightarrow> published p (pc_server p))
     \<and> sv_stored (pc_server p) \<in> pc_recs p"

lemma agrees_nothing: "agrees sv nothing_seen"
  by (simp add: agrees_def nothing_seen_def)

lemma agrees_read: "agrees sv v \<Longrightarrow> agrees sv (read_field f sv v)"
  by (cases f) (simp_all add: agrees_def read_field_def)

lemma answer_seen: "agrees sv v \<Longrightarrow> next_field r v = None \<Longrightarrow> answer_from t r (server_seen v) = answer_from t r sv"
  by (cases r)
    (auto simp: agrees_def next_field_def answer_from_def server_seen_def alerts_json_def identities_json_def
      identity_json_def [abs_def] stored_times_def alert_count_def remediations_json_def split: if_splits option.splits)

lemma sound_started: "sound (started g as)"
  by (simp add: sound_def started_def writes_def reads_def fits_def published_def)

text \<open>A step that keeps the fields, and one of the writer, which alone is inside.\<close>

lemma fits_mono:
  "fits p th \<Longrightarrow> pc_server q = pc_server p \<Longrightarrow> pc_versions p \<subseteq> pc_versions q \<Longrightarrow> pc_recs p \<subseteq> pc_recs q \<Longrightarrow> fits q th"
  by (cases th) (auto simp: fits_def published_def)

lemma fits_outside: "fits p th \<Longrightarrow> \<not> writes th \<Longrightarrow> \<not> reads th \<Longrightarrow> pc_versions p \<subseteq> pc_versions q \<Longrightarrow> pc_recs p \<subseteq> pc_recs q \<Longrightarrow> fits q th"
  by (cases th) (auto simp: fits_def published_def writes_def reads_def)

lemma sound_alone:
  assumes "sound p" "writes (pc_threads p n)" "m \<noteq> n"
  shows "\<not> writes (pc_threads p m) \<and> \<not> reads (pc_threads p m)"
  using assms unfolding sound_def by (metis empty_iff option.distinct(1) option.inject)

lemma sound_no_graph_set:
  "sound p \<Longrightarrow> pc_writer p = None \<or> (\<exists>n. pc_writer p = Some n \<and> (\<forall>as. pc_threads p n \<noteq> Graph_Set as)) \<Longrightarrow> published p (pc_server p)"
  unfolding sound_def by (auto simp: writes_def split: goroutine.splits)

lemma sound_reader:
  assumes "sound p" "pc_threads q = (pc_threads p)(n := th)" "pc_server q = pc_server p" "pc_writer q = pc_writer p"
    "pc_versions q = pc_versions p" "pc_recs q = pc_recs p" "\<not> writes (pc_threads p n)" "\<not> writes th" "fits p th"
    "pc_readers q = (if reads th then insert n (pc_readers p) else pc_readers p - {n})" "reads th \<Longrightarrow> pc_writer p = None"
  shows "sound q"
proof -
  have "fits q (pc_threads q m)" for m
    by (rule fits_mono [of p]) (use assms in \<open>auto simp: sound_def\<close>)
  moreover have "writes (pc_threads q m) \<longleftrightarrow> pc_writer q = Some m" "reads (pc_threads q m) \<longleftrightarrow> m \<in> pc_readers q" for m
    using assms by (auto simp: sound_def)
  moreover have "pc_threads p n \<noteq> Graph_Set as" for as using assms(7) by (auto simp: writes_def)
  then have "published q (pc_server q)" if "\<forall>m as. pc_threads q m \<noteq> Graph_Set as"
    using that assms unfolding sound_def published_def by (metis fun_upd_other)
  ultimately show ?thesis using assms unfolding sound_def by auto
qed

lemma sound_writer:
  assumes "sound p" "pc_threads q = (pc_threads p)(n := th)" "pc_readers q = pc_readers p"
    "pc_versions p \<subseteq> pc_versions q" "pc_recs p \<subseteq> pc_recs q" "writes (pc_threads p n) \<or> pc_writer p = None \<and> pc_readers p = {}"
    "\<not> reads th" "\<not> reads (pc_threads p n)" "fits q th" "pc_writer q = (if writes th then Some n else None)"
    "(\<forall>as. th \<noteq> Graph_Set as) \<Longrightarrow> published q (pc_server q)" "sv_stored (pc_server q) \<in> pc_recs q"
  shows "sound q"
proof -
  have out: "\<not> writes (pc_threads p m) \<and> \<not> reads (pc_threads p m)" if "m \<noteq> n" for m
    using assms(1,6) that sound_alone [OF assms(1)] unfolding sound_def by auto
  have "fits q (pc_threads q m)" for m
    using assms out [of m] by (cases "m = n") (auto simp: sound_def intro: fits_outside [of p])
  moreover have "writes (pc_threads q m) \<longleftrightarrow> pc_writer q = Some m" "reads (pc_threads q m) \<longleftrightarrow> m \<in> pc_readers q" for m
    using assms out [of m] by (auto simp: sound_def)
  moreover have "pc_readers p = {}" using assms(1,6) unfolding sound_def by auto
  ultimately show ?thesis using assms unfolding sound_def by (metis fun_upd_same)
qed

lemma writer_before: "sound p \<Longrightarrow> writes (pc_threads p n) \<Longrightarrow> pc_writer p = Some n"
  by (simp add: sound_def)

lemma sound_step: "request_step p q \<Longrightarrow> sound p \<Longrightarrow> sound q"
proof (induction rule: request_step.induct)
  case (read_lock p n t' r' a r)
  show ?case
    by (insert read_lock, rule sound_reader [of p _ n "Reading r nothing_seen"])
      (auto simp: becomes_def writes_def reads_def fits_def agrees_nothing)
next
  case (read_one p n r v f)
  then have facts: "fits p (Reading r v)" "n \<in> pc_readers p" "pc_writer p = None"
    unfolding sound_def by (metis reads_def goroutine.simps empty_iff)+
  show ?case
    by (insert read_one facts, rule sound_reader [of p _ n "Reading r (read_field f (pc_server p) v)"])
      (auto simp: becomes_def writes_def reads_def fits_def agrees_read)
next
  case (answer p n r v t)
  then have facts: "fits p (Reading r v)" "pc_writer p = None"
    unfolding sound_def by (metis reads_def goroutine.simps empty_iff)+
  then have published: "published p (pc_server p)" using answer by (intro sound_no_graph_set) auto
  show ?case
    by (insert answer facts published, rule sound_reader [of p _ n "Answered t r (answer_from t r (server_seen v))"])
      (auto simp: becomes_def writes_def reads_def fits_def answer_seen)
next
  case (replace_lock p n g as)
  show ?case
    by (insert replace_lock sound_no_graph_set [of p], rule sound_writer [of p _ n "Replacing g as"]) (auto simp: becomes_def writes_def reads_def fits_def published_def)
next
  case (set_graph p n g as)
  then have facts: "fits p (Replacing g as)" "sv_stored (pc_server p) \<in> pc_recs p" unfolding sound_def by metis+
  show ?case
    by (insert set_graph facts, rule sound_writer [of p _ n "Graph_Set as"])
      (auto simp: becomes_def writes_def reads_def fits_def published_def intro: writer_before)
next
  case (set_alerts p n as)
  then have facts: "fits p (Graph_Set as)" "sv_stored (pc_server p) \<in> pc_recs p" unfolding sound_def by metis+
  show ?case
    by (insert set_alerts facts, rule sound_writer [of p _ n Alerts_Set])
      (auto simp: becomes_def writes_def reads_def fits_def published_def intro: writer_before)
next
  case (replace_unlock p n)
  then have facts: "published p (pc_server p)"
    by (intro sound_no_graph_set) (auto simp: writes_def dest: writer_before [of p n])
  show ?case
    by (insert replace_unlock facts, rule sound_writer [of p _ n Idle]) (auto simp: becomes_def writes_def reads_def fits_def published_def)
next
  case (store_lock p n rs)
  show ?case
    by (insert store_lock sound_no_graph_set [of p], rule sound_writer [of p _ n "Storing rs"]) (auto simp: becomes_def writes_def reads_def fits_def published_def)
next
  case (set_stored p n rs)
  then have facts: "published p (pc_server p)" "fits p (Storing rs)"
    by (intro sound_no_graph_set, auto simp: writes_def dest: writer_before [of p n]) (metis sound_def)
  show ?case
    by (insert set_stored facts, rule sound_writer [of p _ n Stored_Set])
      (auto simp: becomes_def writes_def reads_def fits_def published_def intro: writer_before)
next
  case (store_unlock p n)
  then have facts: "published p (pc_server p)"
    by (intro sound_no_graph_set) (auto simp: writes_def dest: writer_before [of p n])
  show ?case
    by (insert store_unlock facts, rule sound_writer [of p _ n Idle]) (auto simp: becomes_def writes_def reads_def fits_def published_def)
qed

lemma serving_sound: "serving p q \<Longrightarrow> sound p \<Longrightarrow> sound q"
  by (induction rule: serving.induct) (auto intro: sound_step)

text \<open>An undisturbed refresh publishes its version, and an undisturbed request is answered from the present one.\<close>

lemma replace_run:
  assumes "serving s p" "pc_threads p n = Idle" "pc_writer p = None" "pc_readers p = {}"
  shows "\<exists>q. serving s q \<and> pc_threads q = pc_threads p \<and> pc_writer q = None
    \<and> pc_server q = (pc_server p)\<lparr>sv_graph := g, sv_alerts := as\<rparr>"
proof -
  from assms have "serving s (becomes n (Replacing g as) (p\<lparr>pc_writer := Some n, pc_versions := insert (g, as) (pc_versions p)\<rparr>))"
    (is "serving s ?q1")
    by (blast intro: serve_on replace_lock)
  then have "serving s (becomes n (Graph_Set as) (?q1\<lparr>pc_server := (pc_server ?q1)\<lparr>sv_graph := g\<rparr>\<rparr>))" (is "serving s ?q2")
    by (rule serve_on) (rule set_graph, simp add: becomes_def)
  then have "serving s (becomes n Alerts_Set (?q2\<lparr>pc_server := (pc_server ?q2)\<lparr>sv_alerts := as\<rparr>\<rparr>))" (is "serving s ?q3")
    by (rule serve_on) (rule set_alerts, simp add: becomes_def)
  then have "serving s (becomes n Idle (?q3\<lparr>pc_writer := None\<rparr>))"
    by (rule serve_on) (rule replace_unlock, simp add: becomes_def)
  then show ?thesis by (intro exI conjI) (assumption, use assms(2) in \<open>auto simp: becomes_def\<close>)
qed

lemma alerts_request:
  assumes "serving s p" "pc_threads p n = Idle" "pc_writer p = None"
  shows "\<exists>q. serving s q \<and> pc_threads q n = Answered t Alerts_Route (Alerts_Answer (alerts_json (pc_server p)))"
proof -
  from assms have "serving s (becomes n (Reading Alerts_Route nothing_seen) (p\<lparr>pc_readers := insert n (pc_readers p)\<rparr>))"
    (is "serving s ?q1")
    by (intro serve_on [OF assms(1)] read_lock) auto
  then have "serving s (becomes n (Reading Alerts_Route (read_field Alerts_Field (pc_server ?q1) nothing_seen)) ?q1)" (is "serving s ?q2")
    by (rule serve_on) (rule read_one, simp_all add: becomes_def next_field_def nothing_seen_def)
  then have "serving s (becomes n (Answered t Alerts_Route (answer_from t Alerts_Route
      (server_seen (read_field Alerts_Field (pc_server ?q1) nothing_seen)))) (?q2\<lparr>pc_readers := pc_readers ?q2 - {n}\<rparr>))"
    by (rule serve_on) (rule answer, simp_all add: becomes_def next_field_def read_field_def nothing_seen_def)
  then show ?thesis
    by (intro exI conjI) (assumption, simp add: becomes_def answer_from_def alerts_json_def server_seen_def read_field_def nothing_seen_def)
qed

text \<open>
  C14: No response is split across two versions. However requests and refreshes interleave, while each request reads
  the fields one by one and each refresh writes them one by one, every answer a request has given is the
  one computed from a graph and the alerts that \<^verbatim>\<open>New\<close> or a single \<^verbatim>\<open>Replace\<close> published together, with stored
  recommendations that were published too.
\<close>

theorem requests_see_one_version:
  assumes "serving (started g as) p" "pc_threads p n = Answered t r a"
  shows "\<exists>sv. (sv_graph sv, sv_alerts sv) \<in> pc_versions p \<and> sv_stored sv \<in> pc_recs p \<and> a = answer_from t r sv"
proof -
  have "fits p (Answered t r a)"
    using serving_sound [OF assms(1) sound_started] assms(2) unfolding sound_def by metis
  then show ?thesis by (simp add: fits_def published_def)
qed

theorem requests_see_one_version_witness:
  "\<exists>p. serving (started [] []) p \<and> pc_threads p 0 = Answered 0 Alerts_Route (Alerts_Answer [])
     \<and> (\<exists>sv. (sv_graph sv, sv_alerts sv) \<in> pc_versions p \<and> Alerts_Answer [] = answer_from 0 Alerts_Route sv)"
proof -
  obtain q where q: "serving (started [] []) q" "pc_threads q 1 = Idle" "pc_server q = \<lparr>sv_graph = [new_identity ''a'' False], sv_alerts = [], sv_stored = None\<rparr>"
      "pc_writer q = None" "pc_threads q 0 = Idle"
    using replace_run [of "started [] []" "started [] []" 1 "[]" "[new_identity ''a'' False]"] begin_serving
    by (auto simp: started_def)
  then obtain p where "serving (started [] []) p" "pc_threads p 0 = Answered 0 Alerts_Route (Alerts_Answer [])"
    using alerts_request [of _ q 0 0] by (auto simp: alerts_json_def slice_stable_def)
  then show ?thesis using requests_see_one_version [of "[]" "[]" p 0] by blast
qed

text \<open>A request that holds the lock always ends: it reads each field at most once.\<close>

definition unread :: "seen_fields \<Rightarrow> nat" where
  "unread v = (if vw_graph v = None then 1 else 0) + (if vw_alerts v = None then 1 else 0) + (if vw_stored v = None then 1 else 0)"

lemma next_field_unread: "next_field r v = Some f \<Longrightarrow> unread (read_field f sv v) < unread v"
  by (cases r) (auto simp: next_field_def read_field_def unread_def split: if_splits)

end
