(* ===== verification/Serve_Command.thy ===== *)
theory Serve_Command
  imports Dashboard Detect_Command Load_Command Net_Text
begin

text \<open>
  \<^verbatim>\<open>idryx serve\<close> (\<^verbatim>\<open>runServe\<close>, \<^verbatim>\<open>isLoopbackHost\<close> and \<^verbatim>\<open>warnIfNonLoopback\<close> in \<^verbatim>\<open>cmd/idryx/main.go\<close>): what is served at
  the start, what each tick of the refresh loop makes of it, and what is said on standard error. Every tick has
  an environment of its own, because the files change under the server; the HTTP listener is not modelled.
\<close>

section \<open>The command\<close>

record serve_args =
  sa_addr :: string
  sa_privileged :: string
  sa_source :: string
  sa_trail :: string
  sa_audit :: string
  sa_passports :: string
  sa_refresh :: int
  sa_loads :: "load_spec list"
  sa_db :: string
  sa_args :: "string list"

record serve_env =
  se_load :: load_env
  se_now :: int
  se_open :: "string \<Rightarrow> string + pg"
  se_pg :: pg_env

datatype serve_error =
    Serve_Input load_error | Serve_Graph load_error | Serve_Unreachable string | Serve_Records pg_error

definition new_server :: "identity list \<Rightarrow> alert list \<Rightarrow> server" where
  "new_server g as = \<lparr>sv_graph = g, sv_alerts = as, sv_stored = None\<rparr>"

definition replace_version :: "identity list \<Rightarrow> alert list \<Rightarrow> server \<Rightarrow> server" where
  "replace_version g as sv = sv\<lparr>sv_graph := g, sv_alerts := as\<rparr>"

definition set_remediations :: "stored_remediation list option \<Rightarrow> server \<Rightarrow> server" where
  "set_remediations recs sv = sv\<lparr>sv_stored := recs\<rparr>"

definition serve_graph_args :: "serve_args \<Rightarrow> string \<Rightarrow> build_args" where
  "serve_graph_args a path =
     \<lparr>ba_source = sa_source a, ba_privileged = sa_privileged a, ba_path = path, ba_db = sa_db a, ba_trail = sa_trail a,
      ba_audit = sa_audit a, ba_passports = sa_passports a, ba_loads = sa_loads a\<rparr>"

definition boot :: "serve_env \<Rightarrow> serve_args \<Rightarrow> serve_error + string \<times> server" where
  "boot env a =
     (case input_arg (sa_args a) (sa_db a) (sa_loads a) of
        Inl err \<Rightarrow> Inl (Serve_Input err)
      | Inr path \<Rightarrow>
          (case build_graph (se_load env) (serve_graph_args a path) of
             Inl err \<Rightarrow> Inl (Serve_Graph err)
           | Inr g \<Rightarrow>
               let ids = fst (identities g); sv = new_server ids (run_detectors (se_now env) ids) in
               if sa_db a = [] then Inr (path, sv)
               else (case se_open env (sa_db a) of
                       Inl err \<Rightarrow> Inl (Serve_Unreachable err)
                     | Inr db \<Rightarrow>
                         (case remediation_records (se_pg env) db of
                            Inl err \<Rightarrow> Inl (Serve_Records err)
                          | Inr recs \<Rightarrow> Inr (path, if recs \<noteq> [] then set_remediations (Some recs) sv else sv)))))"

definition refreshing :: "serve_args \<Rightarrow> bool" where
  "refreshing a \<longleftrightarrow> sa_db a = [] \<and> sa_refresh a > 0"

definition refresh_tick :: "serve_args \<Rightarrow> string \<Rightarrow> server \<Rightarrow> serve_env \<Rightarrow> server" where
  "refresh_tick a path sv env =
     (case build_graph (se_load env) (serve_graph_args a path) of
        Inl err \<Rightarrow> sv
      | Inr g \<Rightarrow> let ids = fst (identities g) in replace_version ids (run_detectors (se_now env) ids) sv)"

definition after_ticks :: "serve_args \<Rightarrow> string \<Rightarrow> server \<Rightarrow> serve_env list \<Rightarrow> server" where
  "after_ticks a path sv envs = (if refreshing a then foldl (refresh_tick a path) sv envs else sv)"

section \<open>Standard error\<close>

text \<open>
  \<^verbatim>\<open>strings.EqualFold(host, "localhost")\<close>: of the letters of the name only \<open>s\<close> has a variant outside ASCII, the
  long s of two bytes.
\<close>

fun short_s :: "string \<Rightarrow> string" where
  "short_s (a # b # s) = (if a = CHR 0xC5 \<and> b = CHR 0xBF then CHR ''s'' # short_s s else a # short_s (b # s))"
| "short_s s = s"

definition folds_to_localhost :: "string \<Rightarrow> bool" where
  "folds_to_localhost s \<longleftrightarrow> to_lower (short_s s) = ''localhost''"

definition is_loopback_host :: "string \<Rightarrow> bool" where
  "is_loopback_host host \<longleftrightarrow>
     (if host = [] then False
      else if folds_to_localhost host then True
      else case parse_ip host of None \<Rightarrow> False | Some a \<Rightarrow> is_loopback a)"

definition warns_of_exposure :: "string \<Rightarrow> bool" where
  "warns_of_exposure addr \<longleftrightarrow>
     (let host = (case split_host_port addr of None \<Rightarrow> addr | Some (h, p) \<Rightarrow> h) in \<not> is_loopback_host host)"

text \<open>The text of the interval is the standard library's, given as \<open>every\<close>.\<close>

definition serve_banner :: "string \<Rightarrow> serve_args \<Rightarrow> server \<Rightarrow> string" where
  "serve_banner every a sv =
     (let shown = (if has_prefix (sa_addr a) '':'' then ''localhost'' @ sa_addr a else sa_addr a);
          note = (if refreshing a then ''refreshing every '' @ every else ''static (refresh off)'')
      in ''idryx: serving dashboard on http://'' @ shown @ '' ('' @ utoa (length (sv_alerts sv)) @ '' alerts, '' @ note @ '')'' @ [CHR 10])"

section \<open>What is served after some ticks\<close>

definition rebuilds :: "serve_args \<Rightarrow> string \<Rightarrow> serve_env \<Rightarrow> bool" where
  "rebuilds a path env \<longleftrightarrow> (\<exists>g. build_graph (se_load env) (serve_graph_args a path) = Inr g)"

definition version_of :: "serve_args \<Rightarrow> string \<Rightarrow> serve_env \<Rightarrow> identity list \<times> alert list" where
  "version_of a path env =
     (case build_graph (se_load env) (serve_graph_args a path) of
        Inl err \<Rightarrow> ([], [])
      | Inr g \<Rightarrow> (fst (identities g), run_detectors (se_now env) (fst (identities g))))"

definition version :: "server \<Rightarrow> identity list \<times> alert list" where
  "version sv = (sv_graph sv, sv_alerts sv)"

lemma tick_version: "version (refresh_tick a path sv env) = (if rebuilds a path env then version_of a path env else version sv)"
  by (auto simp: refresh_tick_def rebuilds_def version_of_def version_def replace_version_def Let_def split: sum.split)

lemma tick_stored: "sv_stored (refresh_tick a path sv env) = sv_stored sv"
  by (simp add: refresh_tick_def replace_version_def Let_def split: sum.split)

lemma ticks_version:
  "rebuilds a path e \<Longrightarrow> version sv = version_of a path e \<Longrightarrow>
   version (foldl (refresh_tick a path) sv envs) = version_of a path (last (filter (rebuilds a path) (e # envs)))
   \<and> sv_stored (foldl (refresh_tick a path) sv envs) = sv_stored sv"
  by (induction envs arbitrary: sv e) (auto simp: tick_version tick_stored)

lemma boot_cases:
  assumes "boot env a = Inr (path, sv)"
  shows "rebuilds a path env \<and> version sv = version_of a path env
    \<and> (if sa_db a = [] then sv_stored sv = None
       else \<exists>db recs. se_open env (sa_db a) = Inr db \<and> remediation_records (se_pg env) db = Inr recs
         \<and> sv_stored sv = (if recs = [] then None else Some recs))"
proof (cases "build_graph (se_load env) (serve_graph_args a path)")
  case (Inl err)
  with assms show ?thesis by (simp add: boot_def Let_def split: sum.splits if_splits)
next
  case (Inr g)
  let ?sv = "new_server (fst (identities g)) (run_detectors (se_now env) (fst (identities g)))"
  have "if sa_db a = [] then sv = ?sv
    else \<exists>db recs. se_open env (sa_db a) = Inr db \<and> remediation_records (se_pg env) db = Inr recs
      \<and> sv = (if recs \<noteq> [] then set_remediations (Some recs) ?sv else ?sv)"
    using assms Inr by (auto simp add: boot_def Let_def split: sum.splits if_splits)
  then show ?thesis
    using Inr
    by (cases "sa_db a = []")
      (auto simp: rebuilds_def version_of_def version_def new_server_def set_remediations_def)
qed

text \<open>
  C21: A running server stays live and never blanks. After any sequence of refresh ticks it serves the graph of the last
  rebuild that succeeded, the one of the start if none did since, and the alerts are those of all detectors on that very graph;
  a failed rebuild changes nothing. Over a database, or with a refresh interval that is not positive, it serves the
  version of the start for ever. Stored recommendations survive every tick, are only ever those of the
  database, and an empty set of them is never served in place of the computed ones.
\<close>

theorem serve_stays_live:
  assumes "boot env a = Inr (path, sv)"
  shows "version (after_ticks a path sv envs) =
      (if refreshing a then version_of a path (last (filter (rebuilds a path) (env # envs))) else version_of a path env)
    \<and> sv_stored (after_ticks a path sv envs) = sv_stored sv
    \<and> sv_stored sv \<noteq> Some []
    \<and> (sv_stored sv = None \<or> (\<exists>db recs. se_open env (sa_db a) = Inr db \<and> remediation_records (se_pg env) db = Inr recs
         \<and> sv_stored sv = Some recs))"
  using boot_cases [OF assms] ticks_version [of a path env sv envs]
  by (auto simp: after_ticks_def split: if_splits)

text \<open>A source that is read at the start and gone at the first tick.\<close>

definition sample_serve_args :: serve_args where
  "sample_serve_args =
     \<lparr>sa_addr = ''127.0.0.1:8080'', sa_privileged = [], sa_source = ''gcp_iam'', sa_trail = [], sa_audit = [], sa_passports = [],
      sa_refresh = 15 * Second, sa_loads = [], sa_db = [], sa_args = [''g.json'']\<rparr>"

definition sample_serve_env :: "load_env \<Rightarrow> serve_env" where
  "sample_serve_env load =
     \<lparr>se_load = load, se_now = 0, se_open = Inl,
      se_pg = sample_pg_env (\<lambda>_. False)\<rparr>"

theorem serve_stays_live_witness:
  "\<exists>sv. boot (sample_serve_env sample_load_env) sample_serve_args = Inr (''g.json'', sv)
     \<and> version (after_ticks sample_serve_args ''g.json'' sv [sample_serve_env (sample_load_env\<lparr>le_read := \<lambda>_. Inl ''gone''\<rparr>)]) =
         version_of sample_serve_args ''g.json'' (sample_serve_env sample_load_env)"
proof -
  let ?env = "sample_serve_env sample_load_env" and ?gone = "sample_serve_env (sample_load_env\<lparr>le_read := \<lambda>_. Inl ''gone''\<rparr>)"
  note build = build_graph_def serve_graph_args_def sample_serve_args_def sample_serve_env_def check_usage_flags_def
    usage_enrichment_def with_usage_paths_def populate_def read_spec_def agent_bus_sources_def sample_load_env_def
    parse_inventory_def wrap_parse_def load_passports_def Let_def
  obtain g where g: "build_graph (se_load ?env) (serve_graph_args sample_serve_args ''g.json'') = Inr g"
    by (simp add: build)
  then obtain sv where sv: "boot ?env sample_serve_args = Inr (''g.json'', sv)"
    by (simp add: boot_def input_arg_def sample_serve_args_def Let_def)
  moreover have "\<not> rebuilds sample_serve_args ''g.json'' ?gone" by (simp add: rebuilds_def build)
  moreover have "refreshing sample_serve_args" by (simp add: refreshing_def sample_serve_args_def Second_def)
  moreover have "rebuilds sample_serve_args ''g.json'' ?env" using g by (auto simp: rebuilds_def)
  ultimately show ?thesis using serve_stays_live [OF sv, of "[?gone]"] by simp
qed

section \<open>Who is warned\<close>

lemma ip_brackets: "length a = 16 \<Longrightarrow> CHR ''['' \<notin> set (ip_string a) \<and> CHR '']'' \<notin> set (ip_string a) \<and> ip_string a \<noteq> []"
  using ip_string_chars [of a] parse_ip_string [of a] by (force simp: is_hex_def parse_ip_def parse_addr_def)

lemma short_s_ascii: "CHR 0xC5 \<notin> set s \<Longrightarrow> short_s s = s"
  by (induction s rule: short_s.induct) auto

lemma localhost_short: "to_lower h = ''localhost'' \<Longrightarrow> short_s h = h"
proof (rule short_s_ascii)
  assume "to_lower h = ''localhost''"
  then have "lower_char ` set h = set ''localhost''" by (metis to_lower_def list.set_map)
  moreover have "lower_char (CHR 0xC5) \<notin> set ''localhost''" by code_simp
  ultimately show "CHR 0xC5 \<notin> set h" by blast
qed

lemma ip_not_localhost:
  assumes "length a = 16"
  shows "\<not> folds_to_localhost (ip_string a)"
proof
  have ascii: "c \<noteq> CHR 0xC5 \<and> lower_char c \<noteq> CHR ''l''" if "c \<in> set (ip_string a)" for c
    using ip_string_chars [OF assms that]
    by (auto simp: is_hex_def lower_char_def Let_def split: if_splits dest!: arg_cong [of _ "CHR ''l''" "of_char :: char \<Rightarrow> nat"])
  then have "CHR 0xC5 \<notin> set (ip_string a)" by blast
  moreover assume "folds_to_localhost (ip_string a)"
  ultimately have "map lower_char (ip_string a) = ''localhost''"
    by (simp add: folds_to_localhost_def short_s_ascii to_lower_def)
  then have "CHR ''l'' \<in> lower_char ` set (ip_string a)" by (metis list.set_intros(1) list.set_map)
  then show False using ascii by (auto elim!: imageE) metis
qed

lemma split_plain:
  assumes "CHR ''['' \<notin> set h" "CHR '']'' \<notin> set h" "CHR '':'' \<notin> set h"
    "CHR ''['' \<notin> set p" "CHR '']'' \<notin> set p" "CHR '':'' \<notin> set p"
  shows "split_host_port (h @ '':'' @ p) = Some (h, p)"
  using split_join_host_port [of h p] assms by (simp add: join_host_port_def)

text \<open>
  The exposure of the unauthenticated dashboard is announced. For an address written with its port the warning is
  printed exactly when the address is not a loopback one, the whole of 127.0.0.0/8 and \<open>::1\<close> being loopback;
  an empty host, which listens on every interface, is always announced, the name localhost in any case never;
  and an address without a port is judged by its own text.
\<close>

theorem exposure_announced:
  assumes "length a = 16" "CHR ''['' \<notin> set p" "CHR '']'' \<notin> set p" "CHR '':'' \<notin> set p"
  shows "(warns_of_exposure (join_host_port (ip_string a) p) \<longleftrightarrow> \<not> is_loopback a)
    \<and> warns_of_exposure ('':'' @ p)
    \<and> (to_lower h = ''localhost'' \<longrightarrow> \<not> warns_of_exposure (h @ '':'' @ p))
    \<and> (split_host_port h = None \<longrightarrow> (warns_of_exposure h \<longleftrightarrow> \<not> is_loopback_host h))
    \<and> is_loopback (ipv4 127 x y z) \<and> is_loopback ipv6_loopback"
proof (intro conjI impI)
  have "\<not> folds_to_localhost (ip_string a)" by (rule ip_not_localhost [OF assms(1)])
  then show "warns_of_exposure (join_host_port (ip_string a) p) \<longleftrightarrow> \<not> is_loopback a"
    using ip_brackets [OF assms(1)] assms
    by (simp add: warns_of_exposure_def split_join_host_port is_loopback_host_def parse_ip_string)
  show "warns_of_exposure ('':'' @ p)"
    using split_plain [of "[]" p] assms by (simp add: warns_of_exposure_def is_loopback_host_def)
  show "split_host_port h = None \<Longrightarrow> warns_of_exposure h \<longleftrightarrow> \<not> is_loopback_host h"
    by (simp add: warns_of_exposure_def)
  show "is_loopback (ipv4 127 x y z)" by (simp add: is_loopback_def ipv4_def to4_def v4_in_v6_prefix_def)
  show "is_loopback ipv6_loopback" by code_simp
  assume h: "to_lower h = ''localhost''"
  then have "lower_char ` set h = set ''localhost''" by (metis to_lower_def list.set_map)
  moreover have "lower_char c \<notin> set ''localhost''" if "c \<in> {CHR ''['', CHR '']'', CHR '':''}" for c
    using that by (elim insertE) (simp_all add: lower_char_def)
  ultimately have "split_host_port (h @ '':'' @ p) = Some (h, p)"
    using assms by (intro split_plain) blast+
  moreover have "h \<noteq> []" using h by (auto simp: to_lower_def)
  ultimately show "\<not> warns_of_exposure (h @ '':'' @ p)"
    using h by (simp add: warns_of_exposure_def is_loopback_host_def folds_to_localhost_def localhost_short)
qed

theorem exposure_announced_witness:
  "\<not> warns_of_exposure (join_host_port (ip_string ipv6_loopback) ''80'') \<and> warns_of_exposure '':80''
   \<and> \<not> warns_of_exposure (''LocalHost'' @ '':'' @ ''80'')"
proof -
  have "to_lower ''LocalHost'' = ''localhost''" "length ipv6_loopback = 16" by code_simp+
  then show ?thesis using exposure_announced [of ipv6_loopback "''80''" "''LocalHost''"] by simp
qed

end
