(* ===== verification/Remediate_Command.thy ===== *)
theory Remediate_Command
  imports Serve_Command Pull_Request
begin

text \<open>
  \<^verbatim>\<open>idryx remediate\<close> (\<^verbatim>\<open>runRemediate\<close> and \<^verbatim>\<open>writeRemediationArtifacts\<close> in \<^verbatim>\<open>cmd/idryx/main.go\<close>): the
  recommendations of a graph go to one place, the database, a pull request, a directory or standard
  output. The databases by address, the directories and the repository are the state; \<open>now()\<close> of the database's
  server is a parameter.
\<close>

section \<open>The command\<close>

record remediate_args =
  ra_source :: string
  ra_privileged :: string
  ra_trail :: string
  ra_audit :: string
  ra_loads :: "load_spec list"
  ra_db :: string
  ra_out :: string
  ra_save_db :: string
  ra_open_pr :: bool
  ra_repo :: string
  ra_base :: string
  ra_subdir :: string
  ra_args :: "string list"

record 'w remediate_env =
  re_load :: load_env
  re_now :: int
  re_open :: "string \<Rightarrow> string option"
  re_pg :: pg_env
  re_pg_now :: int
  re_run :: "'w runner"
  re_encode :: "artifact list \<Rightarrow> string"
  re_disk :: disk

record 'w estate =
  es_pg :: "string \<Rightarrow> pg"
  es_dir :: "string \<Rightarrow> files"
  es_repo :: "'w repo"

datatype remediate_error =
    Remediate_Input load_error | Remediate_Graph load_error | Save_Unreachable string | Save_Failed pg_error
  | Repo_Required | Pr_Failed pr_error | Not_Written string

datatype remediated = Persisted nat | Opened string | Artifacts_Written nat string | Printed string | Failed remediate_error

definition banner :: string where
  "banner = replicate 80 (CHR ''='')"

definition printed_recommendation :: "recommendation \<Rightarrow> string" where
  "printed_recommendation r =
     line banner @
     line (''REMEDIATION ('' @ rc_kind r @ '') FOR: '' @ rc_identity r) @
     line (''EXPLANATION: '' @ rc_explanation r) @
     line (replicate 80 (CHR ''-'')) @
     line (rc_code r) @
     line banner @ line []"

definition printed_report :: "recommendation list \<Rightarrow> string" where
  "printed_report recs =
     concat (map printed_recommendation recs) @
     (if recs = [] then line ''All monitored identities are fully right-sized and within credential-rotation age.''
      else line (''Generated '' @ utoa (length recs) @ '' remediation recommendation(s).''))"

definition remediate_graph_args :: "remediate_args \<Rightarrow> string \<Rightarrow> build_args" where
  "remediate_graph_args a path =
     \<lparr>ba_source = ra_source a, ba_privileged = ra_privileged a, ba_path = path, ba_db = ra_db a, ba_trail = ra_trail a,
      ba_audit = ra_audit a, ba_passports = [], ba_loads = ra_loads a\<rparr>"

definition save_to :: "'w remediate_env \<Rightarrow> string \<Rightarrow> recommendation list \<Rightarrow> 'w estate \<Rightarrow> remediated \<times> 'w estate" where
  "save_to env dsn recs st =
     (case re_open env dsn of
        Some err \<Rightarrow> (Failed (Save_Unreachable err), st)
      | None \<Rightarrow>
          (case save_remediations (re_pg env) (re_pg_now env) recs (es_pg st dsn) of
             (Some err, db) \<Rightarrow> (Failed (Save_Failed err), st\<lparr>es_pg := (es_pg st)(dsn := db)\<rparr>)
           | (None, db) \<Rightarrow> (Persisted (length recs), st\<lparr>es_pg := (es_pg st)(dsn := db)\<rparr>)))"

definition pull_request_for :: "'w remediate_env \<Rightarrow> remediate_args \<Rightarrow> recommendation list \<Rightarrow> 'w estate \<Rightarrow> remediated \<times> 'w estate" where
  "pull_request_for env a recs st =
     (if ra_repo a = [] then (Failed Repo_Required, st)
      else case open_pr (re_run env) (re_encode env) (re_disk env) (re_now env) recs
             \<lparr>po_repo = ra_repo a, po_subdir = ra_subdir a, po_base = ra_base a, po_branch = [], po_title = [], po_body = []\<rparr>
             (es_repo st) of
        (Inl err, rp) \<Rightarrow> (Failed (Pr_Failed err), st\<lparr>es_repo := rp\<rparr>)
      | (Inr url, rp) \<Rightarrow> (Opened url, st\<lparr>es_repo := rp\<rparr>))"

definition write_remediation_artifacts :: "'w remediate_env \<Rightarrow> string \<Rightarrow> recommendation list \<Rightarrow> 'w estate \<Rightarrow> remediated \<times> 'w estate" where
  "write_remediation_artifacts env dir recs st =
     (let (res, fs) = write_artifacts (re_encode env) (re_disk env) recs (es_dir st dir)
      in (case res of Inl err \<Rightarrow> Failed (Not_Written err) | Inr manifest \<Rightarrow> Artifacts_Written (length manifest) dir,
          st\<lparr>es_dir := (es_dir st)(dir := fs)\<rparr>))"

definition run_remediate :: "'w remediate_env \<Rightarrow> remediate_args \<Rightarrow> 'w estate \<Rightarrow> remediated \<times> 'w estate" where
  "run_remediate env a st =
     (case input_arg (ra_args a) (ra_db a) (ra_loads a) of
        Inl err \<Rightarrow> (Failed (Remediate_Input err), st)
      | Inr path \<Rightarrow>
          (case build_graph (re_load env) (remediate_graph_args a path) of
             Inl err \<Rightarrow> (Failed (Remediate_Graph err), st)
           | Inr g \<Rightarrow>
               let recs = recommendations (re_now env) (fst (identities g)) in
               if ra_save_db a \<noteq> [] then save_to env (ra_save_db a) recs st
               else if ra_open_pr a then pull_request_for env a recs st
               else if ra_out a \<noteq> [] then write_remediation_artifacts env (ra_out a) recs st
               else (Printed (printed_report recs), st)))"

section \<open>Stored recommendations\<close>

lemma update_set: "distinct (map fst rows) \<Longrightarrow> set (AList.update k v rows) = insert (k, v) {row \<in> set rows. fst row \<noteq> k}"
  by (induction rows) (auto simp: rev_image_eqI)

lemma updates_distinct: "distinct (map fst rows) \<Longrightarrow> distinct (map fst (fold (\<lambda>r. AList.update (f r) (v r)) rs rows))"
  by (induction rs arbitrary: rows) (simp_all add: distinct_update)

lemma updates_set:
  "distinct (map fst rows) \<Longrightarrow> distinct (map f rs) \<Longrightarrow>
   set (fold (\<lambda>r. AList.update (f r) (v r)) rs rows) = (\<lambda>r. (f r, v r)) ` set rs \<union> {row \<in> set rows. fst row \<notin> f ` set rs}"
proof (induction rs arbitrary: rows)
  case (Cons r rs)
  then show ?case by (auto simp: distinct_update update_set)
qed simp

definition key_of :: "recommendation \<Rightarrow> string \<times> string" where
  "key_of r = (rc_identity r, rc_kind r)"

lemma generated_key: "generate i = Some r \<Longrightarrow> key_of r = (i_id i, ''right_size'')"
  by (auto simp: generate_def key_of_def Let_def split: if_splits)

lemma rotation_key: "generate_rotation t i = Some r \<Longrightarrow> key_of r = (i_id i, ''rotation'')"
  by (auto simp: generate_rotation_def key_of_def Let_def split: if_splits option.splits)

lemma present_set: "set (List.map_filter id xs) = {r. Some r \<in> set xs}"
  by (induction xs) (auto simp: List.map_filter_simps split: option.split)

lemma recommended_iff: "r \<in> set (recommendations t ids) \<longleftrightarrow> (\<exists>i \<in> set ids. Some r \<in> {generate i, generate_rotation t i})"
  unfolding recommendations_def by (auto simp: present_set simp del: List.map_filter_simps)

lemma recommended_key: "r \<in> set (recommendations t ids) \<Longrightarrow> fst (key_of r) \<in> i_id ` set ids"
  by (auto simp: recommended_iff dest!: sym [of "Some r"] generated_key rotation_key)

lemma own_keys: "distinct (map key_of (List.map_filter id [generate i, generate_rotation t i]))
    \<and> fst ` set (map key_of (List.map_filter id [generate i, generate_rotation t i])) \<subseteq> {i_id i}"
  using generated_key [of i] rotation_key [of t i]
  by (cases "generate i"; cases "generate_rotation t i") (auto simp: List.map_filter_simps)

lemma keys_distinct: "distinct (map i_id ids) \<Longrightarrow> distinct (map key_of (recommendations t ids))"
proof (induction ids)
  case (Cons i ids)
  let ?own = "map key_of (List.map_filter id [generate i, generate_rotation t i])" and ?rest = "map key_of (recommendations t ids)"
  have own: "distinct ?own" "\<And>k. k \<in> set ?own \<Longrightarrow> fst k = i_id i" using own_keys [of i t] by blast+
  have "fst k \<in> i_id ` set ids" if "k \<in> set ?rest" for k
    using that recommended_key [of _ t ids] by (auto simp only: set_map)
  moreover have "i_id i \<notin> i_id ` set ids" using Cons.prems by simp
  ultimately have "set ?own \<inter> set ?rest = {}" using own(2) by (metis disjoint_iff)
  moreover have "distinct ?rest" using Cons by simp
  moreover have "map key_of (recommendations t (i # ids)) = ?own @ ?rest"
    by (simp add: recommendations_def del: List.map_filter_simps)
  ultimately show ?case using own(1) by (simp only: distinct_append)
qed (simp add: recommendations_def)

lemma graph_ids_distinct: "wf_store g \<Longrightarrow> distinct (map i_id (fst (identities g)))"
proof -
  let ?ids = "map snd (s_identities (sort_events g))"
  assume "wf_store g"
  then have "distinct (map i_id ?ids)" by (rule identities_ids)
  moreover have "mset (map i_id (sort_key i_id ?ids)) = mset (map i_id ?ids)" by (metis mset_map mset_sort)
  ultimately have "distinct (map i_id (sort_key i_id ?ids))" using mset_eq_imp_distinct_iff by blast
  then show ?thesis by (simp add: identities_def Let_def)
qed

definition row_of :: "recommendation \<Rightarrow> string \<times> string \<times> string \<times> string" where
  "row_of r = (rc_identity r, rc_kind r, rc_explanation r, rc_code r)"

definition stored_row :: "(string \<times> string) \<times> remediation_row \<Rightarrow> string \<times> string \<times> string \<times> string" where
  "stored_row = (\<lambda>((k, n), r). (k, n, rr_explanation r, rr_code r))"

text \<open>The rows a save leaves alone.\<close>

definition kept_rows :: "pg \<Rightarrow> recommendation list \<Rightarrow> (string \<times> string \<times> string \<times> string) set" where
  "kept_rows db recs = stored_row ` {row \<in> set (t_remediations db). fst row \<notin> key_of ` set recs}"

definition shown_row :: "api_recommendation \<Rightarrow> string \<times> string \<times> string \<times> string" where
  "shown_row r = (am_identity r, am_kind r, am_explanation r, am_code r)"

definition record_of :: "(string \<times> string) \<times> remediation_row \<Rightarrow> stored_remediation" where
  "record_of = (\<lambda>((k, n), r). \<lparr>sr_recommendation = \<lparr>rc_identity = k, rc_kind = n, rc_explanation = rr_explanation r,
     rc_code = rr_code r\<rparr>, sr_created = rr_created r\<rparr>)"

lemma record_key: "map (key_of \<circ> sr_recommendation) (map record_of rows) = map fst rows"
  by (induction rows) (auto simp: record_of_def key_of_def)

lemma record_row: "row_of (sr_recommendation (record_of row)) = stored_row row"
  by (cases row) (auto simp: record_of_def row_of_def stored_row_def split: prod.split)

lemma records_rows:
  assumes "remediation_records env db = Inr recs"
  shows "row_of ` sr_recommendation ` set recs = stored_row ` set (t_remediations db)"
    "distinct (map fst (t_remediations db)) \<Longrightarrow> distinct (map (key_of \<circ> sr_recommendation) recs)"
proof -
  obtain rows where recs: "recs = map record_of rows" and rows: "mset rows = mset (t_remediations db)"
    using assms by (auto simp: remediation_records_def record_of_def split: if_splits)
  have "set rows = set (t_remediations db)" using rows by (metis set_mset_mset)
  then show "row_of ` sr_recommendation ` set recs = stored_row ` set (t_remediations db)"
    by (simp add: recs image_image record_row)
  assume d: "distinct (map fst (t_remediations db))"
  have "mset (map fst rows) = mset (map fst (t_remediations db))" using rows by simp
  then have "distinct (map fst rows)" using d mset_eq_imp_distinct_iff by blast
  then show "distinct (map (key_of \<circ> sr_recommendation) recs)" unfolding recs record_key .
qed

lemma remediate_saved:
  assumes "run_remediate env a st = (Persisted n, st')"
  obtains path g where "build_graph (re_load env) (remediate_graph_args a path) = Inr g"
    "n = length (recommendations (re_now env) (fst (identities g)))"
    "save_remediations (re_pg env) (re_pg_now env) (recommendations (re_now env) (fst (identities g))) (es_pg st (ra_save_db a))
       = (None, es_pg st' (ra_save_db a))"
proof -
  obtain path g where g: "build_graph (re_load env) (remediate_graph_args a path) = Inr g"
    and rest: "(let recs = recommendations (re_now env) (fst (identities g)) in
               if ra_save_db a \<noteq> [] then save_to env (ra_save_db a) recs st
               else if ra_open_pr a then pull_request_for env a recs st
               else if ra_out a \<noteq> [] then write_remediation_artifacts env (ra_out a) recs st
               else (Printed (printed_report recs), st)) = (Persisted n, st')"
    using assms by (auto simp: run_remediate_def simp del: Let_def split: sum.splits)
  have other: "fst (pull_request_for env a recs st) \<noteq> Persisted n" "fst (write_remediation_artifacts env d recs st) \<noteq> Persisted n" for recs d
    by (auto simp: pull_request_for_def write_remediation_artifacts_def Let_def split: prod.split sum.split)
  have "save_to env (ra_save_db a) (recommendations (re_now env) (fst (identities g))) st = (Persisted n, st')"
    using rest other by (simp add: Let_def split: if_splits) (metis fst_conv)+
  with g show thesis
    by (intro that [of path g]) (auto simp: save_to_def split: option.splits prod.splits)
qed

lemma saved_rows:
  assumes "save_remediations env t recs db = (None, db')" "distinct (map fst (t_remediations db))" "distinct (map key_of recs)"
  shows "distinct (map fst (t_remediations db')) \<and> stored_row ` set (t_remediations db') = row_of ` set recs \<union> kept_rows db recs"
proof -
  let ?v = "\<lambda>r. \<lparr>rr_explanation = rc_explanation r, rr_code = rc_code r, rr_created = t\<rparr>"
  have "pg_apply env (Write_Remediations t recs) db = (None, db')" using assms(1) by (simp add: pg_apply_def)
  from pg_apply_cases [OF this] have "db' = written env (Write_Remediations t recs) db" by simp
  then have rows: "t_remediations db' = fold (\<lambda>r. AList.update (key_of r) (?v r)) recs (t_remediations db)"
    by (simp add: written_def key_of_def)
  have "stored_row (key_of r, ?v r) = row_of r" for r by (simp add: stored_row_def key_of_def row_of_def)
  then show ?thesis
    unfolding rows updates_set [OF assms(2,3)] image_Un image_image kept_rows_def
    using updates_distinct [OF assms(2), of key_of ?v recs] by simp
qed

lemma save_keeps_rows:
  assumes "save_remediations env t recs db = (None, db')" "t_remediations db \<noteq> []"
  shows "t_remediations db' \<noteq> []"
proof -
  have "pg_apply env (Write_Remediations t recs) db = (None, db')" using assms(1) by (simp add: pg_apply_def)
  from pg_apply_cases [OF this] have db': "db' = written env (Write_Remediations t recs) db" by simp
  have "fold (\<lambda>r. AList.update (f r) (v r)) rs rows \<noteq> []" if "rows \<noteq> []" for f :: "recommendation \<Rightarrow> string \<times> string" and v :: "recommendation \<Rightarrow> remediation_row" and rs rows
    using that by (induction rs arbitrary: rows) (simp_all add: update_nonempty)
  then show ?thesis using assms(2) by (simp add: db' written_def)
qed


text \<open>A table with an earlier row, a graph from a file, and no failure.\<close>

definition earlier_pg :: pg where
  "earlier_pg = empty_pg\<lparr>t_remediations := [((''gone'', ''rotation''), \<lparr>rr_explanation = [], rr_code = ''old'', rr_created = 0\<rparr>)]\<rparr>"

definition sample_estate :: "unit estate" where
  "sample_estate =
     \<lparr>es_pg = (\<lambda>_. earlier_pg), es_dir = (\<lambda>_. []), es_repo = \<lparr>rp_world = (), rp_files = [], rp_log = []\<rparr>\<rparr>"

definition sample_remediate_env :: "unit remediate_env" where
  "sample_remediate_env =
     \<lparr>re_load = sample_load_env, re_now = 0, re_open = (\<lambda>_. None), re_pg = sample_pg_env (\<lambda>_. False), re_pg_now = 1,
      re_run = (\<lambda>c w. (([], None), w)), re_encode = (\<lambda>_. []), re_disk = \<lparr>dk_mkdir = None, dk_fails = (\<lambda>_. None)\<rparr>\<rparr>"

definition sample_remediate_args :: remediate_args where
  "sample_remediate_args =
     \<lparr>ra_source = ''gcp_iam'', ra_privileged = [], ra_trail = [], ra_audit = [], ra_loads = [], ra_db = [], ra_out = [],
      ra_save_db = ''d'', ra_open_pr = False, ra_repo = [], ra_base = ''main'', ra_subdir = ''idryx'', ra_args = [''g.json'']\<rparr>"

definition sample_db_serve :: "(string \<Rightarrow> pg) \<Rightarrow> serve_env" where
  "sample_db_serve dbs =
     \<lparr>se_load = sample_load_env\<lparr>le_snapshot := \<lambda>_. Inr (new_store [])\<rparr>, se_now = 0, se_open = (\<lambda>d. Inr (dbs d)),
      se_pg = sample_pg_env (\<lambda>_. False)\<rparr>"

definition sample_db_args :: serve_args where
  "sample_db_args = sample_serve_args\<lparr>sa_db := ''d'', sa_args := []\<rparr>"

lemma save_goes_through: "(\<And>n. \<not> pe_fails env n) \<Longrightarrow> \<exists>db'. save_remediations env t recs db = (None, db')"
  using pg_apply_cases [of env "Write_Remediations t recs" db] by (cases "save_remediations env t recs db") (auto simp: pg_apply_def)

lemma sample_saved: "\<exists>n st'. run_remediate sample_remediate_env sample_remediate_args sample_estate = (Persisted n, st')"
proof -
  note build = build_graph_def remediate_graph_args_def sample_remediate_args_def sample_remediate_env_def check_usage_flags_def
    usage_enrichment_def with_usage_paths_def populate_def read_spec_def agent_bus_sources_def sample_load_env_def
    parse_inventory_def wrap_parse_def load_passports_def Let_def
  obtain g where g: "build_graph sample_load_env (remediate_graph_args sample_remediate_args ''g.json'') = Inr g"
    by (simp add: build)
  obtain db' where "save_remediations (sample_pg_env (\<lambda>_. False)) 1 (recommendations 0 (fst (identities g))) earlier_pg = (None, db')"
    using save_goes_through [of "sample_pg_env (\<lambda>_. False)" 1 "recommendations 0 (fst (identities g))" earlier_pg]
    by (auto simp: sample_pg_env_def)
  moreover have "input_arg (ra_args sample_remediate_args) (ra_db sample_remediate_args) (ra_loads sample_remediate_args) = Inr ''g.json''"
    "ra_save_db sample_remediate_args = ''d''"
    by (simp_all add: input_arg_def sample_remediate_args_def)
  ultimately show ?thesis
    using g by (auto simp: run_remediate_def save_to_def sample_remediate_env_def sample_estate_def)
qed

lemma sample_db_boot:
  "t_remediations (dbs ''d'') \<noteq> [] \<Longrightarrow> \<exists>sv. boot (sample_db_serve dbs) sample_db_args = Inr ([], sv)"
  by (simp add: boot_def sample_db_serve_def sample_db_args_def sample_serve_args_def input_arg_def build_graph_def
      serve_graph_args_def check_usage_flags_def usage_enrichment_def load_passports_def sample_load_env_def
      remediation_records_def sample_pg_env_def Let_def)


end
