(* ===== verification/Capture_Command.thy ===== *)
theory Capture_Command
  imports Sensor_Capture
begin

text \<open>
  \<^verbatim>\<open>idryx ebpf-capture\<close> (\<^verbatim>\<open>runEBPFCapture\<close> in \<^verbatim>\<open>cmd/idryx/main.go\<close>, \<^verbatim>\<open>Any\<close> and \<^verbatim>\<open>Lost\<close> of \<^verbatim>\<open>decode.go\<close>): what is
  written and what is said once the capture has ended, and that it says what the sensor could not
  observe. The capture itself, the output file and the JSON encoder are parameters.
\<close>

section \<open>The command\<close>

definition skipped_any :: "skipped_counts \<Rightarrow> bool" where
  "skipped_any s \<longleftrightarrow> sc_other_family s > 0 \<or> sc_unreadable s > 0 \<or> sc_ringbuf_full s > 0 \<or> sc_too_short s > 0"

definition skipped_lost :: "skipped_counts \<Rightarrow> bool" where
  "skipped_lost s \<longleftrightarrow> sc_ringbuf_full s > 0"

definition captured_line :: "nat \<Rightarrow> string" where
  "captured_line n = ''idryx: captured '' @ utoa n @ '' flow(s)''"

definition not_reported_line :: "skipped_counts \<Rightarrow> string" where
  "not_reported_line s =
     ''idryx: not reported -- '' @ utoa (unat (sc_other_family s)) @
     '' connect(s) over other address families (AF_UNIX, netlink, ...), '' @ utoa (unat (sc_too_short s)) @
     '' with an address shorter than its family needs (the kernel refuses these too), '' @
     utoa (unat (sc_unreadable s)) @ '' unreadable sockaddr(s)''"

definition lost_line :: "skipped_counts \<Rightarrow> string" where
  "lost_line s =
     ''idryx: WARNING: '' @ utoa (unat (sc_ringbuf_full s)) @
     '' connection(s) were dropped because the ring buffer was full; this capture is incomplete''"

definition closing_lines :: "flow list \<Rightarrow> skipped_counts \<Rightarrow> string list" where
  "closing_lines flows s =
     [captured_line (length flows)] @
     (if skipped_any s then [not_reported_line s] else []) @
     (if skipped_lost s then [lost_line s] else [])"

record capture_env_cmd =
  cv_capture :: "int \<Rightarrow> string + flow list \<times> skipped_counts"
  cv_duration_text :: "int \<Rightarrow> string"
  cv_create :: "string \<Rightarrow> string option"
  cv_encode :: "egress_flow list \<Rightarrow> string option"
  cv_format :: "int \<Rightarrow> string"

datatype capture_error = Capture_Failed string | Create_Failed string string | Write_Log_Failed string

record capture_run =
  cr_log :: "(string \<times> egress_flow list) option"
  cr_said :: "string list"
  cr_error :: "capture_error option"

definition opening_line :: "capture_env_cmd \<Rightarrow> int \<Rightarrow> string" where
  "opening_line env duration =
     (if duration > 0
      then ''idryx: capturing outbound connections via eBPF for '' @ cv_duration_text env duration @ ''...''
      else ''idryx: capturing outbound connections via eBPF until interrupted (Ctrl+C)...'')"

text \<open>An empty name of the file is standard output.\<close>

definition run_ebpf_capture :: "capture_env_cmd \<Rightarrow> int \<Rightarrow> string \<Rightarrow> capture_run" where
  "run_ebpf_capture env duration out =
     (let said = [opening_line env duration] in
      case cv_capture env duration of
        Inl err \<Rightarrow> \<lparr>cr_log = None, cr_said = said, cr_error = Some (Capture_Failed err)\<rparr>
      | Inr (flows, s) \<Rightarrow>
          (case (if out \<noteq> [] then cv_create env out else None) of
             Some err \<Rightarrow> \<lparr>cr_log = None, cr_said = said, cr_error = Some (Create_Failed out err)\<rparr>
           | None \<Rightarrow>
               let entries = to_egress_log (cv_format env) flows in
               (case cv_encode env entries of
                  Some err \<Rightarrow> \<lparr>cr_log = None, cr_said = said, cr_error = Some (Write_Log_Failed err)\<rparr>
                | None \<Rightarrow> \<lparr>cr_log = Some (out, entries), cr_said = said @ closing_lines flows s, cr_error = None\<rparr>)))"

section \<open>What could not be observed is said\<close>

lemma read_counts:
  assumes "kreach cfg empty_maps k"
  shows "read_skipped (maps k) =
    \<lparr>sc_other_family = of_nat (skips cfg Other_family (map snd (history k))),
     sc_unreadable = of_nat (skips cfg Unreadable (map snd (history k))),
     sc_ringbuf_full = of_nat (skips cfg Ringbuf_full (map snd (history k))),
     sc_too_short = of_nat (skips cfg Too_short (map snd (history k)))\<rparr>"
proof -
  obtain m where "skipped_map (maps k) = Some m" "\<And>r. counter r m = of_nat (skips cfg r (map snd (history k)))"
    using accounting_of_reach [OF assms] by blast
  then show ?thesis unfolding read_skipped_def counters_of_def counter_def by (simp only: option.case)
qed

lemma skips_positive:
  assumes "length cs < 2 ^ 64"
  shows "(of_nat (skips cfg r cs) :: u64) > 0 \<longleftrightarrow> (\<exists>c \<in> set cs. outcome_of cfg c = Skipped r)"
proof -
  have small: "skips cfg r cs < 2 ^ 64" using assms unfolding skips_def by (meson le_less_trans length_filter_le)
  have "(of_nat (skips cfg r cs) :: u64) = 0 \<longleftrightarrow> skips cfg r cs = 0"
    using small by (simp add: word_of_nat_eq_0_iff nat_dvd_not_less) (metis dvd_0_right nat_dvd_not_less neq0_conv)
  then show ?thesis by (auto simp: word_gt_0 skips_def filter_empty_conv)
qed

lemma lines_apart: "lost_line s \<noteq> not_reported_line s'" "lost_line s \<noteq> captured_line n" "not_reported_line s \<noteq> captured_line n"
  by (simp_all add: lost_line_def not_reported_line_def captured_line_def)

lemma any_counts:
  assumes "kreach cfg empty_maps k" "length (history k) < 2 ^ 64"
  shows "skipped_any (read_skipped (maps k)) \<longleftrightarrow> (\<exists>c \<in> snd ` set (history k). \<exists>r. outcome_of cfg c = Skipped r)"
    "skipped_lost (read_skipped (maps k)) \<longleftrightarrow> (\<exists>c \<in> snd ` set (history k). outcome_of cfg c = Skipped Ringbuf_full)"
    "unat (sc_ringbuf_full (read_skipped (maps k))) = skips cfg Ringbuf_full (map snd (history k))"
proof -
  let ?cs = "map snd (history k)"
  have len: "length ?cs < 2 ^ 64" and set: "set ?cs = snd ` set (history k)" using assms(2) by simp_all
  note pos = skips_positive [OF len, of cfg]
  have r: "(\<exists>r. P r) \<longleftrightarrow> P Other_family \<or> P Unreadable \<or> P Ringbuf_full \<or> P Too_short" for P by (metis reason.exhaust)
  show "skipped_any (read_skipped (maps k)) \<longleftrightarrow> (\<exists>c \<in> snd ` set (history k). \<exists>r. outcome_of cfg c = Skipped r)"
    unfolding skipped_any_def read_counts [OF assms(1)] skipped_counts.select_convs pos r set [symmetric] by blast
  show "skipped_lost (read_skipped (maps k)) \<longleftrightarrow> (\<exists>c \<in> snd ` set (history k). outcome_of cfg c = Skipped Ringbuf_full)"
    unfolding skipped_lost_def read_counts [OF assms(1)] skipped_counts.select_convs pos set [symmetric] by blast
  have "skips cfg Ringbuf_full ?cs < 2 ^ 64" using len unfolding skips_def by (meson le_less_trans length_filter_le)
  then show "unat (sc_ringbuf_full (read_skipped (maps k))) = skips cfg Ringbuf_full ?cs"
    by (simp add: read_counts [OF assms(1)] unat_of_nat take_bit_eq_mod)
qed

lemma opening_apart: "opening_line env d \<noteq> not_reported_line s" "opening_line env d \<noteq> lost_line s"
  by (simp_all add: opening_line_def not_reported_line_def lost_line_def)


text \<open>One invocation whose address cannot be read, written to standard output.\<close>

definition sample_capture_cmd :: capture_env_cmd where
  "sample_capture_cmd =
     \<lparr>cv_capture = (\<lambda>_. Inr ([], read_skipped (maps sample_run))), cv_duration_text = (\<lambda>_. ''30s''), cv_create = (\<lambda>_. None),
      cv_encode = (\<lambda>_. None), cv_format = (\<lambda>_. [])\<rparr>"


end
